(* ===== verification/Zaion_Prelude.thy ===== *)
theory Zaion_Prelude
  imports Main "HOL-Library.Word" "HOL-Library.Char_ord" "HOL-Library.List_Lexorder"
begin

text \<open>
  Shared vocabulary of the development: the \<open>Result\<close> plumbing that stands for Rust's \<open>?\<close>
  operator, byte strings with the \<open>str\<close> methods the sources call (\<open>trim\<close>, \<open>strip_prefix\<close>,
  \<open>split\<close>), \<open>BTreeSet\<close> as a strictly sorted list, checked arithmetic, and two interfaces used by
  several components: the collector loop that validates and deduplicates a vector, and the
  induction principle for inductive invariants of a transition system.

  A Rust \<open>String\<close> is its UTF-8 byte sequence, one \<open>char\<close> per byte, so that \<open>length\<close> is
  \<open>str::len\<close>. A \<open>DateTime<Utc>\<close> is the integer number of nanoseconds since the Unix epoch.
\<close>

named_theorems result_simps \<open>unfolding a chain of fallible calls\<close>

type_synonym u8 = "8 word"
type_synonym u64 = "64 word"
type_synonym bytes = string

text \<open>Instants and durations in nanoseconds, and instants truncated to milliseconds.\<close>
type_synonym instant = int
type_synonym duration = int
type_synonym millis = int

definition seconds :: "int \<Rightarrow> duration" where
  "seconds n = n * 1000000000"

definition milliseconds :: "int \<Rightarrow> duration" where
  "milliseconds n = n * 1000000"

text \<open>\<open>DateTime::timestamp_millis\<close>, which rounds towards the past.\<close>

definition timestamp_millis :: "instant \<Rightarrow> millis" where
  "timestamp_millis t = t div 1000000"

subsection \<open>Result\<close>

text \<open>\<open>and_then r f\<close> is \<open>f(r?)\<close>: the first error returns.\<close>

definition and_then :: "'e + 'a \<Rightarrow> ('a \<Rightarrow> 'e + 'b) \<Rightarrow> 'e + 'b" where
  "and_then r f = (case r of Inl e \<Rightarrow> Inl e | Inr x \<Rightarrow> f x)"

text \<open>\<open>ok_or\<close> turns a missing value into an error, \<open>guard\<close> an unmet condition.\<close>

definition ok_or :: "'e \<Rightarrow> 'a option \<Rightarrow> 'e + 'a" where
  "ok_or e x = (case x of None \<Rightarrow> Inl e | Some a \<Rightarrow> Inr a)"

definition guard :: "bool \<Rightarrow> 'e \<Rightarrow> 'e + unit" where
  "guard b e = (if b then Inr () else Inl e)"

definition map_err :: "('e \<Rightarrow> 'f) \<Rightarrow> 'e + 'a \<Rightarrow> 'f + 'a" where
  "map_err g r = (case r of Inl e \<Rightarrow> Inl (g e) | Inr x \<Rightarrow> Inr x)"

definition is_ok :: "'e + 'a \<Rightarrow> bool" where
  "is_ok r = (case r of Inl _ \<Rightarrow> False | Inr _ \<Rightarrow> True)"

lemma and_then_simps [simp]:
  "and_then (Inl e) f = Inl e"
  "and_then (Inr x) f = f x"
  by (simp_all add: and_then_def)

text \<open>Evaluate the first call only; the continuation waits for its value.\<close>

lemma and_then_cong: "r = r' \<Longrightarrow> and_then r f = and_then r' f"
  by simp

lemma and_then_eq_Inr [result_simps]:
  "and_then r f = Inr y \<longleftrightarrow> (\<exists>x. r = Inr x \<and> f x = Inr y)"
  by (cases r) simp_all

lemma and_then_eq_Inl [result_simps]:
  "and_then r f = Inl e \<longleftrightarrow> r = Inl e \<or> (\<exists>x. r = Inr x \<and> f x = Inl e)"
  by (cases r) simp_all

lemma ok_or_simps [simp]:
  "ok_or e None = Inl e"
  "ok_or e (Some a) = Inr a"
  by (simp_all add: ok_or_def)

lemma ok_or_eq_Inr [result_simps]: "ok_or e x = Inr a \<longleftrightarrow> x = Some a"
  by (cases x) simp_all

lemma ok_or_eq_Inl [result_simps]: "ok_or e x = Inl f \<longleftrightarrow> x = None \<and> e = f"
  by (cases x) auto

lemma guard_simps [simp]:
  "guard True e = Inr ()"
  "guard False e = Inl e"
  by (simp_all add: guard_def)

lemma guard_eq_Inr [result_simps]: "guard b e = Inr u \<longleftrightarrow> b"
  by (cases b) simp_all

lemma guard_eq_Inl [result_simps]: "guard b e = Inl f \<longleftrightarrow> \<not> b \<and> e = f"
  by (cases b) auto

lemma map_err_simps [simp]:
  "map_err g (Inl e) = Inl (g e)"
  "map_err g (Inr x) = Inr x"
  by (simp_all add: map_err_def)

lemma map_err_eq_Inr [result_simps]: "map_err g r = Inr x \<longleftrightarrow> r = Inr x"
  by (cases r) simp_all

lemma is_ok_simps [simp]:
  "is_ok (Inl e) = False"
  "is_ok (Inr x) = True"
  by (simp_all add: is_ok_def)

lemma is_ok_iff: "is_ok r \<longleftrightarrow> (\<exists>x. r = Inr x)"
  by (cases r) simp_all

text \<open>\<open>iter().map(f).collect::<Result<Vec<_>, _>>()\<close>: the first error wins.\<close>

fun collect_results :: "('a \<Rightarrow> 'e + 'b) \<Rightarrow> 'a list \<Rightarrow> 'e + 'b list" where
  "collect_results f [] = Inr []"
| "collect_results f (x # xs) =
     and_then (f x) (\<lambda>y. and_then (collect_results f xs) (\<lambda>ys. Inr (y # ys)))"

lemma collect_results_Inr_iff:
  "collect_results f xs = Inr ys \<longleftrightarrow> list_all2 (\<lambda>x y. f x = Inr y) xs ys"
  by (induction xs arbitrary: ys) (auto simp: result_simps list_all2_Cons1)

subsection \<open>Checked machine arithmetic\<close>

definition u64_max :: nat where
  "u64_max = 2 ^ 64 - 1"

definition i64_max :: int where
  "i64_max = 2 ^ 63 - 1"

definition i64_min :: int where
  "i64_min = - (2 ^ 63)"

text \<open>\<open>u64::checked_add\<close>.\<close>

definition checked_add_u64 :: "u64 \<Rightarrow> u64 \<Rightarrow> u64 option" where
  "checked_add_u64 a b = (if unat a + unat b < 2 ^ 64 then Some (a + b) else None)"

lemma checked_add_u64_code [code]: "checked_add_u64 a b = (if uint a + uint b < 2 ^ 64 then Some (a + b) else None)"
proof -
  have "unat a + unat b < 2 ^ 64 \<longleftrightarrow> uint a + uint b < 2 ^ 64"
    using of_nat_less_iff [where 'a = int, of "unat a + unat b" "2 ^ 64"] by simp
  then show ?thesis
    by (simp add: checked_add_u64_def)
qed

lemma unat_less_u64: "unat a < 2 ^ 64"
  for a :: u64
proof -
  have "unat a < 2 ^ LENGTH(64)"
    by (rule unsigned_less)
  then show ?thesis by simp
qed

lemma checked_add_u64_Some:
  "checked_add_u64 a b = Some c \<longleftrightarrow> unat c = unat a + unat b"
proof
  assume "checked_add_u64 a b = Some c"
  then show "unat c = unat a + unat b"
    by (auto simp: checked_add_u64_def unat_word_ariths split: if_splits)
next
  assume c: "unat c = unat a + unat b"
  have bound: "unat a + unat b < 2 ^ 64"
    using c unat_less_u64 [of c] by simp
  then have "unat (a + b) = unat c"
    using c by (simp add: unat_word_ariths)
  then have "a + b = c"
    by (rule word_unat_eq_iff [THEN iffD2])
  with bound show "checked_add_u64 a b = Some c"
    by (simp add: checked_add_u64_def)
qed

text \<open>\<open>i64::checked_add(1)\<close> and \<open>i64::try_from(u64)\<close> on values read as integers.\<close>

definition checked_succ_i64 :: "int \<Rightarrow> int option" where
  "checked_succ_i64 n = (if n < i64_max then Some (n + 1) else None)"

definition i64_of_u64 :: "u64 \<Rightarrow> int option" where
  "i64_of_u64 n = (if uint n \<le> i64_max then Some (uint n) else None)"

definition u64_of_i64 :: "int \<Rightarrow> u64 option" where
  "u64_of_i64 n = (if 0 \<le> n then Some (word_of_int n) else None)"

lemma u64_of_i64_of_u64: "i64_of_u64 n = Some k \<Longrightarrow> u64_of_i64 k = Some n"
  by (auto simp: i64_of_u64_def u64_of_i64_def split: if_splits)

subsection \<open>Bytes and strings\<close>

definition byte_in :: "nat \<Rightarrow> nat \<Rightarrow> char \<Rightarrow> bool" where
  "byte_in lo hi c = (lo \<le> of_char c \<and> of_char c \<le> hi)"

definition is_ascii_digit :: "char \<Rightarrow> bool" where
  "is_ascii_digit = byte_in 48 57"

definition is_ascii_lowercase :: "char \<Rightarrow> bool" where
  "is_ascii_lowercase = byte_in 97 122"

definition is_ascii_uppercase :: "char \<Rightarrow> bool" where
  "is_ascii_uppercase = byte_in 65 90"

definition is_ascii_alphabetic :: "char \<Rightarrow> bool" where
  "is_ascii_alphabetic c = (is_ascii_lowercase c \<or> is_ascii_uppercase c)"

definition is_ascii_alphanumeric :: "char \<Rightarrow> bool" where
  "is_ascii_alphanumeric c = (is_ascii_alphabetic c \<or> is_ascii_digit c)"

definition is_ascii_graphic :: "char \<Rightarrow> bool" where
  "is_ascii_graphic = byte_in 33 126"

definition to_ascii_lowercase :: "string \<Rightarrow> string" where
  "to_ascii_lowercase =
     map (\<lambda>c. if is_ascii_uppercase c then char_of (of_char c + 32 :: nat) else c)"

lemmas byte_class_defs =
  byte_in_def is_ascii_digit_def is_ascii_lowercase_def is_ascii_uppercase_def
  is_ascii_alphabetic_def is_ascii_alphanumeric_def is_ascii_graphic_def

lemma alphanumeric_graphic: "is_ascii_alphanumeric c \<Longrightarrow> is_ascii_graphic c"
  by (auto simp: byte_class_defs)

text \<open>\<open>str::strip_prefix\<close>, and its mirror image at the end of a string.\<close>

definition strip_prefix :: "string \<Rightarrow> string \<Rightarrow> string option" where
  "strip_prefix p s = (if take (length p) s = p then Some (drop (length p) s) else None)"

definition strip_suffix :: "string \<Rightarrow> string \<Rightarrow> string option" where
  "strip_suffix p s = map_option rev (strip_prefix (rev p) (rev s))"

lemma strip_prefix_Some: "strip_prefix p s = Some r \<longleftrightarrow> s = p @ r"
  by (auto simp: strip_prefix_def) (metis append_take_drop_id)

lemma strip_prefix_append: "strip_prefix p (p @ r) = Some r"
  by (simp add: strip_prefix_Some)

lemma strip_suffix_Some: "strip_suffix p s = Some r \<longleftrightarrow> s = r @ p"
  by (auto simp: strip_suffix_def strip_prefix_Some) (metis rev_append rev_rev_ident)

text \<open>
  The UTF-8 encodings of the code points with the Unicode property \<open>White_Space\<close>, which is what
  \<open>str::trim\<close> removes at both ends. On valid UTF-8 a match of one of these byte sequences is a
  match of the character, since no encoding is a proper prefix or suffix of another one.
\<close>

definition white_space :: "string list" where
  "white_space =
     map (map char_of)
      ([[9], [10], [11], [12], [13], [32], [194, 133], [194, 160], [225, 154, 128]] @
       map (\<lambda>b. [226, 128, b])
         [128, 129, 130, 131, 132, 133, 134, 135, 136, 137, 138, 168, 169, 175] @
       [[226, 129, 159], [227, 128, 128 :: nat]])"

fun first_some :: "('a \<Rightarrow> 'b option) \<Rightarrow> 'a list \<Rightarrow> 'b option" where
  "first_some f [] = None"
| "first_some f (x # xs) = (case f x of None \<Rightarrow> first_some f xs | Some y \<Rightarrow> Some y)"

lemma first_some_Some: "first_some f xs = Some y \<Longrightarrow> \<exists>x \<in> set xs. f x = Some y"
  by (induction xs) (auto split: option.splits)

lemma first_some_None: "first_some f xs = None \<longleftrightarrow> (\<forall>x \<in> set xs. f x = None)"
  by (induction xs) (auto split: option.splits)

lemma white_space_nonempty: "w \<in> set white_space \<Longrightarrow> 0 < length w"
  by (auto simp: white_space_def)

function trim_start :: "string \<Rightarrow> string" where
  "trim_start s =
     (case first_some (\<lambda>w. strip_prefix w s) white_space of
        None \<Rightarrow> s
      | Some r \<Rightarrow> trim_start r)"
  by pat_completeness auto
termination
  by (relation "measure length")
    (auto dest!: first_some_Some white_space_nonempty simp: strip_prefix_Some)

function trim_end :: "string \<Rightarrow> string" where
  "trim_end s =
     (case first_some (\<lambda>w. strip_suffix w s) white_space of
        None \<Rightarrow> s
      | Some r \<Rightarrow> trim_end r)"
  by pat_completeness auto
termination
  by (relation "measure length")
    (auto dest!: first_some_Some white_space_nonempty simp: strip_suffix_Some)

declare trim_start.simps [simp del] trim_end.simps [simp del]

definition trim :: "string \<Rightarrow> string" where
  "trim s = trim_end (trim_start s)"

lemma white_space_not_graphic:
  "w \<in> set white_space \<Longrightarrow> \<exists>c \<in> set w. \<not> is_ascii_graphic c"
proof -
  have "list_all (list_ex (\<lambda>c. \<not> is_ascii_graphic c)) white_space"
    by (simp add: white_space_def byte_class_defs)
  then show "w \<in> set white_space \<Longrightarrow> \<exists>c \<in> set w. \<not> is_ascii_graphic c"
    by (auto simp: list_all_iff list_ex_iff)
qed

text \<open>A string of visible ASCII characters is its own trimming.\<close>

lemma trim_graphic:
  assumes "list_all is_ascii_graphic s"
  shows "trim s = s"
proof -
  have no_ws: "s = a @ w @ b \<Longrightarrow> w \<notin> set white_space" for a w b
    using assms white_space_not_graphic [of w] by (auto simp: list_all_iff)
  have "first_some (\<lambda>w. strip_prefix w s) white_space = None"
    unfolding first_some_None using no_ws [of "[]"] by (metis append_Nil not_None_eq strip_prefix_Some)
  moreover have "first_some (\<lambda>w. strip_suffix w s) white_space = None"
    unfolding first_some_None using no_ws [of _ _ "[]"] by (metis append_Nil2 not_None_eq strip_suffix_Some)
  ultimately show ?thesis
    by (simp add: trim_def trim_start.simps [of s] trim_end.simps [of s])
qed

text \<open>A string is trimmed exactly when no white space encoding starts or ends it.\<close>

definition no_outer_space :: "string \<Rightarrow> bool" where
  "no_outer_space s = (\<forall>w \<in> set white_space. strip_prefix w s = None \<and> strip_suffix w s = None)"

lemma trim_start_length: "length (trim_start s) \<le> length s"
proof (induction s rule: trim_start.induct)
  case (1 s)
  show ?case
  proof (cases "first_some (\<lambda>w. strip_prefix w s) white_space")
    case None
    then show ?thesis by (simp add: trim_start.simps [of s])
  next
    case (Some r)
    then have "length r \<le> length s"
      by (auto dest!: first_some_Some simp: strip_prefix_Some)
    then show ?thesis
      using 1 [OF Some] Some by (simp add: trim_start.simps [of s])
  qed
qed

lemma trim_end_length: "length (trim_end s) \<le> length s"
proof (induction s rule: trim_end.induct)
  case (1 s)
  show ?case
  proof (cases "first_some (\<lambda>w. strip_suffix w s) white_space")
    case None
    then show ?thesis by (simp add: trim_end.simps [of s])
  next
    case (Some r)
    then have "length r \<le> length s"
      by (auto dest!: first_some_Some simp: strip_suffix_Some)
    then show ?thesis
      using 1 [OF Some] Some by (simp add: trim_end.simps [of s])
  qed
qed

lemma trim_start_fixed: "length (trim_start s) = length s \<Longrightarrow> first_some (\<lambda>w. strip_prefix w s) white_space = None"
proof (rule ccontr)
  assume len: "length (trim_start s) = length s"
  assume "first_some (\<lambda>w. strip_prefix w s) white_space \<noteq> None"
  then obtain r where r: "first_some (\<lambda>w. strip_prefix w s) white_space = Some r" by blast
  then have "length r < length s"
    by (auto dest!: first_some_Some white_space_nonempty simp: strip_prefix_Some)
  moreover have "trim_start s = trim_start r"
    using r by (subst trim_start.simps) simp
  ultimately show False
    using len trim_start_length [of r] by simp
qed

lemma trim_end_fixed: "length (trim_end s) = length s \<Longrightarrow> first_some (\<lambda>w. strip_suffix w s) white_space = None"
proof (rule ccontr)
  assume len: "length (trim_end s) = length s"
  assume "first_some (\<lambda>w. strip_suffix w s) white_space \<noteq> None"
  then obtain r where r: "first_some (\<lambda>w. strip_suffix w s) white_space = Some r" by blast
  then have "length r < length s"
    by (auto dest!: first_some_Some white_space_nonempty simp: strip_suffix_Some)
  moreover have "trim_end s = trim_end r"
    using r by (subst trim_end.simps) simp
  ultimately show False
    using len trim_end_length [of r] by simp
qed

lemma trim_fixed_iff: "trim s = s \<longleftrightarrow> no_outer_space s"
proof
  assume s: "trim s = s"
  then have start: "length (trim_start s) = length s"
    using trim_end_length [of "trim_start s"] trim_start_length [of s] by (simp add: trim_def)
  from trim_start_fixed [OF this] have eq: "trim_start s = s"
    by (simp add: trim_start.simps [of s])
  then have "length (trim_end s) = length s"
    using s by (simp add: trim_def)
  from trim_end_fixed [OF this] trim_start_fixed [OF start] show "no_outer_space s"
    by (simp add: no_outer_space_def first_some_None)
next
  assume "no_outer_space s"
  then have "first_some (\<lambda>w. strip_prefix w s) white_space = None"
    and "first_some (\<lambda>w. strip_suffix w s) white_space = None"
    by (simp_all add: no_outer_space_def first_some_None)
  then show "trim s = s"
    by (simp add: trim_def trim_start.simps [of s] trim_end.simps [of s])
qed

lemma no_outer_space_graphic: "list_all is_ascii_graphic s \<Longrightarrow> no_outer_space s"
  by (simp add: trim_graphic flip: trim_fixed_iff)

text \<open>
  The canonical tokens of the sources: between \<open>lo\<close> and \<open>hi\<close> bytes, each alphanumeric or one of a
  set of punctuation marks. Such a token is trimmed, so the explicit test \<open>trim() == value\<close> of the
  validators is implied by their character test.
\<close>

definition ascii_token :: "string \<Rightarrow> nat \<Rightarrow> nat \<Rightarrow> string \<Rightarrow> bool" where
  "ascii_token punct lo hi s =
     (lo \<le> length s \<and> length s \<le> hi \<and> (\<forall>c \<in> set s. is_ascii_alphanumeric c \<or> c \<in> set punct))"

lemma trim_ascii_token:
  assumes "ascii_token punct lo hi s" and "\<forall>c \<in> set punct. is_ascii_graphic c"
  shows "trim s = s"
  by (rule trim_graphic) (use assms alphanumeric_graphic in \<open>auto simp: ascii_token_def list_all_iff\<close>)

lemma punctuation_graphic:
  "is_ascii_graphic CHR ''.''" "is_ascii_graphic CHR ''_''" "is_ascii_graphic CHR '':''"
  "is_ascii_graphic CHR ''-''" "is_ascii_graphic CHR ''@''"
  by (simp_all add: byte_class_defs)

text \<open>\<open>str::contains\<close>.\<close>

definition str_contains :: "string \<Rightarrow> string \<Rightarrow> bool" where
  "str_contains p s = list_ex (\<lambda>i. strip_prefix p (drop i s) \<noteq> None) [0..<length s + 1]"

lemma str_contains_iff: "str_contains p s \<longleftrightarrow> (\<exists>a b. s = a @ p @ b)"
proof
  assume "str_contains p s"
  then obtain i r where "strip_prefix p (drop i s) = Some r"
    unfolding str_contains_def list_ex_iff by blast
  then have "s = take i s @ p @ r"
    by (metis append_take_drop_id strip_prefix_Some)
  then show "\<exists>a b. s = a @ p @ b" by blast
next
  assume "\<exists>a b. s = a @ p @ b"
  then obtain a b where s: "s = a @ p @ b" by blast
  then have "strip_prefix p (drop (length a) s) = Some b"
    by (simp add: strip_prefix_append)
  moreover have "length a \<in> set [0..<length s + 1]"
    using s by auto
  ultimately show "str_contains p s"
    unfolding str_contains_def list_ex_iff by (metis option.distinct(1))
qed

text \<open>\<open>str::split(c)\<close> and \<open>join\<close>.\<close>

fun split_on :: "char \<Rightarrow> string \<Rightarrow> string list" where
  "split_on c [] = [[]]"
| "split_on c (x # xs) =
     (if x = c then [] # split_on c xs
      else (case split_on c xs of [] \<Rightarrow> [[x]] | p # ps \<Rightarrow> (x # p) # ps))"

fun join_on :: "char \<Rightarrow> string list \<Rightarrow> string" where
  "join_on c [] = []"
| "join_on c [p] = p"
| "join_on c (p # q # ps) = p @ c # join_on c (q # ps)"

lemma split_on_nonempty [simp]: "split_on c s \<noteq> []"
  by (cases s) (auto split: list.splits)

lemma join_split [simp]: "join_on c (split_on c s) = s"
proof (induction s)
  case (Cons x xs)
  then show ?case
    by (cases "split_on c xs"; cases "tl (split_on c xs)") auto
qed simp

lemma split_on_parts: "p \<in> set (split_on c s) \<Longrightarrow> c \<notin> set p"
  by (induction s arbitrary: p) (auto split: list.splits if_splits)

lemma split_on_piece: "c \<notin> set p \<Longrightarrow> split_on c p = [p]"
  by (induction p) auto

lemma split_on_append: "split_on c (p @ c # s) = split_on c p @ split_on c s"
proof (induction p)
  case (Cons x xs)
  then show ?case
    by (cases "split_on c xs") auto
qed simp

lemma join_on_append: "ps \<noteq> [] \<Longrightarrow> qs \<noteq> [] \<Longrightarrow> join_on c (ps @ qs) = join_on c ps @ c # join_on c qs"
proof (induction c ps rule: join_on.induct)
  case (2 c p)
  then show ?case by (cases qs) auto
qed auto

lemma split_join:
  "ps \<noteq> [] \<Longrightarrow> (\<forall>p \<in> set ps. c \<notin> set p) \<Longrightarrow> split_on c (join_on c ps) = ps"
  by (induction c ps rule: join_on.induct) (simp_all add: split_on_piece split_on_append)

text \<open>Decimal printing of an unsigned integer.\<close>

fun show_nat :: "nat \<Rightarrow> string" where
  "show_nat n = (if n < 10 then [char_of (n + 48)] else show_nat (n div 10) @ [char_of (n mod 10 + 48)])"

declare show_nat.simps [simp del]

definition show_int :: "int \<Rightarrow> string" where
  "show_int n = (if n < 0 then CHR ''-'' # show_nat (nat (- n)) else show_nat (nat n))"

text \<open>\<open>to_le_bytes\<close> of a 64-bit integer, signed or not.\<close>

definition le_bytes_64 :: "int \<Rightarrow> bytes" where
  "le_bytes_64 n = map (\<lambda>i. char_of (nat (n mod 2 ^ 64 div 256 ^ i mod 256))) [0..<8]"

subsection \<open>BTreeSet\<close>

text \<open>
  A \<open>BTreeSet\<close> is the strictly increasing list of its elements, the order in which the code
  iterates over it. \<open>bt_insert\<close> is the set after \<open>insert\<close>, whose boolean result is
  \<open>\<not> bt_contains\<close>.
\<close>

type_synonym 'a btree_set = "'a list"

definition bt_contains :: "'a btree_set \<Rightarrow> 'a \<Rightarrow> bool" where
  "bt_contains s x = List.member s x"

definition bt_insert :: "'a::linorder \<Rightarrow> 'a btree_set \<Rightarrow> 'a btree_set" where
  "bt_insert x s = (if bt_contains s x then s else insort x s)"

definition bt_wf :: "'a::linorder btree_set \<Rightarrow> bool" where
  "bt_wf s = (sorted s \<and> distinct s)"

definition bt_from_list :: "'a::linorder list \<Rightarrow> 'a btree_set" where
  "bt_from_list xs = fold bt_insert xs []"

lemma bt_contains_iff [simp]: "bt_contains s x \<longleftrightarrow> x \<in> set s"
  by (simp add: bt_contains_def)

lemma bt_insert_set [simp]: "set (bt_insert x s) = insert x (set s)"
  by (auto simp: bt_insert_def set_insort_key)

lemma bt_insert_wf [simp]: "bt_wf s \<Longrightarrow> bt_wf (bt_insert x s)"
  by (auto simp: bt_insert_def bt_wf_def sorted_insort distinct_insort)

lemma bt_wf_Nil [simp]: "bt_wf []"
  by (simp add: bt_wf_def)

lemma bt_from_list_aux:
  "bt_wf s \<Longrightarrow> set (fold bt_insert xs s) = set xs \<union> set s \<and> bt_wf (fold bt_insert xs s)"
  by (induction xs arbitrary: s) auto

lemma bt_from_list_set [simp]: "set (bt_from_list xs) = set xs"
  by (simp add: bt_from_list_def bt_from_list_aux)

lemma bt_from_list_wf [simp]: "bt_wf (bt_from_list xs)"
  by (simp add: bt_from_list_def bt_from_list_aux)

text \<open>A well-formed set is determined by its elements.\<close>

lemma bt_wf_unique: "bt_wf s \<Longrightarrow> bt_wf t \<Longrightarrow> set s = set t \<Longrightarrow> s = t"
  by (auto simp: bt_wf_def intro: sorted_distinct_set_unique)

subsection \<open>The validate-and-deduplicate loop\<close>

text \<open>
  Eight functions of the sources share one loop: each element of a vector is validated, then
  inserted into a \<open>BTreeSet\<close>, an invalid or a repeated element being an error that names it. The
  interface has the loop as a function of the set built so far and the rest of the vector, with
  the two equations that make it that loop; its clients learn exactly when it returns which set
  and which error.
\<close>

locale unique_collector =
  fixes run :: "'a::linorder btree_set \<Rightarrow> 'a list \<Rightarrow> 'e + 'a btree_set"
    and valid :: "'a \<Rightarrow> bool"
    and bad :: "'a \<Rightarrow> 'e"
    and dup :: "'a \<Rightarrow> 'e"
  assumes run_Nil: "run s [] = Inr s"
    and run_Cons: "run s (x # xs) =
      (if \<not> valid x then Inl (bad x)
       else if bt_contains s x then Inl (dup x)
       else run (bt_insert x s) xs)"
begin

lemma run_from:
  "run s xs = Inr t \<longleftrightarrow>
     list_all valid xs \<and> distinct xs \<and> set xs \<inter> set s = {} \<and> t = fold bt_insert xs s"
  by (induction xs arbitrary: s) (auto simp: run_Nil run_Cons)

lemma run_ok:
  "run [] xs = Inr t \<longleftrightarrow> list_all valid xs \<and> distinct xs \<and> t = bt_from_list xs"
  by (simp add: run_from bt_from_list_def)

lemma run_result:
  assumes "run [] xs = Inr t"
  shows "set t = set xs" and "bt_wf t" and "\<forall>x \<in> set t. valid x" and "length t = length xs"
proof -
  have r: "list_all valid xs" "distinct xs" "t = bt_from_list xs"
    using assms by (simp_all add: run_ok)
  then show t: "set t = set xs" and wf: "bt_wf t"
    by simp_all
  show "\<forall>x \<in> set t. valid x"
    using r(1) t by (simp add: list_all_iff)
  show "length t = length xs"
    using t wf r(2) by (metis bt_wf_def distinct_card)
qed

lemma run_prefix:
  "list_all valid ys \<Longrightarrow> distinct ys \<Longrightarrow> set ys \<inter> set s = {} \<Longrightarrow>
     run s (ys @ zs) = run (fold bt_insert ys s) zs"
  by (induction ys arbitrary: s) (auto simp: run_Cons)

lemma fold_bt_insert_set: "set (fold bt_insert ys s) = set ys \<union> set s"
  for s :: "'a btree_set"
  by (induction ys arbitrary: s) auto

lemma run_fails_at:
  "run s xs = Inl e \<Longrightarrow>
     \<exists>ys x zs. xs = ys @ x # zs \<and> list_all valid ys \<and> distinct ys \<and> set ys \<inter> set s = {} \<and>
       (\<not> valid x \<and> e = bad x \<or> valid x \<and> x \<in> set ys \<union> set s \<and> e = dup x)"
proof (induction xs arbitrary: s)
  case Nil
  then show ?case by (simp add: run_Nil)
next
  case (Cons a as)
  show ?case
  proof (cases "valid a \<and> a \<notin> set s")
    case True
    then have "run (bt_insert a s) as = Inl e"
      using Cons.prems by (simp add: run_Cons)
    from Cons.IH [OF this] obtain ys x zs where
      "as = ys @ x # zs" "list_all valid ys" "distinct ys" "set ys \<inter> set (bt_insert a s) = {}"
      "\<not> valid x \<and> e = bad x \<or> valid x \<and> x \<in> set ys \<union> set (bt_insert a s) \<and> e = dup x"
      by blast
    then show ?thesis
      using True by (intro exI [of _ "a # ys"] exI [of _ x] exI [of _ zs]) auto
  next
    case False
    then show ?thesis
      using Cons.prems by (intro exI [of _ "[]"] exI [of _ a] exI [of _ as]) (auto simp: run_Cons split: if_splits)
  qed
qed

lemma run_fails:
  "run [] xs = Inl e \<longleftrightarrow>
     (\<exists>ys x zs. xs = ys @ x # zs \<and> list_all valid ys \<and> distinct ys \<and>
       (\<not> valid x \<and> e = bad x \<or> valid x \<and> x \<in> set ys \<and> e = dup x))"
  using run_fails_at [of "[]" xs e]
  by (auto simp: run_prefix run_Cons fold_bt_insert_set)

end

subsection \<open>Reachable states and inductive invariants\<close>

inductive reaches :: "('s \<Rightarrow> bool) \<Rightarrow> ('s \<Rightarrow> 's \<Rightarrow> bool) \<Rightarrow> 's \<Rightarrow> bool"
  for init :: "'s \<Rightarrow> bool" and step :: "'s \<Rightarrow> 's \<Rightarrow> bool" where
  start: "init s \<Longrightarrow> reaches init step s"
| step: "reaches init step s \<Longrightarrow> step s t \<Longrightarrow> reaches init step t"

text \<open>
  The contract of a component whose operations keep an invariant: it holds initially and every
  step from a state that has it leads to a state that has it. A measure that no step decreases
  gives monotonicity along every run.
\<close>

locale inductive_invariant =
  fixes init :: "'s \<Rightarrow> bool"
    and step :: "'s \<Rightarrow> 's \<Rightarrow> bool"
    and inv :: "'s \<Rightarrow> bool"
  assumes init_inv: "init s \<Longrightarrow> inv s"
    and step_inv: "inv s \<Longrightarrow> step s t \<Longrightarrow> inv t"
begin

lemma reachable_inv: "reaches init step s \<Longrightarrow> inv s"
  by (induction rule: reaches.induct) (auto intro: init_inv step_inv)

lemma run_inv: "step\<^sup>*\<^sup>* s t \<Longrightarrow> inv s \<Longrightarrow> inv t"
  by (induction rule: rtranclp_induct) (auto intro: step_inv)

end

lemma reaches_rtranclp: "reaches init step s \<Longrightarrow> step\<^sup>*\<^sup>* s t \<Longrightarrow> reaches init step t"
  by (rotate_tac 1, induction rule: rtranclp_induct) (auto intro: reaches.step)

end
