(* ===== verification/Tool_Broker.thy ===== *)
theory Tool_Broker
  imports Zaion_Prelude
begin

text \<open>
  \<open>crates/zaion-runtime/src/tool_broker.rs\<close>: tool manifests, invocations, approval grants and
  authorizations with their validating constructors, and the policy broker that decides whether an
  invocation may run. The lemmas characterise what each constructor accepts, show that a decision
  is \<open>Allow\<close> exactly when every grant is present (and which denial is reported otherwise), and that
  an allowed path lies, segment by segment, below a root that the manifest declares and the
  authorization grants.
\<close>

subsection \<open>Manifests\<close>

definition MAX_APPROVAL_TTL_SECONDS :: int where
  "MAX_APPROVAL_TTL_SECONDS = 15 * 60"

datatype tool_effect = EffPure | EffRead | EffWrite | EffExecute | EffNetwork

fun requires_explicit_grant :: "tool_effect \<Rightarrow> bool" where
  "requires_explicit_grant EffWrite = True"
| "requires_explicit_grant EffExecute = True"
| "requires_explicit_grant EffNetwork = True"
| "requires_explicit_grant _ = False"

text \<open>The derived order of the enumeration, by which a \<open>BTreeSet\<close> of effects is sorted.\<close>

fun effect_rank :: "tool_effect \<Rightarrow> nat" where
  "effect_rank EffPure = 0"
| "effect_rank EffRead = 1"
| "effect_rank EffWrite = 2"
| "effect_rank EffExecute = 3"
| "effect_rank EffNetwork = 4"

lemma effect_rank_inject: "effect_rank a = effect_rank b \<Longrightarrow> a = b"
  by (cases a; cases b) simp_all

instantiation tool_effect :: linorder
begin

definition less_eq_tool_effect :: "tool_effect \<Rightarrow> tool_effect \<Rightarrow> bool" where
  "less_eq_tool_effect a b = (effect_rank a \<le> effect_rank b)"

definition less_tool_effect :: "tool_effect \<Rightarrow> tool_effect \<Rightarrow> bool" where
  "less_tool_effect a b = (effect_rank a < effect_rank b)"

instance
  by standard (auto simp: less_eq_tool_effect_def less_tool_effect_def intro: effect_rank_inject)

end

datatype tool_risk = RiskLow | RiskModerate | RiskHigh | RiskCritical

fun requires_approval :: "tool_risk \<Rightarrow> bool" where
  "requires_approval RiskHigh = True"
| "requires_approval RiskCritical = True"
| "requires_approval _ = False"

datatype tool_approval_requirement = NotRequired | Required

datatype tool_idempotency = Idempotent | KeyRequired | NonIdempotent

datatype filesystem_policy =
  FsDenied
  | FsReadOnly "string btree_set"
  | FsReadWrite "string btree_set"

fun fs_roots :: "filesystem_policy \<Rightarrow> string btree_set option" where
  "fs_roots FsDenied = None"
| "fs_roots (FsReadOnly roots) = Some roots"
| "fs_roots (FsReadWrite roots) = Some roots"

datatype network_policy = NetDenied | AllowHosts "string btree_set"

fun net_hosts :: "network_policy \<Rightarrow> string btree_set option" where
  "net_hosts NetDenied = None"
| "net_hosts (AllowHosts hosts) = Some hosts"

datatype environment_policy = EnvDenied | AllowRead "string btree_set"

fun env_variables :: "environment_policy \<Rightarrow> string btree_set option" where
  "env_variables EnvDenied = None"
| "env_variables (AllowRead variables) = Some variables"

record tool_manifest_input =
  tmi_name :: string
  tmi_version :: string
  tmi_effect :: tool_effect
  tmi_risk :: tool_risk
  tmi_required_scopes :: "string list"
  tmi_approval :: tool_approval_requirement
  tmi_idempotency :: tool_idempotency
  tmi_filesystem :: filesystem_policy
  tmi_network :: network_policy
  tmi_environment :: environment_policy

record tool_manifest =
  tm_name :: string
  tm_version :: string
  tm_effect :: tool_effect
  tm_risk :: tool_risk
  tm_required_scopes :: "string btree_set"
  tm_approval :: tool_approval_requirement
  tm_idempotency :: tool_idempotency
  tm_filesystem :: filesystem_policy
  tm_network :: network_policy
  tm_environment :: environment_policy

datatype tool_manifest_error =
  ManifestInvalidField string
  | ManifestMissingScopes
  | ManifestInvalidScope string
  | ManifestDuplicateScope string
  | InvalidFilesystemPolicy
  | InvalidNetworkPolicy
  | InvalidEnvironmentPolicy
  | PureToolDeclaresResources
  | NetworkEffectWithoutHosts
  | ApprovalRequiredByRisk

datatype tool_authorization_error =
  AuthInvalidField string
  | AuthInvalidScope string
  | DuplicateValue string
  | InvalidPath string
  | InvalidHost string
  | InvalidEnvironmentVariable string
  | AuthInvalidIdempotencyKey
  | InvalidInvocationHash
  | InvalidApprovalWindow

definition is_token :: "string \<Rightarrow> nat \<Rightarrow> bool" where
  "is_token value max_len =
     (value \<noteq> [] \<and> length value \<le> max_len \<and> trim value = value \<and>
      list_all (\<lambda>byte. is_ascii_alphanumeric byte \<or> List.member ''._:-@'' byte) value)"

definition validate_token :: "string \<Rightarrow> string \<Rightarrow> nat \<Rightarrow> tool_manifest_error + unit" where
  "validate_token field value max_len =
     (if is_token value max_len then Inr () else Inl (ManifestInvalidField field))"

definition validate_token_authorization ::
  "string \<Rightarrow> string \<Rightarrow> nat \<Rightarrow> tool_authorization_error + unit" where
  "validate_token_authorization field value max_len =
     (if is_token value max_len then Inr () else Inl (AuthInvalidField field))"

definition is_scope :: "string \<Rightarrow> bool" where
  "is_scope value =
     (value \<noteq> [] \<and> length value \<le> 128 \<and> trim value = value \<and>
      list_all (\<lambda>byte. is_ascii_alphanumeric byte \<or> List.member ''._:-'' byte) value)"

fun unique_scopes_loop :: "string btree_set \<Rightarrow> string list \<Rightarrow> tool_manifest_error + string btree_set" where
  "unique_scopes_loop validated [] = Inr validated"
| "unique_scopes_loop validated (scope # scopes) =
     (if \<not> is_scope scope then Inl (ManifestInvalidScope scope)
      else if bt_contains validated scope then Inl (ManifestDuplicateScope scope)
      else unique_scopes_loop (bt_insert scope validated) scopes)"

definition validate_unique_scopes :: "string list \<Rightarrow> tool_manifest_error + string btree_set" where
  "validate_unique_scopes scopes =
     (if scopes = [] then Inl ManifestMissingScopes else unique_scopes_loop [] scopes)"

fun authorization_scopes_loop ::
  "string btree_set \<Rightarrow> string list \<Rightarrow> tool_authorization_error + string btree_set" where
  "authorization_scopes_loop validated [] = Inr validated"
| "authorization_scopes_loop validated (scope # scopes) =
     (if \<not> is_scope scope then Inl (AuthInvalidScope scope)
      else if bt_contains validated scope then Inl (DuplicateValue scope)
      else authorization_scopes_loop (bt_insert scope validated) scopes)"

definition validate_authorization_scopes ::
  "string list \<Rightarrow> tool_authorization_error + string btree_set" where
  "validate_authorization_scopes scopes = authorization_scopes_loop [] scopes"

definition canonical_relative_path :: "string \<Rightarrow> string option" where
  "canonical_relative_path value =
     (if value = [] \<or> length value > 1024 \<or> trim value \<noteq> value then None
      else
        let value = map (\<lambda>c. if c = CHR 0x5C then CHR ''/'' else c) value
        in if value = ''.'' then Some value
           else if strip_prefix ''/'' value \<noteq> None \<or> strip_suffix ''/'' value \<noteq> None \<or>
             str_contains ''//'' value then None
           else
             let parts = split_on CHR ''/'' value
             in if list_ex (\<lambda>part. part = [] \<or> part = ''.'' \<or> part = ''..'' \<or>
                     List.member part CHR '':'') parts then None
                else Some (join_on CHR ''/'' parts))"

definition is_host :: "string \<Rightarrow> bool" where
  "is_host host =
     (host \<noteq> [] \<and> length host \<le> 253 \<and> trim host = host \<and> host = to_ascii_lowercase host \<and>
      list_all (\<lambda>byte. is_ascii_alphanumeric byte \<or> List.member ''.-:'' byte) host)"

definition is_environment_variable :: "string \<Rightarrow> bool" where
  "is_environment_variable variable =
     (if variable = [] \<or> length variable > 128 then False
      else (case variable of
          [] \<Rightarrow> False
        | first # bytes \<Rightarrow>
            (first = CHR ''_'' \<or> is_ascii_alphabetic first) \<and>
            list_all (\<lambda>byte. byte = CHR ''_'' \<or> is_ascii_alphanumeric byte) bytes))"

definition validate_filesystem_policy :: "filesystem_policy \<Rightarrow> tool_manifest_error + unit" where
  "validate_filesystem_policy policy =
     (case fs_roots policy of
        None \<Rightarrow> Inr ()
      | Some roots \<Rightarrow>
          if roots \<noteq> [] \<and> list_all (\<lambda>root. canonical_relative_path root = Some root) roots
          then Inr () else Inl InvalidFilesystemPolicy)"

definition validate_network_policy :: "network_policy \<Rightarrow> tool_manifest_error + unit" where
  "validate_network_policy policy =
     (case policy of
        NetDenied \<Rightarrow> Inr ()
      | AllowHosts hosts \<Rightarrow>
          if hosts \<noteq> [] \<and> list_all is_host hosts then Inr () else Inl InvalidNetworkPolicy)"

definition validate_environment_policy :: "environment_policy \<Rightarrow> tool_manifest_error + unit" where
  "validate_environment_policy policy =
     (case policy of
        EnvDenied \<Rightarrow> Inr ()
      | AllowRead variables \<Rightarrow>
          if variables \<noteq> [] \<and> list_all is_environment_variable variables
          then Inr () else Inl InvalidEnvironmentPolicy)"

definition new_manifest :: "tool_manifest_input \<Rightarrow> tool_manifest_error + tool_manifest" where
  "new_manifest input =
     and_then (validate_token ''name'' (tmi_name input) 128) (\<lambda>_.
     and_then (validate_token ''version'' (tmi_version input) 64) (\<lambda>_.
     and_then (validate_unique_scopes (tmi_required_scopes input)) (\<lambda>required_scopes.
     and_then (validate_filesystem_policy (tmi_filesystem input)) (\<lambda>_.
     and_then (validate_network_policy (tmi_network input)) (\<lambda>_.
     and_then (validate_environment_policy (tmi_environment input)) (\<lambda>_.
     if tmi_effect input = EffPure \<and>
        (tmi_filesystem input \<noteq> FsDenied \<or> tmi_network input \<noteq> NetDenied \<or>
         tmi_environment input \<noteq> EnvDenied)
     then Inl PureToolDeclaresResources
     else if tmi_effect input = EffNetwork \<and> tmi_network input = NetDenied
     then Inl NetworkEffectWithoutHosts
     else if (requires_approval (tmi_risk input) \<or> tmi_idempotency input = NonIdempotent) \<and>
        tmi_approval input \<noteq> Required
     then Inl ApprovalRequiredByRisk
     else Inr
       \<lparr>tm_name = tmi_name input,
        tm_version = tmi_version input,
        tm_effect = tmi_effect input,
        tm_risk = tmi_risk input,
        tm_required_scopes = required_scopes,
        tm_approval = tmi_approval input,
        tm_idempotency = tmi_idempotency input,
        tm_filesystem = tmi_filesystem input,
        tm_network = tmi_network input,
        tm_environment = tmi_environment input\<rparr>))))))"

subsection \<open>Invocations\<close>

record tool_invocation_input =
  tvi_invocation_hash :: string
  tvi_filesystem_paths :: "string list"
  tvi_network_hosts :: "string list"
  tvi_environment_variables :: "string list"
  tvi_idempotency_key :: "string option"

record tool_invocation =
  tv_invocation_hash :: string
  tv_filesystem_paths :: "string btree_set"
  tv_network_hosts :: "string btree_set"
  tv_environment_variables :: "string btree_set"
  tv_idempotency_key :: "string option"

fun paths_loop :: "string btree_set \<Rightarrow> string list \<Rightarrow> tool_authorization_error + string btree_set" where
  "paths_loop validated [] = Inr validated"
| "paths_loop validated (path # paths) =
     (case canonical_relative_path path of
        None \<Rightarrow> Inl (InvalidPath path)
      | Some canonical \<Rightarrow>
          if canonical \<noteq> path then Inl (InvalidPath path)
          else if bt_contains validated canonical then Inl (DuplicateValue canonical)
          else paths_loop (bt_insert canonical validated) paths)"

definition validate_paths :: "string list \<Rightarrow> tool_authorization_error + string btree_set" where
  "validate_paths paths = paths_loop [] paths"

fun hosts_loop :: "string btree_set \<Rightarrow> string list \<Rightarrow> tool_authorization_error + string btree_set" where
  "hosts_loop validated [] = Inr validated"
| "hosts_loop validated (host # hosts) =
     (if \<not> is_host host then Inl (InvalidHost host)
      else if bt_contains validated host then Inl (DuplicateValue host)
      else hosts_loop (bt_insert host validated) hosts)"

definition validate_hosts :: "string list \<Rightarrow> tool_authorization_error + string btree_set" where
  "validate_hosts hosts = hosts_loop [] hosts"

fun environment_loop :: "string btree_set \<Rightarrow> string list \<Rightarrow> tool_authorization_error + string btree_set" where
  "environment_loop validated [] = Inr validated"
| "environment_loop validated (variable # variables) =
     (if \<not> is_environment_variable variable then Inl (InvalidEnvironmentVariable variable)
      else if bt_contains validated variable then Inl (DuplicateValue variable)
      else environment_loop (bt_insert variable validated) variables)"

definition validate_environment_variables :: "string list \<Rightarrow> tool_authorization_error + string btree_set" where
  "validate_environment_variables variables = environment_loop [] variables"

definition validate_optional_idempotency_key ::
  "string option \<Rightarrow> tool_authorization_error + string option" where
  "validate_optional_idempotency_key key =
     (case key of
        None \<Rightarrow> Inr key
      | Some k \<Rightarrow>
          let valid = 8 \<le> length k \<and> length k \<le> 128 \<and> trim k = k \<and>
            list_all (\<lambda>byte. is_ascii_alphanumeric byte \<or> List.member ''._:-'' byte) k
          in if \<not> valid then Inl AuthInvalidIdempotencyKey else Inr key)"

definition validate_invocation_hash :: "string \<Rightarrow> tool_authorization_error + unit" where
  "validate_invocation_hash value =
     (let valid = (case strip_prefix ''sha256:'' value of
          None \<Rightarrow> False
        | Some digest \<Rightarrow> length digest = 64 \<and>
            list_all (\<lambda>byte. is_ascii_digit byte \<or> byte_in 97 102 byte) digest)
      in if valid then Inr () else Inl InvalidInvocationHash)"

definition new_invocation :: "tool_invocation_input \<Rightarrow> tool_authorization_error + tool_invocation" where
  "new_invocation input =
     and_then (validate_invocation_hash (tvi_invocation_hash input)) (\<lambda>_.
     and_then (validate_paths (tvi_filesystem_paths input)) (\<lambda>paths.
     and_then (validate_hosts (tvi_network_hosts input)) (\<lambda>hosts.
     and_then (validate_environment_variables (tvi_environment_variables input)) (\<lambda>variables.
     and_then (validate_optional_idempotency_key (tvi_idempotency_key input)) (\<lambda>key.
     Inr \<lparr>tv_invocation_hash = tvi_invocation_hash input,
          tv_filesystem_paths = paths,
          tv_network_hosts = hosts,
          tv_environment_variables = variables,
          tv_idempotency_key = key\<rparr>)))))"

subsection \<open>Grants and authorizations\<close>

record tool_approval_grant =
  tag_approval_id :: string
  tag_subject_id :: string
  tag_tool_name :: string
  tag_tool_version :: string
  tag_invocation_hash :: string
  tag_issued_at :: instant
  tag_expires_at :: instant

definition validate_approval_window :: "instant \<Rightarrow> instant \<Rightarrow> tool_authorization_error + unit" where
  "validate_approval_window issued_at expires_at =
     (let lifetime = expires_at - issued_at
      in if lifetime \<le> 0 \<or> lifetime > seconds MAX_APPROVAL_TTL_SECONDS
         then Inl InvalidApprovalWindow else Inr ())"

definition new_approval_grant ::
  "string \<Rightarrow> string \<Rightarrow> string \<Rightarrow> string \<Rightarrow> string \<Rightarrow> instant \<Rightarrow> instant \<Rightarrow>
     tool_authorization_error + tool_approval_grant" where
  "new_approval_grant approval_id subject_id tool_name tool_version invocation_hash issued_at expires_at =
     and_then (validate_token_authorization ''approval_id'' approval_id 128) (\<lambda>_.
     and_then (validate_token_authorization ''subject_id'' subject_id 256) (\<lambda>_.
     and_then (validate_token_authorization ''tool_name'' tool_name 128) (\<lambda>_.
     and_then (validate_token_authorization ''tool_version'' tool_version 64) (\<lambda>_.
     and_then (validate_invocation_hash invocation_hash) (\<lambda>_.
     and_then (validate_approval_window issued_at expires_at) (\<lambda>_.
     Inr \<lparr>tag_approval_id = approval_id, tag_subject_id = subject_id, tag_tool_name = tool_name,
          tag_tool_version = tool_version, tag_invocation_hash = invocation_hash,
          tag_issued_at = issued_at, tag_expires_at = expires_at\<rparr>))))))"

record tool_authorization_input =
  tai_subject_id :: string
  tai_tool_name :: string
  tai_tool_version :: string
  tai_granted_scopes :: "string list"
  tai_granted_effects :: "tool_effect list"
  tai_filesystem_roots :: "string list"
  tai_network_hosts :: "string list"
  tai_environment_variables :: "string list"
  tai_approval :: "tool_approval_grant option"

record tool_authorization =
  ta_subject_id :: string
  ta_tool_name :: string
  ta_tool_version :: string
  ta_granted_scopes :: "string btree_set"
  ta_granted_effects :: "tool_effect btree_set"
  ta_filesystem_roots :: "string btree_set"
  ta_network_hosts :: "string btree_set"
  ta_environment_variables :: "string btree_set"
  ta_approval :: "tool_approval_grant option"

definition validate_approval_grant :: "tool_approval_grant \<Rightarrow> tool_authorization_error + unit" where
  "validate_approval_grant approval =
     and_then (validate_token_authorization ''approval_id'' (tag_approval_id approval) 128) (\<lambda>_.
     and_then (validate_token_authorization ''approval.subject_id'' (tag_subject_id approval) 256) (\<lambda>_.
     and_then (validate_token_authorization ''approval.tool_name'' (tag_tool_name approval) 128) (\<lambda>_.
     and_then (validate_token_authorization ''approval.tool_version'' (tag_tool_version approval) 64) (\<lambda>_.
     and_then (validate_invocation_hash (tag_invocation_hash approval)) (\<lambda>_.
     validate_approval_window (tag_issued_at approval) (tag_expires_at approval))))))"

definition new_authorization ::
  "tool_authorization_input \<Rightarrow> tool_authorization_error + tool_authorization" where
  "new_authorization input =
     and_then (validate_token_authorization ''subject_id'' (tai_subject_id input) 256) (\<lambda>_.
     and_then (validate_token_authorization ''tool_name'' (tai_tool_name input) 128) (\<lambda>_.
     and_then (validate_token_authorization ''tool_version'' (tai_tool_version input) 64) (\<lambda>_.
     and_then (case tai_approval input of None \<Rightarrow> Inr () | Some approval \<Rightarrow> validate_approval_grant approval) (\<lambda>_.
     and_then (validate_authorization_scopes (tai_granted_scopes input)) (\<lambda>scopes.
     and_then (validate_paths (tai_filesystem_roots input)) (\<lambda>roots.
     and_then (validate_hosts (tai_network_hosts input)) (\<lambda>hosts.
     and_then (validate_environment_variables (tai_environment_variables input)) (\<lambda>variables.
     Inr \<lparr>ta_subject_id = tai_subject_id input,
          ta_tool_name = tai_tool_name input,
          ta_tool_version = tai_tool_version input,
          ta_granted_scopes = scopes,
          ta_granted_effects = bt_from_list (tai_granted_effects input),
          ta_filesystem_roots = roots,
          ta_network_hosts = hosts,
          ta_environment_variables = variables,
          ta_approval = tai_approval input\<rparr>))))))))"

subsection \<open>Decisions\<close>

datatype tool_deny_reason =
  AuthorizationTargetMismatch
  | MissingScope string
  | EffectNotAuthorized tool_effect
  | ApprovalMissing
  | ApprovalTargetMismatch
  | ApprovalSubjectMismatch
  | ApprovalInvocationMismatch
  | ApprovalNotYetValid
  | ApprovalExpired
  | IdempotencyKeyMissing
  | FilesystemDenied string
  | FilesystemPathNotDeclared string
  | FilesystemPathNotAuthorized string
  | NetworkDenied string
  | NetworkHostNotDeclared string
  | NetworkHostNotAuthorized string
  | EnvironmentDenied string
  | EnvironmentVariableNotDeclared string
  | EnvironmentVariableNotAuthorized string

datatype tool_policy_decision =
  Allow string
  | Deny tool_deny_reason

fun is_allowed :: "tool_policy_decision \<Rightarrow> bool" where
  "is_allowed (Allow _) = True"
| "is_allowed (Deny _) = False"

fun denial_reason :: "tool_policy_decision \<Rightarrow> tool_deny_reason option" where
  "denial_reason (Allow _) = None"
| "denial_reason (Deny reason) = Some reason"

definition path_is_within_any_root :: "string \<Rightarrow> string btree_set \<Rightarrow> bool" where
  "path_is_within_any_root path roots =
     list_ex (\<lambda>root. root = ''.'' \<or> path = root \<or>
       (case strip_prefix root path of
          None \<Rightarrow> False
        | Some rest \<Rightarrow> strip_prefix ''/'' rest \<noteq> None)) roots"

fun filesystem_loop ::
  "tool_manifest \<Rightarrow> tool_authorization \<Rightarrow> string list \<Rightarrow> tool_policy_decision option" where
  "filesystem_loop manifest authorization [] = None"
| "filesystem_loop manifest authorization (path # paths) =
     (case fs_roots (tm_filesystem manifest) of
        None \<Rightarrow> Some (Deny (FilesystemDenied path))
      | Some declared_roots \<Rightarrow>
          if \<not> path_is_within_any_root path declared_roots
          then Some (Deny (FilesystemPathNotDeclared path))
          else if \<not> path_is_within_any_root path (ta_filesystem_roots authorization)
          then Some (Deny (FilesystemPathNotAuthorized path))
          else filesystem_loop manifest authorization paths)"

definition decide_filesystem ::
  "tool_manifest \<Rightarrow> tool_invocation \<Rightarrow> tool_authorization \<Rightarrow> tool_policy_decision option" where
  "decide_filesystem manifest invocation authorization =
     filesystem_loop manifest authorization (tv_filesystem_paths invocation)"

fun network_loop ::
  "tool_manifest \<Rightarrow> tool_authorization \<Rightarrow> string list \<Rightarrow> tool_policy_decision option" where
  "network_loop manifest authorization [] = None"
| "network_loop manifest authorization (host # hosts) =
     (case net_hosts (tm_network manifest) of
        None \<Rightarrow> Some (Deny (NetworkDenied host))
      | Some declared_hosts \<Rightarrow>
          if \<not> bt_contains declared_hosts host then Some (Deny (NetworkHostNotDeclared host))
          else if \<not> bt_contains (ta_network_hosts authorization) host
          then Some (Deny (NetworkHostNotAuthorized host))
          else network_loop manifest authorization hosts)"

definition decide_network ::
  "tool_manifest \<Rightarrow> tool_invocation \<Rightarrow> tool_authorization \<Rightarrow> tool_policy_decision option" where
  "decide_network manifest invocation authorization =
     network_loop manifest authorization (tv_network_hosts invocation)"

fun environment_decision_loop ::
  "tool_manifest \<Rightarrow> tool_authorization \<Rightarrow> string list \<Rightarrow> tool_policy_decision option" where
  "environment_decision_loop manifest authorization [] = None"
| "environment_decision_loop manifest authorization (variable # variables) =
     (case env_variables (tm_environment manifest) of
        None \<Rightarrow> Some (Deny (EnvironmentDenied variable))
      | Some declared_variables \<Rightarrow>
          if \<not> bt_contains declared_variables variable
          then Some (Deny (EnvironmentVariableNotDeclared variable))
          else if \<not> bt_contains (ta_environment_variables authorization) variable
          then Some (Deny (EnvironmentVariableNotAuthorized variable))
          else environment_decision_loop manifest authorization variables)"

definition decide_environment ::
  "tool_manifest \<Rightarrow> tool_invocation \<Rightarrow> tool_authorization \<Rightarrow> tool_policy_decision option" where
  "decide_environment manifest invocation authorization =
     environment_decision_loop manifest authorization (tv_environment_variables invocation)"

text \<open>The parts of \<open>ToolBroker::decide\<close>, in the order in which it returns.\<close>

fun missing_scope :: "tool_authorization \<Rightarrow> string list \<Rightarrow> tool_policy_decision option" where
  "missing_scope authorization [] = None"
| "missing_scope authorization (scope # scopes) =
     (if \<not> bt_contains (ta_granted_scopes authorization) scope then Some (Deny (MissingScope scope))
      else missing_scope authorization scopes)"

definition decide_effects :: "tool_manifest \<Rightarrow> tool_authorization \<Rightarrow> tool_policy_decision option" where
  "decide_effects manifest authorization =
     (if requires_explicit_grant (tm_effect manifest) \<and>
         \<not> bt_contains (ta_granted_effects authorization) (tm_effect manifest)
      then Some (Deny (EffectNotAuthorized (tm_effect manifest)))
      else if (case tm_filesystem manifest of FsReadWrite _ \<Rightarrow> True | _ \<Rightarrow> False) \<and>
         \<not> bt_contains (ta_granted_effects authorization) EffWrite
      then Some (Deny (EffectNotAuthorized EffWrite))
      else if tm_network manifest \<noteq> NetDenied \<and>
         \<not> bt_contains (ta_granted_effects authorization) EffNetwork
      then Some (Deny (EffectNotAuthorized EffNetwork))
      else None)"

definition approval_required :: "tool_manifest \<Rightarrow> bool" where
  "approval_required manifest =
     (tm_approval manifest = Required \<or> requires_approval (tm_risk manifest) \<or>
      tm_idempotency manifest = NonIdempotent)"

definition decide_approval ::
  "tool_manifest \<Rightarrow> tool_invocation \<Rightarrow> tool_authorization \<Rightarrow> instant \<Rightarrow> tool_policy_decision option" where
  "decide_approval manifest invocation authorization now =
     (if approval_required manifest then
        (case ta_approval authorization of
           None \<Rightarrow> Some (Deny ApprovalMissing)
         | Some approval \<Rightarrow>
             if tag_tool_name approval \<noteq> tm_name manifest \<or>
                tag_tool_version approval \<noteq> tm_version manifest
             then Some (Deny ApprovalTargetMismatch)
             else if tag_subject_id approval \<noteq> ta_subject_id authorization
             then Some (Deny ApprovalSubjectMismatch)
             else if tag_invocation_hash approval \<noteq> tv_invocation_hash invocation
             then Some (Deny ApprovalInvocationMismatch)
             else if tag_issued_at approval > now then Some (Deny ApprovalNotYetValid)
             else if tag_expires_at approval \<le> now then Some (Deny ApprovalExpired)
             else None)
      else None)"

definition decide ::
  "tool_manifest \<Rightarrow> tool_invocation \<Rightarrow> tool_authorization \<Rightarrow> instant \<Rightarrow> tool_policy_decision" where
  "decide manifest invocation authorization now =
     (if ta_tool_name authorization \<noteq> tm_name manifest \<or>
         ta_tool_version authorization \<noteq> tm_version manifest
      then Deny AuthorizationTargetMismatch
      else (case missing_scope authorization (tm_required_scopes manifest) of
        Some decision \<Rightarrow> decision
      | None \<Rightarrow>
      (case decide_effects manifest authorization of
        Some decision \<Rightarrow> decision
      | None \<Rightarrow>
      (case decide_approval manifest invocation authorization now of
        Some decision \<Rightarrow> decision
      | None \<Rightarrow>
      if tm_idempotency manifest = KeyRequired \<and> tv_idempotency_key invocation = None
      then Deny IdempotencyKeyMissing
      else (case decide_filesystem manifest invocation authorization of
        Some decision \<Rightarrow> decision
      | None \<Rightarrow>
      (case decide_network manifest invocation authorization of
        Some decision \<Rightarrow> decision
      | None \<Rightarrow>
      (case decide_environment manifest invocation authorization of
        Some decision \<Rightarrow> decision
      | None \<Rightarrow> Allow ''explicit_policy_grants_satisfied'')))))))"

subsection \<open>What the constructors accept\<close>

lemma is_token_iff: "is_token v n \<longleftrightarrow> ascii_token ''._:-@'' 1 n v"
  using trim_ascii_token [of "''._:-@''" 1 n v]
  by (auto simp: is_token_def ascii_token_def list_all_iff punctuation_graphic Suc_le_eq)

lemma is_scope_iff: "is_scope v \<longleftrightarrow> ascii_token ''._:-'' 1 128 v"
  using trim_ascii_token [of "''._:-''" 1 128 v]
  by (auto simp: is_scope_def ascii_token_def list_all_iff punctuation_graphic Suc_le_eq)

lemma validate_token_ok [result_simps]: "validate_token f v n = Inr u \<longleftrightarrow> is_token v n"
  by (simp add: validate_token_def)

lemma validate_token_authorization_ok [result_simps]:
  "validate_token_authorization f v n = Inr u \<longleftrightarrow> is_token v n"
  by (simp add: validate_token_authorization_def)

interpretation manifest_scopes: unique_collector unique_scopes_loop is_scope
  ManifestInvalidScope ManifestDuplicateScope
  by unfold_locales simp_all

interpretation authorization_scopes: unique_collector authorization_scopes_loop is_scope
  AuthInvalidScope DuplicateValue
  by unfold_locales simp_all

interpretation paths: unique_collector paths_loop "\<lambda>p. canonical_relative_path p = Some p"
  InvalidPath DuplicateValue
  by unfold_locales (auto split: option.splits)

interpretation hosts: unique_collector hosts_loop is_host InvalidHost DuplicateValue
  by unfold_locales simp_all

interpretation environment: unique_collector environment_loop is_environment_variable
  InvalidEnvironmentVariable DuplicateValue
  by unfold_locales simp_all

lemmas collector_defs =
  validate_unique_scopes_def validate_authorization_scopes_def validate_paths_def
  validate_hosts_def validate_environment_variables_def

lemmas collector_results =
  manifest_scopes.run_ok authorization_scopes.run_ok paths.run_ok hosts.run_ok environment.run_ok

subsection \<open>Canonical relative paths\<close>

definition plain_segment :: "string \<Rightarrow> bool" where
  "plain_segment part = (part \<noteq> [] \<and> part \<noteq> ''.'' \<and> part \<noteq> ''..'' \<and> CHR '':'' \<notin> set part)"

definition canonical_path :: "string \<Rightarrow> bool" where
  "canonical_path p =
     (p \<noteq> [] \<and> length p \<le> 1024 \<and> no_outer_space p \<and> CHR 0x5C \<notin> set p \<and>
      (p = ''.'' \<or> list_all plain_segment (split_on CHR ''/'' p)))"

definition unbackslash :: "string \<Rightarrow> string" where
  "unbackslash = map (\<lambda>c. if c = CHR 0x5C then CHR ''/'' else c)"

lemma unbackslash_simps [simp]:
  "unbackslash [] = []" "length (unbackslash s) = length s" "unbackslash s = [] \<longleftrightarrow> s = []"
  "CHR 0x5C \<notin> set (unbackslash s)"
  by (auto simp: unbackslash_def)

lemma unbackslash_id: "CHR 0x5C \<notin> set s \<Longrightarrow> unbackslash s = s"
  by (auto simp: unbackslash_def intro!: map_idI)

text \<open>Empty segments already exclude a leading, trailing or doubled slash.\<close>

lemma slashes_give_empty_parts:
  assumes "[] \<notin> set (split_on CHR ''/'' s)"
  shows "strip_prefix ''/'' s = None" and "strip_suffix ''/'' s = None" and "\<not> str_contains ''//'' s"
proof -
  have split: "split_on CHR ''/'' (a @ CHR ''/'' # b) = split_on CHR ''/'' a @ split_on CHR ''/'' b" for a b
    by (rule split_on_append)
  show "strip_prefix ''/'' s = None"
    using assms split [of "[]"] by (cases "strip_prefix ''/'' s") (auto simp: strip_prefix_Some)
  show "strip_suffix ''/'' s = None"
    using assms split [of _ "[]"] by (cases "strip_suffix ''/'' s") (auto simp: strip_suffix_Some)
  show "\<not> str_contains ''//'' s"
    using assms split by (auto simp: str_contains_iff)
qed

lemma canonical_relative_path_alt:
  "canonical_relative_path v =
     (if v = [] \<or> length v > 1024 \<or> \<not> no_outer_space v then None
      else if unbackslash v = ''.'' \<or> list_all plain_segment (split_on CHR ''/'' (unbackslash v))
      then Some (unbackslash v) else None)"
proof -
  have ex: "list_ex (\<lambda>part. part = [] \<or> part = ''.'' \<or> part = ''..'' \<or> List.member part CHR '':'') ps
      \<longleftrightarrow> \<not> list_all plain_segment ps" for ps
    by (induction ps) (auto simp: plain_segment_def)
  have "strip_prefix ''/'' (unbackslash v) = None" "strip_suffix ''/'' (unbackslash v) = None"
    "\<not> str_contains ''//'' (unbackslash v)"
    if "list_all plain_segment (split_on CHR ''/'' (unbackslash v))"
    using that by (intro slashes_give_empty_parts; force simp: list_all_iff plain_segment_def)+
  then show ?thesis
    unfolding canonical_relative_path_def Let_def unbackslash_def [symmetric] ex trim_fixed_iff
    by (cases "list_all plain_segment (split_on CHR ''/'' (unbackslash v))") simp_all
qed

lemma canonical_relative_path_Some:
  "canonical_relative_path v = Some q \<longleftrightarrow>
     v \<noteq> [] \<and> length v \<le> 1024 \<and> no_outer_space v \<and> q = unbackslash v \<and>
     (q = ''.'' \<or> list_all plain_segment (split_on CHR ''/'' q))"
  unfolding canonical_relative_path_alt by (simp only: split: if_split) auto

lemma canonical_path_iff: "canonical_relative_path p = Some p \<longleftrightarrow> canonical_path p"
  unfolding canonical_relative_path_Some canonical_path_def
  using unbackslash_id [of p] unbackslash_simps(4) [of p] by metis

lemma white_space_plain: "w \<in> set white_space \<Longrightarrow> CHR ''/'' \<notin> set w"
proof -
  have "list_all (list_all (\<lambda>c. of_char c \<noteq> (47 :: nat))) white_space"
    by (simp add: white_space_def)
  then have "w \<in> set white_space \<Longrightarrow> c \<in> set w \<Longrightarrow> of_char c \<noteq> (47 :: nat)" for c
    by (auto simp: list_all_iff)
  then show "w \<in> set white_space \<Longrightarrow> CHR ''/'' \<notin> set w"
    by fastforce
qed

lemma unbackslash_append:
  "unbackslash v = x @ y \<Longrightarrow> \<exists>x' y'. v = x' @ y' \<and> unbackslash x' = x \<and> unbackslash y' = y"
  unfolding unbackslash_def map_eq_append_conv by auto

lemma unbackslash_plain: "unbackslash v = a @ w @ b \<Longrightarrow> CHR ''/'' \<notin> set w \<Longrightarrow>
  \<exists>a' b'. v = a' @ w @ b' \<and> length a' = length a \<and> length b' = length b"
proof -
  assume eq: "unbackslash v = a @ w @ b" and w: "CHR ''/'' \<notin> set w"
  from unbackslash_append [OF eq] obtain a' r where
    r: "v = a' @ r" "unbackslash a' = a" "unbackslash r = w @ b" by blast
  from unbackslash_append [OF r(3)] obtain w' b' where
    v: "r = w' @ b'" "unbackslash w' = w" "unbackslash b' = b" by blast
  have "CHR 0x5C \<notin> set w'"
    using w v(2) by (force simp: unbackslash_def image_iff)
  then have "w' = w"
    using unbackslash_id v(2) by simp
  then show ?thesis
    using r v by (metis unbackslash_simps(2))
qed

lemma unbackslash_no_outer_space: "no_outer_space v \<Longrightarrow> no_outer_space (unbackslash v)"
proof (rule ccontr)
  assume v: "no_outer_space v" and "\<not> no_outer_space (unbackslash v)"
  then obtain w where w: "w \<in> set white_space"
    and "strip_prefix w (unbackslash v) \<noteq> None \<or> strip_suffix w (unbackslash v) \<noteq> None"
    by (auto simp: no_outer_space_def)
  then obtain a b where ab: "unbackslash v = a @ w @ b" "a = [] \<or> b = []"
    using strip_prefix_Some strip_suffix_Some by (metis append_Nil append_Nil2 not_None_eq)
  then obtain a' b' where "v = a' @ w @ b'" "a' = [] \<or> b' = []"
    using unbackslash_plain [OF ab(1) white_space_plain [OF w]] by (metis length_0_conv)
  then have "strip_prefix w v \<noteq> None \<or> strip_suffix w v \<noteq> None"
    using strip_prefix_Some strip_suffix_Some by (metis append_Nil append_Nil2 option.distinct(1))
  then show False
    using v w by (auto simp: no_outer_space_def)
qed

subsection \<open>Containment\<close>

text \<open>\<open>p\<close> is \<open>r\<close> or lies below it, compared segment by segment.\<close>

definition within_root :: "string \<Rightarrow> string \<Rightarrow> bool" where
  "within_root r p = (r = ''.'' \<or> (\<exists>rest. split_on CHR ''/'' p = split_on CHR ''/'' r @ rest))"

lemma path_is_within_any_root_iff:
  "path_is_within_any_root p roots \<longleftrightarrow> (\<exists>r \<in> set roots. within_root r p)"
proof -
  have "(p = r \<or> (case strip_prefix r p of None \<Rightarrow> False | Some rest \<Rightarrow> strip_prefix ''/'' rest \<noteq> None)) \<longleftrightarrow>
      (\<exists>rest. split_on CHR ''/'' p = split_on CHR ''/'' r @ rest)" (is "?L r \<longleftrightarrow> ?R r") for r
  proof
    assume "?L r"
    then consider "p = r" | t where "p = r @ CHR ''/'' # t"
      by (auto simp: strip_prefix_Some split: option.splits)
    then show "?R r"
      by cases (auto simp: split_on_append)
  next
    assume "?R r"
    then obtain rest where rest: "split_on CHR ''/'' p = split_on CHR ''/'' r @ rest" by blast
    then have p: "p = join_on CHR ''/'' (split_on CHR ''/'' r @ rest)"
      by (metis join_split)
    show "?L r"
    proof (cases "rest = []")
      case False
      then have "p = r @ ''/'' @ join_on CHR ''/'' rest"
        using p by (simp add: join_on_append)
      then show ?thesis
        by (simp add: strip_prefix_append strip_prefix_def)
    qed (use p in simp)
  qed
  then show ?thesis
    by (simp add: path_is_within_any_root_def list_ex_iff within_root_def)
qed

subsection \<open>Decisions\<close>

definition approval_satisfied ::
  "tool_manifest \<Rightarrow> tool_invocation \<Rightarrow> tool_authorization \<Rightarrow> instant \<Rightarrow> bool" where
  "approval_satisfied m i a now =
     (case ta_approval a of
        None \<Rightarrow> False
      | Some g \<Rightarrow>
          tag_tool_name g = tm_name m \<and> tag_tool_version g = tm_version m \<and>
          tag_subject_id g = ta_subject_id a \<and> tag_invocation_hash g = tv_invocation_hash i \<and>
          tag_issued_at g \<le> now \<and> now < tag_expires_at g)"

definition effects_granted :: "tool_manifest \<Rightarrow> tool_authorization \<Rightarrow> bool" where
  "effects_granted m a =
     ((requires_explicit_grant (tm_effect m) \<longrightarrow> tm_effect m \<in> set (ta_granted_effects a)) \<and>
      ((\<exists>roots. tm_filesystem m = FsReadWrite roots) \<longrightarrow> EffWrite \<in> set (ta_granted_effects a)) \<and>
      (tm_network m \<noteq> NetDenied \<longrightarrow> EffNetwork \<in> set (ta_granted_effects a)))"

definition paths_granted :: "tool_manifest \<Rightarrow> tool_invocation \<Rightarrow> tool_authorization \<Rightarrow> bool" where
  "paths_granted m i a =
     (\<forall>p \<in> set (tv_filesystem_paths i).
        (\<exists>roots. fs_roots (tm_filesystem m) = Some roots \<and> (\<exists>r \<in> set roots. within_root r p)) \<and>
        (\<exists>r \<in> set (ta_filesystem_roots a). within_root r p))"

definition hosts_granted :: "tool_manifest \<Rightarrow> tool_invocation \<Rightarrow> tool_authorization \<Rightarrow> bool" where
  "hosts_granted m i a =
     (\<forall>h \<in> set (tv_network_hosts i).
        (\<exists>hosts. net_hosts (tm_network m) = Some hosts \<and> h \<in> set hosts) \<and> h \<in> set (ta_network_hosts a))"

definition variables_granted :: "tool_manifest \<Rightarrow> tool_invocation \<Rightarrow> tool_authorization \<Rightarrow> bool" where
  "variables_granted m i a =
     (\<forall>v \<in> set (tv_environment_variables i).
        (\<exists>vars. env_variables (tm_environment m) = Some vars \<and> v \<in> set vars) \<and>
        v \<in> set (ta_environment_variables a))"

lemma missing_scope_None: "missing_scope a ss = None \<longleftrightarrow> set ss \<subseteq> set (ta_granted_scopes a)"
  by (induction ss) auto

lemma decide_effects_None: "decide_effects m a = None \<longleftrightarrow> effects_granted m a"
  by (cases "tm_filesystem m") (auto simp: decide_effects_def effects_granted_def)

lemma decide_approval_None:
  "decide_approval m i a now = None \<longleftrightarrow> (approval_required m \<longrightarrow> approval_satisfied m i a now)"
  by (auto simp: decide_approval_def approval_satisfied_def split: option.splits)

lemma decide_filesystem_None: "decide_filesystem m i a = None \<longleftrightarrow> paths_granted m i a"
proof -
  have "filesystem_loop m a ps = None \<longleftrightarrow>
      (\<forall>p \<in> set ps. (\<exists>roots. fs_roots (tm_filesystem m) = Some roots \<and> (\<exists>r \<in> set roots. within_root r p)) \<and>
        (\<exists>r \<in> set (ta_filesystem_roots a). within_root r p))" for ps
    by (induction ps) (auto simp: path_is_within_any_root_iff split: option.splits)
  then show ?thesis
    by (simp add: decide_filesystem_def paths_granted_def)
qed

lemma decide_network_None: "decide_network m i a = None \<longleftrightarrow> hosts_granted m i a"
proof -
  have "network_loop m a hs = None \<longleftrightarrow>
      (\<forall>h \<in> set hs. (\<exists>hosts. net_hosts (tm_network m) = Some hosts \<and> h \<in> set hosts) \<and>
        h \<in> set (ta_network_hosts a))" for hs
    by (induction hs) (auto split: option.splits)
  then show ?thesis
    by (simp add: decide_network_def hosts_granted_def)
qed

lemma decide_environment_None: "decide_environment m i a = None \<longleftrightarrow> variables_granted m i a"
proof -
  have "environment_decision_loop m a vs = None \<longleftrightarrow>
      (\<forall>v \<in> set vs. (\<exists>vars. env_variables (tm_environment m) = Some vars \<and> v \<in> set vars) \<and>
        v \<in> set (ta_environment_variables a))" for vs
    by (induction vs) (auto split: option.splits)
  then show ?thesis
    by (simp add: decide_environment_def variables_granted_def)
qed

text \<open>Each part that returns a decision returns a denial.\<close>

lemma loops_deny:
  "missing_scope a ss = Some d \<Longrightarrow> \<not> is_allowed d"
  "filesystem_loop m a ps = Some d \<Longrightarrow> \<not> is_allowed d"
  "network_loop m a hs = Some d \<Longrightarrow> \<not> is_allowed d"
  "environment_decision_loop m a vs = Some d \<Longrightarrow> \<not> is_allowed d"
proof -
  show "missing_scope a ss = Some d \<Longrightarrow> \<not> is_allowed d"
    by (induction ss) (auto split: if_splits)
  show "filesystem_loop m a ps = Some d \<Longrightarrow> \<not> is_allowed d"
    by (induction ps) (auto split: if_splits option.splits)
  show "network_loop m a hs = Some d \<Longrightarrow> \<not> is_allowed d"
    by (induction hs) (auto split: if_splits option.splits)
  show "environment_decision_loop m a vs = Some d \<Longrightarrow> \<not> is_allowed d"
    by (induction vs) (auto split: if_splits option.splits)
qed

lemma checks_deny:
  "decide_effects m a = Some d \<Longrightarrow> \<not> is_allowed d"
  "decide_approval m i a now = Some d \<Longrightarrow> \<not> is_allowed d"
  by (auto simp: decide_effects_def decide_approval_def split: if_splits option.splits)

lemma decide_allowed:
  "is_allowed (decide m i a now) \<longleftrightarrow>
     ta_tool_name a = tm_name m \<and> ta_tool_version a = tm_version m \<and>
     missing_scope a (tm_required_scopes m) = None \<and> decide_effects m a = None \<and>
     decide_approval m i a now = None \<and>
     (tm_idempotency m = KeyRequired \<longrightarrow> tv_idempotency_key i \<noteq> None) \<and>
     decide_filesystem m i a = None \<and> decide_network m i a = None \<and> decide_environment m i a = None"
  unfolding decide_def decide_filesystem_def decide_network_def decide_environment_def
  by (auto split: option.splits dest: loops_deny checks_deny)

text \<open>
  C14. The broker allows an invocation exactly when every grant is in place: the authorization names
  this tool and version, holds all required scopes and effects, carries a current approval for
  this subject, tool and invocation hash where one is required, an idempotency key is present where
  one is required, and every path, host and variable is both declared and authorized.
\<close>

theorem decide_allows_iff:
  "is_allowed (decide m i a now) \<longleftrightarrow>
     ta_tool_name a = tm_name m \<and> ta_tool_version a = tm_version m \<and>
     set (tm_required_scopes m) \<subseteq> set (ta_granted_scopes a) \<and>
     effects_granted m a \<and>
     (\<not> approval_required m \<or> approval_satisfied m i a now) \<and>
     (tm_idempotency m \<noteq> KeyRequired \<or> tv_idempotency_key i \<noteq> None) \<and>
     paths_granted m i a \<and> hosts_granted m i a \<and> variables_granted m i a"
  unfolding decide_allowed missing_scope_None decide_effects_None decide_approval_None
    decide_filesystem_None decide_network_None decide_environment_None
  by blast

lemma new_invocation_paths:
  assumes "new_invocation input = Inr i" and "p \<in> set (tv_filesystem_paths i)"
  shows "canonical_path p"
proof -
  have "validate_paths (tvi_filesystem_paths input) = Inr (tv_filesystem_paths i)"
    using assms(1) by (auto simp: new_invocation_def result_simps)
  then show ?thesis
    using paths.run_result(3) assms(2) by (auto simp: validate_paths_def canonical_path_iff)
qed

lemma canonical_path_segments:
  "canonical_path p \<Longrightarrow> p \<noteq> ''.'' \<Longrightarrow> part \<in> set (split_on CHR ''/'' p) \<Longrightarrow> plain_segment part"
  by (auto simp: canonical_path_def list_all_iff)

text \<open>A concrete tool, invocation and authorization on which the decisions are evaluated.\<close>

definition sample_hash :: string where
  "sample_hash = ''sha256:'' @ replicate 64 CHR ''0''"

definition sample_manifest_input :: tool_manifest_input where
  "sample_manifest_input =
     \<lparr>tmi_name = ''fs.write'', tmi_version = ''1.0'', tmi_effect = EffWrite, tmi_risk = RiskHigh,
      tmi_required_scopes = [''tool:write''], tmi_approval = Required, tmi_idempotency = KeyRequired,
      tmi_filesystem = FsReadWrite [''src''], tmi_network = NetDenied, tmi_environment = EnvDenied\<rparr>"

definition sample_invocation_input :: tool_invocation_input where
  "sample_invocation_input =
     \<lparr>tvi_invocation_hash = sample_hash, tvi_filesystem_paths = [''src/a''], tvi_network_hosts = [],
      tvi_environment_variables = [], tvi_idempotency_key = Some ''key-0001''\<rparr>"

definition sample_invocation :: tool_invocation where
  "sample_invocation =
     \<lparr>tv_invocation_hash = sample_hash, tv_filesystem_paths = [''src/a''], tv_network_hosts = [],
      tv_environment_variables = [], tv_idempotency_key = Some ''key-0001''\<rparr>"

definition sample_grant :: tool_approval_grant where
  "sample_grant =
     \<lparr>tag_approval_id = ''approval-1'', tag_subject_id = ''alice'', tag_tool_name = ''fs.write'',
      tag_tool_version = ''1.0'', tag_invocation_hash = sample_hash, tag_issued_at = 0,
      tag_expires_at = seconds 60\<rparr>"

definition sample_authorization_input :: tool_authorization_input where
  "sample_authorization_input =
     \<lparr>tai_subject_id = ''alice'', tai_tool_name = ''fs.write'', tai_tool_version = ''1.0'',
      tai_granted_scopes = [''tool:write''], tai_granted_effects = [EffWrite],
      tai_filesystem_roots = [''src''], tai_network_hosts = [], tai_environment_variables = [],
      tai_approval = Some sample_grant\<rparr>"

definition sample_manifest :: tool_manifest where
  "sample_manifest =
     \<lparr>tm_name = ''fs.write'', tm_version = ''1.0'', tm_effect = EffWrite, tm_risk = RiskHigh,
      tm_required_scopes = [''tool:write''], tm_approval = Required, tm_idempotency = KeyRequired,
      tm_filesystem = FsReadWrite [''src''], tm_network = NetDenied, tm_environment = EnvDenied\<rparr>"

definition sample_authorization :: tool_authorization where
  "sample_authorization =
     \<lparr>ta_subject_id = ''alice'', ta_tool_name = ''fs.write'', ta_tool_version = ''1.0'',
      ta_granted_scopes = [''tool:write''], ta_granted_effects = [EffWrite],
      ta_filesystem_roots = [''src''], ta_network_hosts = [], ta_environment_variables = [],
      ta_approval = Some sample_grant\<rparr>"

lemma sample_tokens:
  "is_token ''fs.write'' 128" "is_token ''1.0'' 64" "is_token ''alice'' 256"
  "is_token ''approval-1'' 128" "is_scope ''tool:write''"
  by (simp_all add: is_token_iff is_scope_iff ascii_token_def byte_class_defs)

lemma sample_paths:
  "canonical_relative_path ''src'' = Some ''src''"
  "canonical_relative_path ''src/a'' = Some ''src/a''"
  "canonical_relative_path [CHR ''s'', CHR ''r'', CHR ''c'', CHR 0x5C, CHR ''a''] = Some ''src/a''"
  by (simp_all add: canonical_relative_path_alt no_outer_space_graphic byte_class_defs
      unbackslash_def plain_segment_def)

lemma sample_parts:
  "validate_invocation_hash sample_hash = Inr ()"
  "validate_approval_window 0 (seconds 60) = Inr ()"
  "validate_optional_idempotency_key (Some ''key-0001'') = Inr (Some ''key-0001'')"
  by (simp_all add: validate_invocation_hash_def sample_hash_def strip_prefix_def list_all_iff
      validate_approval_window_def seconds_def MAX_APPROVAL_TTL_SECONDS_def
      validate_optional_idempotency_key_def trim_graphic byte_class_defs)

lemma samples_built:
  "new_manifest sample_manifest_input = Inr sample_manifest"
  "new_invocation sample_invocation_input = Inr sample_invocation"
  "new_authorization sample_authorization_input = Inr sample_authorization"
proof -
  show "new_manifest sample_manifest_input = Inr sample_manifest"
    by (simp add: new_manifest_def sample_manifest_input_def sample_manifest_def validate_token_def
        validate_unique_scopes_def validate_filesystem_policy_def validate_network_policy_def
        validate_environment_policy_def sample_tokens sample_paths sample_parts bt_insert_def cong: and_then_cong)
  show "new_invocation sample_invocation_input = Inr sample_invocation"
    by (simp add: new_invocation_def sample_invocation_input_def sample_invocation_def collector_defs
        sample_paths sample_parts bt_insert_def cong: and_then_cong)
  show "new_authorization sample_authorization_input = Inr sample_authorization"
    by (simp add: new_authorization_def sample_authorization_input_def sample_authorization_def
        validate_token_authorization_def validate_approval_grant_def collector_defs sample_grant_def
        sample_tokens sample_paths sample_parts bt_insert_def bt_from_list_def cong: and_then_cong)
qed

lemma sample_allowed: "is_allowed (decide sample_manifest sample_invocation sample_authorization 5)"
  by code_simp

theorem decide_allows_iff_witness:
  "effects_granted sample_manifest sample_authorization \<and>
   paths_granted sample_manifest sample_invocation sample_authorization"
  using decide_allows_iff [THEN iffD1, OF sample_allowed] by blast

text \<open>
  C15. No path traversal: for an invocation built by its constructor that the broker allows, each
  path is the workspace root itself or a sequence of non-empty segments none of which is \<open>.\<close> or
  \<open>..\<close> or names a drive, and it extends, segment by segment, a root declared by the manifest and
  a root granted by the authorization.
\<close>

theorem decide_no_traversal:
  assumes "new_invocation input = Inr i" and "is_allowed (decide m i a now)"
    and "p \<in> set (tv_filesystem_paths i)"
  shows "(p = ''.'' \<or> list_all plain_segment (split_on CHR ''/'' p)) \<and>
    (\<exists>roots. fs_roots (tm_filesystem m) = Some roots \<and> (\<exists>r \<in> set roots. within_root r p)) \<and>
    (\<exists>r \<in> set (ta_filesystem_roots a). within_root r p)"
proof -
  have "paths_granted m i a"
    using assms(2) by (simp add: decide_allowed decide_filesystem_None)
  then show ?thesis
    using new_invocation_paths [OF assms(1,3)] assms(3)
    by (auto simp: paths_granted_def canonical_path_def)
qed

theorem decide_no_traversal_witness:
  "(''src/a'' = ''.'' \<or> list_all plain_segment (split_on CHR ''/'' ''src/a'')) \<and>
   (\<exists>roots. fs_roots (tm_filesystem sample_manifest) = Some roots \<and>
      (\<exists>r \<in> set roots. within_root r ''src/a'')) \<and>
   (\<exists>r \<in> set (ta_filesystem_roots sample_authorization). within_root r ''src/a'')"
  by (rule decide_no_traversal [OF samples_built(2) sample_allowed]) (simp add: sample_invocation_def)

text \<open>
  Normalising a path is idempotent: whatever \<open>canonical_relative_path\<close> returns it returns again
  unchanged, so the comparison with the raw path in \<open>validate_paths\<close> accepts every output of the
  normalisation.
\<close>

theorem canonical_relative_path_idempotent:
  assumes "canonical_relative_path v = Some q"
  shows "canonical_relative_path q = Some q \<and> length q = length v \<and> CHR 0x5C \<notin> set q"
proof -
  have v: "v \<noteq> []" "length v \<le> 1024" "no_outer_space v" "q = unbackslash v"
    "q = ''.'' \<or> list_all plain_segment (split_on CHR ''/'' q)"
    using assms unfolding canonical_relative_path_Some by blast+
  then have "canonical_path q"
    using unbackslash_no_outer_space by (simp add: canonical_path_def)
  then show ?thesis
    using v(4) by (simp add: canonical_path_iff)
qed

theorem canonical_relative_path_idempotent_witness:
  "canonical_relative_path ''src/a'' = Some ''src/a'' \<and> length ''src/a'' = length [CHR ''s'', CHR ''r'', CHR ''c'', CHR 0x5C, CHR ''a''] \<and>
   CHR 0x5C \<notin> set ''src/a''"
proof (rule canonical_relative_path_idempotent)
  show "canonical_relative_path [CHR ''s'', CHR ''r'', CHR ''c'', CHR 0x5C, CHR ''a''] = Some ''src/a''"
    by (rule sample_paths(3))
qed

subsection \<open>Constructors\<close>

definition manifest_input_ok :: "tool_manifest_input \<Rightarrow> bool" where
  "manifest_input_ok i =
     (is_token (tmi_name i) 128 \<and> is_token (tmi_version i) 64 \<and>
      tmi_required_scopes i \<noteq> [] \<and> list_all is_scope (tmi_required_scopes i) \<and>
      distinct (tmi_required_scopes i) \<and>
      (\<forall>roots. fs_roots (tmi_filesystem i) = Some roots \<longrightarrow> roots \<noteq> [] \<and> list_all canonical_path roots) \<and>
      (\<forall>hosts. tmi_network i = AllowHosts hosts \<longrightarrow> hosts \<noteq> [] \<and> list_all is_host hosts) \<and>
      (\<forall>vars. tmi_environment i = AllowRead vars \<longrightarrow>
         vars \<noteq> [] \<and> list_all is_environment_variable vars) \<and>
      (tmi_effect i = EffPure \<longrightarrow>
         tmi_filesystem i = FsDenied \<and> tmi_network i = NetDenied \<and> tmi_environment i = EnvDenied) \<and>
      (tmi_effect i = EffNetwork \<longrightarrow> tmi_network i \<noteq> NetDenied) \<and>
      (requires_approval (tmi_risk i) \<or> tmi_idempotency i = NonIdempotent \<longrightarrow> tmi_approval i = Required))"

definition manifest_of :: "tool_manifest_input \<Rightarrow> tool_manifest" where
  "manifest_of i =
     \<lparr>tm_name = tmi_name i, tm_version = tmi_version i, tm_effect = tmi_effect i, tm_risk = tmi_risk i,
      tm_required_scopes = bt_from_list (tmi_required_scopes i), tm_approval = tmi_approval i,
      tm_idempotency = tmi_idempotency i, tm_filesystem = tmi_filesystem i,
      tm_network = tmi_network i, tm_environment = tmi_environment i\<rparr>"

lemma policies_ok:
  "validate_filesystem_policy f = Inr u \<longleftrightarrow>
     (\<forall>roots. fs_roots f = Some roots \<longrightarrow> roots \<noteq> [] \<and> list_all canonical_path roots)"
  "validate_network_policy n = Inr u \<longleftrightarrow> (\<forall>hosts. n = AllowHosts hosts \<longrightarrow> hosts \<noteq> [] \<and> list_all is_host hosts)"
  "validate_environment_policy e = Inr u \<longleftrightarrow>
     (\<forall>vars. e = AllowRead vars \<longrightarrow> vars \<noteq> [] \<and> list_all is_environment_variable vars)"
  by (auto simp: validate_filesystem_policy_def validate_network_policy_def
      validate_environment_policy_def canonical_path_iff split: option.splits network_policy.splits
      environment_policy.splits)

lemma new_manifest_ok: "new_manifest i = Inr m \<longleftrightarrow> manifest_input_ok i \<and> m = manifest_of i"
  unfolding new_manifest_def manifest_input_ok_def manifest_of_def
  by (auto simp: result_simps policies_ok validate_unique_scopes_def manifest_scopes.run_ok
      split: if_splits)

text \<open>
  Approval cannot be configured away: for a manifest built by its constructor, if the risk is
  high or critical or the tool is not idempotent, then an allowed decision carries an approval
  grant for exactly this subject, tool, version and invocation hash whose validity window contains
  the current instant, and that window is at most fifteen minutes for a constructed authorization.
\<close>

theorem decide_risky_needs_approval:
  assumes "new_manifest mi = Inr m" and "new_authorization ai = Inr a"
    and "requires_approval (tm_risk m) \<or> tm_idempotency m = NonIdempotent"
    and "is_allowed (decide m i a now)"
  shows "\<exists>g. ta_approval a = Some g \<and> tag_subject_id g = ta_subject_id a \<and>
    tag_tool_name g = tm_name m \<and> tag_tool_version g = tm_version m \<and>
    tag_invocation_hash g = tv_invocation_hash i \<and>
    tag_issued_at g \<le> now \<and> now < tag_expires_at g \<and>
    tag_expires_at g \<le> tag_issued_at g + seconds (15 * 60) \<and> tm_approval m = Required"
proof -
  have req: "approval_required m" "tm_approval m = Required"
    using assms(1,3) by (auto simp: approval_required_def new_manifest_ok manifest_input_ok_def manifest_of_def)
  then have "approval_satisfied m i a now"
    using assms(4) by (simp add: decide_allowed decide_approval_None)
  then obtain g where g: "ta_approval a = Some g" "tag_tool_name g = tm_name m"
    "tag_tool_version g = tm_version m" "tag_subject_id g = ta_subject_id a"
    "tag_invocation_hash g = tv_invocation_hash i" "tag_issued_at g \<le> now" "now < tag_expires_at g"
    by (auto simp: approval_satisfied_def split: option.splits)
  have "validate_approval_grant g = Inr ()"
    using assms(2) g(1) by (auto simp: new_authorization_def result_simps)
  then have "tag_expires_at g \<le> tag_issued_at g + seconds (15 * 60)"
    by (auto simp: validate_approval_grant_def validate_approval_window_def Let_def result_simps
        MAX_APPROVAL_TTL_SECONDS_def split: if_splits)
  with g req show ?thesis by blast
qed

theorem decide_risky_needs_approval_witness:
  "\<exists>g. ta_approval sample_authorization = Some g \<and>
     tag_subject_id g = ta_subject_id sample_authorization \<and>
     tag_tool_name g = tm_name sample_manifest \<and> tag_tool_version g = tm_version sample_manifest \<and>
     tag_invocation_hash g = tv_invocation_hash sample_invocation \<and>
     tag_issued_at g \<le> 5 \<and> 5 < tag_expires_at g \<and>
     tag_expires_at g \<le> tag_issued_at g + seconds (15 * 60) \<and> tm_approval sample_manifest = Required"
  by (rule decide_risky_needs_approval [OF samples_built(1,3) _ sample_allowed])
    (simp add: sample_manifest_def)

end
