(* ===== verification/Agent_Fsm.thy ===== *)
theory Agent_Fsm
  imports Json
begin

text \<open>
  \<open>crates/zaion-runtime/src/agent_fsm.rs\<close>: the five-state machine of one agent session. A handler
  is a function from the machine (and the clock reading \<open>now_ms\<close>) to its result and the new
  machine, because some handlers change the state and return an error. The token counter is a
  64-bit word whose addition wraps, as the release build's \<open>+=\<close> does. The lemmas give every handler's
  effect, and show for every run from \<open>new\<close> that the transition log is one connected path of legal
  edges ending in the current state and that no cycle out of \<open>Idle\<close> has more tool rounds than
  configured. \<open>on_tool_results_with_budget\<close>, which writes files, is not modelled.
\<close>

subsection \<open>Model\<close>

record tool_call =
  tc_id :: string
  tc_name :: string
  tc_arguments :: json

record chat_message =
  cm_role :: string
  cm_content :: string
  cm_tool_calls :: "tool_call list"
  cm_tool_call_id :: "string option"
  cm_reasoning_content :: "string option"
  cm_reasoning_signature :: "string option"

datatype finish_reason = FinishStop | FinishToolUse | FinishMaxTokens

record tool_call_request =
  tcr_id :: string
  tcr_name :: string
  tcr_arguments :: string

record llm_outcome =
  lo_finish_reason :: finish_reason
  lo_tool_calls :: "tool_call_request list"
  lo_text :: string
  lo_tokens_used :: u64

record tool_result =
  tr_tool_call_id :: string
  tr_tool_name :: string
  tr_output :: string
  tr_success :: bool

datatype agent_state = Idle | Thinking | ToolUse | Responding | Reflecting

datatype fsm_error =
  InvalidTransition agent_state agent_state
  | MaxToolRoundsExceeded nat
  | TokenLimitExceeded

record fsm_config =
  fc_max_tool_rounds :: nat
  fc_max_session_tokens :: u64
  fc_reflection_enabled :: bool

definition default_fsm_config :: fsm_config where
  "default_fsm_config =
     \<lparr>fc_max_tool_rounds = 10, fc_max_session_tokens = 100000, fc_reflection_enabled = True\<rparr>"

record state_transition =
  st_from :: agent_state
  st_to :: agent_state
  st_reason :: string
  st_timestamp_ms :: u64

record agent_fsm =
  fsm_state :: agent_state
  fsm_messages :: "chat_message list"
  fsm_config :: fsm_config
  fsm_transitions :: "state_transition list"
  fsm_tool_round_count :: nat
  fsm_session_tokens :: u64

definition new_fsm :: "fsm_config \<Rightarrow> agent_fsm" where
  "new_fsm config =
     \<lparr>fsm_state = Idle, fsm_messages = [], fsm_config = config, fsm_transitions = [],
      fsm_tool_round_count = 0, fsm_session_tokens = 0\<rparr>"

type_synonym fsm_result = "(fsm_error + agent_state) \<times> agent_fsm"

definition record_transition :: "agent_state \<Rightarrow> agent_state \<Rightarrow> string \<Rightarrow> u64 \<Rightarrow> agent_fsm \<Rightarrow> agent_fsm" where
  "record_transition from to_state reason now_ms self =
     self\<lparr>fsm_transitions := fsm_transitions self @
       [\<lparr>st_from = from, st_to = to_state, st_reason = reason, st_timestamp_ms = now_ms\<rparr>]\<rparr>"

definition transition_to :: "agent_state \<Rightarrow> string \<Rightarrow> u64 \<Rightarrow> agent_fsm \<Rightarrow> fsm_result" where
  "transition_to to_state reason now_ms self =
     (Inr to_state,
      record_transition (fsm_state self) to_state reason now_ms (self\<lparr>fsm_state := to_state\<rparr>))"

definition require_state :: "agent_state \<Rightarrow> agent_state \<Rightarrow> agent_fsm \<Rightarrow> fsm_error + unit" where
  "require_state expected target self =
     (if fsm_state self \<noteq> expected then Inl (InvalidTransition (fsm_state self) target) else Inr ())"

definition add_assistant_message_from_outcome :: "llm_outcome \<Rightarrow> agent_fsm \<Rightarrow> agent_fsm" where
  "add_assistant_message_from_outcome outcome self =
     self\<lparr>fsm_messages := fsm_messages self @
       [\<lparr>cm_role = ''assistant'', cm_content = lo_text outcome, cm_tool_calls = [],
         cm_tool_call_id = None, cm_reasoning_content = None, cm_reasoning_signature = None\<rparr>]\<rparr>"

definition on_user_message :: "chat_message \<Rightarrow> u64 \<Rightarrow> agent_fsm \<Rightarrow> fsm_result" where
  "on_user_message message now_ms self =
     (case require_state Idle Thinking self of
        Inl e \<Rightarrow> (Inl e, self)
      | Inr _ \<Rightarrow>
          transition_to Thinking ''user message received'' now_ms
            (self\<lparr>fsm_messages := fsm_messages self @ [message], fsm_tool_round_count := 0\<rparr>))"

definition on_llm_response :: "llm_outcome \<Rightarrow> u64 \<Rightarrow> agent_fsm \<Rightarrow> fsm_result" where
  "on_llm_response outcome now_ms self =
     (case require_state Thinking Responding self of
        Inl e \<Rightarrow> (Inl e, self)
      | Inr _ \<Rightarrow>
          let self = self\<lparr>fsm_session_tokens := fsm_session_tokens self + lo_tokens_used outcome\<rparr>
          in if fsm_session_tokens self > fc_max_session_tokens (fsm_config self)
             then (Inl TokenLimitExceeded,
                   snd (transition_to Idle ''session token limit exceeded'' now_ms self))
             else (case lo_finish_reason outcome of
                 FinishToolUse \<Rightarrow>
                   transition_to ToolUse ''LLM requested tool calls'' now_ms
                     (add_assistant_message_from_outcome outcome self)
               | FinishStop \<Rightarrow>
                   transition_to Responding ''LLM produced text response'' now_ms
                     (add_assistant_message_from_outcome outcome self)
               | FinishMaxTokens \<Rightarrow> transition_to Idle ''max tokens reached'' now_ms self))"

definition tool_message :: "tool_result \<Rightarrow> chat_message" where
  "tool_message result =
     \<lparr>cm_role = ''tool'',
      cm_content = ''['' @ (if tr_success result then ''ok'' else ''err'') @ ''] '' @
        tr_tool_name result @ '': '' @ tr_output result,
      cm_tool_calls = [],
      cm_tool_call_id = Some (tr_tool_call_id result),
      cm_reasoning_content = None,
      cm_reasoning_signature = None\<rparr>"

definition on_tool_results :: "tool_result list \<Rightarrow> u64 \<Rightarrow> agent_fsm \<Rightarrow> fsm_result" where
  "on_tool_results results now_ms self =
     (case require_state ToolUse Thinking self of
        Inl e \<Rightarrow> (Inl e, self)
      | Inr _ \<Rightarrow>
          let self = self\<lparr>fsm_tool_round_count := fsm_tool_round_count self + 1\<rparr>
          in if fsm_tool_round_count self > fc_max_tool_rounds (fsm_config self)
             then (Inl (MaxToolRoundsExceeded (fc_max_tool_rounds (fsm_config self))),
                   snd (transition_to Idle ''max tool rounds exceeded'' now_ms self))
             else transition_to Thinking ''tool results collected'' now_ms
                    (self\<lparr>fsm_messages := fsm_messages self @ map tool_message results\<rparr>))"

definition on_response_delivered :: "u64 \<Rightarrow> agent_fsm \<Rightarrow> fsm_result" where
  "on_response_delivered now_ms self =
     (case require_state Responding Reflecting self of
        Inl e \<Rightarrow> (Inl e, self)
      | Inr _ \<Rightarrow>
          if fc_reflection_enabled (fsm_config self)
          then transition_to Reflecting ''response delivered, reflecting'' now_ms self
          else transition_to Idle ''response delivered, reflection disabled'' now_ms self)"

definition on_reflection_complete :: "u64 \<Rightarrow> agent_fsm \<Rightarrow> fsm_result" where
  "on_reflection_complete now_ms self =
     (case require_state Reflecting Idle self of
        Inl e \<Rightarrow> (Inl e, self)
      | Inr _ \<Rightarrow> transition_to Idle ''reflection complete'' now_ms self)"

definition reset :: "u64 \<Rightarrow> agent_fsm \<Rightarrow> agent_state \<times> agent_fsm" where
  "reset now_ms self =
     (Idle,
      record_transition (fsm_state self) Idle ''forced reset'' now_ms
        (self\<lparr>fsm_state := Idle, fsm_tool_round_count := 0\<rparr>))"

text \<open>The calls an orchestrator can make, and the machine after one of them.\<close>

datatype fsm_call =
  UserMessage chat_message u64
  | LlmResponse llm_outcome u64
  | ToolResults "tool_result list" u64
  | ResponseDelivered u64
  | ReflectionComplete u64
  | Reset u64

fun fsm_exec :: "fsm_call \<Rightarrow> agent_fsm \<Rightarrow> agent_fsm" where
  "fsm_exec (UserMessage m t) self = snd (on_user_message m t self)"
| "fsm_exec (LlmResponse r t) self = snd (on_llm_response r t self)"
| "fsm_exec (ToolResults rs t) self = snd (on_tool_results rs t self)"
| "fsm_exec (ResponseDelivered t) self = snd (on_response_delivered t self)"
| "fsm_exec (ReflectionComplete t) self = snd (on_reflection_complete t self)"
| "fsm_exec (Reset t) self = snd (reset t self)"

subsection \<open>The invariant\<close>

text \<open>The edges of the diagram, and the forced reset from anywhere.\<close>

fun fsm_edge :: "agent_state \<Rightarrow> agent_state \<Rightarrow> bool" where
  "fsm_edge Idle Thinking = True"
| "fsm_edge Thinking ToolUse = True"
| "fsm_edge Thinking Responding = True"
| "fsm_edge ToolUse Thinking = True"
| "fsm_edge Responding Reflecting = True"
| "fsm_edge _ Idle = True"
| "fsm_edge _ _ = False"

fun log_path :: "agent_state \<Rightarrow> state_transition list \<Rightarrow> agent_state \<Rightarrow> bool" where
  "log_path s [] t = (s = t)"
| "log_path s (e # es) t = (st_from e = s \<and> fsm_edge s (st_to e) \<and> log_path (st_to e) es t)"

lemma log_path_append:
  "log_path s (es @ [e]) t \<longleftrightarrow> (\<exists>u. log_path s es u \<and> st_from e = u \<and> fsm_edge u (st_to e) \<and> t = st_to e)"
  by (induction es arbitrary: s) auto

text \<open>The tool rounds since the log last entered \<open>Idle\<close>.\<close>

fun rounds_step :: "state_transition \<Rightarrow> nat \<Rightarrow> nat" where
  "rounds_step e n =
     (if st_to e = Idle then 0
      else if st_from e = ToolUse \<and> st_to e = Thinking then n + 1 else n)"

definition rounds_since_idle :: "state_transition list \<Rightarrow> nat" where
  "rounds_since_idle es = fold rounds_step es 0"

lemma rounds_since_idle_append [simp]:
  "rounds_since_idle (es @ [e]) = rounds_step e (rounds_since_idle es)"
  by (simp add: rounds_since_idle_def)

definition fsm_inv :: "agent_fsm \<Rightarrow> bool" where
  "fsm_inv m =
     (log_path Idle (fsm_transitions m) (fsm_state m) \<and>
      (if fsm_state m = Idle then rounds_since_idle (fsm_transitions m) = 0
       else rounds_since_idle (fsm_transitions m) = fsm_tool_round_count m \<and>
         fsm_tool_round_count m \<le> fc_max_tool_rounds (fsm_config m)) \<and>
      (fsm_state m \<in> {ToolUse, Responding, Reflecting} \<longrightarrow>
         fsm_session_tokens m \<le> fc_max_session_tokens (fsm_config m)))"

definition fsm_init :: "agent_fsm \<Rightarrow> bool" where
  "fsm_init m = (\<exists>config. m = new_fsm config)"

inductive fsm_step :: "agent_fsm \<Rightarrow> agent_fsm \<Rightarrow> bool" where
  "fsm_step m (fsm_exec call m)"

inductive_simps fsm_step_simps: "fsm_step m n"

lemmas handler_defs =
  on_user_message_def on_llm_response_def on_tool_results_def on_response_delivered_def
  on_reflection_complete_def reset_def require_state_def transition_to_def record_transition_def
  add_assistant_message_from_outcome_def Let_def

lemma fsm_exec_inv: "fsm_inv m \<Longrightarrow> fsm_inv (fsm_exec call m)"
proof (cases call)
  case (Reset t)
  then show "fsm_inv m \<Longrightarrow> fsm_inv (fsm_exec call m)"
    by (cases "fsm_state m") (auto simp: fsm_inv_def handler_defs log_path_append)
qed (auto simp: fsm_inv_def handler_defs log_path_append not_less split: finish_reason.splits)

interpretation fsm: inductive_invariant fsm_init fsm_step fsm_inv
proof
  show "fsm_init m \<Longrightarrow> fsm_inv m" for m
    by (auto simp: fsm_init_def new_fsm_def fsm_inv_def rounds_since_idle_def)
  show "fsm_inv m \<Longrightarrow> fsm_step m n \<Longrightarrow> fsm_inv n" for m n
    by (auto simp: fsm_step_simps fsm_exec_inv)
qed

text \<open>A call leaves the configuration alone and only extends the log.\<close>

lemma fsm_exec_frame:
  "fsm_config (fsm_exec call m) = fsm_config m \<and>
   (\<exists>es. fsm_transitions (fsm_exec call m) = fsm_transitions m @ es \<and> length es \<le> 1)"
  by (cases call) (auto simp: handler_defs split: finish_reason.splits)

lemma fsm_reaches_exec: "reaches fsm_init fsm_step m \<Longrightarrow> reaches fsm_init fsm_step (fsm_exec c m)"
  by (rule reaches.step) (auto intro: fsm_step.intros)

text \<open>
  C32. In every run of the agent machine the log of transitions is one connected path of edges of
  the diagram, starting at \<open>Idle\<close> and ending in the current state, and the machine outside
  \<open>Idle\<close> has gone through at most the configured number of tool rounds since it last left
  \<open>Idle\<close>.
\<close>

theorem fsm_run_safe:
  assumes "reaches fsm_init fsm_step m"
  shows "log_path Idle (fsm_transitions m) (fsm_state m) \<and>
    rounds_since_idle (fsm_transitions m) \<le> fc_max_tool_rounds (fsm_config m)"
  using fsm.reachable_inv [OF assms] by (auto simp: fsm_inv_def split: if_splits)

theorem fsm_run_safe_witness:
  "let m = fsm_exec (LlmResponse \<lparr>lo_finish_reason = FinishToolUse, lo_tool_calls = [], lo_text = [],
             lo_tokens_used = 7\<rparr> 2)
           (fsm_exec (UserMessage \<lparr>cm_role = ''user'', cm_content = ''hi'', cm_tool_calls = [],
             cm_tool_call_id = None, cm_reasoning_content = None, cm_reasoning_signature = None\<rparr> 1)
           (new_fsm default_fsm_config))
   in fsm_state m = ToolUse \<and> log_path Idle (fsm_transitions m) (fsm_state m) \<and>
      rounds_since_idle (fsm_transitions m) \<le> fc_max_tool_rounds (fsm_config m)"
  (is "let m = fsm_exec ?c2 (fsm_exec ?c1 _) in _")
  unfolding Let_def
proof
  let ?m = "fsm_exec ?c2 (fsm_exec ?c1 (new_fsm default_fsm_config))"
  show "fsm_state ?m = ToolUse"
    by (simp add: handler_defs new_fsm_def default_fsm_config_def)
  have "reaches fsm_init fsm_step ?m"
    by (intro fsm_reaches_exec reaches.start) (auto simp: fsm_init_def)
  then show "log_path Idle (fsm_transitions ?m) (fsm_state ?m) \<and>
      rounds_since_idle (fsm_transitions ?m) \<le> fc_max_tool_rounds (fsm_config ?m)"
    by (rule fsm_run_safe)
qed

text \<open>
  A response is refused for the token limit exactly when the wrapped counter exceeds it, and
  the machine is then idle again; since the counter wraps, a response whose size brings the true
  total to a multiple of 2^64 is accepted with the counter back at zero, whatever the limit.
\<close>

theorem fsm_token_limit:
  assumes "fsm_state m = Thinking"
  shows "(fst (on_llm_response r t m) = Inl TokenLimitExceeded \<longleftrightarrow>
      fc_max_session_tokens (fsm_config m) < fsm_session_tokens m + lo_tokens_used r) \<and>
    (fst (on_llm_response r t m) = Inl TokenLimitExceeded \<longrightarrow>
      fsm_state (snd (on_llm_response r t m)) = Idle) \<and>
    (lo_tokens_used r = - fsm_session_tokens m \<longrightarrow>
      is_ok (fst (on_llm_response r t m)) \<and> fsm_session_tokens (snd (on_llm_response r t m)) = 0)"
  using assms by (auto simp: handler_defs split: finish_reason.splits)

theorem fsm_token_limit_witness:
  "let m = \<lparr>fsm_state = Thinking, fsm_messages = [], fsm_config = default_fsm_config,
            fsm_transitions = [], fsm_tool_round_count = 0, fsm_session_tokens = 99999\<rparr>;
       r = \<lparr>lo_finish_reason = FinishStop, lo_tool_calls = [], lo_text = [],
            lo_tokens_used = 18446744073709451617\<rparr>
   in is_ok (fst (on_llm_response r 0 m)) \<and> fsm_session_tokens (snd (on_llm_response r 0 m)) = 0"
  unfolding Let_def
  by (rule fsm_token_limit [THEN conjunct2, THEN conjunct2, rule_format]) simp_all

end
