(* ===== verification/Approval_Chain.thy ===== *)
theory Approval_Chain
  imports Zaion_Prelude
begin

text \<open>
  \<open>crates/zaion-runtime/src/approval_chain.rs\<close>: the queue of pending approvals, the session and
  permanent approvals, and the history. \<open>request_approval\<close> blocks, so it is a waiter that moves
  through the critical sections of the function one lock at a time (the phases below), interleaved
  with other waiters and with \<open>resolve_approval\<close>, \<open>clear_session\<close> and \<open>clear_session_approvals\<close>, each
  of which holds one lock throughout and is atomic. The \<open>mpsc\<close> channel of a call is named by the
  call; a ghost log keeps every response ever sent. The lemmas show that a request is answered at
  most once and in FIFO order, that an approved result always goes back to an approval that was
  sent for the same command, and that histories stay bounded.
\<close>

subsection \<open>Data\<close>

datatype approval_scope = ScopeOnce | ScopeSession | ScopePermanent

datatype approval_decision = DecApproved | DecDenied | DecTimeout

record approval_request =
  arq_request_id :: string
  arq_session_key :: string
  arq_command :: string
  arq_reason :: string
  arq_created_at :: u64
  arq_timeout_secs :: u64

text \<open>The clock and the random identifier come from outside.\<close>

definition new_request :: "u64 \<Rightarrow> string \<Rightarrow> string \<Rightarrow> string \<Rightarrow> string \<Rightarrow> approval_request" where
  "new_request now uuid_simple session_key command reason =
     \<lparr>arq_request_id = ''approval_'' @ show_nat (unat now) @ ''_'' @ take 8 uuid_simple,
      arq_session_key = session_key, arq_command = command, arq_reason = reason,
      arq_created_at = now, arq_timeout_secs = 300\<rparr>"

definition with_timeout :: "u64 \<Rightarrow> approval_request \<Rightarrow> approval_request" where
  "with_timeout timeout_secs self = self\<lparr>arq_timeout_secs := timeout_secs\<rparr>"

definition is_expired :: "u64 \<Rightarrow> approval_request \<Rightarrow> bool" where
  "is_expired now self = (now - arq_created_at self > arq_timeout_secs self)"

record approval_response =
  ars_request_id :: string
  ars_decision :: approval_decision
  ars_scope :: approval_scope
  ars_responded_at :: u64

record approval_entry =
  ae_request :: approval_request
  ae_response_tx :: nat

record approval_chain =
  ac_pending :: "string \<rightharpoonup> approval_entry list"
  ac_session_approvals :: "string \<rightharpoonup> (string \<rightharpoonup> bool)"
  ac_permanent_approvals :: "string \<rightharpoonup> bool"
  ac_history :: "string \<rightharpoonup> approval_response list"

definition new_chain :: approval_chain where
  "new_chain =
     \<lparr>ac_pending = Map.empty, ac_session_approvals = Map.empty,
      ac_permanent_approvals = Map.empty, ac_history = Map.empty\<rparr>"

subsection \<open>Critical sections\<close>

definition permanently_approved :: "string \<Rightarrow> approval_chain \<Rightarrow> bool" where
  "permanently_approved command self =
     (case ac_permanent_approvals self command of None \<Rightarrow> False | Some b \<Rightarrow> b)"

definition session_approved :: "string \<Rightarrow> string \<Rightarrow> approval_chain \<Rightarrow> bool" where
  "session_approved session_key command self =
     (case ac_session_approvals self session_key of
        None \<Rightarrow> False
      | Some session_map \<Rightarrow> (case session_map command of None \<Rightarrow> False | Some b \<Rightarrow> b))"

definition is_pre_approved :: "string \<Rightarrow> string \<Rightarrow> approval_chain \<Rightarrow> bool" where
  "is_pre_approved session_key command self =
     (if permanently_approved command self then True
      else if session_approved session_key command self then True
      else False)"

definition enqueue :: "approval_request \<Rightarrow> nat \<Rightarrow> approval_chain \<Rightarrow> approval_chain" where
  "enqueue request tx self =
     (let queue = (case ac_pending self (arq_session_key request) of None \<Rightarrow> [] | Some q \<Rightarrow> q)
      in self\<lparr>ac_pending := (ac_pending self)(arq_session_key request \<mapsto>
           queue @ [\<lparr>ae_request = request, ae_response_tx = tx\<rparr>])\<rparr>)"

definition apply_approval_scope ::
  "string \<Rightarrow> string \<Rightarrow> approval_response \<Rightarrow> approval_chain \<Rightarrow> approval_chain" where
  "apply_approval_scope session_key command response self =
     (if ars_decision response \<noteq> DecApproved then self
      else (case ars_scope response of
          ScopeOnce \<Rightarrow> self
        | ScopeSession \<Rightarrow>
            let session_map = (case ac_session_approvals self session_key of None \<Rightarrow> Map.empty | Some m \<Rightarrow> m)
            in self\<lparr>ac_session_approvals :=
                 (ac_session_approvals self)(session_key \<mapsto> session_map(command \<mapsto> True))\<rparr>
        | ScopePermanent \<Rightarrow>
            self\<lparr>ac_permanent_approvals := (ac_permanent_approvals self)(command \<mapsto> True)\<rparr>))"

definition remove_pending_request :: "string \<Rightarrow> string \<Rightarrow> approval_chain \<Rightarrow> approval_chain" where
  "remove_pending_request session_key request_id self =
     (case ac_pending self session_key of
        None \<Rightarrow> self
      | Some queue \<Rightarrow>
          self\<lparr>ac_pending := (ac_pending self)(session_key \<mapsto>
            filter (\<lambda>e. arq_request_id (ae_request e) \<noteq> request_id) queue)\<rparr>)"

fun keep_last_100 :: "'a list \<Rightarrow> 'a list" where
  "keep_last_100 [] = []"
| "keep_last_100 (x # xs) = (if length (x # xs) > 100 then keep_last_100 xs else x # xs)"

definition add_to_history :: "string \<Rightarrow> approval_response \<Rightarrow> approval_chain \<Rightarrow> approval_chain" where
  "add_to_history session_key response self =
     (let session_history = (case ac_history self session_key of None \<Rightarrow> [] | Some h \<Rightarrow> h)
      in self\<lparr>ac_history := (ac_history self)(session_key \<mapsto> keep_last_100 (session_history @ [response]))\<rparr>)"

text \<open>
  Draining a queue sends one response per entry; \<open>clock i\<close> is the time read for the i-th of them.
\<close>

fun drain ::
  "approval_decision \<Rightarrow> approval_scope \<Rightarrow> (nat \<Rightarrow> u64) \<Rightarrow> nat \<Rightarrow> approval_entry list \<Rightarrow>
     (nat \<times> approval_response) list" where
  "drain decision scope clock i [] = []"
| "drain decision scope clock i (entry # queue) =
     (ae_response_tx entry,
      \<lparr>ars_request_id = arq_request_id (ae_request entry), ars_decision = decision, ars_scope = scope,
       ars_responded_at = clock i\<rparr>) # drain decision scope clock (Suc i) queue"

definition resolve_approval ::
  "string \<Rightarrow> approval_decision \<Rightarrow> approval_scope \<Rightarrow> bool \<Rightarrow> (nat \<Rightarrow> u64) \<Rightarrow> approval_chain \<Rightarrow>
     nat \<times> (nat \<times> approval_response) list \<times> approval_chain" where
  "resolve_approval session_key decision scope resolve_all clock self =
     (case ac_pending self session_key of
        None \<Rightarrow> (0, [], self)
      | Some queue \<Rightarrow>
          if resolve_all then
            (length queue, drain decision scope clock 0 queue,
             self\<lparr>ac_pending := (ac_pending self)(session_key \<mapsto> [])\<rparr>)
          else (case queue of
              entry # rest \<Rightarrow>
                (1, drain decision scope clock 0 [entry],
                 self\<lparr>ac_pending := (ac_pending self)(session_key \<mapsto> rest)\<rparr>)
            | [] \<Rightarrow> (0, [], self)))"

definition clear_session ::
  "string \<Rightarrow> (nat \<Rightarrow> u64) \<Rightarrow> approval_chain \<Rightarrow> nat \<times> (nat \<times> approval_response) list \<times> approval_chain" where
  "clear_session session_key clock self =
     (case ac_pending self session_key of
        Some queue \<Rightarrow>
          (length queue, drain DecDenied ScopeOnce clock 0 queue,
           self\<lparr>ac_pending := (ac_pending self)(session_key := None)\<rparr>)
      | None \<Rightarrow> (0, [], self))"

definition clear_session_approvals :: "string \<Rightarrow> approval_chain \<Rightarrow> approval_chain" where
  "clear_session_approvals session_key self =
     self\<lparr>ac_session_approvals := (ac_session_approvals self)(session_key := None)\<rparr>"

definition pending_count :: "string \<Rightarrow> approval_chain \<Rightarrow> nat" where
  "pending_count session_key self =
     (case ac_pending self session_key of None \<Rightarrow> 0 | Some q \<Rightarrow> length q)"

definition list_pending :: "string \<Rightarrow> approval_chain \<Rightarrow> approval_request list" where
  "list_pending session_key self =
     (case ac_pending self session_key of None \<Rightarrow> [] | Some q \<Rightarrow> map ae_request q)"

definition get_history :: "string \<Rightarrow> nat \<Rightarrow> approval_chain \<Rightarrow> approval_response list" where
  "get_history session_key limit self =
     (case ac_history self session_key of None \<Rightarrow> [] | Some h \<Rightarrow> take limit (rev h))"

subsection \<open>Concurrent calls\<close>

datatype waiter_phase =
  CheckPermanent
  | CheckSession
  | Enqueue
  | Waiting
  | Received approval_response
  | Applied approval_response
  | TimedOut
  | Recording approval_response
  | Returned "string + approval_response"

record approval_system =
  sys_chain :: approval_chain
  sys_inbox :: "nat \<Rightarrow> approval_response list"
  sys_waiters :: "nat \<rightharpoonup> approval_request \<times> waiter_phase"
  sys_sent :: "(nat \<times> approval_response) list"

definition new_system :: approval_system where
  "new_system =
     \<lparr>sys_chain = new_chain, sys_inbox = (\<lambda>_. []), sys_waiters = Map.empty, sys_sent = []\<rparr>"

definition pre_approved_response :: "approval_request \<Rightarrow> u64 \<Rightarrow> approval_response" where
  "pre_approved_response request now =
     \<lparr>ars_request_id = arq_request_id request, ars_decision = DecApproved, ars_scope = ScopeSession,
      ars_responded_at = now\<rparr>"

definition timeout_response :: "approval_request \<Rightarrow> u64 \<Rightarrow> approval_response" where
  "timeout_response request now =
     \<lparr>ars_request_id = arq_request_id request, ars_decision = DecTimeout, ars_scope = ScopeOnce,
      ars_responded_at = now\<rparr>"

text \<open>
  One critical section of \<open>request_approval\<close> for call \<open>t\<close>; \<open>None\<close> when the call cannot move.
  \<open>expired\<close> says whether \<open>recv_timeout\<close> gives up (by timeout or because the sender was dropped);
  it does so only when no response has arrived.
\<close>

definition request_step :: "nat \<Rightarrow> bool \<Rightarrow> u64 \<Rightarrow> approval_system \<Rightarrow> approval_system option" where
  "request_step t expired now s =
     (case sys_waiters s t of
        None \<Rightarrow> None
      | Some (request, phase) \<Rightarrow>
          let goto = (\<lambda>p s. s\<lparr>sys_waiters := (sys_waiters s)(t \<mapsto> (request, p))\<rparr>);
              session_key = arq_session_key request;
              command = arq_command request
          in (case phase of
              CheckPermanent \<Rightarrow>
                if permanently_approved command (sys_chain s)
                then Some (goto (Returned (Inr (pre_approved_response request now))) s)
                else Some (goto CheckSession s)
            | CheckSession \<Rightarrow>
                if session_approved session_key command (sys_chain s)
                then Some (goto (Returned (Inr (pre_approved_response request now))) s)
                else Some (goto Enqueue s)
            | Enqueue \<Rightarrow> Some (goto Waiting (s\<lparr>sys_chain := enqueue request t (sys_chain s)\<rparr>))
            | Waiting \<Rightarrow>
                (case sys_inbox s t of
                   response # rest \<Rightarrow>
                     Some (goto (Received response) (s\<lparr>sys_inbox := (sys_inbox s)(t := rest)\<rparr>))
                 | [] \<Rightarrow> if expired then Some (goto TimedOut s) else None)
            | Received response \<Rightarrow>
                Some (goto (Applied response)
                  (s\<lparr>sys_chain := apply_approval_scope session_key command response (sys_chain s)\<rparr>))
            | Applied response \<Rightarrow>
                Some (goto (Returned (Inr response))
                  (s\<lparr>sys_chain := add_to_history session_key response (sys_chain s)\<rparr>))
            | TimedOut \<Rightarrow>
                Some (goto (Recording (timeout_response request now))
                  (s\<lparr>sys_chain := remove_pending_request session_key (arq_request_id request) (sys_chain s)\<rparr>))
            | Recording response \<Rightarrow>
                Some (goto (Returned (Inl ''Approval request timed out''))
                  (s\<lparr>sys_chain := add_to_history session_key response (sys_chain s)\<rparr>))
            | Returned _ \<Rightarrow> None))"

fun deliver :: "(nat \<times> approval_response) list \<Rightarrow> approval_system \<Rightarrow> approval_system" where
  "deliver [] s = s"
| "deliver ((tx, response) # msgs) s =
     deliver msgs (s\<lparr>sys_inbox := (sys_inbox s)(tx := sys_inbox s tx @ [response]),
                     sys_sent := sys_sent s @ [(tx, response)]\<rparr>)"

inductive approval_step :: "approval_system \<Rightarrow> approval_system \<Rightarrow> bool" where
  call: "sys_waiters s t = None \<Longrightarrow>
    approval_step s (s\<lparr>sys_waiters := (sys_waiters s)(t \<mapsto> (request, CheckPermanent))\<rparr>)"
| request: "request_step t expired now s = Some s' \<Longrightarrow> approval_step s s'"
| resolve: "resolve_approval key decision scope resolve_all clock (sys_chain s) = (count, msgs, c) \<Longrightarrow>
    approval_step s (deliver msgs (s\<lparr>sys_chain := c\<rparr>))"
| clear: "clear_session key clock (sys_chain s) = (count, msgs, c) \<Longrightarrow>
    approval_step s (deliver msgs (s\<lparr>sys_chain := c\<rparr>))"
| clear_approvals: "approval_step s (s\<lparr>sys_chain := clear_session_approvals key (sys_chain s)\<rparr>)"

inductive_cases approval_stepE: "approval_step s t"

subsection \<open>Sequential facts\<close>

lemma keep_last_100_eq: "keep_last_100 xs = drop (length xs - 100) xs"
  by (induction xs) (auto simp: drop_Cons')

lemma keep_last_100_length: "length (keep_last_100 xs) \<le> 100"
  by (simp add: keep_last_100_eq)

lemma drain_channels: "map fst (drain d sc clock i q) = map ae_response_tx q"
  by (induction q arbitrary: i) auto

lemma drain_length [simp]: "length (drain d sc clock i q) = length q"
  by (induction q arbitrary: i) auto

lemma drain_responses:
  "(t, r) \<in> set (drain d sc clock i q) \<Longrightarrow>
     ars_decision r = d \<and> ars_scope r = sc \<and>
     (\<exists>e \<in> set q. ae_response_tx e = t \<and> ars_request_id r = arq_request_id (ae_request e))"
  by (induction q arbitrary: i) auto

text \<open>Both ways of answering pop a prefix of the session's queue and answer exactly its entries.\<close>

lemma resolve_pops:
  assumes "resolve_approval key d sc all clock c = (n, msgs, c')"
  shows "\<exists>popped rest. (case ac_pending c key of None \<Rightarrow> [] | Some q \<Rightarrow> q) = popped @ rest \<and>
    msgs = drain d sc clock 0 popped \<and> n = length popped \<and>
    (all \<longrightarrow> rest = []) \<and> (\<not> all \<longrightarrow> length popped \<le> 1) \<and> (popped = [] \<longrightarrow> rest = []) \<and>
    c' = (if ac_pending c key = None then c else c\<lparr>ac_pending := (ac_pending c)(key \<mapsto> rest)\<rparr>)"
proof (cases "ac_pending c key")
  case None
  then show ?thesis
    using assms by (auto simp: resolve_approval_def)
next
  case (Some q)
  show ?thesis
  proof (cases all)
    case True
    then show ?thesis
      using assms Some
      by (intro exI [of _ q] exI [of _ "[]"]) (auto simp: resolve_approval_def)
  next
    case False
    then show ?thesis
      using assms Some
      by (intro exI [of _ "take 1 q"] exI [of _ "drop 1 q"])
        (cases q; auto simp: resolve_approval_def fun_upd_idem)
  qed
qed

lemma clear_session_eq:
  "clear_session key clock c =
     (case ac_pending c key of
        None \<Rightarrow> (0, [], c)
      | Some q \<Rightarrow> (length q, drain DecDenied ScopeOnce clock 0 q, c\<lparr>ac_pending := (ac_pending c)(key := None)\<rparr>))"
  by (auto simp: clear_session_def split: option.splits)

lemma deliver_eq:
  "deliver msgs s =
     s\<lparr>sys_inbox := (\<lambda>t. sys_inbox s t @ map snd (filter (\<lambda>m. fst m = t) msgs)),
       sys_sent := sys_sent s @ msgs\<rparr>"
  by (induction msgs s rule: deliver.induct) (auto intro!: approval_system.equality)

subsection \<open>The invariant\<close>

definition granted :: "approval_system \<Rightarrow> string \<Rightarrow> string \<Rightarrow> bool" where
  "granted s session_key command =
     (\<exists>t r request p. (t, r) \<in> set (sys_sent s) \<and> sys_waiters s t = Some (request, p) \<and>
        arq_command request = command \<and> ars_decision r = DecApproved \<and>
        (ars_scope r = ScopePermanent \<or> ars_scope r = ScopeSession \<and> arq_session_key request = session_key))"

definition pending_inv :: "approval_system \<Rightarrow> bool" where
  "pending_inv s =
     (\<forall>key q. ac_pending (sys_chain s) key = Some q \<longrightarrow>
        distinct (map ae_response_tx q) \<and>
        (\<forall>e \<in> set q. arq_session_key (ae_request e) = key \<and> ae_response_tx e \<notin> fst ` set (sys_sent s) \<and>
           (\<exists>p \<in> {Waiting, TimedOut}. sys_waiters s (ae_response_tx e) = Some (ae_request e, p))))"

definition sent_inv :: "approval_system \<Rightarrow> bool" where
  "sent_inv s =
     (distinct (map fst (sys_sent s)) \<and>
      (\<forall>t \<in> fst ` set (sys_sent s).
         \<exists>request p. sys_waiters s t = Some (request, p) \<and> p \<notin> {CheckPermanent, CheckSession, Enqueue}) \<and>
      (\<forall>t r. r \<in> set (sys_inbox s t) \<longrightarrow> (t, r) \<in> set (sys_sent s)))"

definition phase_inv :: "approval_system \<Rightarrow> bool" where
  "phase_inv s =
     (\<forall>t request p. sys_waiters s t = Some (request, p) \<longrightarrow>
        (\<forall>r. p = Received r \<or> p = Applied r \<longrightarrow> (t, r) \<in> set (sys_sent s)) \<and>
        (\<forall>r. p = Returned (Inr r) \<longrightarrow>
           (t, r) \<in> set (sys_sent s) \<or> granted s (arq_session_key request) (arq_command request)))"

definition grant_inv :: "approval_system \<Rightarrow> bool" where
  "grant_inv s =
     (\<forall>key command.
        (permanently_approved command (sys_chain s) \<longrightarrow> granted s key command) \<and>
        (session_approved key command (sys_chain s) \<longrightarrow> granted s key command))"

definition history_inv :: "approval_system \<Rightarrow> bool" where
  "history_inv s = (\<forall>key h. ac_history (sys_chain s) key = Some h \<longrightarrow> length h \<le> 100)"

definition approval_inv :: "approval_system \<Rightarrow> bool" where
  "approval_inv s = (pending_inv s \<and> sent_inv s \<and> phase_inv s \<and> grant_inv s \<and> history_inv s)"

text \<open>Requests keep their waiter and sent responses stay in the log, so a grant persists.\<close>

lemma granted_mono:
  assumes "granted s k c" and "set (sys_sent s) \<subseteq> set (sys_sent s')"
    and "\<And>t request p. sys_waiters s t = Some (request, p) \<Longrightarrow> \<exists>p'. sys_waiters s' t = Some (request, p')"
  shows "granted s' k c"
proof -
  obtain t r request p where g: "(t, r) \<in> set (sys_sent s)" "sys_waiters s t = Some (request, p)"
    "arq_command request = c" "ars_decision r = DecApproved"
    "ars_scope r = ScopePermanent \<or> ars_scope r = ScopeSession \<and> arq_session_key request = k"
    using assms(1) unfolding granted_def by blast
  obtain p' where "sys_waiters s' t = Some (request, p')"
    using assms(3) g(2) by blast
  then show ?thesis
    unfolding granted_def using g assms(2) by blast
qed

lemma granted_goto [simp]:
  assumes "sys_waiters s t = Some (request, p)"
  shows "granted (s\<lparr>sys_waiters := (sys_waiters s)(t \<mapsto> (request, p'))\<rparr>) k c = granted s k c"
proof
  let ?s = "s\<lparr>sys_waiters := (sys_waiters s)(t \<mapsto> (request, p'))\<rparr>"
  assume "granted ?s k c"
  then show "granted s k c"
    by (rule granted_mono) (use assms in \<open>auto split: if_splits\<close>)
next
  assume "granted s k c"
  then show "granted (s\<lparr>sys_waiters := (sys_waiters s)(t \<mapsto> (request, p'))\<rparr>) k c"
    by (rule granted_mono) (use assms in auto)
qed

lemma granted_frame [simp]:
  "granted (s\<lparr>sys_chain := x\<rparr>) k c = granted s k c"
  "granted (s\<lparr>sys_inbox := y\<rparr>) k c = granted s k c"
  by (simp_all add: granted_def)

subsection \<open>Every step keeps the invariant\<close>

lemmas inv_defs = approval_inv_def pending_inv_def sent_inv_def phase_inv_def grant_inv_def history_inv_def

text \<open>A call that starts or moves on without touching the chain.\<close>

lemma goto_inv:
  assumes "approval_inv s" and "sys_waiters s t = Some (request, p)"
    and "p \<notin> {Waiting, TimedOut}" and "p' \<in> {CheckSession, Enqueue} \<Longrightarrow> p \<in> {CheckPermanent, CheckSession}"
    and "p' \<noteq> CheckPermanent"
    and "\<And>r. p' = Received r \<or> p' = Applied r \<Longrightarrow> (t, r) \<in> set (sys_sent s)"
    and "\<And>r. p' = Returned (Inr r) \<Longrightarrow>
      (t, r) \<in> set (sys_sent s) \<or> granted s (arq_session_key request) (arq_command request)"
  shows "approval_inv (s\<lparr>sys_waiters := (sys_waiters s)(t \<mapsto> (request, p'))\<rparr>)"
proof -
  let ?s = "s\<lparr>sys_waiters := (sys_waiters s)(t \<mapsto> (request, p'))\<rparr>"
  have i: "pending_inv s" "sent_inv s" "phase_inv s" "grant_inv s" "history_inv s"
    using assms(1) by (simp_all add: approval_inv_def)
  have "pending_inv ?s"
    using i(1) assms(2,3) unfolding pending_inv_def by fastforce
  moreover have "sent_inv ?s"
    using i(2) assms(2,4,5) unfolding sent_inv_def by fastforce
  moreover have "phase_inv ?s"
    using i(3) assms(2,6,7) unfolding phase_inv_def by (auto simp: granted_goto [OF assms(2)])
  moreover have "grant_inv ?s"
    using i(4) assms(2) unfolding grant_inv_def by (simp add: granted_goto [OF assms(2)])
  moreover have "history_inv ?s"
    using i(5) by (simp add: history_inv_def)
  ultimately show ?thesis
    by (simp add: approval_inv_def)
qed

lemma history_step_inv:
  "approval_inv s \<Longrightarrow> approval_inv (s\<lparr>sys_chain := add_to_history k r (sys_chain s)\<rparr>)"
  by (auto simp: inv_defs add_to_history_def Let_def permanently_approved_def session_approved_def
      keep_last_100_length)

lemma clear_approvals_inv:
  "approval_inv s \<Longrightarrow> approval_inv (s\<lparr>sys_chain := clear_session_approvals k (sys_chain s)\<rparr>)"
  by (auto simp: inv_defs clear_session_approvals_def permanently_approved_def session_approved_def)

lemma apply_scope_grants:
  "permanently_approved c (apply_approval_scope k d r ch) \<longleftrightarrow>
     permanently_approved c ch \<or> c = d \<and> ars_decision r = DecApproved \<and> ars_scope r = ScopePermanent"
  "session_approved key c (apply_approval_scope k d r ch) \<longleftrightarrow>
     session_approved key c ch \<or>
     key = k \<and> c = d \<and> ars_decision r = DecApproved \<and> ars_scope r = ScopeSession"
  "ac_pending (apply_approval_scope k d r ch) = ac_pending ch"
  "ac_history (apply_approval_scope k d r ch) = ac_history ch"
  by (auto simp: apply_approval_scope_def permanently_approved_def session_approved_def Let_def
      split: approval_scope.splits option.splits)

lemma apply_scope_inv:
  assumes "approval_inv s" and "sys_waiters s t = Some (request, p)" and "(t, r) \<in> set (sys_sent s)"
  shows "approval_inv (s\<lparr>sys_chain :=
    apply_approval_scope (arq_session_key request) (arq_command request) r (sys_chain s)\<rparr>)"
proof -
  have g: "ars_decision r = DecApproved \<Longrightarrow> ars_scope r = ScopePermanent \<Longrightarrow> granted s k (arq_command request)"
    "ars_decision r = DecApproved \<Longrightarrow> ars_scope r = ScopeSession \<Longrightarrow>
      granted s (arq_session_key request) (arq_command request)" for k
    using assms(2,3) unfolding granted_def by blast+
  then show ?thesis
    using assms(1) by (auto simp: inv_defs apply_scope_grants)
qed

lemma enqueue_inv:
  assumes inv: "approval_inv s" and w: "sys_waiters s t = Some (request, Enqueue)"
  shows "approval_inv (s\<lparr>sys_chain := enqueue request t (sys_chain s),
    sys_waiters := (sys_waiters s)(t \<mapsto> (request, Waiting))\<rparr>)" (is "approval_inv ?s")
proof -
  let ?ch = "enqueue request t (sys_chain s)"
  let ?q = "case ac_pending (sys_chain s) (arq_session_key request) of None \<Rightarrow> [] | Some q \<Rightarrow> q"
  have i: "pending_inv s" "sent_inv s" "phase_inv s" "grant_inv s" "history_inv s"
    using inv by (simp_all add: approval_inv_def)
  have frame: "permanently_approved c ?ch = permanently_approved c (sys_chain s)"
    "session_approved k c ?ch = session_approved k c (sys_chain s)"
    "ac_history ?ch = ac_history (sys_chain s)"
    "ac_pending ?ch = (ac_pending (sys_chain s))(arq_session_key request \<mapsto>
       ?q @ [\<lparr>ae_request = request, ae_response_tx = t\<rparr>])" for c k
    by (simp_all add: enqueue_def Let_def permanently_approved_def session_approved_def)
  have g: "granted ?s k c = granted s k c" for k c
    using granted_goto [of "s\<lparr>sys_chain := ?ch\<rparr>" t request Enqueue Waiting k c] w by simp
  have fresh: "t \<notin> fst ` set (sys_sent s)"
    using i(2) w by (auto simp: sent_inv_def)
  have "\<And>key q e. ac_pending (sys_chain s) key = Some q \<Longrightarrow> e \<in> set q \<Longrightarrow> ae_response_tx e \<noteq> t"
    using i(1) w unfolding pending_inv_def by fastforce
  then have "pending_inv ?s"
    using i(1) fresh unfolding pending_inv_def
    by (auto simp: frame(4) split: option.splits if_splits)
  moreover have "sent_inv ?s"
    using i(2) w unfolding sent_inv_def by fastforce
  moreover have "phase_inv ?s"
    using i(3) by (auto simp: phase_inv_def g)
  moreover have "grant_inv ?s" "history_inv ?s"
    using i(4,5) by (simp_all add: grant_inv_def history_inv_def g frame)
  ultimately show ?thesis
    by (simp add: approval_inv_def)
qed

lemma receive_inv:
  assumes inv: "approval_inv s" and w: "sys_waiters s t = Some (request, Waiting)"
    and box: "sys_inbox s t = r # rest"
  shows "approval_inv (s\<lparr>sys_inbox := (sys_inbox s)(t := rest),
    sys_waiters := (sys_waiters s)(t \<mapsto> (request, Received r))\<rparr>)" (is "approval_inv ?s")
proof -
  have i: "pending_inv s" "sent_inv s" "phase_inv s" "grant_inv s" "history_inv s"
    using inv by (simp_all add: approval_inv_def)
  have sent: "(t, r) \<in> set (sys_sent s)" "\<And>x. x \<in> set rest \<Longrightarrow> (t, x) \<in> set (sys_sent s)"
    using i(2) box unfolding sent_inv_def by auto
  have g: "granted ?s k c = granted s k c" for k c
    using granted_goto [of "s\<lparr>sys_inbox := (sys_inbox s)(t := rest)\<rparr>" t request Waiting "Received r" k c] w
    by simp
  have "\<And>key q e. ac_pending (sys_chain s) key = Some q \<Longrightarrow> e \<in> set q \<Longrightarrow> ae_response_tx e \<noteq> t"
    using i(1) sent(1) unfolding pending_inv_def by force
  then have "pending_inv ?s"
    using i(1) unfolding pending_inv_def by auto
  moreover have "sent_inv ?s"
    using i(2) sent(2) unfolding sent_inv_def by auto
  moreover have "phase_inv ?s"
    using i(3) sent(1) by (auto simp: phase_inv_def g)
  moreover have "grant_inv ?s" "history_inv ?s"
    using i(4,5) by (simp_all add: grant_inv_def history_inv_def g)
  ultimately show ?thesis
    by (simp add: approval_inv_def)
qed

lemma timeout_inv:
  assumes inv: "approval_inv s" and w: "sys_waiters s t = Some (request, Waiting)"
  shows "approval_inv (s\<lparr>sys_waiters := (sys_waiters s)(t \<mapsto> (request, TimedOut))\<rparr>)" (is "approval_inv ?s")
proof -
  have i: "pending_inv s" "sent_inv s" "phase_inv s" "grant_inv s" "history_inv s"
    using inv by (simp_all add: approval_inv_def)
  have g: "granted ?s k c = granted s k c" for k c
    by (rule granted_goto [OF w])
  have "pending_inv ?s"
    using i(1) w unfolding pending_inv_def by fastforce
  moreover have "sent_inv ?s"
    using i(2) w unfolding sent_inv_def by fastforce
  moreover have "phase_inv ?s" "grant_inv ?s" "history_inv ?s"
    using i(3,4,5) by (auto simp: phase_inv_def grant_inv_def history_inv_def g)
  ultimately show ?thesis
    by (simp add: approval_inv_def)
qed

lemma remove_pending_inv:
  assumes inv: "approval_inv s" and w: "sys_waiters s t = Some (request, TimedOut)"
  shows "approval_inv (s\<lparr>sys_chain :=
      remove_pending_request (arq_session_key request) (arq_request_id request) (sys_chain s),
    sys_waiters := (sys_waiters s)(t \<mapsto> (request, Recording r))\<rparr>)" (is "approval_inv ?s")
proof -
  let ?ch = "remove_pending_request (arq_session_key request) (arq_request_id request) (sys_chain s)"
  have i: "pending_inv s" "sent_inv s" "phase_inv s" "grant_inv s" "history_inv s"
    using inv by (simp_all add: approval_inv_def)
  have frame: "permanently_approved c ?ch = permanently_approved c (sys_chain s)"
    "session_approved k c ?ch = session_approved k c (sys_chain s)"
    "ac_history ?ch = ac_history (sys_chain s)" for c k
    by (simp_all add: remove_pending_request_def permanently_approved_def session_approved_def
        split: option.splits)
  have pend: "\<exists>q'. ac_pending (sys_chain s) key = Some q' \<and> q = filter P q' \<and>
      (key = arq_session_key request \<longrightarrow> P = (\<lambda>e. arq_request_id (ae_request e) \<noteq> arq_request_id request))"
    if "ac_pending ?ch key = Some q" "P = (if key = arq_session_key request
      then (\<lambda>e. arq_request_id (ae_request e) \<noteq> arq_request_id request) else (\<lambda>_. True))" for key q P
    using that by (auto simp: remove_pending_request_def split: option.splits if_splits)
  have g: "granted ?s k c = granted s k c" for k c
    using granted_goto [of "s\<lparr>sys_chain := ?ch\<rparr>" t request TimedOut "Recording r" k c] w by simp
  have "pending_inv ?s"
    unfolding pending_inv_def
  proof (intro allI impI conjI ballI)
    fix key q assume "ac_pending (sys_chain ?s) key = Some q"
    then have "ac_pending ?ch key = Some q" by simp
    from pend [OF this refl] obtain q' P where q': "ac_pending (sys_chain s) key = Some q'" "q = filter P q'"
      and P: "key = arq_session_key request \<longrightarrow> P = (\<lambda>e. arq_request_id (ae_request e) \<noteq> arq_request_id request)"
      by blast
    show "distinct (map ae_response_tx q)"
      using i(1) q' unfolding pending_inv_def by (simp add: distinct_map_filter)
    fix e assume e: "e \<in> set q"
    then have "e \<in> set q'" using q' by auto
    then have old: "arq_session_key (ae_request e) = key" "ae_response_tx e \<notin> fst ` set (sys_sent s)"
      "\<exists>p \<in> {Waiting, TimedOut}. sys_waiters s (ae_response_tx e) = Some (ae_request e, p)"
      using i(1) q'(1) unfolding pending_inv_def by blast+
    then have "ae_response_tx e \<noteq> t"
      using w e q'(2) P by auto
    then show "arq_session_key (ae_request e) = key" "ae_response_tx e \<notin> fst ` set (sys_sent ?s)"
      "\<exists>p \<in> {Waiting, TimedOut}. sys_waiters ?s (ae_response_tx e) = Some (ae_request e, p)"
      using old by simp_all
  qed
  moreover have "sent_inv ?s"
    using i(2) w unfolding sent_inv_def by fastforce
  moreover have "phase_inv ?s" "grant_inv ?s" "history_inv ?s"
    using i(3,4,5) by (auto simp: phase_inv_def grant_inv_def history_inv_def g frame)
  ultimately show ?thesis
    by (simp add: approval_inv_def)
qed

text \<open>Answering a prefix of one queue.\<close>

lemma pop_inv:
  assumes inv: "approval_inv s"
    and q: "ac_pending (sys_chain s) key = Some (popped @ rest)"
    and msgs: "map fst msgs = map ae_response_tx popped"
    and v: "v = Some rest \<or> v = None"
  shows "approval_inv (deliver msgs (s\<lparr>sys_chain := (sys_chain s)\<lparr>ac_pending :=
    (ac_pending (sys_chain s))(key := v)\<rparr>\<rparr>))" (is "approval_inv ?s")
proof -
  have i: "pending_inv s" "sent_inv s" "phase_inv s" "grant_inv s" "history_inv s"
    using inv by (simp_all add: approval_inv_def)
  have sent: "sys_sent ?s = sys_sent s @ msgs" "sys_waiters ?s = sys_waiters s"
    by (simp_all add: deliver_eq)
  have frame: "permanently_approved c (sys_chain ?s) = permanently_approved c (sys_chain s)"
    "session_approved k c (sys_chain ?s) = session_approved k c (sys_chain s)"
    "ac_history (sys_chain ?s) = ac_history (sys_chain s)" for c k
    by (simp_all add: deliver_eq permanently_approved_def session_approved_def)
  have g: "granted s k c \<Longrightarrow> granted ?s k c" for k c
    by (erule granted_mono) (auto simp: sent)
  have fsts: "fst ` set msgs = ae_response_tx ` set popped"
    using msgs by (metis list.set_map)
  have queue: "distinct (map ae_response_tx (popped @ rest))"
    "\<And>e. e \<in> set (popped @ rest) \<Longrightarrow> arq_session_key (ae_request e) = key \<and>
      ae_response_tx e \<notin> fst ` set (sys_sent s) \<and>
      (\<exists>p \<in> {Waiting, TimedOut}. sys_waiters s (ae_response_tx e) = Some (ae_request e, p))"
    using i(1) q unfolding pending_inv_def by blast+
  have "pending_inv ?s"
    unfolding pending_inv_def
  proof (intro allI impI conjI ballI)
    fix k' q' assume "ac_pending (sys_chain ?s) k' = Some q'"
    then have q': "if k' = key then q' = rest else ac_pending (sys_chain s) k' = Some q'"
      using v by (auto simp: deliver_eq split: if_splits)
    then show "distinct (map ae_response_tx q')"
      using queue(1) i(1) by (auto simp: pending_inv_def split: if_splits)
    fix e assume e: "e \<in> set q'"
    have old: "arq_session_key (ae_request e) = k' \<and> ae_response_tx e \<notin> fst ` set (sys_sent s) \<and>
        (\<exists>p \<in> {Waiting, TimedOut}. sys_waiters s (ae_response_tx e) = Some (ae_request e, p))"
      using q' e queue(2) [of e] i(1) by (auto simp: pending_inv_def split: if_splits)
    have "ae_response_tx e \<notin> ae_response_tx ` set popped"
    proof (cases "k' = key")
      case True
      then show ?thesis
        using queue(1) q' e by (auto simp: disjoint_iff)
    next
      case False
      show ?thesis
      proof
        assume "ae_response_tx e \<in> ae_response_tx ` set popped"
        then obtain e' where "e' \<in> set popped" "ae_response_tx e = ae_response_tx e'" by blast
        then have "ae_request e = ae_request e'"
          using queue(2) [of e'] old by auto
        then show False
          using queue(2) [of e'] old False \<open>e' \<in> set popped\<close> by auto
      qed
    qed
    then show "ae_response_tx e \<notin> fst ` set (sys_sent ?s)"
      using old fsts by (auto simp: sent)
    show "arq_session_key (ae_request e) = k'"
      "\<exists>p \<in> {Waiting, TimedOut}. sys_waiters ?s (ae_response_tx e) = Some (ae_request e, p)"
      using old by (simp_all add: sent)
  qed
  moreover have "sent_inv ?s"
    unfolding sent_inv_def
  proof (intro conjI allI impI ballI)
    have "fst ` set (sys_sent s) \<inter> fst ` set msgs = {}"
      using queue(2) unfolding fsts by force
    then show "distinct (map fst (sys_sent ?s))"
      using i(2) queue(1) msgs fsts by (simp add: sent sent_inv_def)
    show "\<exists>request p. sys_waiters ?s t = Some (request, p) \<and> p \<notin> {CheckPermanent, CheckSession, Enqueue}"
      if "t \<in> fst ` set (sys_sent ?s)" for t
    proof (cases "t \<in> fst ` set (sys_sent s)")
      case True
      then show ?thesis
        using i(2) unfolding sent sent_inv_def by blast
    next
      case False
      then have "t \<in> ae_response_tx ` set popped"
        using that fsts by (auto simp: sent)
      then show ?thesis
        using queue(2) by (fastforce simp: sent)
    qed
    show "(t, r) \<in> set (sys_sent ?s)" if "r \<in> set (sys_inbox ?s t)" for t r
      using that i(2) by (auto simp: deliver_eq sent_inv_def)
  qed
  moreover have "phase_inv ?s"
    using i(3) g unfolding phase_inv_def sent by (metis UnCI set_append)
  moreover have "grant_inv ?s" "history_inv ?s"
    using i(4,5) g by (auto simp: grant_inv_def history_inv_def frame)
  ultimately show ?thesis
    by (simp add: approval_inv_def)
qed

lemma deliver_nothing: "deliver [] (s\<lparr>sys_chain := sys_chain s\<rparr>) = s"
  by simp

lemma resolve_inv:
  assumes "approval_inv s" and "resolve_approval key d sc all clock (sys_chain s) = (n, msgs, c)"
  shows "approval_inv (deliver msgs (s\<lparr>sys_chain := c\<rparr>))"
proof -
  from resolve_pops [OF assms(2)] obtain popped rest where
    r: "(case ac_pending (sys_chain s) key of None \<Rightarrow> [] | Some q \<Rightarrow> q) = popped @ rest"
    "msgs = drain d sc clock 0 popped"
    "c = (if ac_pending (sys_chain s) key = None then sys_chain s
      else (sys_chain s)\<lparr>ac_pending := (ac_pending (sys_chain s))(key \<mapsto> rest)\<rparr>)"
    by blast
  show ?thesis
  proof (cases "ac_pending (sys_chain s) key")
    case None
    then show ?thesis
      using r assms(1) by simp
  next
    case (Some q)
    then show ?thesis
      using r pop_inv [OF assms(1), of key popped rest msgs "Some rest"] by (simp add: drain_channels)
  qed
qed

lemma clear_inv:
  assumes "approval_inv s" and "clear_session key clock (sys_chain s) = (n, msgs, c)"
  shows "approval_inv (deliver msgs (s\<lparr>sys_chain := c\<rparr>))"
proof (cases "ac_pending (sys_chain s) key")
  case None
  then show ?thesis
    using assms by (auto simp: clear_session_eq)
next
  case (Some q)
  then have "msgs = drain DecDenied ScopeOnce clock 0 q"
    "c = (sys_chain s)\<lparr>ac_pending := (ac_pending (sys_chain s))(key := None)\<rparr>"
    using assms(2) by (auto simp: clear_session_eq)
  then show ?thesis
    using Some pop_inv [OF assms(1), of key q "[]" msgs None] by (simp add: drain_channels)
qed

lemma call_inv:
  assumes "approval_inv s" and "sys_waiters s t = None"
  shows "approval_inv (s\<lparr>sys_waiters := (sys_waiters s)(t \<mapsto> (request, CheckPermanent))\<rparr>)" (is "approval_inv ?s")
proof -
  have i: "pending_inv s" "sent_inv s" "phase_inv s" "grant_inv s" "history_inv s"
    using assms(1) by (simp_all add: approval_inv_def)
  have g: "granted s k c \<Longrightarrow> granted ?s k c" for k c
    by (erule granted_mono) (use assms(2) in auto)
  have "pending_inv ?s"
    using i(1) assms(2) unfolding pending_inv_def by fastforce
  moreover have "sent_inv ?s"
    using i(2) assms(2) unfolding sent_inv_def by fastforce
  moreover have "phase_inv ?s"
    using i(3) g by (fastforce simp: phase_inv_def)
  moreover have "grant_inv ?s" "history_inv ?s"
    using i(4,5) g by (auto simp: grant_inv_def history_inv_def)
  ultimately show ?thesis
    by (simp add: approval_inv_def)
qed

lemma request_step_inv:
  assumes inv: "approval_inv s" and step: "request_step t expired now s = Some s'"
  shows "approval_inv s'"
proof -
  obtain request phase where w: "sys_waiters s t = Some (request, phase)"
    using step by (auto simp: request_step_def split: option.splits)
  have grants: "permanently_approved c (sys_chain s) \<Longrightarrow> granted s k c"
    "session_approved k c (sys_chain s) \<Longrightarrow> granted s k c" for k c
    using inv by (simp_all add: approval_inv_def grant_inv_def)
  have sent: "phase = Received r \<or> phase = Applied r \<Longrightarrow> (t, r) \<in> set (sys_sent s)" for r
    using inv w unfolding approval_inv_def phase_inv_def by blast
  show ?thesis
  proof (cases phase)
    case CheckPermanent
    then show ?thesis
      using step w goto_inv [OF inv w] grants
      by (auto simp: request_step_def Let_def split: if_splits)
  next
    case CheckSession
    then show ?thesis
      using step w goto_inv [OF inv w] grants
      by (auto simp: request_step_def Let_def split: if_splits)
  next
    case Enqueue
    then show ?thesis
      using step w enqueue_inv [OF inv] by (auto simp: request_step_def Let_def)
  next
    case Waiting
    then show ?thesis
      using step w receive_inv [OF inv] timeout_inv [OF inv]
      by (auto simp: request_step_def Let_def split: list.splits if_splits)
  next
    case (Received r)
    then show ?thesis
      using step w goto_inv [OF apply_scope_inv [OF inv w sent [of r]], of t request "Received r" "Applied r"] sent
      by (auto simp: request_step_def Let_def)
  next
    case (Applied r)
    then show ?thesis
      using step w goto_inv [OF history_step_inv [OF inv, of "arq_session_key request" r], of t request "Applied r" "Returned (Inr r)"] sent
      by (auto simp: request_step_def Let_def)
  next
    case TimedOut
    then show ?thesis
      using step w remove_pending_inv [OF inv] by (auto simp: request_step_def Let_def)
  next
    case (Recording r)
    then show ?thesis
      using step w goto_inv [OF history_step_inv [OF inv, of "arq_session_key request" r], of t request "Recording r" "Returned (Inl m)" for m]
      by (auto simp: request_step_def Let_def)
  next
    case (Returned r)
    then show ?thesis
      using step w by (simp add: request_step_def Let_def)
  qed
qed

definition approval_init :: "approval_system \<Rightarrow> bool" where
  "approval_init s = (s = new_system)"

interpretation approvals: inductive_invariant approval_init approval_step approval_inv
proof
  show "approval_init s \<Longrightarrow> approval_inv s" for s
    by (simp add: approval_init_def new_system_def new_chain_def inv_defs permanently_approved_def
        session_approved_def)
  show "approval_inv s \<Longrightarrow> approval_step s t \<Longrightarrow> approval_inv t" for s t
    by (auto elim!: approval_stepE
        intro: call_inv request_step_inv resolve_inv clear_inv clear_approvals_inv)
qed

subsection \<open>Properties\<close>

text \<open>
  C17. Approval integrity, over every interleaving of concurrent requests, resolutions and
  clearings: if a call returns an approved response, then that response was sent to it by a
  resolution, or an approval for the same command was sent earlier with permanent scope, or with
  session scope by a request of the same session.
\<close>

theorem approval_integrity:
  assumes "reaches approval_init approval_step s"
    and "sys_waiters s t = Some (request, Returned (Inr r))"
  shows "(t, r) \<in> set (sys_sent s) \<or> granted s (arq_session_key request) (arq_command request)"
  using approvals.reachable_inv [OF assms(1)] assms(2)
  unfolding approval_inv_def phase_inv_def by blast

definition sample_request :: approval_request where
  "sample_request = new_request 7 ''0123456789abcdef'' ''s1'' ''rm'' ''dangerous''"

definition sample_response :: approval_response where
  "sample_response =
     \<lparr>ars_request_id = arq_request_id sample_request, ars_decision = DecApproved,
      ars_scope = ScopePermanent, ars_responded_at = 9\<rparr>"

text \<open>A run of one call: asked, queued, approved permanently, applied, recorded, returned.\<close>

definition sample_queued :: approval_system where
  "sample_queued =
     new_system\<lparr>sys_chain := enqueue sample_request 0 new_chain,
       sys_waiters := [0 \<mapsto> (sample_request, Waiting)]\<rparr>"

lemma sample_queued_reachable: "reaches approval_init approval_step sample_queued"
proof -
  let ?at = "\<lambda>p. new_system\<lparr>sys_waiters := [0 \<mapsto> (sample_request, p)]\<rparr>"
  have s0: "reaches approval_init approval_step new_system"
    by (rule reaches.start) (simp add: approval_init_def)
  have s1: "approval_step new_system (?at CheckPermanent)"
    using approval_step.call [of new_system 0 sample_request] by (simp add: new_system_def)
  have s2: "approval_step (?at CheckPermanent) (?at CheckSession)"
    by (rule approval_step.request [of 0 False 0])
      (simp add: request_step_def new_system_def new_chain_def permanently_approved_def)
  have s3: "approval_step (?at CheckSession) (?at Enqueue)"
    by (rule approval_step.request [of 0 False 0])
      (simp add: request_step_def new_system_def new_chain_def session_approved_def)
  have s4: "approval_step (?at Enqueue) sample_queued"
    by (rule approval_step.request [of 0 False 0])
      (simp add: request_step_def new_system_def sample_queued_def)
  show ?thesis
    by (rule reaches.step [OF reaches.step [OF reaches.step [OF reaches.step [OF s0 s1] s2] s3] s4])
qed

definition sample_answered :: approval_system where
  "sample_answered =
     (let c = (enqueue sample_request 0 new_chain)\<lparr>ac_pending := [''s1'' \<mapsto> []]\<rparr>
      in \<lparr>sys_chain = c, sys_inbox = (\<lambda>_. [])(0 := [sample_response]),
          sys_waiters = [0 \<mapsto> (sample_request, Waiting)], sys_sent = [(0, sample_response)]\<rparr>)"

lemma sample_queue: "ac_pending (enqueue sample_request 0 new_chain) =
    [''s1'' \<mapsto> [\<lparr>ae_request = sample_request, ae_response_tx = 0\<rparr>]]"
  by (simp add: enqueue_def new_chain_def sample_request_def new_request_def)

lemma sample_resolve:
  "resolve_approval ''s1'' DecApproved ScopePermanent False (\<lambda>_. 9) (enqueue sample_request 0 new_chain) =
     (1, [(0, sample_response)], (enqueue sample_request 0 new_chain)\<lparr>ac_pending := [''s1'' \<mapsto> []]\<rparr>)"
  by (simp add: resolve_approval_def sample_queue sample_response_def)

lemma sample_answered_reachable: "reaches approval_init approval_step sample_answered"
proof -
  have "approval_step sample_queued
      (deliver [(0, sample_response)] (sample_queued\<lparr>sys_chain :=
        (enqueue sample_request 0 new_chain)\<lparr>ac_pending := [''s1'' \<mapsto> []]\<rparr>\<rparr>))"
    by (rule approval_step.resolve [of "''s1''" DecApproved ScopePermanent False "\<lambda>_. 9" _ 1])
      (use sample_resolve in \<open>simp add: sample_queued_def\<close>)
  moreover have "deliver [(0, sample_response)] (sample_queued\<lparr>sys_chain :=
        (enqueue sample_request 0 new_chain)\<lparr>ac_pending := [''s1'' \<mapsto> []]\<rparr>\<rparr>) = sample_answered"
    by (auto simp: sample_answered_def sample_queued_def new_system_def Let_def fun_eq_iff)
  ultimately show ?thesis
    using reaches.step [OF sample_queued_reachable] by simp
qed

definition sample_returned :: approval_system where
  "sample_returned =
     sample_answered\<lparr>
       sys_chain := add_to_history ''s1'' sample_response
         (apply_approval_scope ''s1'' ''rm'' sample_response (sys_chain sample_answered)),
       sys_inbox := (\<lambda>_. []),
       sys_waiters := [0 \<mapsto> (sample_request, Returned (Inr sample_response))]\<rparr>"

lemma sample_returned_reachable: "reaches approval_init approval_step sample_returned"
proof -
  let ?c = "sys_chain sample_answered"
  let ?r = "sample_answered\<lparr>sys_inbox := (\<lambda>_. []), sys_waiters := [0 \<mapsto> (sample_request, Received sample_response)]\<rparr>"
  let ?a = "sample_answered\<lparr>sys_chain := apply_approval_scope ''s1'' ''rm'' sample_response ?c,
    sys_inbox := (\<lambda>_. []), sys_waiters := [0 \<mapsto> (sample_request, Applied sample_response)]\<rparr>"
  have keys: "arq_session_key sample_request = ''s1''" "arq_command sample_request = ''rm''"
    by (simp_all add: sample_request_def new_request_def)
  have s1: "approval_step sample_answered ?r"
    by (rule approval_step.request [of 0 False 0])
      (simp add: request_step_def sample_answered_def Let_def fun_upd_def cong: if_cong)
  have s2: "approval_step ?r ?a"
    by (rule approval_step.request [of 0 False 0]) (simp add: request_step_def Let_def keys)
  have s3: "approval_step ?a sample_returned"
    by (rule approval_step.request [of 0 False 0])
      (simp add: request_step_def Let_def keys sample_returned_def)
  have "reaches approval_init approval_step ?r"
    using sample_answered_reachable s1 by (rule reaches.step)
  then have "reaches approval_init approval_step ?a"
    using s2 by (rule reaches.step)
  then show ?thesis
    using s3 by (rule reaches.step)
qed

theorem approval_integrity_witness:
  "(0, sample_response) \<in> set (sys_sent sample_returned) \<or>
     granted sample_returned (arq_session_key sample_request) (arq_command sample_request)"
  by (rule approval_integrity [OF sample_returned_reachable]) (simp add: sample_returned_def)

text \<open>
  Each request is answered at most once over every interleaving, and a resolution that is not
  for the whole queue answers exactly the oldest pending request of the session and leaves the
  others in order, while one for the whole queue answers all of them in queue order.
\<close>

theorem approval_fifo_once:
  assumes "reaches approval_init approval_step s"
    and "ac_pending (sys_chain s) key = Some (e # q)"
    and "resolve_approval key d sc resolve_all clock (sys_chain s) = (n, msgs, c)"
  shows "distinct (map fst (sys_sent (deliver msgs (s\<lparr>sys_chain := c\<rparr>)))) \<and>
    map fst msgs = (if resolve_all then map ae_response_tx (e # q) else [ae_response_tx e]) \<and>
    n = length msgs \<and> ac_pending c key = Some (if resolve_all then [] else q)"
proof -
  have "approval_inv (deliver msgs (s\<lparr>sys_chain := c\<rparr>))"
    using approvals.reachable_inv [OF assms(1)] assms(3) by (rule resolve_inv)
  then have "distinct (map fst (sys_sent (deliver msgs (s\<lparr>sys_chain := c\<rparr>))))"
    by (simp add: approval_inv_def sent_inv_def)
  then show ?thesis
    using assms(2,3) drain_channels [of d sc clock 0 "e # q"]
    by (auto simp: resolve_approval_def split: if_splits)
qed

theorem approval_fifo_once_witness:
  "distinct (map fst (sys_sent (deliver [(0, sample_response)] (sample_queued\<lparr>sys_chain :=
      (enqueue sample_request 0 new_chain)\<lparr>ac_pending := [''s1'' \<mapsto> []]\<rparr>\<rparr>)))) \<and>
    map fst [(0, sample_response)] =
      (if False then map ae_response_tx [\<lparr>ae_request = sample_request, ae_response_tx = 0\<rparr>] else [0]) \<and>
    1 = length [(0, sample_response)] \<and>
    ac_pending ((enqueue sample_request 0 new_chain)\<lparr>ac_pending := [''s1'' \<mapsto> []]\<rparr>) ''s1'' =
      Some (if False then [] else [])"
  using approval_fifo_once [OF sample_queued_reachable, of "''s1''" "\<lparr>ae_request = sample_request, ae_response_tx = 0\<rparr>" "[]"
      DecApproved ScopePermanent False "\<lambda>_. 9" 1 "[(0, sample_response)]"]
    sample_resolve sample_queue
  by (simp add: sample_queued_def)

text \<open>
  A lost approval: there is a run in which a resolution with an approved, permanent response
  reports one resolved request, yet the request it answered returns the timeout error and the
  command is not approved, because the waiter had stopped listening but had not yet left the queue.
\<close>

theorem approval_lost_on_timeout:
  "\<exists>s s' request c.
     reaches approval_init approval_step s \<and>
     resolve_approval ''s1'' DecApproved ScopePermanent False (\<lambda>_. 9) (sys_chain s) =
       (1, [(0, sample_response)], c) \<and>
     approval_step\<^sup>*\<^sup>* (deliver [(0, sample_response)] (s\<lparr>sys_chain := c\<rparr>)) s' \<and>
     sys_waiters s' 0 = Some (request, Returned (Inl ''Approval request timed out'')) \<and>
     \<not> is_pre_approved ''s1'' ''rm'' (sys_chain s')"
proof -
  let ?s = "sample_queued\<lparr>sys_waiters := [0 \<mapsto> (sample_request, TimedOut)]\<rparr>"
  let ?c = "(enqueue sample_request 0 new_chain)\<lparr>ac_pending := [''s1'' \<mapsto> []]\<rparr>"
  let ?d = "deliver [(0, sample_response)] (?s\<lparr>sys_chain := ?c\<rparr>)"
  let ?r = "timeout_response sample_request 0"
  let ?e = "?d\<lparr>sys_waiters := [0 \<mapsto> (sample_request, Recording ?r)]\<rparr>"
  let ?f = "?e\<lparr>sys_chain := add_to_history ''s1'' ?r ?c,
    sys_waiters := [0 \<mapsto> (sample_request, Returned (Inl ''Approval request timed out''))]\<rparr>"
  have keys: "arq_session_key sample_request = ''s1''" "arq_command sample_request = ''rm''"
    by (simp_all add: sample_request_def new_request_def)
  have "approval_step sample_queued ?s"
    by (rule approval_step.request [of 0 True 0])
      (simp add: request_step_def Let_def sample_queued_def new_system_def)
  with sample_queued_reachable have reach: "reaches approval_init approval_step ?s"
    by (rule reaches.step)
  have res: "resolve_approval ''s1'' DecApproved ScopePermanent False (\<lambda>_. 9) (sys_chain ?s) =
      (1, [(0, sample_response)], ?c)"
    using sample_resolve by (simp add: sample_queued_def)
  have remove: "remove_pending_request ''s1'' (arq_request_id sample_request) ?c = ?c"
    by (simp add: remove_pending_request_def)
  have "approval_step ?d ?e"
    by (rule approval_step.request [of 0 True 0])
      (simp add: request_step_def Let_def keys remove)
  moreover have "approval_step ?e ?f"
    by (rule approval_step.request [of 0 True 0])
      (simp add: request_step_def Let_def keys)
  ultimately have run: "approval_step\<^sup>*\<^sup>* ?d ?f"
    by (meson converse_rtranclp_into_rtranclp rtranclp.rtrancl_refl)
  have "\<not> is_pre_approved ''s1'' ''rm'' (sys_chain ?f)"
    by (simp add: is_pre_approved_def permanently_approved_def session_approved_def add_to_history_def
        Let_def enqueue_def new_chain_def)
  then show ?thesis
    using reach res run by (intro exI [of _ ?s] exI [of _ ?f] exI [of _ sample_request] exI [of _ ?c]) simp
qed

end
