(* ===== verification/Tables.thy ===== *)
theory Tables
  imports Zaion_Prelude
begin

text \<open>
  SQL tables as lists of rows in \<open>rowid\<close> order: the aggregates the sources use, lookup by a key,
  joins of two tables with the same key sequence, and \<open>UPDATE ... WHERE\<close> as a conditional map.
\<close>

text \<open>SQL \<open>MIN\<close> and \<open>MAX\<close>, which are null on no rows.\<close>

definition sql_min :: "int list \<Rightarrow> int option" where
  "sql_min ns = (if ns = [] then None else Some (Min (set ns)))"

definition sql_max :: "int list \<Rightarrow> int option" where
  "sql_max ns = (if ns = [] then None else Some (Max (set ns)))"

lemma find_by_key:
  "map f xs = map g ys \<Longrightarrow> distinct (map g ys) \<Longrightarrow> i < length ys \<Longrightarrow> find (\<lambda>x. f x = g (ys ! i)) xs = Some (xs ! i)"
proof (induction xs arbitrary: ys i)
  case (Cons x xs)
  then obtain y ys' where ys: "ys = y # ys'" "f x = g y" "map f xs = map g ys'"
    by (cases ys) auto
  show ?case
  proof (cases i)
    case 0
    then show ?thesis using ys by simp
  next
    case (Suc j)
    then have "g y \<noteq> g (ys' ! j)"
      using Cons.prems ys(1) by auto
    then show ?thesis
      using Cons ys Suc by simp
  qed
qed simp

lemma map_filter_zip:
  "length xs = length ys \<Longrightarrow> \<forall>i < length xs. h (xs ! i) = Some (ys ! i) \<Longrightarrow>
     List.map_filter (\<lambda>r. map_option (Pair r) (h r)) (filter P xs) = filter (\<lambda>p. P (fst p)) (zip xs ys)"
proof (induction xs ys rule: list_induct2)
  case (Cons x xs y ys)
  have "h x = Some y" "\<forall>i < length xs. h (xs ! i) = Some (ys ! i)"
    using Cons.prems by auto
  with Cons.IH show ?case
    by (auto simp: map_filter_def)
qed (simp add: map_filter_def)

lemma find_conj: "find P xs = Some x \<Longrightarrow> Q x \<Longrightarrow> find (\<lambda>y. Q y \<and> P y) xs = Some x"
  by (induction xs) (auto split: if_splits)

lemma find_filter: "find P (filter Q xs) = find (\<lambda>x. Q x \<and> P x) xs"
  by (induction xs) auto

lemma find_zip_fst: "length xs = length ys \<Longrightarrow> map_option fst (find (\<lambda>p. P (fst p)) (zip xs ys)) = find P xs"
  by (induction xs ys rule: list_induct2) auto

lemma find_hd_filter: "find P xs = (if filter P xs = [] then None else Some (hd (filter P xs)))"
  by (induction xs) auto

lemma sql_max_snoc:
  "\<forall>m \<in> set ns. m < n \<Longrightarrow> sql_max (ns @ [n]) = Some n"
  by (auto simp: sql_max_def intro!: Max_eqI)

lemma sql_max_bound: "m \<in> set ns \<Longrightarrow> \<exists>n. sql_max ns = Some n \<and> m \<le> n"
  by (auto simp: sql_max_def)

lemma sql_max_Some: "sql_max ns = Some n \<Longrightarrow> n \<in> set ns"
  by (auto simp: sql_max_def split: if_splits)

lemma sql_min_hd: "sorted_wrt (<) ns \<Longrightarrow> ns \<noteq> [] \<Longrightarrow> sql_min ns = Some (hd ns)"
  by (cases ns) (auto simp: sql_min_def intro!: Min_eqI)

lemma sorted_wrt_zip_snd: "length xs = length ys \<Longrightarrow>
    sorted_wrt (\<lambda>p q. R (snd p) (snd q)) (zip xs ys) \<longleftrightarrow> sorted_wrt R ys"
  by (simp add: sorted_wrt_iff_nth_less)

lemma sorted_wrt_zip_fst: "length xs = length ys \<Longrightarrow>
    sorted_wrt (\<lambda>p q. R (fst p) (fst q)) (zip xs ys) \<longleftrightarrow> sorted_wrt R xs"
  by (simp add: sorted_wrt_iff_nth_less)

lemma sorted_wrt_filter_both:
  "sorted_wrt R xs \<Longrightarrow> x \<in> set xs \<Longrightarrow> y \<in> set xs \<Longrightarrow> x = y \<or> R x y \<or> R y x"
  by (induction xs) auto

text \<open>A conditional update that keeps a key keeps the sequence of keys.\<close>

definition update_where :: "('a \<Rightarrow> bool) \<Rightarrow> ('a \<Rightarrow> 'a) \<Rightarrow> 'a list \<Rightarrow> 'a list" where
  "update_where P f xs = map (\<lambda>r. if P r then f r else r) xs"

lemma update_where_map: "(\<And>r. P r \<Longrightarrow> k (f r) = k r) \<Longrightarrow> map k (update_where P f xs) = map k xs"
  by (auto simp: update_where_def)

lemma update_where_length [simp]: "length (update_where P f xs) = length xs"
  by (simp add: update_where_def)

lemma update_where_set: "set (update_where P f xs) = (\<lambda>r. if P r then f r else r) ` set xs"
  by (simp add: update_where_def)

lemma update_where_find:
  "(\<And>r. P r \<Longrightarrow> Q (f r) = Q r) \<Longrightarrow>
     find Q (update_where P f xs) = map_option (\<lambda>r. if P r then f r else r) (find Q xs)"
  by (induction xs) (auto simp: update_where_def)

lemma find_split:
  "find P xs = Some x \<Longrightarrow> \<exists>ys zs. xs = ys @ x # zs \<and> P x \<and> (\<forall>y \<in> set ys. \<not> P y)"
proof (induction xs)
  case (Cons a xs)
  show ?case
  proof (cases "P a")
    case True
    then have "a = x"
      using Cons.prems by simp
    then show ?thesis
      using True by (intro exI [of _ "[]"] exI [of _ xs]) simp
  next
    case False
    then obtain ys zs where "xs = ys @ x # zs" "P x" "\<forall>y \<in> set ys. \<not> P y"
      using Cons by auto
    then show ?thesis
      using False by (intro exI [of _ "a # ys"] exI [of _ zs]) simp
  qed
qed simp

lemma find_in_set: "find P xs = Some x \<Longrightarrow> x \<in> set xs \<and> P x"
  by (metis find_Some_iff nth_mem)

lemma update_where_append [simp]:
  "update_where P f (xs @ ys) = update_where P f xs @ update_where P f ys"
  "update_where P f (x # xs) = (if P x then f x else x) # update_where P f xs"
  "update_where P f [] = []"
  by (simp_all add: update_where_def)

lemma update_where_none [simp]: "\<forall>x \<in> set xs. \<not> P x \<Longrightarrow> update_where P f xs = xs"
  by (induction xs) simp_all

lemma distinct_key_others:
  "distinct (map key (xs @ x # ys)) \<Longrightarrow> y \<in> set (xs @ ys) \<Longrightarrow> key y \<noteq> key x"
proof -
  assume d: "distinct (map key (xs @ x # ys))" and "y \<in> set (xs @ ys)"
  then have "key y \<in> key ` set (xs @ ys)"
    by (intro imageI)
  then show "key y \<noteq> key x"
    using d by auto
qed

text \<open>An update that changes exactly one row.\<close>

lemma update_where_one:
  assumes "length (filter P xs) = 1"
  shows "\<exists>ys r zs. xs = ys @ r # zs \<and> P r \<and> (\<forall>x \<in> set (ys @ zs). \<not> P x) \<and> update_where P f xs = ys @ f r # zs"
proof -
  obtain r where r: "filter P xs = [r]"
    using assms by (auto simp: length_Suc_conv)
  then have "r \<in> set xs" "P r"
    using filter_set [of P xs] by auto
  then obtain ys zs where split: "xs = ys @ r # zs"
    by (auto dest: split_list)
  then have "filter P ys = []" "filter P zs = []"
    using r \<open>P r\<close> by (auto simp: append_eq_Cons_conv)
  then have others: "\<forall>x \<in> set (ys @ zs). \<not> P x"
    by (auto simp: filter_empty_conv)
  then show ?thesis
    using split \<open>P r\<close> by (intro exI [of _ ys] exI [of _ r] exI [of _ zs]) simp
qed

text \<open>An update whose condition implies a key changes at most the one row with that key.\<close>

lemma update_where_at_key:
  assumes d: "distinct (map key xs)" and xs: "xs = ys @ r # zs"
    and P: "\<And>x. P x \<Longrightarrow> key x = key r" and one: "length (filter P xs) = 1"
  shows "P r \<and> update_where P f xs = ys @ f r # zs"
proof -
  have others: "\<forall>x \<in> set (ys @ zs). \<not> P x"
    using distinct_key_others [OF d [unfolded xs]] P by blast
  then have "filter P xs = (if P r then [r] else [])"
    using xs by (simp add: filter_empty_conv)
  then have "P r"
    using one by (simp split: if_splits)
  then show ?thesis
    using others xs by simp
qed

end
