(* ===== verification/Turn_State.thy ===== *)
theory Turn_State
  imports Zaion_Prelude
begin

text \<open>
  \<open>crates/zaion-runtime/src/turn_state.rs\<close>: the nine states of a turn, which of them are terminal,
  the transition table, and the pure compare-and-transition on a state with its revision. The
  lemmas show that the table is exactly the intended graph (terminal states absorb, \<open>Accepted\<close> has
  no predecessor), when compare-and-transition succeeds and with which error it fails otherwise,
  and that along any run the revision counts the transitions.
\<close>

subsection \<open>Model\<close>

datatype turn_state =
  Accepted | Routed | Running | WaitingApproval | ToolRunning
  | Completed | Degraded | Aborted | Quarantined

definition all_states :: "turn_state list" where
  "all_states =
     [Accepted, Routed, Running, WaitingApproval, ToolRunning,
      Completed, Degraded, Aborted, Quarantined]"

fun is_terminal :: "turn_state \<Rightarrow> bool" where
  "is_terminal Completed = True"
| "is_terminal Degraded = True"
| "is_terminal Aborted = True"
| "is_terminal Quarantined = True"
| "is_terminal _ = False"

definition can_transition_to :: "turn_state \<Rightarrow> turn_state \<Rightarrow> bool" where
  "can_transition_to s next =
     (case s of
        Accepted \<Rightarrow> next \<in> {Routed, Aborted, Quarantined}
      | Routed \<Rightarrow> next \<in> {Running, Aborted, Quarantined}
      | Running \<Rightarrow> next \<in> {WaitingApproval, ToolRunning, Completed, Degraded, Aborted, Quarantined}
      | WaitingApproval \<Rightarrow> next \<in> {ToolRunning, Aborted, Quarantined}
      | ToolRunning \<Rightarrow> next \<in> {Running, WaitingApproval, Completed, Degraded, Aborted, Quarantined}
      | Completed \<Rightarrow> False
      | Degraded \<Rightarrow> False
      | Aborted \<Rightarrow> False
      | Quarantined \<Rightarrow> False)"

record versioned_turn_state =
  vts_state :: turn_state
  vts_revision :: u64

datatype turn_transition_error =
  RevisionConflict u64 u64
  | StateConflict turn_state turn_state
  | TerminalState turn_state
  | IllegalTransition turn_state turn_state
  | RevisionExhausted

definition accepted :: versioned_turn_state where
  "accepted = \<lparr>vts_state = Accepted, vts_revision = 0\<rparr>"

definition restore :: "turn_state \<Rightarrow> u64 \<Rightarrow> versioned_turn_state" where
  "restore s r = \<lparr>vts_state = s, vts_revision = r\<rparr>"

definition compare_and_transition ::
  "versioned_turn_state \<Rightarrow> turn_state \<Rightarrow> u64 \<Rightarrow> turn_state \<Rightarrow>
     turn_transition_error + versioned_turn_state" where
  "compare_and_transition self expected_state expected_revision next =
     (if vts_revision self \<noteq> expected_revision
      then Inl (RevisionConflict expected_revision (vts_revision self))
      else if vts_state self \<noteq> expected_state
      then Inl (StateConflict expected_state (vts_state self))
      else if is_terminal (vts_state self)
      then Inl (TerminalState (vts_state self))
      else if \<not> can_transition_to (vts_state self) next
      then Inl (IllegalTransition (vts_state self) next)
      else and_then (ok_or RevisionExhausted (checked_add_u64 (vts_revision self) 1))
             (\<lambda>revision. Inr \<lparr>vts_state = next, vts_revision = revision\<rparr>))"

subsection \<open>The transition graph\<close>

lemma all_states_complete: "set all_states = UNIV \<and> distinct all_states"
proof -
  have "s \<in> set all_states" for s
    by (cases s) (simp_all add: all_states_def)
  then show ?thesis
    by (auto simp: all_states_def)
qed

lemma terminal_iff_stuck: "is_terminal s \<longleftrightarrow> (\<forall>t. \<not> can_transition_to s t)"
  by (cases s) (auto simp: can_transition_to_def)

lemma accepted_initial: "\<not> can_transition_to s Accepted"
  by (cases s) (auto simp: can_transition_to_def)

lemma no_self_loop: "\<not> can_transition_to s s"
  by (cases s) (auto simp: can_transition_to_def)

lemma can_abort: "\<not> is_terminal s \<Longrightarrow> can_transition_to s Aborted \<and> can_transition_to s Quarantined"
  by (cases s) (auto simp: can_transition_to_def)

lemma completed_pred: "can_transition_to s Completed \<Longrightarrow> s = Running \<or> s = ToolRunning"
  by (cases s) (auto simp: can_transition_to_def)

subsection \<open>Compare-and-transition\<close>

lemma compare_and_transition_Inr:
  "compare_and_transition v s r n = Inr w \<longleftrightarrow>
     vts_state v = s \<and> vts_revision v = r \<and> can_transition_to s n \<and>
     vts_state w = n \<and> unat (vts_revision w) = unat r + 1"
  by (cases w) (auto simp: compare_and_transition_def result_simps checked_add_u64_Some terminal_iff_stuck)

inductive turn_step :: "versioned_turn_state \<Rightarrow> versioned_turn_state \<Rightarrow> bool" where
  "compare_and_transition v s r n = Inr w \<Longrightarrow> turn_step v w"

inductive_simps turn_step_simps: "turn_step v w"

inductive_cases turn_stepE: "turn_step v w"

lemma turn_step_iff:
  "turn_step v w \<longleftrightarrow>
     can_transition_to (vts_state v) (vts_state w) \<and>
     unat (vts_revision w) = unat (vts_revision v) + 1"
  by (auto simp: turn_step_simps compare_and_transition_Inr)

definition turn_init :: "versioned_turn_state \<Rightarrow> bool" where
  "turn_init v = (v = accepted)"

text \<open>Every state but \<open>Accepted\<close> of a turn that began as accepted has a positive revision.\<close>

definition turn_inv :: "versioned_turn_state \<Rightarrow> bool" where
  "turn_inv v = (vts_state v = Accepted \<longleftrightarrow> vts_revision v = 0)"

interpretation turn: inductive_invariant turn_init turn_step turn_inv
proof
  show "turn_init s \<Longrightarrow> turn_inv s" for s
    by (simp add: turn_init_def turn_inv_def accepted_def)
next
  fix s t assume "turn_step s t"
  then show "turn_inv t"
    by (auto simp: turn_step_iff turn_inv_def accepted_initial)
qed

lemma turn_step_count: "(turn_step ^^ n) v w \<Longrightarrow> unat (vts_revision w) = unat (vts_revision v) + n"
  by (induction n arbitrary: w) (auto simp: turn_step_iff relcompp_apply)

lemma checked_succ_u64: "checked_add_u64 r 1 = (if r = - 1 then None else Some (r + 1))"
proof -
  have "unat (- 1 :: u64) = 2 ^ 64 - 1"
    by (simp add: unsigned_minus_1_eq_mask mask_eq_exp_minus_1)
  then have "r = - 1 \<longleftrightarrow> unat r = 2 ^ 64 - 1"
    by (metis word_unat_eq_iff)
  then show ?thesis
    using unat_less_u64 [of r] by (simp add: checked_add_u64_def)
qed

lemma compare_and_transition_stale:
  assumes "compare_and_transition v s r n = Inr w"
  shows "compare_and_transition w s' r n' = Inl (RevisionConflict r (vts_revision w))"
proof -
  have "vts_revision w \<noteq> r"
    using assms by (auto simp: compare_and_transition_Inr)
  then show ?thesis
    by (simp add: compare_and_transition_def)
qed

text \<open>
  C4. Compare-and-transition is a compare-and-swap on the pair of state and revision: it succeeds
  exactly when both match the current value, the table allows the edge and the revision is not
  the largest 64-bit number, and then it returns the requested state at the next revision.
\<close>

theorem compare_and_transition_correct:
  "compare_and_transition v s r n = Inr w \<longleftrightarrow>
     v = restore s r \<and> can_transition_to s n \<and> r \<noteq> - 1 \<and> w = restore n (r + 1)"
  by (cases v, cases w)
    (auto simp: compare_and_transition_def restore_def result_simps checked_succ_u64 terminal_iff_stuck)

text \<open>
  Of any number of writers that read the same version at most one wins: once a transition has
  been taken from a version, every later attempt that still expects its revision, whatever states
  it names, is refused as a revision conflict, from each version reached afterwards.
\<close>

theorem compare_and_transition_once:
  assumes "compare_and_transition v s r n = Inr w" and "(turn_step ^^ k) w u"
  shows "compare_and_transition u s' r n' = Inl (RevisionConflict r (vts_revision u))"
proof -
  have "unat (vts_revision u) = unat r + 1 + k"
    using assms turn_step_count by (simp add: compare_and_transition_Inr)
  then have "vts_revision u \<noteq> r"
    by auto
  then show ?thesis
    by (simp add: compare_and_transition_def)
qed

theorem compare_and_transition_once_witness:
  "compare_and_transition (restore ToolRunning 3) Routed 1 Aborted = Inl (RevisionConflict 1 3)"
proof -
  have "compare_and_transition (restore Routed 1) Routed 1 Running = Inr (restore Running 2)"
    by (simp add: compare_and_transition_def restore_def can_transition_to_def checked_succ_u64)
  moreover have "turn_step (restore Running 2) (restore ToolRunning 3)"
    by (simp add: turn_step_iff restore_def can_transition_to_def)
  then have "(turn_step ^^ 1) (restore Running 2) (restore ToolRunning 3)"
    by (simp only: relpowp_1)
  ultimately have "compare_and_transition (restore ToolRunning 3) Routed 1 Aborted =
      Inl (RevisionConflict 1 (vts_revision (restore ToolRunning 3)))"
    by (rule compare_and_transition_once)
  then show ?thesis
    by (simp add: restore_def)
qed

text \<open>
  A turn that began as accepted and took n transitions stands at revision n; if it is terminal
  no further transition exists, otherwise it can still be aborted or quarantined.
\<close>

theorem turn_run_revision:
  assumes "(turn_step ^^ n) accepted v" and "n < 2 ^ 64 - 1"
  shows "unat (vts_revision v) = n \<and> (is_terminal (vts_state v) \<longleftrightarrow> (\<forall>w. \<not> turn_step v w))"
proof
  show rev: "unat (vts_revision v) = n"
    using turn_step_count [OF assms(1)] by (simp add: accepted_def)
  have succ: "unat (vts_revision v + 1) = unat (vts_revision v) + 1"
    using rev assms(2) checked_add_u64_Some [of "vts_revision v" 1 "vts_revision v + 1"]
    by (simp add: checked_add_u64_def)
  show "is_terminal (vts_state v) \<longleftrightarrow> (\<forall>w. \<not> turn_step v w)"
  proof
    assume "\<forall>w. \<not> turn_step v w"
    then have "\<not> turn_step v (restore Aborted (vts_revision v + 1))"
      by blast
    then show "is_terminal (vts_state v)"
      using succ can_abort by (auto simp: turn_step_iff restore_def)
  qed (auto simp: turn_step_iff terminal_iff_stuck)
qed

theorem turn_run_revision_witness:
  "unat (vts_revision (restore Routed 1)) = 1 \<and>
   (is_terminal Routed \<longleftrightarrow> (\<forall>w. \<not> turn_step (restore Routed 1) w))"
proof -
  have "turn_step accepted (restore Routed 1)"
    by (simp add: turn_step_iff restore_def accepted_def can_transition_to_def)
  then have run: "(turn_step ^^ 1) accepted (restore Routed 1)"
    by (simp only: relpowp_1)
  show ?thesis
    using turn_run_revision [OF run] by (simp add: restore_def)
qed

end
