(* ===== verification/Turn_Outcome.thy ===== *)
theory Turn_Outcome
  imports Turn_State
begin

text \<open>
  The result of a turn: the outcome of \<open>crates/zaion-runtime/src/turn_outcome.rs\<close> with what it lets
  the caller do, and the execution value of \<open>turn_kernel.rs\<close> that the turn store persists with a
  terminal state. The proof closure is plain data here; the verifier that issues it is
  modelled in \<open>Proof_Closure\<close>.
\<close>

record proof_closure =
  pc_schema_version :: u8
  pc_answer_trace_event_id :: string
  pc_turn_proof_event_id :: string
  pc_proof_hash :: string
  pc_receipt_proof_join_event_id :: "string option"
  pc_evidence_graph_hash :: string

record degradation_report =
  dr_reason_code :: string
  dr_safe_response :: bool
  dr_lost_capabilities :: "string list"

record turn_error =
  te_reason_code :: string
  te_message :: string

record partial_ledger_tail =
  plt_appended_event_ids :: "string list"
  plt_last_safe_parent_event_id :: "string option"

record quarantine_event =
  qe_level :: u8
  qe_reason_code :: string
  qe_diagnostic_scope :: string

datatype turn_outcome =
  OutcomeCompleted proof_closure
  | OutcomeDegraded proof_closure degradation_report
  | OutcomeAborted turn_error partial_ledger_tail
  | OutcomeQuarantined quarantine_event

fun ledger_event_type :: "turn_outcome \<Rightarrow> string" where
  "ledger_event_type (OutcomeCompleted _) = ''turn.proof''"
| "ledger_event_type (OutcomeDegraded _ _) = ''turn.degraded''"
| "ledger_event_type (OutcomeAborted _ _) = ''turn.aborted''"
| "ledger_event_type (OutcomeQuarantined _) = ''system.quarantine''"

fun is_safe_to_reply :: "turn_outcome \<Rightarrow> bool" where
  "is_safe_to_reply (OutcomeCompleted _) = True"
| "is_safe_to_reply (OutcomeDegraded _ report) = dr_safe_response report"
| "is_safe_to_reply (OutcomeAborted _ _) = False"
| "is_safe_to_reply (OutcomeQuarantined _) = False"

fun allows_tool_execution :: "turn_outcome \<Rightarrow> bool" where
  "allows_tool_execution (OutcomeCompleted _) = True"
| "allows_tool_execution (OutcomeDegraded _ _) = True"
| "allows_tool_execution _ = False"

fun allows_memory_write :: "turn_outcome \<Rightarrow> bool" where
  "allows_memory_write (OutcomeCompleted _) = True"
| "allows_memory_write _ = False"

record runtime_output =
  ro_runtime_owner :: string
  ro_runtime_topology :: "string list"
  ro_provider_response_hash :: string
  ro_context_pack_id :: string
  ro_memory_atom_ids :: "string list"
  ro_tool_receipt_ids :: "string list"
  ro_stream_hash :: string

text \<open>The one-field struct \<open>HandledTurn\<close> and the two-field struct \<open>ScheduledTurn\<close> are inlined.\<close>

datatype turn_execution =
  Finished "runtime_output option" turn_outcome
  | Handled string
  | Scheduled string string

definition aborted_execution :: "turn_error \<Rightarrow> partial_ledger_tail \<Rightarrow> turn_execution" where
  "aborted_execution error ledger_tail = Finished None (OutcomeAborted error ledger_tail)"

definition completed_execution :: "runtime_output \<Rightarrow> proof_closure \<Rightarrow> turn_execution" where
  "completed_execution out closure = Finished (Some out) (OutcomeCompleted closure)"

fun terminal_state :: "turn_execution \<Rightarrow> turn_state" where
  "terminal_state (Handled _) = Completed"
| "terminal_state (Scheduled _ _) = Completed"
| "terminal_state (Finished _ outcome) =
     (case outcome of
        OutcomeCompleted _ \<Rightarrow> Completed
      | OutcomeDegraded _ _ \<Rightarrow> Degraded
      | OutcomeAborted _ _ \<Rightarrow> Aborted
      | OutcomeQuarantined _ \<Rightarrow> Quarantined)"

lemma terminal_state_is_terminal [simp]: "is_terminal (terminal_state e)"
  by (cases e) (simp_all split: turn_outcome.splits)

text \<open>Memory is written only after an outcome that may also run tools and be replied to.\<close>

lemma outcome_permissions:
  "allows_memory_write r \<Longrightarrow> allows_tool_execution r \<and> is_safe_to_reply r"
  "is_safe_to_reply r \<Longrightarrow> allows_tool_execution r"
  by (cases r; simp)+

end
