(* ===== verification/Zaion_Types.thy ===== *)
theory Zaion_Types
  imports Zaion_Prelude
begin

text \<open>
  \<open>crates/zaion-types/src\<close>: the newtypes for principals, workspaces, sessions, runs and namespaces
  that several crates share.
\<close>

datatype principal_id = PrincipalId (principal_str: string)

datatype workspace_id = WorkspaceId (workspace_str: string)

datatype session_id = SessionId (session_str: string)

datatype run_id = RunId (run_str: string)

datatype namespace_key = NamespaceKey (namespace_str: string)

datatype signature_bytes = SignatureBytes (signature_vec: bytes)

datatype public_key_bytes = PublicKeyBytes (public_key_vec: bytes)

datatype event_id = EventId (event_id_str: string)

datatype event_type =
  ProcessCreated
  | ProcessMigrated
  | ChannelReceived
  | ChannelSent
  | TaskStarted
  | TaskCompleted
  | TaskFailed
  | ToolCalled
  | ToolResultEvent
  | ProviderInvoked
  | ProviderResponded
  | SkillDistilled
  | RuleApplied
  | CheckpointWritten
  | CheckpointRestored
  | IdentityVerified
  | OmniRoute
  | AnswerTrace
  | TurnProof
  | ToolReceipt
  | ToolReceiptProofJoin
  | OperationEvent
  | CustomEvent string

fun event_type_str :: "event_type \<Rightarrow> string" where
  "event_type_str ProcessCreated = ''process.created''"
| "event_type_str ProcessMigrated = ''process.migrated''"
| "event_type_str ChannelReceived = ''channel.received''"
| "event_type_str ChannelSent = ''channel.sent''"
| "event_type_str TaskStarted = ''task.started''"
| "event_type_str TaskCompleted = ''task.completed''"
| "event_type_str TaskFailed = ''task.failed''"
| "event_type_str ToolCalled = ''tool.called''"
| "event_type_str ToolResultEvent = ''tool.result''"
| "event_type_str ProviderInvoked = ''provider.invoked''"
| "event_type_str ProviderResponded = ''provider.responded''"
| "event_type_str SkillDistilled = ''skill.distilled''"
| "event_type_str RuleApplied = ''rule.applied''"
| "event_type_str CheckpointWritten = ''checkpoint.written''"
| "event_type_str CheckpointRestored = ''checkpoint.restored''"
| "event_type_str IdentityVerified = ''identity.verified''"
| "event_type_str OmniRoute = ''omni.route''"
| "event_type_str AnswerTrace = ''answer.trace''"
| "event_type_str TurnProof = ''turn.proof''"
| "event_type_str ToolReceipt = ''tool.receipt''"
| "event_type_str ToolReceiptProofJoin = ''tool.receipt.proof_join''"
| "event_type_str OperationEvent = ''operation.event''"
| "event_type_str (CustomEvent s) = s"

datatype session_key = SessionKey (session_key_str: string)

end
