(* ===== verification/Ingress.thy ===== *)
theory Ingress
  imports Zaion_Types
begin

text \<open>
  \<open>crates/zaion-runtime/src/authenticated_ingress.rs\<close>: the validated identity and authority context
  at the runtime boundary. \<open>new_ingress\<close> is \<open>AuthenticatedIngress::new\<close> with the clock as an
  argument. The lemmas show which inputs it accepts (all of the stated bounds and character
  classes, and nothing else), what the accepted value holds, that the scope set is the
  deduplication of the vector, and that the checked addition of attachment sizes cannot overflow
  before the total limit is reported.
\<close>

subsection \<open>Model\<close>

definition MAX_ID_BYTES :: nat where "MAX_ID_BYTES = 256"
definition MAX_SCOPES :: nat where "MAX_SCOPES = 32"
definition MAX_ATTACHMENTS :: nat where "MAX_ATTACHMENTS = 16"
definition MAX_ATTACHMENT_BYTES :: u64 where "MAX_ATTACHMENT_BYTES = 64 * 1024 * 1024"
definition MAX_TOTAL_ATTACHMENT_BYTES :: u64 where "MAX_TOTAL_ATTACHMENT_BYTES = 128 * 1024 * 1024"
definition MAX_DEADLINE_HORIZON_SECONDS :: int where "MAX_DEADLINE_HORIZON_SECONDS = 24 * 60 * 60"

datatype tenant_id = TenantId (tenant_str: string)

datatype subject_id = SubjectId (subject_str: string)

datatype profile_id = ProfileId (profile_str: string)

record authenticated_source =
  as_surface :: string
  as_source_id :: string

record authenticated_source_input =
  asi_surface :: string
  asi_source_id :: string

record ingress_attachment =
  ia_attachment_id :: string
  ia_media_type :: string
  ia_byte_len :: u64
  ia_sha256 :: string

record ingress_attachment_input =
  iai_attachment_id :: string
  iai_media_type :: string
  iai_byte_len :: u64
  iai_sha256 :: string

record authenticated_ingress_input =
  aii_tenant_id :: string
  aii_subject_id :: string
  aii_principal_id :: principal_id
  aii_workspace_id :: workspace_id
  aii_profile_id :: string
  aii_session_id :: session_id
  aii_source :: authenticated_source_input
  aii_deadline :: instant
  aii_scopes :: "string list"
  aii_idempotency_key :: string
  aii_attachments :: "ingress_attachment_input list"

record authenticated_ingress =
  ai_tenant_id :: tenant_id
  ai_subject_id :: subject_id
  ai_principal_id :: principal_id
  ai_workspace_id :: workspace_id
  ai_profile_id :: profile_id
  ai_session_id :: session_id
  ai_source :: authenticated_source
  ai_deadline :: instant
  ai_scopes :: "string btree_set"
  ai_idempotency_key :: string
  ai_attachments :: "ingress_attachment list"

datatype ingress_validation_error =
  InvalidIdentifier string
  | InvalidIdempotencyKey
  | DeadlineExpired
  | DeadlineTooFar int
  | MissingScopes
  | TooManyScopes nat nat
  | InvalidScope string
  | DuplicateScope string
  | TooManyAttachments nat nat
  | InvalidMediaType string
  | InvalidAttachmentDigest string
  | InvalidAttachmentSize string u64 u64
  | DuplicateAttachmentId string
  | AttachmentBytesOverflow
  | TotalAttachmentSizeExceeded u64 u64

definition validate_identifier :: "string \<Rightarrow> string \<Rightarrow> ingress_validation_error + unit" where
  "validate_identifier field value =
     (let valid = value \<noteq> [] \<and> length value \<le> MAX_ID_BYTES \<and> trim value = value \<and>
        list_all (\<lambda>byte. is_ascii_alphanumeric byte \<or> List.member ''._:-@'' byte) value
      in if valid then Inr () else Inl (InvalidIdentifier field))"

definition validate_scope :: "string \<Rightarrow> ingress_validation_error + unit" where
  "validate_scope scope =
     (let valid = scope \<noteq> [] \<and> length scope \<le> 128 \<and> trim scope = scope \<and>
        list_all (\<lambda>byte. is_ascii_alphanumeric byte \<or> List.member ''._:-'' byte) scope
      in if valid then Inr () else Inl (InvalidScope scope))"

definition validate_idempotency_key :: "string \<Rightarrow> ingress_validation_error + unit" where
  "validate_idempotency_key value =
     (let valid = 8 \<le> length value \<and> length value \<le> 128 \<and> trim value = value \<and>
        list_all (\<lambda>byte. is_ascii_alphanumeric byte \<or> List.member ''._:-'' byte) value
      in if valid then Inr () else Inl InvalidIdempotencyKey)"

definition validate_media_type :: "string \<Rightarrow> ingress_validation_error + unit" where
  "validate_media_type value =
     (let valid = value \<noteq> [] \<and> length value \<le> 127 \<and> trim value = value \<and>
        List.member value CHR ''/'' \<and>
        list_all (\<lambda>byte. is_ascii_lowercase byte \<or> is_ascii_digit byte \<or>
          List.member ''!#$&^_.+-/'' byte) value
      in if valid then Inr () else Inl (InvalidMediaType value))"

definition validate_sha256 :: "string \<Rightarrow> ingress_validation_error + unit" where
  "validate_sha256 value =
     (let hex = strip_prefix ''sha256:'' value;
          valid = (case hex of
            None \<Rightarrow> False
          | Some hex \<Rightarrow> length hex = 64 \<and> list_all (\<lambda>byte. is_ascii_digit byte \<or> byte_in 97 102 byte) hex)
      in if valid then Inr () else Inl (InvalidAttachmentDigest value))"

text \<open>The two loops of \<open>AuthenticatedIngress::new\<close>, over the scopes and over the attachments.\<close>

fun collect_scopes :: "string btree_set \<Rightarrow> string list \<Rightarrow> ingress_validation_error + string btree_set" where
  "collect_scopes scopes [] = Inr scopes"
| "collect_scopes scopes (scope # rest) =
     and_then (validate_scope scope) (\<lambda>_.
       if bt_contains scopes scope then Inl (DuplicateScope scope)
       else collect_scopes (bt_insert scope scopes) rest)"

fun collect_attachments ::
  "string btree_set \<Rightarrow> u64 \<Rightarrow> ingress_attachment list \<Rightarrow> ingress_attachment_input list \<Rightarrow>
     ingress_validation_error + ingress_attachment list" where
  "collect_attachments attachment_ids bytes attachments [] = Inr attachments"
| "collect_attachments attachment_ids bytes attachments (a # rest) =
     and_then (validate_identifier ''attachment_id'' (iai_attachment_id a)) (\<lambda>_.
     and_then (validate_media_type (iai_media_type a)) (\<lambda>_.
     and_then (validate_sha256 (iai_sha256 a)) (\<lambda>_.
     if iai_byte_len a = 0 \<or> iai_byte_len a > MAX_ATTACHMENT_BYTES
     then Inl (InvalidAttachmentSize (iai_attachment_id a) MAX_ATTACHMENT_BYTES (iai_byte_len a))
     else if bt_contains attachment_ids (iai_attachment_id a)
     then Inl (DuplicateAttachmentId (iai_attachment_id a))
     else
       and_then (ok_or AttachmentBytesOverflow (checked_add_u64 bytes (iai_byte_len a))) (\<lambda>bytes'.
       if bytes' > MAX_TOTAL_ATTACHMENT_BYTES
       then Inl (TotalAttachmentSizeExceeded MAX_TOTAL_ATTACHMENT_BYTES bytes')
       else
         collect_attachments (bt_insert (iai_attachment_id a) attachment_ids) bytes'
           (attachments @
             [\<lparr>ia_attachment_id = iai_attachment_id a, ia_media_type = iai_media_type a,
               ia_byte_len = iai_byte_len a, ia_sha256 = iai_sha256 a\<rparr>])
           rest))))"

definition new_ingress ::
  "authenticated_ingress_input \<Rightarrow> instant \<Rightarrow> ingress_validation_error + authenticated_ingress" where
  "new_ingress input now =
     and_then (validate_identifier ''tenant_id'' (aii_tenant_id input)) (\<lambda>_.
     and_then (validate_identifier ''subject_id'' (aii_subject_id input)) (\<lambda>_.
     and_then (validate_identifier ''principal_id'' (principal_str (aii_principal_id input))) (\<lambda>_.
     and_then (validate_identifier ''workspace_id'' (workspace_str (aii_workspace_id input))) (\<lambda>_.
     and_then (validate_identifier ''profile_id'' (aii_profile_id input)) (\<lambda>_.
     and_then (validate_identifier ''session_id'' (session_str (aii_session_id input))) (\<lambda>_.
     and_then (validate_identifier ''source.surface'' (asi_surface (aii_source input))) (\<lambda>_.
     and_then (validate_identifier ''source.source_id'' (asi_source_id (aii_source input))) (\<lambda>_.
     and_then (validate_idempotency_key (aii_idempotency_key input)) (\<lambda>_.
     if aii_deadline input \<le> now then Inl DeadlineExpired
     else if aii_deadline input > now + seconds MAX_DEADLINE_HORIZON_SECONDS
     then Inl (DeadlineTooFar MAX_DEADLINE_HORIZON_SECONDS)
     else if aii_scopes input = [] then Inl MissingScopes
     else if length (aii_scopes input) > MAX_SCOPES
     then Inl (TooManyScopes MAX_SCOPES (length (aii_scopes input)))
     else and_then (collect_scopes [] (aii_scopes input)) (\<lambda>scopes.
     if length (aii_attachments input) > MAX_ATTACHMENTS
     then Inl (TooManyAttachments MAX_ATTACHMENTS (length (aii_attachments input)))
     else and_then (collect_attachments [] 0 [] (aii_attachments input)) (\<lambda>attachments.
     Inr \<lparr>ai_tenant_id = TenantId (aii_tenant_id input),
          ai_subject_id = SubjectId (aii_subject_id input),
          ai_principal_id = aii_principal_id input,
          ai_workspace_id = aii_workspace_id input,
          ai_profile_id = ProfileId (aii_profile_id input),
          ai_session_id = aii_session_id input,
          ai_source = \<lparr>as_surface = asi_surface (aii_source input),
                       as_source_id = asi_source_id (aii_source input)\<rparr>,
          ai_deadline = aii_deadline input,
          ai_scopes = scopes,
          ai_idempotency_key = aii_idempotency_key input,
          ai_attachments = attachments\<rparr>)))))))))))"

subsection \<open>Field validators\<close>

definition hex_digest :: "string \<Rightarrow> bool" where
  "hex_digest s = (length s = 64 \<and> (\<forall>c \<in> set s. is_ascii_digit c \<or> byte_in 97 102 c))"

definition media_type :: "string \<Rightarrow> bool" where
  "media_type s = (length s \<le> 127 \<and> CHR ''/'' \<in> set s \<and>
     (\<forall>c \<in> set s. is_ascii_lowercase c \<or> is_ascii_digit c \<or> c \<in> set ''!#$&^_.+-/''))"

lemma validate_identifier_ok [result_simps]:
  "validate_identifier f v = Inr u \<longleftrightarrow> ascii_token ''._:-@'' 1 256 v"
  using trim_ascii_token [of "''._:-@''" 1 256 v]
  by (auto simp: validate_identifier_def Let_def MAX_ID_BYTES_def ascii_token_def list_all_iff
      punctuation_graphic Suc_le_eq)

lemma validate_scope_ok [result_simps]:
  "validate_scope v = Inr u \<longleftrightarrow> ascii_token ''._:-'' 1 128 v"
  using trim_ascii_token [of "''._:-''" 1 128 v]
  by (auto simp: validate_scope_def Let_def ascii_token_def list_all_iff punctuation_graphic Suc_le_eq)

lemma validate_idempotency_key_ok [result_simps]:
  "validate_idempotency_key v = Inr u \<longleftrightarrow> ascii_token ''._:-'' 8 128 v"
  using trim_ascii_token [of "''._:-''" 8 128 v]
  by (auto simp: validate_idempotency_key_def Let_def ascii_token_def list_all_iff punctuation_graphic)

lemma validate_media_type_ok [result_simps]: "validate_media_type v = Inr u \<longleftrightarrow> media_type v"
proof -
  have "trim v = v" if "media_type v"
    by (rule trim_graphic) (use that in \<open>auto simp: media_type_def list_all_iff byte_class_defs\<close>)
  then show ?thesis
    by (auto simp: validate_media_type_def Let_def media_type_def list_all_iff)
qed

lemma validate_sha256_ok [result_simps]:
  "validate_sha256 v = Inr u \<longleftrightarrow> (\<exists>d. v = ''sha256:'' @ d \<and> hex_digest d)"
  by (auto simp: validate_sha256_def Let_def hex_digest_def list_all_iff strip_prefix_Some strip_prefix_append
      simp del: append.simps split: option.splits if_splits)

lemma validate_scope_value:
  "validate_scope v = (if ascii_token ''._:-'' 1 128 v then Inr () else Inl (InvalidScope v))"
  using validate_scope_ok [of v "()"] by (auto simp: validate_scope_def Let_def)

subsection \<open>The loops\<close>

interpretation ingress_scopes: unique_collector collect_scopes
  "ascii_token ''._:-'' 1 128" InvalidScope DuplicateScope
  by unfold_locales (simp_all add: validate_scope_value)

definition attachment_ok :: "ingress_attachment_input \<Rightarrow> bool" where
  "attachment_ok a =
     (ascii_token ''._:-@'' 1 256 (iai_attachment_id a) \<and> media_type (iai_media_type a) \<and>
      (\<exists>d. iai_sha256 a = ''sha256:'' @ d \<and> hex_digest d) \<and>
      0 < unat (iai_byte_len a) \<and> unat (iai_byte_len a) \<le> 64 * 1024 * 1024)"

definition attachment_of :: "ingress_attachment_input \<Rightarrow> ingress_attachment" where
  "attachment_of a =
     \<lparr>ia_attachment_id = iai_attachment_id a, ia_media_type = iai_media_type a,
      ia_byte_len = iai_byte_len a, ia_sha256 = iai_sha256 a\<rparr>"

definition total_bytes :: "ingress_attachment_input list \<Rightarrow> nat" where
  "total_bytes as = (\<Sum>a\<leftarrow>as. unat (iai_byte_len a))"

lemma attachment_size_ok:
  "\<not> (b = 0 \<or> b > MAX_ATTACHMENT_BYTES) \<longleftrightarrow> 0 < unat b \<and> unat b \<le> 64 * 1024 * 1024"
  by (auto simp: MAX_ATTACHMENT_BYTES_def word_le_nat_alt word_less_nat_alt unat_eq_zero not_less
      simp flip: neq0_conv)

lemma within_total:
  "\<not> b > MAX_TOTAL_ATTACHMENT_BYTES \<longleftrightarrow> unat b \<le> 128 * 1024 * 1024"
  by (simp add: MAX_TOTAL_ATTACHMENT_BYTES_def word_less_nat_alt not_less)

lemma collect_attachments_step:
  "collect_attachments ids b acc (a # as) = Inr bs \<longleftrightarrow>
     attachment_ok a \<and> iai_attachment_id a \<notin> set ids \<and>
     (\<exists>b'. unat b' = unat b + unat (iai_byte_len a) \<and> unat b' \<le> 128 * 1024 * 1024 \<and>
       collect_attachments (bt_insert (iai_attachment_id a) ids) b' (acc @ [attachment_of a]) as = Inr bs)"
  using attachment_size_ok [of "iai_byte_len a"]
  by (auto simp: result_simps attachment_ok_def attachment_of_def checked_add_u64_Some within_total
      simp del: bt_insert_set split: if_splits)

lemma collect_attachments_ok:
  assumes "unat b \<le> 128 * 1024 * 1024"
  shows "collect_attachments ids b acc as = Inr bs \<longleftrightarrow>
     (\<forall>a \<in> set as. attachment_ok a) \<and> distinct (map iai_attachment_id as) \<and>
     iai_attachment_id ` set as \<inter> set ids = {} \<and> unat b + total_bytes as \<le> 128 * 1024 * 1024 \<and>
     bs = acc @ map attachment_of as"
  using assms
proof (induction as arbitrary: ids b acc)
  case Nil
  then show ?case by (auto simp: total_bytes_def)
next
  case (Cons a as)
  let ?n = "unat (iai_byte_len a)"
  have sum: "unat (b + iai_byte_len a) = unat b + ?n" if "unat b + ?n \<le> 128 * 1024 * 1024"
    using that checked_add_u64_Some [of b "iai_byte_len a" "b + iai_byte_len a"]
    by (simp add: checked_add_u64_def)
  then have ex: "(\<exists>b'. unat b' = unat b + ?n \<and> unat b' \<le> 128 * 1024 * 1024 \<and> P b') \<longleftrightarrow>
      unat b + ?n \<le> 128 * 1024 * 1024 \<and> P (b + iai_byte_len a)" for P :: "u64 \<Rightarrow> bool"
    by (metis word_unat_eq_iff)
  show ?case
    unfolding collect_attachments_step ex
  proof (cases "unat b + ?n \<le> 128 * 1024 * 1024")
    case True
    have le: "unat (b + iai_byte_len a) \<le> 128 * 1024 * 1024"
      using True sum by simp
    show "(attachment_ok a \<and> iai_attachment_id a \<notin> set ids \<and> unat b + ?n \<le> 128 * 1024 * 1024 \<and>
        collect_attachments (bt_insert (iai_attachment_id a) ids) (b + iai_byte_len a)
          (acc @ [attachment_of a]) as = Inr bs) \<longleftrightarrow>
      (\<forall>a \<in> set (a # as). attachment_ok a) \<and> distinct (map iai_attachment_id (a # as)) \<and>
      iai_attachment_id ` set (a # as) \<inter> set ids = {} \<and>
      unat b + total_bytes (a # as) \<le> 128 * 1024 * 1024 \<and> bs = acc @ map attachment_of (a # as)"
      unfolding Cons.IH [OF le] sum [OF True] using True
      by (auto simp: total_bytes_def)
  qed (auto simp: total_bytes_def)
qed

lemma collect_attachments_no_overflow:
  "unat b \<le> 128 * 1024 * 1024 \<Longrightarrow>
     collect_attachments ids b acc as \<noteq> Inl AttachmentBytesOverflow"
proof (induction as arbitrary: ids b acc)
  case (Cons a as)
  let ?n = "unat (iai_byte_len a)"
  have add: "checked_add_u64 b (iai_byte_len a) \<noteq> None" if "?n \<le> 64 * 1024 * 1024"
    using that Cons.prems by (simp add: checked_add_u64_def)
  show ?case
    using Cons attachment_size_ok [of "iai_byte_len a"] within_total add
    by (auto simp: result_simps validate_identifier_def validate_media_type_def validate_sha256_def Let_def
        split: if_splits)
qed simp

subsection \<open>Accepted inputs\<close>

definition ingress_input_ok :: "authenticated_ingress_input \<Rightarrow> instant \<Rightarrow> bool" where
  "ingress_input_ok i now =
     (list_all (ascii_token ''._:-@'' 1 256)
        [aii_tenant_id i, aii_subject_id i, principal_str (aii_principal_id i),
         workspace_str (aii_workspace_id i), aii_profile_id i, session_str (aii_session_id i),
         asi_surface (aii_source i), asi_source_id (aii_source i)] \<and>
      ascii_token ''._:-'' 8 128 (aii_idempotency_key i) \<and>
      now < aii_deadline i \<and> aii_deadline i \<le> now + seconds (24 * 60 * 60) \<and>
      1 \<le> length (aii_scopes i) \<and> length (aii_scopes i) \<le> 32 \<and>
      list_all (ascii_token ''._:-'' 1 128) (aii_scopes i) \<and> distinct (aii_scopes i) \<and>
      length (aii_attachments i) \<le> 16 \<and> list_all attachment_ok (aii_attachments i) \<and>
      distinct (map iai_attachment_id (aii_attachments i)) \<and>
      total_bytes (aii_attachments i) \<le> 128 * 1024 * 1024)"

definition ingress_of :: "authenticated_ingress_input \<Rightarrow> authenticated_ingress" where
  "ingress_of i =
     \<lparr>ai_tenant_id = TenantId (aii_tenant_id i),
      ai_subject_id = SubjectId (aii_subject_id i),
      ai_principal_id = aii_principal_id i,
      ai_workspace_id = aii_workspace_id i,
      ai_profile_id = ProfileId (aii_profile_id i),
      ai_session_id = aii_session_id i,
      ai_source = \<lparr>as_surface = asi_surface (aii_source i), as_source_id = asi_source_id (aii_source i)\<rparr>,
      ai_deadline = aii_deadline i,
      ai_scopes = bt_from_list (aii_scopes i),
      ai_idempotency_key = aii_idempotency_key i,
      ai_attachments = map attachment_of (aii_attachments i)\<rparr>"

text \<open>
  C31. \<open>AuthenticatedIngress::new\<close> accepts exactly the inputs within the declared bounds (identifier
  and token alphabets and lengths, a deadline in the future and at most a day ahead, 1 to 32
  distinct scopes, at most 16 distinctly named attachments of 1 byte to 64 MiB and 128 MiB in
  all), and then returns the input's own fields with the scopes as a set.
\<close>

theorem new_ingress_accepts:
  "new_ingress input now = Inr ingress \<longleftrightarrow> ingress_input_ok input now \<and> ingress = ingress_of input"
  by (cases ingress)
    (auto simp: new_ingress_def result_simps ingress_scopes.run_ok collect_attachments_ok
      ingress_input_ok_def ingress_of_def MAX_DEADLINE_HORIZON_SECONDS_def MAX_SCOPES_def
      MAX_ATTACHMENTS_def list_all_iff Suc_le_eq split: if_splits)

text \<open>
  The overflow error of the checked attachment total is dead code: the 64 MiB bound on each
  attachment and the 128 MiB bound on the running total stop the loop before 64-bit addition can
  overflow, for every input and clock.
\<close>

theorem new_ingress_no_overflow:
  "new_ingress input now \<noteq> Inl AttachmentBytesOverflow"
  by (auto simp: new_ingress_def result_simps collect_attachments_no_overflow validate_identifier_def
      validate_idempotency_key_def ingress_scopes.run_fails Let_def split: if_splits)

end
