(* ===== verification/Externals.thy ===== *)
theory Externals
  imports Json Zaion_Types
begin

text \<open>
  The third-party code that the ledger and the turn store call, as one record of functions that
  every definition takes as an argument: SHA-256, hexadecimal and base-58 encodings, Ed25519,
  the JSON printer and parser, UUID parsing, the text SQLite stores for a schema object, and the
  file system queries. What the code relies on is named here as hypotheses on the record, which
  state documented behaviour of those libraries; \<open>crates/zaion-crypto/src\<close> wraps the primitives.
\<close>

record externals =
  x_sha256 :: "bytes \<Rightarrow> bytes"
  x_hex_encode :: "bytes \<Rightarrow> string"
  x_hex_decode :: "string \<Rightarrow> bytes option"
  x_bs58 :: "bytes \<Rightarrow> string"
  x_json_print :: "json \<Rightarrow> string"
  x_json_parse :: "string \<Rightarrow> json option"
  x_json_eq :: "json \<Rightarrow> json \<Rightarrow> bool"
  x_verifying_key :: "bytes \<Rightarrow> bytes"
  x_ed25519_sign :: "bytes \<Rightarrow> bytes \<Rightarrow> bytes"
  x_verifying_key_ok :: "bytes \<Rightarrow> bool"
  x_ed25519_verify :: "bytes \<Rightarrow> bytes \<Rightarrow> bytes \<Rightarrow> bool"
  x_uuid_canonical :: "string \<Rightarrow> string option"
  x_stored_sql :: "string \<Rightarrow> string"
  x_canonicalize :: "string \<Rightarrow> string option"
  x_is_file :: "string \<Rightarrow> bool option"

text \<open>Hexadecimal text has two characters per byte and decodes to what was encoded.\<close>

definition hex_laws :: "externals \<Rightarrow> bool" where
  "hex_laws x =
     ((\<forall>b. length (x_hex_encode x b) = 2 * length b) \<and> (\<forall>b. x_hex_decode x (x_hex_encode x b) = Some b))"

text \<open>A SHA-256 digest has 32 bytes.\<close>

definition sha256_length :: "externals \<Rightarrow> bool" where
  "sha256_length x = (\<forall>b. length (x_sha256 x b) = 32)"

text \<open>Ed25519: keys have 32 and signatures 64 bytes, and what a key signs its public key verifies.\<close>

definition ed25519_laws :: "externals \<Rightarrow> bool" where
  "ed25519_laws x =
     (\<forall>k m. length (x_verifying_key x k) = 32 \<and> length (x_ed25519_sign x k m) = 64 \<and>
        x_verifying_key_ok x (x_verifying_key x k) \<and>
        x_ed25519_verify x (x_verifying_key x k) m (x_ed25519_sign x k m))"

text \<open>\<open>hex::encode(Sha256::digest(bytes))\<close>.\<close>

definition sha256_hex :: "externals \<Rightarrow> bytes \<Rightarrow> string" where
  "sha256_hex x b = x_hex_encode x (x_sha256 x b)"

text \<open>The length-framed hash input that several identifiers share.\<close>

fun framed :: "string list \<Rightarrow> bytes" where
  "framed [] = []"
| "framed (part # parts) = le_bytes_64 (int (length part)) @ part @ [char_of (0x1f :: nat)] @ framed parts"

lemma le_bytes_64_length [simp]: "length (le_bytes_64 n) = 8"
  by (simp add: le_bytes_64_def)

text \<open>Framing is unambiguous: lists of the same number of parts with equal framings are equal.\<close>

lemma base_256_digits:
  "0 \<le> (n :: int) \<Longrightarrow> (\<Sum>i<k. (n div 256 ^ i mod 256) * 256 ^ i) = n mod 256 ^ k"
proof (induction k)
  case (Suc k)
  have "n mod (256 ^ k * 256) = 256 ^ k * (n div 256 ^ k mod 256) + n mod 256 ^ k"
    by (rule zmod_zmult2_eq) simp
  then show ?case
    using Suc by (simp add: mult.commute)
qed simp

lemma le_bytes_64_value:
  assumes "0 \<le> n" "n < 2 ^ 64"
  shows "(\<Sum>i<8. int (of_char (le_bytes_64 n ! i)) * 256 ^ i) = n"
proof -
  have byte: "int (of_char (le_bytes_64 n ! i)) = n div 256 ^ i mod 256" if "i < 8" for i
  proof -
    have "int (of_char (char_of (nat (n div 256 ^ i mod 256)) :: char)) = n div 256 ^ i mod 256"
      by simp
    then show ?thesis
      using that assms by (simp add: le_bytes_64_def)
  qed
  have "(\<Sum>i<8. int (of_char (le_bytes_64 n ! i)) * 256 ^ i) = (\<Sum>i<8. (n div 256 ^ i mod 256) * 256 ^ i)"
    by (intro sum.cong) (simp_all add: byte)
  also have "\<dots> = n"
    using assms base_256_digits [of n 8] by simp
  finally show ?thesis .
qed

lemma le_bytes_64_inject:
  assumes "le_bytes_64 m = le_bytes_64 n" "0 \<le> m" "m < 2 ^ 64" "0 \<le> n" "n < 2 ^ 64"
  shows "m = n"
  using assms le_bytes_64_value by metis

lemma framed_inject:
  "length ps = length qs \<Longrightarrow> \<forall>p \<in> set (ps @ qs). length p < 2 ^ 64 \<Longrightarrow> framed ps = framed qs \<Longrightarrow> ps = qs"
proof (induction ps qs rule: list_induct2)
  case (Cons p ps q qs)
  have head: "le_bytes_64 (int (length p)) = le_bytes_64 (int (length q))"
    and rest: "p @ [char_of (0x1f :: nat)] @ framed ps = q @ [char_of (0x1f :: nat)] @ framed qs"
    using Cons.prems(2) by (simp_all add: append_eq_append_conv)
  have "int (length p) = int (length q)"
    by (rule le_bytes_64_inject [OF head]) (use Cons.prems(1) in auto)
  then have "p = q" "framed ps = framed qs"
    using rest by simp_all
  then show ?case
    using Cons by simp
qed simp

subsection \<open>Key pairs\<close>

datatype crypto_error = InvalidKey string | VerificationFailed | DecodeError string

datatype zaion_keypair = ZaionKeypair (signing_key: bytes)

definition keypair_from_bytes :: "bytes \<Rightarrow> crypto_error + zaion_keypair" where
  "keypair_from_bytes b =
     (if length b = 32 then Inr (ZaionKeypair b) else Inl (InvalidKey ''expected 32 bytes''))"

definition keypair_public_key_bytes :: "externals \<Rightarrow> zaion_keypair \<Rightarrow> public_key_bytes" where
  "keypair_public_key_bytes x k = PublicKeyBytes (x_verifying_key x (signing_key k))"

definition keypair_principal_id :: "externals \<Rightarrow> zaion_keypair \<Rightarrow> principal_id" where
  "keypair_principal_id x k =
     (let pub_bytes = x_verifying_key x (signing_key k);
          digest = x_sha256 x pub_bytes
      in PrincipalId (x_bs58 x digest))"

definition keypair_sign :: "externals \<Rightarrow> zaion_keypair \<Rightarrow> bytes \<Rightarrow> signature_bytes" where
  "keypair_sign x k message = SignatureBytes (x_ed25519_sign x (signing_key k) message)"

definition principal_id_from_public_key :: "externals \<Rightarrow> public_key_bytes \<Rightarrow> principal_id" where
  "principal_id_from_public_key x pub_key =
     (let digest = x_sha256 x (public_key_vec pub_key) in PrincipalId (x_bs58 x digest))"

definition verify_signature ::
  "externals \<Rightarrow> public_key_bytes \<Rightarrow> bytes \<Rightarrow> signature_bytes \<Rightarrow> crypto_error + unit" where
  "verify_signature x public_key message signature =
     (if length (public_key_vec public_key) \<noteq> 32 then Inl (InvalidKey ''expected 32 bytes'')
      else if \<not> x_verifying_key_ok x (public_key_vec public_key) then Inl (InvalidKey ''malformed point'')
      else if length (signature_vec signature) \<noteq> 64 then Inl (DecodeError ''expected 64 bytes'')
      else if x_ed25519_verify x (public_key_vec public_key) message (signature_vec signature)
      then Inr () else Inl VerificationFailed)"

lemma keypair_principal_matches:
  "principal_id_from_public_key x (keypair_public_key_bytes x k) = keypair_principal_id x k"
  by (simp add: principal_id_from_public_key_def keypair_public_key_bytes_def keypair_principal_id_def)

lemma verify_own_signature:
  "ed25519_laws x \<Longrightarrow> verify_signature x (keypair_public_key_bytes x k) m (keypair_sign x k m) = Inr ()"
  by (simp add: ed25519_laws_def verify_signature_def keypair_public_key_bytes_def keypair_sign_def)

end
