(* ===== verification/Ledger_Chain.thy ===== *)
theory Ledger_Chain
  imports Externals
begin

text \<open>
  The \<open>events\<close> table of \<open>crates/zaion-ledger\<close> (\<open>schema.rs\<close>, \<open>ledger.rs\<close>) and the hash chain over it:
  rows in insertion order, the event hash, the position of the next event, the transactional append
  with its three policies for an existing identifier, chain verification, and the migration that
  rebuilds chain metadata. The lemmas show that every append keeps, for every principal, a gap-free
  hash-linked sequence from the genesis hash, that \<open>verify_chain\<close> recognises exactly such sequences,
  which alterations it reports and which it cannot see.
\<close>

subsection \<open>Tables\<close>

definition GENESIS_HASH :: string where
  "GENESIS_HASH = replicate 64 CHR ''0''"

record event_row =
  er_event_id :: string
  er_principal_id :: string
  er_namespace_key :: string
  er_run_id :: "string option"
  er_event_type :: string
  er_payload_json :: string
  er_signature_hex :: "string option"
  er_created_at :: string
  er_parent_event_id :: "string option"
  er_seq_num :: int
  er_prev_hash :: string

record chain_migration_row =
  cm_migration_id :: string
  cm_migration_kind :: string
  cm_before_hash :: string
  cm_after_hash :: string
  cm_event_count :: int

record schema_object =
  so_type :: string
  so_name :: string
  so_tbl_name :: string
  so_sql :: string

record ledger_db =
  ld_events :: "event_row list"
  ld_chain_migrations :: "chain_migration_row list"
  ld_schema_migrations :: "string list"
  ld_master :: "schema_object list"
  ld_identity :: "(int \<times> string) list"
  ld_database_list :: "(int \<times> string \<times> string) list"
  ld_chain_columns :: bool
  ld_sequence_index :: bool

datatype sqlite_error =
  ConstraintViolation string
  | FromSqlConversionFailure nat
  | NoSuchTable string
  | DatabaseBusy
  | DatabaseLocked

datatype io_error_kind = IoInterrupted | IoWouldBlock | IoTimedOut | IoOther

datatype ledger_error =
  LedgerSqlite sqlite_error
  | LedgerSerialization
  | LedgerIo io_error_kind string
  | LedgerNotFound string
  | CorruptPayload string
  | LedgerInvalidIdempotencyKey
  | EventIdConflict string
  | EventBindingPrincipalMismatch string string
  | EventBindingMismatch string
  | EventBindingSignatureInvalid
  | EventBindingNonCanonicalSignature
  | EventBindingUnsupportedLedgerPath string
  | InvalidDatabaseInstanceIdentity string
  | DatabaseInstanceIdentityDrift string string
  | CorruptChain string

text \<open>\<open>INSERT INTO events\<close> under the primary key and the unique index on principal and sequence.\<close>

definition insert_event_row :: "event_row \<Rightarrow> ledger_db \<Rightarrow> ledger_error + ledger_db" where
  "insert_event_row row db =
     (if list_ex (\<lambda>r. er_event_id r = er_event_id row) (ld_events db)
      then Inl (LedgerSqlite (ConstraintViolation ''events.event_id''))
      else if list_ex (\<lambda>r. er_principal_id r = er_principal_id row \<and> er_seq_num r = er_seq_num row) (ld_events db)
      then Inl (LedgerSqlite (ConstraintViolation ''ux_events_principal_seq''))
      else Inr (db\<lparr>ld_events := ld_events db @ [row]\<rparr>))"

subsection \<open>Appending\<close>

definition event_hash ::
  "externals \<Rightarrow> string \<Rightarrow> string \<Rightarrow> string \<Rightarrow> string \<Rightarrow> string \<Rightarrow> int \<Rightarrow> string" where
  "event_hash x event_id principal_id event_type payload_json created_at seq_num =
     sha256_hex x
       (event_id @ ''|'' @ principal_id @ ''|'' @ event_type @ ''|'' @ payload_json @ ''|'' @
        created_at @ ''|'' @ show_int seq_num)"

definition row_hash :: "externals \<Rightarrow> string \<Rightarrow> event_row \<Rightarrow> string" where
  "row_hash x principal_id r =
     event_hash x (er_event_id r) principal_id (er_event_type r) (er_payload_json r)
       (er_created_at r) (er_seq_num r)"

text \<open>\<open>ORDER BY seq_num DESC LIMIT 1\<close>.\<close>

fun newest_row :: "event_row list \<Rightarrow> event_row option" where
  "newest_row [] = None"
| "newest_row (r # rs) =
     (case newest_row rs of
        None \<Rightarrow> Some r
      | Some s \<Rightarrow> if er_seq_num r > er_seq_num s then Some r else Some s)"

definition rows_of_principal :: "string \<Rightarrow> ledger_db \<Rightarrow> event_row list" where
  "rows_of_principal principal_id db = filter (\<lambda>r. er_principal_id r = principal_id) (ld_events db)"

definition next_chain_position :: "externals \<Rightarrow> ledger_db \<Rightarrow> string \<Rightarrow> ledger_error + (int \<times> string)" where
  "next_chain_position x db principal_id =
     (case newest_row (rows_of_principal principal_id db) of
        None \<Rightarrow> Inr (0, GENESIS_HASH)
      | Some r \<Rightarrow>
          and_then (ok_or (CorruptChain ''event sequence exhausted i64'') (checked_succ_i64 (er_seq_num r)))
            (\<lambda>next_seq. Inr (next_seq, row_hash x principal_id r)))"

datatype existing_event_policy = Reject | MatchAll | MatchIgnoringCreatedAt

record prepared_event =
  pe_event_id :: string
  pe_principal_id :: string
  pe_namespace_key :: string
  pe_run_id :: "string option"
  pe_event_type :: string
  pe_payload_json :: string
  pe_signature_hex :: "string option"
  pe_created_at :: string
  pe_parent_event_id :: "string option"

definition stored_matches :: "event_row \<Rightarrow> prepared_event \<Rightarrow> bool \<Rightarrow> bool" where
  "stored_matches self event include_created_at =
     (er_principal_id self = pe_principal_id event \<and>
      er_namespace_key self = pe_namespace_key event \<and>
      er_run_id self = pe_run_id event \<and>
      er_event_type self = pe_event_type event \<and>
      er_payload_json self = pe_payload_json event \<and>
      er_signature_hex self = pe_signature_hex event \<and>
      (\<not> include_created_at \<or> er_created_at self = pe_created_at event) \<and>
      er_parent_event_id self = pe_parent_event_id event)"

definition find_event :: "string \<Rightarrow> ledger_db \<Rightarrow> event_row option" where
  "find_event event_id db = find (\<lambda>r. er_event_id r = event_id) (ld_events db)"

definition row_of_prepared :: "prepared_event \<Rightarrow> int \<Rightarrow> string \<Rightarrow> event_row" where
  "row_of_prepared event seq_num prev_hash =
     \<lparr>er_event_id = pe_event_id event, er_principal_id = pe_principal_id event,
      er_namespace_key = pe_namespace_key event, er_run_id = pe_run_id event,
      er_event_type = pe_event_type event, er_payload_json = pe_payload_json event,
      er_signature_hex = pe_signature_hex event, er_created_at = pe_created_at event,
      er_parent_event_id = pe_parent_event_id event, er_seq_num = seq_num, er_prev_hash = prev_hash\<rparr>"

definition append_prepared_event ::
  "externals \<Rightarrow> prepared_event \<Rightarrow> existing_event_policy \<Rightarrow> ledger_db \<Rightarrow> ledger_error + (bool \<times> ledger_db)" where
  "append_prepared_event x event existing_policy db =
     (case find_event (pe_event_id event) db of
        Some existing \<Rightarrow>
          let equivalent =
            (case existing_policy of
               Reject \<Rightarrow> False
             | MatchAll \<Rightarrow> stored_matches existing event True
             | MatchIgnoringCreatedAt \<Rightarrow> stored_matches existing event False)
          in if \<not> equivalent then Inl (EventIdConflict (pe_event_id event)) else Inr (False, db)
      | None \<Rightarrow>
          and_then (next_chain_position x db (pe_principal_id event)) (\<lambda>(seq_num, prev_hash).
          and_then (insert_event_row (row_of_prepared event seq_num prev_hash) db) (\<lambda>db'.
          Inr (True, db'))))"

subsection \<open>Verification\<close>

record chain_verify_result =
  cv_total :: nat
  cv_verified :: nat
  cv_broken_at :: "int option"

fun verify_chain_loop ::
  "externals \<Rightarrow> string \<Rightarrow> nat \<Rightarrow> nat \<Rightarrow> string \<Rightarrow> int \<Rightarrow> event_row list \<Rightarrow> ledger_error + chain_verify_result" where
  "verify_chain_loop x principal_id n verified expected_prev expected_seq [] =
     Inr \<lparr>cv_total = n, cv_verified = verified, cv_broken_at = None\<rparr>"
| "verify_chain_loop x principal_id n verified expected_prev expected_seq (r # rows) =
     (if er_seq_num r \<noteq> expected_seq \<or> er_prev_hash r \<noteq> expected_prev
      then Inr \<lparr>cv_total = n, cv_verified = verified, cv_broken_at = Some (er_seq_num r)\<rparr>
      else
        and_then (ok_or (CorruptChain ''event sequence exhausted i64'') (checked_succ_i64 expected_seq))
          (\<lambda>next_seq. verify_chain_loop x principal_id n (verified + 1) (row_hash x principal_id r) next_seq rows))"

definition verify_chain :: "externals \<Rightarrow> string \<Rightarrow> ledger_db \<Rightarrow> ledger_error + chain_verify_result" where
  "verify_chain x principal_id db =
     (let rows = sort_key er_seq_num (rows_of_principal principal_id db)
      in verify_chain_loop x principal_id (length rows) 0 GENESIS_HASH 0 rows)"

fun validate_chain_loop ::
  "externals \<Rightarrow> string \<Rightarrow> int \<Rightarrow> string \<Rightarrow> event_row list \<Rightarrow> ledger_error + unit" where
  "validate_chain_loop x active_principal expected_seq expected_prev [] = Inr ()"
| "validate_chain_loop x active_principal expected_seq expected_prev (r # rows) =
     (let same = er_principal_id r = active_principal;
          expected_seq = (if same then expected_seq else 0);
          expected_prev = (if same then expected_prev else GENESIS_HASH)
      in if er_seq_num r \<noteq> expected_seq \<or> er_prev_hash r \<noteq> expected_prev
         then Inl (CorruptChain
           (''principal '' @ er_principal_id r @ '' expected seq '' @ show_int expected_seq @
            '' with prev '' @ expected_prev @ '', found seq '' @ show_int (er_seq_num r) @
            '' with prev '' @ er_prev_hash r))
         else
           and_then (ok_or (CorruptChain ''event sequence exhausted i64'') (checked_succ_i64 expected_seq))
             (\<lambda>next_seq. validate_chain_loop x (er_principal_id r) next_seq
                (row_hash x (er_principal_id r) r) rows))"

definition validate_chain_metadata :: "externals \<Rightarrow> ledger_db \<Rightarrow> ledger_error + unit" where
  "validate_chain_metadata x db =
     validate_chain_loop x [] 0 GENESIS_HASH
       (sort_key er_principal_id (sort_key er_seq_num (sort_key er_event_id (ld_events db))))"

subsection \<open>Migration\<close>

definition chain_metadata_is_all_defaults :: "ledger_db \<Rightarrow> bool" where
  "chain_metadata_is_all_defaults db =
     (length (filter (\<lambda>r. er_seq_num r \<noteq> 0 \<or> er_prev_hash r \<noteq> GENESIS_HASH) (ld_events db)) = 0)"

fun digest_input :: "event_row list \<Rightarrow> bytes" where
  "digest_input [] = []"
| "digest_input (r # rows) =
     framed [er_event_id r, er_principal_id r, er_prev_hash r] @ le_bytes_64 (er_seq_num r) @ digest_input rows"

text \<open>Rows are in rowid order, and \<open>sort_key\<close> is stable.\<close>

definition chain_metadata_digest :: "externals \<Rightarrow> ledger_db \<Rightarrow> nat \<times> string" where
  "chain_metadata_digest x db =
     (let rows = sort_key er_principal_id (ld_events db)
      in (length rows, ''sha256:'' @ sha256_hex x (digest_input rows)))"

definition record_chain_migration ::
  "externals \<Rightarrow> string \<Rightarrow> string \<Rightarrow> string \<Rightarrow> nat \<Rightarrow> ledger_db \<Rightarrow> ledger_error + ledger_db" where
  "record_chain_migration x migration_kind before_hash after_hash event_count db =
     (let migration_id = ''ledger-chain-migration-'' @
        take 40 (sha256_hex x (framed [migration_kind, before_hash, after_hash]))
      in if int event_count > i64_max
         then Inl (CorruptChain ''chain migration event count exceeds i64'')
         else if list_ex (\<lambda>m. cm_migration_id m = migration_id) (ld_chain_migrations db)
         then Inl (LedgerSqlite (ConstraintViolation ''ledger_chain_migrations.migration_id''))
         else Inr (db\<lparr>ld_chain_migrations := ld_chain_migrations db @
           [\<lparr>cm_migration_id = migration_id, cm_migration_kind = migration_kind,
             cm_before_hash = before_hash, cm_after_hash = after_hash,
             cm_event_count = int event_count\<rparr>]\<rparr>))"

text \<open>
  The rebuild assigns to each row, in the order of principal, sequence and rowid, its new sequence
  number and link; rows are identified by their position, which is their rowid.
\<close>

fun rebuild_loop ::
  "externals \<Rightarrow> string \<Rightarrow> int \<Rightarrow> string \<Rightarrow> (nat \<times> event_row) list \<Rightarrow> event_row list \<Rightarrow>
     ledger_error + event_row list" where
  "rebuild_loop x active_principal seq_num prev_hash [] table = Inr table"
| "rebuild_loop x active_principal seq_num prev_hash ((row_id, r) # rows) table =
     (let same = er_principal_id r = active_principal;
          seq_num = (if same then seq_num else 0);
          prev_hash = (if same then prev_hash else GENESIS_HASH);
          table = table[row_id := (table ! row_id)\<lparr>er_seq_num := seq_num, er_prev_hash := prev_hash\<rparr>];
          prev_hash = event_hash x (er_event_id r) (er_principal_id r) (er_event_type r)
            (er_payload_json r) (er_created_at r) seq_num
      in and_then (ok_or (CorruptChain ''event sequence exhausted i64'') (checked_succ_i64 seq_num))
           (\<lambda>next_seq. rebuild_loop x (er_principal_id r) next_seq prev_hash rows table))"

definition rebuild_event_chain_metadata :: "externals \<Rightarrow> ledger_db \<Rightarrow> ledger_error + ledger_db" where
  "rebuild_event_chain_metadata x db =
     (let rows = sort_key (\<lambda>(i, r). er_principal_id r)
        (sort_key (\<lambda>(i, r). er_seq_num r) (enumerate 0 (ld_events db)))
      in and_then (rebuild_loop x [] 0 GENESIS_HASH rows (ld_events db))
           (\<lambda>table. Inr (db\<lparr>ld_events := table\<rparr>)))"

definition migrate_or_validate_event_chain ::
  "externals \<Rightarrow> bool \<Rightarrow> ledger_db \<Rightarrow> ledger_error + ledger_db" where
  "migrate_or_validate_event_chain x chain_columns_added db =
     (case validate_chain_metadata x db of
        Inr _ \<Rightarrow> Inr db
      | Inl error \<Rightarrow>
          if chain_columns_added \<or> chain_metadata_is_all_defaults db then
            let migration_kind = (if chain_columns_added then ''legacy_chain_columns_v1''
                  else ''legacy_default_chain_repair_v1'');
                (event_count, before_hash) = chain_metadata_digest x db
            in and_then (rebuild_event_chain_metadata x db) (\<lambda>db'.
               and_then (validate_chain_metadata x db') (\<lambda>_.
               let (after_count, after_hash) = chain_metadata_digest x db'
               in if after_count \<noteq> event_count
                  then Inl (CorruptChain ''chain migration changed event cardinality'')
                  else record_chain_migration x migration_kind before_hash after_hash event_count db'))
          else Inl error)"

subsection \<open>Chains\<close>

text \<open>The rows of one principal, in order, continue a chain at sequence \<open>n\<close> after hash \<open>h\<close>.\<close>

fun chain_from :: "externals \<Rightarrow> string \<Rightarrow> int \<Rightarrow> string \<Rightarrow> event_row list \<Rightarrow> bool" where
  "chain_from x p n h [] = True"
| "chain_from x p n h (r # rs) =
     (er_seq_num r = n \<and> er_prev_hash r = h \<and> chain_from x p (n + 1) (row_hash x p r) rs)"

definition chain_ok :: "externals \<Rightarrow> string \<Rightarrow> ledger_db \<Rightarrow> bool" where
  "chain_ok x p db = chain_from x p 0 GENESIS_HASH (rows_of_principal p db)"

definition ledger_inv :: "externals \<Rightarrow> ledger_db \<Rightarrow> bool" where
  "ledger_inv x db = (distinct (map er_event_id (ld_events db)) \<and> (\<forall>p. chain_ok x p db))"

lemma chain_append:
  "chain_from x p n h (rs @ ss) \<longleftrightarrow>
     chain_from x p n h rs \<and>
     chain_from x p (n + int (length rs)) (if rs = [] then h else row_hash x p (last rs)) ss"
  by (induction rs arbitrary: n h) (auto simp: algebra_simps)

lemma chain_seq_nth: "chain_from x p n h rs \<Longrightarrow> i < length rs \<Longrightarrow> er_seq_num (rs ! i) = n + int i"
proof (induction rs arbitrary: n h i)
  case (Cons r rs)
  then show ?case
    by (cases i) auto
qed simp

lemma newest_row_chain:
  "chain_from x p n h rs \<Longrightarrow> newest_row rs = (if rs = [] then None else Some (last rs))"
proof (induction rs arbitrary: n h)
  case (Cons r rs)
  have tail: "chain_from x p (n + 1) (row_hash x p r) rs" and r: "er_seq_num r = n"
    using Cons.prems by simp_all
  show ?case
  proof (cases "rs = []")
    case False
    then have "er_seq_num (last rs) = n + 1 + int (length rs - 1)"
      using chain_seq_nth [OF tail, of "length rs - 1"] by (simp add: last_conv_nth)
    then show ?thesis
      using Cons.IH [OF tail] r False by simp
  qed simp
qed simp

lemma sort_key_id: "sorted (map f xs) \<Longrightarrow> sort_key f xs = xs"
  by (induction xs) (auto simp: insort_is_Cons)

lemma chain_sorted: "chain_from x p n h rs \<Longrightarrow> sort_key er_seq_num rs = rs"
  by (rule sort_key_id) (auto simp: sorted_iff_nth_mono chain_seq_nth)

lemma rows_of_principal_append:
  "rows_of_principal p (db\<lparr>ld_events := ld_events db @ [r]\<rparr>) =
     rows_of_principal p db @ (if er_principal_id r = p then [r] else [])"
  by (simp add: rows_of_principal_def)

lemma rows_principal: "r \<in> set (rows_of_principal p db) \<longleftrightarrow> r \<in> set (ld_events db) \<and> er_principal_id r = p"
  by (auto simp: rows_of_principal_def)

subsection \<open>Appending keeps the chain\<close>

lemma append_cases:
  assumes "append_prepared_event x e policy db = Inr (ins, db')"
  obtains (existing) r where "ins = False" "db' = db" "find_event (pe_event_id e) db = Some r"
      "policy \<noteq> Reject" "stored_matches r e (policy = MatchAll)"
  | (inserted) seq prev where "ins = True" "find_event (pe_event_id e) db = None"
      "next_chain_position x db (pe_principal_id e) = Inr (seq, prev)"
      "db' = db\<lparr>ld_events := ld_events db @ [row_of_prepared e seq prev]\<rparr>"
proof (cases "find_event (pe_event_id e) db")
  case None
  then show ?thesis
    using assms inserted
    by (auto simp: append_prepared_event_def result_simps insert_event_row_def split: if_splits)
next
  case (Some r)
  then show ?thesis
    using assms existing
    by (auto simp: append_prepared_event_def Let_def split: if_splits existing_event_policy.splits)
qed

lemma find_event_None: "find_event i db = None \<longleftrightarrow> i \<notin> er_event_id ` set (ld_events db)"
  by (auto simp: find_event_def find_None_iff)

lemma find_event_Some: "find_event i db = Some r \<Longrightarrow> r \<in> set (ld_events db) \<and> er_event_id r = i"
  by (auto simp: find_event_def find_Some_iff)

lemma next_position_chain:
  assumes "chain_ok x p db" and "next_chain_position x db p = Inr (seq, prev)"
  shows "chain_from x p 0 GENESIS_HASH
    (rows_of_principal p db @ [r\<lparr>er_seq_num := seq, er_prev_hash := prev\<rparr>])"
proof -
  let ?rs = "rows_of_principal p db"
  have c: "chain_from x p 0 GENESIS_HASH ?rs"
    using assms(1) by (simp add: chain_ok_def)
  have "seq = int (length ?rs) \<and> prev = (if ?rs = [] then GENESIS_HASH else row_hash x p (last ?rs))"
  proof (cases "?rs = []")
    case False
    then have "er_seq_num (last ?rs) = int (length ?rs) - 1"
      using chain_seq_nth [OF c, of "length ?rs - 1"] by (simp add: last_conv_nth of_nat_diff Suc_leI)
    then show ?thesis
      using assms(2) False newest_row_chain [OF c]
      by (auto simp: next_chain_position_def result_simps checked_succ_i64_def split: if_splits)
  qed (use assms(2) in \<open>simp add: next_chain_position_def\<close>)
  then show ?thesis
    using c by (auto simp: chain_append)
qed

lemma append_inv:
  assumes inv: "ledger_inv x db" and app: "append_prepared_event x e policy db = Inr (ins, db')"
  shows "ledger_inv x db'"
  using app
proof (cases rule: append_cases)
  case (inserted seq prev)
  let ?r = "row_of_prepared e seq prev"
  have "chain_ok x q db'" for q
  proof (cases "q = pe_principal_id e")
    case True
    have "?r\<lparr>er_seq_num := seq, er_prev_hash := prev\<rparr> = ?r" and "er_principal_id ?r = pe_principal_id e"
      by (simp_all add: row_of_prepared_def)
    then show ?thesis
      using next_position_chain [of x "pe_principal_id e" db seq prev ?r] inserted(3) inv True
      by (simp add: ledger_inv_def chain_ok_def inserted(4) rows_of_principal_append)
  next
    case False
    then show ?thesis
      using inv inserted(4)
      by (simp add: ledger_inv_def chain_ok_def rows_of_principal_append row_of_prepared_def)
  qed
  moreover have "distinct (map er_event_id (ld_events db'))"
    using inv inserted(2,4) by (simp add: ledger_inv_def find_event_None row_of_prepared_def)
  ultimately show ?thesis
    by (simp add: ledger_inv_def)
qed (use inv in simp)

text \<open>On a valid chain a new event is always appended: neither constraint can fire.\<close>

lemma append_succeeds:
  assumes inv: "ledger_inv x db" and new: "find_event (pe_event_id e) db = None"
    and room: "int (length (rows_of_principal (pe_principal_id e) db)) \<le> i64_max"
  shows "\<exists>db'. append_prepared_event x e policy db = Inr (True, db')"
proof -
  let ?p = "pe_principal_id e"
  let ?rs = "rows_of_principal ?p db"
  have c: "chain_from x ?p 0 GENESIS_HASH ?rs"
    using inv by (simp add: ledger_inv_def chain_ok_def)
  have last: "er_seq_num (last ?rs) = int (length ?rs) - 1" if "?rs \<noteq> []"
    using that chain_seq_nth [OF c, of "length ?rs - 1"] by (simp add: last_conv_nth of_nat_diff Suc_leI)
  obtain prev where pos: "next_chain_position x db ?p = Inr (int (length ?rs), prev)"
    using newest_row_chain [OF c] last room
    by (cases "?rs = []") (auto simp: next_chain_position_def checked_succ_i64_def)
  have "er_seq_num r \<noteq> int (length ?rs)" if "r \<in> set (ld_events db)" "er_principal_id r = ?p" for r
  proof -
    have "r \<in> set ?rs"
      using that by (simp add: rows_principal)
    then obtain i where "i < length ?rs" "r = ?rs ! i"
      by (auto simp: in_set_conv_nth)
    then show ?thesis
      using chain_seq_nth [OF c] by simp
  qed
  then have "\<not> list_ex (\<lambda>r. er_principal_id r = ?p \<and> er_seq_num r = int (length ?rs)) (ld_events db)"
    by (auto simp: list_ex_iff)
  moreover have "\<not> list_ex (\<lambda>r. er_event_id r = pe_event_id e) (ld_events db)"
    using new by (force simp: list_ex_iff find_event_None)
  ultimately show ?thesis
    using new pos by (simp add: append_prepared_event_def insert_event_row_def row_of_prepared_def)
qed

subsection \<open>Verification\<close>

lemma verify_loop_ok:
  assumes "0 \<le> n" and "n + int (length rs) \<le> i64_max"
  shows "verify_chain_loop x p t v h n rs =
      Inr \<lparr>cv_total = t, cv_verified = v + length rs, cv_broken_at = None\<rparr> \<longleftrightarrow> chain_from x p n h rs"
  using assms
proof (induction rs arbitrary: v h n)
  case (Cons r rs)
  then show ?case
    using Cons.IH [of "n + 1" "Suc v" "row_hash x p r"] by (auto simp: checked_succ_i64_def)
qed simp

text \<open>The first link that does not fit is reported, with the number of events before it.\<close>

lemma verify_loop_broken:
  assumes "chain_from x p n h as" and "0 \<le> n" and "n + int (length as) \<le> i64_max"
    and "er_seq_num r \<noteq> n + int (length as) \<or>
      er_prev_hash r \<noteq> (if as = [] then h else row_hash x p (last as))"
  shows "verify_chain_loop x p t v h n (as @ r # bs) =
    Inr \<lparr>cv_total = t, cv_verified = v + length as, cv_broken_at = Some (er_seq_num r)\<rparr>"
  using assms
proof (induction as arbitrary: v h n)
  case (Cons a as)
  then show ?case
    using Cons.IH [of "n + 1" "row_hash x p a" "Suc v"] by (auto simp: checked_succ_i64_def algebra_simps split: if_splits)
qed auto

lemma verify_chain_ok:
  assumes "int (length (rows_of_principal p db)) \<le> i64_max"
  shows "verify_chain x p db =
      Inr \<lparr>cv_total = length (rows_of_principal p db), cv_verified = length (rows_of_principal p db),
           cv_broken_at = None\<rparr> \<longleftrightarrow>
    chain_from x p 0 GENESIS_HASH (sort_key er_seq_num (rows_of_principal p db))"
  using verify_loop_ok [of 0 "sort_key er_seq_num (rows_of_principal p db)" x p
      "length (rows_of_principal p db)" 0 GENESIS_HASH] assms
  by (simp add: verify_chain_def Let_def)

subsection \<open>Alterations\<close>

text \<open>\<open>UPDATE events SET ... WHERE event_id = i\<close>, issued behind the ledger's back.\<close>

definition update_event :: "string \<Rightarrow> (event_row \<Rightarrow> event_row) \<Rightarrow> ledger_db \<Rightarrow> ledger_db" where
  "update_event i f db =
     db\<lparr>ld_events := map (\<lambda>e. if er_event_id e = i then f e else e) (ld_events db)\<rparr>"

lemma rows_update:
  assumes "\<And>e. e \<in> set (ld_events db) \<Longrightarrow> er_event_id e = i \<Longrightarrow> er_principal_id (f e) = er_principal_id e"
  shows "rows_of_principal p (update_event i f db) =
    map (\<lambda>e. if er_event_id e = i then f e else e) (rows_of_principal p db)"
proof -
  have "filter (\<lambda>r. er_principal_id r = p) (map (\<lambda>e. if er_event_id e = i then f e else e) es) =
      map (\<lambda>e. if er_event_id e = i then f e else e) (filter (\<lambda>r. er_principal_id r = p) es)"
    if "set es \<subseteq> set (ld_events db)" for es
    using that assms by (induction es) auto
  then show ?thesis
    by (simp add: rows_of_principal_def update_event_def)
qed

lemma update_elsewhere:
  "i \<notin> er_event_id ` set es \<Longrightarrow> map (\<lambda>e. if er_event_id e = i then f e else e) es = es"
  by (induction es) auto

lemma rows_distinct: "ledger_inv x db \<Longrightarrow> distinct (map er_event_id (rows_of_principal p db))"
  by (simp add: ledger_inv_def rows_of_principal_def distinct_map_filter)

lemma rows_replace:
  assumes "ledger_inv x db" and "rows_of_principal p db = as @ r # bs" and "er_principal_id r' = p"
  shows "rows_of_principal p (update_event (er_event_id r) (\<lambda>_. r') db) = as @ r' # bs"
proof -
  have r: "r \<in> set (ld_events db)" "er_principal_id r = p"
    using assms(2) rows_principal [of r p db] by simp_all
  have ids: "er_event_id r \<notin> er_event_id ` set as" "er_event_id r \<notin> er_event_id ` set bs"
    using rows_distinct [OF assms(1), of p] assms(2) by auto
  have "\<And>e. e \<in> set (ld_events db) \<Longrightarrow> er_event_id e = er_event_id r \<Longrightarrow> e = r"
    using assms(1) r(1) by (auto simp: ledger_inv_def distinct_map dest: inj_onD)
  then have "rows_of_principal p (update_event (er_event_id r) (\<lambda>_. r') db) =
      map (\<lambda>e. if er_event_id e = er_event_id r then r' else e) (as @ r # bs)"
    using rows_update [of db "er_event_id r" "\<lambda>_. r'" p] r(2) assms(2,3) by auto
  also have "\<dots> = as @ r' # bs"
    using ids by (simp add: update_elsewhere)
  finally show ?thesis .
qed

lemma chain_replace:
  assumes "chain_from x p n h (as @ r # bs)" and "er_seq_num r' = er_seq_num r" and "er_prev_hash r' = er_prev_hash r"
  shows "chain_from x p n h (as @ r' # bs) \<longleftrightarrow> bs = [] \<or> row_hash x p r' = row_hash x p r"
  using assms by (cases bs) (auto simp: chain_append)

lemma replace_sorted:
  assumes "chain_from x p n h (as @ r # bs)" and "er_seq_num r' = er_seq_num r"
  shows "sort_key er_seq_num (as @ r' # bs) = as @ r' # bs"
proof (rule sort_key_id)
  have "map er_seq_num (as @ r' # bs) = map er_seq_num (as @ r # bs)"
    using assms(2) by simp
  also have "sorted \<dots>"
    using assms(1) by (auto simp: sorted_iff_nth_mono chain_seq_nth simp del: map_append list.map)
  finally show "sorted (map er_seq_num (as @ r' # bs))" .
qed

subsection \<open>Runs\<close>

inductive ledger_step :: "externals \<Rightarrow> ledger_db \<Rightarrow> ledger_db \<Rightarrow> bool" for x :: externals where
  "append_prepared_event x e policy db = Inr (ins, db') \<Longrightarrow> ledger_step x db db'"

definition ledger_init :: "ledger_db \<Rightarrow> bool" where
  "ledger_init db = (ld_events db = [])"

lemma ledger_init_inv: "ledger_init db \<Longrightarrow> ledger_inv x db"
  by (simp add: ledger_init_def ledger_inv_def chain_ok_def rows_of_principal_def)

interpretation ledger: inductive_invariant ledger_init "ledger_step x" "ledger_inv x" for x
proof
  show "ledger_init db \<Longrightarrow> ledger_inv x db" for db
    by (rule ledger_init_inv)
  show "ledger_inv x db \<Longrightarrow> ledger_step x db db' \<Longrightarrow> ledger_inv x db'" for db db'
    by (auto elim!: ledger_step.cases intro: append_inv)
qed

lemma verify_chain_inv:
  assumes "chain_ok x p db" and "int (length (rows_of_principal p db)) \<le> i64_max"
  shows "verify_chain x p db =
    Inr \<lparr>cv_total = length (rows_of_principal p db), cv_verified = length (rows_of_principal p db),
         cv_broken_at = None\<rparr>"
  using assms verify_chain_ok [OF assms(2)] chain_sorted by (simp add: chain_ok_def)

text \<open>
  C16. Every ledger filled through the append operation, whatever events, identifiers and
  policies, verifies for every principal: all events are counted as verified and no link is broken
  (as long as the sequence numbers fit 64 bits).
\<close>

theorem ledger_runs_verify:
  assumes "reaches ledger_init (ledger_step x) db"
    and "int (length (rows_of_principal p db)) \<le> i64_max"
  shows "verify_chain x p db =
    Inr \<lparr>cv_total = length (rows_of_principal p db), cv_verified = length (rows_of_principal p db),
         cv_broken_at = None\<rparr>"
  using ledger.reachable_inv [OF assms(1)] assms(2) by (auto simp: ledger_inv_def intro: verify_chain_inv)

text \<open>Concrete external functions and events on which the ledger is evaluated.\<close>

definition demo_externals :: externals where
  "demo_externals =
     \<lparr>x_sha256 = (\<lambda>b. take 32 (b @ replicate 32 CHR ''0'')), x_hex_encode = (\<lambda>b. b @ b),
      x_hex_decode = (\<lambda>s. Some (take (length s div 2) s)), x_bs58 = (\<lambda>b. b),
      x_json_print = (\<lambda>v. case v of JStr s \<Rightarrow> s | _ \<Rightarrow> ''null''), x_json_parse = (\<lambda>s. Some (JStr s)),
      x_json_eq = (=), x_verifying_key = (\<lambda>k. take 32 (k @ replicate 32 CHR ''0'')),
      x_ed25519_sign = (\<lambda>k m. replicate 64 CHR ''s''), x_verifying_key_ok = (\<lambda>_. True),
      x_ed25519_verify = (\<lambda>k m s. s = replicate 64 CHR ''s''), x_uuid_canonical = Some,
      x_stored_sql = (\<lambda>s. s), x_canonicalize = Some, x_is_file = (\<lambda>_. Some True)\<rparr>"

definition empty_ledger :: ledger_db where
  "empty_ledger =
     \<lparr>ld_events = [], ld_chain_migrations = [], ld_schema_migrations = [], ld_master = [],
      ld_identity = [], ld_database_list = [], ld_chain_columns = True, ld_sequence_index = True\<rparr>"

definition demo_event :: "string \<Rightarrow> string \<Rightarrow> prepared_event" where
  "demo_event i payload =
     \<lparr>pe_event_id = i, pe_principal_id = ''p'', pe_namespace_key = ''ns'', pe_run_id = None,
      pe_event_type = ''t'', pe_payload_json = payload, pe_signature_hex = None,
      pe_created_at = ''now'', pe_parent_event_id = None\<rparr>"

definition demo_row_1 :: event_row where
  "demo_row_1 = row_of_prepared (demo_event ''a'' ''1'') 0 GENESIS_HASH"

definition demo_row_2 :: event_row where
  "demo_row_2 = row_of_prepared (demo_event ''b'' ''2'') 1 (row_hash demo_externals ''p'' demo_row_1)"

definition demo_ledger :: ledger_db where
  "demo_ledger = empty_ledger\<lparr>ld_events := [demo_row_1, demo_row_2]\<rparr>"

lemma demo_append:
  "append_prepared_event demo_externals (demo_event ''a'' ''1'') Reject empty_ledger =
     Inr (True, empty_ledger\<lparr>ld_events := [demo_row_1]\<rparr>)"
  "append_prepared_event demo_externals (demo_event ''b'' ''2'') Reject
     (empty_ledger\<lparr>ld_events := [demo_row_1]\<rparr>) = Inr (True, demo_ledger)"
  by (simp_all add: append_prepared_event_def find_event_def next_chain_position_def
      rows_of_principal_def insert_event_row_def empty_ledger_def demo_ledger_def demo_row_1_def
      demo_row_2_def demo_event_def row_of_prepared_def checked_succ_i64_def i64_max_def)

lemma demo_reachable: "reaches ledger_init (ledger_step demo_externals) demo_ledger"
proof -
  have "reaches ledger_init (ledger_step demo_externals) empty_ledger"
    by (rule reaches.start) (simp add: ledger_init_def empty_ledger_def)
  then have "reaches ledger_init (ledger_step demo_externals) (empty_ledger\<lparr>ld_events := [demo_row_1]\<rparr>)"
    by (rule reaches.step) (rule ledger_step.intros, rule demo_append(1))
  then show ?thesis
    by (rule reaches.step) (rule ledger_step.intros, rule demo_append(2))
qed

lemma demo_rows: "rows_of_principal ''p'' demo_ledger = [demo_row_1, demo_row_2]"
  by (simp add: rows_of_principal_def demo_ledger_def demo_row_1_def demo_row_2_def
      row_of_prepared_def demo_event_def)

theorem ledger_runs_verify_witness:
  "verify_chain demo_externals ''p'' demo_ledger =
     Inr \<lparr>cv_total = 2, cv_verified = 2, cv_broken_at = None\<rparr>"
  using ledger_runs_verify [OF demo_reachable, of "''p''"]
  by (simp add: demo_rows i64_max_def numeral_2_eq_2)

text \<open>
  What verification can see of an altered event: if one row of a valid ledger is overwritten
  with a row of the same principal, sequence number and link, the ledger still verifies exactly
  when the new content has the same event hash or the row is the principal's newest; otherwise
  the break is reported. The namespace, run, parent and signature are not hashed, so changing
  them is never reported, and nothing protects the newest event.
\<close>

theorem overwrite_verifies_iff:
  assumes "ledger_inv x db" and "r \<in> set (ld_events db)"
    and "er_principal_id r = p" and "er_principal_id r' = p"
    and "er_seq_num r' = er_seq_num r" and "er_prev_hash r' = er_prev_hash r"
    and "int (length (rows_of_principal p db)) \<le> i64_max"
  shows "verify_chain x p (update_event (er_event_id r) (\<lambda>_. r') db) =
      Inr \<lparr>cv_total = length (rows_of_principal p db), cv_verified = length (rows_of_principal p db),
           cv_broken_at = None\<rparr> \<longleftrightarrow>
    row_hash x p r' = row_hash x p r \<or> newest_row (rows_of_principal p db) = Some r"
proof -
  have "r \<in> set (rows_of_principal p db)"
    using assms(2,3) by (simp add: rows_principal)
  then obtain as bs where rows: "rows_of_principal p db = as @ r # bs"
    by (auto simp: in_set_conv_decomp)
  have rows': "rows_of_principal p (update_event (er_event_id r) (\<lambda>_. r') db) = as @ r' # bs"
    by (rule rows_replace [OF assms(1) rows assms(4)])
  have chain: "chain_from x p 0 GENESIS_HASH (as @ r # bs)"
    using assms(1) rows unfolding ledger_inv_def chain_ok_def by metis
  have "r \<notin> set bs"
    using rows_distinct [OF assms(1), of p] rows by auto
  then have "newest_row (as @ r # bs) = Some r \<longleftrightarrow> bs = []"
    using newest_row_chain [OF chain] last_in_set [of bs] by (auto split: if_splits)
  then show ?thesis
    using verify_chain_ok [of p "update_event (er_event_id r) (\<lambda>_. r') db" x] assms(7)
      chain_replace [OF chain assms(5,6)] replace_sorted [OF chain assms(5)]
    by (auto simp: rows rows')
qed

theorem overwrite_verifies_iff_witness:
  "verify_chain demo_externals ''p''
     (update_event (er_event_id demo_row_2) (\<lambda>_. demo_row_2\<lparr>er_payload_json := ''forged''\<rparr>) demo_ledger) =
     Inr \<lparr>cv_total = 2, cv_verified = 2, cv_broken_at = None\<rparr>"
proof -
  have "newest_row [demo_row_1, demo_row_2] = Some demo_row_2"
    by (simp add: demo_row_1_def demo_row_2_def row_of_prepared_def)
  moreover have "demo_row_2 \<in> set (ld_events demo_ledger)" "er_principal_id demo_row_2 = ''p''"
    by (simp_all add: demo_ledger_def demo_row_2_def row_of_prepared_def demo_event_def)
  ultimately show ?thesis
    using overwrite_verifies_iff [of demo_externals demo_ledger demo_row_2 "''p''"
        "demo_row_2\<lparr>er_payload_json := ''forged''\<rparr>"] ledger.reachable_inv [OF demo_reachable]
    by (simp add: demo_rows i64_max_def numeral_2_eq_2)
qed

text \<open>
  The chain is not cumulative: any event of a valid ledger can be rewritten, and the ledger
  verifies again after patching only the link of its successor, because the event hash does not
  cover the link to the predecessor. A rewrite early in the history needs no recomputation of the
  later hashes.
\<close>

theorem rewrite_needs_one_patch:
  assumes "ledger_inv x db" and "rows_of_principal p db = as @ r # s # bs"
    and "er_event_id r' = er_event_id r" and "er_principal_id r' = p"
    and "er_seq_num r' = er_seq_num r" and "er_prev_hash r' = er_prev_hash r"
    and "int (length (rows_of_principal p db)) \<le> i64_max"
  shows "verify_chain x p
      (update_event (er_event_id s) (\<lambda>e. e\<lparr>er_prev_hash := row_hash x p r'\<rparr>)
        (update_event (er_event_id r) (\<lambda>_. r') db)) =
      Inr \<lparr>cv_total = length (rows_of_principal p db), cv_verified = length (rows_of_principal p db),
           cv_broken_at = None\<rparr>"
proof -
  let ?db1 = "update_event (er_event_id r) (\<lambda>_. r') db"
  let ?s' = "s\<lparr>er_prev_hash := row_hash x p r'\<rparr>"
  have chain: "chain_from x p 0 GENESIS_HASH (as @ r # s # bs)"
    using assms(1,2) unfolding ledger_inv_def chain_ok_def by metis
  have rows1: "rows_of_principal p ?db1 = as @ r' # s # bs"
    by (rule rows_replace [OF assms(1,2,4)])
  have ids: "er_event_id s \<notin> er_event_id ` set as" "er_event_id s \<notin> er_event_id ` set bs"
    "er_event_id s \<noteq> er_event_id r'"
    using rows_distinct [OF assms(1), of p] assms(2,3) by auto
  have rows2: "rows_of_principal p
      (update_event (er_event_id s) (\<lambda>e. e\<lparr>er_prev_hash := row_hash x p r'\<rparr>) ?db1) = as @ r' # ?s' # bs"
    using rows_update [of ?db1 "er_event_id s" "\<lambda>e. e\<lparr>er_prev_hash := row_hash x p r'\<rparr>" p] rows1 ids
    by (simp add: update_elsewhere)
  have hash: "row_hash x p ?s' = row_hash x p s"
    by (simp add: row_hash_def)
  have "chain_from x p 0 GENESIS_HASH (as @ r' # ?s' # bs)"
    using chain assms(5,6) hash by (cases bs) (auto simp: chain_append)
  then show ?thesis
    using verify_chain_inv [of x p "update_event (er_event_id s) (\<lambda>e. e\<lparr>er_prev_hash := row_hash x p r'\<rparr>) ?db1"]
      assms(2,7) by (simp add: chain_ok_def rows2)
qed

theorem rewrite_needs_one_patch_witness:
  "verify_chain demo_externals ''p''
     (update_event (er_event_id demo_row_2)
        (\<lambda>e. e\<lparr>er_prev_hash := row_hash demo_externals ''p'' (demo_row_1\<lparr>er_payload_json := ''forged''\<rparr>)\<rparr>)
        (update_event (er_event_id demo_row_1) (\<lambda>_. demo_row_1\<lparr>er_payload_json := ''forged''\<rparr>) demo_ledger)) =
     Inr \<lparr>cv_total = 2, cv_verified = 2, cv_broken_at = None\<rparr>"
proof -
  have "er_principal_id demo_row_1 = ''p''"
    by (simp add: demo_row_1_def row_of_prepared_def demo_event_def)
  then show ?thesis
    using rewrite_needs_one_patch [of demo_externals demo_ledger "''p''" "[]" demo_row_1 demo_row_2 "[]"
        "demo_row_1\<lparr>er_payload_json := ''forged''\<rparr>"] ledger.reachable_inv [OF demo_reachable]
    by (simp add: demo_rows i64_max_def numeral_2_eq_2)
qed

end
