(* ===== verification/Ledger_Identity.thy ===== *)
theory Ledger_Identity
  imports Ledger_Chain
begin

text \<open>
  The identity of a ledger database (\<open>crates/zaion-ledger/src/ledger.rs\<close> and \<open>binding.rs\<close>): the
  immutable singleton row with its guarding triggers, the validation of the schema objects by
  their normalised SQL text, the canonical path of the live database file, schema initialisation,
  and \<open>with_conn\<close>, which refuses every operation once the identity it first saw has changed.
  Opening the connection, the mutex and the full-text index are left out.
\<close>

subsection \<open>Schema objects\<close>

definition DATABASE_IDENTITY_MIGRATION :: string where
  "DATABASE_IDENTITY_MIGRATION = ''ledger_database_instance_identity_v1''"

definition DATABASE_IDENTITY_TABLE :: string where
  "DATABASE_IDENTITY_TABLE = ''ledger_database_instance_identity_v1''"

definition DATABASE_IDENTITY_NO_INSERT_TRIGGER :: string where
  "DATABASE_IDENTITY_NO_INSERT_TRIGGER = ''ledger_database_instance_identity_no_insert_v1''"

definition DATABASE_IDENTITY_NO_UPDATE_TRIGGER :: string where
  "DATABASE_IDENTITY_NO_UPDATE_TRIGGER = ''ledger_database_instance_identity_no_update_v1''"

definition DATABASE_IDENTITY_NO_DELETE_TRIGGER :: string where
  "DATABASE_IDENTITY_NO_DELETE_TRIGGER = ''ledger_database_instance_identity_no_delete_v1''"

definition CREATE_DATABASE_IDENTITY_TABLE :: string where
  "CREATE_DATABASE_IDENTITY_TABLE =
     ''\<newline>CREATE TABLE ledger_database_instance_identity_v1 (\<newline>    singleton   INTEGER PRIMARY KEY CHECK (singleton = 1),\<newline>    instance_id TEXT NOT NULL UNIQUE\<newline>) WITHOUT ROWID;\<newline>''"

definition identity_guard_sql :: "string \<Rightarrow> string \<Rightarrow> string" where
  "identity_guard_sql name event =
     ''\<newline>CREATE TRIGGER '' @ name @ ''\<newline>BEFORE '' @ event @
     '' ON ledger_database_instance_identity_v1\<newline>BEGIN\<newline>    SELECT RAISE(ABORT, '' @ [CHR 0x27] @
     ''ledger database instance identity is immutable'' @ [CHR 0x27] @ '');\<newline>END;\<newline>''"

definition CREATE_DATABASE_IDENTITY_NO_INSERT_TRIGGER :: string where
  "CREATE_DATABASE_IDENTITY_NO_INSERT_TRIGGER = identity_guard_sql DATABASE_IDENTITY_NO_INSERT_TRIGGER ''INSERT''"

definition CREATE_DATABASE_IDENTITY_NO_UPDATE_TRIGGER :: string where
  "CREATE_DATABASE_IDENTITY_NO_UPDATE_TRIGGER = identity_guard_sql DATABASE_IDENTITY_NO_UPDATE_TRIGGER ''UPDATE''"

definition CREATE_DATABASE_IDENTITY_NO_DELETE_TRIGGER :: string where
  "CREATE_DATABASE_IDENTITY_NO_DELETE_TRIGGER = identity_guard_sql DATABASE_IDENTITY_NO_DELETE_TRIGGER ''DELETE''"

definition schema_object_sql :: "schema_object list \<Rightarrow> string \<Rightarrow> string \<Rightarrow> string option" where
  "schema_object_sql master object_type name =
     map_option so_sql (find (\<lambda>o'. so_type o' = object_type \<and> so_name o' = name) master)"

definition database_schema_object_sql :: "ledger_db \<Rightarrow> string \<Rightarrow> string \<Rightarrow> string option" where
  "database_schema_object_sql db object_type name = schema_object_sql (ld_master db) object_type name"

text \<open>\<open>split_whitespace\<close>; \<open>acc\<close> holds the current word in reverse.\<close>

function words_from :: "string \<Rightarrow> string \<Rightarrow> string list" where
  "words_from acc s =
     (case first_some (\<lambda>w. strip_prefix w s) white_space of
        Some r \<Rightarrow> (if acc = [] then words_from [] r else rev acc # words_from [] r)
      | None \<Rightarrow> (case s of
            [] \<Rightarrow> if acc = [] then [] else [rev acc]
          | c # cs \<Rightarrow> words_from (c # acc) cs))"
  by pat_completeness auto
termination
  by (relation "measure (\<lambda>(acc, s). length s)")
    (auto dest!: first_some_Some white_space_nonempty simp: strip_prefix_Some)

declare words_from.simps [simp del]

definition split_whitespace :: "string \<Rightarrow> string list" where
  "split_whitespace s = words_from [] s"

definition normalize_database_schema_sql :: "string \<Rightarrow> string" where
  "normalize_database_schema_sql sql =
     rev (dropWhile (\<lambda>c. c = CHR '';'') (rev (join_on CHR '' '' (split_whitespace sql))))"

definition validate_database_schema_object ::
  "ledger_db \<Rightarrow> string \<Rightarrow> string \<Rightarrow> string \<Rightarrow> ledger_error + unit" where
  "validate_database_schema_object db object_type name expected_sql =
     and_then (ok_or
       (InvalidDatabaseInstanceIdentity
         (''required database identity '' @ object_type @ '' '' @ name @ '' is missing''))
       (database_schema_object_sql db object_type name)) (\<lambda>actual.
     if normalize_database_schema_sql actual = normalize_database_schema_sql expected_sql
     then Inr ()
     else Inl (InvalidDatabaseInstanceIdentity
       (''database identity '' @ object_type @ '' '' @ name @ '' has an unexpected definition'')))"

subsection \<open>The identity row\<close>

definition read_database_instance_id :: "externals \<Rightarrow> ledger_db \<Rightarrow> ledger_error + string" where
  "read_database_instance_id x db =
     (case ld_identity db of
        [(singleton, instance_id)] \<Rightarrow>
          if singleton \<noteq> 1
          then Inl (InvalidDatabaseInstanceIdentity ''database identity singleton key is invalid'')
          else (case x_uuid_canonical x instance_id of
              None \<Rightarrow> Inl (InvalidDatabaseInstanceIdentity ''database identity is not a canonical UUID'')
            | Some parsed \<Rightarrow>
                if parsed \<noteq> instance_id
                then Inl (InvalidDatabaseInstanceIdentity ''database identity is not a canonical UUID'')
                else Inr instance_id)
      | _ \<Rightarrow> Inl (InvalidDatabaseInstanceIdentity ''database identity table must contain exactly one row''))"

definition identity_guards :: "string list" where
  "identity_guards =
     [DATABASE_IDENTITY_NO_INSERT_TRIGGER, DATABASE_IDENTITY_NO_UPDATE_TRIGGER,
      DATABASE_IDENTITY_NO_DELETE_TRIGGER]"

definition extra_identity_triggers :: "ledger_db \<Rightarrow> string list" where
  "extra_identity_triggers db =
     sort (map so_name (filter (\<lambda>o'. so_type o' = ''trigger'' \<and> so_tbl_name o' = DATABASE_IDENTITY_TABLE \<and>
       \<not> List.member identity_guards (so_name o')) (ld_master db)))"

definition validated_database_instance_id :: "externals \<Rightarrow> ledger_db \<Rightarrow> ledger_error + string" where
  "validated_database_instance_id x db =
     (if \<not> List.member (ld_schema_migrations db) DATABASE_IDENTITY_MIGRATION
      then Inl (InvalidDatabaseInstanceIdentity ''database identity migration marker is missing'')
      else
        and_then (validate_database_schema_object db ''table'' DATABASE_IDENTITY_TABLE
          CREATE_DATABASE_IDENTITY_TABLE) (\<lambda>_.
        and_then (validate_database_schema_object db ''trigger'' DATABASE_IDENTITY_NO_INSERT_TRIGGER
          CREATE_DATABASE_IDENTITY_NO_INSERT_TRIGGER) (\<lambda>_.
        and_then (validate_database_schema_object db ''trigger'' DATABASE_IDENTITY_NO_UPDATE_TRIGGER
          CREATE_DATABASE_IDENTITY_NO_UPDATE_TRIGGER) (\<lambda>_.
        and_then (validate_database_schema_object db ''trigger'' DATABASE_IDENTITY_NO_DELETE_TRIGGER
          CREATE_DATABASE_IDENTITY_NO_DELETE_TRIGGER) (\<lambda>_.
        case extra_identity_triggers db of
          name # _ \<Rightarrow> Inl (InvalidDatabaseInstanceIdentity
            (''unexpected database identity trigger is installed: '' @ name))
        | [] \<Rightarrow> read_database_instance_id x db)))))"

definition create_object :: "externals \<Rightarrow> string \<Rightarrow> string \<Rightarrow> string \<Rightarrow> string \<Rightarrow> ledger_db \<Rightarrow> ledger_db" where
  "create_object x object_type name tbl sql db =
     db\<lparr>ld_master := ld_master db @
       [\<lparr>so_type = object_type, so_name = name, so_tbl_name = tbl, so_sql = x_stored_sql x sql\<rparr>]\<rparr>"

definition ensure_database_instance_identity ::
  "externals \<Rightarrow> string \<Rightarrow> ledger_db \<Rightarrow> ledger_error + ledger_db" where
  "ensure_database_instance_identity x new_uuid db =
     (let marker_exists = List.member (ld_schema_migrations db) DATABASE_IDENTITY_MIGRATION;
          table_exists = database_schema_object_sql db ''table'' DATABASE_IDENTITY_TABLE \<noteq> None;
          insert_guard_exists = database_schema_object_sql db ''trigger'' DATABASE_IDENTITY_NO_INSERT_TRIGGER \<noteq> None;
          update_guard_exists = database_schema_object_sql db ''trigger'' DATABASE_IDENTITY_NO_UPDATE_TRIGGER \<noteq> None;
          delete_guard_exists = database_schema_object_sql db ''trigger'' DATABASE_IDENTITY_NO_DELETE_TRIGGER \<noteq> None;
          any_object_exists = table_exists \<or> insert_guard_exists \<or> update_guard_exists \<or> delete_guard_exists;
          every_object_exists = table_exists \<and> insert_guard_exists \<and> update_guard_exists \<and> delete_guard_exists
      in and_then
        (if \<not> marker_exists then
           if any_object_exists
           then Inl (InvalidDatabaseInstanceIdentity
             ''database identity objects exist without their migration marker'')
           else
             let db = create_object x ''table'' DATABASE_IDENTITY_TABLE DATABASE_IDENTITY_TABLE
                   CREATE_DATABASE_IDENTITY_TABLE db;
                 db = db\<lparr>ld_identity := [(1, new_uuid)]\<rparr>;
                 db = create_object x ''trigger'' DATABASE_IDENTITY_NO_INSERT_TRIGGER DATABASE_IDENTITY_TABLE
                   CREATE_DATABASE_IDENTITY_NO_INSERT_TRIGGER db;
                 db = create_object x ''trigger'' DATABASE_IDENTITY_NO_UPDATE_TRIGGER DATABASE_IDENTITY_TABLE
                   CREATE_DATABASE_IDENTITY_NO_UPDATE_TRIGGER db;
                 db = create_object x ''trigger'' DATABASE_IDENTITY_NO_DELETE_TRIGGER DATABASE_IDENTITY_TABLE
                   CREATE_DATABASE_IDENTITY_NO_DELETE_TRIGGER db
             in Inr (db\<lparr>ld_schema_migrations := ld_schema_migrations db @ [DATABASE_IDENTITY_MIGRATION]\<rparr>)
         else if \<not> every_object_exists
         then Inl (InvalidDatabaseInstanceIdentity
           ''database identity migration marker exists but a required object is missing'')
         else Inr db)
        (\<lambda>db'. and_then (validated_database_instance_id x db') (\<lambda>_. Inr db')))"

subsection \<open>Schema initialisation\<close>

definition add_chain_columns :: "ledger_db \<Rightarrow> ledger_db" where
  "add_chain_columns db =
     db\<lparr>ld_events := map (\<lambda>r. r\<lparr>er_seq_num := 0, er_prev_hash := GENESIS_HASH\<rparr>) (ld_events db),
        ld_chain_columns := True\<rparr>"

definition create_sequence_index :: "ledger_db \<Rightarrow> ledger_error + ledger_db" where
  "create_sequence_index db =
     (if distinct (map (\<lambda>r. (er_principal_id r, er_seq_num r)) (ld_events db))
      then Inr (db\<lparr>ld_sequence_index := True\<rparr>)
      else Inl (LedgerSqlite (ConstraintViolation ''ux_events_principal_seq'')))"

definition ensure_schema :: "externals \<Rightarrow> string \<Rightarrow> ledger_db \<Rightarrow> ledger_error + ledger_db" where
  "ensure_schema x new_uuid db =
     and_then (ensure_database_instance_identity x new_uuid db) (\<lambda>db.
     let columns_added = \<not> ld_chain_columns db;
         db = (if columns_added then add_chain_columns db else db);
         sequence_index_is_valid = ld_sequence_index db
     in and_then (migrate_or_validate_event_chain x columns_added db) (\<lambda>db.
        if \<not> sequence_index_is_valid then create_sequence_index db else Inr db))"

record event_ledger =
  el_tables_ensured :: bool
  el_database_instance_id :: "string option"

definition new_event_ledger :: event_ledger where
  "new_event_ledger = \<lparr>el_tables_ensured = False, el_database_instance_id = None\<rparr>"

text \<open>
  The result of a call, the ledger object and the database after it. A failing operation leaves the
  database of its transaction unchanged, but an initialisation that preceded it stays.
\<close>

definition with_conn ::
  "externals \<Rightarrow> string \<Rightarrow> (ledger_db \<Rightarrow> ledger_error + 'r \<times> ledger_db) \<Rightarrow> event_ledger \<Rightarrow> ledger_db \<Rightarrow>
     (ledger_error + 'r) \<times> event_ledger \<times> ledger_db" where
  "with_conn x new_uuid f self db =
     (case (if el_tables_ensured self then Inr db else ensure_schema x new_uuid db) of
        Inl e \<Rightarrow> (Inl e, self, db)
      | Inr db \<Rightarrow>
          let self = self\<lparr>el_tables_ensured := True\<rparr>
          in (case read_database_instance_id x db of
              Inl e \<Rightarrow> (Inl e, self, db)
            | Inr live_instance_id \<Rightarrow>
                (case el_database_instance_id self of
                   Some expected \<Rightarrow>
                     if expected \<noteq> live_instance_id
                     then (Inl (DatabaseInstanceIdentityDrift expected live_instance_id), self, db)
                     else (case f db of
                         Inl e \<Rightarrow> (Inl e, self, db)
                       | Inr (r, db') \<Rightarrow> (Inr r, self, db'))
                 | None \<Rightarrow>
                     let self = self\<lparr>el_database_instance_id := Some live_instance_id\<rparr>
                     in (case f db of
                         Inl e \<Rightarrow> (Inl e, self, db)
                       | Inr (r, db') \<Rightarrow> (Inr r, self, db')))))"

definition database_instance_id ::
  "externals \<Rightarrow> string \<Rightarrow> event_ledger \<Rightarrow> ledger_db \<Rightarrow> (ledger_error + string) \<times> event_ledger \<times> ledger_db" where
  "database_instance_id x new_uuid self db =
     (case with_conn x new_uuid (\<lambda>db. Inr ((), db)) self db of
        (Inl e, self, db) \<Rightarrow> (Inl e, self, db)
      | (Inr _, self, db) \<Rightarrow>
          (ok_or (InvalidDatabaseInstanceIdentity ''live database identity was not initialized'')
             (el_database_instance_id self), self, db))"

subsection \<open>The database file\<close>

definition unsupported_live_database :: "string \<Rightarrow> ledger_error" where
  "unsupported_live_database reason = EventBindingUnsupportedLedgerPath reason"

definition validated_database_path :: "externals \<Rightarrow> ledger_db \<Rightarrow> ledger_error + string" where
  "validated_database_path x db =
     (case filter (\<lambda>(sequence, name, file). name = ''main'') (ld_database_list db) of
        [(sequence, name, live_filename)] \<Rightarrow>
          if sequence \<noteq> 0
          then Inl (unsupported_live_database ''main database has an unexpected database-list sequence'')
          else if live_filename = []
          then Inl (unsupported_live_database ''main database is temporary or in-memory'')
          else if strip_prefix ''/'' live_filename = None
          then Inl (unsupported_live_database ''main database filename is not absolute'')
          else (case x_canonicalize x live_filename of
              None \<Rightarrow> Inl (unsupported_live_database ''main database path cannot be resolved'')
            | Some canonical \<Rightarrow>
                (case x_is_file x canonical of
                   None \<Rightarrow> Inl (unsupported_live_database ''main database metadata is unavailable'')
                 | Some is_file \<Rightarrow>
                     if \<not> is_file
                     then Inl (unsupported_live_database ''main database does not resolve to a regular file'')
                     else Inr canonical))
      | _ \<Rightarrow> Inl (unsupported_live_database ''connection does not expose exactly one main database''))"

subsection \<open>Properties\<close>

lemma find_append: "find P (xs @ ys) = (case find P xs of None \<Rightarrow> find P ys | Some v \<Rightarrow> Some v)"
  by (induction xs) auto

lemma schema_object_sql_append:
  "schema_object_sql (xs @ ys) t n =
     (case schema_object_sql xs t n of None \<Rightarrow> schema_object_sql ys t n | Some v \<Rightarrow> Some v)"
  by (auto simp: schema_object_sql_def find_append split: option.splits)

lemma schema_object_sql_simps [simp]:
  "schema_object_sql [] t n = None"
  "schema_object_sql (ob # obs) t n =
     (if so_type ob = t \<and> so_name ob = n then Some (so_sql ob) else schema_object_sql obs t n)"
  by (simp_all add: schema_object_sql_def)

lemma identity_names_distinct:
  "distinct [DATABASE_IDENTITY_NO_INSERT_TRIGGER, DATABASE_IDENTITY_NO_UPDATE_TRIGGER,
     DATABASE_IDENTITY_NO_DELETE_TRIGGER]"
  by (simp add: DATABASE_IDENTITY_NO_INSERT_TRIGGER_def DATABASE_IDENTITY_NO_UPDATE_TRIGGER_def
      DATABASE_IDENTITY_NO_DELETE_TRIGGER_def)

definition no_identity_objects :: "ledger_db \<Rightarrow> bool" where
  "no_identity_objects db =
     (\<not> List.member (ld_schema_migrations db) DATABASE_IDENTITY_MIGRATION \<and>
      database_schema_object_sql db ''table'' DATABASE_IDENTITY_TABLE = None \<and>
      (\<forall>name \<in> set identity_guards. database_schema_object_sql db ''trigger'' name = None) \<and>
      extra_identity_triggers db = [])"

text \<open>SQLite keeps the text of a schema object up to white space and the final semicolon.\<close>

definition stored_sql_law :: "externals \<Rightarrow> bool" where
  "stored_sql_law x =
     (\<forall>sql. normalize_database_schema_sql (x_stored_sql x sql) = normalize_database_schema_sql sql)"

definition with_identity :: "externals \<Rightarrow> string \<Rightarrow> ledger_db \<Rightarrow> ledger_db" where
  "with_identity x u db =
     db\<lparr>ld_identity := [(1, u)],
        ld_master := ld_master db @
          [\<lparr>so_type = ''table'', so_name = DATABASE_IDENTITY_TABLE, so_tbl_name = DATABASE_IDENTITY_TABLE,
            so_sql = x_stored_sql x CREATE_DATABASE_IDENTITY_TABLE\<rparr>,
           \<lparr>so_type = ''trigger'', so_name = DATABASE_IDENTITY_NO_INSERT_TRIGGER,
            so_tbl_name = DATABASE_IDENTITY_TABLE,
            so_sql = x_stored_sql x CREATE_DATABASE_IDENTITY_NO_INSERT_TRIGGER\<rparr>,
           \<lparr>so_type = ''trigger'', so_name = DATABASE_IDENTITY_NO_UPDATE_TRIGGER,
            so_tbl_name = DATABASE_IDENTITY_TABLE,
            so_sql = x_stored_sql x CREATE_DATABASE_IDENTITY_NO_UPDATE_TRIGGER\<rparr>,
           \<lparr>so_type = ''trigger'', so_name = DATABASE_IDENTITY_NO_DELETE_TRIGGER,
            so_tbl_name = DATABASE_IDENTITY_TABLE,
            so_sql = x_stored_sql x CREATE_DATABASE_IDENTITY_NO_DELETE_TRIGGER\<rparr>],
        ld_schema_migrations := ld_schema_migrations db @ [DATABASE_IDENTITY_MIGRATION]\<rparr>"

lemma with_identity_objects:
  assumes "no_identity_objects db"
  shows "database_schema_object_sql (with_identity x u db) ''table'' DATABASE_IDENTITY_TABLE =
      Some (x_stored_sql x CREATE_DATABASE_IDENTITY_TABLE)"
    "database_schema_object_sql (with_identity x u db) ''trigger'' DATABASE_IDENTITY_NO_INSERT_TRIGGER =
      Some (x_stored_sql x CREATE_DATABASE_IDENTITY_NO_INSERT_TRIGGER)"
    "database_schema_object_sql (with_identity x u db) ''trigger'' DATABASE_IDENTITY_NO_UPDATE_TRIGGER =
      Some (x_stored_sql x CREATE_DATABASE_IDENTITY_NO_UPDATE_TRIGGER)"
    "database_schema_object_sql (with_identity x u db) ''trigger'' DATABASE_IDENTITY_NO_DELETE_TRIGGER =
      Some (x_stored_sql x CREATE_DATABASE_IDENTITY_NO_DELETE_TRIGGER)"
    "extra_identity_triggers (with_identity x u db) = []"
  using assms identity_names_distinct
  by (simp_all add: no_identity_objects_def database_schema_object_sql_def with_identity_def
      schema_object_sql_append identity_guards_def extra_identity_triggers_def)

lemma with_identity_valid:
  assumes "no_identity_objects db" and "stored_sql_law x" and "x_uuid_canonical x u = Some u"
  shows "validated_database_instance_id x (with_identity x u db) = Inr u"
  using assms(2,3) with_identity_objects [OF assms(1), of x u]
  by (simp add: validated_database_instance_id_def validate_database_schema_object_def
      stored_sql_law_def read_database_instance_id_def)
    (simp add: with_identity_def)

text \<open>
  The identity of a ledger database is created once: on a database without identity objects
  initialisation installs the row, its three guards and the marker, the validated identity is the
  new identifier, and every later initialisation, whatever fresh identifier it is offered, changes
  nothing.
\<close>

theorem identity_created_once:
  assumes "no_identity_objects db" and "stored_sql_law x" and "x_uuid_canonical x u = Some u"
  shows "\<exists>db'. ensure_database_instance_identity x u db = Inr db' \<and>
    validated_database_instance_id x db' = Inr u \<and> ld_events db' = ld_events db \<and>
    (\<forall>v. ensure_database_instance_identity x v db' = Inr db')"
proof (intro exI conjI allI)
  let ?db = "with_identity x u db"
  note valid = with_identity_valid [OF assms]
  have "List.member (ld_schema_migrations ?db) DATABASE_IDENTITY_MIGRATION"
    by (simp add: with_identity_def)
  then show "ensure_database_instance_identity x v ?db = Inr ?db" for v
    using valid with_identity_objects [OF assms(1), of x u]
    by (simp add: ensure_database_instance_identity_def)
  show "ensure_database_instance_identity x u db = Inr ?db"
    using assms(1) valid
    by (auto simp: ensure_database_instance_identity_def no_identity_objects_def identity_guards_def
        create_object_def with_identity_def)
  show "validated_database_instance_id x ?db = Inr u"
    by (rule valid)
  show "ld_events ?db = ld_events db"
    by (simp add: with_identity_def)
qed

lemma demo_no_identity: "no_identity_objects demo_ledger"
  by (simp add: no_identity_objects_def demo_ledger_def empty_ledger_def database_schema_object_sql_def
      schema_object_sql_def extra_identity_triggers_def)

theorem identity_created_once_witness:
  "\<exists>db'. ensure_database_instance_identity demo_externals ''u-1'' demo_ledger = Inr db' \<and>
    validated_database_instance_id demo_externals db' = Inr ''u-1'' \<and>
    ld_events db' = ld_events demo_ledger \<and>
    (\<forall>v. ensure_database_instance_identity demo_externals v db' = Inr db')"
  by (rule identity_created_once [OF demo_no_identity])
    (simp_all add: stored_sql_law_def demo_externals_def)

text \<open>
  Fail closed on a swapped database: once a ledger object has seen an identity, every operation
  on a database with another valid identity is refused with the drift error, and neither the
  operation's effect nor any other change reaches the database.
\<close>

theorem with_conn_drift:
  assumes "el_tables_ensured self" and "el_database_instance_id self = Some expected"
    and "read_database_instance_id x db = Inr live" and "live \<noteq> expected"
  shows "with_conn x u f self db = (Inl (DatabaseInstanceIdentityDrift expected live), self, db)"
  using assms by (cases self) (simp add: with_conn_def)

theorem with_conn_drift_witness:
  "with_conn demo_externals ''u-3'' (\<lambda>db. Inr ((), db\<lparr>ld_events := []\<rparr>))
     \<lparr>el_tables_ensured = True, el_database_instance_id = Some ''u-1''\<rparr>
     (with_identity demo_externals ''u-2'' demo_ledger) =
   (Inl (DatabaseInstanceIdentityDrift ''u-1'' ''u-2''),
     \<lparr>el_tables_ensured = True, el_database_instance_id = Some ''u-1''\<rparr>,
     with_identity demo_externals ''u-2'' demo_ledger)"
  by (rule with_conn_drift)
    (simp_all add: read_database_instance_id_def with_identity_def demo_externals_def)

end
