(* ===== verification/Event_Ledger.thy ===== *)
theory Event_Ledger
  imports Ledger_Identity
begin

text \<open>
  The operations of \<open>EventLedger\<close> (\<open>crates/zaion-ledger/src/ledger.rs\<close>): plain, typed, signed and
  idempotent appends, replay of foreign events one by one and in an atomic batch, the queries,
  and envelope signatures. Each operation has the body that runs in the transaction
  (suffix \<open>_tx\<close>) and the method that runs it through \<open>with_conn\<close>. The clock and the random
  identifiers are arguments. Full-text search is left out.
\<close>

subsection \<open>Events\<close>

record ledger_event =
  le_event_id :: event_id
  le_principal_id :: principal_id
  le_namespace_key :: namespace_key
  le_run_id :: "run_id option"
  le_event_type :: string
  le_payload :: json
  le_signature :: "signature_bytes option"
  le_created_at :: string
  le_parent_event_id :: "event_id option"

datatype event_signature_mode = CanonicalEnvelope | LegacyPayloadOnly

datatype event_insert_disposition = Inserted | Existing

definition row_to_event :: "externals \<Rightarrow> event_row \<Rightarrow> ledger_error + ledger_event" where
  "row_to_event x row =
     and_then (ok_or (LedgerSqlite (FromSqlConversionFailure 5)) (x_json_parse x (er_payload_json row))) (\<lambda>payload.
     and_then (case er_signature_hex row of
         None \<Rightarrow> Inr None
       | Some h \<Rightarrow> and_then (ok_or (LedgerSqlite (FromSqlConversionFailure 6)) (x_hex_decode x h))
           (\<lambda>b. Inr (Some (SignatureBytes b)))) (\<lambda>signature.
     Inr \<lparr>le_event_id = EventId (er_event_id row),
          le_principal_id = PrincipalId (er_principal_id row),
          le_namespace_key = NamespaceKey (er_namespace_key row),
          le_run_id = map_option RunId (er_run_id row),
          le_event_type = er_event_type row,
          le_payload = payload,
          le_signature = signature,
          le_created_at = er_created_at row,
          le_parent_event_id = map_option EventId (er_parent_event_id row)\<rparr>))"

definition MAX_IDEMPOTENCY_KEY_BYTES :: nat where
  "MAX_IDEMPOTENCY_KEY_BYTES = 256"

definition ledger_validate_idempotency_key :: "string \<Rightarrow> ledger_error + unit" where
  "ledger_validate_idempotency_key key =
     (let valid = 8 \<le> length key \<and> length key \<le> MAX_IDEMPOTENCY_KEY_BYTES \<and> trim key = key \<and>
        list_all (\<lambda>byte. is_ascii_alphanumeric byte \<or> List.member ''._:-@'' byte) key
      in if valid then Inr () else Inl LedgerInvalidIdempotencyKey)"

definition deterministic_idempotent_event_id :: "externals \<Rightarrow> principal_id \<Rightarrow> string \<Rightarrow> event_id" where
  "deterministic_idempotent_event_id x principal_id idempotency_key =
     EventId (''evt-idem-'' @ take 40 (sha256_hex x (framed [principal_str principal_id, idempotency_key])))"

definition json_opt_str :: "string option \<Rightarrow> json" where
  "json_opt_str s = (case s of None \<Rightarrow> JNull | Some t \<Rightarrow> JStr t)"

definition event_envelope_signing_bytes ::
  "externals \<Rightarrow> principal_id \<Rightarrow> namespace_key \<Rightarrow> run_id option \<Rightarrow> string \<Rightarrow> json \<Rightarrow> event_id option \<Rightarrow> bytes" where
  "event_envelope_signing_bytes x principal_id namespace_key run_id event_type payload parent_event_id =
     x_json_print x (JObj
       [(''schema'', JStr ''zaion.event.signature.v2''),
        (''principal_id'', JStr (principal_str principal_id)),
        (''namespace_key'', JStr (namespace_str namespace_key)),
        (''run_id'', json_opt_str (map_option run_str run_id)),
        (''event_type'', JStr event_type),
        (''payload'', payload),
        (''parent_event_id'', json_opt_str (map_option event_id_str parent_event_id))])"

definition sign_event_envelope ::
  "externals \<Rightarrow> zaion_keypair \<Rightarrow> principal_id \<Rightarrow> namespace_key \<Rightarrow> run_id option \<Rightarrow> string \<Rightarrow> json \<Rightarrow>
     event_id option \<Rightarrow> signature_bytes" where
  "sign_event_envelope x keypair principal_id namespace_key run_id event_type payload parent_event_id =
     keypair_sign x keypair
       (event_envelope_signing_bytes x principal_id namespace_key run_id event_type payload parent_event_id)"

definition verify_event_signature ::
  "externals \<Rightarrow> public_key_bytes \<Rightarrow> ledger_event \<Rightarrow> crypto_error + event_signature_mode" where
  "verify_event_signature x public_key event =
     (case le_signature event of
        None \<Rightarrow> Inl VerificationFailed
      | Some signature \<Rightarrow>
          let envelope = event_envelope_signing_bytes x (le_principal_id event) (le_namespace_key event)
                (le_run_id event) (le_event_type event) (le_payload event) (le_parent_event_id event)
          in if is_ok (verify_signature x public_key envelope signature) then Inr CanonicalEnvelope
             else and_then (verify_signature x public_key (x_json_print x (le_payload event)) signature)
               (\<lambda>_. Inr LegacyPayloadOnly))"

subsection \<open>Appends\<close>

definition prepare ::
  "externals \<Rightarrow> string \<Rightarrow> principal_id \<Rightarrow> namespace_key \<Rightarrow> run_id option \<Rightarrow> string \<Rightarrow> json \<Rightarrow>
     signature_bytes option \<Rightarrow> string \<Rightarrow> event_id option \<Rightarrow> prepared_event" where
  "prepare x event_id principal_id namespace_key run_id event_type payload signature created_at parent_event_id =
     \<lparr>pe_event_id = event_id, pe_principal_id = principal_str principal_id,
      pe_namespace_key = namespace_str namespace_key, pe_run_id = map_option run_str run_id,
      pe_event_type = event_type, pe_payload_json = x_json_print x payload,
      pe_signature_hex = map_option (\<lambda>s. x_hex_encode x (signature_vec s)) signature,
      pe_created_at = created_at, pe_parent_event_id = map_option event_id_str parent_event_id\<rparr>"

definition append_event_with_parent_tx ::
  "externals \<Rightarrow> string \<Rightarrow> string \<Rightarrow> principal_id \<Rightarrow> namespace_key \<Rightarrow> string \<Rightarrow> json \<Rightarrow> run_id option \<Rightarrow>
     signature_bytes option \<Rightarrow> event_id option \<Rightarrow> ledger_db \<Rightarrow> ledger_error + event_id \<times> ledger_db" where
  "append_event_with_parent_tx x uuid now principal_id namespace_key event_type payload run_id signature
       parent_event_id db =
     (let event_id = ''evt-'' @ uuid
      in and_then (append_prepared_event x
           (prepare x event_id principal_id namespace_key run_id event_type payload signature now parent_event_id)
           Reject db) (\<lambda>(_, db'). Inr (EventId event_id, db')))"

definition append_event_with_parent where
  "append_event_with_parent x new_uuid uuid now principal_id namespace_key event_type payload run_id
       signature parent_event_id self db =
     with_conn x new_uuid
       (append_event_with_parent_tx x uuid now principal_id namespace_key event_type payload run_id
          signature parent_event_id) self db"

definition append_event where
  "append_event x new_uuid uuid now principal_id namespace_key event_type payload run_id signature self db =
     append_event_with_parent x new_uuid uuid now principal_id namespace_key event_type payload run_id
       signature None self db"

definition append_typed_event where
  "append_typed_event x new_uuid uuid now principal_id namespace_key event_type payload run_id signature self db =
     append_event x new_uuid uuid now principal_id namespace_key (event_type_str event_type) payload run_id
       signature self db"

definition append_typed_event_with_parent where
  "append_typed_event_with_parent x new_uuid uuid now principal_id namespace_key event_type payload run_id
       signature parent_event_id self db =
     append_event_with_parent x new_uuid uuid now principal_id namespace_key (event_type_str event_type)
       payload run_id signature parent_event_id self db"

definition append_signed_event_with_parent where
  "append_signed_event_with_parent x new_uuid uuid now keypair namespace_key event_type payload run_id
       parent_event_id self db =
     (let principal_id = keypair_principal_id x keypair;
          sig = sign_event_envelope x keypair principal_id namespace_key run_id event_type payload parent_event_id
      in append_event_with_parent x new_uuid uuid now principal_id namespace_key event_type payload run_id
           (Some sig) parent_event_id self db)"

definition append_signed_event where
  "append_signed_event x new_uuid uuid now keypair namespace_key event_type payload run_id self db =
     append_signed_event_with_parent x new_uuid uuid now keypair namespace_key event_type payload run_id
       None self db"

definition append_signed_typed_event where
  "append_signed_typed_event x new_uuid uuid now keypair namespace_key event_type payload run_id self db =
     append_signed_event x new_uuid uuid now keypair namespace_key (event_type_str event_type) payload
       run_id self db"

definition append_signed_typed_event_with_parent where
  "append_signed_typed_event_with_parent x new_uuid uuid now keypair namespace_key event_type payload run_id
       parent_event_id self db =
     append_signed_event_with_parent x new_uuid uuid now keypair namespace_key (event_type_str event_type)
       payload run_id parent_event_id self db"

text \<open>The event prepared for a caller-owned idempotency key.\<close>

definition idempotent_event ::
  "externals \<Rightarrow> string \<Rightarrow> zaion_keypair \<Rightarrow> namespace_key \<Rightarrow> string \<Rightarrow> json \<Rightarrow> run_id option \<Rightarrow>
     event_id option \<Rightarrow> string \<Rightarrow> prepared_event" where
  "idempotent_event x now keypair namespace_key event_type payload run_id parent_event_id idempotency_key =
     (let principal_id = keypair_principal_id x keypair;
          event_id = deterministic_idempotent_event_id x principal_id idempotency_key;
          signature = sign_event_envelope x keypair principal_id namespace_key run_id event_type payload
            parent_event_id
      in prepare x (event_id_str event_id) principal_id namespace_key run_id event_type payload
           (Some signature) now parent_event_id)"

definition append_idempotent_tx ::
  "externals \<Rightarrow> string \<Rightarrow> zaion_keypair \<Rightarrow> namespace_key \<Rightarrow> string \<Rightarrow> json \<Rightarrow> run_id option \<Rightarrow>
     event_id option \<Rightarrow> string \<Rightarrow> ledger_db \<Rightarrow> ledger_error + event_id \<times> ledger_db" where
  "append_idempotent_tx x now keypair namespace_key event_type payload run_id parent_event_id idempotency_key db =
     and_then (append_prepared_event x
       (idempotent_event x now keypair namespace_key event_type payload run_id parent_event_id idempotency_key)
       MatchIgnoringCreatedAt db)
       (\<lambda>(_, db'). Inr
          (deterministic_idempotent_event_id x (keypair_principal_id x keypair) idempotency_key, db'))"

definition append_signed_idempotent_event_with_parent where
  "append_signed_idempotent_event_with_parent x new_uuid now keypair namespace_key event_type payload run_id
       parent_event_id idempotency_key self db =
     (case ledger_validate_idempotency_key idempotency_key of
        Inl e \<Rightarrow> (Inl e, self, db)
      | Inr _ \<Rightarrow>
          with_conn x new_uuid
            (append_idempotent_tx x now keypair namespace_key event_type payload run_id parent_event_id
               idempotency_key) self db)"

definition append_signed_idempotent_event where
  "append_signed_idempotent_event x new_uuid now keypair namespace_key event_type payload run_id
       idempotency_key self db =
     append_signed_idempotent_event_with_parent x new_uuid now keypair namespace_key event_type payload
       run_id None idempotency_key self db"

subsection \<open>Replay\<close>

definition prepare_foreign :: "externals \<Rightarrow> ledger_event \<Rightarrow> prepared_event" where
  "prepare_foreign x event =
     prepare x (event_id_str (le_event_id event)) (le_principal_id event) (le_namespace_key event)
       (le_run_id event) (le_event_type event) (le_payload event) (le_signature event)
       (le_created_at event) (le_parent_event_id event)"

definition insert_event_disposition_tx ::
  "externals \<Rightarrow> ledger_event \<Rightarrow> ledger_db \<Rightarrow> ledger_error + event_insert_disposition \<times> ledger_db" where
  "insert_event_disposition_tx x event db =
     and_then (append_prepared_event x (prepare_foreign x event) MatchAll db)
       (\<lambda>(inserted, db'). Inr (if inserted then Inserted else Existing, db'))"

definition insert_event_with_id_and_parent_disposition where
  "insert_event_with_id_and_parent_disposition x new_uuid event self db =
     with_conn x new_uuid (insert_event_disposition_tx x event) self db"

definition insert_event_with_id_and_parent where
  "insert_event_with_id_and_parent x new_uuid event self db =
     (case insert_event_with_id_and_parent_disposition x new_uuid event self db of
        (r, self', db') \<Rightarrow> (and_then r (\<lambda>_. Inr ()), self', db'))"

definition insert_event_with_id where
  "insert_event_with_id x new_uuid event self db =
     insert_event_with_id_and_parent x new_uuid (event\<lparr>le_parent_event_id := None\<rparr>) self db"

fun insert_events_tx ::
  "externals \<Rightarrow> ledger_event list \<Rightarrow> ledger_db \<Rightarrow> ledger_error + event_insert_disposition list \<times> ledger_db" where
  "insert_events_tx x [] db = Inr ([], db)"
| "insert_events_tx x (event # events) db =
     and_then (append_prepared_event x (prepare_foreign x event) MatchAll db) (\<lambda>(inserted, db').
     and_then (insert_events_tx x events db') (\<lambda>(dispositions, db'').
     Inr ((if inserted then Inserted else Existing) # dispositions, db'')))"

definition insert_events_with_ids_atomic where
  "insert_events_with_ids_atomic x new_uuid events self db =
     with_conn x new_uuid (insert_events_tx x events) self db"

subsection \<open>Queries\<close>

text \<open>
  \<open>LIMIT ?n\<close> with the machine cast to a signed integer (a negative limit is no limit), and
  \<open>ORDER BY seq_num DESC\<close>; SQLite does not fix the order of equal sequence numbers.
\<close>

definition sql_limit :: "nat \<Rightarrow> 'a list \<Rightarrow> 'a list" where
  "sql_limit limit rows = (if int limit > i64_max then rows else take limit rows)"

definition newest_first :: "event_row list \<Rightarrow> event_row list" where
  "newest_first rows = rev (sort_key er_seq_num rows)"

definition query where
  "query x new_uuid q self db = with_conn x new_uuid (\<lambda>db. and_then (q db) (\<lambda>r. Inr (r, db))) self db"

definition list_events :: "externals \<Rightarrow> session_key \<Rightarrow> string option \<Rightarrow> nat \<Rightarrow> ledger_db \<Rightarrow> ledger_error + ledger_event list" where
  "list_events x session_key event_type limit db =
     collect_results (row_to_event x)
       (sql_limit limit (newest_first (filter (\<lambda>r. er_namespace_key r = session_key_str session_key \<and>
          (case event_type of None \<Rightarrow> True | Some et \<Rightarrow> er_event_type r = et)) (ld_events db))))"

definition list_typed_events where
  "list_typed_events x session_key event_type limit db =
     list_events x session_key (map_option event_type_str event_type) limit db"

text \<open>The loop over matching rows stops at the limit, and at the first row that cannot be read.\<close>

fun matching_events ::
  "externals \<Rightarrow> (ledger_event \<Rightarrow> bool) \<Rightarrow> nat \<Rightarrow> ledger_event list \<Rightarrow> event_row list \<Rightarrow> ledger_error + ledger_event list" where
  "matching_events x P limit matches [] = Inr matches"
| "matching_events x P limit matches (row # rows) =
     and_then (row_to_event x row) (\<lambda>event.
       if P event then
         (let matches = matches @ [event]
          in if length matches \<ge> limit then Inr matches else matching_events x P limit matches rows)
       else matching_events x P limit matches rows)"

definition list_events_by_payload_string where
  "list_events_by_payload_string x session_key event_type payload_key payload_value limit db =
     (if limit = 0 then Inr []
      else matching_events x
        (\<lambda>event. Option.bind (json_get payload_key (le_payload event)) as_str = Some payload_value) limit []
        (newest_first (filter (\<lambda>r. er_namespace_key r = session_key_str session_key \<and>
           er_event_type r = event_type) (ld_events db))))"

definition list_events_by_payload_string_array_contains where
  "list_events_by_payload_string_array_contains x session_key event_type payload_key payload_value limit db =
     (if limit = 0 then Inr []
      else matching_events x
        (\<lambda>event. case Option.bind (json_get payload_key (le_payload event)) as_array of
             None \<Rightarrow> False
           | Some values \<Rightarrow> list_ex (\<lambda>value. as_str value = Some payload_value) values) limit []
        (newest_first (filter (\<lambda>r. er_namespace_key r = session_key_str session_key \<and>
           er_event_type r = event_type) (ld_events db))))"

definition list_global_events where
  "list_global_events x limit db =
     collect_results (row_to_event x) (sql_limit limit (newest_first (ld_events db)))"

definition get_event_from_connection ::
  "externals \<Rightarrow> string \<Rightarrow> ledger_db \<Rightarrow> ledger_error + ledger_event option" where
  "get_event_from_connection x event_id db =
     (case find_event event_id db of
        None \<Rightarrow> Inr None
      | Some row \<Rightarrow> and_then (row_to_event x row) (\<lambda>event. Inr (Some event)))"

definition get_event where
  "get_event x new_uuid event_id self db = query x new_uuid (get_event_from_connection x event_id) self db"

definition list_principal_events where
  "list_principal_events x principal_id limit db =
     collect_results (row_to_event x)
       (sql_limit limit (newest_first (rows_of_principal (principal_str principal_id) db)))"

definition list_events_from_seq where
  "list_events_from_seq x principal_id from_seq db =
     collect_results (row_to_event x)
       (sort_key er_seq_num (filter (\<lambda>r. er_seq_num r \<ge> sint (from_seq :: u64))
          (rows_of_principal (principal_str principal_id) db)))"

definition event_stats :: "principal_id \<Rightarrow> ledger_db \<Rightarrow> nat \<times> string option" where
  "event_stats principal_id db =
     (length (rows_of_principal (principal_str principal_id) db),
      map_option er_created_at (newest_row (rows_of_principal (principal_str principal_id) db)))"

definition event_id_exists :: "string \<Rightarrow> ledger_db \<Rightarrow> bool" where
  "event_id_exists event_id db =
     (length (filter (\<lambda>r. er_event_id r = event_id) (ld_events db)) > 0)"

subsection \<open>Retries and replays\<close>

lemma append_keeps_event:
  assumes "append_prepared_event x e policy db = Inr (ins, db')" and "find_event i db = Some r"
  shows "find_event i db' = Some r"
  using assms(1)
proof (cases rule: append_cases)
  case (inserted seq prev)
  then show ?thesis
    using assms(2) by (simp add: find_event_def find_append)
qed (use assms(2) in simp)

lemma step_keeps_event: "ledger_step x db db' \<Longrightarrow> find_event i db = Some r \<Longrightarrow> find_event i db' = Some r"
  by (auto elim!: ledger_step.cases intro: append_keeps_event)

lemma steps_keep_event: "(ledger_step x)\<^sup>*\<^sup>* db db' \<Longrightarrow> find_event i db = Some r \<Longrightarrow> find_event i db' = Some r"
  by (induction rule: rtranclp_induct) (auto intro: step_keeps_event)

text \<open>Whether it was there before or not, an accepted event is stored with the content given.\<close>

lemma append_stores:
  assumes "append_prepared_event x e policy db = Inr (ins, db')"
  shows "\<exists>r. find_event (pe_event_id e) db' = Some r \<and> stored_matches r e (policy \<noteq> MatchIgnoringCreatedAt)"
  using assms
proof (cases rule: append_cases)
  case (existing r)
  then show ?thesis
    by (cases policy) auto
next
  case (inserted seq prev)
  then have "find_event (pe_event_id e) db' = Some (row_of_prepared e seq prev)"
    by (simp add: find_event_def find_append row_of_prepared_def)
  then show ?thesis
    by (auto simp: stored_matches_def row_of_prepared_def)
qed

lemma append_existing:
  assumes "find_event (pe_event_id e) db = Some r"
  shows "append_prepared_event x e policy db =
    (if policy \<noteq> Reject \<and> stored_matches r e (policy = MatchAll) then Inr (False, db)
     else Inl (EventIdConflict (pe_event_id e)))"
  using assms by (cases policy) (simp_all add: append_prepared_event_def)

lemma stored_matches_weaken: "stored_matches r e b \<Longrightarrow> stored_matches r e False"
  by (simp add: stored_matches_def)

lemma idempotent_event_id:
  "pe_event_id (idempotent_event x now k ns t v run par key) =
     event_id_str (deterministic_idempotent_event_id x (keypair_principal_id x k) key)"
  by (simp add: idempotent_event_def Let_def prepare_def)

text \<open>
  C33. Keyed appends are idempotent: once an event has been accepted for a key, then after any
  number of further appends by anyone a retry with the same content and any clock returns the same
  identifier without changing the ledger, and a retry with another namespace, type, payload text,
  run or parent is refused as a conflict.
\<close>

theorem append_idempotent_retry:
  assumes "append_idempotent_tx x now k ns t v run par key db = Inr (eid, db1)"
    and "(ledger_step x)\<^sup>*\<^sup>* db1 db2"
  shows "append_idempotent_tx x later k ns t v run par key db2 = Inr (eid, db2) \<and>
    (ns' \<noteq> ns \<or> t' \<noteq> t \<or> x_json_print x v' \<noteq> x_json_print x v \<or> run' \<noteq> run \<or> par' \<noteq> par \<longrightarrow>
     append_idempotent_tx x later k ns' t' v' run' par' key db2 =
       Inl (EventIdConflict (event_id_str eid)))"
proof -
  let ?id = "deterministic_idempotent_event_id x (keypair_principal_id x k) key"
  let ?e = "\<lambda>now ns t v run par. idempotent_event x now k ns t v run par key"
  obtain ins where app: "append_prepared_event x (?e now ns t v run par) MatchIgnoringCreatedAt db = Inr (ins, db1)"
    and eid: "eid = ?id"
    using assms(1) by (auto simp: append_idempotent_tx_def result_simps)
  obtain r where r: "find_event (event_id_str ?id) db2 = Some r" "stored_matches r (?e now ns t v run par) False"
    using append_stores [OF app] steps_keep_event [OF assms(2)] by (auto simp: idempotent_event_id)
  have found: "find_event (pe_event_id (?e later ns' t' v' run' par')) db2 = Some r" for ns' t' v' run' par'
    using r(1) by (simp add: idempotent_event_id)
  have same: "stored_matches r (?e later ns t v run par) False"
    using r(2) by (simp add: stored_matches_def idempotent_event_def prepare_def Let_def)
  have diff: "\<not> stored_matches r (?e later ns' t' v' run' par') False"
    if "ns' \<noteq> ns \<or> t' \<noteq> t \<or> x_json_print x v' \<noteq> x_json_print x v \<or> run' \<noteq> run \<or> par' \<noteq> par"
    using that r(2)
    by (cases run; cases run'; cases par; cases par'; cases ns; cases ns')
      (auto simp: stored_matches_def idempotent_event_def prepare_def Let_def run_id.expand event_id.expand)
  show ?thesis
    using append_existing [OF found, where x = x and policy = MatchIgnoringCreatedAt] same diff
    by (auto simp: append_idempotent_tx_def eid idempotent_event_id)
qed

lemma empty_ledger_inv: "ledger_inv x empty_ledger"
  by (rule ledger_init_inv) (simp add: ledger_init_def empty_ledger_def)

lemma first_append: "\<exists>db'. append_prepared_event x e policy empty_ledger = Inr (True, db')"
  by (rule append_succeeds [OF empty_ledger_inv])
    (simp_all add: find_event_def empty_ledger_def rows_of_principal_def i64_max_def)

lemma first_idempotent_append:
  "\<exists>eid db'. append_idempotent_tx x now k ns t v run par key empty_ledger = Inr (eid, db')"
proof -
  obtain db' where "append_prepared_event x (idempotent_event x now k ns t v run par key)
      MatchIgnoringCreatedAt empty_ledger = Inr (True, db')"
    using first_append by blast
  then show ?thesis
    by (simp add: append_idempotent_tx_def)
qed

theorem append_idempotent_retry_witness:
  "\<exists>eid db1. append_idempotent_tx demo_externals ''t0'' (ZaionKeypair ''k'') (NamespaceKey ''ns'') ''turn''
       (JStr ''one'') None None ''key-0001'' empty_ledger = Inr (eid, db1) \<and>
     append_idempotent_tx demo_externals ''t9'' (ZaionKeypair ''k'') (NamespaceKey ''ns'') ''turn''
       (JStr ''one'') None None ''key-0001'' db1 = Inr (eid, db1) \<and>
     append_idempotent_tx demo_externals ''t9'' (ZaionKeypair ''k'') (NamespaceKey ''ns'') ''turn''
       (JStr ''two'') None None ''key-0001'' db1 = Inl (EventIdConflict (event_id_str eid))"
proof -
  obtain eid db1 where first: "append_idempotent_tx demo_externals ''t0'' (ZaionKeypair ''k'')
      (NamespaceKey ''ns'') ''turn'' (JStr ''one'') None None ''key-0001'' empty_ledger = Inr (eid, db1)"
    using first_idempotent_append by blast
  show ?thesis
    using first append_idempotent_retry [OF first rtranclp.rtrancl_refl, of "''t9''" "NamespaceKey ''ns''"
        "''turn''" "JStr ''two''" None None]
    by (simp add: demo_externals_def)
qed

lemma insert_events_stores:
  "insert_events_tx x es db = Inr (ds, db') \<Longrightarrow>
     (ledger_step x)\<^sup>*\<^sup>* db db' \<and> length ds = length es \<and>
     (\<forall>e \<in> set es. \<exists>r. find_event (event_id_str (le_event_id e)) db' = Some r \<and>
        stored_matches r (prepare_foreign x e) True)"
proof (induction es arbitrary: db ds)
  case (Cons e es)
  from Cons.prems obtain ins db1 ds1 where
    app: "append_prepared_event x (prepare_foreign x e) MatchAll db = Inr (ins, db1)"
    and rest: "insert_events_tx x es db1 = Inr (ds1, db')" and ds: "length ds = Suc (length ds1)"
    by (auto simp: result_simps)
  have step: "ledger_step x db db1"
    using app by (rule ledger_step.intros)
  note IH = Cons.IH [OF rest]
  have "pe_event_id (prepare_foreign x e) = event_id_str (le_event_id e)"
    by (simp add: prepare_foreign_def prepare_def)
  then have "\<exists>r. find_event (event_id_str (le_event_id e)) db' = Some r \<and>
      stored_matches r (prepare_foreign x e) True"
    using append_stores [OF app] steps_keep_event [OF IH [THEN conjunct1]] by auto
  then show ?case
    using IH ds step by (auto intro: converse_rtranclp_into_rtranclp)
qed simp

lemma insert_events_again:
  "\<forall>e \<in> set es. \<exists>r. find_event (event_id_str (le_event_id e)) db = Some r \<and>
     stored_matches r (prepare_foreign x e) True \<Longrightarrow>
   insert_events_tx x es db = Inr (replicate (length es) Existing, db)"
proof (induction es)
  case (Cons e es)
  then obtain r where "find_event (pe_event_id (prepare_foreign x e)) db = Some r"
    "stored_matches r (prepare_foreign x e) True"
    by (auto simp: prepare_foreign_def prepare_def)
  then show ?case
    using Cons by (simp add: append_existing)
qed simp

text \<open>
  Replaying a batch of foreign events is idempotent and keeps the chain: if a batch was
  accepted, the ledger invariant still holds, and importing the same batch again, after any further
  appends, reports every event as existing and changes nothing.
\<close>

theorem insert_events_replay:
  assumes "ledger_inv x db" and "insert_events_tx x es db = Inr (ds, db1)"
    and "(ledger_step x)\<^sup>*\<^sup>* db1 db2"
  shows "ledger_inv x db1 \<and> insert_events_tx x es db2 = Inr (replicate (length es) Existing, db2)"
proof
  note stored = insert_events_stores [OF assms(2)]
  show "ledger_inv x db1"
    using ledger.run_inv [OF stored [THEN conjunct1] assms(1)] .
  show "insert_events_tx x es db2 = Inr (replicate (length es) Existing, db2)"
    by (rule insert_events_again) (use stored steps_keep_event [OF assms(3)] in blast)
qed

definition demo_foreign :: ledger_event where
  "demo_foreign =
     \<lparr>le_event_id = EventId ''evt-1'', le_principal_id = PrincipalId ''p'', le_namespace_key = NamespaceKey ''ns'',
      le_run_id = None, le_event_type = ''t'', le_payload = JStr ''v'', le_signature = None,
      le_created_at = ''then'', le_parent_event_id = None\<rparr>"

theorem insert_events_replay_witness:
  "\<exists>ds db1. insert_events_tx demo_externals [demo_foreign] empty_ledger = Inr (ds, db1) \<and>
     ledger_inv demo_externals db1 \<and>
     insert_events_tx demo_externals [demo_foreign] db1 = Inr ([Existing], db1)"
proof -
  obtain db1 where "append_prepared_event demo_externals (prepare_foreign demo_externals demo_foreign)
      MatchAll empty_ledger = Inr (True, db1)"
    using first_append by blast
  then have first: "insert_events_tx demo_externals [demo_foreign] empty_ledger = Inr ([Inserted], db1)"
    by simp
  show ?thesis
    using first insert_events_replay [OF empty_ledger_inv first rtranclp.rtrancl_refl] by auto
qed

subsection \<open>Signatures\<close>

lemma row_to_event_stored:
  assumes "stored_matches r e False" and "e = prepare x i p ns run t v (Some sg) now par"
    and "x_json_parse x (x_json_print x v) = Some v" and "hex_laws x" and "er_event_id r = i"
  shows "row_to_event x r =
    Inr \<lparr>le_event_id = EventId i, le_principal_id = p, le_namespace_key = ns, le_run_id = run,
         le_event_type = t, le_payload = v, le_signature = Some sg, le_created_at = er_created_at r,
         le_parent_event_id = par\<rparr>"
proof -
  have "map_option RunId (map_option run_str run) = run" "map_option EventId (map_option event_id_str par) = par"
    by (cases run; simp) (cases par; simp)
  then show ?thesis
    using assms by (auto simp: row_to_event_def stored_matches_def prepare_def hex_laws_def)
qed

lemma signed_roundtrip_event:
  assumes "append_idempotent_tx x now k ns t v run par key db = Inr (eid, db')"
    and "ed25519_laws x" and "hex_laws x" and "x_json_parse x (x_json_print x v) = Some v"
  shows "\<exists>ev. get_event_from_connection x (event_id_str eid) db' = Inr (Some ev) \<and>
    le_event_id ev = eid \<and> le_principal_id ev = keypair_principal_id x k \<and> le_namespace_key ev = ns \<and>
    le_run_id ev = run \<and> le_event_type ev = t \<and> le_payload ev = v \<and> le_parent_event_id ev = par \<and>
    verify_event_signature x (keypair_public_key_bytes x k) ev = Inr CanonicalEnvelope"
proof -
  let ?p = "keypair_principal_id x k"
  let ?sg = "sign_event_envelope x k ?p ns run t v par"
  let ?e = "idempotent_event x now k ns t v run par key"
  obtain ins where app: "append_prepared_event x ?e MatchIgnoringCreatedAt db = Inr (ins, db')"
    and eid: "eid = deterministic_idempotent_event_id x ?p key"
    using assms(1) by (auto simp: append_idempotent_tx_def result_simps)
  obtain r where r: "find_event (event_id_str eid) db' = Some r" "stored_matches r ?e False"
    using append_stores [OF app] by (auto simp: idempotent_event_id eid)
  have e: "?e = prepare x (event_id_str eid) ?p ns run t v (Some ?sg) now par"
    by (simp add: idempotent_event_def Let_def eid)
  have read: "row_to_event x r =
      Inr \<lparr>le_event_id = eid, le_principal_id = ?p, le_namespace_key = ns, le_run_id = run,
           le_event_type = t, le_payload = v, le_signature = Some ?sg, le_created_at = er_created_at r,
           le_parent_event_id = par\<rparr>"
    using row_to_event_stored [OF r(2) e assms(4,3)] find_event_Some [OF r(1)] by simp
  then show ?thesis
    using r(1) verify_own_signature [OF assms(2)]
    by (auto simp: get_event_from_connection_def verify_event_signature_def sign_event_envelope_def)
qed

text \<open>
  Signed events survive storage: after a keyed, signed append the stored event reads back with
  the very namespace, run, type, payload and parent that were signed, and its signature verifies
  under the signer's public key over the canonical envelope (given that Ed25519, hexadecimal and
  the JSON text of this payload round-trip).
\<close>

theorem signed_event_roundtrip:
  assumes "append_idempotent_tx x now k ns t v run par key db = Inr (eid, db')"
    and "ed25519_laws x" and "hex_laws x" and "x_json_parse x (x_json_print x v) = Some v"
  shows "\<exists>ev. get_event_from_connection x (event_id_str eid) db' = Inr (Some ev) \<and>
    le_event_id ev = eid \<and> le_principal_id ev = keypair_principal_id x k \<and> le_namespace_key ev = ns \<and>
    le_run_id ev = run \<and> le_event_type ev = t \<and> le_payload ev = v \<and> le_parent_event_id ev = par \<and>
    verify_event_signature x (keypair_public_key_bytes x k) ev = Inr CanonicalEnvelope"
  using assms by (rule signed_roundtrip_event)

theorem signed_event_roundtrip_witness:
  "\<exists>eid db' ev. append_idempotent_tx demo_externals ''t0'' (ZaionKeypair ''k'') (NamespaceKey ''ns'') ''turn''
       (JStr ''one'') None None ''key-0001'' empty_ledger = Inr (eid, db') \<and>
     get_event_from_connection demo_externals (event_id_str eid) db' = Inr (Some ev) \<and>
     le_payload ev = JStr ''one'' \<and>
     verify_event_signature demo_externals (keypair_public_key_bytes demo_externals (ZaionKeypair ''k'')) ev =
       Inr CanonicalEnvelope"
proof -
  obtain eid db1 where first: "append_idempotent_tx demo_externals ''t0'' (ZaionKeypair ''k'')
      (NamespaceKey ''ns'') ''turn'' (JStr ''one'') None None ''key-0001'' empty_ledger = Inr (eid, db1)"
    using first_idempotent_append by blast
  have "ed25519_laws demo_externals" "hex_laws demo_externals"
    "x_json_parse demo_externals (x_json_print demo_externals (JStr ''one'')) = Some (JStr ''one'')"
    by (auto simp: ed25519_laws_def hex_laws_def demo_externals_def)
  from signed_event_roundtrip [OF first this] first show ?thesis
    by blast
qed

subsection \<open>Hash inputs\<close>

text \<open>
  Two ways to build a hash input. The identifier of a keyed event frames its parts by length, so
  different principals or keys give different inputs; the chain hash joins its fields with a bar, so
  events that differ in type and payload can have the same input and hence the same hash.
\<close>

theorem hash_inputs:
  "(length (principal_str p) < 2 ^ 64 \<and> length key < 2 ^ 64 \<and> length (principal_str q) < 2 ^ 64 \<and>
      length key' < 2 ^ 64 \<and> framed [principal_str p, key] = framed [principal_str q, key'] \<longrightarrow>
      p = q \<and> key = key') \<and>
   event_hash x i s (t @ ''|'' @ u) v c n = event_hash x i s t (u @ ''|'' @ v) c n"
proof -
  have "p = q \<and> key = key'"
    if "length (principal_str p) < 2 ^ 64" "length key < 2 ^ 64" "length (principal_str q) < 2 ^ 64"
      "length key' < 2 ^ 64" "framed [principal_str p, key] = framed [principal_str q, key']"
    using that framed_inject [of "[principal_str p, key]" "[principal_str q, key']"]
    by (auto intro: principal_id.expand)
  then show ?thesis
    by (simp add: event_hash_def)
qed

theorem hash_inputs_witness:
  "PrincipalId ''p'' = PrincipalId ''p'' \<and> ''k'' = ''k'' \<and>
   event_hash demo_externals ''i'' ''p'' (''a'' @ ''|'' @ ''b'') ''1'' ''c'' 0 =
     event_hash demo_externals ''i'' ''p'' ''a'' (''b'' @ ''|'' @ ''1'') ''c'' 0"
  using hash_inputs [of "PrincipalId ''p''" "''k''" "PrincipalId ''p''" "''k''" demo_externals "''i''" "''p''"
      "''a''" "''b''" "''1''" "''c''" 0]
  by blast

end
