(* ===== verification/Ledger_Binding.thy ===== *)
theory Ledger_Binding
  imports Event_Ledger
begin

text \<open>
  \<open>crates/zaion-ledger/src/binding.rs\<close>: the exact projection expected of one keyed, signed event,
  the sealed commit token, and the operations that append and verify it. The lemmas show that a
  token is issued only for a stored event that agrees with every field of the binding and carries a
  canonical-envelope signature of the bound principal, and that a token is issued for every event
  appended through the binding.
\<close>

definition BINDING_DIGEST_SCHEMA :: string where
  "BINDING_DIGEST_SCHEMA = ''zaion.ledger.verified_event_binding.v2''"

record idempotent_event_binding =
  ib_idempotency_key :: string
  ib_principal_id :: principal_id
  ib_namespace_key :: namespace_key
  ib_run_id :: "run_id option"
  ib_event_type :: string
  ib_payload :: json
  ib_parent_event_id :: "event_id option"

definition new_binding ::
  "string \<Rightarrow> principal_id \<Rightarrow> namespace_key \<Rightarrow> run_id option \<Rightarrow> string \<Rightarrow> json \<Rightarrow> event_id option \<Rightarrow>
     ledger_error + idempotent_event_binding" where
  "new_binding idempotency_key principal_id namespace_key run_id event_type payload parent_event_id =
     and_then (ledger_validate_idempotency_key idempotency_key) (\<lambda>_.
     if trim event_type = [] \<or> trim event_type \<noteq> event_type
     then Inl (EventBindingMismatch ''event_type'')
     else Inr
       \<lparr>ib_idempotency_key = idempotency_key, ib_principal_id = principal_id,
        ib_namespace_key = namespace_key, ib_run_id = run_id, ib_event_type = event_type,
        ib_payload = payload, ib_parent_event_id = parent_event_id\<rparr>)"

definition expected_event_id :: "externals \<Rightarrow> idempotent_event_binding \<Rightarrow> event_id" where
  "expected_event_id x self =
     deterministic_idempotent_event_id x (ib_principal_id self) (ib_idempotency_key self)"

record verified_event_commit =
  vc_event_id :: string
  vc_canonical_ledger_path :: string
  vc_database_instance_id :: string
  vc_binding_digest :: string
  vc_public_key_bytes :: bytes

definition binding_digest :: "externals \<Rightarrow> string \<Rightarrow> string \<Rightarrow> event_id \<Rightarrow> idempotent_event_binding \<Rightarrow> string" where
  "binding_digest x canonical_ledger_path instance_id event_id binding =
     ''sha256:'' @ sha256_hex x (x_json_print x (JObj
       [(''schema'', JStr BINDING_DIGEST_SCHEMA),
        (''canonical_ledger_path_bytes'', JStr (x_hex_encode x canonical_ledger_path)),
        (''database_instance_id'', JStr instance_id),
        (''event_id'', JStr (event_id_str event_id)),
        (''idempotency_key'', JStr (ib_idempotency_key binding)),
        (''principal_id'', JStr (principal_str (ib_principal_id binding))),
        (''namespace_key'', JStr (namespace_str (ib_namespace_key binding))),
        (''run_id'', json_opt_str (map_option run_str (ib_run_id binding))),
        (''event_type'', JStr (ib_event_type binding)),
        (''payload'', ib_payload binding),
        (''parent_event_id'', json_opt_str (map_option event_id_str (ib_parent_event_id binding))),
        (''signature_mode'', JStr ''canonical_envelope_v2'')]))"

definition verify_principal_binding :: "principal_id \<Rightarrow> principal_id \<Rightarrow> ledger_error + unit" where
  "verify_principal_binding expected derived =
     (if expected = derived then Inr ()
      else Inl (EventBindingPrincipalMismatch (principal_str expected) (principal_str derived)))"

definition verify_text :: "string \<Rightarrow> string \<Rightarrow> string \<Rightarrow> ledger_error + unit" where
  "verify_text field actual expected =
     (if actual = expected then Inr () else Inl (EventBindingMismatch field))"

definition verify_optional_text :: "string \<Rightarrow> string option \<Rightarrow> string option \<Rightarrow> ledger_error + unit" where
  "verify_optional_text field actual expected =
     (if actual = expected then Inr () else Inl (EventBindingMismatch field))"

definition require_canonical :: "crypto_error + event_signature_mode \<Rightarrow> ledger_error + unit" where
  "require_canonical r =
     (case r of
        Inr CanonicalEnvelope \<Rightarrow> Inr ()
      | Inr LegacyPayloadOnly \<Rightarrow> Inl EventBindingNonCanonicalSignature
      | Inl _ \<Rightarrow> Inl EventBindingSignatureInvalid)"

definition verify_existing_idempotent_event_in_connection ::
  "externals \<Rightarrow> public_key_bytes \<Rightarrow> idempotent_event_binding \<Rightarrow> ledger_db \<Rightarrow> ledger_error + verified_event_commit" where
  "verify_existing_idempotent_event_in_connection x public_key binding db =
     (let derived = principal_id_from_public_key x public_key;
          expected = expected_event_id x binding
      in and_then (verify_principal_binding (ib_principal_id binding) derived) (\<lambda>_.
         and_then (get_event_from_connection x (event_id_str expected) db) (\<lambda>found.
         and_then (ok_or (LedgerNotFound (event_id_str expected)) found) (\<lambda>event.
         and_then (verify_text ''event_id'' (event_id_str (le_event_id event)) (event_id_str expected)) (\<lambda>_.
         and_then (verify_text ''principal_id'' (principal_str (le_principal_id event))
           (principal_str (ib_principal_id binding))) (\<lambda>_.
         and_then (verify_text ''namespace_key'' (namespace_str (le_namespace_key event))
           (namespace_str (ib_namespace_key binding))) (\<lambda>_.
         and_then (verify_optional_text ''run_id'' (map_option run_str (le_run_id event))
           (map_option run_str (ib_run_id binding))) (\<lambda>_.
         and_then (verify_text ''event_type'' (le_event_type event) (ib_event_type binding)) (\<lambda>_.
         and_then (guard (x_json_eq x (le_payload event) (ib_payload binding)) (EventBindingMismatch ''payload'')) (\<lambda>_.
         and_then (verify_optional_text ''parent_event_id'' (map_option event_id_str (le_parent_event_id event))
           (map_option event_id_str (ib_parent_event_id binding))) (\<lambda>_.
         and_then (require_canonical (verify_event_signature x public_key event)) (\<lambda>_.
         and_then (validated_database_path x db) (\<lambda>canonical_ledger_path.
         and_then (validated_database_instance_id x db) (\<lambda>database_instance_id.
         Inr \<lparr>vc_event_id = event_id_str expected,
              vc_canonical_ledger_path = canonical_ledger_path,
              vc_database_instance_id = database_instance_id,
              vc_binding_digest = binding_digest x canonical_ledger_path database_instance_id expected binding,
              vc_public_key_bytes = public_key_vec public_key\<rparr>))))))))))))))"

subsection \<open>Operations of the ledger object\<close>

text \<open>Calls in sequence on one ledger object; an error keeps what earlier calls did.\<close>

type_synonym 'a ledger_call =
  "event_ledger \<Rightarrow> ledger_db \<Rightarrow> (ledger_error + 'a) \<times> event_ledger \<times> ledger_db"

definition then_call :: "'a ledger_call \<Rightarrow> ('a \<Rightarrow> 'b ledger_call) \<Rightarrow> 'b ledger_call" where
  "then_call m f self db =
     (case m self db of
        (Inl e, self', db') \<Rightarrow> (Inl e, self', db')
      | (Inr a, self', db') \<Rightarrow> f a self' db')"

definition return_call :: "ledger_error + 'a \<Rightarrow> 'a ledger_call" where
  "return_call r self db = (r, self, db)"

definition canonical_database_path :: "externals \<Rightarrow> string \<Rightarrow> string ledger_call" where
  "canonical_database_path x new_uuid = query x new_uuid (validated_database_path x)"

definition verify_existing_idempotent_event ::
  "externals \<Rightarrow> string \<Rightarrow> public_key_bytes \<Rightarrow> idempotent_event_binding \<Rightarrow> verified_event_commit ledger_call" where
  "verify_existing_idempotent_event x new_uuid public_key binding =
     query x new_uuid (verify_existing_idempotent_event_in_connection x public_key binding)"

definition append_verified_idempotent_event ::
  "externals \<Rightarrow> string \<Rightarrow> string \<Rightarrow> zaion_keypair \<Rightarrow> idempotent_event_binding \<Rightarrow> verified_event_commit ledger_call" where
  "append_verified_idempotent_event x new_uuid now keypair binding =
     then_call (return_call (verify_principal_binding (ib_principal_id binding) (keypair_principal_id x keypair))) (\<lambda>_.
     then_call (canonical_database_path x new_uuid) (\<lambda>expected_path.
     then_call (database_instance_id x new_uuid) (\<lambda>expected_instance_id.
     then_call (append_signed_idempotent_event_with_parent x new_uuid now keypair (ib_namespace_key binding)
       (ib_event_type binding) (ib_payload binding) (ib_run_id binding) (ib_parent_event_id binding)
       (ib_idempotency_key binding)) (\<lambda>event_id.
     then_call (return_call (guard (event_id_str event_id = event_id_str (expected_event_id x binding))
       (EventBindingMismatch ''event_id''))) (\<lambda>_.
     then_call (verify_existing_idempotent_event x new_uuid (keypair_public_key_bytes x keypair) binding) (\<lambda>committed.
     then_call (return_call (guard (vc_canonical_ledger_path committed = expected_path)
       (EventBindingMismatch ''canonical_ledger_path''))) (\<lambda>_.
     then_call (return_call (guard (vc_database_instance_id committed = expected_instance_id)
       (EventBindingMismatch ''database_instance_id''))) (\<lambda>_.
     return_call (Inr committed)))))))))"

definition matches_binding_in_connection ::
  "externals \<Rightarrow> verified_event_commit \<Rightarrow> idempotent_event_binding \<Rightarrow> ledger_db \<Rightarrow> ledger_error + bool" where
  "matches_binding_in_connection x self binding db =
     and_then (verify_existing_idempotent_event_in_connection x (PublicKeyBytes (vc_public_key_bytes self)) binding db)
       (\<lambda>verified. Inr (self = verified))"

definition matches_binding ::
  "externals \<Rightarrow> string \<Rightarrow> verified_event_commit \<Rightarrow> idempotent_event_binding \<Rightarrow> bool ledger_call" where
  "matches_binding x new_uuid self binding =
     then_call (canonical_database_path x new_uuid) (\<lambda>canonical_ledger_path.
     then_call (database_instance_id x new_uuid) (\<lambda>database_instance_id.
     let event_id = expected_event_id x binding;
         digest = binding_digest x canonical_ledger_path database_instance_id event_id binding;
         token_matches = vc_event_id self = event_id_str event_id \<and>
           vc_canonical_ledger_path self = canonical_ledger_path \<and>
           vc_database_instance_id self = database_instance_id \<and> vc_binding_digest self = digest
     in if \<not> token_matches then return_call (Inr False)
        else then_call (verify_existing_idempotent_event x new_uuid (PublicKeyBytes (vc_public_key_bytes self)) binding)
          (\<lambda>verified. return_call (Inr (self = verified)))))"

subsection \<open>Soundness and completeness of verification\<close>

definition event_matches_binding :: "externals \<Rightarrow> idempotent_event_binding \<Rightarrow> ledger_event \<Rightarrow> bool" where
  "event_matches_binding x b ev =
     (le_event_id ev = expected_event_id x b \<and> le_principal_id ev = ib_principal_id b \<and>
      le_namespace_key ev = ib_namespace_key b \<and> le_run_id ev = ib_run_id b \<and>
      le_event_type ev = ib_event_type b \<and> x_json_eq x (le_payload ev) (ib_payload b) \<and>
      le_parent_event_id ev = ib_parent_event_id b)"

lemma map_option_str_eq [simp]:
  "map_option run_str a = map_option run_str b \<longleftrightarrow> a = b"
  "map_option event_id_str c = map_option event_id_str d \<longleftrightarrow> c = d"
  by (cases a; cases b; auto intro: run_id.expand) (cases c; cases d; auto intro: event_id.expand)

lemma newtype_eq [simp]:
  "principal_str p = principal_str q \<longleftrightarrow> p = q"
  "namespace_str n = namespace_str m \<longleftrightarrow> n = m"
  "event_id_str i = event_id_str j \<longleftrightarrow> i = j"
  by (auto intro: principal_id.expand namespace_key.expand event_id.expand)

lemma verify_text_ok [result_simps]: "verify_text f a b = Inr u \<longleftrightarrow> a = b"
  by (simp add: verify_text_def)

lemma verify_optional_text_ok [result_simps]: "verify_optional_text f c d = Inr u \<longleftrightarrow> c = d"
  by (simp add: verify_optional_text_def)

lemma verify_principal_binding_ok [result_simps]: "verify_principal_binding p q = Inr u \<longleftrightarrow> p = q"
  by (simp add: verify_principal_binding_def)

lemma require_canonical_ok [result_simps]: "require_canonical r = Inr u \<longleftrightarrow> r = Inr CanonicalEnvelope"
  by (auto simp: require_canonical_def split: sum.splits event_signature_mode.splits)

lemma verify_existing_iff:
  "verify_existing_idempotent_event_in_connection x pk b db = Inr commit \<longleftrightarrow>
     ib_principal_id b = principal_id_from_public_key x pk \<and>
     (\<exists>ev path inst.
        get_event_from_connection x (event_id_str (expected_event_id x b)) db = Inr (Some ev) \<and>
        event_matches_binding x b ev \<and> verify_event_signature x pk ev = Inr CanonicalEnvelope \<and>
        validated_database_path x db = Inr path \<and> validated_database_instance_id x db = Inr inst \<and>
        commit = \<lparr>vc_event_id = event_id_str (expected_event_id x b), vc_canonical_ledger_path = path,
          vc_database_instance_id = inst,
          vc_binding_digest = binding_digest x path inst (expected_event_id x b) b,
          vc_public_key_bytes = public_key_vec pk\<rparr>)"
  unfolding verify_existing_idempotent_event_in_connection_def Let_def event_matches_binding_def
  by (auto simp: result_simps)

text \<open>
  C35. A commit token is evidence: verification issues one exactly when the key's principal is the
  bound one and the ledger holds, under the identifier derived from principal and idempotency key,
  an event that agrees with the binding in principal, namespace, run, type, payload and parent and
  whose canonical-envelope signature verifies under the key, in a database whose file and identity
  are valid; a legacy payload-only signature never suffices. The token names that event and key.
\<close>

theorem verified_commit_sound_complete:
  "(\<exists>commit. verify_existing_idempotent_event_in_connection x pk b db = Inr commit \<and>
      vc_event_id commit = event_id_str (expected_event_id x b) \<and> vc_public_key_bytes commit = public_key_vec pk) \<longleftrightarrow>
   ib_principal_id b = principal_id_from_public_key x pk \<and>
   is_ok (validated_database_path x db) \<and> is_ok (validated_database_instance_id x db) \<and>
   (\<exists>ev. get_event_from_connection x (event_id_str (expected_event_id x b)) db = Inr (Some ev) \<and>
      event_matches_binding x b ev \<and> verify_event_signature x pk ev = Inr CanonicalEnvelope)"
  unfolding verify_existing_iff is_ok_iff by auto

text \<open>
  An append through a binding can always be verified: if the key signs for the bound principal,
  the keyed append of the binding's fields went through, and the database file and identity are
  valid, then verification with the key's public half returns a token for the expected event that
  also matches the binding again (given the round trips of the external encodings).
\<close>

theorem append_then_verify:
  assumes "append_idempotent_tx x now k (ib_namespace_key b) (ib_event_type b) (ib_payload b) (ib_run_id b)
      (ib_parent_event_id b) (ib_idempotency_key b) db = Inr (eid, db')"
    and "ib_principal_id b = keypair_principal_id x k"
    and "validated_database_path x db' = Inr path" and "validated_database_instance_id x db' = Inr inst"
    and "ed25519_laws x" and "hex_laws x"
    and "x_json_parse x (x_json_print x (ib_payload b)) = Some (ib_payload b)"
    and "x_json_eq x (ib_payload b) (ib_payload b)"
  shows "\<exists>commit. verify_existing_idempotent_event_in_connection x (keypair_public_key_bytes x k) b db' =
      Inr commit \<and> vc_event_id commit = event_id_str eid \<and>
    matches_binding_in_connection x commit b db' = Inr True"
proof -
  have eid: "eid = expected_event_id x b"
    using assms(1,2) by (auto simp: append_idempotent_tx_def expected_event_id_def result_simps)
  obtain ev where ev: "get_event_from_connection x (event_id_str eid) db' = Inr (Some ev)"
    "le_event_id ev = eid" "le_principal_id ev = keypair_principal_id x k"
    "le_namespace_key ev = ib_namespace_key b" "le_run_id ev = ib_run_id b" "le_event_type ev = ib_event_type b"
    "le_payload ev = ib_payload b" "le_parent_event_id ev = ib_parent_event_id b"
    "verify_event_signature x (keypair_public_key_bytes x k) ev = Inr CanonicalEnvelope"
    using signed_roundtrip_event [OF assms(1,5,6,7)] by blast
  have "event_matches_binding x b ev"
    using ev assms(2,8) eid by (simp add: event_matches_binding_def)
  then obtain commit where c: "verify_existing_idempotent_event_in_connection x (keypair_public_key_bytes x k) b db' =
      Inr commit" "vc_event_id commit = event_id_str eid"
    "vc_public_key_bytes commit = public_key_vec (keypair_public_key_bytes x k)"
    using ev(1,9) assms(2,3,4) keypair_principal_matches [of x k] eid
    unfolding verify_existing_iff by auto
  then show ?thesis
    by (auto simp: matches_binding_in_connection_def)
qed

definition demo_bound_ledger :: ledger_db where
  "demo_bound_ledger =
     with_identity demo_externals ''u-1'' (empty_ledger\<lparr>ld_database_list := [(0, ''main'', ''/ledger'')]\<rparr>)"

definition demo_binding :: idempotent_event_binding where
  "demo_binding =
     \<lparr>ib_idempotency_key = ''key-0001'', ib_principal_id = keypair_principal_id demo_externals (ZaionKeypair ''k''),
      ib_namespace_key = NamespaceKey ''ns'', ib_run_id = None, ib_event_type = ''turn'',
      ib_payload = JStr ''one'', ib_parent_event_id = None\<rparr>"

lemma identity_parts_frame:
  "validate_database_schema_object (db\<lparr>ld_events := es\<rparr>) t n sql = validate_database_schema_object db t n sql"
  "extra_identity_triggers (db\<lparr>ld_events := es\<rparr>) = extra_identity_triggers db"
  "read_database_instance_id x (db\<lparr>ld_events := es\<rparr>) = read_database_instance_id x db"
  unfolding validate_database_schema_object_def database_schema_object_sql_def
    extra_identity_triggers_def read_database_instance_id_def
  by simp_all

lemma identity_frame:
  "validated_database_path x (db\<lparr>ld_events := es\<rparr>) = validated_database_path x db"
  "validated_database_instance_id x (db\<lparr>ld_events := es\<rparr>) = validated_database_instance_id x db"
  unfolding validated_database_path_def validated_database_instance_id_def identity_parts_frame
  by simp_all

lemma append_identity_frame:
  assumes "append_prepared_event x e policy db = Inr (ins, db')"
  shows "validated_database_path x db' = validated_database_path x db \<and>
    validated_database_instance_id x db' = validated_database_instance_id x db"
  using assms by (cases rule: append_cases) (simp_all add: identity_frame)

lemma demo_bound_valid:
  "validated_database_path demo_externals demo_bound_ledger = Inr ''/ledger''"
  "validated_database_instance_id demo_externals demo_bound_ledger = Inr ''u-1''"
proof -
  show "validated_database_path demo_externals demo_bound_ledger = Inr ''/ledger''"
    by (simp add: validated_database_path_def demo_bound_ledger_def with_identity_def strip_prefix_def
        demo_externals_def)
  show "validated_database_instance_id demo_externals demo_bound_ledger = Inr ''u-1''"
    unfolding demo_bound_ledger_def
    by (rule with_identity_valid)
      (simp_all add: no_identity_objects_def empty_ledger_def database_schema_object_sql_def
        extra_identity_triggers_def stored_sql_law_def demo_externals_def)
qed

theorem append_then_verify_witness:
  "\<exists>eid db' commit.
     append_idempotent_tx demo_externals ''t0'' (ZaionKeypair ''k'') (NamespaceKey ''ns'') ''turn'' (JStr ''one'')
       None None ''key-0001'' demo_bound_ledger = Inr (eid, db') \<and>
     verify_existing_idempotent_event_in_connection demo_externals
       (keypair_public_key_bytes demo_externals (ZaionKeypair ''k'')) demo_binding db' = Inr commit \<and>
     vc_event_id commit = event_id_str eid \<and>
     matches_binding_in_connection demo_externals commit demo_binding db' = Inr True"
proof -
  let ?e = "idempotent_event demo_externals ''t0'' (ZaionKeypair ''k'') (NamespaceKey ''ns'') ''turn'' (JStr ''one'')
    None None ''key-0001''"
  have empty: "ld_events demo_bound_ledger = []"
    by (simp add: demo_bound_ledger_def with_identity_def empty_ledger_def)
  have "\<exists>db'. append_prepared_event demo_externals ?e MatchIgnoringCreatedAt demo_bound_ledger = Inr (True, db')"
    by (rule append_succeeds [OF ledger_init_inv])
      (simp_all add: ledger_init_def empty find_event_def rows_of_principal_def i64_max_def)
  then obtain db' where app: "append_prepared_event demo_externals ?e MatchIgnoringCreatedAt demo_bound_ledger =
      Inr (True, db')" by blast
  then obtain eid where tx: "append_idempotent_tx demo_externals ''t0'' (ZaionKeypair ''k'') (NamespaceKey ''ns'')
      ''turn'' (JStr ''one'') None None ''key-0001'' demo_bound_ledger = Inr (eid, db')"
    by (simp add: append_idempotent_tx_def)
  have laws: "ed25519_laws demo_externals" "hex_laws demo_externals"
    by (auto simp: ed25519_laws_def hex_laws_def demo_externals_def)
  have "\<exists>commit. verify_existing_idempotent_event_in_connection demo_externals
       (keypair_public_key_bytes demo_externals (ZaionKeypair ''k'')) demo_binding db' = Inr commit \<and>
     vc_event_id commit = event_id_str eid \<and>
     matches_binding_in_connection demo_externals commit demo_binding db' = Inr True"
    by (rule append_then_verify [of _ "''t0''" _ _ demo_bound_ledger, OF _ _ _ _ laws])
      (use tx append_identity_frame [OF app] demo_bound_valid in
        \<open>simp_all add: demo_binding_def\<close>, simp_all add: demo_externals_def)
  then show ?thesis
    using tx by blast
qed

end
