(* ===== verification/Turn_Rows.thy ===== *)
theory Turn_Rows
  imports Turn_Outcome Ingress Ledger_Binding
begin

text \<open>
  The data of the durable turn store (\<open>crates/zaion-runtime/src/turn_store.rs\<close>): its error type,
  the rows of its tables, the records it hands out, the text encodings of states, and the
  materialisation of a row into a record, which re-checks every stored hash and binding. A table
  is a list of rows in \<open>rowid\<close> order; columns keep their SQL types (text, 64-bit integers as
  \<open>int\<close>). The libraries the store calls (JSON of derived types, \<open>chrono\<close>) are one record of
  functions beside the ledger's.
\<close>

subsection \<open>Libraries\<close>

record turn_libs =
  tl_externals :: externals
  tl_datetime_ok :: "instant \<Rightarrow> bool"
  tl_rfc3339 :: "instant \<Rightarrow> string"
  tl_rfc3339_millis :: "instant \<Rightarrow> string"
  tl_parse_rfc3339 :: "string \<Rightarrow> instant option"
  tl_execution_to_value :: "turn_execution \<Rightarrow> json"
  tl_execution_from_value :: "json \<Rightarrow> turn_execution option"

subsection \<open>Errors\<close>

datatype turn_store_error =
  TurnIo io_error_kind string
  | TurnSqlite sqlite_error
  | TurnJson
  | MutexPoisoned
  | CorruptState string
  | CorruptOutboxStatus string
  | CorruptRevision int
  | CorruptTimestamp string int
  | InvalidActorComponent string
  | InvalidLeaseIdentity string
  | ActorAuthorityMismatch
  | TurnDeadlineExpired
  | IdempotencyConflict
  | UnknownTurn string
  | NotWaitingApproval string
  | ActorBusy string string instant
  | ActorLeaseLost string
  | MissingTurn string string
  | Transition turn_transition_error
  | CasLost
  | MissingTerminalResult
  | NonTerminalResult
  | TerminalOutcomeMismatch turn_state turn_state
  | HashMismatch string
  | RecordBindingMismatch string
  | MissingOutbox string string
  | OutboxLeaseLost string string
  | OutboxLeaseExpired string
  | InvalidOutboxLeaseDuration
  | OutboxErrorTooLong
  | OutboxRetryTimeInvalid
  | OutboxAttemptsExhausted
  | OutboxLeaseTimeOverflow
  | CommitOrdinalExhausted
  | OutboxOrderConflict string
  | OutboxHistoryIncomplete string
  | OutboxHistoryRevision u64 u64
  | OutboxHistoryGenesis u64
  | OutboxHistoryPreviousState u64
  | OutboxHistoryIllegalTransition u64 turn_state turn_state
  | OutboxHistoryCurrentTurn string
  | OutboxDeliveredPrefix u64
  | OutboxLedgerEventMismatch u64
  | OutboxCommitMismatch string
  | OutboxLedgerPathMismatch
  | OutboxLedgerInstanceMismatch
  | OutboxPrincipalMismatch
  | OutboxSignerEvidenceMissing string
  | OutboxCompletionTimeInvalid
  | NonMonotonicTimestamp
  | TurnLedger ledger_error
  | SchemaIntegrity string

subsection \<open>Rows\<close>

record actor_row =
  aw_tenant_id :: string
  aw_actor_key :: string
  aw_principal_id :: string
  aw_workspace_id :: string
  aw_profile_id :: string
  aw_channel_id :: string
  aw_thread_id :: string
  aw_revision :: int
  aw_active_turn_id :: "string option"
  aw_lease_owner :: "string option"
  aw_lease_until_ms :: "millis option"
  aw_created_at_ms :: millis
  aw_updated_at_ms :: millis

record turn_row =
  tw_tenant_id :: string
  tw_turn_id :: string
  tw_actor_key :: string
  tw_subject_id :: string
  tw_principal_id :: string
  tw_workspace_id :: string
  tw_profile_id :: string
  tw_session_id :: string
  tw_source_surface :: string
  tw_source_id :: string
  tw_idempotency_key :: string
  tw_request_json :: string
  tw_request_hash :: string
  tw_authority_json :: string
  tw_authority_hash :: string
  tw_deadline_ms :: millis
  tw_state :: string
  tw_revision :: int
  tw_terminal_json :: "string option"
  tw_terminal_hash :: "string option"
  tw_created_at_ms :: millis
  tw_updated_at_ms :: millis

record outbox_row =
  ow_tenant_id :: string
  ow_outbox_id :: string
  ow_turn_id :: string
  ow_revision :: int
  ow_event_type :: string
  ow_effect_kind :: string
  ow_idempotency_mode :: string
  ow_payload_json :: string
  ow_payload_hash :: string
  ow_status :: string
  ow_attempts :: int
  ow_available_at_ms :: millis
  ow_lease_owner :: "string option"
  ow_lease_token :: "string option"
  ow_lease_until_ms :: "millis option"
  ow_delivered_at_ms :: "millis option"
  ow_ledger_event_id :: "string option"
  ow_last_error :: "string option"
  ow_created_at_ms :: millis
  ow_updated_at_ms :: millis

record order_row =
  or_commit_ordinal :: int
  or_tenant_id :: string
  or_outbox_id :: string
  or_order_origin :: string
  or_legacy_source_rowid :: "int option"

record verified_row =
  vw_tenant_id :: string
  vw_outbox_id :: string
  vw_ledger_event_id :: string
  vw_signer_public_key :: bytes
  vw_database_instance_id :: string

record quarantine_row =
  qw_tenant_id :: string
  qw_outbox_id :: string
  qw_commit_ordinal :: int
  qw_principal_id :: string
  qw_failure_class :: string
  qw_failure_code :: string
  qw_failure_phase :: string
  qw_error_message :: string
  qw_attempts :: int
  qw_lease_owner :: string
  qw_lease_token :: string
  qw_payload_hash :: string
  qw_quarantined_at_ms :: millis

text \<open>
  The database file: the store's tables, the \<open>sqlite_sequence\<close> entry of the commit-order table, and
  the ledger's tables with the common \<open>sqlite_master\<close>.
\<close>

record turn_db =
  td_actors :: "actor_row list"
  td_turns :: "turn_row list"
  td_outbox :: "outbox_row list"
  td_order :: "order_row list"
  td_sequence :: "int option"
  td_verified :: "verified_row list"
  td_quarantine :: "quarantine_row list"
  td_ledger :: ledger_db

subsection \<open>Records\<close>

record turn_actor_identity =
  id_tenant_id :: string
  id_actor_key :: string
  id_principal_id :: string
  id_workspace_id :: string
  id_profile_id :: string
  id_channel_id :: string
  id_thread_id :: string

record durable_turn_admission =
  da_actor :: turn_actor_identity
  da_request :: json
  da_lease_owner :: string
  da_approval_required :: bool

record durable_turn_record =
  dt_tenant_id :: string
  dt_turn_id :: string
  dt_actor_key :: string
  dt_subject_id :: string
  dt_principal_id :: string
  dt_workspace_id :: string
  dt_profile_id :: string
  dt_session_id :: string
  dt_source_surface :: string
  dt_source_id :: string
  dt_idempotency_key :: string
  dt_request :: json
  dt_request_hash :: string
  dt_authority :: json
  dt_authority_hash :: string
  dt_deadline :: instant
  dt_state :: versioned_turn_state
  dt_terminal_result :: "json option"
  dt_terminal_result_hash :: "string option"
  dt_created_at :: instant
  dt_updated_at :: instant

record turn_actor_record =
  ar_tenant_id :: string
  ar_actor_key :: string
  ar_principal_id :: string
  ar_workspace_id :: string
  ar_profile_id :: string
  ar_channel_id :: string
  ar_thread_id :: string
  ar_revision :: u64
  ar_active_turn_id :: "string option"
  ar_lease_owner :: "string option"
  ar_lease_until :: "instant option"
  ar_created_at :: instant
  ar_updated_at :: instant

datatype turn_outbox_status = OutboxPending | OutboxLeased | OutboxDelivered

record turn_outbox_record =
  ob_tenant_id :: string
  ob_outbox_id :: string
  ob_commit_ordinal :: u64
  ob_order_origin :: string
  ob_turn_id :: string
  ob_revision :: u64
  ob_event_type :: string
  ob_effect_kind :: string
  ob_idempotency_mode :: string
  ob_payload :: json
  ob_payload_hash :: string
  ob_status :: turn_outbox_status
  ob_attempts :: u64
  ob_available_at :: instant
  ob_lease_owner :: "string option"
  ob_lease_token :: "string option"
  ob_lease_until :: "instant option"
  ob_delivered_at :: "instant option"
  ob_ledger_event_id :: "string option"
  ob_verified_ledger_event_id :: "string option"
  ob_verified_signer_public_key :: "bytes option"
  ob_verified_database_instance_id :: "string option"
  ob_last_error :: "string option"
  ob_created_at :: instant
  ob_updated_at :: instant

datatype begin_turn_result =
  TurnCreated (begun_record: durable_turn_record)
  | TurnExisting (begun_record: durable_turn_record)

end
