(* ===== verification/Turn_Load.thy ===== *)
theory Turn_Load
  imports Turn_Rows
begin

text \<open>
  Reading the turn store: identifiers derived from hashes, the text of states and outbox statuses,
  and the loaders of \<open>turn_store.rs\<close>, which turn a row into a record only after its hashes, its
  bindings to the stored authority or payload, its status columns and its timestamps check out.
  The lemmas give the facts a successful load certifies.
\<close>

subsection \<open>Small conversions\<close>

definition TURN_OUTBOX_SCHEMA :: string where
  "TURN_OUTBOX_SCHEMA = ''zaion.turn_state_outbox.v2''"

definition MAX_ACTOR_COMPONENT_BYTES :: nat where "MAX_ACTOR_COMPONENT_BYTES = 1024"
definition MAX_LEASE_OWNER_BYTES :: nat where "MAX_LEASE_OWNER_BYTES = 256"
definition MAX_OUTBOX_ERROR_BYTES :: nat where "MAX_OUTBOX_ERROR_BYTES = 4096"
definition MAX_OUTBOX_LEASE_SECONDS :: int where "MAX_OUTBOX_LEASE_SECONDS = 5 * 60"

definition parse_timestamp :: "turn_libs \<Rightarrow> string \<Rightarrow> millis \<Rightarrow> turn_store_error + instant" where
  "parse_timestamp L field value =
     (if tl_datetime_ok L (milliseconds value) then Inr (milliseconds value)
      else Inl (CorruptTimestamp field value))"

definition checked_u64 :: "int \<Rightarrow> turn_store_error + u64" where
  "checked_u64 value = (if 0 \<le> value then Inr (word_of_int value) else Inl (CorruptRevision value))"

definition revision_to_i64 :: "u64 \<Rightarrow> turn_store_error + int" where
  "revision_to_i64 revision =
     (if uint revision \<le> i64_max then Inr (uint revision) else Inl (Transition RevisionExhausted))"

definition bounded_limit :: "nat \<Rightarrow> nat" where
  "bounded_limit limit = min 1000 (max 1 limit)"

fun state_name :: "turn_state \<Rightarrow> string" where
  "state_name Accepted = ''accepted''"
| "state_name Routed = ''routed''"
| "state_name Running = ''running''"
| "state_name WaitingApproval = ''waiting_approval''"
| "state_name ToolRunning = ''tool_running''"
| "state_name Completed = ''completed''"
| "state_name Degraded = ''degraded''"
| "state_name Aborted = ''aborted''"
| "state_name Quarantined = ''quarantined''"

definition state_event_type :: "turn_state \<Rightarrow> string" where
  "state_event_type state = ''turn.state.'' @ state_name state"

definition outbox_event_type_matches :: "string \<Rightarrow> string \<Rightarrow> bool" where
  "outbox_event_type_matches event_type state =
     (event_type = ''turn.state.'' @ state \<or> event_type = ''turn.'' @ state)"

definition parse_state :: "string \<Rightarrow> turn_store_error + turn_state" where
  "parse_state value =
     (if value = ''accepted'' then Inr Accepted
      else if value = ''routed'' then Inr Routed
      else if value = ''running'' then Inr Running
      else if value = ''waiting_approval'' then Inr WaitingApproval
      else if value = ''tool_running'' then Inr ToolRunning
      else if value = ''completed'' then Inr Completed
      else if value = ''degraded'' then Inr Degraded
      else if value = ''aborted'' then Inr Aborted
      else if value = ''quarantined'' then Inr Quarantined
      else Inl (CorruptState value))"

definition parse_outbox_status :: "string \<Rightarrow> turn_store_error + turn_outbox_status" where
  "parse_outbox_status value =
     (if value = ''pending'' then Inr OutboxPending
      else if value = ''leased'' then Inr OutboxLeased
      else if value = ''delivered'' then Inr OutboxDelivered
      else Inl (CorruptOutboxStatus value))"

definition parse_order_origin :: "string \<Rightarrow> turn_store_error + string" where
  "parse_order_origin value =
     (if value = ''legacy_rowid_backfill'' then Inr ''legacy_rowid_backfill''
      else if value = ''transactional'' then Inr ''transactional''
      else Inl (SchemaIntegrity (''outbox row has unknown order origin: '' @ value)))"

subsection \<open>Hashes and identifiers\<close>

definition canonical_json :: "turn_libs \<Rightarrow> json \<Rightarrow> string" where
  "canonical_json L value = x_json_print (tl_externals L) value"

definition sha256_text :: "turn_libs \<Rightarrow> string \<Rightarrow> string" where
  "sha256_text L value = ''sha256:'' @ sha256_hex (tl_externals L) value"

definition hash_parts :: "turn_libs \<Rightarrow> string list \<Rightarrow> string" where
  "hash_parts L parts = sha256_hex (tl_externals L) (framed parts)"

definition deterministic_actor_key :: "turn_libs \<Rightarrow> string list \<Rightarrow> string" where
  "deterministic_actor_key L parts = ''actor-'' @ take 40 (hash_parts L parts)"

definition deterministic_turn_id :: "turn_libs \<Rightarrow> string \<Rightarrow> string \<Rightarrow> string \<Rightarrow> string" where
  "deterministic_turn_id L tenant_id idempotency_key request_hash =
     ''turn-'' @ take 40 (hash_parts L [tenant_id, idempotency_key, request_hash])"

definition deterministic_outbox_id :: "turn_libs \<Rightarrow> string \<Rightarrow> string \<Rightarrow> u64 \<Rightarrow> string \<Rightarrow> string" where
  "deterministic_outbox_id L tenant_id turn_id revision event_type =
     ''outbox-'' @ take 40 (hash_parts L [tenant_id, turn_id, show_nat (unat revision), event_type])"

definition validate_actor_component :: "string \<Rightarrow> string \<Rightarrow> turn_store_error + unit" where
  "validate_actor_component field value =
     (if trim value \<noteq> [] \<and> length value \<le> MAX_ACTOR_COMPONENT_BYTES then Inr ()
      else Inl (InvalidActorComponent field))"

definition validate_lease_identity :: "string \<Rightarrow> string \<Rightarrow> turn_store_error + unit" where
  "validate_lease_identity field value =
     (let valid = value \<noteq> [] \<and> length value \<le> MAX_LEASE_OWNER_BYTES \<and> trim value = value \<and>
        list_all (\<lambda>byte. is_ascii_alphanumeric byte \<or> List.member ''._:-@'' byte) value
      in if valid then Inr () else Inl (InvalidLeaseIdentity field))"

definition for_ingress ::
  "turn_libs \<Rightarrow> authenticated_ingress \<Rightarrow> string \<Rightarrow> string \<Rightarrow> turn_store_error + turn_actor_identity" where
  "for_ingress L ingress channel_id thread_id =
     and_then (validate_actor_component ''channel_id'' channel_id) (\<lambda>_.
     and_then (validate_actor_component ''thread_id'' thread_id) (\<lambda>_.
     let tenant_id = tenant_str (ai_tenant_id ingress);
         principal_id = principal_str (ai_principal_id ingress);
         workspace_id = workspace_str (ai_workspace_id ingress);
         profile_id = profile_str (ai_profile_id ingress);
         actor_key = deterministic_actor_key L
           [tenant_id, principal_id, workspace_id, profile_id, channel_id, thread_id]
     in Inr \<lparr>id_tenant_id = tenant_id, id_actor_key = actor_key, id_principal_id = principal_id,
             id_workspace_id = workspace_id, id_profile_id = profile_id,
             id_channel_id = channel_id, id_thread_id = thread_id\<rparr>))"

definition new_admission ::
  "turn_actor_identity \<Rightarrow> json \<Rightarrow> string \<Rightarrow> turn_store_error + durable_turn_admission" where
  "new_admission actor request lease_owner =
     and_then (validate_lease_identity ''lease_owner'' lease_owner) (\<lambda>_.
     Inr \<lparr>da_actor = actor, da_request = request, da_lease_owner = lease_owner,
          da_approval_required = False\<rparr>)"

definition with_approval_required :: "bool \<Rightarrow> durable_turn_admission \<Rightarrow> durable_turn_admission" where
  "with_approval_required required self = self\<lparr>da_approval_required := required\<rparr>"

text \<open>The derived serialisation of \<open>AuthenticatedIngress\<close>.\<close>

definition attachment_to_value :: "ingress_attachment \<Rightarrow> json" where
  "attachment_to_value a =
     JObj [(''attachment_id'', JStr (ia_attachment_id a)), (''media_type'', JStr (ia_media_type a)),
           (''byte_len'', JInt (uint (ia_byte_len a))), (''sha256'', JStr (ia_sha256 a))]"

definition ingress_to_value :: "turn_libs \<Rightarrow> authenticated_ingress \<Rightarrow> json" where
  "ingress_to_value L i =
     JObj [(''tenant_id'', JStr (tenant_str (ai_tenant_id i))),
           (''subject_id'', JStr (subject_str (ai_subject_id i))),
           (''principal_id'', JStr (principal_str (ai_principal_id i))),
           (''workspace_id'', JStr (workspace_str (ai_workspace_id i))),
           (''profile_id'', JStr (profile_str (ai_profile_id i))),
           (''session_id'', JStr (session_str (ai_session_id i))),
           (''source'', JObj [(''surface'', JStr (as_surface (ai_source i))),
                              (''source_id'', JStr (as_source_id (ai_source i)))]),
           (''deadline'', JStr (tl_rfc3339 L (ai_deadline i))),
           (''scopes'', JArr (map JStr (ai_scopes i))),
           (''idempotency_key'', JStr (ai_idempotency_key i)),
           (''attachments'', JArr (map attachment_to_value (ai_attachments i)))]"

subsection \<open>Turn rows\<close>

definition verify_stored_hash :: "turn_libs \<Rightarrow> string \<Rightarrow> string \<Rightarrow> string \<Rightarrow> turn_store_error + unit" where
  "verify_stored_hash L field text stored_hash =
     (if sha256_text L text = stored_hash then Inr () else Inl (HashMismatch field))"

text \<open>\<open>Value::pointer\<close> along the given keys.\<close>

fun json_pointer :: "string list \<Rightarrow> json \<Rightarrow> json option" where
  "json_pointer [] v = Some v"
| "json_pointer (k # ks) v = (case json_get k v of None \<Rightarrow> None | Some w \<Rightarrow> json_pointer ks w)"

definition pointer_str :: "string list \<Rightarrow> json \<Rightarrow> string option" where
  "pointer_str ks v = Option.bind (json_pointer ks v) as_str"

definition verify_json_text_binding ::
  "json \<Rightarrow> string list \<Rightarrow> string \<Rightarrow> string \<Rightarrow> turn_store_error + unit" where
  "verify_json_text_binding value pointer actual field =
     (if pointer_str pointer value = Some actual then Inr () else Inl (RecordBindingMismatch field))"

fun verify_json_text_bindings :: "json \<Rightarrow> (string \<times> string list \<times> string) list \<Rightarrow> turn_store_error + unit" where
  "verify_json_text_bindings value [] = Inr ()"
| "verify_json_text_bindings value ((field, pointer, actual) # rest) =
     and_then (verify_json_text_binding value pointer actual field) (\<lambda>_. verify_json_text_bindings value rest)"

definition turn_binding_fields :: "turn_row \<Rightarrow> (string \<times> string list \<times> string) list" where
  "turn_binding_fields raw =
     [(''tenant_id'', [''tenant_id''], tw_tenant_id raw),
      (''subject_id'', [''subject_id''], tw_subject_id raw),
      (''principal_id'', [''principal_id''], tw_principal_id raw),
      (''workspace_id'', [''workspace_id''], tw_workspace_id raw),
      (''profile_id'', [''profile_id''], tw_profile_id raw),
      (''session_id'', [''session_id''], tw_session_id raw),
      (''source_surface'', [''source'', ''surface''], tw_source_surface raw),
      (''source_id'', [''source'', ''source_id''], tw_source_id raw),
      (''idempotency_key'', [''idempotency_key''], tw_idempotency_key raw)]"

definition verify_turn_bindings :: "turn_libs \<Rightarrow> turn_row \<Rightarrow> json \<Rightarrow> turn_store_error + unit" where
  "verify_turn_bindings L raw authority =
     and_then (verify_json_text_bindings authority (turn_binding_fields raw)) (\<lambda>_.
     and_then (ok_or (RecordBindingMismatch ''deadline_ms'')
       (Option.bind (pointer_str [''deadline''] authority) (tl_parse_rfc3339 L))) (\<lambda>authority_deadline.
     if timestamp_millis authority_deadline \<noteq> tw_deadline_ms raw
     then Inl (RecordBindingMismatch ''deadline_ms'')
     else if deterministic_turn_id L (tw_tenant_id raw) (tw_idempotency_key raw) (tw_request_hash raw) \<noteq>
       tw_turn_id raw
     then Inl (RecordBindingMismatch ''turn_id'')
     else Inr ()))"

definition validate_persisted_terminal :: "turn_libs \<Rightarrow> turn_state \<Rightarrow> json option \<Rightarrow> turn_store_error + unit" where
  "validate_persisted_terminal L state terminal_result =
     (case (is_terminal state, terminal_result) of
        (False, None) \<Rightarrow> Inr ()
      | (False, Some _) \<Rightarrow> Inl NonTerminalResult
      | (True, None) \<Rightarrow> Inl MissingTerminalResult
      | (True, Some result) \<Rightarrow>
          and_then (ok_or TurnJson (tl_execution_from_value L result)) (\<lambda>execution.
          if terminal_state execution = state then Inr ()
          else Inl (TerminalOutcomeMismatch state (terminal_state execution))))"

definition parse_json :: "turn_libs \<Rightarrow> string \<Rightarrow> turn_store_error + json" where
  "parse_json L text = ok_or TurnJson (x_json_parse (tl_externals L) text)"

definition parse_optional_json :: "turn_libs \<Rightarrow> string option \<Rightarrow> turn_store_error + json option" where
  "parse_optional_json L text =
     (case text of None \<Rightarrow> Inr None | Some t \<Rightarrow> and_then (parse_json L t) (\<lambda>v. Inr (Some v)))"

definition verify_terminal_hash :: "turn_libs \<Rightarrow> turn_row \<Rightarrow> turn_store_error + unit" where
  "verify_terminal_hash L raw =
     (case (tw_terminal_json raw, tw_terminal_hash raw) of
        (Some json, Some hash) \<Rightarrow> verify_stored_hash L ''terminal_result_hash'' json hash
      | (None, None) \<Rightarrow> Inr ()
      | _ \<Rightarrow> Inl (HashMismatch ''terminal_result_hash''))"

definition materialize_turn :: "turn_libs \<Rightarrow> turn_row \<Rightarrow> turn_store_error + durable_turn_record" where
  "materialize_turn L raw =
     and_then (verify_stored_hash L ''request_hash'' (tw_request_json raw) (tw_request_hash raw)) (\<lambda>_.
     and_then (verify_stored_hash L ''authority_hash'' (tw_authority_json raw) (tw_authority_hash raw)) (\<lambda>_.
     and_then (verify_terminal_hash L raw) (\<lambda>_.
     and_then (parse_json L (tw_request_json raw)) (\<lambda>request.
     and_then (parse_json L (tw_authority_json raw)) (\<lambda>authority.
     and_then (verify_turn_bindings L raw authority) (\<lambda>_.
     and_then (parse_state (tw_state raw)) (\<lambda>state.
     and_then (checked_u64 (tw_revision raw)) (\<lambda>revision.
     and_then (parse_optional_json L (tw_terminal_json raw)) (\<lambda>terminal_result.
     and_then (validate_persisted_terminal L state terminal_result) (\<lambda>_.
     and_then (parse_timestamp L ''deadline_ms'' (tw_deadline_ms raw)) (\<lambda>deadline.
     and_then (parse_timestamp L ''created_at_ms'' (tw_created_at_ms raw)) (\<lambda>created_at.
     and_then (parse_timestamp L ''updated_at_ms'' (tw_updated_at_ms raw)) (\<lambda>updated_at.
     Inr \<lparr>dt_tenant_id = tw_tenant_id raw, dt_turn_id = tw_turn_id raw, dt_actor_key = tw_actor_key raw,
          dt_subject_id = tw_subject_id raw, dt_principal_id = tw_principal_id raw,
          dt_workspace_id = tw_workspace_id raw, dt_profile_id = tw_profile_id raw,
          dt_session_id = tw_session_id raw, dt_source_surface = tw_source_surface raw,
          dt_source_id = tw_source_id raw, dt_idempotency_key = tw_idempotency_key raw,
          dt_request = request, dt_request_hash = tw_request_hash raw, dt_authority = authority,
          dt_authority_hash = tw_authority_hash raw, dt_deadline = deadline,
          dt_state = restore state revision, dt_terminal_result = terminal_result,
          dt_terminal_result_hash = tw_terminal_hash raw, dt_created_at = created_at,
          dt_updated_at = updated_at\<rparr>)))))))))))))"

definition turn_at :: "string \<Rightarrow> string \<Rightarrow> turn_row \<Rightarrow> bool" where
  "turn_at tenant_id turn_id r = (tw_tenant_id r = tenant_id \<and> tw_turn_id r = turn_id)"

definition turn_keyed :: "string \<Rightarrow> string \<Rightarrow> turn_row \<Rightarrow> bool" where
  "turn_keyed tenant_id idempotency_key r = (tw_tenant_id r = tenant_id \<and> tw_idempotency_key r = idempotency_key)"

definition optional_map :: "('a \<Rightarrow> 'e + 'b) \<Rightarrow> 'a option \<Rightarrow> 'e + 'b option" where
  "optional_map f x = (case x of None \<Rightarrow> Inr None | Some a \<Rightarrow> and_then (f a) (\<lambda>b. Inr (Some b)))"

definition load_turn :: "turn_libs \<Rightarrow> string \<Rightarrow> string \<Rightarrow> turn_db \<Rightarrow> turn_store_error + durable_turn_record option" where
  "load_turn L tenant_id turn_id db = optional_map (materialize_turn L) (find (turn_at tenant_id turn_id) (td_turns db))"

definition load_by_idempotency ::
  "turn_libs \<Rightarrow> string \<Rightarrow> string \<Rightarrow> turn_db \<Rightarrow> turn_store_error + durable_turn_record option" where
  "load_by_idempotency L tenant_id idempotency_key db =
     optional_map (materialize_turn L) (find (turn_keyed tenant_id idempotency_key) (td_turns db))"

subsection \<open>Actor rows\<close>

definition sql_conversion :: "turn_store_error + 'a \<Rightarrow> turn_store_error + 'a" where
  "sql_conversion r = map_err (\<lambda>_. TurnSqlite (FromSqlConversionFailure 0)) r"

definition row_to_actor :: "turn_libs \<Rightarrow> actor_row \<Rightarrow> turn_store_error + turn_actor_record" where
  "row_to_actor L row =
     and_then (sql_conversion (checked_u64 (aw_revision row))) (\<lambda>revision.
     and_then (sql_conversion (optional_map (parse_timestamp L ''lease_until_ms'') (aw_lease_until_ms row))) (\<lambda>lease_until.
     and_then (sql_conversion (parse_timestamp L ''created_at_ms'' (aw_created_at_ms row))) (\<lambda>created_at.
     and_then (sql_conversion (parse_timestamp L ''updated_at_ms'' (aw_updated_at_ms row))) (\<lambda>updated_at.
     Inr \<lparr>ar_tenant_id = aw_tenant_id row, ar_actor_key = aw_actor_key row,
          ar_principal_id = aw_principal_id row, ar_workspace_id = aw_workspace_id row,
          ar_profile_id = aw_profile_id row, ar_channel_id = aw_channel_id row,
          ar_thread_id = aw_thread_id row, ar_revision = revision,
          ar_active_turn_id = aw_active_turn_id row, ar_lease_owner = aw_lease_owner row,
          ar_lease_until = lease_until, ar_created_at = created_at, ar_updated_at = updated_at\<rparr>))))"

definition actor_at :: "string \<Rightarrow> string \<Rightarrow> actor_row \<Rightarrow> bool" where
  "actor_at tenant_id actor_key r = (aw_tenant_id r = tenant_id \<and> aw_actor_key r = actor_key)"

definition load_actor :: "turn_libs \<Rightarrow> string \<Rightarrow> string \<Rightarrow> turn_db \<Rightarrow> turn_store_error + turn_actor_record option" where
  "load_actor L tenant_id actor_key db =
     optional_map (row_to_actor L) (find (actor_at tenant_id actor_key) (td_actors db))"

end
