(* ===== verification/Turn_Schema.thy ===== *)
theory Turn_Schema
  imports Turn_Rows
begin

text \<open>
  The triggers of the turn store (\<open>turn_store.rs\<close> and \<open>turn_store/dispatcher.rs\<close>) as the SQL text
  the store installs, and the checks it runs before every write to the outbox: each trigger must be
  present with the expected definition, and no other trigger may sit on the store's tables. What
  the triggers do to the rows is part of the row operations of \<open>Turn_Outbox\<close>.
\<close>

subsection \<open>SQL text\<close>

text \<open>The lines of a raw string literal; a backquote stands for the single quote.\<close>

definition sql_text :: "string list \<Rightarrow> string" where
  "sql_text ls =
     CHR 0x0A # concat (map (\<lambda>l. map (\<lambda>c. if c = CHR 0x60 then CHR 0x27 else c) l @ [CHR 0x0A]) ls)"

definition OUTBOX_ORDER_TRIGGER :: string where
  "OUTBOX_ORDER_TRIGGER = ''turn_outbox_v2_assign_commit_order''"

definition OUTBOX_ORDER_UPDATE_GUARD :: string where
  "OUTBOX_ORDER_UPDATE_GUARD = ''turn_outbox_commit_order_v2_no_update''"

definition OUTBOX_ORDER_DELETE_GUARD :: string where
  "OUTBOX_ORDER_DELETE_GUARD = ''turn_outbox_commit_order_v2_no_delete''"

definition OUTBOX_VERIFIED_COMMIT_INSERT_GUARD :: string where
  "OUTBOX_VERIFIED_COMMIT_INSERT_GUARD = ''turn_outbox_verified_commit_v2_insert_state''"

definition OUTBOX_VERIFIED_COMMIT_UPDATE_GUARD :: string where
  "OUTBOX_VERIFIED_COMMIT_UPDATE_GUARD = ''turn_outbox_verified_commit_v2_no_update''"

definition OUTBOX_VERIFIED_COMMIT_DELETE_GUARD :: string where
  "OUTBOX_VERIFIED_COMMIT_DELETE_GUARD = ''turn_outbox_verified_commit_v2_no_delete''"

definition OUTBOX_VERIFIED_DELIVERY_GUARD :: string where
  "OUTBOX_VERIFIED_DELIVERY_GUARD = ''turn_outbox_v2_verified_delivery_guard''"

definition OUTBOX_QUARANTINE_INSERT_GUARD :: string where
  "OUTBOX_QUARANTINE_INSERT_GUARD = ''turn_outbox_quarantine_v2_insert_state''"

definition OUTBOX_QUARANTINE_UPDATE_GUARD :: string where
  "OUTBOX_QUARANTINE_UPDATE_GUARD = ''turn_outbox_quarantine_v2_no_update''"

definition OUTBOX_QUARANTINE_DELETE_GUARD :: string where
  "OUTBOX_QUARANTINE_DELETE_GUARD = ''turn_outbox_quarantine_v2_no_delete''"

definition CREATE_ORDER_TRIGGER :: string where
  "CREATE_ORDER_TRIGGER = sql_text
     [''CREATE TRIGGER turn_outbox_v2_assign_commit_order'',
      ''AFTER INSERT ON turn_outbox_v2'',
      ''BEGIN'',
      ''    INSERT INTO turn_outbox_commit_order_v2 ('',
      ''        tenant_id, outbox_id, order_origin, legacy_source_rowid'',
      ''    ) VALUES ('',
      ''        NEW.tenant_id, NEW.outbox_id, `transactional`, NULL'',
      ''    );'',
      ''END;'']"

definition CREATE_ORDER_UPDATE_GUARD :: string where
  "CREATE_ORDER_UPDATE_GUARD = sql_text
     [''CREATE TRIGGER turn_outbox_commit_order_v2_no_update'',
      ''BEFORE UPDATE ON turn_outbox_commit_order_v2'',
      ''BEGIN'',
      ''    SELECT RAISE(ABORT, `turn outbox commit order is immutable`);'',
      ''END;'']"

definition CREATE_ORDER_DELETE_GUARD :: string where
  "CREATE_ORDER_DELETE_GUARD = sql_text
     [''CREATE TRIGGER turn_outbox_commit_order_v2_no_delete'',
      ''BEFORE DELETE ON turn_outbox_commit_order_v2'',
      ''BEGIN'',
      ''    SELECT RAISE(ABORT, `turn outbox commit order is immutable`);'',
      ''END;'']"

definition CREATE_VERIFIED_COMMIT_INSERT_GUARD :: string where
  "CREATE_VERIFIED_COMMIT_INSERT_GUARD = sql_text
     [''CREATE TRIGGER turn_outbox_verified_commit_v2_insert_state'',
      ''BEFORE INSERT ON turn_outbox_verified_commit_v2'',
      ''WHEN NOT EXISTS ('',
      ''    SELECT 1 FROM turn_outbox_v2 o'',
      ''    WHERE o.tenant_id = NEW.tenant_id AND o.outbox_id = NEW.outbox_id'',
      ''      AND ('',
      ''          o.status = `leased`'',
      ''          OR (o.status = `delivered` AND o.ledger_event_id = NEW.ledger_event_id)'',
      ''      )'',
      '')'',
      ''BEGIN'',
      ''    SELECT RAISE(ABORT, `verified outbox commit requires a leased or matching delivered row`);'',
      ''END;'']"

definition CREATE_VERIFIED_COMMIT_UPDATE_GUARD :: string where
  "CREATE_VERIFIED_COMMIT_UPDATE_GUARD = sql_text
     [''CREATE TRIGGER turn_outbox_verified_commit_v2_no_update'',
      ''BEFORE UPDATE ON turn_outbox_verified_commit_v2'',
      ''BEGIN'',
      ''    SELECT RAISE(ABORT, `verified outbox commit evidence is immutable`);'',
      ''END;'']"

definition CREATE_VERIFIED_COMMIT_DELETE_GUARD :: string where
  "CREATE_VERIFIED_COMMIT_DELETE_GUARD = sql_text
     [''CREATE TRIGGER turn_outbox_verified_commit_v2_no_delete'',
      ''BEFORE DELETE ON turn_outbox_verified_commit_v2'',
      ''BEGIN'',
      ''    SELECT RAISE(ABORT, `verified outbox commit evidence is immutable`);'',
      ''END;'']"

definition CREATE_VERIFIED_DELIVERY_GUARD :: string where
  "CREATE_VERIFIED_DELIVERY_GUARD = sql_text
     [''CREATE TRIGGER turn_outbox_v2_verified_delivery_guard'',
      ''BEFORE UPDATE ON turn_outbox_v2'',
      ''WHEN OLD.status = `delivered`'',
      ''   OR ('',
      ''       OLD.status != `delivered` AND NEW.status = `delivered`'',
      ''       AND NOT EXISTS ('',
      ''           SELECT 1 FROM turn_outbox_verified_commit_v2 v'',
      ''           WHERE v.tenant_id = NEW.tenant_id AND v.outbox_id = NEW.outbox_id'',
      ''             AND v.ledger_event_id = NEW.ledger_event_id'',
      ''       )'',
      ''   )'',
      ''BEGIN'',
      ''    SELECT RAISE(ABORT, `delivered outbox rows are immutable and require verified commit evidence`);'',
      ''END;'']"

definition CREATE_OUTBOX_QUARANTINE_INSERT_GUARD :: string where
  "CREATE_OUTBOX_QUARANTINE_INSERT_GUARD = sql_text
     [''CREATE TRIGGER turn_outbox_quarantine_v2_insert_state'',
      ''BEFORE INSERT ON turn_outbox_quarantine_v2'',
      ''WHEN NOT EXISTS ('',
      ''    SELECT 1'',
      ''    FROM turn_outbox_v2 o'',
      ''    JOIN turn_outbox_commit_order_v2 c'',
      ''      ON c.tenant_id = o.tenant_id AND c.outbox_id = o.outbox_id'',
      ''    JOIN turn_state_v2 s'',
      ''      ON s.tenant_id = o.tenant_id AND s.turn_id = o.turn_id'',
      ''    WHERE o.tenant_id = NEW.tenant_id AND o.outbox_id = NEW.outbox_id'',
      ''      AND o.status = `leased`'',
      ''      AND o.lease_owner = NEW.lease_owner'',
      ''      AND o.lease_token = NEW.lease_token'',
      ''      AND o.attempts = NEW.attempts'',
      ''      AND o.payload_hash = NEW.payload_hash'',
      ''      AND c.commit_ordinal = NEW.commit_ordinal'',
      ''      AND s.principal_id = NEW.principal_id'',
      ''      AND o.lease_until_ms > NEW.quarantined_at_ms'',
      ''      AND c.commit_ordinal = ('',
      ''          SELECT MIN(c2.commit_ordinal)'',
      ''          FROM turn_outbox_commit_order_v2 c2'',
      ''          JOIN turn_outbox_v2 o2'',
      ''            ON o2.tenant_id = c2.tenant_id AND o2.outbox_id = c2.outbox_id'',
      ''          WHERE o2.tenant_id = NEW.tenant_id AND o2.status != `delivered`'',
      ''      )'',
      '')'',
      ''BEGIN'',
      ''    SELECT RAISE(ABORT, `outbox quarantine requires the matching fenced lease`);'',
      ''END;'']"

definition CREATE_OUTBOX_QUARANTINE_UPDATE_GUARD :: string where
  "CREATE_OUTBOX_QUARANTINE_UPDATE_GUARD = sql_text
     [''CREATE TRIGGER turn_outbox_quarantine_v2_no_update'',
      ''BEFORE UPDATE ON turn_outbox_quarantine_v2'',
      ''BEGIN'',
      ''    SELECT RAISE(ABORT, `outbox quarantine evidence is immutable`);'',
      ''END;'']"

definition CREATE_OUTBOX_QUARANTINE_DELETE_GUARD :: string where
  "CREATE_OUTBOX_QUARANTINE_DELETE_GUARD = sql_text
     [''CREATE TRIGGER turn_outbox_quarantine_v2_no_delete'',
      ''BEFORE DELETE ON turn_outbox_quarantine_v2'',
      ''BEGIN'',
      ''    SELECT RAISE(ABORT, `outbox quarantine evidence is immutable`);'',
      ''END;'']"

subsection \<open>Validation\<close>

definition normalize_schema_sql :: "string \<Rightarrow> string" where
  "normalize_schema_sql sql =
     rev (dropWhile (\<lambda>c. c = CHR '';'') (rev (join_on CHR '' '' (split_whitespace sql))))"

definition validate_schema_object ::
  "turn_db \<Rightarrow> string \<Rightarrow> string \<Rightarrow> string \<Rightarrow> turn_store_error + unit" where
  "validate_schema_object db object_type name expected_sql =
     and_then (ok_or
       (SchemaIntegrity (''required '' @ object_type @ '' '' @ name @ '' is missing''))
       (schema_object_sql (ld_master (td_ledger db)) object_type name)) (\<lambda>actual.
     if normalize_schema_sql actual = normalize_schema_sql expected_sql then Inr ()
     else Inl (SchemaIntegrity
       (''required '' @ object_type @ '' '' @ name @ '' has an unexpected definition'')))"

definition validate_order_trigger_schema :: "turn_db \<Rightarrow> turn_store_error + unit" where
  "validate_order_trigger_schema db =
     and_then (validate_schema_object db ''trigger'' OUTBOX_ORDER_TRIGGER CREATE_ORDER_TRIGGER) (\<lambda>_.
     and_then (validate_schema_object db ''trigger'' OUTBOX_ORDER_UPDATE_GUARD CREATE_ORDER_UPDATE_GUARD) (\<lambda>_.
     validate_schema_object db ''trigger'' OUTBOX_ORDER_DELETE_GUARD CREATE_ORDER_DELETE_GUARD))"

definition validate_outbox_dispatcher_triggers :: "turn_db \<Rightarrow> turn_store_error + unit" where
  "validate_outbox_dispatcher_triggers db =
     and_then (validate_schema_object db ''trigger'' OUTBOX_QUARANTINE_INSERT_GUARD
       CREATE_OUTBOX_QUARANTINE_INSERT_GUARD) (\<lambda>_.
     and_then (validate_schema_object db ''trigger'' OUTBOX_QUARANTINE_UPDATE_GUARD
       CREATE_OUTBOX_QUARANTINE_UPDATE_GUARD) (\<lambda>_.
     validate_schema_object db ''trigger'' OUTBOX_QUARANTINE_DELETE_GUARD
       CREATE_OUTBOX_QUARANTINE_DELETE_GUARD))"

definition guarded_tables :: "string list" where
  "guarded_tables =
     [''turn_actor_v2'', ''turn_state_v2'', ''turn_outbox_v2'', ''turn_outbox_commit_order_v2'',
      ''turn_outbox_verified_commit_v2'', ''turn_outbox_quarantine_v2'',
      ''turn_store_schema_migrations_v2'']"

definition allowed_triggers :: "string list" where
  "allowed_triggers =
     [OUTBOX_ORDER_TRIGGER, OUTBOX_ORDER_UPDATE_GUARD, OUTBOX_ORDER_DELETE_GUARD,
      OUTBOX_VERIFIED_COMMIT_INSERT_GUARD, OUTBOX_VERIFIED_COMMIT_UPDATE_GUARD,
      OUTBOX_VERIFIED_COMMIT_DELETE_GUARD, OUTBOX_VERIFIED_DELIVERY_GUARD,
      OUTBOX_QUARANTINE_INSERT_GUARD, OUTBOX_QUARANTINE_UPDATE_GUARD, OUTBOX_QUARANTINE_DELETE_GUARD]"

definition extra_outbox_triggers :: "turn_db \<Rightarrow> string list" where
  "extra_outbox_triggers db =
     sort (map so_name (filter (\<lambda>o'. so_type o' = ''trigger'' \<and> List.member guarded_tables (so_tbl_name o') \<and>
       \<not> List.member allowed_triggers (so_name o')) (ld_master (td_ledger db))))"

definition validate_outbox_trigger_allowlist :: "turn_db \<Rightarrow> turn_store_error + unit" where
  "validate_outbox_trigger_allowlist db =
     (case extra_outbox_triggers db of
        name # _ \<Rightarrow> Inl (SchemaIntegrity (''unexpected outbox trigger is installed: '' @ name))
      | [] \<Rightarrow> Inr ())"

definition validate_no_extra_outbox_triggers :: "turn_db \<Rightarrow> turn_store_error + unit" where
  "validate_no_extra_outbox_triggers db =
     and_then (validate_order_trigger_schema db) (\<lambda>_.
     and_then (validate_schema_object db ''trigger'' OUTBOX_VERIFIED_COMMIT_INSERT_GUARD
       CREATE_VERIFIED_COMMIT_INSERT_GUARD) (\<lambda>_.
     and_then (validate_schema_object db ''trigger'' OUTBOX_VERIFIED_COMMIT_UPDATE_GUARD
       CREATE_VERIFIED_COMMIT_UPDATE_GUARD) (\<lambda>_.
     and_then (validate_schema_object db ''trigger'' OUTBOX_VERIFIED_COMMIT_DELETE_GUARD
       CREATE_VERIFIED_COMMIT_DELETE_GUARD) (\<lambda>_.
     and_then (validate_schema_object db ''trigger'' OUTBOX_VERIFIED_DELIVERY_GUARD
       CREATE_VERIFIED_DELIVERY_GUARD) (\<lambda>_.
     and_then (validate_outbox_dispatcher_triggers db) (\<lambda>_.
     validate_outbox_trigger_allowlist db))))))"

text \<open>The checks read only \<open>sqlite_master\<close>.\<close>

lemma triggers_ledger_cong:
  "td_ledger db' = td_ledger db \<Longrightarrow>
     validate_no_extra_outbox_triggers db' = validate_no_extra_outbox_triggers db"
  by (simp add: validate_no_extra_outbox_triggers_def validate_order_trigger_schema_def
      validate_outbox_dispatcher_triggers_def validate_outbox_trigger_allowlist_def
      extra_outbox_triggers_def validate_schema_object_def)

end
