(* ===== verification/Turn_Outbox.thy ===== *)
theory Turn_Outbox
  imports Tables Turn_Load Turn_Schema
begin

text \<open>
  The transactional outbox of \<open>turn_store.rs\<close> and the lease operations of
  \<open>turn_store/dispatcher/persistence.rs\<close>: every state change appends one row in the same
  transaction, a trigger gives it the next commit ordinal, and per tenant only the oldest
  undelivered row can be leased, renewed, released or quarantined. Each operation is one immediate
  transaction: an error leaves the database as it was. The lemmas show that the rows of a tenant
  form a first-in first-out queue, that a live lease excludes every other worker, and that the
  table constraints and the ordinal sequence hold in every reachable state.
\<close>

subsection \<open>Outbox rows\<close>

definition outbox_at :: "string \<Rightarrow> string \<Rightarrow> outbox_row \<Rightarrow> bool" where
  "outbox_at tenant_id outbox_id r = (ow_tenant_id r = tenant_id \<and> ow_outbox_id r = outbox_id)"

definition order_of :: "turn_db \<Rightarrow> outbox_row \<Rightarrow> order_row option" where
  "order_of db r = find (\<lambda>c. or_tenant_id c = ow_tenant_id r \<and> or_outbox_id c = ow_outbox_id r) (td_order db)"

definition evidence_of :: "turn_db \<Rightarrow> outbox_row \<Rightarrow> verified_row option" where
  "evidence_of db r = find (\<lambda>v. vw_tenant_id v = ow_tenant_id r \<and> vw_outbox_id v = ow_outbox_id r) (td_verified db)"

text \<open>One row of \<open>OUTBOX_SELECT\<close>: the outbox row, its commit order, its evidence if any.\<close>

type_synonym raw_outbox = "outbox_row \<times> order_row \<times> verified_row option"

definition raw_outbox_of :: "turn_db \<Rightarrow> outbox_row \<Rightarrow> raw_outbox option" where
  "raw_outbox_of db r = map_option (\<lambda>c. (r, c, evidence_of db r)) (order_of db r)"

definition status_shape_ok :: "outbox_row \<Rightarrow> turn_outbox_status \<Rightarrow> bool" where
  "status_shape_ok r status =
     (case status of
        OutboxPending \<Rightarrow>
          ow_lease_owner r = None \<and> ow_lease_token r = None \<and> ow_lease_until_ms r = None \<and>
          ow_delivered_at_ms r = None \<and> ow_ledger_event_id r = None
      | OutboxLeased \<Rightarrow>
          ow_lease_owner r \<noteq> None \<and> ow_lease_token r \<noteq> None \<and> ow_lease_until_ms r \<noteq> None \<and>
          ow_delivered_at_ms r = None \<and> ow_ledger_event_id r = None
      | OutboxDelivered \<Rightarrow>
          ow_lease_owner r = None \<and> ow_lease_token r = None \<and> ow_lease_until_ms r = None \<and>
          ow_delivered_at_ms r \<noteq> None \<and> ow_ledger_event_id r \<noteq> None)"

definition evidence_shape_ok :: "outbox_row \<Rightarrow> verified_row option \<Rightarrow> turn_outbox_status \<Rightarrow> bool" where
  "evidence_shape_ok r evidence status =
     (case evidence of
        None \<Rightarrow> True
      | Some v \<Rightarrow> status = OutboxDelivered \<and> length (vw_signer_public_key v) = 32 \<and>
          vw_database_instance_id v \<noteq> [] \<and> ow_ledger_event_id r = Some (vw_ledger_event_id v))"

definition before_ms :: "millis option \<Rightarrow> millis \<Rightarrow> bool" where
  "before_ms t bound = (case t of None \<Rightarrow> False | Some ms \<Rightarrow> ms < bound)"

definition validate_outbox_status_bindings :: "raw_outbox \<Rightarrow> turn_outbox_status \<Rightarrow> turn_store_error + unit" where
  "validate_outbox_status_bindings raw status =
     (case raw of (r, c, evidence) \<Rightarrow>
        if \<not> status_shape_ok r status then Inl (RecordBindingMismatch ''outbox.status_fields'')
        else if \<not> evidence_shape_ok r evidence status \<or> (status \<noteq> OutboxDelivered \<and> evidence \<noteq> None)
        then Inl (RecordBindingMismatch ''outbox.verified_commit'')
        else if ow_available_at_ms r < ow_created_at_ms r \<or> ow_updated_at_ms r < ow_created_at_ms r \<or>
          before_ms (ow_lease_until_ms r) (ow_created_at_ms r) \<or>
          before_ms (ow_delivered_at_ms r) (ow_created_at_ms r)
        then Inl (RecordBindingMismatch ''outbox.timestamps'')
        else Inr ())"

definition verify_outbox_bindings :: "turn_libs \<Rightarrow> outbox_row \<Rightarrow> json \<Rightarrow> u64 \<Rightarrow> turn_store_error + unit" where
  "verify_outbox_bindings L r payload revision =
     and_then (verify_json_text_binding payload [''schema''] TURN_OUTBOX_SCHEMA ''outbox.schema'') (\<lambda>_.
     and_then (verify_json_text_binding payload [''outbox_id''] (ow_outbox_id r) ''outbox.outbox_id'') (\<lambda>_.
     and_then (verify_json_text_binding payload [''tenant_id''] (ow_tenant_id r) ''outbox.tenant_id'') (\<lambda>_.
     and_then (verify_json_text_binding payload [''turn_id''] (ow_turn_id r) ''outbox.turn_id'') (\<lambda>_.
     if Option.bind (json_pointer [''revision''] payload) as_u64 \<noteq> Some revision
     then Inl (RecordBindingMismatch ''outbox.revision'')
     else
       and_then (ok_or (RecordBindingMismatch ''outbox.event_type'') (pointer_str [''state''] payload)) (\<lambda>state.
       if \<not> outbox_event_type_matches (ow_event_type r) state
       then Inl (RecordBindingMismatch ''outbox.event_type'')
       else if ow_effect_kind r \<noteq> ''ledger_turn_state'' then Inl (RecordBindingMismatch ''outbox.effect_kind'')
       else if ow_idempotency_mode r \<noteq> ''key_required''
       then Inl (RecordBindingMismatch ''outbox.idempotency_mode'')
       else if deterministic_outbox_id L (ow_tenant_id r) (ow_turn_id r) revision (ow_event_type r) \<noteq> ow_outbox_id r
       then Inl (RecordBindingMismatch ''outbox.outbox_id'')
       else Inr ())))))"

definition materialize_outbox :: "turn_libs \<Rightarrow> raw_outbox \<Rightarrow> turn_store_error + turn_outbox_record" where
  "materialize_outbox L raw =
     (case raw of (r, c, evidence) \<Rightarrow>
        and_then (verify_stored_hash L ''outbox_payload_hash'' (ow_payload_json r) (ow_payload_hash r)) (\<lambda>_.
        and_then (parse_json L (ow_payload_json r)) (\<lambda>payload.
        and_then (checked_u64 (ow_revision r)) (\<lambda>revision.
        and_then (verify_outbox_bindings L r payload revision) (\<lambda>_.
        and_then (checked_u64 (or_commit_ordinal c)) (\<lambda>commit_ordinal.
        if commit_ordinal = 0 then Inl (SchemaIntegrity ''outbox commit ordinal must be positive'')
        else
          and_then (parse_outbox_status (ow_status r)) (\<lambda>status.
          and_then (validate_outbox_status_bindings raw status) (\<lambda>_.
          and_then (parse_order_origin (or_order_origin c)) (\<lambda>order_origin.
          and_then (checked_u64 (ow_attempts r)) (\<lambda>attempts.
          and_then (parse_timestamp L ''available_at_ms'' (ow_available_at_ms r)) (\<lambda>available_at.
          and_then (optional_map (parse_timestamp L ''lease_until_ms'') (ow_lease_until_ms r)) (\<lambda>lease_until.
          and_then (optional_map (parse_timestamp L ''delivered_at_ms'') (ow_delivered_at_ms r)) (\<lambda>delivered_at.
          and_then (parse_timestamp L ''created_at_ms'' (ow_created_at_ms r)) (\<lambda>created_at.
          and_then (parse_timestamp L ''updated_at_ms'' (ow_updated_at_ms r)) (\<lambda>updated_at.
          Inr \<lparr>ob_tenant_id = ow_tenant_id r, ob_outbox_id = ow_outbox_id r, ob_commit_ordinal = commit_ordinal,
               ob_order_origin = order_origin, ob_turn_id = ow_turn_id r, ob_revision = revision,
               ob_event_type = ow_event_type r, ob_effect_kind = ow_effect_kind r,
               ob_idempotency_mode = ow_idempotency_mode r, ob_payload = payload,
               ob_payload_hash = ow_payload_hash r, ob_status = status, ob_attempts = attempts,
               ob_available_at = available_at, ob_lease_owner = ow_lease_owner r,
               ob_lease_token = ow_lease_token r, ob_lease_until = lease_until,
               ob_delivered_at = delivered_at, ob_ledger_event_id = ow_ledger_event_id r,
               ob_verified_ledger_event_id = map_option vw_ledger_event_id evidence,
               ob_verified_signer_public_key = map_option vw_signer_public_key evidence,
               ob_verified_database_instance_id = map_option vw_database_instance_id evidence,
               ob_last_error = ow_last_error r, ob_created_at = created_at,
               ob_updated_at = updated_at\<rparr>))))))))))))))) "

definition load_outbox :: "turn_libs \<Rightarrow> string \<Rightarrow> string \<Rightarrow> turn_db \<Rightarrow> turn_store_error + turn_outbox_record option" where
  "load_outbox L tenant_id outbox_id db =
     optional_map (materialize_outbox L)
       (Option.bind (find (outbox_at tenant_id outbox_id) (td_outbox db)) (raw_outbox_of db))"

definition require_outbox :: "turn_libs \<Rightarrow> string \<Rightarrow> string \<Rightarrow> turn_db \<Rightarrow> turn_store_error + turn_outbox_record" where
  "require_outbox L tenant_id outbox_id db =
     and_then (load_outbox L tenant_id outbox_id db) (\<lambda>found. ok_or (MissingOutbox tenant_id outbox_id) found)"

subsection \<open>Commit order\<close>

definition tenant_rows :: "string \<Rightarrow> turn_db \<Rightarrow> (outbox_row \<times> order_row) list" where
  "tenant_rows tenant_id db =
     List.map_filter (\<lambda>r. map_option (Pair r) (order_of db r))
       (filter (\<lambda>r. ow_tenant_id r = tenant_id) (td_outbox db))"

definition delivered :: "outbox_row \<Rightarrow> bool" where
  "delivered r = (ow_status r = ''delivered'')"

definition tenant_outbox_head :: "string \<Rightarrow> turn_db \<Rightarrow> turn_store_error + string option" where
  "tenant_outbox_head tenant_id db =
     (if list_ex (\<lambda>r. ow_tenant_id r = tenant_id \<and> order_of db r = None) (td_outbox db)
      then Inl (SchemaIntegrity ''tenant outbox contains a record without commit order'')
      else if list_ex (\<lambda>c. or_tenant_id c = tenant_id \<and>
        find (outbox_at tenant_id (or_outbox_id c)) (td_outbox db) = None) (td_order db)
      then Inl (SchemaIntegrity ''tenant commit order contains a record without an outbox row'')
      else
        let rows = tenant_rows tenant_id db;
            first_undelivered = sql_min (map (or_commit_ordinal \<circ> snd) (filter (\<lambda>p. \<not> delivered (fst p)) rows));
            last_delivered = sql_max (map (or_commit_ordinal \<circ> snd) (filter (\<lambda>p. delivered (fst p)) rows))
        in if (case (first_undelivered, last_delivered) of (Some lowest, Some highest) \<Rightarrow> lowest < highest | _ \<Rightarrow> False)
           then Inl (SchemaIntegrity ''tenant outbox delivery history contains a committed-order hole'')
           else (case first_undelivered of
               None \<Rightarrow> Inr None
             | Some lowest \<Rightarrow> Inr (map_option (ow_outbox_id \<circ> fst)
                 (find (\<lambda>p. or_commit_ordinal (snd p) = lowest \<and> \<not> delivered (fst p)) rows))))"

definition next_commit_ordinal :: "turn_db \<Rightarrow> turn_store_error + int" where
  "next_commit_ordinal db =
     (let maximum = sql_max (map or_commit_ordinal (td_order db))
      in if td_sequence db \<noteq> maximum
         then Inl (SchemaIntegrity ''outbox commit-order sequence does not match its maximum'')
         else ok_or CommitOrdinalExhausted (checked_succ_i64 (case maximum of None \<Rightarrow> 0 | Some m \<Rightarrow> m)))"

text \<open>
  \<open>INSERT INTO turn_outbox_v2\<close>: the primary key, the two unique constraints, the foreign key, and
  the trigger that appends the commit-order row under \<open>AUTOINCREMENT\<close>.
\<close>

definition assign_commit_order :: "outbox_row \<Rightarrow> turn_db \<Rightarrow> turn_store_error + turn_db" where
  "assign_commit_order row db =
     (let highest = max (case td_sequence db of None \<Rightarrow> 0 | Some s \<Rightarrow> s)
            (case sql_max (map or_commit_ordinal (td_order db)) of None \<Rightarrow> 0 | Some m \<Rightarrow> m)
      in if highest \<ge> i64_max then Inl (TurnSqlite (ConstraintViolation ''database or disk is full''))
         else if list_ex (\<lambda>c. or_tenant_id c = ow_tenant_id row \<and> or_outbox_id c = ow_outbox_id row) (td_order db)
         then Inl (TurnSqlite (ConstraintViolation ''turn_outbox_commit_order_v2''))
         else Inr (db\<lparr>td_order := td_order db @
               [\<lparr>or_commit_ordinal = highest + 1, or_tenant_id = ow_tenant_id row,
                 or_outbox_id = ow_outbox_id row, or_order_origin = ''transactional'',
                 or_legacy_source_rowid = None\<rparr>],
             td_sequence := Some (highest + 1)\<rparr>))"

definition insert_outbox_row :: "outbox_row \<Rightarrow> turn_db \<Rightarrow> turn_store_error + turn_db" where
  "insert_outbox_row row db =
     (if list_ex (outbox_at (ow_tenant_id row) (ow_outbox_id row)) (td_outbox db) \<or>
         list_ex (\<lambda>r. ow_tenant_id r = ow_tenant_id row \<and> ow_turn_id r = ow_turn_id row \<and>
           ow_revision r = ow_revision row) (td_outbox db) \<or>
         \<not> list_ex (turn_at (ow_tenant_id row) (ow_turn_id row)) (td_turns db) \<or>
         ow_revision row < 0
      then Inl (TurnSqlite (ConstraintViolation ''turn_outbox_v2''))
      else assign_commit_order row (db\<lparr>td_outbox := td_outbox db @ [row]\<rparr>))"

definition json_opt :: "string option \<Rightarrow> json" where
  "json_opt t = (case t of None \<Rightarrow> JNull | Some s \<Rightarrow> JStr s)"

definition outbox_payload ::
  "turn_libs \<Rightarrow> durable_turn_record \<Rightarrow> turn_state option \<Rightarrow> string option \<Rightarrow> string \<Rightarrow> instant \<Rightarrow> json" where
  "outbox_payload L record previous_state terminal_result_hash outbox_id occurred_at =
     JObj
       [(''schema'', JStr TURN_OUTBOX_SCHEMA),
        (''outbox_id'', JStr outbox_id),
        (''tenant_id'', JStr (dt_tenant_id record)),
        (''turn_id'', JStr (dt_turn_id record)),
        (''actor_key'', JStr (dt_actor_key record)),
        (''subject_id'', JStr (dt_subject_id record)),
        (''principal_id'', JStr (dt_principal_id record)),
        (''workspace_id'', JStr (dt_workspace_id record)),
        (''profile_id'', JStr (dt_profile_id record)),
        (''session_id'', JStr (dt_session_id record)),
        (''source'', JObj [(''surface'', JStr (dt_source_surface record)),
                           (''source_id'', JStr (dt_source_id record))]),
        (''idempotency_key'', JStr (dt_idempotency_key record)),
        (''request_hash'', JStr (dt_request_hash record)),
        (''authority_hash'', JStr (dt_authority_hash record)),
        (''previous_state'', json_opt (map_option state_name previous_state)),
        (''state'', JStr (state_name (vts_state (dt_state record)))),
        (''revision'', JInt (uint (vts_revision (dt_state record)))),
        (''terminal'', JBool (is_terminal (vts_state (dt_state record)))),
        (''terminal_result_hash'', json_opt terminal_result_hash),
        (''occurred_at'', JStr (tl_rfc3339_millis L occurred_at))]"

definition new_outbox_row ::
  "turn_libs \<Rightarrow> durable_turn_record \<Rightarrow> turn_state option \<Rightarrow> string option \<Rightarrow> instant \<Rightarrow> int \<Rightarrow> millis \<Rightarrow> outbox_row" where
  "new_outbox_row L record previous_state terminal_result_hash occurred_at revision now_ms =
     (let event_type = state_event_type (vts_state (dt_state record));
          outbox_id = deterministic_outbox_id L (dt_tenant_id record) (dt_turn_id record)
            (vts_revision (dt_state record)) event_type;
          payload_json = canonical_json L
            (outbox_payload L record previous_state terminal_result_hash outbox_id occurred_at);
          payload_hash = sha256_text L payload_json
      in \<lparr>ow_tenant_id = dt_tenant_id record, ow_outbox_id = outbox_id, ow_turn_id = dt_turn_id record,
          ow_revision = revision, ow_event_type = event_type, ow_effect_kind = ''ledger_turn_state'',
          ow_idempotency_mode = ''key_required'', ow_payload_json = payload_json,
          ow_payload_hash = payload_hash, ow_status = ''pending'', ow_attempts = 0,
          ow_available_at_ms = now_ms, ow_lease_owner = None, ow_lease_token = None,
          ow_lease_until_ms = None, ow_delivered_at_ms = None, ow_ledger_event_id = None,
          ow_last_error = None, ow_created_at_ms = now_ms, ow_updated_at_ms = now_ms\<rparr>)"

definition insert_outbox ::
  "turn_libs \<Rightarrow> durable_turn_record \<Rightarrow> turn_state option \<Rightarrow> string option \<Rightarrow> instant \<Rightarrow> turn_db \<Rightarrow>
     turn_store_error + turn_db" where
  "insert_outbox L record previous_state terminal_result_hash now db =
     and_then (validate_no_extra_outbox_triggers db) (\<lambda>_.
     and_then (next_commit_ordinal db) (\<lambda>expected_commit_ordinal.
     let now_ms = timestamp_millis now
     in and_then (parse_timestamp L ''outbox_created_at_ms'' now_ms) (\<lambda>occurred_at.
        and_then (revision_to_i64 (vts_revision (dt_state record))) (\<lambda>revision.
        let row = new_outbox_row L record previous_state terminal_result_hash occurred_at revision now_ms
        in and_then (insert_outbox_row row db) (\<lambda>db.
           let assigned_order = map_option (\<lambda>c. (or_commit_ordinal c, or_order_origin c, or_legacy_source_rowid c))
             (find (\<lambda>c. or_tenant_id c = ow_tenant_id row \<and> or_outbox_id c = ow_outbox_id row) (td_order db))
           in if assigned_order \<noteq> Some (expected_commit_ordinal, ''transactional'', None)
              then Inl (SchemaIntegrity ''outbox trigger did not assign the expected transactional order'')
              else Inr db)))))"

subsection \<open>Leases\<close>

text \<open>
  \<open>UPDATE turn_outbox_v2 ... WHERE\<close> with the delivery guard: a delivered row cannot change, and a
  row becomes delivered only with matching evidence. The number is that of the changed rows.
\<close>

definition delivery_guard_fires :: "turn_db \<Rightarrow> outbox_row \<Rightarrow> outbox_row \<Rightarrow> bool" where
  "delivery_guard_fires db old new =
     (delivered old \<or>
      (\<not> delivered old \<and> delivered new \<and>
       \<not> list_ex (\<lambda>v. vw_tenant_id v = ow_tenant_id new \<and> vw_outbox_id v = ow_outbox_id new \<and>
           ow_ledger_event_id new = Some (vw_ledger_event_id v)) (td_verified db)))"

definition update_outbox ::
  "(outbox_row \<Rightarrow> bool) \<Rightarrow> (outbox_row \<Rightarrow> outbox_row) \<Rightarrow> turn_db \<Rightarrow> turn_store_error + (nat \<times> turn_db)" where
  "update_outbox P f db =
     (if list_ex (\<lambda>r. P r \<and> delivery_guard_fires db r (f r)) (td_outbox db)
      then Inl (TurnSqlite (ConstraintViolation
        ''delivered outbox rows are immutable and require verified commit evidence''))
      else Inr (length (filter P (td_outbox db)),
                db\<lparr>td_outbox := update_where P f (td_outbox db)\<rparr>))"

definition outbox_is_quarantined :: "string \<Rightarrow> string \<Rightarrow> turn_db \<Rightarrow> bool" where
  "outbox_is_quarantined tenant_id outbox_id db =
     list_ex (\<lambda>q. qw_tenant_id q = tenant_id \<and> qw_outbox_id q = outbox_id) (td_quarantine db)"

definition until_passed :: "instant option \<Rightarrow> instant \<Rightarrow> bool" where
  "until_passed t now = (case t of None \<Rightarrow> False | Some deadline \<Rightarrow> deadline \<le> now)"

definition none_or_passed :: "instant option \<Rightarrow> instant \<Rightarrow> bool" where
  "none_or_passed t now = (case t of None \<Rightarrow> True | Some deadline \<Rightarrow> deadline \<le> now)"

definition claim_ready :: "turn_outbox_record \<Rightarrow> instant \<Rightarrow> bool" where
  "claim_ready current now =
     (ob_available_at current \<le> now \<and>
      (case ob_status current of
         OutboxPending \<Rightarrow> True
       | OutboxLeased \<Rightarrow> until_passed (ob_lease_until current) now
       | OutboxDelivered \<Rightarrow> False))"

definition valid_lease_duration :: "duration \<Rightarrow> bool" where
  "valid_lease_duration lease_duration =
     (\<not> lease_duration < seconds 1 \<and> \<not> lease_duration > seconds MAX_OUTBOX_LEASE_SECONDS)"

definition claimable_row :: "string \<Rightarrow> string \<Rightarrow> millis \<Rightarrow> outbox_row \<Rightarrow> bool" where
  "claimable_row tenant_id outbox_id now_ms r =
     (outbox_at tenant_id outbox_id r \<and>
      (ow_status r = ''pending'' \<or>
       (ow_status r = ''leased'' \<and> (case ow_lease_until_ms r of None \<Rightarrow> False | Some t \<Rightarrow> t \<le> now_ms))))"

definition take_lease :: "string \<Rightarrow> string \<Rightarrow> millis \<Rightarrow> millis \<Rightarrow> outbox_row \<Rightarrow> outbox_row" where
  "take_lease lease_owner lease_token lease_until_ms now_ms r =
     r\<lparr>ow_status := ''leased'', ow_lease_owner := Some lease_owner, ow_lease_token := Some lease_token,
       ow_lease_until_ms := Some lease_until_ms, ow_attempts := ow_attempts r + 1,
       ow_last_error := None, ow_updated_at_ms := now_ms\<rparr>"

definition claim_next_outbox ::
  "turn_libs \<Rightarrow> string \<Rightarrow> string \<Rightarrow> string \<Rightarrow> instant \<Rightarrow> duration \<Rightarrow> turn_db \<Rightarrow>
     turn_store_error + (turn_outbox_record option \<times> turn_db)" where
  "claim_next_outbox L uuid tenant_id lease_owner now lease_duration db =
     and_then (validate_lease_identity ''lease_owner'' lease_owner) (\<lambda>_.
     if \<not> valid_lease_duration lease_duration then Inl InvalidOutboxLeaseDuration
     else
       and_then (validate_no_extra_outbox_triggers db) (\<lambda>_.
       let now_ms = timestamp_millis now
       in and_then (tenant_outbox_head tenant_id db) (\<lambda>candidate.
          case candidate of
            None \<Rightarrow> Inr (None, db)
          | Some outbox_id \<Rightarrow>
              and_then (require_outbox L tenant_id outbox_id db) (\<lambda>current.
              if outbox_is_quarantined tenant_id outbox_id db then Inr (None, db)
              else if \<not> claim_ready current now then Inr (None, db)
              else if uint (ob_attempts current) \<ge> i64_max then Inl OutboxAttemptsExhausted
              else if \<not> tl_datetime_ok L (now + lease_duration) then Inl OutboxLeaseTimeOverflow
              else
                let lease_until = now + lease_duration;
                    lease_token = ''outbox-lease-'' @ uuid
                in and_then (update_outbox (claimable_row tenant_id outbox_id now_ms)
                     (take_lease lease_owner lease_token (timestamp_millis lease_until) now_ms) db) (\<lambda>(changed, db).
                   if changed \<noteq> 1 then Inl CasLost
                   else
                     and_then (require_outbox L tenant_id outbox_id db) (\<lambda>record.
                     if ob_status record \<noteq> OutboxLeased \<or>
                        ob_lease_owner record \<noteq> Some lease_owner \<or>
                        ob_lease_token record \<noteq> Some lease_token \<or>
                        map_option timestamp_millis (ob_lease_until record) \<noteq> Some (timestamp_millis lease_until) \<or>
                        ob_attempts record \<noteq> ob_attempts current + 1 \<or>
                        timestamp_millis (ob_updated_at record) \<noteq> timestamp_millis now
                     then Inl (SchemaIntegrity ''outbox claim was modified by unexpected database behavior'')
                     else
                       and_then (tenant_outbox_head tenant_id db) (\<lambda>head.
                       if head \<noteq> Some outbox_id
                       then Inl (SchemaIntegrity ''outbox claim was modified by unexpected database behavior'')
                       else Inr (Some record, db))))))))"

definition leased_row :: "string \<Rightarrow> string \<Rightarrow> string \<Rightarrow> string \<Rightarrow> millis \<Rightarrow> outbox_row \<Rightarrow> bool" where
  "leased_row tenant_id outbox_id lease_owner lease_token now_ms r =
     (outbox_at tenant_id outbox_id r \<and> ow_status r = ''leased'' \<and>
      ow_lease_owner r = Some lease_owner \<and> ow_lease_token r = Some lease_token \<and>
      (case ow_lease_until_ms r of None \<Rightarrow> False | Some t \<Rightarrow> t > now_ms))"

text \<open>The checks that release, renewal and quarantine make on the loaded row.\<close>

definition check_held_lease ::
  "turn_outbox_record \<Rightarrow> string \<Rightarrow> string \<Rightarrow> string \<Rightarrow> instant \<Rightarrow> turn_store_error + unit" where
  "check_held_lease current outbox_id lease_owner lease_token now =
     (if now < ob_updated_at current then Inl NonMonotonicTimestamp
      else if ob_status current \<noteq> OutboxLeased \<or> ob_lease_owner current \<noteq> Some lease_owner \<or>
        ob_lease_token current \<noteq> Some lease_token
      then Inl (OutboxLeaseLost outbox_id lease_owner)
      else if none_or_passed (ob_lease_until current) now then Inl (OutboxLeaseExpired outbox_id)
      else Inr ())"

definition drop_lease :: "millis \<Rightarrow> string \<Rightarrow> millis \<Rightarrow> outbox_row \<Rightarrow> outbox_row" where
  "drop_lease available_at_ms error now_ms r =
     r\<lparr>ow_status := ''pending'', ow_lease_owner := None, ow_lease_token := None,
       ow_lease_until_ms := None, ow_available_at_ms := available_at_ms,
       ow_last_error := Some error, ow_updated_at_ms := now_ms\<rparr>"

definition release_outbox ::
  "turn_libs \<Rightarrow> string \<Rightarrow> string \<Rightarrow> string \<Rightarrow> string \<Rightarrow> instant \<Rightarrow> instant \<Rightarrow> string \<Rightarrow> turn_db \<Rightarrow>
     turn_store_error + (unit \<times> turn_db)" where
  "release_outbox L tenant_id outbox_id lease_owner lease_token now available_at error db =
     and_then (validate_lease_identity ''lease_owner'' lease_owner) (\<lambda>_.
     and_then (validate_lease_identity ''lease_token'' lease_token) (\<lambda>_.
     if length error > MAX_OUTBOX_ERROR_BYTES then Inl OutboxErrorTooLong
     else if available_at < now then Inl OutboxRetryTimeInvalid
     else
       and_then (validate_no_extra_outbox_triggers db) (\<lambda>_.
       and_then (tenant_outbox_head tenant_id db) (\<lambda>head.
       if head \<noteq> Some outbox_id then Inl (OutboxOrderConflict outbox_id)
       else
         and_then (require_outbox L tenant_id outbox_id db) (\<lambda>current.
         and_then (check_held_lease current outbox_id lease_owner lease_token now) (\<lambda>_.
         and_then (update_outbox (leased_row tenant_id outbox_id lease_owner lease_token (timestamp_millis now))
           (drop_lease (timestamp_millis available_at) error (timestamp_millis now)) db) (\<lambda>(changed, db).
         if changed \<noteq> 1 then Inl (OutboxLeaseLost outbox_id lease_owner)
         else
           and_then (require_outbox L tenant_id outbox_id db) (\<lambda>released.
           if ob_status released \<noteq> OutboxPending \<or>
              timestamp_millis (ob_available_at released) \<noteq> timestamp_millis available_at \<or>
              timestamp_millis (ob_updated_at released) \<noteq> timestamp_millis now \<or>
              ob_last_error released \<noteq> Some error
           then Inl (SchemaIntegrity ''outbox release was modified by unexpected database behavior'')
           else
             and_then (tenant_outbox_head tenant_id db) (\<lambda>head.
             if head \<noteq> Some outbox_id
             then Inl (SchemaIntegrity ''outbox release was modified by unexpected database behavior'')
             else Inr ((), db))))))))))"

definition extend_lease :: "millis \<Rightarrow> millis \<Rightarrow> outbox_row \<Rightarrow> outbox_row" where
  "extend_lease lease_until_ms now_ms r =
     r\<lparr>ow_lease_until_ms := Some lease_until_ms, ow_updated_at_ms := now_ms\<rparr>"

definition renew_outbox_lease ::
  "turn_libs \<Rightarrow> string \<Rightarrow> string \<Rightarrow> string \<Rightarrow> string \<Rightarrow> instant \<Rightarrow> duration \<Rightarrow> turn_db \<Rightarrow>
     turn_store_error + (turn_outbox_record \<times> turn_db)" where
  "renew_outbox_lease L tenant_id outbox_id lease_owner lease_token now lease_duration db =
     and_then (validate_lease_identity ''lease_owner'' lease_owner) (\<lambda>_.
     and_then (validate_lease_identity ''lease_token'' lease_token) (\<lambda>_.
     if \<not> valid_lease_duration lease_duration then Inl InvalidOutboxLeaseDuration
     else if \<not> tl_datetime_ok L (now + lease_duration) then Inl OutboxLeaseTimeOverflow
     else
       let lease_until = now + lease_duration
       in and_then (validate_no_extra_outbox_triggers db) (\<lambda>_.
          and_then (tenant_outbox_head tenant_id db) (\<lambda>head.
          if head \<noteq> Some outbox_id then Inl (OutboxOrderConflict outbox_id)
          else if outbox_is_quarantined tenant_id outbox_id db
          then Inl (OutboxLeaseLost outbox_id lease_owner)
          else
            and_then (require_outbox L tenant_id outbox_id db) (\<lambda>current.
            and_then (check_held_lease current outbox_id lease_owner lease_token now) (\<lambda>_.
            and_then (update_outbox (leased_row tenant_id outbox_id lease_owner lease_token (timestamp_millis now))
              (extend_lease (timestamp_millis lease_until) (timestamp_millis now)) db) (\<lambda>(changed, db).
            if changed \<noteq> 1 then Inl (OutboxLeaseLost outbox_id lease_owner)
            else
              and_then (require_outbox L tenant_id outbox_id db) (\<lambda>renewed.
              if map_option timestamp_millis (ob_lease_until renewed) \<noteq> Some (timestamp_millis lease_until) \<or>
                 timestamp_millis (ob_updated_at renewed) \<noteq> timestamp_millis now \<or>
                 ob_attempts renewed \<noteq> ob_attempts current
              then Inl (SchemaIntegrity ''outbox lease renewal was modified by unexpected database behavior'')
              else Inr (renewed, db)))))))))"

subsection \<open>The queue of a tenant\<close>

definition outbox_key :: "outbox_row \<Rightarrow> string \<times> string" where
  "outbox_key r = (ow_tenant_id r, ow_outbox_id r)"

definition order_key :: "order_row \<Rightarrow> string \<times> string" where
  "order_key c = (or_tenant_id c, or_outbox_id c)"

definition turn_revision :: "outbox_row \<Rightarrow> string \<times> string \<times> int" where
  "turn_revision r = (ow_tenant_id r, ow_turn_id r, ow_revision r)"

definition row_status :: "outbox_row \<Rightarrow> turn_outbox_status option" where
  "row_status r = (case parse_outbox_status (ow_status r) of Inl _ \<Rightarrow> None | Inr st \<Rightarrow> Some st)"

text \<open>A row in the shape its status demands: the table's \<open>CHECK\<close>.\<close>

definition outbox_row_ok :: "outbox_row \<Rightarrow> bool" where
  "outbox_row_ok r =
     (0 \<le> ow_revision r \<and> 0 \<le> ow_attempts r \<and>
      (case row_status r of None \<Rightarrow> False | Some st \<Rightarrow> status_shape_ok r st))"

definition outbox_inv :: "turn_db \<Rightarrow> bool" where
  "outbox_inv db \<longleftrightarrow>
     map order_key (td_order db) = map outbox_key (td_outbox db) \<and>
     distinct (map outbox_key (td_outbox db)) \<and>
     distinct (map turn_revision (td_outbox db)) \<and>
     sorted_wrt (<) (map or_commit_ordinal (td_order db)) \<and>
     (\<forall>c \<in> set (td_order db). 0 < or_commit_ordinal c \<and> or_order_origin c = ''transactional'') \<and>
     td_sequence db = sql_max (map or_commit_ordinal (td_order db)) \<and>
     (\<forall>r \<in> set (td_outbox db). outbox_row_ok r) \<and>
     sorted_wrt (\<lambda>r s. ow_tenant_id r = ow_tenant_id s \<longrightarrow> delivered s \<longrightarrow> delivered r) (td_outbox db)"

definition queue_head :: "string \<Rightarrow> turn_db \<Rightarrow> outbox_row option" where
  "queue_head tenant_id db = find (\<lambda>r. ow_tenant_id r = tenant_id \<and> \<not> delivered r) (td_outbox db)"

lemma order_of_nth:
  assumes "map order_key (td_order db) = map outbox_key (td_outbox db)"
    and "distinct (map outbox_key (td_outbox db))" and "i < length (td_outbox db)"
  shows "order_of db (td_outbox db ! i) = Some (td_order db ! i)"
  using find_by_key [OF assms] by (simp add: order_of_def order_key_def outbox_key_def)

lemma tenant_rows_zip:
  assumes "map order_key (td_order db) = map outbox_key (td_outbox db)"
    and "distinct (map outbox_key (td_outbox db))"
  shows "tenant_rows t db = filter (\<lambda>p. ow_tenant_id (fst p) = t) (zip (td_outbox db) (td_order db))"
proof -
  have "length (td_outbox db) = length (td_order db)"
    using assms(1) by (metis length_map)
  moreover have "\<forall>i < length (td_outbox db). order_of db (td_outbox db ! i) = Some (td_order db ! i)"
    using order_of_nth [OF assms] by blast
  ultimately show ?thesis
    unfolding tenant_rows_def by (rule map_filter_zip)
qed

lemma outbox_inv_length: "outbox_inv db \<Longrightarrow> length (td_outbox db) = length (td_order db)"
  unfolding outbox_inv_def by (metis length_map)

definition queue_order :: "outbox_row \<times> order_row \<Rightarrow> outbox_row \<times> order_row \<Rightarrow> bool" where
  "queue_order p q \<longleftrightarrow>
     or_commit_ordinal (snd p) < or_commit_ordinal (snd q) \<and> (delivered (fst q) \<longrightarrow> delivered (fst p))"

lemma outbox_inv_keys:
  assumes "outbox_inv db"
  shows "map order_key (td_order db) = map outbox_key (td_outbox db)" "distinct (map outbox_key (td_outbox db))"
  using assms by (simp_all add: outbox_inv_def)

lemma tenant_rows_sorted:
  assumes inv: "outbox_inv db"
  shows "sorted_wrt queue_order (tenant_rows t db)"
proof -
  have len: "length (td_outbox db) = length (td_order db)"
    using inv by (rule outbox_inv_length)
  have "sorted_wrt (\<lambda>p q. ow_tenant_id (fst p) = ow_tenant_id (fst q) \<longrightarrow> queue_order p q)
      (zip (td_outbox db) (td_order db))"
    using inv len by (simp add: outbox_inv_def queue_order_def sorted_wrt_iff_nth_less)
  then have "sorted_wrt (\<lambda>p q. ow_tenant_id (fst p) = ow_tenant_id (fst q) \<longrightarrow> queue_order p q) (tenant_rows t db)"
    unfolding tenant_rows_zip [OF outbox_inv_keys [OF inv]] by (rule sorted_wrt_filter)
  then show ?thesis
    by (rule sorted_wrt_mono_rel [rotated]) (auto simp: tenant_rows_zip [OF outbox_inv_keys [OF inv]])
qed

lemma order_complete:
  assumes inv: "outbox_inv db"
  shows "r \<in> set (td_outbox db) \<Longrightarrow> order_of db r \<noteq> None"
    and "c \<in> set (td_order db) \<Longrightarrow> or_tenant_id c = t \<Longrightarrow> find (outbox_at t (or_outbox_id c)) (td_outbox db) \<noteq> None"
proof -
  show "order_of db r \<noteq> None" if "r \<in> set (td_outbox db)"
    using that order_of_nth [OF outbox_inv_keys [OF inv]] by (auto simp: in_set_conv_nth)
  show "find (outbox_at t (or_outbox_id c)) (td_outbox db) \<noteq> None"
    if "c \<in> set (td_order db)" "or_tenant_id c = t"
  proof -
    have "order_key c \<in> set (map outbox_key (td_outbox db))"
      using outbox_inv_keys(1) [OF inv] that(1) by (metis image_eqI list.set_map)
    then show ?thesis
      using that(2) by (auto simp: find_None_iff outbox_at_def order_key_def outbox_key_def)
  qed
qed

lemma lowest_undelivered:
  assumes "sorted_wrt queue_order z"
  shows "sql_min (map (or_commit_ordinal \<circ> snd) (filter (\<lambda>p. \<not> delivered (fst p)) z)) =
    map_option (or_commit_ordinal \<circ> snd) (find (\<lambda>p. \<not> delivered (fst p)) z)"
proof -
  let ?us = "filter (\<lambda>p. \<not> delivered (fst p)) z"
  have "sorted_wrt queue_order ?us"
    using assms by (rule sorted_wrt_filter)
  then have "sorted_wrt (<) (map (or_commit_ordinal \<circ> snd) ?us)"
    by (auto simp: sorted_wrt_map queue_order_def elim: sorted_wrt_mono_rel [rotated])
  then show ?thesis
    using sql_min_hd [of "map (or_commit_ordinal \<circ> snd) ?us"]
    by (cases "?us = []") (simp_all add: find_hd_filter hd_map sql_min_def [of "[]"] del: filter_empty_conv)
qed

lemma no_delivery_hole:
  assumes ord: "sorted_wrt queue_order z"
    and p: "find (\<lambda>p. \<not> delivered (fst p)) z = Some p"
    and m: "sql_max (map (or_commit_ordinal \<circ> snd) (filter (\<lambda>p. delivered (fst p)) z)) = Some m"
  shows "\<not> or_commit_ordinal (snd p) < m"
proof -
  obtain q where q: "q \<in> set z" "delivered (fst q)" "m = or_commit_ordinal (snd q)"
    using sql_max_Some [OF m] by auto
  have "p \<in> set z" "\<not> delivered (fst p)"
    using p by (auto simp: find_Some_iff)
  then show ?thesis
    using sorted_wrt_filter_both [OF ord _ q(1), of p] q by (auto simp: queue_order_def)
qed

lemma queue_head_rows:
  assumes inv: "outbox_inv db"
  shows "queue_head t db = map_option fst (find (\<lambda>p. \<not> delivered (fst p)) (tenant_rows t db))"
  unfolding queue_head_def tenant_rows_zip [OF outbox_inv_keys [OF inv]] find_filter
  using find_zip_fst [OF outbox_inv_length [OF inv], of "\<lambda>r. ow_tenant_id r = t \<and> \<not> delivered r"] by simp

text \<open>The head query returns the first undelivered row of the tenant in table order.\<close>

lemma tenant_head_fifo:
  assumes inv: "outbox_inv db"
  shows "tenant_outbox_head t db = Inr (map_option ow_outbox_id (queue_head t db))"
proof -
  note facts = order_complete [OF inv] lowest_undelivered [OF tenant_rows_sorted [OF inv]]
    no_delivery_hole [OF tenant_rows_sorted [OF inv]]
  show ?thesis
  proof (cases "find (\<lambda>p. \<not> delivered (fst p)) (tenant_rows t db)")
    case None
    then show ?thesis
      using facts by (simp add: tenant_outbox_head_def list_ex_iff Bex_def Let_def queue_head_rows [OF inv]
          split: option.split)
  next
    case (Some p)
    have "find (\<lambda>y. or_commit_ordinal (snd y) = or_commit_ordinal (snd p) \<and> \<not> delivered (fst y)) (tenant_rows t db) = Some p"
      using Some by (intro find_conj) simp_all
    then show ?thesis
      using Some facts by (simp add: tenant_outbox_head_def list_ex_iff Bex_def Let_def queue_head_rows [OF inv]
          split: option.split)
  qed
qed

subsection \<open>Preservation\<close>

text \<open>What one insertion does: a pending row and its commit order, both at the end.\<close>

definition appended :: "outbox_row \<Rightarrow> int \<Rightarrow> turn_db \<Rightarrow> turn_db" where
  "appended row n db =
     db\<lparr>td_outbox := td_outbox db @ [row],
        td_order := td_order db @
          [\<lparr>or_commit_ordinal = n, or_tenant_id = ow_tenant_id row, or_outbox_id = ow_outbox_id row,
            or_order_origin = ''transactional'', or_legacy_source_rowid = None\<rparr>],
        td_sequence := Some n\<rparr>"

definition fresh_row :: "outbox_row \<Rightarrow> turn_db \<Rightarrow> bool" where
  "fresh_row row db \<longleftrightarrow>
     outbox_key row \<notin> set (map outbox_key (td_outbox db)) \<and>
     turn_revision row \<notin> set (map turn_revision (td_outbox db)) \<and>
     row_status row = Some OutboxPending \<and> outbox_row_ok row \<and>
     (\<exists>r \<in> set (td_turns db). turn_at (ow_tenant_id row) (ow_turn_id row) r)"

definition next_ordinal :: "turn_db \<Rightarrow> int" where
  "next_ordinal db = (case td_sequence db of None \<Rightarrow> 1 | Some s \<Rightarrow> s + 1)"

lemma row_status_delivered: "row_status r = Some OutboxDelivered \<longleftrightarrow> delivered r"
  by (auto simp: row_status_def parse_outbox_status_def delivered_def split: if_splits)

lemma next_ordinal_above:
  assumes inv: "outbox_inv db" and "c \<in> set (td_order db)"
  shows "or_commit_ordinal c < next_ordinal db"
proof -
  have seq: "td_sequence db = sql_max (map or_commit_ordinal (td_order db))"
    using inv by (simp add: outbox_inv_def)
  show ?thesis
    using sql_max_bound [of "or_commit_ordinal c" "map or_commit_ordinal (td_order db)"] assms(2) seq
    by (auto simp: next_ordinal_def)
qed

lemma next_ordinal_pos:
  assumes "outbox_inv db"
  shows "0 < next_ordinal db"
proof (cases "td_order db")
  case (Cons c cs)
  then have "0 < or_commit_ordinal c"
    using assms by (simp add: outbox_inv_def)
  then show ?thesis
    using next_ordinal_above [OF assms, of c] Cons by simp
qed (use assms in \<open>simp add: next_ordinal_def outbox_inv_def sql_max_def\<close>)

lemma appended_inv:
  assumes inv: "outbox_inv db" and new: "fresh_row row db"
  shows "outbox_inv (appended row (next_ordinal db) db)"
proof -
  have "\<not> delivered row"
    using new by (metis fresh_row_def option.inject row_status_delivered turn_outbox_status.distinct(3))
  moreover have "sql_max (map or_commit_ordinal (td_order db) @ [next_ordinal db]) = Some (next_ordinal db)"
    using next_ordinal_above [OF inv] by (intro sql_max_snoc) auto
  ultimately show ?thesis
    using inv new next_ordinal_above [OF inv] next_ordinal_pos [OF inv]
    by (simp add: outbox_inv_def appended_def fresh_row_def sorted_wrt_append order_key_def outbox_key_def)
qed

text \<open>An update that keeps key, revision and tenant, and touches no delivered row.\<close>

definition harmless_update :: "(outbox_row \<Rightarrow> bool) \<Rightarrow> (outbox_row \<Rightarrow> outbox_row) \<Rightarrow> bool" where
  "harmless_update P f \<longleftrightarrow>
     (\<forall>r. P r \<longrightarrow> outbox_key (f r) = outbox_key r \<and> turn_revision (f r) = turn_revision r \<and>
        ow_turn_id (f r) = ow_turn_id r \<and> delivered (f r) = delivered r \<and>
        (outbox_row_ok r \<longrightarrow> outbox_row_ok (f r)))"

lemma harmless_update_inv:
  assumes inv: "outbox_inv db" and ok: "harmless_update P f"
  shows "outbox_inv (db\<lparr>td_outbox := update_where P f (td_outbox db)\<rparr>)"
proof -
  have keys: "map outbox_key (update_where P f (td_outbox db)) = map outbox_key (td_outbox db)"
    "map turn_revision (update_where P f (td_outbox db)) = map turn_revision (td_outbox db)"
    using ok by (auto intro!: update_where_map simp: harmless_update_def)
  have flags: "ow_tenant_id (if P r then f r else r) = ow_tenant_id r"
    "delivered (if P r then f r else r) = delivered r" for r
    using ok by (auto simp: harmless_update_def outbox_key_def)
  have "sorted_wrt (\<lambda>r s. ow_tenant_id r = ow_tenant_id s \<longrightarrow> delivered s \<longrightarrow> delivered r)
      (update_where P f (td_outbox db))"
    using inv by (simp add: update_where_def sorted_wrt_map flags outbox_inv_def)
  then show ?thesis
    using inv ok keys by (auto simp: outbox_inv_def update_where_set harmless_update_def)
qed

lemmas row_change_defs =
  harmless_update_def claimable_row_def leased_row_def outbox_key_def turn_revision_def delivered_def
  outbox_row_ok_def row_status_def parse_outbox_status_def status_shape_ok_def
  take_lease_def drop_lease_def extend_lease_def

lemma claim_harmless: "harmless_update (claimable_row t i ms) (take_lease w k u ms')"
  by (auto simp: row_change_defs)

lemma release_harmless: "harmless_update (leased_row t i w k ms) (drop_lease a e ms')"
  by (auto simp: row_change_defs)

lemma renew_harmless: "harmless_update (leased_row t i w k ms) (extend_lease u ms')"
  by (auto simp: row_change_defs)

lemma update_outbox_Inr:
  "update_outbox P f db = Inr (n, db') \<longleftrightarrow>
     (\<forall>r \<in> set (td_outbox db). P r \<longrightarrow> \<not> delivery_guard_fires db r (f r)) \<and>
     n = length (filter P (td_outbox db)) \<and> db' = db\<lparr>td_outbox := update_where P f (td_outbox db)\<rparr>"
  by (auto simp: update_outbox_def list_ex_iff)

subsection \<open>What a load certifies\<close>

lemma milliseconds_le: "milliseconds m \<le> t \<longleftrightarrow> m \<le> timestamp_millis t"
proof
  show "m \<le> timestamp_millis t" if "milliseconds m \<le> t"
    using zdiv_mono1 [OF that, of 1000000] by (simp add: milliseconds_def timestamp_millis_def)
  show "milliseconds m \<le> t" if "m \<le> timestamp_millis t"
    using that div_mult_mod_eq [of t 1000000] pos_mod_sign [of 1000000 t]
    by (simp add: milliseconds_def timestamp_millis_def)
qed

lemma timestamp_milliseconds [simp]: "timestamp_millis (milliseconds m) = m"
  by (simp add: milliseconds_def timestamp_millis_def)

lemma parse_timestamp_ok [result_simps]:
  "parse_timestamp L f v = Inr t \<longleftrightarrow> tl_datetime_ok L (milliseconds v) \<and> t = milliseconds v"
  by (auto simp: parse_timestamp_def)

lemma optional_timestamp_ok [result_simps]:
  "optional_map (parse_timestamp L f) v = Inr t \<longleftrightarrow>
     pred_option (\<lambda>ms. tl_datetime_ok L (milliseconds ms)) v \<and> t = map_option milliseconds v"
  by (auto simp: optional_map_def result_simps split: option.splits)

lemma checked_u64_ok [result_simps]: "checked_u64 v = Inr w \<longleftrightarrow> 0 \<le> v \<and> w = word_of_int v"
  by (auto simp: checked_u64_def)

lemma verify_stored_hash_ok [result_simps]: "verify_stored_hash L f t h = Inr u \<longleftrightarrow> sha256_text L t = h"
  by (simp add: verify_stored_hash_def)

lemma parse_json_ok [result_simps]: "parse_json L t = Inr v \<longleftrightarrow> x_json_parse (tl_externals L) t = Some v"
  by (simp add: parse_json_def result_simps)

lemma optional_map_Some [result_simps]:
  "optional_map f x = Inr (Some b) \<longleftrightarrow> (\<exists>a. x = Some a \<and> f a = Inr b)"
  by (auto simp: optional_map_def result_simps split: option.splits)

lemma optional_map_None [result_simps]: "optional_map f x = Inr None \<longleftrightarrow> x = None"
  by (auto simp: optional_map_def result_simps split: option.splits)

text \<open>The record a row stands for, when its JSON parses to the given payload.\<close>

definition outbox_record_of :: "outbox_row \<Rightarrow> order_row \<Rightarrow> verified_row option \<Rightarrow> json \<Rightarrow> turn_outbox_status \<Rightarrow> turn_outbox_record" where
  "outbox_record_of r c evidence payload status =
     \<lparr>ob_tenant_id = ow_tenant_id r, ob_outbox_id = ow_outbox_id r,
      ob_commit_ordinal = word_of_int (or_commit_ordinal c), ob_order_origin = or_order_origin c,
      ob_turn_id = ow_turn_id r, ob_revision = word_of_int (ow_revision r),
      ob_event_type = ow_event_type r, ob_effect_kind = ow_effect_kind r,
      ob_idempotency_mode = ow_idempotency_mode r, ob_payload = payload,
      ob_payload_hash = ow_payload_hash r, ob_status = status, ob_attempts = word_of_int (ow_attempts r),
      ob_available_at = milliseconds (ow_available_at_ms r), ob_lease_owner = ow_lease_owner r,
      ob_lease_token = ow_lease_token r, ob_lease_until = map_option milliseconds (ow_lease_until_ms r),
      ob_delivered_at = map_option milliseconds (ow_delivered_at_ms r),
      ob_ledger_event_id = ow_ledger_event_id r,
      ob_verified_ledger_event_id = map_option vw_ledger_event_id evidence,
      ob_verified_signer_public_key = map_option vw_signer_public_key evidence,
      ob_verified_database_instance_id = map_option vw_database_instance_id evidence,
      ob_last_error = ow_last_error r, ob_created_at = milliseconds (ow_created_at_ms r),
      ob_updated_at = milliseconds (ow_updated_at_ms r)\<rparr>"

lemma parse_order_origin_ok: "parse_order_origin v = Inr w \<Longrightarrow> w = v"
  by (auto simp: parse_order_origin_def split: if_splits)

lemma materialize_outbox_ok:
  assumes "materialize_outbox L (r, c, e) = Inr rec"
  shows "\<exists>payload status. rec = outbox_record_of r c e payload status \<and> row_status r = Some status \<and>
    sha256_text L (ow_payload_json r) = ow_payload_hash r \<and>
    x_json_parse (tl_externals L) (ow_payload_json r) = Some payload"
  using assms unfolding materialize_outbox_def outbox_record_of_def
  by (auto simp: result_simps row_status_def dest!: parse_order_origin_ok split: if_splits)

lemma require_outbox_ok:
  assumes "require_outbox L t i db = Inr rec"
  shows "\<exists>r c payload status. find (outbox_at t i) (td_outbox db) = Some r \<and> order_of db r = Some c \<and>
    rec = outbox_record_of r c (evidence_of db r) payload status \<and> row_status r = Some status \<and>
    sha256_text L (ow_payload_json r) = ow_payload_hash r \<and>
    x_json_parse (tl_externals L) (ow_payload_json r) = Some payload"
proof -
  obtain r c where r: "find (outbox_at t i) (td_outbox db) = Some r" "order_of db r = Some c"
    "materialize_outbox L (r, c, evidence_of db r) = Inr rec"
    using assms by (auto simp: require_outbox_def load_outbox_def raw_outbox_of_def result_simps
        split: bind_splits)
  then show ?thesis
    using materialize_outbox_ok [OF r(3)] by auto
qed

subsection \<open>Claims\<close>

lemma claim_cases:
  assumes "claim_next_outbox L uuid t w now d db = Inr (res, db')"
  shows "res = None \<and> db' = db \<or>
    (\<exists>i current rec. tenant_outbox_head t db = Inr (Some i) \<and> require_outbox L t i db = Inr current \<and>
       \<not> outbox_is_quarantined t i db \<and> claim_ready current now \<and> res = Some rec \<and>
       db' = db\<lparr>td_outbox := update_where (claimable_row t i (timestamp_millis now))
         (take_lease w (''outbox-lease-'' @ uuid) (timestamp_millis (now + d)) (timestamp_millis now)) (td_outbox db)\<rparr> \<and>
       length (filter (claimable_row t i (timestamp_millis now)) (td_outbox db)) = 1 \<and>
       require_outbox L t i db' = Inr rec \<and> ob_lease_owner rec = Some w \<and>
       ob_lease_token rec = Some (''outbox-lease-'' @ uuid) \<and> ob_status rec = OutboxLeased \<and>
       map_option timestamp_millis (ob_lease_until rec) = Some (timestamp_millis (now + d)) \<and>
       timestamp_millis (ob_updated_at rec) = timestamp_millis now \<and>
       tenant_outbox_head t db' = Inr (Some i) \<and> validate_no_extra_outbox_triggers db = Inr ())"
  using assms unfolding claim_next_outbox_def Let_def
  by (auto simp: result_simps update_outbox_Inr split: if_splits option.splits)

subsection \<open>The other lease operations\<close>

lemma release_cases:
  assumes "release_outbox L t i w k now a e db = Inr (res, db')"
  shows "\<exists>current reloaded. tenant_outbox_head t db = Inr (Some i) \<and> require_outbox L t i db = Inr current \<and>
    check_held_lease current i w k now = Inr () \<and>
    db' = db\<lparr>td_outbox := update_where (leased_row t i w k (timestamp_millis now))
      (drop_lease (timestamp_millis a) e (timestamp_millis now)) (td_outbox db)\<rparr> \<and>
    length (filter (leased_row t i w k (timestamp_millis now)) (td_outbox db)) = 1 \<and>
    require_outbox L t i db' = Inr reloaded"
  using assms unfolding release_outbox_def Let_def
  by (auto simp: result_simps update_outbox_Inr split: if_splits)

lemma renew_cases:
  assumes "renew_outbox_lease L t i w k now d db = Inr (res, db')"
  shows "\<exists>current reloaded. tenant_outbox_head t db = Inr (Some i) \<and> require_outbox L t i db = Inr current \<and>
    check_held_lease current i w k now = Inr () \<and> \<not> outbox_is_quarantined t i db \<and>
    db' = db\<lparr>td_outbox := update_where (leased_row t i w k (timestamp_millis now))
      (extend_lease (timestamp_millis (now + d)) (timestamp_millis now)) (td_outbox db)\<rparr> \<and>
    length (filter (leased_row t i w k (timestamp_millis now)) (td_outbox db)) = 1 \<and>
    require_outbox L t i db' = Inr reloaded"
  using assms unfolding renew_outbox_lease_def Let_def
  by (auto simp: result_simps update_outbox_Inr split: if_splits)

lemma lease_operations_inv:
  assumes inv: "outbox_inv db"
  shows "claim_next_outbox L uuid t w now d db = Inr (res, db') \<Longrightarrow> outbox_inv db'"
    and "release_outbox L t i w k now a e db = Inr (u, db') \<Longrightarrow> outbox_inv db'"
    and "renew_outbox_lease L t i w k now d db = Inr (rec, db') \<Longrightarrow> outbox_inv db'"
  using inv harmless_update_inv [OF inv claim_harmless] harmless_update_inv [OF inv release_harmless]
    harmless_update_inv [OF inv renew_harmless]
  by (auto dest!: claim_cases release_cases renew_cases)

subsection \<open>Insertion\<close>

lemma assign_commit_order_ok:
  assumes "outbox_inv db" and "assign_commit_order row (db\<lparr>td_outbox := td_outbox db @ [row]\<rparr>) = Inr db'"
  shows "db' = appended row (next_ordinal db) db"
proof -
  have "td_sequence db = sql_max (map or_commit_ordinal (td_order db))"
    using assms(1) by (simp add: outbox_inv_def)
  moreover have "0 < next_ordinal db"
    using assms(1) by (rule next_ordinal_pos)
  ultimately show ?thesis
    using assms(2) by (auto simp: assign_commit_order_def appended_def next_ordinal_def Let_def
        split: if_splits option.splits)
qed

lemma new_outbox_row_pending:
  "row_status (new_outbox_row L rec prev h t n ms) = Some OutboxPending"
  "0 \<le> n \<Longrightarrow> outbox_row_ok (new_outbox_row L rec prev h t n ms)"
  by (simp_all add: new_outbox_row_def Let_def row_change_defs)

lemma revision_to_i64_ok [result_simps]:
  "revision_to_i64 r = Inr n \<longleftrightarrow> uint r \<le> i64_max \<and> n = uint r"
  by (auto simp: revision_to_i64_def)

lemma insert_outbox_ok:
  assumes inv: "outbox_inv db" and ins: "insert_outbox L rec prev h now db = Inr db'"
  shows "\<exists>row. row = new_outbox_row L rec prev h (milliseconds (timestamp_millis now))
      (uint (vts_revision (dt_state rec))) (timestamp_millis now) \<and>
    fresh_row row db \<and> db' = appended row (next_ordinal db) db"
proof -
  let ?row = "new_outbox_row L rec prev h (milliseconds (timestamp_millis now))
      (uint (vts_revision (dt_state rec))) (timestamp_millis now)"
  have row: "insert_outbox_row ?row db = Inr db'"
    using ins unfolding insert_outbox_def Let_def by (auto simp: result_simps split: if_splits)
  then have new: "fresh_row ?row db" and "assign_commit_order ?row (db\<lparr>td_outbox := td_outbox db @ [?row]\<rparr>) = Inr db'"
    by (auto simp: insert_outbox_row_def fresh_row_def list_ex_iff outbox_at_def outbox_key_def
        turn_revision_def new_outbox_row_pending split: if_splits)
  then have "db' = appended ?row (next_ordinal db) db"
    by (intro assign_commit_order_ok [OF inv])
  with new show ?thesis
    by blast
qed

end
