(* ===== verification/Turn_Store.thy ===== *)
theory Turn_Store
  imports Turn_Outbox
begin

text \<open>
  The operations of \<open>DurableTurnStore\<close> in \<open>turn_store.rs\<close> that create and move turns: admission
  under an idempotency key, compare-and-transition under the actor's lease, and the recovery of
  turns whose lease ran out. Each is one immediate transaction: an error leaves the database as it
  was. An actor serialises the turns of one conversation; it names its active turn, the owner of
  the lease and the end of the lease.
\<close>

subsection \<open>Actors\<close>

definition validate_actor_authority :: "authenticated_ingress \<Rightarrow> turn_actor_identity \<Rightarrow> turn_store_error + unit" where
  "validate_actor_authority ingress actor =
     (if tenant_str (ai_tenant_id ingress) = id_tenant_id actor \<and>
         principal_str (ai_principal_id ingress) = id_principal_id actor \<and>
         workspace_str (ai_workspace_id ingress) = id_workspace_id actor \<and>
         profile_str (ai_profile_id ingress) = id_profile_id actor
      then Inr () else Inl ActorAuthorityMismatch)"

definition new_actor_row :: "turn_actor_identity \<Rightarrow> millis \<Rightarrow> actor_row" where
  "new_actor_row actor now_ms =
     \<lparr>aw_tenant_id = id_tenant_id actor, aw_actor_key = id_actor_key actor,
      aw_principal_id = id_principal_id actor, aw_workspace_id = id_workspace_id actor,
      aw_profile_id = id_profile_id actor, aw_channel_id = id_channel_id actor,
      aw_thread_id = id_thread_id actor, aw_revision = 0, aw_active_turn_id = None,
      aw_lease_owner = None, aw_lease_until_ms = None, aw_created_at_ms = now_ms,
      aw_updated_at_ms = now_ms\<rparr>"

definition ensure_actor_row :: "turn_libs \<Rightarrow> turn_actor_identity \<Rightarrow> instant \<Rightarrow> turn_db \<Rightarrow> turn_store_error + turn_db" where
  "ensure_actor_row L actor now db =
     (let db = (if list_ex (actor_at (id_tenant_id actor) (id_actor_key actor)) (td_actors db) then db
                else db\<lparr>td_actors := td_actors db @ [new_actor_row actor (timestamp_millis now)]\<rparr>)
      in and_then (load_actor L (id_tenant_id actor) (id_actor_key actor) db) (\<lambda>found.
         and_then (ok_or ActorAuthorityMismatch found) (\<lambda>persisted.
         if ar_principal_id persisted \<noteq> id_principal_id actor \<or>
            ar_workspace_id persisted \<noteq> id_workspace_id actor \<or>
            ar_profile_id persisted \<noteq> id_profile_id actor \<or>
            ar_channel_id persisted \<noteq> id_channel_id actor \<or>
            ar_thread_id persisted \<noteq> id_thread_id actor
         then Inl ActorAuthorityMismatch
         else Inr db)))"

text \<open>\<open>UPDATE turn_actor_v2 SET active_turn_id, lease_owner, lease_until_ms, revision + 1 ... WHERE\<close>.\<close>

definition set_actor_lease ::
  "string option \<Rightarrow> string option \<Rightarrow> millis option \<Rightarrow> millis \<Rightarrow> actor_row \<Rightarrow> actor_row" where
  "set_actor_lease active_turn_id lease_owner lease_until_ms now_ms r =
     r\<lparr>aw_active_turn_id := active_turn_id, aw_lease_owner := lease_owner,
       aw_lease_until_ms := lease_until_ms, aw_revision := aw_revision r + 1, aw_updated_at_ms := now_ms\<rparr>"

definition update_actor ::
  "(actor_row \<Rightarrow> bool) \<Rightarrow> (actor_row \<Rightarrow> actor_row) \<Rightarrow> turn_store_error \<Rightarrow> turn_db \<Rightarrow> turn_store_error + turn_db" where
  "update_actor P f lost db =
     (if length (filter P (td_actors db)) \<noteq> 1 then Inl lost
      else Inr (db\<lparr>td_actors := update_where P f (td_actors db)\<rparr>))"

definition clear_actor :: "durable_turn_record \<Rightarrow> instant \<Rightarrow> turn_db \<Rightarrow> turn_store_error + turn_db" where
  "clear_actor record now db =
     update_actor
       (\<lambda>r. actor_at (dt_tenant_id record) (dt_actor_key record) r \<and> aw_active_turn_id r = Some (dt_turn_id record))
       (set_actor_lease None None None (timestamp_millis now)) CasLost db"

definition update_actor_after_transition ::
  "durable_turn_record \<Rightarrow> string \<Rightarrow> turn_state \<Rightarrow> instant \<Rightarrow> turn_db \<Rightarrow> turn_store_error + turn_db" where
  "update_actor_after_transition record lease_owner next now db =
     (let (active_turn_id, owner, lease_until) =
        (if is_terminal next then (None, None, None)
         else (Some (dt_turn_id record), Some lease_owner, Some (timestamp_millis (dt_deadline record))))
      in update_actor
        (\<lambda>r. actor_at (dt_tenant_id record) (dt_actor_key record) r \<and>
             aw_active_turn_id r = Some (dt_turn_id record) \<and> aw_lease_owner r = Some lease_owner)
        (set_actor_lease active_turn_id owner lease_until (timestamp_millis now))
        (ActorLeaseLost lease_owner) db)"

definition verify_actor_lease ::
  "turn_libs \<Rightarrow> durable_turn_record \<Rightarrow> string \<Rightarrow> instant \<Rightarrow> turn_db \<Rightarrow> turn_store_error + unit" where
  "verify_actor_lease L record lease_owner now db =
     and_then (load_actor L (dt_tenant_id record) (dt_actor_key record) db) (\<lambda>found.
     and_then (ok_or (ActorLeaseLost lease_owner) found) (\<lambda>actor.
     if ar_active_turn_id actor \<noteq> Some (dt_turn_id record) \<or> ar_lease_owner actor \<noteq> Some lease_owner \<or>
        none_or_passed (ar_lease_until actor) now
     then Inl (ActorLeaseLost lease_owner)
     else Inr ()))"

subsection \<open>Turns\<close>

definition require_turn :: "turn_libs \<Rightarrow> string \<Rightarrow> string \<Rightarrow> turn_db \<Rightarrow> turn_store_error + durable_turn_record" where
  "require_turn L tenant_id turn_id db =
     and_then (load_turn L tenant_id turn_id db) (\<lambda>found. ok_or (MissingTurn tenant_id turn_id) found)"

text \<open>\<open>INSERT INTO turn_state_v2\<close> under the primary key, the idempotency key and the foreign key.\<close>

definition insert_turn_row :: "turn_row \<Rightarrow> turn_db \<Rightarrow> turn_store_error + turn_db" where
  "insert_turn_row row db =
     (if list_ex (turn_at (tw_tenant_id row) (tw_turn_id row)) (td_turns db) \<or>
         list_ex (turn_keyed (tw_tenant_id row) (tw_idempotency_key row)) (td_turns db) \<or>
         \<not> list_ex (actor_at (tw_tenant_id row) (tw_actor_key row)) (td_actors db)
      then Inl (TurnSqlite (ConstraintViolation ''turn_state_v2''))
      else Inr (db\<lparr>td_turns := td_turns db @ [row]\<rparr>))"

text \<open>\<open>UPDATE turn_state_v2 ... WHERE state = ... AND revision = ...\<close>.\<close>

definition turn_cas :: "string \<Rightarrow> string \<Rightarrow> turn_state \<Rightarrow> int \<Rightarrow> turn_row \<Rightarrow> bool" where
  "turn_cas tenant_id turn_id expected_state expected_revision r =
     (turn_at tenant_id turn_id r \<and> tw_state r = state_name expected_state \<and> tw_revision r = expected_revision)"

definition move_turn :: "turn_state \<Rightarrow> int \<Rightarrow> string option \<Rightarrow> string option \<Rightarrow> millis \<Rightarrow> turn_row \<Rightarrow> turn_row" where
  "move_turn next revision terminal_json terminal_hash now_ms r =
     r\<lparr>tw_state := state_name next, tw_revision := revision, tw_terminal_json := terminal_json,
       tw_terminal_hash := terminal_hash, tw_updated_at_ms := now_ms\<rparr>"

definition update_turn ::
  "(turn_row \<Rightarrow> bool) \<Rightarrow> (turn_row \<Rightarrow> turn_row) \<Rightarrow> turn_db \<Rightarrow> turn_store_error + turn_db" where
  "update_turn P f db =
     (if length (filter P (td_turns db)) \<noteq> 1 then Inl CasLost
      else Inr (db\<lparr>td_turns := update_where P f (td_turns db)\<rparr>))"

subsection \<open>Recovery\<close>

definition recovery_execution :: "turn_state \<Rightarrow> turn_execution" where
  "recovery_execution state =
     (if state \<in> {Accepted, Routed, WaitingApproval}
      then aborted_execution
        \<lparr>te_reason_code = ''expired_actor_lease_before_uncertain_effect'',
         te_message = ''durable turn lease expired before a recoverable continuation existed''\<rparr>
        \<lparr>plt_appended_event_ids = [], plt_last_safe_parent_event_id = None\<rparr>
      else Finished None (OutcomeQuarantined
        \<lparr>qe_level = 3, qe_reason_code = ''expired_actor_lease_with_uncertain_external_effect'',
         qe_diagnostic_scope = ''durable_turn_recovery''\<rparr>))"

definition recovery_state :: "turn_state \<Rightarrow> turn_state" where
  "recovery_state state = (if state \<in> {Accepted, Routed, WaitingApproval} then Aborted else Quarantined)"

definition recover_turn_in_tx ::
  "turn_libs \<Rightarrow> durable_turn_record \<Rightarrow> instant \<Rightarrow> turn_db \<Rightarrow> turn_store_error + (durable_turn_record \<times> turn_db)" where
  "recover_turn_in_tx L record now db =
     (if now < dt_updated_at record then Inl NonMonotonicTimestamp
      else if is_terminal (vts_state (dt_state record))
      then and_then (clear_actor record now db) (\<lambda>db. Inr (record, db))
      else
        let state = vts_state (dt_state record);
            final_state = recovery_state state;
            terminal_result = tl_execution_to_value L (recovery_execution state)
        in and_then (map_err Transition
             (compare_and_transition (dt_state record) state (vts_revision (dt_state record)) final_state)) (\<lambda>next.
           let terminal_json = canonical_json L terminal_result;
               terminal_hash = sha256_text L terminal_json
           in and_then (revision_to_i64 (vts_revision next)) (\<lambda>next_revision.
              and_then (revision_to_i64 (vts_revision (dt_state record))) (\<lambda>revision.
              and_then (update_turn (turn_cas (dt_tenant_id record) (dt_turn_id record) state revision)
                (move_turn final_state next_revision (Some terminal_json) (Some terminal_hash)
                  (timestamp_millis now)) db) (\<lambda>db.
              and_then (clear_actor record now db) (\<lambda>db.
              and_then (require_turn L (dt_tenant_id record) (dt_turn_id record) db) (\<lambda>recovered.
              and_then (insert_outbox L recovered (Some state) (Some terminal_hash) now db) (\<lambda>db.
              Inr (recovered, db)))))))))"

definition recover_actor_for_admission ::
  "turn_libs \<Rightarrow> turn_actor_identity \<Rightarrow> instant \<Rightarrow> turn_db \<Rightarrow> turn_store_error + turn_db" where
  "recover_actor_for_admission L actor now db =
     and_then (load_actor L (id_tenant_id actor) (id_actor_key actor) db) (\<lambda>found.
     and_then (ok_or ActorAuthorityMismatch found) (\<lambda>actor_record.
     case ar_active_turn_id actor_record of
       None \<Rightarrow> Inr db
     | Some active_turn_id \<Rightarrow>
         and_then (ok_or (ActorLeaseLost ''missing'') (ar_lease_until actor_record)) (\<lambda>lease_until.
         if lease_until > now then Inl (ActorBusy (id_actor_key actor) active_turn_id lease_until)
         else
           and_then (require_turn L (id_tenant_id actor) active_turn_id db) (\<lambda>active.
           and_then (recover_turn_in_tx L active now db) (\<lambda>(_, db). Inr db)))))"

definition recover_duplicate_if_expired ::
  "turn_libs \<Rightarrow> durable_turn_record \<Rightarrow> instant \<Rightarrow> turn_db \<Rightarrow> turn_store_error + (durable_turn_record \<times> turn_db)" where
  "recover_duplicate_if_expired L record now db =
     (if is_terminal (vts_state (dt_state record)) then Inr (record, db)
      else
        and_then (load_actor L (dt_tenant_id record) (dt_actor_key record) db) (\<lambda>found.
        and_then (ok_or (ActorLeaseLost ''missing'') found) (\<lambda>actor.
        if ar_active_turn_id actor \<noteq> Some (dt_turn_id record)
        then Inl (ActorLeaseLost (case ar_lease_owner actor of None \<Rightarrow> ''missing'' | Some w \<Rightarrow> w))
        else if until_passed (ar_lease_until actor) now then recover_turn_in_tx L record now db
        else Inr (record, db))))"

fun recover_actor_turns ::
  "turn_libs \<Rightarrow> string \<Rightarrow> instant \<Rightarrow> (string \<times> string) list \<Rightarrow> turn_db \<Rightarrow>
     turn_store_error + (durable_turn_record list \<times> turn_db)" where
  "recover_actor_turns L tenant_id now [] db = Inr ([], db)"
| "recover_actor_turns L tenant_id now ((actor_key, turn_id) # rest) db =
     and_then (require_turn L tenant_id turn_id db) (\<lambda>record.
     if dt_actor_key record \<noteq> actor_key then Inl ActorAuthorityMismatch
     else
       and_then (recover_turn_in_tx L record now db) (\<lambda>(recovered, db).
       and_then (recover_actor_turns L tenant_id now rest db) (\<lambda>(others, db).
       Inr (recovered # others, db))))"

definition expired_actor :: "string \<Rightarrow> millis \<Rightarrow> actor_row \<Rightarrow> bool" where
  "expired_actor tenant_id now_ms r =
     (aw_tenant_id r = tenant_id \<and> aw_active_turn_id r \<noteq> None \<and>
      (case aw_lease_until_ms r of None \<Rightarrow> True | Some t \<Rightarrow> t \<le> now_ms))"

definition recover_expired_actor_leases ::
  "turn_libs \<Rightarrow> string \<Rightarrow> instant \<Rightarrow> nat \<Rightarrow> turn_db \<Rightarrow> turn_store_error + (durable_turn_record list \<times> turn_db)" where
  "recover_expired_actor_leases L tenant_id now limit db =
     (let expired = take (bounded_limit limit)
            (sort_key aw_updated_at_ms (sort_key aw_actor_key
              (filter (expired_actor tenant_id (timestamp_millis now)) (td_actors db))));
          actor_turns = map (\<lambda>r. (aw_actor_key r, the (aw_active_turn_id r))) expired
      in recover_actor_turns L tenant_id now actor_turns db)"

subsection \<open>Admission\<close>

text \<open>The row that \<open>begin_turn\<close> inserts; turns that need approval start waiting for it.\<close>

definition new_turn_row :: "turn_libs \<Rightarrow> authenticated_ingress \<Rightarrow> durable_turn_admission \<Rightarrow> instant \<Rightarrow> turn_row" where
  "new_turn_row L ingress admission now =
     (let request_json = canonical_json L (da_request admission);
          request_hash = sha256_text L request_json;
          authority_json = canonical_json L (ingress_to_value L ingress);
          authority_hash = sha256_text L authority_json
      in \<lparr>tw_tenant_id = tenant_str (ai_tenant_id ingress),
          tw_turn_id = deterministic_turn_id L (tenant_str (ai_tenant_id ingress)) (ai_idempotency_key ingress) request_hash,
          tw_actor_key = id_actor_key (da_actor admission),
          tw_subject_id = subject_str (ai_subject_id ingress),
          tw_principal_id = principal_str (ai_principal_id ingress),
          tw_workspace_id = workspace_str (ai_workspace_id ingress),
          tw_profile_id = profile_str (ai_profile_id ingress),
          tw_session_id = session_str (ai_session_id ingress),
          tw_source_surface = as_surface (ai_source ingress),
          tw_source_id = as_source_id (ai_source ingress),
          tw_idempotency_key = ai_idempotency_key ingress,
          tw_request_json = request_json, tw_request_hash = request_hash,
          tw_authority_json = authority_json, tw_authority_hash = authority_hash,
          tw_deadline_ms = timestamp_millis (ai_deadline ingress),
          tw_state = (if da_approval_required admission then state_name WaitingApproval else state_name Accepted),
          tw_revision = 0, tw_terminal_json = None, tw_terminal_hash = None,
          tw_created_at_ms = timestamp_millis now, tw_updated_at_ms = timestamp_millis now\<rparr>)"

definition begin_turn ::
  "turn_libs \<Rightarrow> authenticated_ingress \<Rightarrow> durable_turn_admission \<Rightarrow> instant \<Rightarrow> turn_db \<Rightarrow>
     turn_store_error + (begin_turn_result \<times> turn_db)" where
  "begin_turn L ingress admission now db =
     and_then (validate_actor_authority ingress (da_actor admission)) (\<lambda>_.
     let row = new_turn_row L ingress admission now
     in and_then (load_by_idempotency L (tw_tenant_id row) (tw_idempotency_key row) db) (\<lambda>existing.
        case existing of
          Some existing \<Rightarrow>
            if dt_actor_key existing = tw_actor_key row \<and>
               dt_request_hash existing = tw_request_hash row \<and> dt_authority_hash existing = tw_authority_hash row
            then and_then (recover_duplicate_if_expired L existing now db)
              (\<lambda>(existing, db). Inr (TurnExisting existing, db))
            else Inl IdempotencyConflict
        | None \<Rightarrow>
            if ai_deadline ingress \<le> now then Inl TurnDeadlineExpired
            else
              and_then (ensure_actor_row L (da_actor admission) now db) (\<lambda>db.
              and_then (recover_actor_for_admission L (da_actor admission) now db) (\<lambda>db.
              and_then (insert_turn_row row db) (\<lambda>db.
              and_then (update_actor
                (\<lambda>r. actor_at (tw_tenant_id row) (tw_actor_key row) r \<and> aw_active_turn_id r = None)
                (set_actor_lease (Some (tw_turn_id row)) (Some (da_lease_owner admission))
                  (Some (timestamp_millis (ai_deadline ingress))) (timestamp_millis now)) CasLost db) (\<lambda>db.
              and_then (require_turn L (tw_tenant_id row) (tw_turn_id row) db) (\<lambda>record.
              and_then (insert_outbox L record None None now db) (\<lambda>db.
              Inr (TurnCreated record, db)))))))))"

subsection \<open>Transitions\<close>

definition transition_inner ::
  "turn_libs \<Rightarrow> string \<Rightarrow> string \<Rightarrow> string \<Rightarrow> turn_state \<Rightarrow> u64 \<Rightarrow> turn_state \<Rightarrow> turn_execution option \<Rightarrow>
     instant \<Rightarrow> turn_db \<Rightarrow> turn_store_error + (durable_turn_record \<times> turn_db)" where
  "transition_inner L tenant_id turn_id lease_owner expected_state expected_revision next terminal_result now db =
     and_then (validate_lease_identity ''lease_owner'' lease_owner) (\<lambda>_.
     and_then (require_turn L tenant_id turn_id db) (\<lambda>current.
     if now < dt_updated_at current then Inl NonMonotonicTimestamp
     else
       and_then (verify_actor_lease L current lease_owner now db) (\<lambda>_.
       and_then (map_err Transition
         (compare_and_transition (dt_state current) expected_state expected_revision next)) (\<lambda>next_state.
       let terminal_json = map_option (canonical_json L \<circ> tl_execution_to_value L) terminal_result;
           terminal_hash = map_option (sha256_text L) terminal_json
       in and_then (revision_to_i64 expected_revision) (\<lambda>old_revision.
          and_then (revision_to_i64 (vts_revision next_state)) (\<lambda>new_revision.
          and_then (update_turn (turn_cas tenant_id turn_id expected_state old_revision)
            (move_turn next new_revision terminal_json terminal_hash (timestamp_millis now)) db) (\<lambda>db.
          and_then (update_actor_after_transition current lease_owner next now db) (\<lambda>db.
          and_then (require_turn L tenant_id turn_id db) (\<lambda>record.
          and_then (insert_outbox L record (Some expected_state) terminal_hash now db) (\<lambda>db.
          Inr (record, db)))))))))))"

definition store_transition ::
  "turn_libs \<Rightarrow> string \<Rightarrow> string \<Rightarrow> string \<Rightarrow> turn_state \<Rightarrow> u64 \<Rightarrow> turn_state \<Rightarrow> instant \<Rightarrow> turn_db \<Rightarrow>
     turn_store_error + (durable_turn_record \<times> turn_db)" where
  "store_transition L tenant_id turn_id lease_owner expected_state expected_revision next now db =
     (if is_terminal next then Inl MissingTerminalResult
      else transition_inner L tenant_id turn_id lease_owner expected_state expected_revision next None now db)"

definition store_transition_with_result ::
  "turn_libs \<Rightarrow> string \<Rightarrow> string \<Rightarrow> string \<Rightarrow> turn_state \<Rightarrow> u64 \<Rightarrow> turn_state \<Rightarrow> turn_execution \<Rightarrow> instant \<Rightarrow>
     turn_db \<Rightarrow> turn_store_error + (durable_turn_record \<times> turn_db)" where
  "store_transition_with_result L tenant_id turn_id lease_owner expected_state expected_revision next terminal_result now db =
     (if \<not> is_terminal next then Inl NonTerminalResult
      else if terminal_state terminal_result \<noteq> next
      then Inl (TerminalOutcomeMismatch next (terminal_state terminal_result))
      else transition_inner L tenant_id turn_id lease_owner expected_state expected_revision next
        (Some terminal_result) now db)"

definition incomplete_turns ::
  "turn_libs \<Rightarrow> string \<Rightarrow> nat \<Rightarrow> turn_db \<Rightarrow> turn_store_error + durable_turn_record list" where
  "incomplete_turns L tenant_id limit db =
     collect_results (materialize_turn L)
       (take (bounded_limit limit) (sort_key tw_updated_at_ms (sort_key tw_turn_id
         (filter (\<lambda>r. tw_tenant_id r = tenant_id \<and>
            \<not> List.member [''completed'', ''degraded'', ''aborted'', ''quarantined''] (tw_state r)) (td_turns db)))))"

definition undelivered_outbox ::
  "turn_libs \<Rightarrow> string \<Rightarrow> nat \<Rightarrow> turn_db \<Rightarrow> turn_store_error + turn_outbox_record list" where
  "undelivered_outbox L tenant_id limit db =
     and_then (tenant_outbox_head tenant_id db) (\<lambda>_.
     collect_results (\<lambda>(r, c). materialize_outbox L (r, c, evidence_of db r))
       (take (bounded_limit limit) (sort_key (or_commit_ordinal \<circ> snd)
         (filter (\<lambda>p. \<not> delivered (fst p)) (tenant_rows tenant_id db)))))"

end
