(* ===== verification/Turn_Invariant.thy ===== *)
theory Turn_Invariant
  imports Turn_Store
begin

text \<open>
  The invariant of the turn store and its preservation by the basic changes that the operations
  make: an idle actor is added, a turn is created for an idle actor, a live turn moves to its next
  state. An actor's active turn is its one live turn, and the outbox holds for every turn exactly
  the revisions from 0 to the current one, in commit order, as a path of the state machine that
  ends in the current state.
\<close>

subsection \<open>The invariant\<close>

definition turn_key :: "turn_row \<Rightarrow> string \<times> string" where
  "turn_key r = (tw_tenant_id r, tw_turn_id r)"

definition idempotency_key_of :: "turn_row \<Rightarrow> string \<times> string" where
  "idempotency_key_of r = (tw_tenant_id r, tw_idempotency_key r)"

definition actor_of_turn :: "turn_row \<Rightarrow> string \<times> string" where
  "actor_of_turn r = (tw_tenant_id r, tw_actor_key r)"

definition actor_key_of :: "actor_row \<Rightarrow> string \<times> string" where
  "actor_key_of a = (aw_tenant_id a, aw_actor_key a)"

definition turn_of_outbox :: "outbox_row \<Rightarrow> string \<times> string" where
  "turn_of_outbox p = (ow_tenant_id p, ow_turn_id p)"

definition row_state :: "turn_row \<Rightarrow> turn_state option" where
  "row_state r = (case parse_state (tw_state r) of Inl _ \<Rightarrow> None | Inr s \<Rightarrow> Some s)"

definition live_turn :: "turn_row \<Rightarrow> bool" where
  "live_turn r = (case row_state r of None \<Rightarrow> False | Some s \<Rightarrow> \<not> is_terminal s)"

text \<open>The active turn of an actor, its lease owner and its lease end are set together.\<close>

definition lease_shape :: "actor_row \<Rightarrow> bool" where
  "lease_shape a \<longleftrightarrow>
     (aw_active_turn_id a = None \<longleftrightarrow> aw_lease_owner a = None) \<and>
     (aw_active_turn_id a = None \<longleftrightarrow> aw_lease_until_ms a = None)"

text \<open>The actor's active turn is the row: same tenant, same actor, and the actor names it.\<close>

definition holds_turn :: "actor_row \<Rightarrow> turn_row \<Rightarrow> bool" where
  "holds_turn a r \<longleftrightarrow> actor_key_of a = actor_of_turn r \<and> aw_active_turn_id a = Some (tw_turn_id r)"

definition turns_inv :: "turn_db \<Rightarrow> bool" where
  "turns_inv db \<longleftrightarrow>
     distinct (map turn_key (td_turns db)) \<and> distinct (map idempotency_key_of (td_turns db)) \<and>
     distinct (map actor_key_of (td_actors db)) \<and>
     (\<forall>r \<in> set (td_turns db). row_state r \<noteq> None \<and> 0 \<le> tw_revision r) \<and>
     (\<forall>a \<in> set (td_actors db). lease_shape a) \<and>
     (\<forall>a \<in> set (td_actors db). aw_active_turn_id a \<noteq> None \<longrightarrow>
        (\<exists>r \<in> set (td_turns db). live_turn r \<and> holds_turn a r)) \<and>
     (\<forall>r \<in> set (td_turns db). live_turn r \<longrightarrow> (\<exists>a \<in> set (td_actors db). holds_turn a r))"

definition step_events :: "outbox_row \<Rightarrow> outbox_row \<Rightarrow> bool" where
  "step_events p q \<longleftrightarrow>
     (\<exists>s s'. ow_event_type p = state_event_type s \<and> ow_event_type q = state_event_type s' \<and> can_transition_to s s')"

text \<open>Every outbox row belongs to a turn and is not ahead of it; the newest carries its state.\<close>

definition history_current :: "turn_row list \<Rightarrow> outbox_row list \<Rightarrow> bool" where
  "history_current turns rows \<longleftrightarrow>
     (\<forall>p \<in> set rows. \<exists>r \<in> set turns. turn_key r = turn_of_outbox p \<and> ow_revision p \<le> tw_revision r \<and>
        (ow_revision p = tw_revision r \<longrightarrow> ow_event_type p = ''turn.state.'' @ tw_state r))"

text \<open>Every revision of a turn has its row.\<close>

definition history_complete :: "turn_row list \<Rightarrow> outbox_row list \<Rightarrow> bool" where
  "history_complete turns rows \<longleftrightarrow>
     (\<forall>r \<in> set turns. \<forall>n. 0 \<le> n \<longrightarrow> n \<le> tw_revision r \<longrightarrow>
        (\<exists>p \<in> set rows. turn_of_outbox p = turn_key r \<and> ow_revision p = n))"

text \<open>Commit order is revision order, and successive revisions are transitions of the state machine.\<close>

definition history_path :: "outbox_row list \<Rightarrow> bool" where
  "history_path rows \<longleftrightarrow>
     sorted_wrt (\<lambda>p q. turn_of_outbox p = turn_of_outbox q \<longrightarrow>
       ow_revision p < ow_revision q \<and> (ow_revision q = ow_revision p + 1 \<longrightarrow> step_events p q)) rows \<and>
     (\<forall>p \<in> set rows. ow_revision p = 0 \<longrightarrow>
        ow_event_type p \<in> {state_event_type Accepted, state_event_type WaitingApproval})"

definition history_inv :: "turn_db \<Rightarrow> bool" where
  "history_inv db \<longleftrightarrow>
     history_current (td_turns db) (td_outbox db) \<and> history_complete (td_turns db) (td_outbox db) \<and>
     history_path (td_outbox db)"

lemmas history_defs = history_inv_def history_current_def history_complete_def history_path_def

definition store_inv :: "turn_db \<Rightarrow> bool" where
  "store_inv db \<longleftrightarrow> outbox_inv db \<and> turns_inv db \<and> history_inv db"

definition empty_store :: "turn_db \<Rightarrow> bool" where
  "empty_store db \<longleftrightarrow>
     td_actors db = [] \<and> td_turns db = [] \<and> td_outbox db = [] \<and> td_order db = [] \<and>
     td_sequence db = None \<and> td_verified db = [] \<and> td_quarantine db = []"

lemma empty_store_inv: "empty_store db \<Longrightarrow> store_inv db"
  by (simp add: empty_store_def store_inv_def outbox_inv_def turns_inv_def history_defs sql_max_def)

lemma parse_state_name [simp]: "parse_state (state_name s) = Inr s"
  by (cases s) (simp_all add: parse_state_def)

lemma parse_state_ok: "parse_state n = Inr s \<Longrightarrow> n = state_name s"
  by (auto simp: parse_state_def split: if_splits)

lemma row_state_Some [simp]: "row_state r = Some s \<longleftrightarrow> tw_state r = state_name s"
  by (auto simp: row_state_def parse_state_ok split: sum.splits)

lemma state_name_inject [simp]: "state_name s = state_name t \<longleftrightarrow> s = t"
  by (metis parse_state_name sum.inject(2))

lemma live_turn_state: "tw_state r = state_name s \<Longrightarrow> live_turn r \<longleftrightarrow> \<not> is_terminal s"
  by (simp add: live_turn_def row_state_def)

subsection \<open>An idle actor is added\<close>

lemma store_inv_actor_added:
  assumes inv: "store_inv db" and "actor_key_of a \<notin> set (map actor_key_of (td_actors db))"
    and "aw_active_turn_id a = None" and "lease_shape a"
  shows "store_inv (db\<lparr>td_actors := td_actors db @ [a]\<rparr>)"
  using assms by (auto simp: store_inv_def outbox_inv_def turns_inv_def history_inv_def)

subsection \<open>A live turn moves\<close>

definition same_turn :: "turn_row \<Rightarrow> turn_row \<Rightarrow> bool" where
  "same_turn r r' \<longleftrightarrow>
     turn_key r' = turn_key r \<and> idempotency_key_of r' = idempotency_key_of r \<and> actor_of_turn r' = actor_of_turn r"

definition turn_moved :: "turn_row \<Rightarrow> turn_state \<Rightarrow> turn_row \<Rightarrow> turn_state \<Rightarrow> turn_db \<Rightarrow> turn_db \<Rightarrow> bool" where
  "turn_moved r s r' s' db db' \<longleftrightarrow>
     (\<exists>xs ys as bs a a'.
        td_turns db = xs @ r # ys \<and> td_actors db = as @ a # bs \<and>
        same_turn r r' \<and> row_state r = Some s \<and> row_state r' = Some s' \<and> can_transition_to s s' \<and>
        tw_revision r' = tw_revision r + 1 \<and>
        holds_turn a r \<and> actor_key_of a' = actor_key_of a \<and> lease_shape a' \<and>
        aw_active_turn_id a' = (if is_terminal s' then None else Some (tw_turn_id r)) \<and>
        db' = db\<lparr>td_turns := xs @ r' # ys, td_actors := as @ a' # bs\<rparr>)"

lemma turns_inv_active:
  "turns_inv db \<Longrightarrow> a \<in> set (td_actors db) \<Longrightarrow> aw_active_turn_id a \<noteq> None \<Longrightarrow>
     \<exists>r \<in> set (td_turns db). live_turn r \<and> holds_turn a r"
  by (simp add: turns_inv_def)

lemma turns_inv_live:
  "turns_inv db \<Longrightarrow> r \<in> set (td_turns db) \<Longrightarrow> live_turn r \<Longrightarrow> \<exists>a \<in> set (td_actors db). holds_turn a r"
  by (simp add: turns_inv_def)

lemma turns_inv_key:
  "turns_inv db \<Longrightarrow> r \<in> set (td_turns db) \<Longrightarrow> r' \<in> set (td_turns db) \<Longrightarrow> turn_key r = turn_key r' \<Longrightarrow> r = r'"
  by (auto simp: turns_inv_def distinct_map inj_on_def)

lemma not_terminal_source: "can_transition_to s s' \<Longrightarrow> \<not> is_terminal s"
  by (cases s) (simp_all add: can_transition_to_def)

lemma turn_moved_turns_inv:
  assumes inv: "turns_inv db" and move: "turn_moved r s r' s' db db'"
  shows "turns_inv db'"
proof -
  obtain xs ys as bs a a' where m:
    "td_turns db = xs @ r # ys" "td_actors db = as @ a # bs" "same_turn r r'"
    "tw_state r = state_name s" "tw_state r' = state_name s'" "can_transition_to s s'"
    "tw_revision r' = tw_revision r + 1" "holds_turn a r" "actor_key_of a' = actor_key_of a" "lease_shape a'"
    "aw_active_turn_id a' = (if is_terminal s' then None else Some (tw_turn_id r))"
    "db' = db\<lparr>td_turns := xs @ r' # ys, td_actors := as @ a' # bs\<rparr>"
    using move by (auto simp: turn_moved_def)
  have keys: "map turn_key (td_turns db') = map turn_key (td_turns db)"
    "map idempotency_key_of (td_turns db') = map idempotency_key_of (td_turns db)"
    "map actor_key_of (td_actors db') = map actor_key_of (td_actors db)"
    using m by (simp_all add: same_turn_def)
  have other_actors: "actor_key_of b \<noteq> actor_of_turn r" if "b \<in> set (as @ bs)" for b
    using distinct_key_others [of actor_key_of as a bs b] inv m(2,8) that by (simp add: turns_inv_def holds_turn_def)
  have other_turns: "turn_key r0 \<noteq> turn_key r" if "r0 \<in> set (xs @ ys)" for r0
    using distinct_key_others [of turn_key xs r ys r0] inv m(1) that by (simp add: turns_inv_def)
  have live: "live_turn r' \<longleftrightarrow> \<not> is_terminal s'" and held: "\<not> is_terminal s' \<Longrightarrow> holds_turn a' r'"
    using m by (auto simp: live_turn_state holds_turn_def same_turn_def turn_key_def)
  have "\<exists>r0 \<in> set (xs @ r' # ys). live_turn r0 \<and> holds_turn b r0"
    if b: "b \<in> set (as @ a' # bs)" "aw_active_turn_id b \<noteq> None" for b
  proof (cases "b = a'")
    case True
    then show ?thesis
      using b(2) m(11) live held by (auto split: if_splits)
  next
    case False
    then have b': "b \<in> set (as @ bs)"
      using b(1) by auto
    then obtain r0 where "r0 \<in> set (td_turns db)" "live_turn r0" "holds_turn b r0"
      using turns_inv_active [OF inv, of b] b(2) m(2) by auto
    moreover have "r0 \<noteq> r"
      using \<open>holds_turn b r0\<close> other_actors [OF b'] by (auto simp: holds_turn_def)
    ultimately show ?thesis
      using m(1) by auto
  qed
  moreover have "\<exists>b \<in> set (as @ a' # bs). holds_turn b r0"
    if r0: "r0 \<in> set (xs @ r' # ys)" "live_turn r0" for r0
  proof (cases "r0 = r'")
    case True
    then show ?thesis
      using r0(2) live held by auto
  next
    case False
    then have r0': "r0 \<in> set (xs @ ys)"
      using r0(1) by auto
    then obtain b where "b \<in> set (td_actors db)" "holds_turn b r0"
      using turns_inv_live [OF inv, of r0] r0(2) m(1) by auto
    moreover have "b \<noteq> a"
      using \<open>holds_turn b r0\<close> other_turns [OF r0'] m(8)
      by (auto simp: holds_turn_def turn_key_def actor_of_turn_def)
    ultimately show ?thesis
      using m(2) by auto
  qed
  moreover have "\<forall>r0 \<in> set (td_turns db'). row_state r0 \<noteq> None \<and> 0 \<le> tw_revision r0"
    "\<forall>b \<in> set (td_actors db'). lease_shape b"
    using inv m by (auto simp: turns_inv_def)
  ultimately show ?thesis
    using inv keys m(12) by (simp add: turns_inv_def)
qed

text \<open>The outbox row of the move: same turn, next revision, new state.\<close>

definition move_event :: "turn_row \<Rightarrow> turn_state \<Rightarrow> outbox_row \<Rightarrow> bool" where
  "move_event r' s' p \<longleftrightarrow>
     turn_of_outbox p = turn_key r' \<and> ow_revision p = tw_revision r' \<and> ow_event_type p = state_event_type s'"

lemma turn_moved_split:
  assumes "turn_moved r s r' s' db db'"
  obtains xs ys where "td_turns db = xs @ r # ys" "td_turns db' = xs @ r' # ys" "same_turn r r'"
    "tw_state r = state_name s" "tw_state r' = state_name s'" "can_transition_to s s'"
    "tw_revision r' = tw_revision r + 1" "td_outbox db' = td_outbox db"
  using assms by (auto simp: turn_moved_def)

lemma outbox_below:
  assumes turns: "turns_inv db" and cur: "history_current (td_turns db) (td_outbox db)"
    and r: "r \<in> set (td_turns db)" and q: "q \<in> set (td_outbox db)" "turn_of_outbox q = turn_key r"
  shows "ow_revision q \<le> tw_revision r \<and> (ow_revision q = tw_revision r \<longrightarrow> ow_event_type q = ''turn.state.'' @ tw_state r)"
proof -
  obtain r0 where r0: "r0 \<in> set (td_turns db)" "turn_key r0 = turn_of_outbox q" "ow_revision q \<le> tw_revision r0"
    "ow_revision q = tw_revision r0 \<longrightarrow> ow_event_type q = ''turn.state.'' @ tw_state r0"
    using cur q(1) by (auto simp: history_current_def)
  then have "r0 = r"
    using turns_inv_key [OF turns r0(1) r] q(2) by simp
  then show ?thesis
    using r0 by simp
qed

lemma turn_moved_current:
  assumes turns: "turns_inv db" and inv: "history_current (td_turns db) (td_outbox db)"
    and move: "turn_moved r s r' s' db db'" and p: "move_event r' s' p"
  shows "history_current (td_turns db') (td_outbox db' @ [p])"
  unfolding history_current_def
proof
  obtain xs ys where m: "td_turns db = xs @ r # ys" "td_turns db' = xs @ r' # ys" "same_turn r r'"
    "tw_state r' = state_name s'" "tw_revision r' = tw_revision r + 1" "td_outbox db' = td_outbox db"
    using move by (rule turn_moved_split)
  fix q assume q: "q \<in> set (td_outbox db' @ [p])"
  show "\<exists>r0 \<in> set (td_turns db'). turn_key r0 = turn_of_outbox q \<and> ow_revision q \<le> tw_revision r0 \<and>
      (ow_revision q = tw_revision r0 \<longrightarrow> ow_event_type q = ''turn.state.'' @ tw_state r0)"
  proof (cases "turn_of_outbox q = turn_key r'")
    case True
    have "q \<noteq> p \<Longrightarrow> ow_revision q \<le> tw_revision r"
      using outbox_below [OF turns inv, of r q] True q m by (auto simp: same_turn_def)
    then show ?thesis
      using True m p by (intro bexI [of _ r']; cases "q = p") (auto simp: move_event_def state_event_type_def)
  next
    case False
    then have "q \<in> set (td_outbox db)"
      using q p m(6) by (auto simp: move_event_def)
    then obtain r0 where "r0 \<in> set (td_turns db)" "turn_key r0 = turn_of_outbox q" "ow_revision q \<le> tw_revision r0"
      "ow_revision q = tw_revision r0 \<longrightarrow> ow_event_type q = ''turn.state.'' @ tw_state r0"
      using inv by (auto simp: history_current_def)
    then show ?thesis
      using False m by (intro bexI [of _ r0]) (auto simp: same_turn_def)
  qed
qed

lemma turn_moved_complete:
  assumes inv: "history_complete (td_turns db) (td_outbox db)"
    and move: "turn_moved r s r' s' db db'" and p: "move_event r' s' p"
  shows "history_complete (td_turns db') (td_outbox db' @ [p])"
  unfolding history_complete_def
proof (intro ballI allI impI)
  obtain xs ys where m: "td_turns db = xs @ r # ys" "td_turns db' = xs @ r' # ys" "same_turn r r'"
    "tw_revision r' = tw_revision r + 1" "td_outbox db' = td_outbox db"
    using move by (rule turn_moved_split)
  fix r0 k assume r0: "r0 \<in> set (td_turns db')" and k: "0 \<le> k" "k \<le> tw_revision r0"
  show "\<exists>q \<in> set (td_outbox db' @ [p]). turn_of_outbox q = turn_key r0 \<and> ow_revision q = k"
  proof (cases "r0 = r' \<and> k = tw_revision r'")
    case True
    then show ?thesis
      using p by (auto simp: move_event_def)
  next
    case False
    define r1 where "r1 = (if r0 = r' then r else r0)"
    have "r1 \<in> set (td_turns db)" "k \<le> tw_revision r1" "turn_key r1 = turn_key r0"
      using False r0 k m by (auto simp: r1_def same_turn_def)
    then have "\<exists>q \<in> set (td_outbox db). turn_of_outbox q = turn_key r0 \<and> ow_revision q = k"
      using inv k(1) unfolding history_complete_def by metis
    then show ?thesis
      using m(5) by auto
  qed
qed

lemma turn_moved_path:
  assumes turns: "turns_inv db" and cur: "history_current (td_turns db) (td_outbox db)"
    and inv: "history_path (td_outbox db)"
    and move: "turn_moved r s r' s' db db'" and p: "move_event r' s' p"
  shows "history_path (td_outbox db' @ [p])"
proof -
  obtain xs ys where m: "td_turns db = xs @ r # ys" "same_turn r r'" "tw_state r = state_name s"
    "can_transition_to s s'" "tw_revision r' = tw_revision r + 1" "td_outbox db' = td_outbox db"
    using move by (rule turn_moved_split)
  have r: "r \<in> set (td_turns db)" "0 \<le> tw_revision r"
    using turns m(1) by (auto simp: turns_inv_def)
  have "ow_revision q < ow_revision p \<and> (ow_revision p = ow_revision q + 1 \<longrightarrow> step_events q p)"
    if "q \<in> set (td_outbox db)" "turn_of_outbox q = turn_of_outbox p" for q
    using outbox_below [OF turns cur r(1) that(1)] that(2) p m
    by (auto simp: move_event_def same_turn_def step_events_def state_event_type_def)
  then show ?thesis
    using inv r(2) p m(5,6) by (auto simp: history_path_def sorted_wrt_append move_event_def)
qed

lemma turn_moved_outbox_inv: "outbox_inv db \<Longrightarrow> turn_moved r s r' s' db db' \<Longrightarrow> outbox_inv db'"
  by (auto simp: turn_moved_def outbox_inv_def)

lemma store_inv_turn_moved:
  assumes inv: "store_inv db" and move: "turn_moved r s r' s' db db'" and p: "move_event r' s' p"
    and new: "fresh_row p db'"
  shows "store_inv (appended p (next_ordinal db') db')"
proof -
  have "outbox_inv db'"
    using inv move turn_moved_outbox_inv by (auto simp: store_inv_def)
  then have "outbox_inv (appended p (next_ordinal db') db')"
    using new by (rule appended_inv)
  moreover have "turns_inv db'"
    using inv move turn_moved_turns_inv by (auto simp: store_inv_def)
  moreover have "history_inv (appended p (next_ordinal db') db')"
    using inv turn_moved_current [OF _ _ move p] turn_moved_complete [OF _ move p] turn_moved_path [OF _ _ _ move p]
    by (simp add: store_inv_def history_inv_def appended_def)
  ultimately show ?thesis
    by (simp add: store_inv_def turns_inv_def appended_def)
qed

subsection \<open>A turn is created\<close>

definition turn_created :: "turn_row \<Rightarrow> turn_db \<Rightarrow> turn_db \<Rightarrow> bool" where
  "turn_created r db db' \<longleftrightarrow>
     (\<exists>as bs a a'.
        td_actors db = as @ a # bs \<and> turn_key r \<notin> set (map turn_key (td_turns db)) \<and>
        idempotency_key_of r \<notin> set (map idempotency_key_of (td_turns db)) \<and>
        tw_revision r = 0 \<and> tw_state r \<in> {state_name Accepted, state_name WaitingApproval} \<and>
        actor_key_of a = actor_of_turn r \<and> aw_active_turn_id a = None \<and>
        holds_turn a' r \<and> lease_shape a' \<and>
        db' = db\<lparr>td_turns := td_turns db @ [r], td_actors := as @ a' # bs\<rparr>)"

lemma turn_created_turns_inv:
  assumes inv: "turns_inv db" and new: "turn_created r db db'"
  shows "turns_inv db'"
proof -
  obtain as bs a a' where m: "td_actors db = as @ a # bs" "turn_key r \<notin> set (map turn_key (td_turns db))"
    "idempotency_key_of r \<notin> set (map idempotency_key_of (td_turns db))" "tw_revision r = 0"
    "tw_state r \<in> {state_name Accepted, state_name WaitingApproval}"
    "actor_key_of a = actor_of_turn r" "aw_active_turn_id a = None" "holds_turn a' r" "lease_shape a'"
    "db' = db\<lparr>td_turns := td_turns db @ [r], td_actors := as @ a' # bs\<rparr>"
    using new by (auto simp: turn_created_def)
  have state: "row_state r \<noteq> None" "live_turn r"
    using m(5) by (auto simp: row_state_def parse_state_def live_turn_state [of r Accepted]
        live_turn_state [of r WaitingApproval])
  have keys: "map actor_key_of (as @ a' # bs) = map actor_key_of (td_actors db)"
    using m(1,6,8) by (simp add: holds_turn_def)
  have "\<exists>r0 \<in> set (td_turns db @ [r]). live_turn r0 \<and> holds_turn b r0"
    if "b \<in> set (as @ a' # bs)" "aw_active_turn_id b \<noteq> None" for b
    using that turns_inv_active [OF inv, of b] m(1,8) state(2) by (cases "b = a'") auto
  moreover have "\<exists>b \<in> set (as @ a' # bs). holds_turn b r0"
    if r0: "r0 \<in> set (td_turns db @ [r])" "live_turn r0" for r0
  proof (cases "r0 = r")
    case False
    then obtain b where b: "b \<in> set (td_actors db)" "holds_turn b r0"
      using r0 turns_inv_live [OF inv, of r0] by auto
    then have "b \<noteq> a"
      using m(7) by (auto simp: holds_turn_def)
    then show ?thesis
      using b m(1) by auto
  qed (use m(8) in auto)
  moreover have "\<forall>b \<in> set (as @ a' # bs). lease_shape b"
    using inv m(1,9) by (auto simp: turns_inv_def)
  ultimately show ?thesis
    using inv m(2,3,4,10) state(1) keys by (simp add: turns_inv_def)
qed

lemma store_inv_turn_created:
  assumes inv: "store_inv db" and new: "turn_created r db db'" and p: "turn_of_outbox p = turn_key r"
    "ow_revision p = 0" "ow_event_type p = ''turn.state.'' @ tw_state r" and fresh: "fresh_row p db'"
  shows "store_inv (appended p (next_ordinal db') db')"
proof -
  have m: "td_turns db' = td_turns db @ [r]" "td_outbox db' = td_outbox db" "tw_revision r = 0"
    "tw_state r \<in> {state_name Accepted, state_name WaitingApproval}"
    "turn_key r \<notin> set (map turn_key (td_turns db))"
    using new by (auto simp: turn_created_def)
  have none: "turn_of_outbox q \<noteq> turn_key r" if q: "q \<in> set (td_outbox db)" for q
  proof -
    obtain r0 where "r0 \<in> set (td_turns db)" "turn_key r0 = turn_of_outbox q"
      using inv q by (auto simp: store_inv_def history_inv_def history_current_def)
    then have "turn_of_outbox q \<in> turn_key ` set (td_turns db)"
      by (metis image_eqI)
    then show ?thesis
      using m(5) by auto
  qed
  have "outbox_inv db'"
    using inv new by (auto simp: store_inv_def turn_created_def outbox_inv_def)
  then have "outbox_inv (appended p (next_ordinal db') db')"
    using fresh by (rule appended_inv)
  moreover have "turns_inv db'"
    using inv new turn_created_turns_inv by (auto simp: store_inv_def)
  moreover have "history_current (td_turns db @ [r]) (td_outbox db @ [p])"
    using inv p m(3) unfolding store_inv_def history_inv_def history_current_def by fastforce
  moreover have "history_complete (td_turns db @ [r]) (td_outbox db @ [p])"
    using inv p m(3) unfolding store_inv_def history_inv_def history_complete_def by fastforce
  moreover have "history_path (td_outbox db @ [p])"
    using inv p none m(4) by (auto simp: store_inv_def history_inv_def history_path_def sorted_wrt_append
        state_event_type_def)
  ultimately show ?thesis
    using m(1,2) by (simp add: store_inv_def turns_inv_def history_inv_def appended_def)
qed

end
