(* ===== verification/Turn_Operations.thy ===== *)
theory Turn_Operations
  imports Turn_Invariant
begin

text \<open>
  What the operations of the turn store do: each successful admission, transition or recovery is
  one of the basic changes of \<open>Turn_Invariant\<close> followed by one outbox row. From this follow the
  invariant of every reachable state, the lease discipline and the idempotency of admission.
\<close>

subsection \<open>Loaded records\<close>

definition represents :: "turn_row \<Rightarrow> durable_turn_record \<Rightarrow> bool" where
  "represents r rec \<longleftrightarrow>
     dt_tenant_id rec = tw_tenant_id r \<and> dt_turn_id rec = tw_turn_id r \<and> dt_actor_key rec = tw_actor_key r \<and>
     dt_idempotency_key rec = tw_idempotency_key r \<and> dt_request_hash rec = tw_request_hash r \<and>
     dt_authority_hash rec = tw_authority_hash r \<and> dt_deadline rec = milliseconds (tw_deadline_ms r) \<and>
     dt_updated_at rec = milliseconds (tw_updated_at_ms r) \<and> 0 \<le> tw_revision r \<and>
     tw_state r = state_name (vts_state (dt_state rec)) \<and>
     vts_revision (dt_state rec) = word_of_int (tw_revision r)"

lemma materialize_turn_ok: "materialize_turn L r = Inr rec \<Longrightarrow> represents r rec"
  unfolding materialize_turn_def represents_def
  by (auto simp: result_simps restore_def dest!: parse_state_ok)

lemma load_by_idempotency_ok:
  "load_by_idempotency L t k db = Inr (Some rec) \<Longrightarrow>
     \<exists>r \<in> set (td_turns db). turn_keyed t k r \<and> materialize_turn L r = Inr rec \<and> represents r rec"
  by (auto simp: load_by_idempotency_def result_simps materialize_turn_ok dest!: find_in_set)

lemma require_turn_ok:
  "require_turn L t i db = Inr rec \<longleftrightarrow>
     (\<exists>r. find (turn_at t i) (td_turns db) = Some r \<and> materialize_turn L r = Inr rec)"
  by (auto simp: require_turn_def load_turn_def result_simps optional_map_def split: option.splits)

lemma find_turn_at:
  "find (turn_at t i) (td_turns db) = Some r \<Longrightarrow> r \<in> set (td_turns db) \<and> turn_key r = (t, i)"
  by (auto simp: turn_at_def turn_key_def dest!: find_split)

lemma require_turn_row:
  assumes "require_turn L t i db = Inr rec"
  shows "\<exists>r \<in> set (td_turns db). represents r rec \<and> turn_key r = (t, i) \<and> materialize_turn L r = Inr rec"
  using assms by (auto simp: require_turn_ok dest: find_turn_at materialize_turn_ok)

text \<open>What the loaded actor says of its row.\<close>

definition shows_actor :: "actor_row \<Rightarrow> turn_actor_record \<Rightarrow> bool" where
  "shows_actor a rec \<longleftrightarrow>
     ar_active_turn_id rec = aw_active_turn_id a \<and> ar_lease_owner rec = aw_lease_owner a \<and>
     ar_lease_until rec = map_option milliseconds (aw_lease_until_ms a)"

lemma sql_conversion_ok [result_simps]: "sql_conversion r = Inr x \<longleftrightarrow> r = Inr x"
  by (simp add: sql_conversion_def result_simps)

lemma load_actor_ok:
  assumes "load_actor L t k db = Inr (Some rec)"
  shows "\<exists>a \<in> set (td_actors db). actor_key_of a = (t, k) \<and> shows_actor a rec"
proof -
  obtain a where a: "find (actor_at t k) (td_actors db) = Some a" "row_to_actor L a = Inr rec"
    using assms by (auto simp: load_actor_def result_simps)
  then have "shows_actor a rec"
    by (auto simp: row_to_actor_def shows_actor_def result_simps)
  then show ?thesis
    using a(1) by (auto simp: actor_at_def actor_key_of_def dest!: find_split)
qed

lemma none_or_passed_ms: "\<not> none_or_passed (map_option milliseconds v) now \<longleftrightarrow> (\<exists>u. v = Some u \<and> timestamp_millis now < u)"
  by (cases v) (auto simp: none_or_passed_def milliseconds_le)

lemma verify_actor_lease_ok:
  assumes "verify_actor_lease L cur w now db = Inr u"
  shows "\<exists>a \<in> set (td_actors db). actor_key_of a = (dt_tenant_id cur, dt_actor_key cur) \<and>
    aw_active_turn_id a = Some (dt_turn_id cur) \<and> aw_lease_owner a = Some w \<and>
    (\<exists>u. aw_lease_until_ms a = Some u \<and> timestamp_millis now < u)"
proof -
  obtain rec where rec: "load_actor L (dt_tenant_id cur) (dt_actor_key cur) db = Inr (Some rec)"
    "ar_active_turn_id rec = Some (dt_turn_id cur)" "ar_lease_owner rec = Some w" "\<not> none_or_passed (ar_lease_until rec) now"
    using assms by (auto simp: verify_actor_lease_def result_simps split: if_splits)
  then show ?thesis
    using load_actor_ok [OF rec(1)] by (auto simp: shows_actor_def none_or_passed_ms)
qed

lemma actor_unique:
  "turns_inv db \<Longrightarrow> a \<in> set (td_actors db) \<Longrightarrow> b \<in> set (td_actors db) \<Longrightarrow> actor_key_of a = actor_key_of b \<Longrightarrow> a = b"
  by (auto simp: turns_inv_def distinct_map inj_on_def)

subsection \<open>One compare-and-swap on a turn and its actor\<close>

lemma turn_cas_split:
  assumes inv: "turns_inv db" and upd: "update_turn (turn_cas t i s n) f db = Inr db'"
  obtains xs r ys where "td_turns db = xs @ r # ys" "turn_key r = (t, i)" "tw_state r = state_name s" "tw_revision r = n"
    "db' = db\<lparr>td_turns := xs @ f r # ys\<rparr>"
proof -
  have "length (filter (turn_cas t i s n) (td_turns db)) = 1"
    "db' = db\<lparr>td_turns := update_where (turn_cas t i s n) f (td_turns db)\<rparr>"
    using upd by (auto simp: update_turn_def split: if_splits)
  then show thesis
    using update_where_one [of "turn_cas t i s n" "td_turns db" f] that
    by (auto simp: turn_cas_def turn_at_def turn_key_def)
qed

lemma update_actor_split:
  assumes "update_actor P f e db = Inr db'"
  obtains as a bs where "td_actors db = as @ a # bs" "P a" "db' = db\<lparr>td_actors := as @ f a # bs\<rparr>"
  using assms update_where_one [of P "td_actors db" f]
  by (auto simp: update_actor_def split: if_splits)

lemma move_turn_same: "same_turn r (move_turn s n j h ms r)"
  by (simp add: same_turn_def move_turn_def turn_key_def idempotency_key_of_def actor_of_turn_def)

lemma set_actor_lease_simps [simp]:
  "actor_key_of (set_actor_lease i w u ms a) = actor_key_of a"
  "aw_active_turn_id (set_actor_lease i w u ms a) = i"
  "aw_lease_owner (set_actor_lease i w u ms a) = w"
  "aw_lease_until_ms (set_actor_lease i w u ms a) = u"
  by (simp_all add: set_actor_lease_def actor_key_of_def)

definition recorded_move :: "turn_row \<Rightarrow> turn_state \<Rightarrow> turn_row \<Rightarrow> turn_state \<Rightarrow> turn_db \<Rightarrow> turn_db \<Rightarrow> bool" where
  "recorded_move r s r' s' db db' \<longleftrightarrow>
     (\<exists>db1 p. turn_moved r s r' s' db db1 \<and> move_event r' s' p \<and> fresh_row p db1 \<and>
        db' = appended p (next_ordinal db1) db1)"

lemma recorded_move_inv: "store_inv db \<Longrightarrow> recorded_move r s r' s' db db' \<Longrightarrow> store_inv db'"
  by (auto simp: recorded_move_def intro: store_inv_turn_moved)

lemma uint_of_int_small: "0 \<le> n \<Longrightarrow> n < 2 ^ 64 \<Longrightarrow> uint (word_of_int n :: u64) = n"
  by (simp add: uint_word_of_int)

lemma record_move:
  assumes inv: "store_inv db" and move: "turn_moved r s r' s' db db1"
    and key: "turn_key r' = (t, i)" and small: "tw_revision r' < 2 ^ 64"
    and load: "require_turn L t i db1 = Inr rec" and ins: "insert_outbox L rec prev h now db1 = Inr db'"
  shows "recorded_move r s r' s' db db' \<and> represents r' rec"
proof -
  have inv1: "turns_inv db1" "outbox_inv db1"
    using inv turn_moved_turns_inv [OF _ move] turn_moved_outbox_inv [OF _ move] by (simp_all add: store_inv_def)
  have r': "r' \<in> set (td_turns db1)" "tw_state r' = state_name s'"
    using move by (auto simp: turn_moved_def)
  have rep: "represents r' rec"
    using require_turn_row [OF load] turns_inv_key [OF inv1(1) r'(1)] key by auto
  then have rev: "uint (vts_revision (dt_state rec)) = tw_revision r'" "vts_state (dt_state rec) = s'"
    using small r'(2) uint_of_int_small [of "tw_revision r'"] by (simp_all add: represents_def)
  obtain p where p: "fresh_row p db1" "db' = appended p (next_ordinal db1) db1"
    "p = new_outbox_row L rec prev h (milliseconds (timestamp_millis now)) (uint (vts_revision (dt_state rec))) (timestamp_millis now)"
    using insert_outbox_ok [OF inv1(2) ins] by blast
  have "move_event r' s' p"
    using rep rev unfolding p(3)
    by (simp add: move_event_def new_outbox_row_def Let_def turn_of_outbox_def turn_key_def represents_def)
  then show ?thesis
    using move p rep by (auto simp: recorded_move_def)
qed

lemma uint_succ: "unat (w :: u64) = unat v + 1 \<Longrightarrow> uint w = uint v + 1"
  by (metis of_nat_1 of_nat_add uint_nat)

text \<open>An actor row that was leased to the turn and is updated together with it.\<close>

lemma cas_moves:
  assumes turns: "turns_inv db" and r: "td_turns db = xs @ r # ys" "tw_state r = state_name s"
    and edge: "can_transition_to s s'"
    and db1: "db1 = db\<lparr>td_turns := xs @ move_turn s' (tw_revision r + 1) j h ms r # ys\<rparr>"
    and upd: "update_actor P (set_actor_lease act own u ms) e db1 = Inr db2" and P: "\<And>a. P a \<Longrightarrow> holds_turn a r"
    and shape: "(act, own, u) = (if is_terminal s' then (None, None, None) else (Some (tw_turn_id r), Some w, Some u'))"
  shows "turn_moved r s (move_turn s' (tw_revision r + 1) j h ms r) s' db db2 \<and>
    (\<exists>a \<in> set (td_actors db). P a)"
proof -
  obtain as a bs where a: "td_actors db1 = as @ a # bs" "P a"
    "db2 = db1\<lparr>td_actors := as @ set_actor_lease act own u ms a # bs\<rparr>"
    using upd by (rule update_actor_split)
  have "lease_shape (set_actor_lease act own u ms a)" "act = (if is_terminal s' then None else Some (tw_turn_id r))"
    using shape by (auto simp: lease_shape_def split: if_splits)
  then have "turn_moved r s (move_turn s' (tw_revision r + 1) j h ms r) s' db db2"
    unfolding turn_moved_def using a r edge P [OF a(2)] db1
    by (intro exI [of _ xs] exI [of _ ys] exI [of _ as] exI [of _ bs] exI [of _ a]
        exI [of _ "set_actor_lease act own u ms a"]) (simp add: move_turn_same, simp add: move_turn_def)
  then show ?thesis
    using a(1,2) db1 by auto
qed

lemma transition_moves:
  assumes inv: "store_inv db"
    and ok: "transition_inner L t i w s n next res now db = Inr (rec, db')"
  shows "\<exists>r r' a. recorded_move r s r' next db db' \<and> represents r' rec \<and> turn_key r = (t, i) \<and>
    r \<in> set (td_turns db) \<and> tw_revision r = uint n \<and> a \<in> set (td_actors db) \<and> holds_turn a r \<and>
    aw_lease_owner a = Some w \<and> (\<exists>u. aw_lease_until_ms a = Some u \<and> timestamp_millis now < u)"
proof -
  obtain cur next' j h db1 db2 where st:
    "require_turn L t i db = Inr cur" "verify_actor_lease L cur w now db = Inr ()"
    "compare_and_transition (dt_state cur) s n next = Inr next'"
    "update_turn (turn_cas t i s (uint n)) (move_turn next (uint (vts_revision next')) j h (timestamp_millis now)) db = Inr db1"
    "update_actor_after_transition cur w next now db1 = Inr db2"
    "require_turn L t i db2 = Inr rec" "insert_outbox L rec (Some s) h now db2 = Inr db'"
    using ok unfolding transition_inner_def Let_def by (auto simp: result_simps split: if_splits)
  have turns: "turns_inv db"
    using inv by (simp add: store_inv_def)
  have cas: "can_transition_to s next" "uint (vts_revision next') = uint n + 1"
    using st(3) uint_succ by (auto simp: compare_and_transition_Inr)
  obtain xs r ys where r: "td_turns db = xs @ r # ys" "turn_key r = (t, i)" "tw_state r = state_name s" "tw_revision r = uint n"
    "db1 = db\<lparr>td_turns := xs @ move_turn next (tw_revision r + 1) j h (timestamp_millis now) r # ys\<rparr>"
    using turn_cas_split [OF turns st(4)] cas(2) by metis
  have rep: "represents r cur"
    using require_turn_row [OF st(1)] turns_inv_key [OF turns, of _ r] r(1,2) by auto
  define P where "P = (\<lambda>a. actor_at (dt_tenant_id cur) (dt_actor_key cur) a \<and>
      aw_active_turn_id a = Some (dt_turn_id cur) \<and> aw_lease_owner a = Some w)"
  have P: "P a \<Longrightarrow> holds_turn a r \<and> aw_lease_owner a = Some w" for a
    using rep by (auto simp: P_def holds_turn_def represents_def actor_at_def actor_key_of_def actor_of_turn_def)
  obtain act own u where lease: "update_actor P (set_actor_lease act own u (timestamp_millis now)) (ActorLeaseLost w) db1 = Inr db2"
    "(act, own, u) = (if is_terminal next then (None, None, None)
       else (Some (tw_turn_id r), Some w, Some (timestamp_millis (dt_deadline cur))))"
    using st(5) rep unfolding update_actor_after_transition_def P_def [symmetric]
    by (cases "is_terminal next") (simp_all add: represents_def)
  have move: "turn_moved r s (move_turn next (tw_revision r + 1) j h (timestamp_millis now) r) next db db2"
    and "\<exists>a \<in> set (td_actors db). P a"
    using cas_moves [OF turns r(1,3) cas(1) r(5) lease(1) _ lease(2)] P by blast+
  then obtain a where a: "a \<in> set (td_actors db)" "P a"
    by blast
  obtain b where b: "b \<in> set (td_actors db)" "actor_key_of b = (dt_tenant_id cur, dt_actor_key cur)"
    "\<exists>u. aw_lease_until_ms b = Some u \<and> timestamp_millis now < u"
    using verify_actor_lease_ok [OF st(2)] by blast
  then have "a = b"
    using actor_unique [OF turns a(1) b(1)] a(2) by (simp add: P_def actor_at_def actor_key_of_def)
  moreover have "tw_revision r + 1 < 2 ^ 64"
    using cas(2) r(4) uint_lt2p [of "vts_revision next'"] by simp
  then have "recorded_move r s (move_turn next (tw_revision r + 1) j h (timestamp_millis now) r) next db db' \<and>
      represents (move_turn next (tw_revision r + 1) j h (timestamp_millis now) r) rec"
    using r(2) by (intro record_move [OF inv move _ _ st(6,7)]) (simp_all add: move_turn_def turn_key_def)
  moreover have "r \<in> set (td_turns db)"
    using r(1) by simp
  ultimately show ?thesis
    using r(2,4) a P [OF a(2)] b(3)
    by (intro exI [of _ r] exI [of _ "move_turn next (tw_revision r + 1) j h (timestamp_millis now) r"] exI [of _ a]) simp
qed

subsection \<open>Recovery\<close>

lemma recovery_state_terminal [simp]: "is_terminal (recovery_state s)"
  by (simp add: recovery_state_def)

lemma recovery_execution_state: "terminal_state (recovery_execution s) = recovery_state s"
  by (simp add: recovery_execution_def recovery_state_def aborted_execution_def)

lemma clear_actor_holds:
  assumes "represents r record" and "clear_actor record now db = Inr db'"
  shows "\<exists>P. (\<forall>a. P a \<longrightarrow> holds_turn a r) \<and>
    update_actor P (set_actor_lease None None None (timestamp_millis now)) CasLost db = Inr db'"
  using assms unfolding clear_actor_def
  by (intro exI [of _ "\<lambda>a. actor_at (dt_tenant_id record) (dt_actor_key record) a \<and> aw_active_turn_id a = Some (dt_turn_id record)"])
    (auto simp: represents_def holds_turn_def actor_at_def actor_key_of_def actor_of_turn_def)

lemma holds_turn_live:
  assumes "turns_inv db" and "a \<in> set (td_actors db)" and "holds_turn a r" and "r \<in> set (td_turns db)"
  shows "live_turn r"
proof -
  obtain r0 where r0: "r0 \<in> set (td_turns db)" "live_turn r0" "holds_turn a r0"
    using turns_inv_active [OF assms(1,2)] assms(3) by (auto simp: holds_turn_def)
  then have "r0 = r"
    using turns_inv_key [OF assms(1) r0(1) assms(4)] assms(3)
    by (auto simp: holds_turn_def turn_key_def actor_of_turn_def)
  then show ?thesis
    using r0(2) by simp
qed

text \<open>An actor's active turn is live, so recovery always moves it.\<close>

lemma recover_not_terminal:
  assumes inv: "store_inv db" and row: "r \<in> set (td_turns db)" "represents r record"
    and ok: "recover_turn_in_tx L record now db = Inr (rec, db')"
  shows "\<not> is_terminal (vts_state (dt_state record))"
proof
  assume ended: "is_terminal (vts_state (dt_state record))"
  then obtain db1 where "clear_actor record now db = Inr db1"
    using ok by (auto simp: recover_turn_in_tx_def result_simps split: if_splits)
  then obtain P where P: "\<forall>a. P a \<longrightarrow> holds_turn a r"
    "update_actor P (set_actor_lease None None None (timestamp_millis now)) CasLost db = Inr db1"
    using clear_actor_holds [OF row(2)] by blast
  then obtain a where "a \<in> set (td_actors db)" "holds_turn a r"
    using update_actor_split [OF P(2)] by (metis in_set_conv_decomp)
  then have "live_turn r"
    using holds_turn_live [OF _ _ _ row(1)] inv by (auto simp: store_inv_def)
  then show False
    using ended row(2) live_turn_state [of r] by (simp add: represents_def)
qed

lemma recover_moves:
  assumes inv: "store_inv db" and row: "r \<in> set (td_turns db)" "represents r record"
    and ok: "recover_turn_in_tx L record now db = Inr (rec, db')"
  shows "\<exists>r'. recorded_move r (vts_state (dt_state record)) r' (recovery_state (vts_state (dt_state record))) db db' \<and>
    represents r' rec"
proof -
  define s where "s = vts_state (dt_state record)"
  have turns: "turns_inv db"
    using inv by (simp add: store_inv_def)
  have live: "\<not> is_terminal s"
    using recover_not_terminal [OF inv row ok] by (simp add: s_def)
  obtain next' j h db1 db2 where st:
    "compare_and_transition (dt_state record) s (vts_revision (dt_state record)) (recovery_state s) = Inr next'"
    "update_turn (turn_cas (dt_tenant_id record) (dt_turn_id record) s (uint (vts_revision (dt_state record))))
      (move_turn (recovery_state s) (uint (vts_revision next')) j h (timestamp_millis now)) db = Inr db1"
    "clear_actor record now db1 = Inr db2" "require_turn L (dt_tenant_id record) (dt_turn_id record) db2 = Inr rec"
    "insert_outbox L rec (Some s) h now db2 = Inr db'"
    using ok live unfolding recover_turn_in_tx_def Let_def s_def by (auto simp: result_simps split: if_splits)
  have cas: "can_transition_to s (recovery_state s)" "uint (vts_revision next') = uint (vts_revision (dt_state record)) + 1"
    using st(1) uint_succ by (auto simp: compare_and_transition_Inr)
  obtain xs r0 ys where r0: "td_turns db = xs @ r0 # ys" "turn_key r0 = (dt_tenant_id record, dt_turn_id record)"
    "tw_state r0 = state_name s" "tw_revision r0 = uint (vts_revision (dt_state record))"
    "db1 = db\<lparr>td_turns := xs @ move_turn (recovery_state s) (tw_revision r0 + 1) j h (timestamp_millis now) r0 # ys\<rparr>"
    using turn_cas_split [OF turns st(2)] cas(2) by metis
  have "r0 = r"
    using turns_inv_key [OF turns _ row(1), of r0] r0(1,2) row(2) by (simp add: represents_def turn_key_def)
  note r = r0 [unfolded this]
  obtain P where P: "\<forall>a. P a \<longrightarrow> holds_turn a r"
    "update_actor P (set_actor_lease None None None (timestamp_millis now)) CasLost db1 = Inr db2"
    using clear_actor_holds [OF row(2) st(3)] by blast
  have move: "turn_moved r s (move_turn (recovery_state s) (tw_revision r + 1) j h (timestamp_millis now) r) (recovery_state s) db db2"
    using cas_moves [OF turns r(1,3) cas(1) r(5) P(2)] P(1) by simp
  moreover have "tw_revision r + 1 < 2 ^ 64"
    using cas(2) r(4) uint_lt2p [of "vts_revision next'"] by simp
  ultimately show ?thesis
    using record_move [OF inv move _ _ st(4,5)] r(2) unfolding s_def [symmetric]
    by (auto simp: move_turn_def turn_key_def)
qed

lemma recover_inv:
  assumes "store_inv db" and "require_turn L t i db = Inr record" and "recover_turn_in_tx L record now db = Inr (rec, db')"
  shows "store_inv db'"
proof -
  obtain r where "r \<in> set (td_turns db)" "represents r record"
    using require_turn_row [OF assms(2)] by blast
  then show ?thesis
    using recover_moves [OF assms(1) _ _ assms(3)] recorded_move_inv [OF assms(1)] by blast
qed

lemma recover_actor_turns_inv:
  "recover_actor_turns L t now pairs db = Inr (recs, db') \<Longrightarrow> store_inv db \<Longrightarrow> store_inv db'"
  by (induction L t now pairs db arbitrary: recs rule: recover_actor_turns.induct)
    (auto simp: result_simps split: if_splits dest: recover_inv)

lemma recover_expired_inv:
  "recover_expired_actor_leases L t now limit db = Inr (recs, db') \<Longrightarrow> store_inv db \<Longrightarrow> store_inv db'"
  by (auto simp: recover_expired_actor_leases_def Let_def dest: recover_actor_turns_inv)

subsection \<open>Admission\<close>

lemma recover_for_admission_inv:
  "recover_actor_for_admission L actor now db = Inr db' \<Longrightarrow> store_inv db \<Longrightarrow> store_inv db'"
  by (auto simp: recover_actor_for_admission_def result_simps split: option.splits if_splits dest: recover_inv)

lemma ensure_actor_row_inv:
  assumes "ensure_actor_row L actor now db = Inr db'" and inv: "store_inv db"
  shows "store_inv db'"
proof (cases "list_ex (actor_at (id_tenant_id actor) (id_actor_key actor)) (td_actors db)")
  case True
  then show ?thesis
    using assms by (auto simp: ensure_actor_row_def Let_def result_simps split: if_splits)
next
  case False
  have "actor_key_of (new_actor_row actor (timestamp_millis now)) \<notin> set (map actor_key_of (td_actors db))"
    using False by (auto simp: list_ex_iff actor_key_of_def actor_at_def new_actor_row_def)
  moreover have "aw_active_turn_id (new_actor_row actor (timestamp_millis now)) = None"
    "lease_shape (new_actor_row actor (timestamp_millis now))"
    by (simp_all add: new_actor_row_def lease_shape_def)
  moreover have "db' = db\<lparr>td_actors := td_actors db @ [new_actor_row actor (timestamp_millis now)]\<rparr>"
    using assms(1) False by (auto simp: ensure_actor_row_def Let_def result_simps split: if_splits)
  ultimately show ?thesis
    using store_inv_actor_added [OF inv] by blast
qed

lemma new_turn_row_state:
  "tw_revision (new_turn_row L g adm now) = 0"
  "tw_state (new_turn_row L g adm now) \<in> {state_name Accepted, state_name WaitingApproval}"
  by (simp_all add: new_turn_row_def Let_def)

lemma insert_turn_row_ok:
  "insert_turn_row r db = Inr db' \<Longrightarrow>
     turn_key r \<notin> set (map turn_key (td_turns db)) \<and>
     idempotency_key_of r \<notin> set (map idempotency_key_of (td_turns db)) \<and> db' = db\<lparr>td_turns := td_turns db @ [r]\<rparr>"
  by (auto simp: insert_turn_row_def list_ex_iff turn_at_def turn_keyed_def turn_key_def idempotency_key_of_def
      split: if_splits)

text \<open>The transaction from the insertion of the turn on.\<close>

lemma admit_created:
  assumes inv: "store_inv db" and row: "r = new_turn_row L g adm now"
    and ins: "insert_turn_row r db = Inr db1"
    and upd: "update_actor (\<lambda>a. actor_at (tw_tenant_id r) (tw_actor_key r) a \<and> aw_active_turn_id a = None)
      (set_actor_lease (Some (tw_turn_id r)) (Some w) (Some u) ms) e db1 = Inr db2"
    and load: "require_turn L (tw_tenant_id r) (tw_turn_id r) db2 = Inr rec"
    and out: "insert_outbox L rec None None now db2 = Inr db'"
  shows "\<exists>p. turn_created r db db2 \<and> turn_of_outbox p = turn_key r \<and> ow_revision p = 0 \<and>
    ow_event_type p = ''turn.state.'' @ tw_state r \<and> fresh_row p db2 \<and>
    db' = appended p (next_ordinal db2) db2 \<and> materialize_turn L r = Inr rec \<and> store_inv db'"
proof -
  have db1: "turn_key r \<notin> set (map turn_key (td_turns db))"
    "idempotency_key_of r \<notin> set (map idempotency_key_of (td_turns db))" "db1 = db\<lparr>td_turns := td_turns db @ [r]\<rparr>"
    using insert_turn_row_ok [OF ins] by auto
  obtain as a bs where a: "td_actors db1 = as @ a # bs"
    "actor_at (tw_tenant_id r) (tw_actor_key r) a \<and> aw_active_turn_id a = None"
    "db2 = db1\<lparr>td_actors := as @ set_actor_lease (Some (tw_turn_id r)) (Some w) (Some u) ms a # bs\<rparr>"
    using upd by (rule update_actor_split)
  have new: "turn_created r db db2"
    unfolding turn_created_def using db1 a new_turn_row_state [of L g adm now, folded row]
    by (intro exI [of _ as] exI [of _ bs] exI [of _ a] exI [of _ "set_actor_lease (Some (tw_turn_id r)) (Some w) (Some u) ms a"])
      (auto simp: holds_turn_def lease_shape_def actor_at_def actor_key_of_def actor_of_turn_def set_actor_lease_def)
  have inv2: "turns_inv db2" "outbox_inv db2"
    using inv turn_created_turns_inv [OF _ new] new
    by (auto simp: store_inv_def turn_created_def outbox_inv_def)
  have "r \<in> set (td_turns db2)"
    using db1(3) a(3) by simp
  then have mat: "materialize_turn L r = Inr rec"
    using require_turn_row [OF load] turns_inv_key [OF inv2(1)] by (auto simp: turn_key_def)
  obtain p where p: "fresh_row p db2" "db' = appended p (next_ordinal db2) db2"
    "p = new_outbox_row L rec None None (milliseconds (timestamp_millis now)) (uint (vts_revision (dt_state rec))) (timestamp_millis now)"
    using insert_outbox_ok [OF inv2(2) out] by blast
  have "turn_of_outbox p = turn_key r" "ow_revision p = 0" "ow_event_type p = ''turn.state.'' @ tw_state r"
    using materialize_turn_ok [OF mat] new_turn_row_state(1) [of L g adm now, folded row] unfolding p(3)
    by (simp_all add: represents_def new_outbox_row_def Let_def turn_of_outbox_def turn_key_def state_event_type_def)
  then show ?thesis
    using p new mat store_inv_turn_created [OF inv new _ _ _ p(1)] by blast
qed

text \<open>The two ways an admission can end well.\<close>

lemma begin_turn_cases:
  assumes "begin_turn L g adm now db = Inr (res, db')"
  obtains (existing) old rec where "load_by_idempotency L (tenant_str (ai_tenant_id g)) (ai_idempotency_key g) db = Inr (Some old)"
      "recover_duplicate_if_expired L old now db = Inr (rec, db')" "res = TurnExisting rec"
      "dt_request_hash old = tw_request_hash (new_turn_row L g adm now)"
      "dt_authority_hash old = tw_authority_hash (new_turn_row L g adm now)" "dt_actor_key old = id_actor_key (da_actor adm)"
  | (created) r db0 db1 db2 db3 rec where "r = new_turn_row L g adm now"
      "load_by_idempotency L (tenant_str (ai_tenant_id g)) (ai_idempotency_key g) db = Inr None" "now < ai_deadline g"
      "ensure_actor_row L (da_actor adm) now db = Inr db0" "recover_actor_for_admission L (da_actor adm) now db0 = Inr db1"
      "insert_turn_row r db1 = Inr db2"
      "update_actor (\<lambda>a. actor_at (tw_tenant_id r) (tw_actor_key r) a \<and> aw_active_turn_id a = None)
        (set_actor_lease (Some (tw_turn_id r)) (Some (da_lease_owner adm)) (Some (timestamp_millis (ai_deadline g)))
          (timestamp_millis now)) CasLost db2 = Inr db3"
      "require_turn L (tw_tenant_id r) (tw_turn_id r) db3 = Inr rec" "insert_outbox L rec None None now db3 = Inr db'"
      "res = TurnCreated rec"
proof -
  have fields: "tw_tenant_id (new_turn_row L g adm now) = tenant_str (ai_tenant_id g)"
    "tw_idempotency_key (new_turn_row L g adm now) = ai_idempotency_key g"
    "tw_actor_key (new_turn_row L g adm now) = id_actor_key (da_actor adm)"
    by (simp_all add: new_turn_row_def Let_def)
  obtain old where old: "load_by_idempotency L (tenant_str (ai_tenant_id g)) (ai_idempotency_key g) db = Inr old"
    using assms unfolding begin_turn_def Let_def fields by (auto simp: result_simps)
  show thesis
  proof (cases old)
    case None
    then show thesis
      using assms old created unfolding begin_turn_def Let_def
      by (auto simp: result_simps not_le fields split: if_splits)
  next
    case (Some rec)
    then show thesis
      using assms old existing unfolding begin_turn_def Let_def
      by (auto simp: result_simps fields split: if_splits)
  qed
qed

lemma recover_duplicate_inv:
  assumes "store_inv db" and "load_by_idempotency L t k db = Inr (Some old)"
    and "recover_duplicate_if_expired L old now db = Inr (rec, db')"
  shows "store_inv db'"
proof -
  obtain r where r: "r \<in> set (td_turns db)" "represents r old"
    using load_by_idempotency_ok [OF assms(2)] by blast
  have "db' = db \<or> recover_turn_in_tx L old now db = Inr (rec, db')"
    using assms(3) by (auto simp: recover_duplicate_if_expired_def result_simps split: if_splits)
  then show ?thesis
    using assms(1) recover_moves [OF assms(1) r] recorded_move_inv [OF assms(1)] by blast
qed

lemma begin_turn_inv:
  assumes ok: "begin_turn L g adm now db = Inr (res, db')" and inv: "store_inv db"
  shows "store_inv db'"
  using ok
proof (cases rule: begin_turn_cases)
  case (existing old rec)
  then show ?thesis
    using recover_duplicate_inv [OF inv] by blast
next
  case (created r db0 db1 db2 db3 rec)
  have "store_inv db1"
    using created inv ensure_actor_row_inv recover_for_admission_inv by blast
  then show ?thesis
    using admit_created created by blast
qed

end
