(* ===== verification/Outbox_Dispatch.thy ===== *)
theory Outbox_Dispatch
  imports Turn_Operations
begin

text \<open>
  \<open>turn_store/dispatch.rs\<close>: before a state event is signed, and again before its outbox row is
  marked delivered, the store revalidates the complete history of the turn, the tenant's commit
  order and the active lease, and re-verifies every event of the tenant that was delivered before.
  Completion needs a sealed commit token of the ledger that still matches the live event.
\<close>

subsection \<open>Records\<close>

record validated_history_entry =
  vh_outbox :: turn_outbox_record
  vh_state :: turn_state
  vh_binding :: idempotent_event_binding

record verified_prefix_entry =
  vp_revision :: u64
  vp_binding :: idempotent_event_binding
  vp_ledger_event_id :: string
  vp_public_key :: public_key_bytes

record dispatch_snapshot =
  ds_history :: "validated_history_entry list"
  ds_target_index :: nat
  ds_tenant_prefix :: "verified_prefix_entry list"
  ds_database_path :: string
  ds_database_instance_id :: string

definition snapshot_target :: "dispatch_snapshot \<Rightarrow> validated_history_entry" where
  "snapshot_target self = ds_history self ! ds_target_index self"

record signing_validated_outbox =
  sv_outbox :: turn_outbox_record
  sv_binding :: idempotent_event_binding

datatype outbox_completion = CompletionDelivered | CompletionAlreadyDelivered

text \<open>
  The ledger object a caller passes: it either works on the same database file as the store or on
  another one, whose tables it then carries.
\<close>

record ledger_handle =
  lh_object :: event_ledger
  lh_other_database :: "ledger_db option"

text \<open>A call that may use the ledger: the result, and the handle and the database after it.\<close>

type_synonym 'a store_call = "ledger_handle \<Rightarrow> turn_db \<Rightarrow> (turn_store_error + 'a) \<times> ledger_handle \<times> turn_db"

definition store_then :: "'a store_call \<Rightarrow> ('a \<Rightarrow> 'b store_call) \<Rightarrow> 'b store_call" where
  "store_then m f h db =
     (case m h db of
        (Inl e, h', db') \<Rightarrow> (Inl e, h', db')
      | (Inr a, h', db') \<Rightarrow> f a h' db')"

definition store_read :: "(turn_db \<Rightarrow> turn_store_error + 'a) \<Rightarrow> 'a store_call" where
  "store_read f h db = (f db, h, db)"

definition store_tx :: "(turn_db \<Rightarrow> turn_store_error + ('a \<times> turn_db)) \<Rightarrow> 'a store_call" where
  "store_tx f h db = (case f db of Inl e \<Rightarrow> (Inl e, h, db) | Inr (a, db') \<Rightarrow> (Inr a, h, db'))"

definition on_ledger :: "'a ledger_call \<Rightarrow> 'a store_call" where
  "on_ledger call h db =
     (case lh_other_database h of
        None \<Rightarrow>
          (case call (lh_object h) (td_ledger db) of
             (r, el, ldb) \<Rightarrow> (map_err TurnLedger r, h\<lparr>lh_object := el\<rparr>, db\<lparr>td_ledger := ldb\<rparr>))
      | Some other \<Rightarrow>
          (case call (lh_object h) other of
             (r, el, ldb) \<Rightarrow> (map_err TurnLedger r, h\<lparr>lh_object := el, lh_other_database := Some ldb\<rparr>, db)))"

subsection \<open>Payload checks\<close>

definition payload_fields :: "string list" where
  "payload_fields =
     [''schema'', ''outbox_id'', ''tenant_id'', ''turn_id'', ''actor_key'', ''subject_id'',
      ''principal_id'', ''workspace_id'', ''profile_id'', ''session_id'', ''source'',
      ''idempotency_key'', ''request_hash'', ''authority_hash'', ''previous_state'', ''state'',
      ''revision'', ''terminal'', ''terminal_result_hash'', ''occurred_at'']"

definition validate_outbox_payload_shape :: "json \<Rightarrow> turn_store_error + unit" where
  "validate_outbox_payload_shape payload =
     and_then (ok_or (RecordBindingMismatch ''outbox.payload_shape'') (as_object payload)) (\<lambda>obj.
     if length obj \<noteq> length payload_fields \<or> list_ex (\<lambda>field. map_of obj field = None) payload_fields
     then Inl (RecordBindingMismatch ''outbox.payload_shape'')
     else
       and_then (ok_or (RecordBindingMismatch ''outbox.source_shape'')
         (Option.bind (map_of obj ''source'') as_object)) (\<lambda>source.
       if length source \<noteq> 2 \<or> map_of source ''surface'' = None \<or> map_of source ''source_id'' = None
       then Inl (RecordBindingMismatch ''outbox.source_shape'')
       else Inr ()))"

definition outbox_identity_fields :: "durable_turn_record \<Rightarrow> (string \<times> string list \<times> string) list" where
  "outbox_identity_fields turn =
     [(''outbox.actor_key'', [''actor_key''], dt_actor_key turn),
      (''outbox.subject_id'', [''subject_id''], dt_subject_id turn),
      (''outbox.principal_id'', [''principal_id''], dt_principal_id turn),
      (''outbox.workspace_id'', [''workspace_id''], dt_workspace_id turn),
      (''outbox.profile_id'', [''profile_id''], dt_profile_id turn),
      (''outbox.session_id'', [''session_id''], dt_session_id turn),
      (''outbox.source_surface'', [''source'', ''surface''], dt_source_surface turn),
      (''outbox.source_id'', [''source'', ''source_id''], dt_source_id turn),
      (''outbox.idempotency_key'', [''idempotency_key''], dt_idempotency_key turn),
      (''outbox.request_hash'', [''request_hash''], dt_request_hash turn),
      (''outbox.authority_hash'', [''authority_hash''], dt_authority_hash turn)]"

definition validate_outbox_identity ::
  "turn_libs \<Rightarrow> turn_outbox_record \<Rightarrow> durable_turn_record \<Rightarrow> turn_store_error + unit" where
  "validate_outbox_identity L record turn =
     and_then (validate_outbox_payload_shape (ob_payload record)) (\<lambda>_.
     and_then (verify_json_text_bindings (ob_payload record) (outbox_identity_fields turn)) (\<lambda>_.
     if ob_effect_kind record \<noteq> ''ledger_turn_state'' then Inl (RecordBindingMismatch ''outbox.effect_kind'')
     else if ob_idempotency_mode record \<noteq> ''key_required''
     then Inl (RecordBindingMismatch ''outbox.idempotency_mode'')
     else
       and_then (ok_or (RecordBindingMismatch ''outbox.occurred_at'')
         (pointer_str [''occurred_at''] (ob_payload record))) (\<lambda>occurred_at_text.
       and_then (ok_or (RecordBindingMismatch ''outbox.occurred_at'')
         (tl_parse_rfc3339 L occurred_at_text)) (\<lambda>occurred_at.
       if timestamp_millis occurred_at \<noteq> timestamp_millis (ob_created_at record)
       then Inl (RecordBindingMismatch ''outbox.occurred_at'')
       else if strip_prefix ''turn.state.'' (ob_event_type record) \<noteq> None \<and>
         occurred_at_text \<noteq> tl_rfc3339_millis L (ob_created_at record)
       then Inl (RecordBindingMismatch ''outbox.occurred_at'')
       else Inr ()))))"

definition outbox_payload_state :: "turn_outbox_record \<Rightarrow> turn_store_error + turn_state" where
  "outbox_payload_state record =
     and_then (ok_or (RecordBindingMismatch ''outbox.state'') (pointer_str [''state''] (ob_payload record)))
       parse_state"

definition validate_history_transition ::
  "turn_outbox_record \<Rightarrow> turn_state \<Rightarrow> validated_history_entry option \<Rightarrow> turn_store_error + unit" where
  "validate_history_transition record state previous =
     (case previous of
        None \<Rightarrow>
          if ob_revision record \<noteq> 0 \<or> state \<noteq> Accepted then Inl (OutboxHistoryGenesis (ob_revision record))
          else if json_get ''previous_state'' (ob_payload record) \<noteq> Some JNull
          then Inl (OutboxHistoryPreviousState (ob_revision record))
          else Inr ()
      | Some previous \<Rightarrow>
          if pointer_str [''previous_state''] (ob_payload record) \<noteq> Some (state_name (vh_state previous))
          then Inl (OutboxHistoryPreviousState (ob_revision record))
          else if \<not> can_transition_to (vh_state previous) state
          then Inl (OutboxHistoryIllegalTransition (ob_revision record) (vh_state previous) state)
          else Inr ())"

definition validate_terminal_binding ::
  "turn_outbox_record \<Rightarrow> turn_state \<Rightarrow> durable_turn_record \<Rightarrow> turn_store_error + unit" where
  "validate_terminal_binding record state turn =
     (if Option.bind (json_pointer [''terminal''] (ob_payload record)) as_bool \<noteq> Some (is_terminal state)
      then Inl (RecordBindingMismatch ''outbox.terminal'')
      else
        and_then (ok_or (RecordBindingMismatch ''outbox.terminal_result_hash'')
          (json_get ''terminal_result_hash'' (ob_payload record))) (\<lambda>terminal_hash.
        if is_terminal state then
          if ob_revision record \<noteq> vts_revision (dt_state turn) \<or> as_str terminal_hash \<noteq> dt_terminal_result_hash turn
          then Inl (RecordBindingMismatch ''outbox.terminal_result_hash'')
          else Inr ()
        else if terminal_hash \<noteq> JNull then Inl (RecordBindingMismatch ''outbox.terminal_result_hash'')
        else Inr ()))"

subsection \<open>History\<close>

definition history_binding ::
  "turn_outbox_record \<Rightarrow> durable_turn_record \<Rightarrow> event_id option \<Rightarrow> turn_store_error + idempotent_event_binding" where
  "history_binding record turn parent_event_id =
     map_err TurnLedger (new_binding (ob_outbox_id record) (PrincipalId (dt_principal_id turn))
       (NamespaceKey (dt_session_id turn)) (Some (RunId (dt_turn_id turn))) (ob_event_type record)
       (ob_payload record) parent_event_id)"

definition delivery_position ::
  "turn_libs \<Rightarrow> turn_outbox_record \<Rightarrow> idempotent_event_binding \<Rightarrow> bool \<Rightarrow> turn_store_error + bool" where
  "delivery_position L record binding undelivered_seen =
     (case ob_status record of
        OutboxDelivered \<Rightarrow>
          if undelivered_seen then Inl (OutboxDeliveredPrefix (ob_revision record))
          else if ob_ledger_event_id record \<noteq> Some (event_id_str (expected_event_id (tl_externals L) binding))
          then Inl (OutboxLedgerEventMismatch (ob_revision record))
          else Inr undelivered_seen
      | _ \<Rightarrow> Inr True)"

definition check_predecessor ::
  "turn_outbox_record \<Rightarrow> durable_turn_record \<Rightarrow> validated_history_entry option \<Rightarrow> turn_store_error + unit" where
  "check_predecessor record turn previous =
     (case previous of
        None \<Rightarrow> Inr ()
      | Some previous \<Rightarrow>
          if ob_commit_ordinal (vh_outbox previous) \<ge> ob_commit_ordinal record
          then Inl (OutboxHistoryIncomplete (dt_turn_id turn))
          else if ob_created_at (vh_outbox previous) > ob_created_at record then Inl NonMonotonicTimestamp
          else Inr ())"

fun validate_history_loop ::
  "turn_libs \<Rightarrow> durable_turn_record \<Rightarrow> nat \<Rightarrow> bool \<Rightarrow> validated_history_entry list \<Rightarrow>
     turn_outbox_record list \<Rightarrow> turn_store_error + validated_history_entry list" where
  "validate_history_loop L turn index undelivered_seen validated [] = Inr validated"
| "validate_history_loop L turn index undelivered_seen validated (record # rest) =
     (let previous = (if validated = [] then None else Some (last validated))
      in if ob_revision record \<noteq> of_nat index
         then Inl (OutboxHistoryRevision (of_nat index) (ob_revision record))
         else
           and_then (check_predecessor record turn previous) (\<lambda>_.
           and_then (validate_outbox_identity L record turn) (\<lambda>_.
           and_then (outbox_payload_state record) (\<lambda>state.
           and_then (validate_history_transition record state previous) (\<lambda>_.
           and_then (validate_terminal_binding record state turn) (\<lambda>_.
           let parent_event_id = map_option (\<lambda>p. expected_event_id (tl_externals L) (vh_binding p)) previous
           in and_then (history_binding record turn parent_event_id) (\<lambda>binding.
              and_then (delivery_position L record binding undelivered_seen) (\<lambda>undelivered_seen.
              validate_history_loop L turn (Suc index) undelivered_seen
                (validated @ [\<lparr>vh_outbox = record, vh_state = state, vh_binding = binding\<rparr>]) rest))))))))"

definition turn_outbox_rows :: "string \<Rightarrow> string \<Rightarrow> turn_db \<Rightarrow> raw_outbox list" where
  "turn_outbox_rows tenant_id turn_id db =
     List.map_filter (raw_outbox_of db)
       (sort_key ow_revision (filter (\<lambda>r. ow_tenant_id r = tenant_id \<and> ow_turn_id r = turn_id) (td_outbox db)))"

definition validate_turn_history ::
  "turn_libs \<Rightarrow> durable_turn_record \<Rightarrow> turn_db \<Rightarrow> turn_store_error + validated_history_entry list" where
  "validate_turn_history L turn db =
     and_then (collect_results (materialize_outbox L)
       (turn_outbox_rows (dt_tenant_id turn) (dt_turn_id turn) db)) (\<lambda>outbox.
     and_then (ok_or (OutboxHistoryIncomplete (dt_turn_id turn))
       (checked_add_u64 (vts_revision (dt_state turn)) 1)) (\<lambda>expected_count.
     if length outbox \<noteq> unat expected_count then Inl (OutboxHistoryIncomplete (dt_turn_id turn))
     else
       and_then (validate_history_loop L turn 0 False [] outbox) (\<lambda>validated.
       if validated = [] then Inl (OutboxHistoryIncomplete (dt_turn_id turn))
       else if vh_state (hd validated) \<noteq> Accepted \<or>
         ob_created_at (vh_outbox (hd validated)) \<noteq> dt_created_at turn \<or>
         vh_state (last validated) \<noteq> vts_state (dt_state turn) \<or>
         ob_revision (vh_outbox (last validated)) \<noteq> vts_revision (dt_state turn) \<or>
         ob_created_at (vh_outbox (last validated)) \<noteq> dt_updated_at turn
       then Inl (OutboxHistoryCurrentTurn (dt_turn_id turn))
       else Inr validated)))"

subsection \<open>The tenant's delivered prefix\<close>

definition prefix_entry ::
  "turn_libs \<Rightarrow> durable_turn_record \<Rightarrow> string \<Rightarrow> validated_history_entry \<Rightarrow>
     turn_store_error + verified_prefix_entry" where
  "prefix_entry L turn instance_id entry =
     (let outbox = vh_outbox entry
      in and_then (ok_or (OutboxDeliveredPrefix (ob_revision outbox)) (ob_ledger_event_id outbox)) (\<lambda>ledger_event_id.
         and_then (ok_or (OutboxSignerEvidenceMissing (ob_outbox_id outbox))
           (ob_verified_signer_public_key outbox)) (\<lambda>public_key.
         if ob_verified_ledger_event_id outbox \<noteq> Some ledger_event_id
         then Inl (OutboxLedgerEventMismatch (ob_revision outbox))
         else if ob_verified_database_instance_id outbox \<noteq> Some instance_id
         then Inl OutboxLedgerInstanceMismatch
         else if principal_str (principal_id_from_public_key (tl_externals L) (PublicKeyBytes public_key)) \<noteq>
           dt_principal_id turn
         then Inl OutboxPrincipalMismatch
         else Inr \<lparr>vp_revision = ob_revision outbox, vp_binding = vh_binding entry,
                   vp_ledger_event_id = ledger_event_id, vp_public_key = PublicKeyBytes public_key\<rparr>)))"

fun prefix_of_turns ::
  "turn_libs \<Rightarrow> string \<Rightarrow> u64 \<Rightarrow> string \<Rightarrow> validated_history_entry list \<Rightarrow> string \<Rightarrow> string list \<Rightarrow> turn_db \<Rightarrow>
     turn_store_error + verified_prefix_entry list" where
  "prefix_of_turns L tenant_id target_ordinal target_turn_id target_history instance_id [] db = Inr []"
| "prefix_of_turns L tenant_id target_ordinal target_turn_id target_history instance_id (turn_id # rest) db =
     and_then (require_turn L tenant_id turn_id db) (\<lambda>turn.
     and_then (if turn_id = target_turn_id then Inr target_history else validate_turn_history L turn db) (\<lambda>history.
     and_then (collect_results (prefix_entry L turn instance_id)
       (filter (\<lambda>entry. ob_commit_ordinal (vh_outbox entry) < target_ordinal \<and>
          ob_status (vh_outbox entry) = OutboxDelivered) history)) (\<lambda>entries.
     and_then (prefix_of_turns L tenant_id target_ordinal target_turn_id target_history instance_id rest db) (\<lambda>others.
     Inr (entries @ others)))))"

definition load_tenant_verified_prefix ::
  "turn_libs \<Rightarrow> string \<Rightarrow> u64 \<Rightarrow> string \<Rightarrow> validated_history_entry list \<Rightarrow> string \<Rightarrow> turn_db \<Rightarrow>
     turn_store_error + verified_prefix_entry list" where
  "load_tenant_verified_prefix L tenant_id target_ordinal target_turn_id target_history instance_id db =
     (if uint target_ordinal > i64_max
      then Inl (SchemaIntegrity ''outbox commit ordinal exceeds the SQLite integer range'')
      else
        let turn_ids = sort (remdups (map (ow_turn_id \<circ> fst)
              (filter (\<lambda>p. or_commit_ordinal (snd p) < uint target_ordinal \<and> delivered (fst p))
                (tenant_rows tenant_id db))))
        in and_then (prefix_of_turns L tenant_id target_ordinal target_turn_id target_history instance_id turn_ids db)
             (\<lambda>prefix. Inr (sort_key (\<lambda>entry. event_id_str (expected_event_id (tl_externals L) (vp_binding entry))) prefix)))"

definition validate_active_lease ::
  "turn_outbox_record \<Rightarrow> string \<Rightarrow> string \<Rightarrow> instant \<Rightarrow> turn_store_error + unit" where
  "validate_active_lease target lease_owner lease_token now =
     check_held_lease target (ob_outbox_id target) lease_owner lease_token now"

text \<open>An undelivered target must be the tenant's head and leased; a delivered one only when asked for.\<close>

definition check_dispatch_fence ::
  "turn_outbox_record \<Rightarrow> string option \<Rightarrow> string \<Rightarrow> string \<Rightarrow> string \<Rightarrow> instant \<Rightarrow> bool \<Rightarrow> turn_store_error + unit" where
  "check_dispatch_fence target tenant_head outbox_id lease_owner lease_token now allow_delivered =
     (if ob_status target \<noteq> OutboxDelivered then
        if tenant_head \<noteq> Some outbox_id then Inl (OutboxOrderConflict outbox_id)
        else validate_active_lease target lease_owner lease_token now
      else if \<not> allow_delivered then Inl (OutboxLeaseLost outbox_id lease_owner)
      else Inr ())"

definition snapshot_at ::
  "turn_libs \<Rightarrow> string \<Rightarrow> string \<Rightarrow> string \<Rightarrow> string \<Rightarrow> instant \<Rightarrow> bool \<Rightarrow> durable_turn_record \<Rightarrow>
     validated_history_entry list \<Rightarrow> nat \<Rightarrow> turn_db \<Rightarrow> turn_store_error + dispatch_snapshot" where
  "snapshot_at L tenant_id outbox_id lease_owner lease_token now allow_delivered turn history target_index db =
     (let target = vh_outbox (history ! target_index)
      in and_then (tenant_outbox_head tenant_id db) (\<lambda>tenant_head.
         and_then (check_dispatch_fence target tenant_head outbox_id lease_owner lease_token now allow_delivered) (\<lambda>_.
         and_then (map_err TurnLedger (validated_database_path (tl_externals L) (td_ledger db))) (\<lambda>path.
         and_then (map_err TurnLedger (validated_database_instance_id (tl_externals L) (td_ledger db))) (\<lambda>instance_id.
         and_then (load_tenant_verified_prefix L tenant_id (ob_commit_ordinal target) (dt_turn_id turn) history
           instance_id db) (\<lambda>tenant_prefix.
         Inr \<lparr>ds_history = history, ds_target_index = target_index, ds_tenant_prefix = tenant_prefix,
              ds_database_path = path, ds_database_instance_id = instance_id\<rparr>))))))"

definition load_dispatch_snapshot ::
  "turn_libs \<Rightarrow> string \<Rightarrow> string \<Rightarrow> string \<Rightarrow> string \<Rightarrow> instant \<Rightarrow> bool \<Rightarrow> turn_db \<Rightarrow>
     turn_store_error + dispatch_snapshot" where
  "load_dispatch_snapshot L tenant_id outbox_id lease_owner lease_token now allow_delivered db =
     and_then (require_outbox L tenant_id outbox_id db) (\<lambda>found.
     and_then (require_turn L tenant_id (ob_turn_id found) db) (\<lambda>turn.
     and_then (validate_turn_history L turn db) (\<lambda>history.
     and_then (ok_or (OutboxHistoryIncomplete (dt_turn_id turn))
       (find (\<lambda>i. ob_outbox_id (vh_outbox (history ! i)) = outbox_id) [0..<length history])) (\<lambda>target_index.
     snapshot_at L tenant_id outbox_id lease_owner lease_token now allow_delivered turn history target_index db))))"

subsection \<open>Signing and completion\<close>

text \<open>The store object: the identity of the database it was opened on.\<close>

record durable_turn_store =
  ts_db_path :: string
  ts_database_instance_id :: string

definition dispatch_snapshot_of ::
  "turn_libs \<Rightarrow> durable_turn_store \<Rightarrow> string \<Rightarrow> string \<Rightarrow> string \<Rightarrow> string \<Rightarrow> instant \<Rightarrow> bool \<Rightarrow> turn_db \<Rightarrow>
     turn_store_error + dispatch_snapshot" where
  "dispatch_snapshot_of L self tenant_id outbox_id lease_owner lease_token now allow_delivered db =
     and_then (validate_no_extra_outbox_triggers db) (\<lambda>_.
     and_then (load_dispatch_snapshot L tenant_id outbox_id lease_owner lease_token now allow_delivered db) (\<lambda>snapshot.
     if ds_database_instance_id snapshot \<noteq> ts_database_instance_id self then Inl OutboxLedgerInstanceMismatch
     else Inr snapshot))"

definition store_return :: "turn_store_error + 'a \<Rightarrow> 'a store_call" where
  "store_return r = store_read (\<lambda>_. r)"

definition verify_ledger_scope ::
  "turn_libs \<Rightarrow> string \<Rightarrow> dispatch_snapshot \<Rightarrow> public_key_bytes \<Rightarrow> unit store_call" where
  "verify_ledger_scope L uuid snapshot public_key =
     store_then (on_ledger (canonical_database_path (tl_externals L) uuid)) (\<lambda>path.
     if path \<noteq> ds_database_path snapshot then store_return (Inl OutboxLedgerPathMismatch)
     else
       store_then (on_ledger (database_instance_id (tl_externals L) uuid)) (\<lambda>instance_id.
       if instance_id \<noteq> ds_database_instance_id snapshot then store_return (Inl OutboxLedgerInstanceMismatch)
       else if principal_id_from_public_key (tl_externals L) public_key \<noteq>
         ib_principal_id (vh_binding (snapshot_target snapshot))
       then store_return (Inl OutboxPrincipalMismatch)
       else store_return (Inr ())))"

definition prefix_entry_verified :: "dispatch_snapshot \<Rightarrow> verified_prefix_entry \<Rightarrow> verified_event_commit \<Rightarrow> bool" where
  "prefix_entry_verified snapshot entry verified =
     (vc_event_id verified = vp_ledger_event_id entry \<and>
      vc_canonical_ledger_path verified = ds_database_path snapshot \<and>
      vc_database_instance_id verified = ds_database_instance_id snapshot)"

fun verify_prefix_entries ::
  "turn_libs \<Rightarrow> string \<Rightarrow> dispatch_snapshot \<Rightarrow> verified_prefix_entry list \<Rightarrow> unit store_call" where
  "verify_prefix_entries L uuid snapshot [] = store_return (Inr ())"
| "verify_prefix_entries L uuid snapshot (entry # rest) =
     store_then (on_ledger (verify_existing_idempotent_event (tl_externals L) uuid
       (vp_public_key entry) (vp_binding entry))) (\<lambda>verified.
     if \<not> prefix_entry_verified snapshot entry verified
     then store_return (Inl (OutboxLedgerEventMismatch (vp_revision entry)))
     else verify_prefix_entries L uuid snapshot rest)"

definition verify_tenant_prefix :: "turn_libs \<Rightarrow> string \<Rightarrow> dispatch_snapshot \<Rightarrow> unit store_call" where
  "verify_tenant_prefix L uuid snapshot = verify_prefix_entries L uuid snapshot (ds_tenant_prefix snapshot)"

definition verify_tenant_prefix_in_connection ::
  "turn_libs \<Rightarrow> dispatch_snapshot \<Rightarrow> turn_db \<Rightarrow> turn_store_error + unit" where
  "verify_tenant_prefix_in_connection L snapshot db =
     and_then (collect_results (\<lambda>entry.
       and_then (map_err TurnLedger (verify_existing_idempotent_event_in_connection (tl_externals L)
         (vp_public_key entry) (vp_binding entry) (td_ledger db))) (\<lambda>verified.
       if \<not> prefix_entry_verified snapshot entry verified
       then Inl (OutboxLedgerEventMismatch (vp_revision entry)) else Inr ()))
       (ds_tenant_prefix snapshot)) (\<lambda>_. Inr ())"

definition bindings_match :: "turn_libs \<Rightarrow> idempotent_event_binding \<Rightarrow> idempotent_event_binding \<Rightarrow> bool" where
  "bindings_match L left right =
     (ib_idempotency_key left = ib_idempotency_key right \<and>
      ib_principal_id left = ib_principal_id right \<and>
      ib_namespace_key left = ib_namespace_key right \<and>
      ib_run_id left = ib_run_id right \<and>
      ib_event_type left = ib_event_type right \<and>
      x_json_eq (tl_externals L) (ib_payload left) (ib_payload right) \<and>
      map_option event_id_str (ib_parent_event_id left) = map_option event_id_str (ib_parent_event_id right))"

definition prefixes_match :: "turn_libs \<Rightarrow> verified_prefix_entry list \<Rightarrow> verified_prefix_entry list \<Rightarrow> bool" where
  "prefixes_match L left right =
     list_all2 (\<lambda>left right. vp_revision left = vp_revision right \<and>
       vp_ledger_event_id left = vp_ledger_event_id right \<and>
       public_key_vec (vp_public_key left) = public_key_vec (vp_public_key right) \<and>
       bindings_match L (vp_binding left) (vp_binding right)) left right"

definition revalidate_outbox_for_signing ::
  "turn_libs \<Rightarrow> string \<Rightarrow> durable_turn_store \<Rightarrow> string \<Rightarrow> string \<Rightarrow> string \<Rightarrow> string \<Rightarrow> instant \<Rightarrow>
     public_key_bytes \<Rightarrow> signing_validated_outbox store_call" where
  "revalidate_outbox_for_signing L uuid self tenant_id outbox_id lease_owner lease_token now public_key =
     store_then (store_return (validate_lease_identity ''lease_owner'' lease_owner)) (\<lambda>_.
     store_then (store_return (validate_lease_identity ''lease_token'' lease_token)) (\<lambda>_.
     store_then (store_read (dispatch_snapshot_of L self tenant_id outbox_id lease_owner lease_token now False)) (\<lambda>snapshot.
     store_then (verify_ledger_scope L uuid snapshot public_key) (\<lambda>_.
     store_then (verify_tenant_prefix L uuid snapshot) (\<lambda>_.
     store_return (Inr \<lparr>sv_outbox = vh_outbox (snapshot_target snapshot),
                       sv_binding = vh_binding (snapshot_target snapshot)\<rparr>))))))"

text \<open>
  \<open>INSERT INTO turn_outbox_verified_commit_v2\<close>: the columns' checks, the primary key, and the
  trigger that wants a leased row or one delivered under the same event.
\<close>

definition insert_verified_row :: "verified_row \<Rightarrow> turn_db \<Rightarrow> turn_store_error + turn_db" where
  "insert_verified_row row db =
     (if \<not> list_ex (\<lambda>r. outbox_at (vw_tenant_id row) (vw_outbox_id row) r \<and>
           (ow_status r = ''leased'' \<or>
            (ow_status r = ''delivered'' \<and> ow_ledger_event_id r = Some (vw_ledger_event_id row)))) (td_outbox db) \<or>
         vw_ledger_event_id row = [] \<or> length (vw_signer_public_key row) \<noteq> 32 \<or>
         vw_database_instance_id row = [] \<or>
         list_ex (\<lambda>v. vw_tenant_id v = vw_tenant_id row \<and> vw_outbox_id v = vw_outbox_id row) (td_verified db)
      then Inl (TurnSqlite (ConstraintViolation ''turn_outbox_verified_commit_v2''))
      else Inr (db\<lparr>td_verified := td_verified db @ [row]\<rparr>))"

definition ensure_verified_commit_evidence ::
  "turn_outbox_record \<Rightarrow> verified_event_commit \<Rightarrow> public_key_bytes \<Rightarrow> turn_db \<Rightarrow> turn_store_error + (bool \<times> turn_db)" where
  "ensure_verified_commit_evidence outbox commit public_key db =
     (case (ob_verified_ledger_event_id outbox, ob_verified_signer_public_key outbox,
            ob_verified_database_instance_id outbox) of
        (None, None, None) \<Rightarrow>
          and_then (insert_verified_row
            \<lparr>vw_tenant_id = ob_tenant_id outbox, vw_outbox_id = ob_outbox_id outbox,
             vw_ledger_event_id = vc_event_id commit, vw_signer_public_key = public_key_vec public_key,
             vw_database_instance_id = vc_database_instance_id commit\<rparr> db) (\<lambda>db. Inr (True, db))
      | (Some event_id, Some stored_key, Some instance_id) \<Rightarrow>
          if event_id = vc_event_id commit \<and> stored_key = public_key_vec public_key \<and>
             instance_id = vc_database_instance_id commit
          then Inr (False, db)
          else Inl (OutboxCommitMismatch (ob_outbox_id outbox))
      | _ \<Rightarrow> Inl (OutboxCommitMismatch (ob_outbox_id outbox)))"

definition verify_outbox_commit_evidence ::
  "turn_outbox_record \<Rightarrow> verified_event_commit \<Rightarrow> public_key_bytes \<Rightarrow> turn_store_error + unit" where
  "verify_outbox_commit_evidence outbox commit public_key =
     (if ob_verified_ledger_event_id outbox = Some (vc_event_id commit) \<and>
         ob_verified_signer_public_key outbox = Some (public_key_vec public_key) \<and>
         ob_verified_database_instance_id outbox = Some (vc_database_instance_id commit)
      then Inr ()
      else Inl (OutboxCommitMismatch (ob_outbox_id outbox)))"

definition deliver_row :: "string \<Rightarrow> millis \<Rightarrow> outbox_row \<Rightarrow> outbox_row" where
  "deliver_row ledger_event_id now_ms r =
     r\<lparr>ow_status := ''delivered'', ow_lease_owner := None, ow_lease_token := None,
       ow_lease_until_ms := None, ow_delivered_at_ms := Some now_ms,
       ow_ledger_event_id := Some ledger_event_id, ow_updated_at_ms := now_ms\<rparr>"

text \<open>The second transaction of the completion, from the insertion of the evidence on.\<close>

definition deliver_in_tx ::
  "turn_libs \<Rightarrow> string \<Rightarrow> string \<Rightarrow> string \<Rightarrow> string \<Rightarrow> verified_event_commit \<Rightarrow> instant \<Rightarrow> turn_outbox_record \<Rightarrow>
     turn_db \<Rightarrow> turn_store_error + (outbox_completion \<times> turn_db)" where
  "deliver_in_tx L tenant_id outbox_id lease_owner lease_token commit now target db =
     (let commit_public_key = PublicKeyBytes (vc_public_key_bytes commit)
      in and_then (ensure_verified_commit_evidence target commit commit_public_key db) (\<lambda>(_, db).
         if ob_status target = OutboxDelivered then
           if ob_ledger_event_id target \<noteq> Some (vc_event_id commit) then Inl (OutboxCommitMismatch outbox_id)
           else
             and_then (require_outbox L tenant_id outbox_id db) (\<lambda>repaired.
             and_then (verify_outbox_commit_evidence repaired commit commit_public_key) (\<lambda>_.
             Inr (CompletionAlreadyDelivered, db)))
         else if now < ob_updated_at target then Inl OutboxCompletionTimeInvalid
         else
           and_then (update_outbox (leased_row tenant_id outbox_id lease_owner lease_token (timestamp_millis now))
             (deliver_row (vc_event_id commit) (timestamp_millis now)) db) (\<lambda>(changed, db).
           if changed \<noteq> 1 then Inl (OutboxLeaseLost outbox_id lease_owner)
           else
             and_then (require_outbox L tenant_id outbox_id db) (\<lambda>delivered.
             if ob_status delivered \<noteq> OutboxDelivered \<or>
                ob_ledger_event_id delivered \<noteq> Some (vc_event_id commit) \<or>
                map_option timestamp_millis (ob_delivered_at delivered) \<noteq> Some (timestamp_millis now) \<or>
                timestamp_millis (ob_updated_at delivered) \<noteq> timestamp_millis now \<or>
                ob_last_error delivered \<noteq> None
             then Inl (SchemaIntegrity ''verified outbox completion was modified by unexpected database behavior'')
             else
               and_then (verify_outbox_commit_evidence delivered commit commit_public_key) (\<lambda>_.
               and_then (tenant_outbox_head tenant_id db) (\<lambda>_.
               Inr (CompletionDelivered, db)))))))"

definition complete_in_tx ::
  "turn_libs \<Rightarrow> string \<Rightarrow> string \<Rightarrow> string \<Rightarrow> string \<Rightarrow> verified_event_commit \<Rightarrow> instant \<Rightarrow> dispatch_snapshot \<Rightarrow>
     turn_db \<Rightarrow> turn_store_error + (outbox_completion \<times> turn_db)" where
  "complete_in_tx L tenant_id outbox_id lease_owner lease_token commit now snapshot db =
     and_then (validate_no_extra_outbox_triggers db) (\<lambda>_.
     and_then (load_dispatch_snapshot L tenant_id outbox_id lease_owner lease_token now True db) (\<lambda>current.
     and_then (verify_tenant_prefix_in_connection L current db) (\<lambda>_.
     and_then (map_err TurnLedger (matches_binding_in_connection (tl_externals L) commit
       (vh_binding (snapshot_target current)) (td_ledger db))) (\<lambda>commit_matches.
     if ds_database_path current \<noteq> ds_database_path snapshot \<or>
        ds_database_path current \<noteq> vc_canonical_ledger_path commit \<or>
        ds_database_instance_id current \<noteq> ds_database_instance_id snapshot \<or>
        ds_database_instance_id current \<noteq> vc_database_instance_id commit \<or>
        \<not> bindings_match L (vh_binding (snapshot_target snapshot)) (vh_binding (snapshot_target current)) \<or>
        \<not> prefixes_match L (ds_tenant_prefix snapshot) (ds_tenant_prefix current) \<or> \<not> commit_matches
     then Inl (OutboxCommitMismatch outbox_id)
     else deliver_in_tx L tenant_id outbox_id lease_owner lease_token commit now
       (vh_outbox (snapshot_target current)) db))))"

definition complete_outbox ::
  "turn_libs \<Rightarrow> string \<Rightarrow> durable_turn_store \<Rightarrow> string \<Rightarrow> string \<Rightarrow> string \<Rightarrow> string \<Rightarrow> verified_event_commit \<Rightarrow>
     instant \<Rightarrow> outbox_completion store_call" where
  "complete_outbox L uuid self tenant_id outbox_id lease_owner lease_token commit now =
     store_then (store_return (validate_lease_identity ''lease_owner'' lease_owner)) (\<lambda>_.
     store_then (store_return (validate_lease_identity ''lease_token'' lease_token)) (\<lambda>_.
     store_then (store_read (dispatch_snapshot_of L self tenant_id outbox_id lease_owner lease_token now True)) (\<lambda>snapshot.
     store_then (verify_ledger_scope L uuid snapshot (PublicKeyBytes (vc_public_key_bytes commit))) (\<lambda>_.
     store_then (verify_tenant_prefix L uuid snapshot) (\<lambda>_.
     store_then (on_ledger (matches_binding (tl_externals L) uuid commit (vh_binding (snapshot_target snapshot)))) (\<lambda>matches.
     if \<not> matches then store_return (Inl (OutboxCommitMismatch outbox_id))
     else store_tx (complete_in_tx L tenant_id outbox_id lease_owner lease_token commit now snapshot)))))))"

end
