(* ===== verification/Outbox_Quarantine.thy ===== *)
theory Outbox_Quarantine
  imports Outbox_Dispatch
begin

text \<open>
  Failures of the outbox dispatcher (\<open>turn_store/dispatcher.rs\<close>) and their persistence
  (\<open>turn_store/dispatcher/persistence.rs\<close>): an event that cannot be delivered is quarantined under
  its lease with an immutable record and then never claimed again; the queue snapshot lists the
  tenants whose head can be claimed.
\<close>

subsection \<open>Failures\<close>

datatype outbox_dispatch_phase =
  PhaseClaim | PhaseResolveSigner | PhaseRevalidate | PhaseAppend | PhaseComplete | PhaseRetryPersist
  | PhaseQuarantinePersist

fun phase_as_str :: "outbox_dispatch_phase \<Rightarrow> string" where
  "phase_as_str PhaseClaim = ''claim''"
| "phase_as_str PhaseResolveSigner = ''resolve_signer''"
| "phase_as_str PhaseRevalidate = ''revalidate''"
| "phase_as_str PhaseAppend = ''append''"
| "phase_as_str PhaseComplete = ''complete''"
| "phase_as_str PhaseRetryPersist = ''retry_persist''"
| "phase_as_str PhaseQuarantinePersist = ''quarantine_persist''"

datatype outbox_failure_class = FailureRetryable | FailurePermanent | FailureLeaseLost | FailureFatal

datatype outbox_failure_code =
  SignerMissing | SignerUnavailable | SignerInvalid | SignerMismatch | StoreBusy | StoreIo | StoreIntegrity
  | LedgerBusy | LedgerIoFailure | LedgerIntegrity | LeaseLost | LeaseBudgetExhausted | ShutdownTimeout
  | InfrastructureFailure

fun code_as_str :: "outbox_failure_code \<Rightarrow> string" where
  "code_as_str SignerMissing = ''signer_missing''"
| "code_as_str SignerUnavailable = ''signer_unavailable''"
| "code_as_str SignerInvalid = ''signer_invalid''"
| "code_as_str SignerMismatch = ''signer_mismatch''"
| "code_as_str StoreBusy = ''store_busy''"
| "code_as_str StoreIo = ''store_io''"
| "code_as_str StoreIntegrity = ''store_integrity''"
| "code_as_str LedgerBusy = ''ledger_busy''"
| "code_as_str LedgerIoFailure = ''ledger_io''"
| "code_as_str LedgerIntegrity = ''ledger_integrity''"
| "code_as_str LeaseLost = ''lease_lost''"
| "code_as_str LeaseBudgetExhausted = ''lease_budget_exhausted''"
| "code_as_str ShutdownTimeout = ''shutdown_timeout''"
| "code_as_str InfrastructureFailure = ''infrastructure_failure''"

record outbox_dispatch_failure =
  df_phase :: outbox_dispatch_phase
  df_class :: outbox_failure_class
  df_code :: outbox_failure_code
  df_message :: string

text \<open>A string is its UTF-8 bytes; a boundary is not in front of a continuation byte.\<close>

definition is_char_boundary :: "string \<Rightarrow> nat \<Rightarrow> bool" where
  "is_char_boundary s i =
     (i = 0 \<or> i = length s \<or> (i < length s \<and> \<not> (of_char (s ! i) \<ge> (128 :: nat) \<and> of_char (s ! i) < (192 :: nat))))"

fun floor_boundary :: "string \<Rightarrow> nat \<Rightarrow> nat" where
  "floor_boundary message 0 = 0"
| "floor_boundary message (Suc n) =
     (if is_char_boundary message (Suc n) then Suc n else floor_boundary message n)"

definition bounded_error_message :: "string \<Rightarrow> string" where
  "bounded_error_message message =
     (if length message \<le> MAX_OUTBOX_ERROR_BYTES then
        if message = [] then ''unspecified outbox dispatcher failure'' else message
      else take (floor_boundary message MAX_OUTBOX_ERROR_BYTES) message)"

definition new_failure ::
  "outbox_dispatch_phase \<Rightarrow> outbox_failure_class \<Rightarrow> outbox_failure_code \<Rightarrow> string \<Rightarrow> outbox_dispatch_failure" where
  "new_failure phase failure_class code message =
     \<lparr>df_phase = phase, df_class = failure_class, df_code = code, df_message = bounded_error_message message\<rparr>"

subsection \<open>Quarantine records\<close>

record outbox_quarantine_record =
  qr_tenant_id :: string
  qr_outbox_id :: string
  qr_commit_ordinal :: u64
  qr_principal_id :: string
  qr_failure_class :: string
  qr_failure_code :: string
  qr_failure_phase :: string
  qr_error_message :: string
  qr_attempts :: u64
  qr_lease_owner :: string
  qr_lease_token :: string
  qr_payload_hash :: string
  qr_quarantined_at :: instant

definition checked_nonnegative_u64 :: "string \<Rightarrow> int \<Rightarrow> turn_store_error + u64" where
  "checked_nonnegative_u64 field v =
     (if v < 0 then Inl (SchemaIntegrity (''outbox dispatcher metric '' @ field @ '' is negative''))
      else Inr (word_of_int v))"

definition checked_positive_u64 :: "string \<Rightarrow> int \<Rightarrow> turn_store_error + u64" where
  "checked_positive_u64 field v =
     and_then (checked_nonnegative_u64 field v) (\<lambda>v.
     if v = 0 then Inl (SchemaIntegrity (''outbox quarantine field '' @ field @ '' must be positive''))
     else Inr v)"

definition materialize_quarantine :: "turn_libs \<Rightarrow> quarantine_row \<Rightarrow> turn_store_error + outbox_quarantine_record" where
  "materialize_quarantine L raw =
     (if \<not> List.member [''permanent'', ''retry_exhausted''] (qw_failure_class raw) \<or> qw_failure_code raw = [] \<or>
         qw_failure_phase raw = [] \<or> qw_error_message raw = [] \<or> qw_principal_id raw = []
      then Inl (SchemaIntegrity ''outbox quarantine row contains an invalid classification'')
      else
        and_then (checked_positive_u64 ''commit_ordinal'' (qw_commit_ordinal raw)) (\<lambda>commit_ordinal.
        and_then (checked_positive_u64 ''attempts'' (qw_attempts raw)) (\<lambda>attempts.
        and_then (parse_timestamp L ''quarantined_at_ms'' (qw_quarantined_at_ms raw)) (\<lambda>quarantined_at.
        Inr \<lparr>qr_tenant_id = qw_tenant_id raw, qr_outbox_id = qw_outbox_id raw,
             qr_commit_ordinal = commit_ordinal, qr_principal_id = qw_principal_id raw,
             qr_failure_class = qw_failure_class raw, qr_failure_code = qw_failure_code raw,
             qr_failure_phase = qw_failure_phase raw, qr_error_message = qw_error_message raw,
             qr_attempts = attempts, qr_lease_owner = qw_lease_owner raw,
             qr_lease_token = qw_lease_token raw, qr_payload_hash = qw_payload_hash raw,
             qr_quarantined_at = quarantined_at\<rparr>))))"

definition quarantine_at :: "string \<Rightarrow> string \<Rightarrow> quarantine_row \<Rightarrow> bool" where
  "quarantine_at tenant_id outbox_id q = (qw_tenant_id q = tenant_id \<and> qw_outbox_id q = outbox_id)"

definition load_quarantine_record ::
  "turn_libs \<Rightarrow> string \<Rightarrow> string \<Rightarrow> turn_db \<Rightarrow> turn_store_error + outbox_quarantine_record option" where
  "load_quarantine_record L tenant_id outbox_id db =
     optional_map (materialize_quarantine L) (find (quarantine_at tenant_id outbox_id) (td_quarantine db))"

definition list_outbox_quarantines :: "turn_libs \<Rightarrow> nat \<Rightarrow> turn_db \<Rightarrow> turn_store_error + outbox_quarantine_record list" where
  "list_outbox_quarantines L limit db =
     collect_results (materialize_quarantine L)
       (take (bounded_limit limit) (sort_key qw_commit_ordinal (td_quarantine db)))"

definition claimed_principal_id :: "turn_outbox_record \<Rightarrow> turn_store_error + principal_id" where
  "claimed_principal_id claim =
     (case pointer_str [''principal_id''] (ob_payload claim) of
        None \<Rightarrow> Inl (RecordBindingMismatch ''outbox.principal_id'')
      | Some v \<Rightarrow> if v = [] then Inl (RecordBindingMismatch ''outbox.principal_id'') else Inr (PrincipalId v))"

text \<open>
  \<open>INSERT INTO turn_outbox_quarantine_v2\<close>: the columns' checks, the two keys, and the trigger that
  wants the row to be the tenant's head, leased to the same worker with the same token, attempts,
  payload and principal, and the lease to be live.
\<close>

definition quarantine_guard :: "quarantine_row \<Rightarrow> turn_db \<Rightarrow> bool" where
  "quarantine_guard row db =
     list_ex (\<lambda>(r, c).
       outbox_at (qw_tenant_id row) (qw_outbox_id row) r \<and>
       list_ex (\<lambda>s. turn_at (ow_tenant_id r) (ow_turn_id r) s \<and> tw_principal_id s = qw_principal_id row) (td_turns db) \<and>
       ow_status r = ''leased'' \<and> ow_lease_owner r = Some (qw_lease_owner row) \<and>
       ow_lease_token r = Some (qw_lease_token row) \<and> ow_attempts r = qw_attempts row \<and>
       ow_payload_hash r = qw_payload_hash row \<and> or_commit_ordinal c = qw_commit_ordinal row \<and>
       (case ow_lease_until_ms r of None \<Rightarrow> False | Some t \<Rightarrow> t > qw_quarantined_at_ms row) \<and>
       sql_min (map (or_commit_ordinal \<circ> snd) (filter (\<lambda>p. \<not> delivered (fst p)) (tenant_rows (qw_tenant_id row) db))) =
         Some (or_commit_ordinal c))
       (tenant_rows (qw_tenant_id row) db)"

definition quarantine_checks :: "quarantine_row \<Rightarrow> bool" where
  "quarantine_checks row =
     (0 < qw_commit_ordinal row \<and> qw_principal_id row \<noteq> [] \<and>
      List.member [''permanent'', ''retry_exhausted''] (qw_failure_class row) \<and>
      qw_failure_code row \<noteq> [] \<and> length (qw_failure_code row) \<le> 128 \<and>
      List.member [''claim'', ''resolve_signer'', ''revalidate'', ''append'', ''complete'', ''retry_persist'',
        ''quarantine_persist''] (qw_failure_phase row) \<and>
      qw_error_message row \<noteq> [] \<and> length (qw_error_message row) \<le> 4096 \<and> 0 < qw_attempts row)"

definition insert_quarantine_row :: "quarantine_row \<Rightarrow> turn_db \<Rightarrow> turn_store_error + turn_db" where
  "insert_quarantine_row row db =
     (if \<not> quarantine_guard row db \<or> \<not> quarantine_checks row \<or>
         list_ex (quarantine_at (qw_tenant_id row) (qw_outbox_id row)) (td_quarantine db) \<or>
         list_ex (\<lambda>q. qw_commit_ordinal q = qw_commit_ordinal row) (td_quarantine db)
      then Inl (TurnSqlite (ConstraintViolation ''turn_outbox_quarantine_v2''))
      else Inr (db\<lparr>td_quarantine := td_quarantine db @ [row]\<rparr>))"

definition new_quarantine_row ::
  "turn_outbox_record \<Rightarrow> principal_id \<Rightarrow> outbox_dispatch_failure \<Rightarrow> bool \<Rightarrow> string \<Rightarrow> string \<Rightarrow> instant \<Rightarrow> quarantine_row" where
  "new_quarantine_row current principal_id failure exhausted lease_owner lease_token now =
     \<lparr>qw_tenant_id = ob_tenant_id current, qw_outbox_id = ob_outbox_id current,
      qw_commit_ordinal = uint (ob_commit_ordinal current), qw_principal_id = principal_str principal_id,
      qw_failure_class = (if exhausted then ''retry_exhausted'' else ''permanent''),
      qw_failure_code = code_as_str (df_code failure), qw_failure_phase = phase_as_str (df_phase failure),
      qw_error_message = df_message failure, qw_attempts = uint (ob_attempts current),
      qw_lease_owner = lease_owner, qw_lease_token = lease_token,
      qw_payload_hash = ob_payload_hash current, qw_quarantined_at_ms = timestamp_millis now\<rparr>"

definition quarantine_outbox ::
  "turn_libs \<Rightarrow> turn_outbox_record \<Rightarrow> outbox_dispatch_failure \<Rightarrow> bool \<Rightarrow> instant \<Rightarrow> turn_db \<Rightarrow>
     turn_store_error + (outbox_quarantine_record \<times> turn_db)" where
  "quarantine_outbox L claim failure exhausted now db =
     and_then (ok_or (OutboxLeaseLost (ob_outbox_id claim) ''missing'') (ob_lease_owner claim)) (\<lambda>lease_owner.
     and_then (ok_or (OutboxLeaseLost (ob_outbox_id claim) lease_owner) (ob_lease_token claim)) (\<lambda>lease_token.
     and_then (claimed_principal_id claim) (\<lambda>principal_id.
     and_then (validate_no_extra_outbox_triggers db) (\<lambda>_.
     and_then (tenant_outbox_head (ob_tenant_id claim) db) (\<lambda>head.
     if head \<noteq> Some (ob_outbox_id claim) then Inl (OutboxOrderConflict (ob_outbox_id claim))
     else
       and_then (require_outbox L (ob_tenant_id claim) (ob_outbox_id claim) db) (\<lambda>current.
       and_then (check_held_lease current (ob_outbox_id claim) lease_owner lease_token now) (\<lambda>_.
       if uint (ob_commit_ordinal current) > i64_max then Inl CommitOrdinalExhausted
       else if uint (ob_attempts current) > i64_max then Inl OutboxAttemptsExhausted
       else
         and_then (insert_quarantine_row
           (new_quarantine_row current principal_id failure exhausted lease_owner lease_token now) db) (\<lambda>db.
         and_then (update_outbox
           (leased_row (ob_tenant_id claim) (ob_outbox_id claim) lease_owner lease_token (timestamp_millis now))
           (drop_lease (timestamp_millis now) (df_message failure) (timestamp_millis now)) db) (\<lambda>(changed, db).
         if changed \<noteq> 1 then Inl (OutboxLeaseLost (ob_outbox_id claim) lease_owner)
         else
           and_then (load_quarantine_record L (ob_tenant_id claim) (ob_outbox_id claim) db) (\<lambda>found.
           and_then (ok_or (SchemaIntegrity ''outbox quarantine evidence disappeared before commit'') found) (\<lambda>quarantined.
           and_then (require_outbox L (ob_tenant_id claim) (ob_outbox_id claim) db) (\<lambda>released.
           if ob_status released \<noteq> OutboxPending \<or> ob_lease_owner released \<noteq> None \<or>
              ob_lease_token released \<noteq> None \<or> ob_lease_until released \<noteq> None \<or>
              ob_last_error released \<noteq> Some (df_message failure) \<or>
              \<not> outbox_is_quarantined (ob_tenant_id claim) (ob_outbox_id claim) db
           then Inl (SchemaIntegrity ''outbox quarantine did not atomically fence future claims'')
           else Inr (quarantined, db)))))))))))))"

subsection \<open>The queue snapshot\<close>

record queue_snapshot =
  qs_ready_tenants :: "string list"
  qs_queue_depth :: u64
  qs_leased_count :: u64
  qs_oldest_created_at :: "instant option"
  qs_dead_letters :: u64

definition joined_rows :: "turn_db \<Rightarrow> (outbox_row \<times> order_row) list" where
  "joined_rows db = List.map_filter (\<lambda>r. map_option (Pair r) (order_of db r)) (td_outbox db)"

definition head_ordinal :: "string \<Rightarrow> turn_db \<Rightarrow> int option" where
  "head_ordinal tenant_id db =
     sql_min (map (or_commit_ordinal \<circ> snd)
       (filter (\<lambda>p. \<not> delivered (fst p) \<and> ow_tenant_id (fst p) = tenant_id) (joined_rows db)))"

definition ready_head :: "millis \<Rightarrow> turn_db \<Rightarrow> outbox_row \<times> order_row \<Rightarrow> bool" where
  "ready_head now_ms db p =
     (case p of (r, c) \<Rightarrow>
        head_ordinal (ow_tenant_id r) db = Some (or_commit_ordinal c) \<and>
        \<not> outbox_is_quarantined (ow_tenant_id r) (ow_outbox_id r) db \<and>
        ow_available_at_ms r \<le> now_ms \<and>
        (ow_status r = ''pending'' \<or>
         (ow_status r = ''leased'' \<and> (case ow_lease_until_ms r of None \<Rightarrow> False | Some t \<Rightarrow> t \<le> now_ms))))"

definition ready_tenants :: "millis \<Rightarrow> turn_db \<Rightarrow> string list" where
  "ready_tenants now_ms db =
     map (ow_tenant_id \<circ> fst) (sort_key (or_commit_ordinal \<circ> snd) (filter (ready_head now_ms db) (joined_rows db)))"

definition dispatch_queue_snapshot ::
  "turn_libs \<Rightarrow> instant \<Rightarrow> nat \<Rightarrow> turn_db \<Rightarrow> turn_store_error + queue_snapshot" where
  "dispatch_queue_snapshot L now tenant_limit db =
     (let ready = take (bounded_limit tenant_limit) (ready_tenants (timestamp_millis now) db);
          queued = filter (\<lambda>r. \<not> delivered r \<and> \<not> outbox_is_quarantined (ow_tenant_id r) (ow_outbox_id r) db) (td_outbox db)
      in and_then (checked_nonnegative_u64 ''queue_depth'' (int (length queued))) (\<lambda>queue_depth.
         and_then (checked_nonnegative_u64 ''leased_count''
           (int (length (filter (\<lambda>r. ow_status r = ''leased'') queued)))) (\<lambda>leased_count.
         and_then (optional_map (parse_timestamp L ''created_at_ms'') (sql_min (map ow_created_at_ms queued))) (\<lambda>oldest.
         and_then (checked_nonnegative_u64 ''dead_letters'' (int (length (td_quarantine db)))) (\<lambda>dead_letters.
         Inr \<lparr>qs_ready_tenants = ready, qs_queue_depth = queue_depth, qs_leased_count = leased_count,
              qs_oldest_created_at = oldest, qs_dead_letters = dead_letters\<rparr>)))))"

end
