(* ===== verification/Store_Steps.thy ===== *)
theory Store_Steps
  imports Outbox_Quarantine
begin

text \<open>
  Every operation of the turn store as one step relation, and the invariant of its reachable
  states: besides the invariant of turns and outbox, a row is delivered exactly when it has
  immutable evidence of a verified commit under the same event, and a quarantined row stays
  pending, with the payload and the attempts it was quarantined with, for good.
\<close>

subsection \<open>Evidence and quarantine\<close>

definition evidence_key :: "verified_row \<Rightarrow> string \<times> string" where
  "evidence_key v = (vw_tenant_id v, vw_outbox_id v)"

definition quarantine_key :: "quarantine_row \<Rightarrow> string \<times> string" where
  "quarantine_key q = (qw_tenant_id q, qw_outbox_id q)"

definition evidence_inv :: "turn_db \<Rightarrow> bool" where
  "evidence_inv db \<longleftrightarrow>
     distinct (map evidence_key (td_verified db)) \<and>
     (\<forall>r \<in> set (td_outbox db). delivered r \<longrightarrow>
        (\<exists>v \<in> set (td_verified db). evidence_key v = outbox_key r \<and> ow_ledger_event_id r = Some (vw_ledger_event_id v))) \<and>
     (\<forall>v \<in> set (td_verified db). length (vw_signer_public_key v) = 32 \<and> vw_database_instance_id v \<noteq> [] \<and>
        (\<exists>r \<in> set (td_outbox db). outbox_key r = evidence_key v \<and> delivered r))"

definition quarantine_inv :: "turn_db \<Rightarrow> bool" where
  "quarantine_inv db \<longleftrightarrow>
     distinct (map quarantine_key (td_quarantine db)) \<and>
     (\<forall>q \<in> set (td_quarantine db). \<exists>r \<in> set (td_outbox db). outbox_key r = quarantine_key q \<and>
        ow_status r = ''pending'' \<and> ow_payload_hash r = qw_payload_hash q \<and> ow_attempts r = qw_attempts q)"

definition full_inv :: "turn_db \<Rightarrow> bool" where
  "full_inv db \<longleftrightarrow> store_inv db \<and> evidence_inv db \<and> quarantine_inv db"

lemmas store_inv_defs = store_inv_def outbox_inv_def turns_inv_def history_inv_def

lemma full_inv_ledger [simp]: "full_inv (db\<lparr>td_ledger := l\<rparr>) \<longleftrightarrow> full_inv db"
  by (simp add: full_inv_def store_inv_defs evidence_inv_def quarantine_inv_def)

lemma empty_full_inv: "empty_store db \<Longrightarrow> full_inv db"
  by (simp add: full_inv_def empty_store_inv evidence_inv_def quarantine_inv_def empty_store_def)

subsection \<open>Operations on turns only extend the outbox\<close>

definition outbox_extended :: "turn_db \<Rightarrow> turn_db \<Rightarrow> bool" where
  "outbox_extended db db' \<longleftrightarrow>
     (\<exists>new. td_outbox db' = td_outbox db @ new \<and> (\<forall>r \<in> set new. \<not> delivered r)) \<and>
     td_verified db' = td_verified db \<and> td_quarantine db' = td_quarantine db"

named_theorems extends

lemma extended_refl [simp, extends]: "outbox_extended db db"
  by (simp add: outbox_extended_def)

lemma extended_trans: "outbox_extended a b \<Longrightarrow> outbox_extended b c \<Longrightarrow> outbox_extended a c"
  by (auto simp: outbox_extended_def)

lemma extended_inv:
  assumes "outbox_extended db db'"
  shows "evidence_inv db \<Longrightarrow> evidence_inv db'" and "quarantine_inv db \<Longrightarrow> quarantine_inv db'"
  using assms by (auto simp: outbox_extended_def evidence_inv_def quarantine_inv_def bex_Un)

lemma insert_outbox_extends [extends]: "insert_outbox L rec prev h now db = Inr db' \<Longrightarrow> outbox_extended db db'"
  by (auto simp: insert_outbox_def insert_outbox_row_def assign_commit_order_def Let_def result_simps
      outbox_extended_def new_outbox_row_def delivered_def split: if_splits)

lemma update_extends [extends]:
  "update_turn P f db = Inr db' \<Longrightarrow> outbox_extended db db'"
  "update_actor Q g e db = Inr db' \<Longrightarrow> outbox_extended db db'"
  "clear_actor record now db = Inr db' \<Longrightarrow> outbox_extended db db'"
  "update_actor_after_transition record w next now db = Inr db' \<Longrightarrow> outbox_extended db db'"
  "insert_turn_row row db = Inr db' \<Longrightarrow> outbox_extended db db'"
  "ensure_actor_row L actor now db = Inr db' \<Longrightarrow> outbox_extended db db'"
  by (auto simp: update_turn_def update_actor_def clear_actor_def update_actor_after_transition_def
      insert_turn_row_def ensure_actor_row_def Let_def result_simps outbox_extended_def split: if_splits)

lemma recover_extends [extends]: "recover_turn_in_tx L record now db = Inr (rec, db') \<Longrightarrow> outbox_extended db db'"
  by (auto simp: recover_turn_in_tx_def Let_def result_simps split: if_splits
      intro: extends extended_trans [OF update_extends(1) extended_trans [OF update_extends(3) insert_outbox_extends]])

lemma recover_actor_turns_extends [extends]:
  "recover_actor_turns L t now pairs db = Inr (recs, db') \<Longrightarrow> outbox_extended db db'"
  by (induction L t now pairs db arbitrary: recs rule: recover_actor_turns.induct)
    (auto simp: result_simps split: if_splits intro: extended_trans [OF recover_extends])

lemma transition_extends [extends]:
  "transition_inner L t i w s n next res now db = Inr (rec, db') \<Longrightarrow> outbox_extended db db'"
  by (auto simp: transition_inner_def Let_def result_simps split: if_splits
      intro: extended_trans [OF update_extends(1) extended_trans [OF update_extends(4) insert_outbox_extends]])

lemma recover_admission_extends [extends]:
  "recover_actor_for_admission L actor now db = Inr db' \<Longrightarrow> outbox_extended db db'"
  "recover_duplicate_if_expired L record now db = Inr (rec, db') \<Longrightarrow> outbox_extended db db'"
  by (auto simp: recover_actor_for_admission_def recover_duplicate_if_expired_def result_simps
      split: option.splits if_splits intro: extends)

lemma begin_turn_extends [extends]:
  assumes "begin_turn L g adm now db = Inr (res, db')"
  shows "outbox_extended db db'"
  using assms
proof (cases rule: begin_turn_cases)
  case (created r db0 db1 db2 db3 rec)
  then show ?thesis
    by (meson extended_trans extends(2) update_extends(2,5,6) recover_admission_extends(1) insert_outbox_extends)
qed (auto intro: extends)

subsection \<open>Lease operations\<close>

lemma outbox_unique:
  "outbox_inv db \<Longrightarrow> r \<in> set (td_outbox db) \<Longrightarrow> s \<in> set (td_outbox db) \<Longrightarrow> outbox_key r = outbox_key s \<Longrightarrow> r = s"
  by (auto simp: outbox_inv_def distinct_map dest: inj_onD)

lemma evidence_inv_update:
  assumes inv: "evidence_inv db"
    and ok: "\<And>r. r \<in> set (td_outbox db) \<Longrightarrow> P r \<Longrightarrow> \<not> delivered r \<and> \<not> delivered (f r)"
  shows "evidence_inv (db\<lparr>td_outbox := update_where P f (td_outbox db)\<rparr>)"
proof -
  have "\<exists>s \<in> set (update_where P f (td_outbox db)). outbox_key s = k \<and> delivered s"
    if "r \<in> set (td_outbox db)" "outbox_key r = k" "delivered r" for r k
    using that ok [of r] by (auto simp: update_where_set)
  then show ?thesis
    using inv ok by (fastforce simp: evidence_inv_def update_where_set)
qed

lemma quarantine_inv_update:
  assumes inv: "quarantine_inv db"
    and ok: "\<And>r. r \<in> set (td_outbox db) \<Longrightarrow> P r \<Longrightarrow> outbox_key r \<notin> quarantine_key ` set (td_quarantine db)"
  shows "quarantine_inv (db\<lparr>td_outbox := update_where P f (td_outbox db)\<rparr>)"
  unfolding quarantine_inv_def
proof (intro conjI ballI)
  fix q assume q: "q \<in> set (td_quarantine (db\<lparr>td_outbox := update_where P f (td_outbox db)\<rparr>))"
  obtain r where r: "r \<in> set (td_outbox db)" "outbox_key r = quarantine_key q" "ow_status r = ''pending''"
    "ow_payload_hash r = qw_payload_hash q" "ow_attempts r = qw_attempts q"
    using inv q by (auto simp: quarantine_inv_def)
  then have "\<not> P r"
    using ok [OF r(1)] q by auto
  then show "\<exists>r \<in> set (td_outbox (db\<lparr>td_outbox := update_where P f (td_outbox db)\<rparr>)). outbox_key r = quarantine_key q \<and>
      ow_status r = ''pending'' \<and> ow_payload_hash r = qw_payload_hash q \<and> ow_attempts r = qw_attempts q"
    using r by (intro bexI [of _ r]) (auto simp: update_where_set)
qed (use inv in \<open>simp add: quarantine_inv_def\<close>)

lemma leased_not_quarantined:
  assumes inv: "full_inv db" and r: "r \<in> set (td_outbox db)" "ow_status r \<noteq> ''pending''"
  shows "outbox_key r \<notin> quarantine_key ` set (td_quarantine db)"
proof
  assume "outbox_key r \<in> quarantine_key ` set (td_quarantine db)"
  then obtain q s where s: "s \<in> set (td_outbox db)" "outbox_key s = outbox_key r" "ow_status s = ''pending''"
    using inv by (auto simp: full_inv_def quarantine_inv_def)
  then show False
    using outbox_unique [of db s r] inv r by (simp add: full_inv_def store_inv_def)
qed

lemma history_inv_update:
  assumes inv: "history_inv db"
    and ok: "\<And>r. turn_of_outbox (f r) = turn_of_outbox r \<and> ow_revision (f r) = ow_revision r \<and>
      ow_event_type (f r) = ow_event_type r"
  shows "history_inv (db\<lparr>td_outbox := update_where P f (td_outbox db)\<rparr>)"
proof -
  define g where "g r = (if P r then f r else r)" for r
  have same: "turn_of_outbox (g r) = turn_of_outbox r" "ow_revision (g r) = ow_revision r"
    "ow_event_type (g r) = ow_event_type r" for r
    using ok by (simp_all add: g_def)
  have "update_where P f (td_outbox db) = map g (td_outbox db)"
    by (simp add: update_where_def g_def)
  then show ?thesis
    using inv by (simp add: history_defs sorted_wrt_map same step_events_def)
qed

lemma claim_row_status: "claimable_row t i ms r \<Longrightarrow> \<not> delivered r \<and> outbox_key r = (t, i)"
  by (auto simp: claimable_row_def delivered_def outbox_at_def outbox_key_def)

lemma leased_row_status: "leased_row t i w k ms r \<Longrightarrow> \<not> delivered r \<and> ow_status r \<noteq> ''pending'' \<and> outbox_key r = (t, i)"
  by (auto simp: leased_row_def delivered_def outbox_at_def outbox_key_def)

lemma lease_change_delivered [simp]:
  "\<not> delivered (take_lease w k u ms r)" "\<not> delivered (drop_lease a e ms r)"
  "delivered (extend_lease u ms r) \<longleftrightarrow> delivered r" "delivered (deliver_row e ms r)"
  by (simp_all add: delivered_def take_lease_def drop_lease_def extend_lease_def deliver_row_def)

lemma lease_change_history:
  "turn_of_outbox (take_lease w k u ms r) = turn_of_outbox r \<and> ow_revision (take_lease w k u ms r) = ow_revision r \<and>
     ow_event_type (take_lease w k u ms r) = ow_event_type r"
  "turn_of_outbox (drop_lease a e ms r) = turn_of_outbox r \<and> ow_revision (drop_lease a e ms r) = ow_revision r \<and>
     ow_event_type (drop_lease a e ms r) = ow_event_type r"
  "turn_of_outbox (extend_lease u ms r) = turn_of_outbox r \<and> ow_revision (extend_lease u ms r) = ow_revision r \<and>
     ow_event_type (extend_lease u ms r) = ow_event_type r"
  "turn_of_outbox (deliver_row v ms r) = turn_of_outbox r \<and> ow_revision (deliver_row v ms r) = ow_revision r \<and>
     ow_event_type (deliver_row v ms r) = ow_event_type r"
  by (simp_all add: turn_of_outbox_def take_lease_def drop_lease_def extend_lease_def deliver_row_def)

lemma turns_inv_outbox [simp]: "turns_inv (db\<lparr>td_outbox := rows\<rparr>) \<longleftrightarrow> turns_inv db"
  by (simp add: turns_inv_def)

lemma lease_update_inv:
  assumes inv: "full_inv db" and harmless: "harmless_update P f"
    and hist: "\<And>r. turn_of_outbox (f r) = turn_of_outbox r \<and> ow_revision (f r) = ow_revision r \<and>
      ow_event_type (f r) = ow_event_type r"
    and ok: "\<And>r. r \<in> set (td_outbox db) \<Longrightarrow> P r \<Longrightarrow> \<not> delivered r \<and> outbox_key r \<notin> quarantine_key ` set (td_quarantine db)"
  shows "full_inv (db\<lparr>td_outbox := update_where P f (td_outbox db)\<rparr>)"
proof -
  have "\<not> delivered r \<and> \<not> delivered (f r)" if "r \<in> set (td_outbox db)" "P r" for r
    using ok [OF that] harmless that(2) by (auto simp: harmless_update_def)
  then show ?thesis
    using inv harmless_update_inv [OF _ harmless] history_inv_update [OF _ hist] quarantine_inv_update [of db P f]
      evidence_inv_update [of db P f] ok
    by (simp add: full_inv_def store_inv_def)
qed

lemma claim_full_inv:
  assumes inv: "full_inv db" and ok: "claim_next_outbox L uuid t w now d db = Inr (res, db')"
  shows "full_inv db'"
  using claim_cases [OF ok]
proof
  assume "\<exists>i current rec. tenant_outbox_head t db = Inr (Some i) \<and> require_outbox L t i db = Inr current \<and>
       \<not> outbox_is_quarantined t i db \<and> claim_ready current now \<and> res = Some rec \<and>
       db' = db\<lparr>td_outbox := update_where (claimable_row t i (timestamp_millis now))
         (take_lease w (''outbox-lease-'' @ uuid) (timestamp_millis (now + d)) (timestamp_millis now)) (td_outbox db)\<rparr> \<and>
       length (filter (claimable_row t i (timestamp_millis now)) (td_outbox db)) = 1 \<and>
       require_outbox L t i db' = Inr rec \<and> ob_lease_owner rec = Some w \<and>
       ob_lease_token rec = Some (''outbox-lease-'' @ uuid) \<and> ob_status rec = OutboxLeased \<and>
       map_option timestamp_millis (ob_lease_until rec) = Some (timestamp_millis (now + d)) \<and>
       timestamp_millis (ob_updated_at rec) = timestamp_millis now \<and>
       tenant_outbox_head t db' = Inr (Some i) \<and> validate_no_extra_outbox_triggers db = Inr ()"
  then obtain i where i: "\<not> outbox_is_quarantined t i db"
    "db' = db\<lparr>td_outbox := update_where (claimable_row t i (timestamp_millis now))
       (take_lease w (''outbox-lease-'' @ uuid) (timestamp_millis (now + d)) (timestamp_millis now)) (td_outbox db)\<rparr>"
    by blast
  have "(t, i) \<notin> quarantine_key ` set (td_quarantine db)"
    using i(1) by (auto simp: outbox_is_quarantined_def list_ex_iff quarantine_key_def)
  then show ?thesis
    unfolding i(2) using claim_row_status
    by (intro lease_update_inv [OF inv claim_harmless lease_change_history(1)]) fastforce
qed (use inv in simp)

lemma leased_row_free:
  "full_inv db \<Longrightarrow> r \<in> set (td_outbox db) \<Longrightarrow> leased_row t i w k ms r \<Longrightarrow>
     \<not> delivered r \<and> outbox_key r \<notin> quarantine_key ` set (td_quarantine db)"
  using leased_not_quarantined leased_row_status by blast

lemma release_full_inv:
  assumes inv: "full_inv db" and ok: "release_outbox L t i w k now a e db = Inr (u, db')"
  shows "full_inv db'"
  using release_cases [OF ok] lease_update_inv [OF inv release_harmless lease_change_history(2) leased_row_free [OF inv]]
  by auto

lemma renew_full_inv:
  assumes inv: "full_inv db" and ok: "renew_outbox_lease L t i w k now d db = Inr (rec, db')"
  shows "full_inv db'"
  using renew_cases [OF ok] lease_update_inv [OF inv renew_harmless lease_change_history(3) leased_row_free [OF inv]]
  by auto

subsection \<open>Quarantine\<close>

lemma tenant_rows_member: "(r, c) \<in> set (tenant_rows t db) \<Longrightarrow> r \<in> set (td_outbox db) \<and> ow_tenant_id r = t \<and> order_of db r = Some c"
  by (auto simp: tenant_rows_def List.map_filter_def)

lemma quarantine_guard_row:
  assumes "quarantine_guard q db"
  obtains r where "r \<in> set (td_outbox db)" "outbox_key r = quarantine_key q"
    "leased_row (qw_tenant_id q) (qw_outbox_id q) (qw_lease_owner q) (qw_lease_token q) (qw_quarantined_at_ms q) r"
    "ow_payload_hash r = qw_payload_hash q" "ow_attempts r = qw_attempts q"
proof -
  obtain r c where "(r, c) \<in> set (tenant_rows (qw_tenant_id q) db)"
    "leased_row (qw_tenant_id q) (qw_outbox_id q) (qw_lease_owner q) (qw_lease_token q) (qw_quarantined_at_ms q) r"
    "ow_payload_hash r = qw_payload_hash q" "ow_attempts r = qw_attempts q" "outbox_at (qw_tenant_id q) (qw_outbox_id q) r"
    using assms by (auto simp: quarantine_guard_def list_ex_iff leased_row_def)
  then show thesis
    using that [of r] tenant_rows_member by (auto simp: outbox_at_def outbox_key_def quarantine_key_def)
qed

lemma quarantine_cases:
  assumes "quarantine_outbox L claim failure exhausted now db = Inr (rec, db')"
  obtains q where "quarantine_guard q db" "quarantine_key q = (ob_tenant_id claim, ob_outbox_id claim)"
    "quarantine_key q \<notin> quarantine_key ` set (td_quarantine db)" "qw_quarantined_at_ms q = timestamp_millis now"
    "db' = db\<lparr>td_quarantine := td_quarantine db @ [q],
       td_outbox := update_where (leased_row (qw_tenant_id q) (qw_outbox_id q) (qw_lease_owner q) (qw_lease_token q) (qw_quarantined_at_ms q))
         (drop_lease (timestamp_millis now) (df_message failure) (timestamp_millis now)) (td_outbox db)\<rparr>"
    "tenant_outbox_head (ob_tenant_id claim) db = Inr (Some (ob_outbox_id claim))"
    "\<exists>released. require_outbox L (ob_tenant_id claim) (ob_outbox_id claim) db' = Inr released"
    "length (filter (leased_row (qw_tenant_id q) (qw_outbox_id q) (qw_lease_owner q) (qw_lease_token q) (qw_quarantined_at_ms q))
       (td_outbox db)) = 1"
proof -
  obtain w k pid current db1 released where st:
    "tenant_outbox_head (ob_tenant_id claim) db = Inr (Some (ob_outbox_id claim))"
    "require_outbox L (ob_tenant_id claim) (ob_outbox_id claim) db = Inr current"
    "insert_quarantine_row (new_quarantine_row current pid failure exhausted w k now) db = Inr db1"
    "db' = db1\<lparr>td_outbox := update_where (leased_row (ob_tenant_id claim) (ob_outbox_id claim) w k (timestamp_millis now))
       (drop_lease (timestamp_millis now) (df_message failure) (timestamp_millis now)) (td_outbox db1)\<rparr>"
    "require_outbox L (ob_tenant_id claim) (ob_outbox_id claim) db' = Inr released"
    "length (filter (leased_row (ob_tenant_id claim) (ob_outbox_id claim) w k (timestamp_millis now)) (td_outbox db1)) = 1"
    using assms unfolding quarantine_outbox_def Let_def
    by (auto simp: result_simps update_outbox_Inr split: if_splits)
  have ids: "ob_tenant_id current = ob_tenant_id claim" "ob_outbox_id current = ob_outbox_id claim"
    using require_outbox_ok [OF st(2)] by (auto simp: outbox_record_of_def outbox_at_def dest!: find_split)
  define q where "q = new_quarantine_row current pid failure exhausted w k now"
  have q: "qw_tenant_id q = ob_tenant_id claim" "qw_outbox_id q = ob_outbox_id claim" "qw_lease_owner q = w"
    "qw_lease_token q = k" "qw_quarantined_at_ms q = timestamp_millis now"
    using ids by (simp_all add: q_def new_quarantine_row_def)
  have "quarantine_guard q db" "db1 = db\<lparr>td_quarantine := td_quarantine db @ [q]\<rparr>"
    "quarantine_key q \<notin> quarantine_key ` set (td_quarantine db)"
    using st(3) unfolding q_def [symmetric]
    by (auto simp: insert_quarantine_row_def list_ex_iff quarantine_at_def quarantine_key_def split: if_splits)
  then show thesis
    using st(1,4,5,6) q by (intro that [of q]) (simp_all add: quarantine_key_def)
qed

lemma quarantine_full_inv:
  assumes inv: "full_inv db" and ok: "quarantine_outbox L claim failure exhausted now db = Inr (rec, db')"
  shows "full_inv db'"
proof -
  obtain q where q: "quarantine_guard q db" "quarantine_key q \<notin> quarantine_key ` set (td_quarantine db)"
    "db' = db\<lparr>td_quarantine := td_quarantine db @ [q],
       td_outbox := update_where (leased_row (qw_tenant_id q) (qw_outbox_id q) (qw_lease_owner q) (qw_lease_token q) (qw_quarantined_at_ms q))
         (drop_lease (timestamp_millis now) (df_message failure) (timestamp_millis now)) (td_outbox db)\<rparr>"
    using ok by (rule quarantine_cases)
  let ?P = "leased_row (qw_tenant_id q) (qw_outbox_id q) (qw_lease_owner q) (qw_lease_token q) (qw_quarantined_at_ms q)"
  let ?f = "drop_lease (timestamp_millis now) (df_message failure) (timestamp_millis now)"
  obtain r where r: "r \<in> set (td_outbox db)" "outbox_key r = quarantine_key q" "?P r"
    "ow_payload_hash r = qw_payload_hash q" "ow_attempts r = qw_attempts q"
    using q(1) by (rule quarantine_guard_row)
  have mid: "full_inv (db\<lparr>td_outbox := update_where ?P ?f (td_outbox db)\<rparr>)"
    by (rule lease_update_inv [OF inv release_harmless lease_change_history(2) leased_row_free [OF inv]])
  have "?f r \<in> set (update_where ?P ?f (td_outbox db))"
    using r(1,3) by (auto simp: update_where_set)
  moreover have "outbox_key (?f r) = quarantine_key q \<and> ow_status (?f r) = ''pending'' \<and>
      ow_payload_hash (?f r) = qw_payload_hash q \<and> ow_attempts (?f r) = qw_attempts q"
    using r by (simp add: drop_lease_def outbox_key_def)
  ultimately show ?thesis
    using mid q(2) unfolding q(3)
    by (auto simp: full_inv_def store_inv_defs evidence_inv_def quarantine_inv_def)
qed

text \<open>A quarantined head stops its tenant.\<close>

lemma quarantined_blocks_claim:
  assumes "tenant_outbox_head t db = Inr (Some i)" and "outbox_is_quarantined t i db"
    and "claim_next_outbox L uuid t w now d db = Inr (res, db')"
  shows "res = None \<and> db' = db"
  using claim_cases [OF assms(3)] assms(1,2) by auto

subsection \<open>Delivery\<close>

text \<open>Calls that touch nothing of the database but the ledger's tables.\<close>

definition ledger_only :: "'a store_call \<Rightarrow> bool" where
  "ledger_only m \<longleftrightarrow> (\<forall>h db. \<exists>l. snd (snd (m h db)) = db\<lparr>td_ledger := l\<rparr>)"

lemma ledger_self: "\<exists>l. db = db\<lparr>td_ledger := l\<rparr>"
  by (rule exI [of _ "td_ledger db"]) simp

lemma ledger_only_read [simp, intro]: "ledger_only (store_read f)" "ledger_only (store_return r)"
  by (auto simp: ledger_only_def store_read_def store_return_def intro!: ledger_self)

lemma ledger_only_on_ledger [simp, intro]: "ledger_only (on_ledger call)"
  unfolding ledger_only_def on_ledger_def using ledger_self by (auto split: option.split prod.split)

lemma ledger_only_then [intro]:
  assumes m: "ledger_only m" and f: "\<And>a. ledger_only (f a)"
  shows "ledger_only (store_then m f)"
  unfolding ledger_only_def
proof (intro allI)
  fix h db
  obtain r h1 l where r: "m h db = (r, h1, db\<lparr>td_ledger := l\<rparr>)"
    using m unfolding ledger_only_def by (metis prod.collapse)
  show "\<exists>l. snd (snd (store_then m f h db)) = db\<lparr>td_ledger := l\<rparr>"
  proof (cases r)
    case (Inr a)
    then obtain l' where "snd (snd (f a h1 (db\<lparr>td_ledger := l\<rparr>))) = db\<lparr>td_ledger := l\<rparr>\<lparr>td_ledger := l'\<rparr>"
      using f unfolding ledger_only_def by metis
    then show ?thesis
      using r Inr by (auto simp: store_then_def)
  qed (use r in \<open>auto simp: store_then_def\<close>)
qed

lemma ledger_only_if: "(c \<Longrightarrow> ledger_only a) \<Longrightarrow> (\<not> c \<Longrightarrow> ledger_only b) \<Longrightarrow> ledger_only (if c then a else b)"
  by simp

lemmas ledger_only_rules = ledger_only_then ledger_only_if ledger_only_read ledger_only_on_ledger

lemma verify_prefix_ledger_only: "ledger_only (verify_prefix_entries L uuid snapshot entries)"
  by (induction entries) (simp, simp only: verify_prefix_entries.simps, intro ledger_only_rules)

lemma scope_ledger_only [simp, intro]:
  "ledger_only (verify_ledger_scope L uuid snapshot pk)" "ledger_only (verify_tenant_prefix L uuid snapshot)"
  unfolding verify_ledger_scope_def verify_tenant_prefix_def
  by (intro ledger_only_rules verify_prefix_ledger_only)+

lemma revalidate_ledger_only: "ledger_only (revalidate_outbox_for_signing L uuid self t i w k now pk)"
  unfolding revalidate_outbox_for_signing_def by (intro ledger_only_rules scope_ledger_only)

text \<open>A call that ends with a transaction after ledger-only work.\<close>

definition ends_with_tx :: "'a store_call \<Rightarrow> ((turn_db \<Rightarrow> turn_store_error + ('a \<times> turn_db)) \<Rightarrow> bool) \<Rightarrow> bool" where
  "ends_with_tx m Q \<longleftrightarrow> (\<forall>h db r h' db'. m h db = (r, h', db') \<longrightarrow>
     (\<exists>l. db' = db\<lparr>td_ledger := l\<rparr>) \<or> (\<exists>tx l a. Q tx \<and> tx (db\<lparr>td_ledger := l\<rparr>) = Inr (a, db') \<and> r = Inr a))"

lemma ends_with_tx_return [intro]: "ends_with_tx (store_return r) Q"
  using ledger_self by (auto simp: ends_with_tx_def store_return_def store_read_def)

lemma ends_with_tx_tx [intro]:
  assumes "Q tx"
  shows "ends_with_tx (store_tx tx) Q"
  unfolding ends_with_tx_def store_tx_def
proof (intro allI impI)
  fix h db r h' db'
  assume run: "(case tx db of Inl e \<Rightarrow> (Inl e, h, db) | Inr (a, db') \<Rightarrow> (Inr a, h, db')) = (r, h', db')"
  have "tx (db\<lparr>td_ledger := td_ledger db\<rparr>) = tx db"
    by simp
  then show "(\<exists>l. db' = db\<lparr>td_ledger := l\<rparr>) \<or> (\<exists>tx l a. Q tx \<and> tx (db\<lparr>td_ledger := l\<rparr>) = Inr (a, db') \<and> r = Inr a)"
    using run assms ledger_self [of db] by (auto split: sum.splits) metis
qed

lemma ends_with_tx_then [intro]:
  assumes m: "ledger_only m" and f: "\<And>a. ends_with_tx (f a) Q"
  shows "ends_with_tx (store_then m f) Q"
  unfolding ends_with_tx_def
proof (intro allI impI)
  fix h db r h' db' assume run: "store_then m f h db = (r, h', db')"
  obtain r1 h1 l where m1: "m h db = (r1, h1, db\<lparr>td_ledger := l\<rparr>)"
    using m unfolding ledger_only_def by (metis prod.collapse)
  show "(\<exists>l. db' = db\<lparr>td_ledger := l\<rparr>) \<or> (\<exists>tx l a. Q tx \<and> tx (db\<lparr>td_ledger := l\<rparr>) = Inr (a, db') \<and> r = Inr a)"
  proof (cases r1)
    case (Inr a)
    then have "f a h1 (db\<lparr>td_ledger := l\<rparr>) = (r, h', db')"
      using run m1 by (simp add: store_then_def)
    then show ?thesis
      using f [of a] unfolding ends_with_tx_def by fastforce
  qed (use run m1 in \<open>auto simp: store_then_def\<close>)
qed

lemma complete_outbox_cases:
  assumes "complete_outbox L uuid self t i w k commit now h db = (res, h', db')"
  shows "(\<exists>l. db' = db\<lparr>td_ledger := l\<rparr>) \<or>
    (\<exists>snapshot l c. complete_in_tx L t i w k commit now snapshot (db\<lparr>td_ledger := l\<rparr>) = Inr (c, db') \<and> res = Inr c)"
proof -
  have "ends_with_tx (complete_outbox L uuid self t i w k commit now)
      (\<lambda>tx. \<exists>snapshot. tx = complete_in_tx L t i w k commit now snapshot)"
    unfolding complete_outbox_def by (intro ends_with_tx_then) auto
  then show ?thesis
    using assms unfolding ends_with_tx_def by blast
qed

lemma validate_history_records:
  "validate_history_loop L turn index seen acc records = Inr validated \<Longrightarrow>
     map vh_outbox validated = map vh_outbox acc @ records"
  by (induction L turn index seen acc records rule: validate_history_loop.induct)
    (auto simp: result_simps Let_def split: if_splits)

lemma collect_results_nth:
  "collect_results f xs = Inr ys \<Longrightarrow> y \<in> set ys \<Longrightarrow> \<exists>x \<in> set xs. f x = Inr y"
  by (induction xs arbitrary: ys) (auto simp: result_simps)

lemma validate_turn_history_entry:
  assumes "validate_turn_history L turn db = Inr history" and "e \<in> set history"
  shows "\<exists>r c. r \<in> set (td_outbox db) \<and> ow_tenant_id r = dt_tenant_id turn \<and> order_of db r = Some c \<and>
    materialize_outbox L (r, c, evidence_of db r) = Inr (vh_outbox e)"
proof -
  obtain records where records: "collect_results (materialize_outbox L) (turn_outbox_rows (dt_tenant_id turn) (dt_turn_id turn) db) = Inr records"
    "validate_history_loop L turn 0 False [] records = Inr history"
    using assms(1) unfolding validate_turn_history_def by (auto simp: result_simps split: if_splits)
  have "vh_outbox e \<in> set records"
    using validate_history_records [OF records(2)] assms(2) by auto
  then obtain raw where "raw \<in> set (turn_outbox_rows (dt_tenant_id turn) (dt_turn_id turn) db)"
    "materialize_outbox L raw = Inr (vh_outbox e)"
    using collect_results_nth [OF records(1)] by blast
  then show ?thesis
    by (auto simp: turn_outbox_rows_def List.map_filter_def raw_outbox_of_def)
qed

lemma find_index: "find P [0..<n] = Some k \<Longrightarrow> k < n \<and> P k"
  by (auto dest: find_split simp: find_Some_iff)

text \<open>The target of a dispatch snapshot is the row asked for; unless delivered, it is the tenant's head.\<close>

lemma snapshot_target_row:
  assumes "load_dispatch_snapshot L t i w k now allow db = Inr snapshot"
  shows "\<exists>r c payload status. r \<in> set (td_outbox db) \<and> outbox_key r = (t, i) \<and>
    vh_outbox (snapshot_target snapshot) = outbox_record_of r c (evidence_of db r) payload status \<and>
    row_status r = Some status \<and> x_json_parse (tl_externals L) (ow_payload_json r) = Some payload \<and>
    (status \<noteq> OutboxDelivered \<longrightarrow> tenant_outbox_head t db = Inr (Some i) \<and>
       check_held_lease (vh_outbox (snapshot_target snapshot)) i w k now = Inr ())"
proof -
  obtain found :: turn_outbox_record and turn history n where st:
    "require_turn L t (ob_turn_id found) db = Inr turn" "validate_turn_history L turn db = Inr history"
    "find (\<lambda>n. ob_outbox_id (vh_outbox (history ! n)) = i) [0..<length history] = Some n"
    "snapshot_at L t i w k now allow turn history n db = Inr snapshot"
    using assms unfolding load_dispatch_snapshot_def by (auto simp: result_simps)
  note n = find_index [OF st(3)]
  have fence: "\<exists>head. tenant_outbox_head t db = Inr head \<and> snapshot_target snapshot = history ! n \<and>
      check_dispatch_fence (vh_outbox (history ! n)) head i w k now allow = Inr ()"
    using st(4) unfolding snapshot_at_def Let_def by (auto simp: result_simps snapshot_target_def)
  obtain r c where r: "r \<in> set (td_outbox db)" "ow_tenant_id r = dt_tenant_id turn" "order_of db r = Some c"
    "materialize_outbox L (r, c, evidence_of db r) = Inr (vh_outbox (history ! n))"
    using validate_turn_history_entry [OF st(2)] n by (metis nth_mem)
  obtain payload status where rec: "vh_outbox (history ! n) = outbox_record_of r c (evidence_of db r) payload status"
    "row_status r = Some status" "x_json_parse (tl_externals L) (ow_payload_json r) = Some payload"
    using materialize_outbox_ok [OF r(4)] by blast
  have "dt_tenant_id turn = t"
    using require_turn_row [OF st(1)] by (auto simp: represents_def turn_key_def)
  then show ?thesis
    using r(1,2) rec n fence
    by (intro exI [of _ r] exI [of _ c] exI [of _ payload] exI [of _ status])
      (auto simp: outbox_key_def outbox_record_of_def check_dispatch_fence_def validate_active_lease_def split: if_splits)
qed

lemma evidence_of_key: "evidence_of db r = Some v \<Longrightarrow> v \<in> set (td_verified db) \<and> evidence_key v = outbox_key r"
  by (auto simp: evidence_of_def evidence_key_def outbox_key_def find_Some_iff)

lemma evidence_iff_delivered:
  assumes inv: "full_inv db" and r: "r \<in> set (td_outbox db)"
  shows "evidence_of db r \<noteq> None \<longleftrightarrow> delivered r"
proof
  assume "evidence_of db r \<noteq> None"
  then obtain v where "v \<in> set (td_verified db)" "evidence_key v = outbox_key r"
    using evidence_of_key by blast
  then obtain s where "s \<in> set (td_outbox db)" "outbox_key s = outbox_key r" "delivered s"
    using inv by (auto simp: full_inv_def evidence_inv_def)
  then show "delivered r"
    using outbox_unique [of db s r] inv r by (simp add: full_inv_def store_inv_def)
next
  assume "delivered r"
  then obtain v where "v \<in> set (td_verified db)" "evidence_key v = outbox_key r"
    using inv r by (auto simp: full_inv_def evidence_inv_def)
  then show "evidence_of db r \<noteq> None"
    by (auto simp: evidence_of_def find_None_iff evidence_key_def outbox_key_def)
qed

lemma ensure_evidence_cases:
  assumes "ensure_verified_commit_evidence (outbox_record_of r c e payload status) commit pk db = Inr (b, db')"
  shows "e \<noteq> None \<and> db' = db \<or>
    e = None \<and> (\<exists>v. db' = db\<lparr>td_verified := td_verified db @ [v]\<rparr> \<and> evidence_key v = outbox_key r \<and>
      vw_ledger_event_id v = vc_event_id commit \<and> length (vw_signer_public_key v) = 32 \<and>
      vw_database_instance_id v \<noteq> [] \<and> evidence_key v \<notin> evidence_key ` set (td_verified db))"
proof (cases e)
  case None
  let ?v = "\<lparr>vw_tenant_id = ow_tenant_id r, vw_outbox_id = ow_outbox_id r, vw_ledger_event_id = vc_event_id commit,
    vw_signer_public_key = public_key_vec pk, vw_database_instance_id = vc_database_instance_id commit\<rparr>"
  have "insert_verified_row ?v db = Inr db'"
    using assms None by (auto simp: ensure_verified_commit_evidence_def outbox_record_of_def result_simps)
  then show ?thesis
    using None by (auto simp: insert_verified_row_def evidence_key_def outbox_key_def list_ex_iff
        intro!: exI [of _ ?v] split: if_splits)
next
  case (Some v)
  then show ?thesis
    using assms by (auto simp: ensure_verified_commit_evidence_def outbox_record_of_def split: if_splits)
qed

text \<open>What a successful completion does: the head of the tenant, leased to the caller, is delivered.\<close>

definition head_delivered :: "string \<Rightarrow> string \<Rightarrow> string \<Rightarrow> string \<Rightarrow> string \<Rightarrow> millis \<Rightarrow> verified_row \<Rightarrow> turn_db \<Rightarrow> turn_db \<Rightarrow> bool" where
  "head_delivered t i w k event ms v db db' \<longleftrightarrow>
     (\<exists>before r after. td_outbox db = before @ r # after \<and> outbox_key r = (t, i) \<and> leased_row t i w k ms r \<and>
        (\<forall>s \<in> set before. ow_tenant_id s = t \<longrightarrow> delivered s) \<and>
        evidence_key v = (t, i) \<and> vw_ledger_event_id v = event \<and> length (vw_signer_public_key v) = 32 \<and>
        vw_database_instance_id v \<noteq> [] \<and> (t, i) \<notin> evidence_key ` set (td_verified db) \<and>
        db' = db\<lparr>td_outbox := before @ deliver_row event ms r # after, td_verified := td_verified db @ [v]\<rparr>)"

lemma outbox_record_of_simps [simp]:
  "ob_status (outbox_record_of r c e payload status) = status"
  "ob_ledger_event_id (outbox_record_of r c e payload status) = ow_ledger_event_id r"
  by (simp_all add: outbox_record_of_def)

lemma deliver_in_tx_cases:
  assumes inv: "full_inv db" and r: "r \<in> set (td_outbox db)" "outbox_key r = (t, i)" "row_status r = Some status"
    and head: "status \<noteq> OutboxDelivered \<Longrightarrow> tenant_outbox_head t db = Inr (Some i)"
    and ok: "deliver_in_tx L t i w k commit now (outbox_record_of r c (evidence_of db r) payload status) db = Inr (res, db')"
  shows "res = CompletionAlreadyDelivered \<and> delivered r \<and> ow_ledger_event_id r = Some (vc_event_id commit) \<and> db' = db \<or>
    res = CompletionDelivered \<and> \<not> delivered r \<and> (\<exists>reloaded. require_outbox L t i db' = Inr reloaded) \<and>
      (\<exists>v. head_delivered t i w k (vc_event_id commit) (timestamp_millis now) v db db')"
proof -
  let ?P = "leased_row t i w k (timestamp_millis now)" and ?f = "deliver_row (vc_event_id commit) (timestamp_millis now)"
  obtain b db1 where ev: "ensure_verified_commit_evidence (outbox_record_of r c (evidence_of db r) payload status) commit
      (PublicKeyBytes (vc_public_key_bytes commit)) db = Inr (b, db1)"
    using ok unfolding deliver_in_tx_def Let_def by (auto simp: result_simps)
  have status: "delivered r \<longleftrightarrow> status = OutboxDelivered"
    using r(3) row_status_delivered [of r] by auto
  show ?thesis
  proof (cases "delivered r")
    case True
    then have "db1 = db"
      using ensure_evidence_cases [OF ev] evidence_iff_delivered [OF inv r(1)] by auto
    then show ?thesis
      using ok ev True status unfolding deliver_in_tx_def Let_def by (auto simp: result_simps split: if_splits)
  next
    case False
    then obtain v where v: "db1 = db\<lparr>td_verified := td_verified db @ [v]\<rparr>" "evidence_key v = (t, i)"
      "vw_ledger_event_id v = vc_event_id commit" "length (vw_signer_public_key v) = 32" "vw_database_instance_id v \<noteq> []"
      "(t, i) \<notin> evidence_key ` set (td_verified db)"
      using ensure_evidence_cases [OF ev] evidence_iff_delivered [OF inv r(1)] r(2) by auto
    have upd: "length (filter ?P (td_outbox db)) = 1" "db' = db1\<lparr>td_outbox := update_where ?P ?f (td_outbox db)\<rparr>"
      "res = CompletionDelivered" "\<exists>reloaded. require_outbox L t i db' = Inr reloaded"
      using ok ev False status v(1) unfolding deliver_in_tx_def Let_def
      by (auto simp: result_simps update_outbox_Inr split: if_splits)
    have outbox: "outbox_inv db"
      using inv by (simp add: full_inv_def store_inv_def)
    obtain s where s: "queue_head t db = Some s" "ow_outbox_id s = i"
      using head False status tenant_head_fifo [OF outbox] by auto
    obtain before after where split: "td_outbox db = before @ s # after" "ow_tenant_id s = t" "\<not> delivered s"
      "\<forall>u \<in> set before. \<not> (ow_tenant_id u = t \<and> \<not> delivered u)"
      using find_split [OF s(1) [unfolded queue_head_def]] by auto
    have "update_where ?P ?f (td_outbox db) = before @ ?f s # after"
      using update_where_at_key [OF outbox_inv_keys(2) [OF outbox] split(1), of ?P ?f] upd(1) s(2) split(2)
      by (simp add: leased_row_def outbox_at_def outbox_key_def)
    moreover have "?P s"
    proof -
      obtain u where u: "u \<in> set (td_outbox db)" "?P u"
        using upd(1) by (metis filter_False length_0_conv zero_neq_one)
      moreover have "outbox_key u = outbox_key s"
        using leased_row_status [OF u(2)] s(2) split(2) by (simp add: outbox_key_def)
      ultimately show ?thesis
        using outbox_unique [OF outbox u(1)] split(1) by auto
    qed
    ultimately have "head_delivered t i w k (vc_event_id commit) (timestamp_millis now) v db db'"
      unfolding head_delivered_def using upd(2) v split s(2)
      by (intro exI [of _ before] exI [of _ s] exI [of _ after]) (auto simp: outbox_key_def)
    then show ?thesis
      using upd(3,4) False by blast
  qed
qed

lemma head_delivered_outbox_inv:
  assumes inv: "outbox_inv db" and split: "td_outbox db = before @ r # after" "ow_tenant_id r = t"
    and prior: "\<forall>s \<in> set before. ow_tenant_id s = t \<longrightarrow> delivered s"
  shows "outbox_inv (db\<lparr>td_outbox := before @ deliver_row e ms r # after\<rparr>)"
proof -
  have keys: "outbox_key (deliver_row e ms r) = outbox_key r" "turn_revision (deliver_row e ms r) = turn_revision r"
    "ow_tenant_id (deliver_row e ms r) = ow_tenant_id r"
    by (simp_all add: deliver_row_def outbox_key_def turn_revision_def)
  have "outbox_row_ok r"
    using inv split(1) by (simp add: outbox_inv_def)
  then have "outbox_row_ok (deliver_row e ms r)"
    by (simp add: row_change_defs deliver_row_def)
  then show ?thesis
    using inv split prior by (auto simp: outbox_inv_def keys sorted_wrt_append)
qed

lemma head_delivered_full_inv:
  assumes inv: "full_inv db" and step: "head_delivered t i w k e ms v db db'"
  shows "full_inv db'"
proof -
  obtain before r after where m: "td_outbox db = before @ r # after" "outbox_key r = (t, i)" "leased_row t i w k ms r"
    "\<forall>s \<in> set before. ow_tenant_id s = t \<longrightarrow> delivered s" "evidence_key v = (t, i)" "vw_ledger_event_id v = e"
    "length (vw_signer_public_key v) = 32" "vw_database_instance_id v \<noteq> []" "(t, i) \<notin> evidence_key ` set (td_verified db)"
    "db' = db\<lparr>td_outbox := before @ deliver_row e ms r # after, td_verified := td_verified db @ [v]\<rparr>"
    using step by (auto simp: head_delivered_def)
  have others: "s \<in> set (before @ after) \<Longrightarrow> outbox_key s \<noteq> (t, i)" for s
    using distinct_key_others [of outbox_key before r after s] inv m(1,2) by (simp add: full_inv_def store_inv_def outbox_inv_def)
  have "outbox_inv (db\<lparr>td_outbox := before @ deliver_row e ms r # after\<rparr>)"
    using inv m(1,2,4) by (intro head_delivered_outbox_inv) (auto simp: full_inv_def store_inv_def outbox_key_def)
  moreover have upd: "update_where (\<lambda>s. s = r) (deliver_row e ms) (td_outbox db) = before @ deliver_row e ms r # after"
    using others m(1,2) by (auto simp: update_where_def intro!: map_idI)
  have "history_inv (db\<lparr>td_outbox := before @ deliver_row e ms r # after\<rparr>)"
    unfolding upd [symmetric] using inv lease_change_history(4)
    by (intro history_inv_update) (simp_all add: full_inv_def store_inv_def)
  ultimately have "store_inv db'"
    using inv m(10) by (simp add: full_inv_def store_inv_defs)
  moreover have "evidence_inv db'"
  proof -
    have "outbox_key (deliver_row e ms r) = (t, i)" "ow_ledger_event_id (deliver_row e ms r) = Some e"
      using m(2) by (simp_all add: deliver_row_def outbox_key_def)
    moreover have "\<not> delivered r"
      using leased_row_status [OF m(3)] by simp
    ultimately show ?thesis
      using inv m(5-9) unfolding m(10) by (auto simp: full_inv_def evidence_inv_def m(1))
  qed
  moreover have "quarantine_inv db'"
    using quarantine_inv_update [of db "\<lambda>s. s = r" "deliver_row e ms"] leased_row_free [OF inv _ m(3)] inv m(1)
    unfolding m(10) upd by (simp add: full_inv_def quarantine_inv_def)
  ultimately show ?thesis
    by (simp add: full_inv_def)
qed

lemma complete_in_tx_ok:
  assumes "complete_in_tx L t i w k commit now snapshot db = Inr (c, db')"
  obtains current where "load_dispatch_snapshot L t i w k now True db = Inr current"
    "matches_binding_in_connection (tl_externals L) commit (vh_binding (snapshot_target current)) (td_ledger db) = Inr True"
    "verify_tenant_prefix_in_connection L current db = Inr ()"
    "deliver_in_tx L t i w k commit now (vh_outbox (snapshot_target current)) db = Inr (c, db')"
  using assms unfolding complete_in_tx_def by (auto simp: result_simps split: if_splits)

lemma complete_in_tx_cases:
  assumes inv: "full_inv db" and ok: "complete_in_tx L t i w k commit now snapshot db = Inr (c, db')"
  shows "c = CompletionAlreadyDelivered \<and> db' = db \<or>
    c = CompletionDelivered \<and> (\<exists>reloaded. require_outbox L t i db' = Inr reloaded) \<and>
      (\<exists>v. head_delivered t i w k (vc_event_id commit) (timestamp_millis now) v db db')"
proof -
  obtain current where cur: "load_dispatch_snapshot L t i w k now True db = Inr current"
    "deliver_in_tx L t i w k commit now (vh_outbox (snapshot_target current)) db = Inr (c, db')"
    using ok by (rule complete_in_tx_ok)
  then obtain r o' payload status where r: "r \<in> set (td_outbox db)" "outbox_key r = (t, i)"
    "vh_outbox (snapshot_target current) = outbox_record_of r o' (evidence_of db r) payload status" "row_status r = Some status"
    "status \<noteq> OutboxDelivered \<longrightarrow> tenant_outbox_head t db = Inr (Some i)"
    using snapshot_target_row [OF cur(1)] by blast
  show ?thesis
    using deliver_in_tx_cases [OF inv r(1,2,4) _ cur(2) [unfolded r(3)]] r(5) by blast
qed

lemma complete_full_inv:
  assumes inv: "full_inv db" and ok: "complete_outbox L uuid self t i w k commit now h db = (res, h', db')"
  shows "full_inv db'"
  using complete_outbox_cases [OF ok]
proof
  assume "\<exists>snapshot l c. complete_in_tx L t i w k commit now snapshot (db\<lparr>td_ledger := l\<rparr>) = Inr (c, db') \<and> res = Inr c"
  then obtain snapshot l c where "complete_in_tx L t i w k commit now snapshot (db\<lparr>td_ledger := l\<rparr>) = Inr (c, db')"
    by blast
  then show ?thesis
    using complete_in_tx_cases [of "db\<lparr>td_ledger := l\<rparr>"] head_delivered_full_inv [of "db\<lparr>td_ledger := l\<rparr>"] inv
    by (metis full_inv_ledger)
qed (use inv in auto)

subsection \<open>All operations\<close>

inductive store_step :: "turn_libs \<Rightarrow> turn_db \<Rightarrow> turn_db \<Rightarrow> bool" for L where
  step_begin: "begin_turn L ingress admission now db = Inr (res, db') \<Longrightarrow> store_step L db db'"
| step_transition: "store_transition L t i w s n next now db = Inr (rec, db') \<Longrightarrow> store_step L db db'"
| step_result: "store_transition_with_result L t i w s n next execution now db = Inr (rec, db') \<Longrightarrow> store_step L db db'"
| step_recover: "recover_expired_actor_leases L t now limit db = Inr (recs, db') \<Longrightarrow> store_step L db db'"
| step_claim: "claim_next_outbox L uuid t w now d db = Inr (claimed, db') \<Longrightarrow> store_step L db db'"
| step_release: "release_outbox L t i w k now available_at error db = Inr (u, db') \<Longrightarrow> store_step L db db'"
| step_renew: "renew_outbox_lease L t i w k now d db = Inr (renewed, db') \<Longrightarrow> store_step L db db'"
| step_quarantine: "quarantine_outbox L claim failure exhausted now db = Inr (evidence, db') \<Longrightarrow> store_step L db db'"
| step_revalidate: "revalidate_outbox_for_signing L uuid self t i w k now pk h db = (signing, h', db') \<Longrightarrow> store_step L db db'"
| step_append: "on_ledger (append_verified_idempotent_event (tl_externals L) uuid now_text keypair binding) h db = (commit, h', db') \<Longrightarrow>
    store_step L db db'"
| step_verify: "on_ledger (verify_existing_idempotent_event (tl_externals L) uuid pk binding) h db = (commit, h', db') \<Longrightarrow>
    store_step L db db'"
| step_complete: "complete_outbox L uuid self t i w k token now h db = (completion, h', db') \<Longrightarrow> store_step L db db'"

inductive_cases store_stepE: "store_step L db db'"

lemma ledger_only_full_inv: "ledger_only m \<Longrightarrow> m h db = (r, h', db') \<Longrightarrow> full_inv db \<Longrightarrow> full_inv db'"
  unfolding ledger_only_def by (metis full_inv_ledger snd_conv)

lemma extended_full_inv: "outbox_extended db db' \<Longrightarrow> full_inv db \<Longrightarrow> store_inv db' \<Longrightarrow> full_inv db'"
  using extended_inv by (simp add: full_inv_def)

lemma transition_full_inv:
  "transition_inner L t i w s n next res now db = Inr (rec, db') \<Longrightarrow> full_inv db \<Longrightarrow> full_inv db'"
  using transition_moves recorded_move_inv by (metis extended_full_inv full_inv_def transition_extends)

lemma recover_full_inv:
  "recover_expired_actor_leases L t now limit db = Inr (recs, db') \<Longrightarrow> full_inv db \<Longrightarrow> full_inv db'"
  using recover_expired_inv recover_actor_turns_extends
  by (metis extended_full_inv full_inv_def recover_expired_actor_leases_def)

lemma store_step_inv:
  assumes "full_inv db" and "store_step L db db'"
  shows "full_inv db'"
  using assms(2)
proof cases
  case (step_begin ingress admission now res)
  then show ?thesis
    using assms(1) extended_full_inv [OF begin_turn_extends [OF step_begin]] begin_turn_inv by (auto simp: full_inv_def)
next
  case (step_transition t i w s n "next" now rec)
  then show ?thesis
    using assms(1) transition_full_inv by (auto simp: store_transition_def split: if_splits)
next
  case (step_result t i w s n "next" execution now rec)
  then show ?thesis
    using assms(1) transition_full_inv by (auto simp: store_transition_with_result_def split: if_splits)
next
  case (step_recover t now limit recs)
  then show ?thesis
    using assms(1) recover_full_inv by blast
next
  case (step_append uuid now_text keypair binding h commit h')
  then show ?thesis
    using ledger_only_full_inv [OF ledger_only_on_ledger] assms(1) by blast
next
  case step_verify
  then show ?thesis
    using ledger_only_full_inv [OF ledger_only_on_ledger] assms(1) by blast
next
  case step_revalidate
  then show ?thesis
    using ledger_only_full_inv [OF revalidate_ledger_only] assms(1) by blast
qed (erule claim_full_inv [OF assms(1)] release_full_inv [OF assms(1)] renew_full_inv [OF assms(1)]
    quarantine_full_inv [OF assms(1)] complete_full_inv [OF assms(1)])+

interpretation store: inductive_invariant empty_store "store_step L" full_inv for L
proof
  show "empty_store db \<Longrightarrow> full_inv db" for db
    by (rule empty_full_inv)
  show "full_inv db \<Longrightarrow> store_step L db db' \<Longrightarrow> full_inv db'" for db db'
    by (rule store_step_inv)
qed

end
