(* ===== verification/Store_Loads.thy ===== *)
theory Store_Loads
  imports Store_Steps
begin

text \<open>
  The loaders of the turn store are strict: a row whose hash, bindings, status columns or
  timestamps disagree is rejected. Here they never reject what the store itself wrote: under the
  documented round trips of the JSON and date libraries, every row of every reachable database
  loads.
\<close>

subsection \<open>What the libraries promise\<close>

text \<open>A value that survives printing and parsing: object keys are distinct and numbers are integers.\<close>

fun json_printable :: "json \<Rightarrow> bool" where
  "json_printable JNull = True"
| "json_printable (JBool b) = True"
| "json_printable (JInt n) = (i64_min \<le> n \<and> n < 2 ^ 64)"
| "json_printable (JFloat w) = False"
| "json_printable (JStr s) = True"
| "json_printable (JArr vs) = (\<forall>v \<in> set vs. json_printable v)"
| "json_printable (JObj kvs) = (distinct (map fst kvs) \<and> (\<forall>v \<in> set (map snd kvs). json_printable v))"

definition turn_laws :: "turn_libs \<Rightarrow> bool" where
  "turn_laws L \<longleftrightarrow>
     (\<forall>v. json_printable v \<longrightarrow> x_json_parse (tl_externals L) (x_json_print (tl_externals L) v) = Some v) \<and>
     (\<forall>t. tl_datetime_ok L t \<longrightarrow> tl_parse_rfc3339 L (tl_rfc3339 L t) = Some t) \<and>
     (\<forall>t. tl_datetime_ok L t \<longrightarrow> tl_datetime_ok L (milliseconds (timestamp_millis t)))"

subsection \<open>Rows that load\<close>

definition outbox_loads :: "turn_libs \<Rightarrow> turn_db \<Rightarrow> outbox_row \<Rightarrow> bool" where
  "outbox_loads L db r \<longleftrightarrow>
     (\<exists>c rec. order_of db r = Some c \<and> materialize_outbox L (r, c, evidence_of db r) = Inr rec)"

definition turns_load :: "turn_libs \<Rightarrow> turn_db \<Rightarrow> bool" where
  "turns_load L db \<longleftrightarrow> (\<forall>r \<in> set (td_turns db). \<exists>rec. materialize_turn L r = Inr rec)"

definition actors_load :: "turn_libs \<Rightarrow> turn_db \<Rightarrow> bool" where
  "actors_load L db \<longleftrightarrow> (\<forall>a \<in> set (td_actors db). \<exists>rec. row_to_actor L a = Inr rec)"

definition rows_load :: "turn_libs \<Rightarrow> turn_db \<Rightarrow> bool" where
  "rows_load L db \<longleftrightarrow> turns_load L db \<and> actors_load L db \<and> (\<forall>r \<in> set (td_outbox db). outbox_loads L db r)"

lemma outbox_payload_printable:
  "json_printable (outbox_payload L rec prev h i t)"
proof -
  have "i64_min \<le> uint (vts_revision (dt_state rec))"
    by (rule order.trans [of _ 0]) (simp_all add: i64_min_def)
  then show ?thesis
    using uint_lt2p [of "vts_revision (dt_state rec)"]
    by (simp add: outbox_payload_def json_opt_def split: option.split)
qed

lemma outbox_payload_lookups:
  "pointer_str [''schema''] (outbox_payload L rec prev h i t) = Some TURN_OUTBOX_SCHEMA"
  "pointer_str [''outbox_id''] (outbox_payload L rec prev h i t) = Some i"
  "pointer_str [''tenant_id''] (outbox_payload L rec prev h i t) = Some (dt_tenant_id rec)"
  "pointer_str [''turn_id''] (outbox_payload L rec prev h i t) = Some (dt_turn_id rec)"
  "pointer_str [''state''] (outbox_payload L rec prev h i t) = Some (state_name (vts_state (dt_state rec)))"
  "json_get ''revision'' (outbox_payload L rec prev h i t) = Some (JInt (uint (vts_revision (dt_state rec))))"
  by (simp_all add: outbox_payload_def pointer_str_def)

lemma new_outbox_row_loads:
  assumes laws: "turn_laws L" and time: "tl_datetime_ok L (milliseconds ms)"
    and ord: "0 < or_commit_ordinal c" "or_commit_ordinal c \<le> i64_max" "or_order_origin c = ''transactional''"
  shows "\<exists>out. materialize_outbox L (new_outbox_row L rec prev h t (uint (vts_revision (dt_state rec))) ms, c, None) = Inr out"
proof -
  have json: "x_json_parse (tl_externals L) (x_json_print (tl_externals L) (outbox_payload L rec prev h i t)) =
      Some (outbox_payload L rec prev h i t)" for i
    using laws outbox_payload_printable by (simp add: turn_laws_def)
  have "(word_of_int (or_commit_ordinal c) :: u64) \<noteq> 0"
    using ord(1,2) uint_of_int_small [of "or_commit_ordinal c"] by (auto simp: i64_max_def)
  then show ?thesis
    using ord time uint_lt2p [of "vts_revision (dt_state rec)"]
    by (simp add: materialize_outbox_def new_outbox_row_def Let_def result_simps verify_stored_hash_def parse_json_def
        canonical_json_def json checked_u64_def verify_outbox_bindings_def verify_json_text_binding_def
        outbox_payload_lookups outbox_event_type_matches_def state_event_type_def parse_outbox_status_def
        validate_outbox_status_bindings_def status_shape_ok_def evidence_shape_ok_def before_ms_def
        parse_order_origin_def parse_timestamp_def optional_map_def)
qed

subsection \<open>Lease operations and delivery\<close>

lemma require_outbox_loads:
  assumes "outbox_inv db" and "require_outbox L t i db = Inr rec"
    and "s \<in> set (td_outbox db)" and "outbox_key s = (t, i)"
  shows "outbox_loads L db s"
proof -
  obtain r c where r: "find (outbox_at t i) (td_outbox db) = Some r" "order_of db r = Some c"
    "materialize_outbox L (r, c, evidence_of db r) = Inr rec"
    using assms(2) by (auto simp: require_outbox_def load_outbox_def raw_outbox_of_def result_simps split: bind_splits)
  have "r \<in> set (td_outbox db)" "outbox_key r = (t, i)"
    using find_split [OF r(1)] by (auto simp: outbox_at_def outbox_key_def)
  then have "r = s"
    using outbox_unique [OF assms(1) _ assms(3)] assms(4) by simp
  then show ?thesis
    using r(2,3) by (auto simp: outbox_loads_def)
qed

lemma rows_load_changed:
  assumes load: "rows_load L db" and inv: "outbox_inv db'" and req: "require_outbox L t i db' = Inr rec"
    and same: "td_turns db' = td_turns db" "td_actors db' = td_actors db" "td_order db' = td_order db"
    and ev: "\<And>s. outbox_key s \<noteq> (t, i) \<Longrightarrow> evidence_of db' s = evidence_of db s"
    and rows: "\<And>s. s \<in> set (td_outbox db') \<Longrightarrow> outbox_key s \<noteq> (t, i) \<Longrightarrow> s \<in> set (td_outbox db)"
  shows "rows_load L db'"
proof -
  have "outbox_loads L db' s" if s: "s \<in> set (td_outbox db')" for s
  proof (cases "outbox_key s = (t, i)")
    case True
    then show ?thesis
      using require_outbox_loads [OF inv req s] by blast
  next
    case False
    then show ?thesis
      using load rows [OF s] ev [of s] same(3) by (simp add: rows_load_def outbox_loads_def order_of_def)
  qed
  then show ?thesis
    using load same by (simp add: rows_load_def turns_load_def actors_load_def)
qed

lemma lease_change_key:
  "outbox_key (take_lease w k u ms r) = outbox_key r" "outbox_key (drop_lease a e ms r) = outbox_key r"
  "outbox_key (extend_lease u ms r) = outbox_key r" "outbox_key (deliver_row v ms r) = outbox_key r"
  by (simp_all add: outbox_key_def take_lease_def drop_lease_def extend_lease_def deliver_row_def)

lemma lease_rows_other:
  "s \<in> set (update_where (claimable_row t i ms) (take_lease w k u ms') xs) \<Longrightarrow> outbox_key s \<noteq> (t, i) \<Longrightarrow> s \<in> set xs"
  "s \<in> set (update_where (leased_row t i w k ms) (drop_lease a e ms') xs) \<Longrightarrow> outbox_key s \<noteq> (t, i) \<Longrightarrow> s \<in> set xs"
  "s \<in> set (update_where (leased_row t i w k ms) (extend_lease u ms') xs) \<Longrightarrow> outbox_key s \<noteq> (t, i) \<Longrightarrow> s \<in> set xs"
  using claim_row_status leased_row_status by (auto simp: update_where_set lease_change_key)

lemma full_outbox_inv: "full_inv db \<Longrightarrow> outbox_inv db"
  by (simp add: full_inv_def store_inv_def)

lemma claim_loads:
  assumes inv: "full_inv db" and load: "rows_load L db" and ok: "claim_next_outbox L uuid t w now d db = Inr (res, db')"
  shows "rows_load L db'"
proof (cases res)
  case None
  then show ?thesis
    using claim_cases [OF ok] load by auto
next
  case (Some rec)
  then obtain i where i: "require_outbox L t i db' = Inr rec"
    "db' = db\<lparr>td_outbox := update_where (claimable_row t i (timestamp_millis now))
       (take_lease w (''outbox-lease-'' @ uuid) (timestamp_millis (now + d)) (timestamp_millis now)) (td_outbox db)\<rparr>"
    using claim_cases [OF ok] by auto
  show ?thesis
    by (rule rows_load_changed [OF load full_outbox_inv [OF claim_full_inv [OF inv ok]] i(1)])
      (auto simp: i(2) evidence_of_def dest: lease_rows_other)
qed

lemma release_loads:
  assumes inv: "full_inv db" and load: "rows_load L db" and ok: "release_outbox L t i w k now a e db = Inr (u, db')"
  shows "rows_load L db'"
proof -
  obtain reloaded where i: "require_outbox L t i db' = Inr reloaded"
    "db' = db\<lparr>td_outbox := update_where (leased_row t i w k (timestamp_millis now))
       (drop_lease (timestamp_millis a) e (timestamp_millis now)) (td_outbox db)\<rparr>"
    using release_cases [OF ok] by auto
  show ?thesis
    by (rule rows_load_changed [OF load full_outbox_inv [OF release_full_inv [OF inv ok]] i(1)])
      (auto simp: i(2) evidence_of_def dest: lease_rows_other)
qed

lemma renew_loads:
  assumes inv: "full_inv db" and load: "rows_load L db" and ok: "renew_outbox_lease L t i w k now d db = Inr (rec, db')"
  shows "rows_load L db'"
proof -
  obtain reloaded where i: "require_outbox L t i db' = Inr reloaded"
    "db' = db\<lparr>td_outbox := update_where (leased_row t i w k (timestamp_millis now))
       (extend_lease (timestamp_millis (now + d)) (timestamp_millis now)) (td_outbox db)\<rparr>"
    using renew_cases [OF ok] by auto
  show ?thesis
    by (rule rows_load_changed [OF load full_outbox_inv [OF renew_full_inv [OF inv ok]] i(1)])
      (auto simp: i(2) evidence_of_def dest: lease_rows_other)
qed

lemma quarantine_loads:
  assumes inv: "full_inv db" and load: "rows_load L db"
    and ok: "quarantine_outbox L claim failure exhausted now db = Inr (rec, db')"
  shows "rows_load L db'"
proof -
  obtain q reloaded where q: "quarantine_key q = (ob_tenant_id claim, ob_outbox_id claim)"
    "db' = db\<lparr>td_quarantine := td_quarantine db @ [q],
       td_outbox := update_where (leased_row (qw_tenant_id q) (qw_outbox_id q) (qw_lease_owner q) (qw_lease_token q) (qw_quarantined_at_ms q))
         (drop_lease (timestamp_millis now) (df_message failure) (timestamp_millis now)) (td_outbox db)\<rparr>"
    "require_outbox L (ob_tenant_id claim) (ob_outbox_id claim) db' = Inr reloaded"
    using quarantine_cases [OF ok] by metis
  show ?thesis
    by (rule rows_load_changed [OF load full_outbox_inv [OF quarantine_full_inv [OF inv ok]] q(3)])
      (use q(1) in \<open>auto simp: q(2) evidence_of_def quarantine_key_def dest: lease_rows_other\<close>)
qed

lemma head_delivered_loads:
  assumes inv: "full_inv db" and load: "rows_load L db" and step: "head_delivered t i w k e ms v db db'"
    and req: "require_outbox L t i db' = Inr rec"
  shows "rows_load L db'"
proof -
  obtain before r after where m: "td_outbox db = before @ r # after" "outbox_key r = (t, i)" "evidence_key v = (t, i)"
    "db' = db\<lparr>td_outbox := before @ deliver_row e ms r # after, td_verified := td_verified db @ [v]\<rparr>"
    using step by (auto simp: head_delivered_def)
  have "evidence_of db' s = evidence_of db s" if "outbox_key s \<noteq> (t, i)" for s
    using that m(3) by (auto simp: m(4) evidence_of_def find_append evidence_key_def outbox_key_def split: option.split)
  then show ?thesis
    using m by (intro rows_load_changed [OF load full_outbox_inv [OF head_delivered_full_inv [OF inv step]] req])
      (auto simp: m(4) lease_change_key)
qed

lemma rows_load_ledger [simp]: "rows_load L (db\<lparr>td_ledger := l\<rparr>) \<longleftrightarrow> rows_load L db"
  by (simp add: rows_load_def turns_load_def actors_load_def outbox_loads_def order_of_def evidence_of_def)

lemma complete_loads:
  assumes inv: "full_inv db" and load: "rows_load L db"
    and ok: "complete_outbox L uuid self t i w k commit now h db = (res, h', db')"
  shows "rows_load L db'"
  using complete_outbox_cases [OF ok]
proof
  assume "\<exists>snapshot l c. complete_in_tx L t i w k commit now snapshot (db\<lparr>td_ledger := l\<rparr>) = Inr (c, db') \<and> res = Inr c"
  then obtain snapshot l c where tx: "complete_in_tx L t i w k commit now snapshot (db\<lparr>td_ledger := l\<rparr>) = Inr (c, db')"
    by blast
  have pre: "full_inv (db\<lparr>td_ledger := l\<rparr>)" "rows_load L (db\<lparr>td_ledger := l\<rparr>)"
    using inv load by simp_all
  show ?thesis
    using complete_in_tx_cases [OF pre(1) tx] head_delivered_loads [OF pre] pre(2) by blast
qed (use load in auto)

subsection \<open>Operations on turns\<close>

lemma insert_outbox_time: "insert_outbox L rec prev h now db = Inr db' \<Longrightarrow> tl_datetime_ok L (milliseconds (timestamp_millis now))"
  by (auto simp: insert_outbox_def Let_def result_simps split: if_splits)

lemma insert_outbox_ordinal:
  assumes "outbox_inv db" and "insert_outbox L rec prev h now db = Inr db'"
  shows "next_ordinal db \<le> i64_max"
  using assms by (auto simp: insert_outbox_def next_commit_ordinal_def next_ordinal_def checked_succ_i64_def Let_def
      result_simps split: if_splits option.splits)

lemma insert_outbox_loads:
  assumes laws: "turn_laws L" and inv: "outbox_inv db" "evidence_inv db" and load: "rows_load L db"
    and ins: "insert_outbox L rec prev h now db = Inr db'"
  shows "rows_load L db'"
proof -
  define row where "row = new_outbox_row L rec prev h (milliseconds (timestamp_millis now))
      (uint (vts_revision (dt_state rec))) (timestamp_millis now)"
  have row: "fresh_row row db" "db' = appended row (next_ordinal db) db"
    using insert_outbox_ok [OF inv(1) ins] by (simp_all add: row_def)
  have keys: "outbox_key row \<notin> set (map outbox_key (td_outbox db))"
    "\<forall>c \<in> set (td_order db). order_key c \<noteq> outbox_key row"
    using row(1) outbox_inv_keys(1) [OF inv(1)] by (simp_all add: fresh_row_def) (metis image_eqI list.set_map)
  have "outbox_loads L db' s" if s: "s \<in> set (td_outbox db)" for s
  proof -
    have "order_of db' s = order_of db s" "evidence_of db' s = evidence_of db s"
      using order_complete(1) [OF inv(1) s]
      by (auto simp: row(2) appended_def order_of_def evidence_of_def find_append split: option.split)
    then show ?thesis
      using load s by (simp add: rows_load_def outbox_loads_def)
  qed
  moreover have "outbox_loads L db' row"
  proof -
    let ?c = "\<lparr>or_commit_ordinal = next_ordinal db, or_tenant_id = ow_tenant_id row, or_outbox_id = ow_outbox_id row,
      or_order_origin = ''transactional'', or_legacy_source_rowid = None\<rparr>"
    have "order_of db' row = Some ?c"
      using keys(2) by (auto simp: row(2) appended_def order_of_def find_append find_None_iff order_key_def outbox_key_def
          split: option.split dest!: find_split)
    moreover have "evidence_of db' row = None"
      using keys(1) inv(2)
      by (auto simp: row(2) appended_def evidence_of_def find_None_iff evidence_inv_def evidence_key_def outbox_key_def)
        (metis (no_types, lifting) image_eqI)
    ultimately show ?thesis
      using new_outbox_row_loads [OF laws insert_outbox_time [OF ins], of ?c rec prev h "milliseconds (timestamp_millis now)"]
        next_ordinal_pos [OF inv(1)] insert_outbox_ordinal [OF inv(1) ins]
      by (auto simp: outbox_loads_def row_def)
  qed
  ultimately show ?thesis
    using load by (auto simp: row(2) appended_def rows_load_def turns_load_def actors_load_def)
qed

lemma turns_load_update:
  assumes load: "turns_load L db" and inv: "turns_inv db"
    and upd: "update_turn (turn_cas t i s n) (move_turn s' m j h ms) db = Inr db1" and same: "td_turns db2 = td_turns db1"
    and req: "require_turn L t i db2 = Inr rec"
  shows "turns_load L db2"
proof -
  obtain xs r ys where r: "td_turns db = xs @ r # ys" "turn_key r = (t, i)" "db1 = db\<lparr>td_turns := xs @ move_turn s' m j h ms r # ys\<rparr>"
    using turn_cas_split [OF inv upd] by metis
  obtain r0 where r0: "find (turn_at t i) (td_turns db2) = Some r0" "materialize_turn L r0 = Inr rec"
    using req by (auto simp: require_turn_ok)
  have others: "turn_key q \<noteq> (t, i)" if "q \<in> set (xs @ ys)" for q
    using distinct_key_others [of turn_key xs r ys q] inv r(1,2) that by (simp add: turns_inv_def)
  have "r0 \<in> set (td_turns db2)" "turn_key r0 = (t, i)"
    using find_turn_at [OF r0(1)] by simp_all
  then have "r0 = move_turn s' m j h ms r"
    using others r(3) same by auto
  then show ?thesis
    using load r r0(2) same by (auto simp: turns_load_def)
qed

lemma actors_load_update:
  assumes load: "actors_load L db" and upd: "update_actor P (set_actor_lease act own u ms) e db = Inr db'"
    and time: "pred_option (\<lambda>m. tl_datetime_ok L (milliseconds m)) u" "tl_datetime_ok L (milliseconds ms)"
  shows "actors_load L db'"
proof -
  obtain as a bs where a: "td_actors db = as @ a # bs" "db' = db\<lparr>td_actors := as @ set_actor_lease act own u ms a # bs\<rparr>"
    using upd by (rule update_actor_split)
  have "\<exists>rec. row_to_actor L a = Inr rec"
    using load a(1) by (simp add: actors_load_def)
  then have "\<exists>rec. row_to_actor L (set_actor_lease act own u ms a) = Inr rec"
    using time by (auto simp: row_to_actor_def set_actor_lease_def result_simps)
  then show ?thesis
    using load a by (auto simp: actors_load_def)
qed

lemma materialize_turn_times:
  "materialize_turn L r = Inr rec \<Longrightarrow> tl_datetime_ok L (milliseconds (tw_deadline_ms r)) \<and>
     tl_datetime_ok L (milliseconds (tw_updated_at_ms r)) \<and> dt_deadline rec = milliseconds (tw_deadline_ms r)"
  unfolding materialize_turn_def by (auto simp: result_simps)

text \<open>The common end of transition and recovery: compare-and-swap, actor, reload, outbox.\<close>

lemma moved_loads:
  assumes laws: "turn_laws L" and inv: "full_inv db" and load: "rows_load L db"
    and upd: "update_turn (turn_cas t i s n) (move_turn s' m j h' ms) db = Inr db1"
    and act: "update_actor P (set_actor_lease a own u (timestamp_millis now)) e db1 = Inr db2"
    and u: "pred_option (\<lambda>m. tl_datetime_ok L (milliseconds m)) u"
    and req: "require_turn L t i db2 = Inr rec" and ins: "insert_outbox L rec prev h now db2 = Inr db'"
  shows "rows_load L db'"
proof -
  have ext: "td_outbox db2 = td_outbox db" "td_order db2 = td_order db" "td_sequence db2 = td_sequence db"
    "td_verified db2 = td_verified db" "td_turns db2 = td_turns db1" "td_actors db1 = td_actors db"
    using upd act by (auto simp: update_turn_def update_actor_def split: if_splits)
  have "turns_load L db2"
    using load inv by (intro turns_load_update [OF _ _ upd ext(5) req]) (simp_all add: rows_load_def full_inv_def store_inv_def)
  moreover have "actors_load L db2"
    using load ext(6) by (intro actors_load_update [OF _ act u insert_outbox_time [OF ins]]) (simp add: rows_load_def actors_load_def)
  ultimately have "rows_load L db2"
    using load ext by (simp add: rows_load_def outbox_loads_def order_of_def evidence_of_def)
  moreover have "outbox_inv db2" "evidence_inv db2"
    using inv ext by (simp_all add: full_inv_def store_inv_def outbox_inv_def evidence_inv_def)
  ultimately show ?thesis
    using insert_outbox_loads [OF laws _ _ _ ins] by blast
qed

lemma require_turn_deadline:
  assumes "require_turn L t i db = Inr cur"
  shows "tl_datetime_ok L (milliseconds (timestamp_millis (dt_deadline cur)))"
  using assms materialize_turn_times by (auto simp: require_turn_ok)

lemma transition_loads:
  assumes laws: "turn_laws L" and inv: "full_inv db" and load: "rows_load L db"
    and ok: "transition_inner L t i w s n next res now db = Inr (rec, db')"
  shows "rows_load L db'"
proof -
  obtain cur m j h db1 db2 where st: "require_turn L t i db = Inr cur"
    "update_turn (turn_cas t i s (uint n)) (move_turn next m j h (timestamp_millis now)) db = Inr db1"
    "update_actor_after_transition cur w next now db1 = Inr db2"
    "require_turn L t i db2 = Inr rec" "insert_outbox L rec (Some s) h now db2 = Inr db'"
    using ok unfolding transition_inner_def Let_def by (auto simp: result_simps split: if_splits)
  show ?thesis
    using st(3) require_turn_deadline [OF st(1)] moved_loads [OF laws inv load st(2) _ _ st(4,5)]
    unfolding update_actor_after_transition_def by (auto simp: Let_def split: if_splits)
qed

lemma recover_loads:
  assumes laws: "turn_laws L" and inv: "full_inv db" and load: "rows_load L db"
    and row: "r \<in> set (td_turns db)" "represents r record"
    and ok: "recover_turn_in_tx L record now db = Inr (rec, db')"
  shows "rows_load L db'"
proof -
  have live: "\<not> is_terminal (vts_state (dt_state record))"
    using recover_not_terminal [OF _ row ok] inv by (simp add: full_inv_def)
  obtain m j h db1 db2 where st:
    "update_turn (turn_cas (dt_tenant_id record) (dt_turn_id record) (vts_state (dt_state record)) (uint (vts_revision (dt_state record))))
      (move_turn (recovery_state (vts_state (dt_state record))) m j h (timestamp_millis now)) db = Inr db1"
    "clear_actor record now db1 = Inr db2" "require_turn L (dt_tenant_id record) (dt_turn_id record) db2 = Inr rec"
    "insert_outbox L rec (Some (vts_state (dt_state record))) h now db2 = Inr db'"
    using ok live unfolding recover_turn_in_tx_def Let_def by (auto simp: result_simps split: if_splits)
  show ?thesis
    using moved_loads [OF laws inv load st(1) st(2) [unfolded clear_actor_def] _ st(3,4)] by simp
qed

lemma recover_actor_turns_loads:
  assumes "turn_laws L"
  shows "recover_actor_turns L t now pairs db = Inr (recs, db') \<Longrightarrow> full_inv db \<Longrightarrow> rows_load L db \<Longrightarrow> rows_load L db'"
proof (induction pairs arbitrary: db recs)
  case (Cons p rest)
  obtain cur rec db1 others where st: "require_turn L t (snd p) db = Inr cur" "recover_turn_in_tx L cur now db = Inr (rec, db1)"
    "recover_actor_turns L t now rest db1 = Inr (others, db')"
    using Cons.prems(1) by (cases p) (auto simp: result_simps split: if_splits)
  obtain r where r: "r \<in> set (td_turns db)" "represents r cur"
    using require_turn_row [OF st(1)] by blast
  have "full_inv db1"
    using extended_full_inv [OF recover_extends [OF st(2)]] recover_inv [OF _ st(1,2)] Cons.prems(2) by (simp add: full_inv_def)
  then show ?case
    using Cons.IH [OF st(3)] recover_loads [OF assms Cons.prems(2,3) r st(2)] by blast
qed simp

lemma recover_for_admission_loads:
  assumes "turn_laws L" and "full_inv db" and "rows_load L db" and "recover_actor_for_admission L actor now db = Inr db'"
  shows "rows_load L db'"
proof -
  have "db' = db \<or> (\<exists>i cur rec. require_turn L (id_tenant_id actor) i db = Inr cur \<and> recover_turn_in_tx L cur now db = Inr (rec, db'))"
    using assms(4) by (auto simp: recover_actor_for_admission_def result_simps split: option.splits if_splits)
  then show ?thesis
    using assms(1-3) recover_loads require_turn_row by metis
qed

lemma recover_duplicate_loads:
  assumes "turn_laws L" and "full_inv db" and "rows_load L db" and old: "load_by_idempotency L t k db = Inr (Some old)"
    and "recover_duplicate_if_expired L old now db = Inr (rec, db')"
  shows "rows_load L db'"
proof -
  have "db' = db \<or> recover_turn_in_tx L old now db = Inr (rec, db')"
    using assms(5) by (auto simp: recover_duplicate_if_expired_def result_simps split: if_splits)
  then show ?thesis
    using assms(1-3) recover_loads load_by_idempotency_ok [OF old] by blast
qed

lemma ensure_actor_row_loads:
  assumes load: "rows_load L db" and ok: "ensure_actor_row L actor now db = Inr db'"
  shows "rows_load L db'"
proof (cases "list_ex (actor_at (id_tenant_id actor) (id_actor_key actor)) (td_actors db)")
  case True
  then show ?thesis
    using assms by (auto simp: ensure_actor_row_def Let_def result_simps split: if_splits)
next
  case False
  let ?a = "new_actor_row actor (timestamp_millis now)"
  have none: "find (actor_at (id_tenant_id actor) (id_actor_key actor)) (td_actors db) = None"
    using False by (simp add: find_None_iff list_ex_iff)
  have db': "db' = db\<lparr>td_actors := td_actors db @ [?a]\<rparr>"
    "\<exists>found. load_actor L (id_tenant_id actor) (id_actor_key actor) db' = Inr (Some found)"
    using ok False by (auto simp: ensure_actor_row_def Let_def result_simps split: if_splits)
  then have "\<exists>rec. row_to_actor L ?a = Inr rec"
    using none by (auto simp: load_actor_def find_append actor_at_def new_actor_row_def result_simps)
  then show ?thesis
    using load db'(1) by (auto simp: rows_load_def actors_load_def turns_load_def outbox_loads_def order_of_def evidence_of_def)
qed

lemma admit_loads:
  assumes laws: "turn_laws L" and inv: "full_inv db" and load: "rows_load L db"
    and ins: "insert_turn_row r db = Inr db1"
    and upd: "update_actor P (set_actor_lease a own (Some (tw_deadline_ms r)) (timestamp_millis now)) e db1 = Inr db2"
    and req: "require_turn L (tw_tenant_id r) (tw_turn_id r) db2 = Inr rec"
    and out: "insert_outbox L rec None None now db2 = Inr db'"
  shows "rows_load L db'"
proof -
  have db1: "turn_key r \<notin> set (map turn_key (td_turns db))" "db1 = db\<lparr>td_turns := td_turns db @ [r]\<rparr>"
    using insert_turn_row_ok [OF ins] by auto
  have db2: "td_turns db2 = td_turns db @ [r]" "td_outbox db2 = td_outbox db" "td_order db2 = td_order db"
    "td_sequence db2 = td_sequence db" "td_verified db2 = td_verified db"
    using db1(2) upd by (auto simp: update_actor_def split: if_splits)
  obtain r0 where r0: "r0 \<in> set (td_turns db2)" "turn_key r0 = turn_key r" "materialize_turn L r0 = Inr rec"
    using require_turn_row [OF req] by (auto simp: turn_key_def)
  then have "r0 = r"
    using db1(1) db2(1) by (metis Un_iff empty_iff image_eqI insert_iff list.set(1,2) list.set_map set_append)
  with r0(3) have "materialize_turn L r = Inr rec"
    by simp
  then have row: "\<exists>rec. materialize_turn L r = Inr rec" "tl_datetime_ok L (milliseconds (tw_deadline_ms r))"
    using materialize_turn_times by auto
  have "actors_load L db2"
    using load db1(2) row(2)
    by (intro actors_load_update [OF _ upd _ insert_outbox_time [OF out]]) (simp_all add: rows_load_def actors_load_def)
  then have "rows_load L db2"
    using load row(1) db2 by (auto simp: rows_load_def turns_load_def outbox_loads_def order_of_def evidence_of_def)
  moreover have "outbox_inv db2" "evidence_inv db2"
    using inv db2 by (simp_all add: full_inv_def store_inv_def outbox_inv_def evidence_inv_def)
  ultimately show ?thesis
    using insert_outbox_loads [OF laws _ _ _ out] by blast
qed

lemma begin_turn_loads:
  assumes laws: "turn_laws L" and inv: "full_inv db" and load: "rows_load L db"
    and ok: "begin_turn L g adm now db = Inr (res, db')"
  shows "rows_load L db'"
  using ok
proof (cases rule: begin_turn_cases)
  case (existing old rec)
  then show ?thesis
    using recover_duplicate_loads [OF laws inv load] by blast
next
  case (created r db0 db1 db2 db3 rec)
  have db0: "full_inv db0" "rows_load L db0"
    using extended_full_inv [OF update_extends(6) [OF created(4)] inv] ensure_actor_row_inv [OF created(4)]
      ensure_actor_row_loads [OF load created(4)] inv by (simp_all add: full_inv_def)
  have "full_inv db1"
    using extended_full_inv [OF recover_admission_extends(1) [OF created(5)] db0(1)]
      recover_for_admission_inv [OF created(5)] db0(1) by (simp add: full_inv_def)
  moreover have "rows_load L db1"
    using recover_for_admission_loads [OF laws db0 created(5)] .
  moreover have "tw_deadline_ms r = timestamp_millis (ai_deadline g)"
    by (simp add: created(1) new_turn_row_def Let_def)
  ultimately show ?thesis
    using admit_loads [OF laws _ _ created(6) _ created(8,9)] created(7) by simp
qed

lemma ledger_only_loads: "ledger_only m \<Longrightarrow> m h db = (r, h', db') \<Longrightarrow> rows_load L db \<Longrightarrow> rows_load L db'"
  unfolding ledger_only_def by (metis rows_load_ledger snd_conv)

lemma store_step_loads:
  assumes laws: "turn_laws L" and pre: "full_inv db" "rows_load L db" and "store_step L db db'"
  shows "rows_load L db'"
  using assms(4)
proof cases
  case (step_transition t i w s n "next" now rec)
  then show ?thesis
    using transition_loads [OF laws pre] by (auto simp: store_transition_def split: if_splits)
next
  case (step_result t i w s n "next" execution now rec)
  then show ?thesis
    using transition_loads [OF laws pre] by (auto simp: store_transition_with_result_def split: if_splits)
next
  case (step_recover t now limit recs)
  then show ?thesis
    using recover_actor_turns_loads [OF laws _ pre] by (simp add: recover_expired_actor_leases_def)
next
  case (step_append uuid now_text keypair binding h commit h')
  then show ?thesis
    using ledger_only_loads [OF ledger_only_on_ledger] pre(2) by blast
next
  case step_verify
  then show ?thesis
    using ledger_only_loads [OF ledger_only_on_ledger] pre(2) by blast
next
  case step_revalidate
  then show ?thesis
    using ledger_only_loads [OF revalidate_ledger_only] pre(2) by blast
qed (erule begin_turn_loads [OF laws pre] claim_loads [OF pre] release_loads [OF pre] renew_loads [OF pre]
    quarantine_loads [OF pre] complete_loads [OF pre])+

interpretation loading: inductive_invariant empty_store "\<lambda>db db'. turn_laws L \<and> store_step L db db'"
  "\<lambda>db. full_inv db \<and> rows_load L db" for L
proof
  show "empty_store db \<Longrightarrow> full_inv db \<and> rows_load L db" for db
    by (simp add: empty_full_inv) (simp add: empty_store_def rows_load_def turns_load_def actors_load_def)
  show "full_inv db \<and> rows_load L db \<Longrightarrow> turn_laws L \<and> store_step L db db' \<Longrightarrow> full_inv db' \<and> rows_load L db'" for db db'
    using store_step_inv store_step_loads by blast
qed

end
