(* ===== verification/Store_Live.thy ===== *)
theory Store_Live
  imports Store_Loads
begin

text \<open>
  Progress of the turn store: from any consistent database whose rows load, a new turn of an idle
  actor is admitted, and the head of a tenant that is due is claimed. Nothing the store wrote
  earlier can make these operations fail.
\<close>

subsection \<open>Admission\<close>

lemma ingress_printable: "json_printable (ingress_to_value L g)"
proof -
  have "json_printable (JInt (uint (w :: u64)))" for w
    using uint_lt2p [of w] order.trans [of i64_min 0 "uint w"] by (simp add: i64_min_def)
  then show ?thesis
    by (auto simp: ingress_to_value_def attachment_to_value_def)
qed

lemma new_turn_row_loads:
  assumes laws: "turn_laws L" and req: "json_printable (da_request adm)"
    and time: "tl_datetime_ok L (ai_deadline g)" "tl_datetime_ok L now"
  shows "\<exists>rec. materialize_turn L (new_turn_row L g adm now) = Inr rec"
proof -
  let ?s = "if da_approval_required adm then WaitingApproval else Accepted"
  have json: "x_json_parse (tl_externals L) (x_json_print (tl_externals L) (da_request adm)) = Some (da_request adm)"
    "x_json_parse (tl_externals L) (x_json_print (tl_externals L) (ingress_to_value L g)) = Some (ingress_to_value L g)"
    using laws req ingress_printable by (simp_all add: turn_laws_def)
  have "pointer_str [''deadline''] (ingress_to_value L g) = Some (tl_rfc3339 L (ai_deadline g))"
    "tl_parse_rfc3339 L (tl_rfc3339 L (ai_deadline g)) = Some (ai_deadline g)"
    "tl_datetime_ok L (milliseconds (timestamp_millis (ai_deadline g)))" "tl_datetime_ok L (milliseconds (timestamp_millis now))"
    using laws time by (simp_all add: turn_laws_def ingress_to_value_def pointer_str_def)
  moreover have "verify_json_text_bindings (ingress_to_value L g) (turn_binding_fields (new_turn_row L g adm now)) = Inr ()"
    by (simp add: turn_binding_fields_def new_turn_row_def Let_def verify_json_text_binding_def pointer_str_def ingress_to_value_def)
  moreover have "parse_state (tw_state (new_turn_row L g adm now)) = Inr ?s"
    by (simp add: new_turn_row_def Let_def parse_state_def)
  ultimately show ?thesis
    unfolding materialize_turn_def verify_turn_bindings_def
    by (auto simp: new_turn_row_def Let_def verify_stored_hash_def verify_terminal_hash_def parse_json_def canonical_json_def json
        checked_u64_def parse_optional_json_def validate_persisted_terminal_def parse_timestamp_def)
qed

text \<open>The store can take a new turn of the actor: the actor is unknown or idle, and no key is in use.\<close>

definition actor_free :: "turn_actor_identity \<Rightarrow> turn_db \<Rightarrow> bool" where
  "actor_free actor db \<longleftrightarrow>
     (\<forall>a \<in> set (td_actors db). actor_key_of a = (id_tenant_id actor, id_actor_key actor) \<longrightarrow>
        aw_active_turn_id a = None \<and> aw_principal_id a = id_principal_id actor \<and>
        aw_workspace_id a = id_workspace_id actor \<and> aw_profile_id a = id_profile_id actor \<and>
        aw_channel_id a = id_channel_id actor \<and> aw_thread_id a = id_thread_id actor)"

definition keys_unused :: "turn_libs \<Rightarrow> authenticated_ingress \<Rightarrow> durable_turn_admission \<Rightarrow> instant \<Rightarrow> turn_db \<Rightarrow> bool" where
  "keys_unused L g adm now db \<longleftrightarrow>
     (let r = new_turn_row L g adm now
      in turn_key r \<notin> turn_key ` set (td_turns db) \<and> idempotency_key_of r \<notin> idempotency_key_of ` set (td_turns db) \<and>
         (tw_tenant_id r, deterministic_outbox_id L (tw_tenant_id r) (tw_turn_id r) 0 (''turn.state.'' @ tw_state r)) \<notin>
           outbox_key ` set (td_outbox db))"

lemma row_to_actor_fields:
  "row_to_actor L a = Inr rec \<Longrightarrow>
     ar_principal_id rec = aw_principal_id a \<and> ar_workspace_id rec = aw_workspace_id a \<and> ar_profile_id rec = aw_profile_id a \<and>
     ar_channel_id rec = aw_channel_id a \<and> ar_thread_id rec = aw_thread_id a \<and> ar_active_turn_id rec = aw_active_turn_id a"
  by (auto simp: row_to_actor_def result_simps)

lemma new_actor_loads: "tl_datetime_ok L (milliseconds ms) \<Longrightarrow> \<exists>rec. row_to_actor L (new_actor_row actor ms) = Inr rec"
  by (simp add: row_to_actor_def new_actor_row_def sql_conversion_def checked_u64_def optional_map_def parse_timestamp_def)

lemma find_actor: "find (actor_at t k) xs = Some a \<Longrightarrow> a \<in> set xs \<and> actor_key_of a = (t, k)"
  by (auto simp: actor_at_def actor_key_of_def dest!: find_split)

lemma admit_actor:
  assumes free: "actor_free actor db" and load: "actors_load L db" and time: "tl_datetime_ok L (milliseconds (timestamp_millis now))"
  shows "\<exists>db0 a as. ensure_actor_row L actor now db = Inr db0 \<and> recover_actor_for_admission L actor now db0 = Inr db0 \<and>
    db0 = db\<lparr>td_actors := as\<rparr> \<and> a \<in> set (td_actors db0) \<and> actor_at (id_tenant_id actor) (id_actor_key actor) a \<and>
    aw_active_turn_id a = None"
proof -
  define db0 where "db0 = (if list_ex (actor_at (id_tenant_id actor) (id_actor_key actor)) (td_actors db) then db
    else db\<lparr>td_actors := td_actors db @ [new_actor_row actor (timestamp_millis now)]\<rparr>)"
  have free0: "actor_free actor db0" and load0: "actors_load L db0"
    using free load new_actor_loads [OF time]
    by (auto simp: db0_def actor_free_def actors_load_def new_actor_row_def)
  have "\<exists>a \<in> set (td_actors db0). actor_at (id_tenant_id actor) (id_actor_key actor) a"
    by (auto simp: db0_def list_ex_iff actor_at_def new_actor_row_def)
  then obtain a where a: "find (actor_at (id_tenant_id actor) (id_actor_key actor)) (td_actors db0) = Some a"
    by (cases "find (actor_at (id_tenant_id actor) (id_actor_key actor)) (td_actors db0)") (auto simp: find_None_iff)
  note mem = find_actor [OF a]
  obtain rec where rec: "row_to_actor L a = Inr rec"
    using load0 mem by (auto simp: actors_load_def)
  have fields: "ar_principal_id rec = id_principal_id actor" "ar_workspace_id rec = id_workspace_id actor"
    "ar_profile_id rec = id_profile_id actor" "ar_channel_id rec = id_channel_id actor" "ar_thread_id rec = id_thread_id actor"
    "ar_active_turn_id rec = None" "aw_active_turn_id a = None"
    using row_to_actor_fields [OF rec] free0 mem by (auto simp: actor_free_def)
  have "load_actor L (id_tenant_id actor) (id_actor_key actor) db0 = Inr (Some rec)"
    using a rec by (simp add: load_actor_def optional_map_def)
  then have "ensure_actor_row L actor now db = Inr db0" "recover_actor_for_admission L actor now db0 = Inr db0"
    using fields by (simp_all add: ensure_actor_row_def recover_actor_for_admission_def Let_def flip: db0_def)
  moreover have "db0 = db\<lparr>td_actors := td_actors db0\<rparr>"
    by (simp add: db0_def)
  ultimately show ?thesis
    using mem fields(7) by (intro exI [of _ db0] exI [of _ a] exI [of _ "td_actors db0"]) (simp add: actor_at_def actor_key_of_def)
qed

lemma order_absent:
  assumes "outbox_inv db" and "outbox_key row \<notin> outbox_key ` set (td_outbox db)" and "c \<in> set (td_order db)"
  shows "\<not> (or_tenant_id c = ow_tenant_id row \<and> or_outbox_id c = ow_outbox_id row)"
proof -
  have "order_key c \<noteq> outbox_key row"
    using assms outbox_inv_keys(1) by (metis image_eqI list.set_map)
  then show ?thesis
    by (simp add: order_key_def outbox_key_def)
qed

lemma assign_commit_order_succeeds:
  assumes inv: "outbox_inv db" and key: "outbox_key row \<notin> outbox_key ` set (td_outbox db)" and room: "next_ordinal db \<le> i64_max"
  shows "assign_commit_order row (db\<lparr>td_outbox := td_outbox db @ [row]\<rparr>) = Inr (appended row (next_ordinal db) db)"
proof -
  have seq: "td_sequence db = sql_max (map or_commit_ordinal (td_order db))"
    using inv by (simp add: outbox_inv_def)
  have pos: "0 < next_ordinal db"
    using inv by (rule next_ordinal_pos)
  have "\<not> list_ex (\<lambda>c. or_tenant_id c = ow_tenant_id row \<and> or_outbox_id c = ow_outbox_id row) (td_order db)"
    using order_absent [OF inv key] by (auto simp: list_ex_iff)
  then show ?thesis
    using seq room pos by (auto simp: assign_commit_order_def appended_def next_ordinal_def Let_def split: option.splits)
qed

lemma insert_outbox_succeeds:
  assumes inv: "outbox_inv db" and triggers: "validate_no_extra_outbox_triggers db = Inr ()"
    and time: "tl_datetime_ok L (milliseconds (timestamp_millis now))" and rev: "uint (vts_revision (dt_state rec)) \<le> i64_max"
    and room: "next_ordinal db \<le> i64_max"
    and turn: "\<exists>r \<in> set (td_turns db). turn_at (dt_tenant_id rec) (dt_turn_id rec) r"
    and key: "(dt_tenant_id rec, deterministic_outbox_id L (dt_tenant_id rec) (dt_turn_id rec) (vts_revision (dt_state rec))
      (state_event_type (vts_state (dt_state rec)))) \<notin> outbox_key ` set (td_outbox db)"
    and new: "(dt_tenant_id rec, dt_turn_id rec, uint (vts_revision (dt_state rec))) \<notin> turn_revision ` set (td_outbox db)"
  shows "insert_outbox L rec prev h now db = Inr (appended (new_outbox_row L rec prev h (milliseconds (timestamp_millis now))
    (uint (vts_revision (dt_state rec))) (timestamp_millis now)) (next_ordinal db) db)"
proof -
  define row where "row = new_outbox_row L rec prev h (milliseconds (timestamp_millis now))
      (uint (vts_revision (dt_state rec))) (timestamp_millis now)"
  have row: "outbox_key row = (dt_tenant_id rec, deterministic_outbox_id L (dt_tenant_id rec) (dt_turn_id rec)
      (vts_revision (dt_state rec)) (state_event_type (vts_state (dt_state rec))))"
    "turn_revision row = (dt_tenant_id rec, dt_turn_id rec, uint (vts_revision (dt_state rec)))" "0 \<le> ow_revision row"
    by (simp_all add: row_def new_outbox_row_def Let_def outbox_key_def turn_revision_def)
  have "insert_outbox_row row db = Inr (appended row (next_ordinal db) db)"
    unfolding insert_outbox_row_def
    using assign_commit_order_succeeds [OF inv key [folded row(1)] room] turn key [folded row(1)] new [folded row(2)] row(3)
    by (auto simp: list_ex_iff outbox_at_def outbox_key_def turn_revision_def row_def new_outbox_row_def Let_def image_iff)
  moreover have "next_commit_ordinal db = Inr (next_ordinal db)"
    using inv room by (auto simp: next_commit_ordinal_def next_ordinal_def outbox_inv_def checked_succ_i64_def Let_def
        split: option.split)
  moreover have "find (\<lambda>c. or_tenant_id c = ow_tenant_id row \<and> or_outbox_id c = ow_outbox_id row) (td_order db) = None"
    using order_absent [OF inv key [folded row(1)]] by (auto simp: find_None_iff)
  ultimately show ?thesis
    using triggers time rev
    by (simp add: insert_outbox_def Let_def parse_timestamp_def revision_to_i64_def find_append appended_def flip: row_def)
qed

lemma filter_unique:
  assumes "distinct (map key xs)" and "a \<in> set xs" and "P a" and "\<And>b. P b \<Longrightarrow> key b = key a"
  shows "length (filter P xs) = 1"
proof -
  obtain ys zs where xs: "xs = ys @ a # zs"
    using assms(2) by (metis split_list)
  then have "filter P ys = []" "filter P zs = []"
    using distinct_key_others [of key ys a zs] assms(1,4) by (fastforce simp: filter_empty_conv)+
  then show ?thesis
    using xs assms(3) by simp
qed

lemma begin_turn_creates:
  assumes laws: "turn_laws L" and inv: "full_inv db" and load: "rows_load L db"
    and triggers: "validate_no_extra_outbox_triggers db = Inr ()"
    and authority: "validate_actor_authority g (da_actor adm) = Inr ()" and req: "json_printable (da_request adm)"
    and time: "tl_datetime_ok L (ai_deadline g)" "tl_datetime_ok L now" "now < ai_deadline g"
    and free: "actor_free (da_actor adm) db" and unused: "keys_unused L g adm now db" and room: "next_ordinal db \<le> i64_max"
  shows "\<exists>rec db'. begin_turn L g adm now db = Inr (TurnCreated rec, db') \<and> vts_revision (dt_state rec) = 0 \<and>
    vts_state (dt_state rec) = (if da_approval_required adm then WaitingApproval else Accepted) \<and>
    dt_tenant_id rec = tenant_str (ai_tenant_id g) \<and>
    td_outbox db' = td_outbox db @ [new_outbox_row L rec None None (milliseconds (timestamp_millis now)) 0 (timestamp_millis now)] \<and>
    td_quarantine db' = td_quarantine db \<and> td_ledger db' = td_ledger db"
proof -
  define r where "r = new_turn_row L g adm now"
  have r: "tw_tenant_id r = id_tenant_id (da_actor adm)" "tw_actor_key r = id_actor_key (da_actor adm)"
    "tw_revision r = 0" "tw_state r = state_name (if da_approval_required adm then WaitingApproval else Accepted)"
    using authority by (simp_all add: r_def new_turn_row_def Let_def validate_actor_authority_def split: if_splits)
  have now_ok: "tl_datetime_ok L (milliseconds (timestamp_millis now))"
    using laws time(2) by (simp add: turn_laws_def)
  have fresh: "turn_key r \<notin> turn_key ` set (td_turns db)" "idempotency_key_of r \<notin> idempotency_key_of ` set (td_turns db)"
    using unused by (simp_all add: keys_unused_def Let_def flip: r_def)
  obtain rec where rec: "materialize_turn L r = Inr rec"
    using new_turn_row_loads [OF laws req time(1,2)] by (auto simp: r_def)
  have rep: "represents r rec"
    using rec by (rule materialize_turn_ok)
  then have rec_fields: "dt_tenant_id rec = tw_tenant_id r" "dt_turn_id rec = tw_turn_id r" "vts_revision (dt_state rec) = 0"
    "vts_state (dt_state rec) = (if da_approval_required adm then WaitingApproval else Accepted)"
    using r by (auto simp: represents_def)
  obtain db0 a as where db0: "ensure_actor_row L (da_actor adm) now db = Inr db0"
    "recover_actor_for_admission L (da_actor adm) now db0 = Inr db0" "db0 = db\<lparr>td_actors := as\<rparr>"
    "a \<in> set (td_actors db0)" "actor_at (id_tenant_id (da_actor adm)) (id_actor_key (da_actor adm)) a" "aw_active_turn_id a = None"
    using admit_actor [OF free _ now_ok] load by (auto simp: rows_load_def)
  have same: "td_turns db0 = td_turns db" "td_outbox db0 = td_outbox db" "td_order db0 = td_order db"
    "td_sequence db0 = td_sequence db" "td_ledger db0 = td_ledger db"
    by (simp_all add: db0(3))
  let ?P = "\<lambda>b. actor_at (tw_tenant_id r) (tw_actor_key r) b \<and> aw_active_turn_id b = None"
  let ?f = "set_actor_lease (Some (tw_turn_id r)) (Some (da_lease_owner adm)) (Some (timestamp_millis (ai_deadline g))) (timestamp_millis now)"
  define db1 where "db1 = db0\<lparr>td_turns := td_turns db @ [r]\<rparr>"
  define db2 where "db2 = db1\<lparr>td_actors := update_where ?P ?f (td_actors db0)\<rparr>"
  have ins: "insert_turn_row r db0 = Inr db1"
    using fresh db0(4,5) r(1,2) same(1)
    by (auto simp: insert_turn_row_def db1_def list_ex_iff turn_at_def turn_keyed_def turn_key_def idempotency_key_of_def image_iff)
  have "store_inv db0"
    using ensure_actor_row_inv [OF db0(1)] inv by (simp add: full_inv_def)
  then have "distinct (map actor_key_of (td_actors db0))"
    unfolding store_inv_def turns_inv_def by blast
  then have "length (filter ?P (td_actors db0)) = 1"
    using db0(4-6) r(1,2) by (intro filter_unique [of actor_key_of _ a]) (auto simp: actor_at_def actor_key_of_def)
  then have upd: "update_actor ?P ?f CasLost db1 = Inr db2"
    by (simp add: update_actor_def db1_def db2_def)
  have load_new: "require_turn L (tw_tenant_id r) (tw_turn_id r) db2 = Inr rec"
    using fresh(1) rec by (auto simp: require_turn_ok db2_def db1_def find_append turn_at_def turn_key_def image_iff
        split: option.split dest!: find_split)
  have "insert_outbox L rec None None now db2 = Inr (appended (new_outbox_row L rec None None (milliseconds (timestamp_millis now))
      (uint (vts_revision (dt_state rec))) (timestamp_millis now)) (next_ordinal db2) db2)"
  proof (rule insert_outbox_succeeds)
    show "outbox_inv db2" "validate_no_extra_outbox_triggers db2 = Inr ()" "next_ordinal db2 \<le> i64_max"
      using inv room triggers same triggers_ledger_cong [of db2 db]
      by (simp_all add: db2_def db1_def full_inv_def store_inv_def outbox_inv_def next_ordinal_def)
    have "\<not> (\<exists>p \<in> set (td_outbox db). turn_of_outbox p = turn_key r)"
      using inv fresh(1) by (fastforce simp: full_inv_def store_inv_def history_inv_def history_current_def image_iff)
    then show "(dt_tenant_id rec, dt_turn_id rec, uint (vts_revision (dt_state rec))) \<notin> turn_revision ` set (td_outbox db2)"
      using rec_fields same by (auto simp: db2_def db1_def turn_revision_def turn_of_outbox_def turn_key_def)
    show "(dt_tenant_id rec, deterministic_outbox_id L (dt_tenant_id rec) (dt_turn_id rec) (vts_revision (dt_state rec))
        (state_event_type (vts_state (dt_state rec)))) \<notin> outbox_key ` set (td_outbox db2)"
      using unused rec_fields r(4) same by (simp add: keys_unused_def Let_def db2_def db1_def state_event_type_def flip: r_def)
  qed (use now_ok rec_fields in \<open>simp_all add: db2_def db1_def turn_at_def i64_max_def\<close>)
  then obtain db' where "insert_outbox L rec None None now db2 = Inr db'"
    and db': "td_outbox db' = td_outbox db @ [new_outbox_row L rec None None (milliseconds (timestamp_millis now)) 0 (timestamp_millis now)]"
      "td_quarantine db' = td_quarantine db" "td_ledger db' = td_ledger db"
    using rec_fields(3) db0(3) by (auto simp: appended_def db2_def db1_def)
  moreover have "load_by_idempotency L (tw_tenant_id r) (tw_idempotency_key r) db = Inr None"
    using fresh(2) by (auto simp: load_by_idempotency_def optional_map_def find_None_iff turn_keyed_def idempotency_key_of_def
        image_iff split: option.split dest!: find_split)
  ultimately have "begin_turn L g adm now db = Inr (TurnCreated rec, db')"
    using authority time(3) db0(1,2) ins upd load_new by (simp add: begin_turn_def Let_def flip: r_def)
  then show ?thesis
    using rec_fields r_def db' by (auto simp: new_turn_row_def Let_def)
qed

subsection \<open>Claims\<close>

lemma verify_outbox_bindings_lease [simp]:
  "verify_outbox_bindings L (take_lease w k u ms r) payload n = verify_outbox_bindings L r payload n"
  by (simp add: verify_outbox_bindings_def take_lease_def)

lemma leased_row_loads:
  assumes "materialize_outbox L (r, c, None) = Inr cur"
    and "ow_delivered_at_ms r = None" "ow_ledger_event_id r = None"
    and "ow_created_at_ms r \<le> ms" "ms \<le> u" "tl_datetime_ok L (milliseconds ms)" "tl_datetime_ok L (milliseconds u)"
  shows "\<exists>rec. materialize_outbox L (take_lease w k u ms r, c, None) = Inr rec"
proof -
  obtain payload revision ordinal origin where m: "sha256_text L (ow_payload_json r) = ow_payload_hash r"
    "parse_json L (ow_payload_json r) = Inr payload" "checked_u64 (ow_revision r) = Inr revision"
    "verify_outbox_bindings L r payload revision = Inr ()" "checked_u64 (or_commit_ordinal c) = Inr ordinal" "ordinal \<noteq> 0"
    "parse_order_origin (or_order_origin c) = Inr origin" "0 \<le> ow_attempts r" "tl_datetime_ok L (milliseconds (ow_available_at_ms r))"
    "tl_datetime_ok L (milliseconds (ow_created_at_ms r))" "ow_created_at_ms r \<le> ow_available_at_ms r"
    using assms(1) unfolding materialize_outbox_def
    by (auto simp: result_simps validate_outbox_status_bindings_def split: if_splits)
  have fields: "ow_payload_json (take_lease w k u ms r) = ow_payload_json r" "ow_payload_hash (take_lease w k u ms r) = ow_payload_hash r"
    "ow_revision (take_lease w k u ms r) = ow_revision r" "ow_status (take_lease w k u ms r) = ''leased''"
    "ow_attempts (take_lease w k u ms r) = ow_attempts r + 1" "ow_available_at_ms (take_lease w k u ms r) = ow_available_at_ms r"
    "ow_lease_owner (take_lease w k u ms r) = Some w" "ow_lease_token (take_lease w k u ms r) = Some k"
    "ow_lease_until_ms (take_lease w k u ms r) = Some u" "ow_delivered_at_ms (take_lease w k u ms r) = ow_delivered_at_ms r"
    "ow_ledger_event_id (take_lease w k u ms r) = ow_ledger_event_id r" "ow_created_at_ms (take_lease w k u ms r) = ow_created_at_ms r"
    "ow_updated_at_ms (take_lease w k u ms r) = ms"
    by (simp_all add: take_lease_def)
  show ?thesis
    using m assms(2-7)
    by (simp add: materialize_outbox_def fields verify_stored_hash_def parse_outbox_status_def checked_u64_def [of "ow_attempts r + 1"]
        validate_outbox_status_bindings_def status_shape_ok_def evidence_shape_ok_def before_ms_def
        parse_timestamp_def optional_map_def)
qed

text \<open>A row is due: not quarantined, available, and not under a live lease.\<close>

definition due_row :: "string \<Rightarrow> millis \<Rightarrow> turn_db \<Rightarrow> outbox_row \<Rightarrow> bool" where
  "due_row t now_ms db r \<longleftrightarrow>
     \<not> outbox_is_quarantined t (ow_outbox_id r) db \<and> ow_available_at_ms r \<le> now_ms \<and>
     (ow_status r = ''pending'' \<or>
      ow_status r = ''leased'' \<and> (\<exists>u. ow_lease_until_ms r = Some u \<and> u \<le> now_ms))"

lemma find_outbox_at:
  assumes "outbox_inv db" and "r \<in> set (td_outbox db)" and "outbox_key r = (t, i)"
  shows "find (outbox_at t i) (td_outbox db) = Some r"
proof (cases "find (outbox_at t i) (td_outbox db)")
  case (Some s)
  have "s = r"
    using outbox_unique [OF assms(1) _ assms(2), of s] find_split [OF Some] assms(3)
    by (auto simp: outbox_at_def outbox_key_def)
  then show ?thesis
    using Some by simp
qed (use assms(2,3) in \<open>auto simp: find_None_iff outbox_at_def outbox_key_def\<close>)

lemma require_outbox_row:
  assumes "outbox_inv db" and "r \<in> set (td_outbox db)" and "outbox_key r = (t, i)" and "order_of db r = Some c"
  shows "require_outbox L t i db = materialize_outbox L (r, c, evidence_of db r)"
  using find_outbox_at [OF assms(1-3)] assms(4)
  by (simp add: require_outbox_def load_outbox_def raw_outbox_of_def optional_map_def and_then_def ok_or_def split: sum.split)

lemma due_row_shape:
  assumes "outbox_row_ok r" and "due_row t ms db r"
  shows "ow_delivered_at_ms r = None" "ow_ledger_event_id r = None" "0 \<le> ow_attempts r"
  using assms by (auto simp: due_row_def outbox_row_ok_def row_status_def parse_outbox_status_def status_shape_ok_def)

lemma due_claim_ready:
  assumes "due_row t (timestamp_millis now) db r" and "row_status r = Some status"
  shows "claim_ready (outbox_record_of r c e payload status) now"
  using assms by (auto simp: due_row_def claim_ready_def outbox_record_of_def milliseconds_le until_passed_def row_status_def
      parse_outbox_status_def)

text \<open>The claim's update on the table, and the row after it.\<close>

lemma claim_update:
  fixes w k :: string
  assumes inv: "full_inv db" and load: "rows_load L db" and r: "queue_head t db = Some r" "due_row t (timestamp_millis now) db r"
    and time: "tl_datetime_ok L (milliseconds (timestamp_millis now))" "tl_datetime_ok L (milliseconds (timestamp_millis (now + d)))" "0 \<le> d"
  defines "P \<equiv> claimable_row t (ow_outbox_id r) (timestamp_millis now)"
    and "f \<equiv> take_lease w k (timestamp_millis (now + d)) (timestamp_millis now)"
  defines "db' \<equiv> db\<lparr>td_outbox := update_where P f (td_outbox db)\<rparr>"
  shows "update_outbox P f db = Inr (1, db')"
    and "tenant_outbox_head t db' = Inr (Some (ow_outbox_id r))"
    and "\<exists>c payload status. require_outbox L t (ow_outbox_id r) db = Inr (outbox_record_of r c None payload status) \<and>
      row_status r = Some status \<and>
      require_outbox L t (ow_outbox_id r) db' = Inr (outbox_record_of (f r) c None payload OutboxLeased)"
proof -
  have outbox: "outbox_inv db"
    using inv by (rule full_outbox_inv)
  obtain before after where split: "td_outbox db = before @ r # after" "ow_tenant_id r = t" "\<not> delivered r"
    "\<forall>u \<in> set before. \<not> (ow_tenant_id u = t \<and> \<not> delivered u)"
    using find_split [OF r(1) [unfolded queue_head_def]] by auto
  have key: "outbox_key r = (t, ow_outbox_id r)" and mem: "r \<in> set (td_outbox db)" and Pr: "P r"
    using split r(2) by (auto simp: outbox_key_def P_def claimable_row_def outbox_at_def due_row_def)
  have one: "length (filter P (td_outbox db)) = 1"
    using outbox_inv_keys(2) [OF outbox] mem Pr claim_row_status key
    by (intro filter_unique [of outbox_key _ r]) (auto simp: P_def)
  show upd: "update_outbox P f db = Inr (1, db')"
    unfolding update_outbox_Inr using one claim_row_status
    by (auto simp: delivery_guard_fires_def db'_def P_def f_def)
  have db': "td_outbox db' = before @ f r # after"
    using update_where_at_key [OF outbox_inv_keys(2) [OF outbox] split(1), of P f] one split(2)
    by (simp add: db'_def P_def claimable_row_def outbox_at_def outbox_key_def)
  have inv': "outbox_inv db'"
    unfolding db'_def P_def f_def by (rule harmless_update_inv [OF outbox claim_harmless])
  have frow: "ow_tenant_id (f r) = t" "\<not> delivered (f r)" "ow_outbox_id (f r) = ow_outbox_id r" "outbox_key (f r) = outbox_key r"
    using split(2) lease_change_key(1) by (simp_all add: f_def) (simp_all add: take_lease_def)
  have "find (\<lambda>s. ow_tenant_id s = t \<and> \<not> delivered s) before = None"
    using split(4) by (auto simp: find_None_iff)
  then have "queue_head t db' = Some (f r)"
    using frow by (simp add: queue_head_def db' find_append)
  then show "tenant_outbox_head t db' = Inr (Some (ow_outbox_id r))"
    using tenant_head_fifo [OF inv'] frow by simp
  obtain c cur where c: "order_of db r = Some c" "materialize_outbox L (r, c, evidence_of db r) = Inr cur"
    using load mem by (auto simp: rows_load_def outbox_loads_def)
  have none: "evidence_of db r = None"
    using evidence_iff_delivered [OF inv mem] split(3) by auto
  obtain payload status where cur: "cur = outbox_record_of r c None payload status" "row_status r = Some status"
    "x_json_parse (tl_externals L) (ow_payload_json r) = Some payload"
    using materialize_outbox_ok [OF c(2)] none by auto
  have ok: "outbox_row_ok r"
    using outbox mem by (simp add: outbox_inv_def)
  have "ow_created_at_ms r \<le> ow_available_at_ms r"
    using c(2) unfolding materialize_outbox_def by (auto simp: result_simps validate_outbox_status_bindings_def split: if_splits)
  then have "ow_created_at_ms r \<le> timestamp_millis now" "timestamp_millis now \<le> timestamp_millis (now + d)"
    using r(2) time(3) zdiv_mono1 [of now "now + d" 1000000] by (auto simp: due_row_def timestamp_millis_def)
  then obtain rec where rec: "materialize_outbox L (f r, c, None) = Inr rec"
    using leased_row_loads [OF c(2) [unfolded none] due_row_shape(1,2) [OF ok r(2)] _ _ time(1,2)] by (auto simp: f_def)
  have "rec = outbox_record_of (f r) c None payload OutboxLeased"
    using materialize_outbox_ok [OF rec] cur(3) by (auto simp: f_def take_lease_def row_status_def parse_outbox_status_def)
  moreover have "order_of db' (f r) = Some c" "evidence_of db' (f r) = None"
    using c(1) none frow split(2) by (simp_all add: order_of_def evidence_of_def db'_def)
  ultimately show "\<exists>c payload status. require_outbox L t (ow_outbox_id r) db = Inr (outbox_record_of r c None payload status) \<and>
      row_status r = Some status \<and>
      require_outbox L t (ow_outbox_id r) db' = Inr (outbox_record_of (f r) c None payload OutboxLeased)"
    using require_outbox_row [OF outbox mem key c(1), of L] require_outbox_row [OF inv' _ _ \<open>order_of db' (f r) = Some c\<close>, of t "ow_outbox_id r" L]
      c(2) none cur(1,2) rec key frow(4) db'
    by (intro exI [of _ c] exI [of _ payload] exI [of _ status]) simp
qed

lemma claim_gives_head:
  assumes laws: "turn_laws L" and inv: "full_inv db" and load: "rows_load L db"
    and triggers: "validate_no_extra_outbox_triggers db = Inr ()"
    and head: "queue_head t db = Some r" and due: "due_row t (timestamp_millis now) db r"
    and owner: "validate_lease_identity ''lease_owner'' w = Inr ()" and duration: "valid_lease_duration d"
    and time: "tl_datetime_ok L now" "tl_datetime_ok L (now + d)" and attempts: "ow_attempts r < i64_max"
  shows "\<exists>rec db'. claim_next_outbox L uuid t w now d db = Inr (Some rec, db') \<and> ob_outbox_id rec = ow_outbox_id r \<and>
    ob_lease_owner rec = Some w \<and> ob_lease_token rec = Some (''outbox-lease-'' @ uuid)"
proof -
  let ?f = "take_lease w (''outbox-lease-'' @ uuid) (timestamp_millis (now + d)) (timestamp_millis now)"
  let ?P = "claimable_row t (ow_outbox_id r) (timestamp_millis now)"
  let ?db = "db\<lparr>td_outbox := update_where ?P ?f (td_outbox db)\<rparr>"
  have ok: "tl_datetime_ok L (milliseconds (timestamp_millis now))" "tl_datetime_ok L (milliseconds (timestamp_millis (now + d)))" "0 \<le> d"
    using laws time duration by (simp_all add: turn_laws_def valid_lease_duration_def seconds_def)
  note step = claim_update [OF inv load head due ok, of w "''outbox-lease-'' @ uuid"]
  obtain c payload status where rows: "require_outbox L t (ow_outbox_id r) db = Inr (outbox_record_of r c None payload status)"
    "row_status r = Some status" "require_outbox L t (ow_outbox_id r) ?db = Inr (outbox_record_of (?f r) c None payload OutboxLeased)"
    using step(3) by blast
  have "r \<in> set (td_outbox db)"
    using find_split [OF head [unfolded queue_head_def]] by auto
  then have "0 \<le> ow_attempts r"
    using full_outbox_inv [OF inv] by (simp add: outbox_inv_def outbox_row_ok_def)
  then have small: "uint (word_of_int (ow_attempts r) :: u64) = ow_attempts r"
    using attempts by (intro uint_of_int_small) (simp_all add: i64_max_def)
  have "claim_next_outbox L uuid t w now d db = Inr (Some (outbox_record_of (?f r) c None payload OutboxLeased), ?db)"
    using owner duration triggers tenant_head_fifo [OF full_outbox_inv [OF inv], of t] head rows step(1,2)
      due_claim_ready [OF due rows(2)] due attempts small time(2)
    by (simp add: claim_next_outbox_def Let_def due_row_def) (simp add: outbox_record_of_def take_lease_def)
  then show ?thesis
    by (intro exI [of _ "outbox_record_of (?f r) c None payload OutboxLeased"] exI [of _ ?db])
      (simp add: outbox_record_of_def take_lease_def)
qed

end
