(* ===== verification/Store_Demo.thy ===== *)
theory Store_Demo
  imports Store_Live
begin

text \<open>
  Concrete libraries that satisfy the laws the store relies on: a reversible text encoding of JSON
  in place of \<open>serde_json\<close> (a stack program that rebuilds the value), a date text that is read back
  exactly, and a stand-in hash. The theorems about the store are instantiated on them.
\<close>

subsection \<open>A reversible encoding of JSON\<close>

fun encode_str :: "string \<Rightarrow> string" where
  "encode_str [] = []"
| "encode_str (c # cs) = CHR ''/'' # c # encode_str cs"

function encode_json :: "json \<Rightarrow> string" where
  "encode_json JNull = ''n''"
| "encode_json (JBool b) = (if b then ''t'' else ''f'')"
| "encode_json (JInt n) = replicate (nat \<bar>n\<bar>) CHR ''1'' @ (if n < 0 then ''-'' else ''+'')"
| "encode_json (JFloat w) = replicate (unat w) CHR ''1'' @ ''d''"
| "encode_json (JStr s) = encode_str s @ ''s''"
| "encode_json (JArr vs) = concat (map encode_json vs) @ replicate (length vs) CHR ''1'' @ ''a''"
| "encode_json (JObj kvs) =
     concat (map (\<lambda>kv. encode_str (fst kv) @ ''s'' @ encode_json (snd kv)) kvs) @
     replicate (length kvs) CHR ''1'' @ ''o''"
  by pat_completeness auto
termination
proof (relation "measure size")
  fix kv :: "string \<times> json" and kvs
  assume "kv \<in> set kvs"
  then show "(snd kv, JObj kvs) \<in> measure size"
    by (induction kvs) (auto simp: size_prod_simp)
qed (auto simp: less_Suc_eq_le intro: size_list_estimation')

text \<open>The pairs of an object lie on the stack as alternating keys and values.\<close>

fun pairs_of :: "json list \<Rightarrow> (string \<times> json) list option" where
  "pairs_of [] = Some []"
| "pairs_of (JStr k # v # rest) = map_option ((#) (k, v)) (pairs_of rest)"
| "pairs_of _ = None"

fun decode_run :: "string \<Rightarrow> json list \<Rightarrow> nat \<Rightarrow> string \<Rightarrow> json option" where
  "decode_run [] stack n acc = (case stack of [v] \<Rightarrow> Some v | _ \<Rightarrow> None)"
| "decode_run (c # cs) stack n acc =
     (if c = CHR ''/'' then (case cs of [] \<Rightarrow> None | d # ds \<Rightarrow> decode_run ds stack n (acc @ [d]))
      else if c = CHR ''1'' then decode_run cs stack (Suc n) acc
      else if c = CHR ''n'' then decode_run cs (JNull # stack) 0 []
      else if c = CHR ''t'' then decode_run cs (JBool True # stack) 0 []
      else if c = CHR ''f'' then decode_run cs (JBool False # stack) 0 []
      else if c = CHR ''+'' then decode_run cs (JInt (int n) # stack) 0 []
      else if c = CHR ''-'' then decode_run cs (JInt (- int n) # stack) 0 []
      else if c = CHR ''d'' then decode_run cs (JFloat (of_nat n) # stack) 0 []
      else if c = CHR ''s'' then decode_run cs (JStr acc # stack) 0 []
      else if c = CHR ''a'' then decode_run cs (JArr (rev (take n stack)) # drop n stack) 0 []
      else if c = CHR ''o'' then
        (case pairs_of (rev (take (2 * n) stack)) of
           None \<Rightarrow> None
         | Some kvs \<Rightarrow> decode_run cs (JObj kvs # drop (2 * n) stack) 0 [])
      else None)"

definition decode_json :: "string \<Rightarrow> json option" where
  "decode_json text = decode_run text [] 0 []"

lemma decode_count: "decode_run (replicate k CHR ''1'' @ rest) stack n acc = decode_run rest stack (n + k) acc"
  by (induction k arbitrary: n) simp_all

lemma decode_str: "decode_run (encode_str s @ rest) stack n acc = decode_run rest stack n (acc @ s)"
  by (induction s arbitrary: acc) simp_all

lemma decode_values:
  "(\<And>v rest stack. v \<in> set vs \<Longrightarrow> decode_run (encode_json v @ rest) stack 0 [] = decode_run rest (v # stack) 0 []) \<Longrightarrow>
     decode_run (concat (map encode_json vs) @ rest) stack 0 [] = decode_run rest (rev vs @ stack) 0 []"
  by (induction vs arbitrary: stack) simp_all

definition flatten_pairs :: "(string \<times> json) list \<Rightarrow> json list" where
  "flatten_pairs kvs = concat (map (\<lambda>kv. [JStr (fst kv), snd kv]) kvs)"

lemma flatten_pairs_length [simp]: "length (flatten_pairs kvs) = 2 * length kvs"
  by (induction kvs) (simp_all add: flatten_pairs_def)

lemma pairs_of_flatten [simp]: "pairs_of (flatten_pairs kvs) = Some kvs"
  by (induction kvs) (simp_all add: flatten_pairs_def)

lemma decode_pairs:
  "(\<And>kv rest stack. kv \<in> set kvs \<Longrightarrow> decode_run (encode_json (snd kv) @ rest) stack 0 [] = decode_run rest (snd kv # stack) 0 []) \<Longrightarrow>
     decode_run (concat (map (\<lambda>kv. encode_str (fst kv) @ CHR ''s'' # encode_json (snd kv)) kvs) @ rest) stack 0 [] =
     decode_run rest (rev (flatten_pairs kvs) @ stack) 0 []"
proof (induction kvs arbitrary: stack)
  case (Cons kv kvs)
  then show ?case
    by (simp add: decode_str flatten_pairs_def del: decode_run.simps) (simp add: Cons)
qed (simp add: flatten_pairs_def)

lemma decode_encode_run: "decode_run (encode_json v @ rest) stack 0 [] = decode_run rest (v # stack) 0 []"
proof (induction v arbitrary: rest stack rule: encode_json.induct)
  case (6 vs)
  then show ?case
    by (simp add: decode_values decode_count)
next
  case (7 kvs)
  then show ?case
    by (simp add: decode_pairs decode_count)
qed (simp_all add: decode_count decode_str)

lemma decode_encode [simp]: "decode_json (encode_json v) = Some v"
  using decode_encode_run [of v "[]" "[]"] by (simp add: decode_json_def)

subsection \<open>Libraries, a database and a request\<close>

definition demo_libs :: turn_libs where
  "demo_libs =
     \<lparr>tl_externals = demo_externals\<lparr>x_json_print := encode_json, x_json_parse := decode_json,
        x_sha256 := (\<lambda>_. replicate 32 CHR ''0''), x_hex_encode := (\<lambda>_. ''h''),
        x_hex_decode := (\<lambda>_. Some (replicate 64 CHR ''s'')), x_bs58 := (\<lambda>_. ''agent-1'')\<rparr>,
      tl_datetime_ok = (\<lambda>_. True),
      tl_rfc3339 = (\<lambda>t. encode_json (JInt t)),
      tl_rfc3339_millis = (\<lambda>t. encode_json (JInt (milliseconds (timestamp_millis t)))),
      tl_parse_rfc3339 = (\<lambda>s. case decode_json s of Some (JInt t) \<Rightarrow> Some t | _ \<Rightarrow> None),
      tl_execution_to_value = (\<lambda>e. JStr (state_name (terminal_state e))),
      tl_execution_from_value = (\<lambda>v. if v = JStr ''quarantined'' then Some (recovery_execution Running)
        else if v = JStr ''aborted'' then Some (recovery_execution Accepted)
        else Some (Handled ''done''))\<rparr>"

lemma demo_laws: "turn_laws demo_libs"
  by (simp add: turn_laws_def demo_libs_def del: encode_json.simps)

definition demo_trigger :: "string \<Rightarrow> string \<Rightarrow> string \<Rightarrow> schema_object" where
  "demo_trigger name table sql = \<lparr>so_type = ''trigger'', so_name = name, so_tbl_name = table, so_sql = sql\<rparr>"

definition demo_guards :: "schema_object list" where
  "demo_guards =
     [demo_trigger OUTBOX_ORDER_TRIGGER ''turn_outbox_v2'' CREATE_ORDER_TRIGGER,
      demo_trigger OUTBOX_ORDER_UPDATE_GUARD ''turn_outbox_commit_order_v2'' CREATE_ORDER_UPDATE_GUARD,
      demo_trigger OUTBOX_ORDER_DELETE_GUARD ''turn_outbox_commit_order_v2'' CREATE_ORDER_DELETE_GUARD,
      demo_trigger OUTBOX_VERIFIED_COMMIT_INSERT_GUARD ''turn_outbox_verified_commit_v2'' CREATE_VERIFIED_COMMIT_INSERT_GUARD,
      demo_trigger OUTBOX_VERIFIED_COMMIT_UPDATE_GUARD ''turn_outbox_verified_commit_v2'' CREATE_VERIFIED_COMMIT_UPDATE_GUARD,
      demo_trigger OUTBOX_VERIFIED_COMMIT_DELETE_GUARD ''turn_outbox_verified_commit_v2'' CREATE_VERIFIED_COMMIT_DELETE_GUARD,
      demo_trigger OUTBOX_VERIFIED_DELIVERY_GUARD ''turn_outbox_v2'' CREATE_VERIFIED_DELIVERY_GUARD,
      demo_trigger OUTBOX_QUARANTINE_INSERT_GUARD ''turn_outbox_quarantine_v2'' CREATE_OUTBOX_QUARANTINE_INSERT_GUARD,
      demo_trigger OUTBOX_QUARANTINE_UPDATE_GUARD ''turn_outbox_quarantine_v2'' CREATE_OUTBOX_QUARANTINE_UPDATE_GUARD,
      demo_trigger OUTBOX_QUARANTINE_DELETE_GUARD ''turn_outbox_quarantine_v2'' CREATE_OUTBOX_QUARANTINE_DELETE_GUARD]"

definition demo_schema :: ledger_db where
  "demo_schema = with_identity demo_externals ''u-1''
     (empty_ledger\<lparr>ld_master := demo_guards, ld_database_list := [(0, ''main'', ''/ledger'')]\<rparr>)"

definition demo_store :: turn_db where
  "demo_store =
     \<lparr>td_actors = [], td_turns = [], td_outbox = [], td_order = [], td_sequence = None, td_verified = [],
      td_quarantine = [], td_ledger = demo_schema\<rparr>"

lemmas trigger_names =
  OUTBOX_ORDER_TRIGGER_def OUTBOX_ORDER_UPDATE_GUARD_def OUTBOX_ORDER_DELETE_GUARD_def
  OUTBOX_VERIFIED_COMMIT_INSERT_GUARD_def OUTBOX_VERIFIED_COMMIT_UPDATE_GUARD_def
  OUTBOX_VERIFIED_COMMIT_DELETE_GUARD_def OUTBOX_VERIFIED_DELIVERY_GUARD_def
  OUTBOX_QUARANTINE_INSERT_GUARD_def OUTBOX_QUARANTINE_UPDATE_GUARD_def OUTBOX_QUARANTINE_DELETE_GUARD_def

lemma demo_triggers: "validate_no_extra_outbox_triggers demo_store = Inr ()"
proof -
  have "extra_outbox_triggers demo_store = []"
    by (simp add: extra_outbox_triggers_def demo_store_def demo_schema_def with_identity_def demo_guards_def demo_trigger_def
        allowed_triggers_def guarded_tables_def DATABASE_IDENTITY_TABLE_def)
  then show ?thesis
    by (simp add: validate_no_extra_outbox_triggers_def validate_order_trigger_schema_def validate_outbox_dispatcher_triggers_def
        validate_outbox_trigger_allowlist_def validate_schema_object_def schema_object_sql_def demo_store_def demo_schema_def
        with_identity_def demo_guards_def demo_trigger_def trigger_names)
qed

definition demo_ingress :: authenticated_ingress where
  "demo_ingress =
     \<lparr>ai_tenant_id = TenantId ''acme'', ai_subject_id = SubjectId ''user-1'', ai_principal_id = PrincipalId ''agent-1'',
      ai_workspace_id = WorkspaceId ''main'', ai_profile_id = ProfileId ''default'', ai_session_id = SessionId ''session-1'',
      ai_source = \<lparr>as_surface = ''cli'', as_source_id = ''terminal''\<rparr>, ai_deadline = seconds 60, ai_scopes = [''turn.run''],
      ai_idempotency_key = ''request-1'', ai_attachments = []\<rparr>"

definition demo_actor :: turn_actor_identity where
  "demo_actor =
     \<lparr>id_tenant_id = ''acme'', id_actor_key = ''actor-1'', id_principal_id = ''agent-1'', id_workspace_id = ''main'',
      id_profile_id = ''default'', id_channel_id = ''chat'', id_thread_id = ''thread''\<rparr>"

definition demo_admission :: "bool \<Rightarrow> durable_turn_admission" where
  "demo_admission approval =
     \<lparr>da_actor = demo_actor, da_request = JObj [(''text'', JStr ''hello'')], da_lease_owner = ''worker-1'',
      da_approval_required = approval\<rparr>"

lemma demo_empty: "empty_store demo_store"
  by (simp add: empty_store_def demo_store_def)

lemma demo_rows_load: "rows_load demo_libs demo_store"
  by (simp add: rows_load_def turns_load_def actors_load_def demo_store_def)

subsection \<open>A run\<close>

lemma demo_created:
  "\<exists>rec db. begin_turn demo_libs demo_ingress (demo_admission approval) 0 demo_store = Inr (TurnCreated rec, db) \<and>
     vts_revision (dt_state rec) = 0 \<and>
     vts_state (dt_state rec) = (if approval then WaitingApproval else Accepted) \<and> dt_tenant_id rec = ''acme'' \<and>
     td_outbox db = [new_outbox_row demo_libs rec None None 0 0 0] \<and> td_quarantine db = [] \<and> td_ledger db = demo_schema"
proof -
  have zero: "timestamp_millis 0 = 0" "milliseconds 0 = 0"
    by (simp_all add: timestamp_millis_def milliseconds_def)
  have db: "td_outbox demo_store = []" "td_quarantine demo_store = []" "td_ledger demo_store = demo_schema"
    "td_actors demo_store = []" "td_turns demo_store = []" "td_sequence demo_store = None"
    by (simp_all add: demo_store_def)
  have authority: "validate_actor_authority demo_ingress (da_actor (demo_admission approval)) = Inr ()"
    by (simp add: validate_actor_authority_def demo_ingress_def demo_admission_def demo_actor_def)
  have adm: "json_printable (da_request (demo_admission approval))" "da_approval_required (demo_admission approval) = approval"
    by (simp_all add: demo_admission_def)
  have ok: "tl_datetime_ok demo_libs t" for t
    by (simp add: demo_libs_def)
  have "0 < ai_deadline demo_ingress" "tenant_str (ai_tenant_id demo_ingress) = ''acme''"
    by (simp_all add: demo_ingress_def seconds_def)
  then show ?thesis
    using begin_turn_creates [where now = 0, OF demo_laws empty_full_inv [OF demo_empty] demo_rows_load demo_triggers authority adm(1) ok ok]
    by (simp add: db zero adm(2) actor_free_def keys_unused_def Let_def next_ordinal_def i64_max_def)
qed

lemma demo_created_facts:
  assumes "begin_turn demo_libs demo_ingress (demo_admission approval) 0 demo_store = Inr (TurnCreated rec, db)"
    and "td_ledger db = demo_schema"
  shows "full_inv db" "rows_load demo_libs db" "validate_no_extra_outbox_triggers db = Inr ()"
    "reaches empty_store (store_step demo_libs) db"
proof -
  have step: "store_step demo_libs demo_store db"
    using assms(1) by (rule store_step.step_begin)
  show "full_inv db"
    using store_step_inv [OF empty_full_inv [OF demo_empty] step] .
  show "rows_load demo_libs db"
    using store_step_loads [OF demo_laws empty_full_inv [OF demo_empty] demo_rows_load step] .
  show "validate_no_extra_outbox_triggers db = Inr ()"
    using triggers_ledger_cong [of db demo_store] assms(2) demo_triggers by (simp add: demo_store_def)
  show "reaches empty_store (store_step demo_libs) db"
    using reaches.step [of empty_store "store_step demo_libs" demo_store db] reaches.start [of empty_store demo_store] demo_empty step
    by blast
qed

end
