(* ===== verification/Store_Runs.thy ===== *)
theory Store_Runs
  imports Store_Demo
begin

text \<open>
  What every run of the store keeps: a turn only advances along the state machine and a finished
  turn never changes; the outbox rows of a turn are its run from the first state to the current
  one; deliveries of a tenant follow commit order.
\<close>

subsection \<open>Turns only advance\<close>

definition turn_advance :: "turn_row \<Rightarrow> turn_row \<Rightarrow> bool" where
  "turn_advance r r' \<longleftrightarrow>
     (\<exists>s s'. tw_state r = state_name s \<and> tw_state r' = state_name s' \<and> can_transition_to s s' \<and> same_turn r r' \<and>
        tw_revision r' = tw_revision r + 1)"

definition turns_advance :: "turn_db \<Rightarrow> turn_db \<Rightarrow> bool" where
  "turns_advance db db' \<longleftrightarrow> (\<forall>r \<in> set (td_turns db). \<exists>r' \<in> set (td_turns db'). turn_advance\<^sup>*\<^sup>* r r')"

lemma turns_advance_same: "set (td_turns db) \<subseteq> set (td_turns db') \<Longrightarrow> turns_advance db db'"
  by (auto simp: turns_advance_def)

lemma turns_advance_trans: "turns_advance a b \<Longrightarrow> turns_advance b c \<Longrightarrow> turns_advance a c"
  unfolding turns_advance_def by (meson rtranclp_trans)

lemma turn_moved_advance:
  assumes "turn_moved r s r' s' db db'"
  shows "turns_advance db db'"
  unfolding turns_advance_def
proof
  obtain xs ys where m: "td_turns db = xs @ r # ys" "td_turns db' = xs @ r' # ys" "same_turn r r'"
    "tw_state r = state_name s" "tw_state r' = state_name s'" "can_transition_to s s'" "tw_revision r' = tw_revision r + 1"
    using assms by (rule turn_moved_split)
  fix q assume q: "q \<in> set (td_turns db)"
  show "\<exists>r' \<in> set (td_turns db'). turn_advance\<^sup>*\<^sup>* q r'"
  proof (cases "q = r")
    case True
    then have "turn_advance q r'"
      using m by (auto simp: turn_advance_def)
    then show ?thesis
      using m(2) by (intro bexI [of _ r']) auto
  qed (use q m(1,2) in auto)
qed

lemma recorded_move_advance: "recorded_move r s r' s' db db' \<Longrightarrow> turns_advance db db'"
  unfolding recorded_move_def by (auto simp: appended_def turns_advance_def dest: turn_moved_advance)

lemma recover_advance:
  assumes "store_inv db" and "r \<in> set (td_turns db)" "represents r cur" and "recover_turn_in_tx L cur now db = Inr (rec, db')"
  shows "turns_advance db db'"
  using recover_moves [OF assms] recorded_move_advance by blast

lemma recover_actor_turns_advance:
  "recover_actor_turns L t now pairs db = Inr (recs, db') \<Longrightarrow> store_inv db \<Longrightarrow> turns_advance db db'"
proof (induction pairs arbitrary: db recs)
  case (Cons p rest)
  obtain cur rec db1 others where st: "require_turn L t (snd p) db = Inr cur" "recover_turn_in_tx L cur now db = Inr (rec, db1)"
    "recover_actor_turns L t now rest db1 = Inr (others, db')"
    using Cons.prems(1) by (cases p) (auto simp: result_simps split: if_splits)
  obtain r where r: "r \<in> set (td_turns db)" "represents r cur"
    using require_turn_row [OF st(1)] by blast
  have "turns_advance db db1" "store_inv db1"
    using recover_advance [OF Cons.prems(2) r st(2)] recover_inv [OF Cons.prems(2) st(1,2)] by simp_all
  then show ?case
    using Cons.IH [OF st(3)] turns_advance_trans by blast
qed (simp add: turns_advance_same)

lemma begin_turn_advance:
  assumes inv: "store_inv db" and ok: "begin_turn L g adm now db = Inr (res, db')"
  shows "turns_advance db db'"
  using ok
proof (cases rule: begin_turn_cases)
  case (existing old rec)
  obtain r where r: "r \<in> set (td_turns db)" "represents r old"
    using load_by_idempotency_ok [OF existing(1)] by blast
  have "db' = db \<or> recover_turn_in_tx L old now db = Inr (rec, db')"
    using existing(2) by (auto simp: recover_duplicate_if_expired_def result_simps split: if_splits)
  then show ?thesis
    using recover_advance [OF inv r] turns_advance_same by blast
next
  case (created r db0 db1 db2 db3 rec)
  have inv0: "store_inv db0"
    using ensure_actor_row_inv [OF created(4) inv] .
  have a: "turns_advance db db0"
    using created(4) by (intro turns_advance_same) (auto simp: ensure_actor_row_def Let_def result_simps split: if_splits)
  have "db1 = db0 \<or> (\<exists>i cur rec. require_turn L (id_tenant_id (da_actor adm)) i db0 = Inr cur \<and> recover_turn_in_tx L cur now db0 = Inr (rec, db1))"
    using created(5) by (auto simp: recover_actor_for_admission_def result_simps split: option.splits if_splits)
  then have b: "turns_advance db0 db1"
    using recover_advance [OF inv0] require_turn_row turns_advance_same by blast
  have "set (td_turns db1) \<subseteq> set (td_turns db')"
    using created(6,7,9) by (auto simp: insert_turn_row_def update_actor_def insert_outbox_def insert_outbox_row_def
        assign_commit_order_def Let_def result_simps split: if_splits)
  then show ?thesis
    using a b turns_advance_same turns_advance_trans by blast
qed
lemma claim_turns: "claim_next_outbox L uuid t w now d db = Inr (res, db') \<Longrightarrow> td_turns db' = td_turns db"
  using claim_cases by fastforce

lemma lease_turns:
  "release_outbox L t i w k now a e db = Inr (u, db') \<Longrightarrow> td_turns db' = td_turns db"
  "renew_outbox_lease L t i w k now d db = Inr (rec, db') \<Longrightarrow> td_turns db' = td_turns db"
  using release_cases renew_cases by fastforce+

lemma quarantine_turns: "quarantine_outbox L claim failure exhausted now db = Inr (rec, db') \<Longrightarrow> td_turns db' = td_turns db"
  by (erule quarantine_cases) simp

lemma ledger_only_turns: "ledger_only m \<Longrightarrow> m h db = (r, h', db') \<Longrightarrow> td_turns db' = td_turns db"
  unfolding ledger_only_def by (metis snd_conv turn_db.select_convs(2) turn_db.surjective turn_db.update_convs(8))

lemma complete_turns:
  assumes inv: "full_inv db" and ok: "complete_outbox L uuid self t i w k commit now h db = (res, h', db')"
  shows "td_turns db' = td_turns db"
  using complete_outbox_cases [OF ok]
proof
  assume "\<exists>snapshot l c. complete_in_tx L t i w k commit now snapshot (db\<lparr>td_ledger := l\<rparr>) = Inr (c, db') \<and> res = Inr c"
  then obtain snapshot l c where "complete_in_tx L t i w k commit now snapshot (db\<lparr>td_ledger := l\<rparr>) = Inr (c, db')"
    by blast
  then show ?thesis
    using complete_in_tx_cases [of "db\<lparr>td_ledger := l\<rparr>"] inv by (fastforce simp: head_delivered_def)
qed auto

lemma store_step_advance:
  assumes inv: "full_inv db" and step: "store_step L db db'"
  shows "turns_advance db db'"
proof -
  have base: "store_inv db"
    using inv by (simp add: full_inv_def)
  have moved: "turns_advance db db'" if "transition_inner L t i w s n next res now db = Inr (rec, db')" for t i w s n "next" res now rec
    using transition_moves [OF base that] recorded_move_advance by blast
  have same: "td_turns db' = td_turns db \<Longrightarrow> turns_advance db db'"
    by (simp add: turns_advance_same)
  show ?thesis
    using step
  proof cases
    case step_begin
    then show ?thesis
      using begin_turn_advance [OF base] by blast
  next
    case step_transition
    then show ?thesis
      using moved by (auto simp: store_transition_def split: if_splits)
  next
    case step_result
    then show ?thesis
      using moved by (auto simp: store_transition_with_result_def split: if_splits)
  next
    case step_recover
    then show ?thesis
      using recover_actor_turns_advance [OF _ base] by (auto simp: recover_expired_actor_leases_def Let_def result_simps split: if_splits)
  next
    case step_revalidate
    then show ?thesis
      using ledger_only_turns [OF revalidate_ledger_only] same by blast
  next
    case step_append
    then show ?thesis
      using ledger_only_turns [OF ledger_only_on_ledger] same by blast
  next
    case step_verify
    then show ?thesis
      using ledger_only_turns [OF ledger_only_on_ledger] same by blast
  qed (erule claim_turns [THEN same] lease_turns [THEN same] quarantine_turns [THEN same] complete_turns [OF inv, THEN same])+
qed

lemma store_run_advance:
  assumes "(store_step L)\<^sup>*\<^sup>* db db'" and "full_inv db"
  shows "turns_advance db db'"
  using assms(1)
proof (induction rule: rtranclp_induct)
  case (step y z)
  then show ?case
    using store.run_inv [OF step.hyps(1) assms(2)] store_step_advance turns_advance_trans by blast
qed (simp add: turns_advance_same)

text \<open>A finished turn has no successor.\<close>

lemma terminal_no_advance: "turn_advance\<^sup>*\<^sup>* r r' \<Longrightarrow> tw_state r = state_name s \<Longrightarrow> is_terminal s \<Longrightarrow> r' = r"
  by (induction rule: converse_rtranclp_induct) (auto simp: turn_advance_def dest: not_terminal_source)

lemma advance_effect:
  "turn_advance\<^sup>*\<^sup>* r r' \<Longrightarrow> turn_key r' = turn_key r \<and> actor_of_turn r' = actor_of_turn r \<and>
     (r' = r \<or> live_turn r \<and> tw_revision r < tw_revision r')"
proof (induction rule: converse_rtranclp_induct)
  case (step y z)
  then show ?case
    using live_turn_state not_terminal_source by (fastforce simp: turn_advance_def same_turn_def)
qed simp

subsection \<open>The log of a turn\<close>

definition turn_log :: "turn_db \<Rightarrow> turn_row \<Rightarrow> outbox_row list" where
  "turn_log db r = filter (\<lambda>p. turn_of_outbox p = turn_key r) (td_outbox db)"

lemma strict_sorted_interval:
  assumes "sorted_wrt (<) xs" and "set xs = {0..n :: int}"
  shows "xs = [0..n]"
  using assms by (intro sorted_distinct_set_unique) (auto simp: strict_sorted_iff)

lemma turn_log_revisions:
  assumes inv: "store_inv db" and r: "r \<in> set (td_turns db)"
  shows "map ow_revision (turn_log db r) = [0..tw_revision r]"
proof (rule strict_sorted_interval)
  have rows: "outbox_inv db" "turns_inv db" "history_current (td_turns db) (td_outbox db)"
    "history_complete (td_turns db) (td_outbox db)" "history_path (td_outbox db)"
    using inv by (simp_all add: store_inv_def history_inv_def)
  have "sorted_wrt (\<lambda>p q. turn_of_outbox p = turn_of_outbox q \<longrightarrow> ow_revision p < ow_revision q) (td_outbox db)"
    using rows(5) unfolding history_path_def by (auto elim: sorted_wrt_mono_rel [rotated])
  then show "sorted_wrt (<) (map ow_revision (turn_log db r))"
    unfolding turn_log_def sorted_wrt_map by (rule sorted_wrt_mono_rel [OF _ sorted_wrt_filter, rotated]) auto
  have "ow_revision p \<in> {0..tw_revision r}" if "p \<in> set (turn_log db r)" for p
    using outbox_below [OF rows(2,3) r] rows(1) that by (auto simp: turn_log_def outbox_inv_def row_change_defs)
  moreover have "n \<in> ow_revision ` set (turn_log db r)" if "n \<in> {0..tw_revision r}" for n
    using rows(4) r that by (force simp: history_complete_def turn_log_def)
  ultimately show "set (map ow_revision (turn_log db r)) = {0..tw_revision r}"
    by auto
qed

lemma turn_log_nth:
  assumes "store_inv db" and "r \<in> set (td_turns db)"
  shows "length (turn_log db r) = nat (tw_revision r + 1)" "0 \<le> tw_revision r"
    "n < length (turn_log db r) \<Longrightarrow> ow_revision (turn_log db r ! n) = int n"
proof -
  note revs = turn_log_revisions [OF assms]
  show len: "length (turn_log db r) = nat (tw_revision r + 1)"
    using arg_cong [OF revs, of length] by simp
  show "0 \<le> tw_revision r"
    using assms by (simp add: store_inv_def turns_inv_def)
  show "ow_revision (turn_log db r ! n) = int n" if "n < length (turn_log db r)"
    using arg_cong [OF revs, of "\<lambda>xs. xs ! n"] that len by simp
qed

lemma turn_log_step:
  assumes inv: "store_inv db" and r: "r \<in> set (td_turns db)" and n: "Suc n < length (turn_log db r)"
  shows "step_events (turn_log db r ! n) (turn_log db r ! Suc n)"
proof -
  have "sorted_wrt (\<lambda>p q. turn_of_outbox p = turn_of_outbox q \<longrightarrow> ow_revision q = ow_revision p + 1 \<longrightarrow> step_events p q) (turn_log db r)"
    using inv unfolding store_inv_def history_inv_def history_path_def turn_log_def
    by (intro sorted_wrt_filter) (auto elim: sorted_wrt_mono_rel [rotated])
  moreover have "turn_log db r ! k \<in> set (turn_log db r)" if "k < length (turn_log db r)" for k
    using that by simp
  ultimately show ?thesis
    using n turn_log_nth(3) [OF inv r] by (auto simp: sorted_wrt_iff_nth_less turn_log_def)
qed

text \<open>Every row of a turn names a state, and the rows in order are a path of the state machine.\<close>

lemma event_type_inject [simp]: "state_event_type s = state_event_type s' \<longleftrightarrow> s = s'"
  by (simp add: state_event_type_def)

lemma turn_log_states:
  assumes inv: "store_inv db" and r: "r \<in> set (td_turns db)"
  shows "\<exists>states. map ow_event_type (turn_log db r) = map state_event_type states \<and> successively can_transition_to states \<and>
    hd states \<in> {Accepted, WaitingApproval} \<and> state_name (last states) = tw_state r \<and> length states = nat (tw_revision r + 1)"
proof -
  let ?log = "turn_log db r"
  note nth = turn_log_nth [OF inv r]
  have member: "?log ! n \<in> set (td_outbox db) \<and> turn_of_outbox (?log ! n) = turn_key r" if "n < length ?log" for n
    using nth_mem [OF that] by (simp add: turn_log_def)
  have len: "0 < length ?log"
    using nth(1,2) by simp
  have start: "ow_event_type (?log ! 0) \<in> {state_event_type Accepted, state_event_type WaitingApproval}"
    using inv member [OF len] nth(3) [OF len] by (auto simp: store_inv_def history_inv_def history_path_def)
  have finish: "ow_event_type (?log ! (length ?log - 1)) = ''turn.state.'' @ tw_state r"
    using outbox_below [of db r "?log ! (length ?log - 1)"] inv r member [of "length ?log - 1"] nth(1,2) nth(3) [of "length ?log - 1"] len
    by (auto simp: store_inv_def history_inv_def)
  have named: "\<exists>s. ow_event_type (?log ! n) = state_event_type s" if "n < length ?log" for n
    using that
  proof (cases n)
    case (Suc m)
    then show ?thesis
      using turn_log_step [OF inv r, of m] that by (auto simp: step_events_def)
  qed (use start in auto)
  then obtain f where f: "n < length ?log \<Longrightarrow> ow_event_type (?log ! n) = state_event_type (f n)" for n
    by metis
  define states where "states = map f [0..<length ?log]"
  have "map ow_event_type ?log = map state_event_type states"
    using f by (auto simp: states_def intro: nth_equalityI)
  moreover have "successively can_transition_to states"
    unfolding successively_conv_nth
  proof (intro allI impI)
    fix n assume "Suc n < length states"
    then show "can_transition_to (states ! n) (states ! Suc n)"
      using turn_log_step [OF inv r, of n] f by (auto simp: states_def step_events_def)
  qed
  moreover have "hd states \<in> {Accepted, WaitingApproval}"
    using start f [OF len] len by (auto simp: states_def hd_map)
  moreover have "state_name (last states) = tw_state r"
    using finish f [of "length ?log - 1"] len by (simp add: states_def last_map state_event_type_def)
  moreover have "length states = nat (tw_revision r + 1)"
    using nth(1) by (simp add: states_def)
  ultimately show ?thesis
    by blast
qed
subsection \<open>Scheduling\<close>

text \<open>The scheduler's query lists a tenant exactly when the head of its queue is due.\<close>

lemma joined_rows_zip:
  assumes "outbox_inv db"
  shows "joined_rows db = zip (td_outbox db) (td_order db)"
  using map_filter_zip [OF outbox_inv_length [OF assms], of "order_of db" "\<lambda>_. True"] order_of_nth [OF outbox_inv_keys [OF assms]]
  by (simp add: joined_rows_def)

lemma head_ordinal_head:
  assumes "outbox_inv db"
  shows "head_ordinal t db = map_option (or_commit_ordinal \<circ> snd) (find (\<lambda>p. \<not> delivered (fst p)) (tenant_rows t db))"
  using lowest_undelivered [OF tenant_rows_sorted [OF assms], of t] assms
  by (simp add: head_ordinal_def tenant_rows_zip [OF outbox_inv_keys [OF assms]] joined_rows_zip conj_commute)

lemma ordinal_unique:
  assumes "outbox_inv db" and "p \<in> set (joined_rows db)" "q \<in> set (joined_rows db)"
    and "or_commit_ordinal (snd p) = or_commit_ordinal (snd q)"
  shows "p = q"
proof -
  have "sorted_wrt (<) (map (or_commit_ordinal \<circ> snd) (joined_rows db))"
    using assms(1) outbox_inv_length [OF assms(1)] by (simp add: joined_rows_zip outbox_inv_def flip: map_map)
  then have "distinct (map (or_commit_ordinal \<circ> snd) (joined_rows db))"
    by (simp add: strict_sorted_iff)
  then have "inj_on (or_commit_ordinal \<circ> snd) (set (joined_rows db))"
    by (simp add: distinct_map)
  then show ?thesis
    by (rule inj_onD) (use assms(2-4) in simp_all)
qed

lemma ready_head_iff:
  assumes inv: "outbox_inv db" and p: "p \<in> set (joined_rows db)"
  shows "ready_head ms db p \<longleftrightarrow>
    queue_head (ow_tenant_id (fst p)) db = Some (fst p) \<and> due_row (ow_tenant_id (fst p)) ms db (fst p)"
proof -
  let ?t = "ow_tenant_id (fst p)"
  have rows: "set (tenant_rows ?t db) \<subseteq> set (joined_rows db)"
    by (auto simp: tenant_rows_zip [OF outbox_inv_keys [OF inv]] joined_rows_zip [OF inv])
  have found: "q \<in> set (joined_rows db)" if "find (\<lambda>p. \<not> delivered (fst p)) (tenant_rows ?t db) = Some q" for q
    using rows find_split [OF that] by auto
  have "head_ordinal ?t db = Some (or_commit_ordinal (snd p)) \<longleftrightarrow> find (\<lambda>p. \<not> delivered (fst p)) (tenant_rows ?t db) = Some p"
    using ordinal_unique [OF inv found p] unfolding head_ordinal_head [OF inv] map_option_eq_Some comp_def by blast
  also have "\<dots> \<longleftrightarrow> queue_head ?t db = Some (fst p)"
  proof -
    have "q = p" if "q \<in> set (joined_rows db)" "fst q = fst p" for q
      using that p order_of_nth [OF outbox_inv_keys [OF inv]]
      by (auto simp: joined_rows_def List.map_filter_def)
    then show ?thesis
      using found unfolding queue_head_rows [OF inv] map_option_eq_Some by blast
  qed
  finally show ?thesis
    by (cases p) (auto simp: ready_head_def due_row_def split: option.splits)
qed

lemma ready_tenants_iff:
  assumes inv: "outbox_inv db"
  shows "t \<in> set (ready_tenants ms db) \<longleftrightarrow> (\<exists>r. queue_head t db = Some r \<and> due_row t ms db r)"
proof
  assume "t \<in> set (ready_tenants ms db)"
  then obtain p where "p \<in> set (joined_rows db)" "ready_head ms db p" "ow_tenant_id (fst p) = t"
    by (auto simp: ready_tenants_def)
  then show "\<exists>r. queue_head t db = Some r \<and> due_row t ms db r"
    using ready_head_iff [OF inv] by blast
next
  assume "\<exists>r. queue_head t db = Some r \<and> due_row t ms db r"
  then obtain r where r: "queue_head t db = Some r" "due_row t ms db r"
    by blast
  have "r \<in> set (td_outbox db)" "ow_tenant_id r = t"
    using find_split [OF r(1) [unfolded queue_head_def]] by auto
  moreover obtain c where "order_of db r = Some c"
    using order_complete(1) [OF inv \<open>r \<in> set (td_outbox db)\<close>] by blast
  ultimately have "(r, c) \<in> set (joined_rows db)"
    by (force simp: joined_rows_def List.map_filter_def)
  then show "t \<in> set (ready_tenants ms db)"
    using ready_head_iff [OF inv, of "(r, c)"] r \<open>ow_tenant_id r = t\<close> by (force simp: ready_tenants_def)
qed

lemma ready_tenants_distinct:
  assumes inv: "outbox_inv db"
  shows "distinct (ready_tenants ms db)"
proof -
  have "inj_on (ow_tenant_id \<circ> fst) (set (filter (ready_head ms db) (joined_rows db)))"
  proof (rule inj_onI)
    fix p q assume p: "p \<in> set (filter (ready_head ms db) (joined_rows db))" and q: "q \<in> set (filter (ready_head ms db) (joined_rows db))"
      and same: "(ow_tenant_id \<circ> fst) p = (ow_tenant_id \<circ> fst) q"
    then have "head_ordinal (ow_tenant_id (fst p)) db = Some (or_commit_ordinal (snd p))"
      "head_ordinal (ow_tenant_id (fst p)) db = Some (or_commit_ordinal (snd q))"
      by (auto simp: ready_head_def split: prod.splits)
    then show "p = q"
      using ordinal_unique [OF inv] p q by simp
  qed
  moreover have "distinct (joined_rows db)"
    using inv outbox_inv_keys [OF inv] by (auto simp: joined_rows_zip distinct_map intro!: distinct_zipI1)
  ultimately show ?thesis
    by (simp add: ready_tenants_def distinct_map)
qed
lemma reachable_loads:
  assumes laws: "turn_laws L" and run: "reaches empty_store (store_step L) db"
  shows "full_inv db" "rows_load L db"
proof -
  have "reaches empty_store (\<lambda>db db'. turn_laws L \<and> store_step L db db') db"
    using run by induction (auto intro: reaches.intros laws)
  then show "full_inv db" "rows_load L db"
    using loading.reachable_inv by blast+
qed

end
