(* ===== verification/Store_Pipeline.thy ===== *)
theory Store_Pipeline
  imports Store_Runs
begin

text \<open>
  The whole path of a turn's first event, evaluated on the concrete store of \<open>Store_Demo\<close>:
  admission, claim, revalidation for signing, the signed ledger event and the verified completion.
\<close>

subsection \<open>Admission\<close>

lemma demo_libs_simps [simp]:
  "x_json_print (tl_externals demo_libs) = encode_json" "x_json_parse (tl_externals demo_libs) = decode_json"
  "x_hex_encode (tl_externals demo_libs) b = ''h''" "x_bs58 (tl_externals demo_libs) b = ''agent-1''"
  "x_hex_decode (tl_externals demo_libs) s = Some (replicate 64 CHR ''s'')" "x_json_eq (tl_externals demo_libs) = (=)"
  "tl_datetime_ok demo_libs t" "tl_rfc3339 demo_libs t = encode_json (JInt t)"
  "tl_rfc3339_millis demo_libs t = encode_json (JInt (milliseconds (timestamp_millis t)))"
  "tl_parse_rfc3339 demo_libs (encode_json (JInt t)) = Some t"
  by (simp_all add: demo_libs_def demo_externals_def del: encode_json.simps)

lemma demo_hashes [simp]: "hash_parts demo_libs parts = ''h''" "sha256_text demo_libs s = ''sha256:h''"
  by (simp_all add: hash_parts_def sha256_text_def sha256_hex_def)

lemma demo_zero [simp]: "timestamp_millis 0 = 0" "milliseconds 0 = 0" "milliseconds 60000 = seconds 60"
  "timestamp_millis (seconds 60) = 60000"
  by (simp_all add: timestamp_millis_def milliseconds_def seconds_def)

declare encode_json.simps [simp del]

definition demo_turn :: "bool \<Rightarrow> turn_row" where
  "demo_turn approval = new_turn_row demo_libs demo_ingress (demo_admission approval) 0"

definition demo_record :: "bool \<Rightarrow> durable_turn_record" where
  "demo_record approval =
     \<lparr>dt_tenant_id = ''acme'', dt_turn_id = ''turn-h'', dt_actor_key = ''actor-1'', dt_subject_id = ''user-1'',
      dt_principal_id = ''agent-1'', dt_workspace_id = ''main'', dt_profile_id = ''default'', dt_session_id = ''session-1'',
      dt_source_surface = ''cli'', dt_source_id = ''terminal'', dt_idempotency_key = ''request-1'',
      dt_request = JObj [(''text'', JStr ''hello'')], dt_request_hash = ''sha256:h'',
      dt_authority = ingress_to_value demo_libs demo_ingress, dt_authority_hash = ''sha256:h'', dt_deadline = seconds 60,
      dt_state = restore (if approval then WaitingApproval else Accepted) 0, dt_terminal_result = None,
      dt_terminal_result_hash = None, dt_created_at = 0, dt_updated_at = 0\<rparr>"

lemma demo_turn_fields:
  "demo_turn approval =
     \<lparr>tw_tenant_id = ''acme'', tw_turn_id = ''turn-h'', tw_actor_key = ''actor-1'', tw_subject_id = ''user-1'',
      tw_principal_id = ''agent-1'', tw_workspace_id = ''main'', tw_profile_id = ''default'', tw_session_id = ''session-1'',
      tw_source_surface = ''cli'', tw_source_id = ''terminal'', tw_idempotency_key = ''request-1'',
      tw_request_json = encode_json (JObj [(''text'', JStr ''hello'')]), tw_request_hash = ''sha256:h'',
      tw_authority_json = encode_json (ingress_to_value demo_libs demo_ingress), tw_authority_hash = ''sha256:h'',
      tw_deadline_ms = 60000, tw_state = state_name (if approval then WaitingApproval else Accepted), tw_revision = 0,
      tw_terminal_json = None, tw_terminal_hash = None, tw_created_at_ms = 0, tw_updated_at_ms = 0\<rparr>"
  by (simp add: demo_turn_def new_turn_row_def Let_def canonical_json_def deterministic_turn_id_def demo_ingress_def
      demo_admission_def demo_actor_def)

lemma demo_turn_loads: "materialize_turn demo_libs (demo_turn approval) = Inr (demo_record approval)"
  by (simp add: materialize_turn_def verify_turn_bindings_def demo_turn_fields verify_stored_hash_def verify_terminal_hash_def
      parse_json_def canonical_json_def checked_u64_def parse_optional_json_def validate_persisted_terminal_def
      parse_timestamp_def turn_binding_fields_def verify_json_text_binding_def pointer_str_def ingress_to_value_def
      demo_ingress_def deterministic_turn_id_def parse_state_def demo_record_def)

definition demo_event_row :: "bool \<Rightarrow> outbox_row" where
  "demo_event_row approval = new_outbox_row demo_libs (demo_record approval) None None 0 0 0"

definition demo_admitted :: "bool \<Rightarrow> turn_db" where
  "demo_admitted approval = demo_store
     \<lparr>td_actors := [set_actor_lease (Some ''turn-h'') (Some ''worker-1'') (Some 60000) 0 (new_actor_row demo_actor 0)],
      td_turns := [demo_turn approval], td_outbox := [demo_event_row approval],
      td_order := [\<lparr>or_commit_ordinal = 1, or_tenant_id = ''acme'', or_outbox_id = ''outbox-h'', or_order_origin = ''transactional'',
        or_legacy_source_rowid = None\<rparr>], td_sequence := Some 1\<rparr>"

lemma demo_store_triggers: "td_ledger db = demo_schema \<Longrightarrow> validate_no_extra_outbox_triggers db = Inr ()"
  using triggers_ledger_cong [of db demo_store] demo_triggers by (simp add: demo_store_def)

lemma demo_actor_row:
  "ensure_actor_row demo_libs demo_actor 0 demo_store = Inr (demo_store\<lparr>td_actors := [new_actor_row demo_actor 0]\<rparr>)"
  "recover_actor_for_admission demo_libs demo_actor 0 (demo_store\<lparr>td_actors := [new_actor_row demo_actor 0]\<rparr>) =
     Inr (demo_store\<lparr>td_actors := [new_actor_row demo_actor 0]\<rparr>)"
  by (simp_all add: ensure_actor_row_def recover_actor_for_admission_def load_actor_def demo_store_def new_actor_row_def demo_actor_def
      actor_at_def row_to_actor_def sql_conversion_def parse_timestamp_def checked_u64_def optional_map_def Let_def)

lemma demo_event_key:
  "ow_tenant_id (demo_event_row approval) = ''acme''" "ow_outbox_id (demo_event_row approval) = ''outbox-h''"
  "ow_turn_id (demo_event_row approval) = ''turn-h''" "ow_revision (demo_event_row approval) = 0"
  by (simp_all add: demo_event_row_def new_outbox_row_def Let_def deterministic_outbox_id_def demo_record_def)

lemma demo_insert:
  assumes "td_ledger db = demo_schema" "td_outbox db = []" "td_order db = []" "td_sequence db = None" "td_turns db = [demo_turn approval]"
  shows "insert_outbox demo_libs (demo_record approval) None None 0 db = Inr (db\<lparr>td_outbox := [demo_event_row approval],
    td_order := [\<lparr>or_commit_ordinal = 1, or_tenant_id = ''acme'', or_outbox_id = ''outbox-h'', or_order_origin = ''transactional'',
        or_legacy_source_rowid = None\<rparr>], td_sequence := Some 1\<rparr>)"
proof -
  have "revision_to_i64 (vts_revision (dt_state (demo_record approval))) = Inr 0"
    by (simp add: demo_record_def restore_def revision_to_i64_def i64_of_u64_def i64_max_def)
  then show ?thesis
    using assms demo_store_triggers [OF assms(1)] demo_event_key [of approval]
    by (simp add: insert_outbox_def next_commit_ordinal_def parse_timestamp_def insert_outbox_row_def assign_commit_order_def
        demo_turn_fields turn_at_def sql_max_def i64_max_def Let_def checked_succ_i64_def flip: demo_event_row_def)
qed

lemma demo_admits: "begin_turn demo_libs demo_ingress (demo_admission approval) 0 demo_store =
    Inr (TurnCreated (demo_record approval), demo_admitted approval)"
proof -
  have start: "validate_actor_authority demo_ingress (da_actor (demo_admission approval)) = Inr ()"
    "load_by_idempotency demo_libs t k demo_store = Inr None" "\<not> ai_deadline demo_ingress \<le> 0" 
    "da_actor (demo_admission approval) = demo_actor" "da_lease_owner (demo_admission approval) = ''worker-1''"
    "timestamp_millis (ai_deadline demo_ingress) = 60000" for t k
    by (simp_all add: validate_actor_authority_def demo_ingress_def demo_admission_def demo_actor_def load_by_idempotency_def
        demo_store_def optional_map_def) (simp add: seconds_def)
  let ?db = "demo_store\<lparr>td_actors := [new_actor_row demo_actor 0], td_turns := [demo_turn approval]\<rparr>"
  have turn: "insert_turn_row (demo_turn approval) (demo_store\<lparr>td_actors := [new_actor_row demo_actor 0]\<rparr>) = Inr ?db"
    by (simp add: insert_turn_row_def demo_store_def demo_turn_fields new_actor_row_def demo_actor_def actor_at_def)
  let ?held = "demo_store\<lparr>td_actors := [set_actor_lease (Some ''turn-h'') (Some ''worker-1'') (Some 60000) 0 (new_actor_row demo_actor 0)],
    td_turns := [demo_turn approval]\<rparr>"
  have actor: "update_actor (\<lambda>r. actor_at ''acme'' ''actor-1'' r \<and> aw_active_turn_id r = None)
      (set_actor_lease (Some ''turn-h'') (Some ''worker-1'') (Some 60000) 0) CasLost ?db = Inr ?held"
    by (simp add: update_actor_def new_actor_row_def demo_actor_def actor_at_def update_where_def)
  have loaded: "require_turn demo_libs ''acme'' ''turn-h'' ?held = Inr (demo_record approval)"
    using demo_turn_loads [of approval] by (simp add: require_turn_def load_turn_def demo_turn_fields turn_at_def optional_map_def)
  have fields: "tw_tenant_id (demo_turn approval) = ''acme''" "tw_actor_key (demo_turn approval) = ''actor-1''"
    "tw_turn_id (demo_turn approval) = ''turn-h''"
    by (simp_all add: demo_turn_fields)
  have "insert_outbox demo_libs (demo_record approval) None None 0 ?held = Inr (demo_admitted approval)"
    using demo_insert [of ?held approval] by (simp add: demo_store_def demo_admitted_def)
  then show ?thesis
    using start turn actor loaded demo_actor_row
    by (simp add: begin_turn_def Let_def fields flip: demo_turn_def cong: and_then_cong)
qed
lemma demo_admitted_facts:
  "full_inv (demo_admitted approval)" "rows_load demo_libs (demo_admitted approval)"
  "validate_no_extra_outbox_triggers (demo_admitted approval) = Inr ()"
  "reaches empty_store (store_step demo_libs) (demo_admitted approval)"
  by (rule demo_created_facts [OF demo_admits], simp add: demo_admitted_def demo_store_def)+

subsection \<open>The claim\<close>

definition demo_leased_row :: "bool \<Rightarrow> outbox_row" where
  "demo_leased_row approval = take_lease ''worker-1'' ''outbox-lease-u1'' 60000 0 (demo_event_row approval)"

definition demo_leased :: "bool \<Rightarrow> turn_db" where
  "demo_leased approval = (demo_admitted approval)\<lparr>td_outbox := [demo_leased_row approval]\<rparr>"

definition demo_payload :: "bool \<Rightarrow> json" where
  "demo_payload approval = outbox_payload demo_libs (demo_record approval) None None ''outbox-h'' 0"

definition demo_order :: order_row where
  "demo_order = \<lparr>or_commit_ordinal = 1, or_tenant_id = ''acme'', or_outbox_id = ''outbox-h'', or_order_origin = ''transactional'',
     or_legacy_source_rowid = None\<rparr>"

definition demo_claim :: "bool \<Rightarrow> turn_outbox_record" where
  "demo_claim approval = outbox_record_of (demo_leased_row approval) demo_order None (demo_payload approval) OutboxLeased"

lemma demo_event_row_fields:
  "demo_event_row approval =
     \<lparr>ow_tenant_id = ''acme'', ow_outbox_id = ''outbox-h'', ow_turn_id = ''turn-h'', ow_revision = 0,
      ow_event_type = ''turn.state.'' @ state_name (if approval then WaitingApproval else Accepted),
      ow_effect_kind = ''ledger_turn_state'', ow_idempotency_mode = ''key_required'',
      ow_payload_json = encode_json (demo_payload approval), ow_payload_hash = ''sha256:h'', ow_status = ''pending'', ow_attempts = 0,
      ow_available_at_ms = 0, ow_lease_owner = None, ow_lease_token = None, ow_lease_until_ms = None, ow_delivered_at_ms = None,
      ow_ledger_event_id = None, ow_last_error = None, ow_created_at_ms = 0, ow_updated_at_ms = 0\<rparr>"
  by (simp add: demo_event_row_def new_outbox_row_def Let_def deterministic_outbox_id_def demo_record_def restore_def
      state_event_type_def canonical_json_def demo_payload_def)

lemma demo_leased_row_loads: "materialize_outbox demo_libs (demo_leased_row approval, demo_order, None) = Inr (demo_claim approval)"
proof -
  have "pointer_str [''state''] (demo_payload approval) = Some (state_name (if approval then WaitingApproval else Accepted))"
    "pointer_str [''schema''] (demo_payload approval) = Some TURN_OUTBOX_SCHEMA"
    "pointer_str [''outbox_id''] (demo_payload approval) = Some ''outbox-h''"
    "pointer_str [''tenant_id''] (demo_payload approval) = Some ''acme''"
    "pointer_str [''turn_id''] (demo_payload approval) = Some ''turn-h''"
    "Option.bind (json_pointer [''revision''] (demo_payload approval)) as_u64 = Some 0"
    by (simp_all add: demo_payload_def outbox_payload_def demo_record_def restore_def pointer_str_def)
  then show ?thesis
    by (simp add: materialize_outbox_def demo_claim_def demo_leased_row_def take_lease_def demo_event_row_fields verify_stored_hash_def
        parse_json_def checked_u64_def verify_outbox_bindings_def verify_json_text_binding_def outbox_event_type_matches_def
        deterministic_outbox_id_def demo_order_def parse_outbox_status_def validate_outbox_status_bindings_def status_shape_ok_def
        evidence_shape_ok_def before_ms_def parse_order_origin_def parse_timestamp_def optional_map_def outbox_record_of_def)
qed

lemma demo_leased_loads: "require_outbox demo_libs ''acme'' ''outbox-h'' (demo_leased approval) = Inr (demo_claim approval)"
  using demo_leased_row_loads [of approval]
  by (simp add: require_outbox_def load_outbox_def demo_leased_def demo_leased_row_def take_lease_def demo_event_row_fields outbox_at_def
      raw_outbox_of_def order_of_def evidence_of_def demo_admitted_def demo_store_def optional_map_def demo_order_def)
lemma demo_worker:
  "validate_lease_identity ''lease_owner'' ''worker-1'' = Inr ()" "validate_lease_identity ''lease_token'' ''outbox-lease-u0'' = Inr ()"
  "validate_lease_identity ''lease_token'' ''outbox-lease-u1'' = Inr ()" "valid_lease_duration (seconds 60)"
  by (simp_all add: validate_lease_identity_def trim_graphic byte_class_defs MAX_LEASE_OWNER_BYTES_def
      valid_lease_duration_def seconds_def MAX_OUTBOX_LEASE_SECONDS_def)

lemma demo_head:
  "queue_head ''acme'' (demo_admitted approval) = Some (demo_event_row approval)"
  "due_row ''acme'' 0 (demo_admitted approval) (demo_event_row approval)"
  by (simp_all add: queue_head_def due_row_def outbox_is_quarantined_def demo_admitted_def demo_store_def demo_event_row_fields
      delivered_def)

lemma demo_claims: "claim_next_outbox demo_libs ''u1'' ''acme'' ''worker-1'' 0 (seconds 60) (demo_admitted approval) =
    Inr (Some (demo_claim approval), demo_leased approval)"
proof -
  have "ow_attempts (demo_event_row approval) < i64_max"
    by (simp add: demo_event_row_fields i64_max_def)
  then obtain rec db' where claim: "claim_next_outbox demo_libs ''u1'' ''acme'' ''worker-1'' 0 (seconds 60) (demo_admitted approval) =
      Inr (Some rec, db')"
    using claim_gives_head [OF demo_laws demo_admitted_facts(1-3) demo_head(1) [of approval], of 0 "''worker-1''" "seconds 60" "''u1''"]
      demo_head(2) [of approval] demo_worker(1,4) by auto
  obtain i where i: "tenant_outbox_head ''acme'' (demo_admitted approval) = Inr (Some i)"
    "db' = (demo_admitted approval)\<lparr>td_outbox := update_where (claimable_row ''acme'' i 0)
       (take_lease ''worker-1'' ''outbox-lease-u1'' 60000 0) (td_outbox (demo_admitted approval))\<rparr>"
    "require_outbox demo_libs ''acme'' i db' = Inr rec"
    using claim_cases [OF claim] by auto
  have "i = ''outbox-h''"
    using i(1) tenant_head_fifo [OF full_outbox_inv [OF demo_admitted_facts(1)], of "''acme''" approval] demo_head(1)
    by (simp add: demo_event_row_fields)
  moreover have "db' = demo_leased approval"
    using i(2) calculation by (simp add: demo_leased_def demo_leased_row_def demo_admitted_def update_where_def claimable_row_def
        outbox_at_def demo_event_row_fields)
  ultimately show ?thesis
    using claim i(3) demo_leased_loads by simp
qed

lemma demo_leased_facts:
  "full_inv (demo_leased approval)" "reaches empty_store (store_step demo_libs) (demo_leased approval)"
  "validate_no_extra_outbox_triggers (demo_leased approval) = Inr ()" "td_ledger (demo_leased approval) = demo_schema"
proof -
  have step: "store_step demo_libs (demo_admitted approval) (demo_leased approval)"
    using demo_claims by (rule store_step.step_claim)
  show "full_inv (demo_leased approval)"
    using store_step_inv [OF demo_admitted_facts(1) step] .
  show "reaches empty_store (store_step demo_libs) (demo_leased approval)"
    using demo_admitted_facts(4) step by (rule reaches.step)
  show ledger: "td_ledger (demo_leased approval) = demo_schema"
    by (simp add: demo_leased_def demo_admitted_def demo_store_def)
  show "validate_no_extra_outbox_triggers (demo_leased approval) = Inr ()"
    by (rule demo_store_triggers [OF ledger])
qed

subsection \<open>Revalidation\<close>

lemma demo_leased_turn: "require_turn demo_libs ''acme'' ''turn-h'' (demo_leased approval) = Inr (demo_record approval)"
  using demo_turn_loads [of approval]
  by (simp add: require_turn_def load_turn_def demo_turn_fields turn_at_def optional_map_def demo_leased_def demo_admitted_def)

lemma demo_leased_head: "tenant_outbox_head ''acme'' (demo_leased approval) = Inr (Some ''outbox-h'')"
  using tenant_head_fifo [OF full_outbox_inv [OF demo_leased_facts(1)], of "''acme''" approval]
  by (simp add: queue_head_def demo_leased_def demo_leased_row_def take_lease_def demo_event_row_fields delivered_def)

definition demo_binding1 :: idempotent_event_binding where
  "demo_binding1 =
     \<lparr>ib_idempotency_key = ''outbox-h'', ib_principal_id = PrincipalId ''agent-1'', ib_namespace_key = NamespaceKey ''session-1'',
      ib_run_id = Some (RunId ''turn-h''), ib_event_type = ''turn.state.accepted'', ib_payload = demo_payload False,
      ib_parent_event_id = None\<rparr>"

definition demo_entry :: "turn_outbox_record \<Rightarrow> validated_history_entry" where
  "demo_entry out = \<lparr>vh_outbox = out, vh_state = Accepted, vh_binding = demo_binding1\<rparr>"

lemma demo_rows_of_turn: "turn_outbox_rows ''acme'' ''turn-h'' (demo_leased approval) = [(demo_leased_row approval, demo_order, None)]"
  by (simp add: turn_outbox_rows_def List.map_filter_def demo_leased_def demo_leased_row_def take_lease_def demo_event_row_fields
      raw_outbox_of_def order_of_def evidence_of_def demo_admitted_def demo_store_def demo_order_def)

lemma demo_binding1_ok: "new_binding ''outbox-h'' (PrincipalId ''agent-1'') (NamespaceKey ''session-1'') (Some (RunId ''turn-h''))
    ''turn.state.accepted'' payload None = Inr \<lparr>ib_idempotency_key = ''outbox-h'', ib_principal_id = PrincipalId ''agent-1'',
      ib_namespace_key = NamespaceKey ''session-1'', ib_run_id = Some (RunId ''turn-h''), ib_event_type = ''turn.state.accepted'',
      ib_payload = payload, ib_parent_event_id = None\<rparr>"
proof -
  have "ledger_validate_idempotency_key ''outbox-h'' = Inr ()"
    by (simp add: ledger_validate_idempotency_key_def trim_graphic byte_class_defs MAX_IDEMPOTENCY_KEY_BYTES_def)
  moreover have "trim ''turn.state.accepted'' = ''turn.state.accepted''"
    by (simp add: trim_graphic byte_class_defs)
  ultimately show ?thesis
    by (simp add: new_binding_def)
qed
lemma demo_history: "validate_turn_history demo_libs (demo_record False) (demo_leased False) = Inr [demo_entry (demo_claim False)]"
proof -
  let ?out = "demo_claim False" and ?turn = "demo_record False"
  have payload: "ob_payload ?out = demo_payload False"
    by (simp add: demo_claim_def outbox_record_of_def)
  have fields: "ob_revision ?out = 0" "ob_outbox_id ?out = ''outbox-h''" "ob_event_type ?out = ''turn.state.accepted''"
    "ob_effect_kind ?out = ''ledger_turn_state''" "ob_idempotency_mode ?out = ''key_required''" "ob_created_at ?out = 0"
    "ob_status ?out = OutboxLeased"
    by (simp_all add: demo_claim_def outbox_record_of_def demo_leased_row_def take_lease_def demo_event_row_fields)
  have "validate_outbox_identity demo_libs ?out ?turn = Inr ()"
    by (simp add: validate_outbox_identity_def validate_outbox_payload_shape_def payload_fields_def outbox_identity_fields_def
        verify_json_text_binding_def payload fields demo_payload_def outbox_payload_def pointer_str_def)
  moreover have "outbox_payload_state ?out = Inr Accepted"
    by (simp add: outbox_payload_state_def payload demo_payload_def outbox_payload_def pointer_str_def demo_record_def restore_def
        parse_state_def)
  moreover have "validate_history_transition ?out Accepted None = Inr ()"
    by (simp add: validate_history_transition_def fields payload demo_payload_def outbox_payload_def json_opt_def)
  moreover have "validate_terminal_binding ?out Accepted ?turn = Inr ()"
    by (simp add: validate_terminal_binding_def payload demo_payload_def outbox_payload_def demo_record_def restore_def json_opt_def)
  moreover have "history_binding ?out ?turn None = Inr demo_binding1"
    using demo_binding1_ok [of "demo_payload False"]
    by (simp add: history_binding_def fields payload demo_record_def demo_binding1_def)
  moreover have "check_predecessor ?out ?turn None = Inr ()" "delivery_position demo_libs ?out demo_binding1 False = Inr True"
    by (simp_all add: check_predecessor_def delivery_position_def fields)
  ultimately have "validate_history_loop demo_libs ?turn 0 False [] [?out] = Inr [demo_entry ?out]"
    by (simp add: fields demo_entry_def)
  moreover have turn: "dt_tenant_id ?turn = ''acme''" "dt_turn_id ?turn = ''turn-h''" "vts_revision (dt_state ?turn) = 0"
    "vts_state (dt_state ?turn) = Accepted" "dt_created_at ?turn = 0" "dt_updated_at ?turn = 0"
    by (simp_all add: demo_record_def restore_def)
  ultimately show ?thesis
    using demo_leased_row_loads [of False]
    by (simp add: validate_turn_history_def demo_rows_of_turn checked_add_u64_def demo_entry_def fields turn cong: and_then_cong)
qed

definition demo_snapshot :: dispatch_snapshot where
  "demo_snapshot = \<lparr>ds_history = [demo_entry (demo_claim False)], ds_target_index = 0, ds_tenant_prefix = [],
     ds_database_path = ''/ledger'', ds_database_instance_id = ''u-1''\<rparr>"

lemma demo_identity_valid:
  "validated_database_path (tl_externals demo_libs) demo_schema = Inr ''/ledger''"
  "validated_database_instance_id (tl_externals demo_libs) demo_schema = Inr ''u-1''"
  "read_database_instance_id (tl_externals demo_libs) demo_schema = Inr ''u-1''"
proof -
  have ext: "x_stored_sql (tl_externals demo_libs) = (\<lambda>s. s)" "x_uuid_canonical (tl_externals demo_libs) = Some"
    "x_canonicalize (tl_externals demo_libs) = Some" "x_is_file (tl_externals demo_libs) = (\<lambda>_. Some True)"
    by (simp_all add: demo_libs_def demo_externals_def)
  have schema: "demo_schema = with_identity (tl_externals demo_libs) ''u-1''
      (empty_ledger\<lparr>ld_master := demo_guards, ld_database_list := [(0, ''main'', ''/ledger'')]\<rparr>)"
    unfolding demo_schema_def with_identity_def ext by (simp add: demo_externals_def)
  show "validated_database_path (tl_externals demo_libs) demo_schema = Inr ''/ledger''"
    by (simp add: validated_database_path_def demo_schema_def with_identity_def strip_prefix_def ext)
  show "validated_database_instance_id (tl_externals demo_libs) demo_schema = Inr ''u-1''"
    unfolding schema
    by (rule with_identity_valid)
      (simp_all add: no_identity_objects_def empty_ledger_def database_schema_object_sql_def schema_object_sql_def
        extra_identity_triggers_def stored_sql_law_def ext demo_guards_def demo_trigger_def identity_guards_def
        DATABASE_IDENTITY_TABLE_def trigger_names DATABASE_IDENTITY_NO_INSERT_TRIGGER_def DATABASE_IDENTITY_NO_UPDATE_TRIGGER_def
        DATABASE_IDENTITY_NO_DELETE_TRIGGER_def)
  show "read_database_instance_id (tl_externals demo_libs) demo_schema = Inr ''u-1''"
    by (simp add: read_database_instance_id_def demo_schema_def with_identity_def ext)
qed

text \<open>The store's queries do not read the ledger's tables.\<close>

lemma ledger_frame [simp]:
  "raw_outbox_of (db\<lparr>td_ledger := l\<rparr>) = raw_outbox_of db"
  "require_outbox L t i (db\<lparr>td_ledger := l\<rparr>) = require_outbox L t i db"
  "require_turn L t i (db\<lparr>td_ledger := l\<rparr>) = require_turn L t i db"
  "tenant_rows t (db\<lparr>td_ledger := l\<rparr>) = tenant_rows t db"
  "tenant_outbox_head t (db\<lparr>td_ledger := l\<rparr>) = tenant_outbox_head t db"
  "validate_turn_history L turn (db\<lparr>td_ledger := l\<rparr>) = validate_turn_history L turn db"
proof -
  show raw: "raw_outbox_of (db\<lparr>td_ledger := l\<rparr>) = raw_outbox_of db"
    by (simp add: fun_eq_iff raw_outbox_of_def order_of_def evidence_of_def)
  show "require_outbox L t i (db\<lparr>td_ledger := l\<rparr>) = require_outbox L t i db"
    by (simp add: require_outbox_def load_outbox_def raw)
  show "require_turn L t i (db\<lparr>td_ledger := l\<rparr>) = require_turn L t i db"
    by (simp add: require_turn_def load_turn_def)
  show rows: "tenant_rows t (db\<lparr>td_ledger := l\<rparr>) = tenant_rows t db"
    by (simp add: tenant_rows_def order_of_def)
  show "tenant_outbox_head t (db\<lparr>td_ledger := l\<rparr>) = tenant_outbox_head t db"
    by (simp add: tenant_outbox_head_def rows order_of_def)
  show "validate_turn_history L turn (db\<lparr>td_ledger := l\<rparr>) = validate_turn_history L turn db"
    by (simp add: validate_turn_history_def turn_outbox_rows_def raw)
qed

lemma demo_snapshot_loads:
  "load_dispatch_snapshot demo_libs ''acme'' ''outbox-h'' ''worker-1'' ''outbox-lease-u1'' 0 delivered_ok
     ((demo_leased False)\<lparr>td_ledger := demo_schema\<lparr>ld_events := es\<rparr>\<rparr>) = Inr demo_snapshot"
proof -
  have out: "ob_turn_id (demo_claim False) = ''turn-h''" "ob_outbox_id (demo_claim False) = ''outbox-h''"
    "ob_status (demo_claim False) = OutboxLeased" "ob_commit_ordinal (demo_claim False) = 1"
    by (simp_all add: demo_claim_def outbox_record_of_def demo_leased_row_def take_lease_def demo_event_row_fields demo_order_def)
  have "check_held_lease (demo_claim False) ''outbox-h'' ''worker-1'' ''outbox-lease-u1'' 0 = Inr ()"
    by (simp add: check_held_lease_def none_or_passed_def demo_claim_def outbox_record_of_def demo_leased_row_def take_lease_def
        demo_event_row_fields) (simp add: seconds_def)
  then have fence: "check_dispatch_fence (demo_claim False) (Some ''outbox-h'') ''outbox-h'' ''worker-1'' ''outbox-lease-u1'' 0 delivered_ok =
      Inr ()"
    by (simp add: check_dispatch_fence_def validate_active_lease_def out)
  have "tenant_rows ''acme'' (demo_leased False) = [(demo_leased_row False, demo_order)]"
    by (simp add: tenant_rows_def List.map_filter_def demo_leased_def demo_leased_row_def take_lease_def demo_event_row_fields
        order_of_def demo_admitted_def demo_store_def demo_order_def)
  then have prefix: "load_tenant_verified_prefix demo_libs ''acme'' 1 ''turn-h'' h ''u-1'' ((demo_leased False)\<lparr>td_ledger := l\<rparr>) = Inr []" for h l
    by (simp add: load_tenant_verified_prefix_def demo_order_def i64_max_def)
  have turn: "dt_turn_id (demo_record False) = ''turn-h''"
    by (simp add: demo_record_def)
  show ?thesis
    using demo_leased_loads [of False] demo_leased_turn [of False] demo_history fence prefix demo_leased_head [of False] demo_identity_valid
    by (simp add: load_dispatch_snapshot_def snapshot_at_def Let_def demo_entry_def demo_snapshot_def out turn identity_frame
        cong: and_then_cong)
qed
subsection \<open>The ledger event\<close>

definition demo_handle :: ledger_handle where
  "demo_handle =
     \<lparr>lh_object = \<lparr>el_tables_ensured = True, el_database_instance_id = Some ''u-1''\<rparr>, lh_other_database = None\<rparr>"

definition demo_self :: durable_turn_store where
  "demo_self = \<lparr>ts_db_path = ''/ledger'', ts_database_instance_id = ''u-1''\<rparr>"

definition demo_key :: zaion_keypair where
  "demo_key = ZaionKeypair ''k''"

definition demo_public :: public_key_bytes where
  "demo_public = keypair_public_key_bytes (tl_externals demo_libs) demo_key"

definition demo_ledger_row :: event_row where
  "demo_ledger_row =
     \<lparr>er_event_id = ''evt-idem-h'', er_principal_id = ''agent-1'', er_namespace_key = ''session-1'', er_run_id = Some ''turn-h'',
      er_event_type = ''turn.state.accepted'', er_payload_json = encode_json (demo_payload False), er_signature_hex = Some ''h'',
      er_created_at = ''now'', er_parent_event_id = None, er_seq_num = 0, er_prev_hash = GENESIS_HASH\<rparr>"

definition demo_signed :: ledger_db where
  "demo_signed = demo_schema\<lparr>ld_events := [demo_ledger_row]\<rparr>"

definition demo_commit :: verified_event_commit where
  "demo_commit =
     \<lparr>vc_event_id = ''evt-idem-h'', vc_canonical_ledger_path = ''/ledger'', vc_database_instance_id = ''u-1'',
      vc_binding_digest = ''sha256:h'', vc_public_key_bytes = public_key_vec demo_public\<rparr>"

lemma demo_principal: "principal_id_from_public_key (tl_externals demo_libs) pk = PrincipalId ''agent-1''"
  "keypair_principal_id (tl_externals demo_libs) k = PrincipalId ''agent-1''"
  by (simp_all add: principal_id_from_public_key_def keypair_principal_id_def Let_def)

lemma demo_sha [simp]: "sha256_hex (tl_externals demo_libs) s = ''h''"
  by (simp add: sha256_hex_def)

lemma demo_event_id: "expected_event_id (tl_externals demo_libs) b = EventId ''evt-idem-h''"
  by (simp add: expected_event_id_def deterministic_idempotent_event_id_def)

lemma demo_signed_valid:
  "validated_database_path (tl_externals demo_libs) demo_signed = Inr ''/ledger''"
  "validated_database_instance_id (tl_externals demo_libs) demo_signed = Inr ''u-1''"
  "read_database_instance_id (tl_externals demo_libs) demo_signed = Inr ''u-1''"
  using demo_identity_valid by (simp_all add: demo_signed_def identity_frame identity_parts_frame)

lemma demo_verifies: "verify_existing_idempotent_event_in_connection (tl_externals demo_libs) demo_public demo_binding1 demo_signed =
    Inr demo_commit"
proof -
  have "verify_signature (tl_externals demo_libs) demo_public m (SignatureBytes (replicate 64 CHR ''s'')) = Inr ()" for m
    by (simp add: verify_signature_def demo_public_def keypair_public_key_bytes_def demo_key_def) (simp add: demo_libs_def demo_externals_def)
  moreover have "get_event_from_connection (tl_externals demo_libs) ''evt-idem-h'' demo_signed = Inr (Some
    \<lparr>le_event_id = EventId ''evt-idem-h'', le_principal_id = PrincipalId ''agent-1'', le_namespace_key = NamespaceKey ''session-1'',
     le_run_id = Some (RunId ''turn-h''), le_event_type = ''turn.state.accepted'', le_payload = demo_payload False,
     le_signature = Some (SignatureBytes (replicate 64 CHR ''s'')), le_created_at = ''now'', le_parent_event_id = None\<rparr>)"
    by (simp add: get_event_from_connection_def find_event_def demo_signed_def demo_ledger_row_def row_to_event_def del: replicate.simps)
  ultimately show ?thesis
    using demo_signed_valid
    by (simp add: verify_existing_idempotent_event_in_connection_def Let_def demo_event_id demo_principal verify_principal_binding_def
        demo_binding1_def verify_text_def verify_optional_text_def guard_def require_canonical_def verify_event_signature_def is_ok_def
        demo_commit_def binding_digest_def cong: and_then_cong del: replicate.simps)
qed
text \<open>Calls on an initialised ledger object of this database.\<close>

definition demo_object :: event_ledger where
  "demo_object = \<lparr>el_tables_ensured = True, el_database_instance_id = Some ''u-1''\<rparr>"

lemma demo_with_conn:
  assumes "read_database_instance_id (tl_externals demo_libs) l = Inr ''u-1''" and "f l = Inr (r, l')"
  shows "with_conn (tl_externals demo_libs) uuid f demo_object l = (Inr r, demo_object, l')"
  using assms by (simp add: with_conn_def demo_object_def)

lemma demo_identity_calls:
  assumes "l = demo_schema \<or> l = demo_signed"
  shows "canonical_database_path (tl_externals demo_libs) uuid demo_object l = (Inr ''/ledger'', demo_object, l)"
    "database_instance_id (tl_externals demo_libs) uuid demo_object l = (Inr ''u-1'', demo_object, l)"
proof -
  have ok: "read_database_instance_id (tl_externals demo_libs) l = Inr ''u-1''"
    "validated_database_path (tl_externals demo_libs) l = Inr ''/ledger''"
    using assms demo_identity_valid demo_signed_valid by auto
  show "canonical_database_path (tl_externals demo_libs) uuid demo_object l = (Inr ''/ledger'', demo_object, l)"
    unfolding canonical_database_path_def query_def by (rule demo_with_conn [OF ok(1)]) (simp add: ok(2))
  have "with_conn (tl_externals demo_libs) uuid (\<lambda>db. Inr ((), db)) demo_object l = (Inr (), demo_object, l)"
    by (rule demo_with_conn [OF ok(1)]) simp
  then show "database_instance_id (tl_externals demo_libs) uuid demo_object l = (Inr ''u-1'', demo_object, l)"
    unfolding database_instance_id_def by (simp add: ok_or_def) (simp add: demo_object_def)
qed

lemma demo_verify_call:
  "verify_existing_idempotent_event (tl_externals demo_libs) uuid demo_public demo_binding1 demo_object demo_signed =
     (Inr demo_commit, demo_object, demo_signed)"
  unfolding verify_existing_idempotent_event_def query_def
  by (rule demo_with_conn [OF demo_signed_valid(3)]) (simp add: demo_verifies)

lemma demo_append_tx:
  "append_idempotent_tx (tl_externals demo_libs) ''now'' demo_key (NamespaceKey ''session-1'') ''turn.state.accepted'' (demo_payload False)
     (Some (RunId ''turn-h'')) None ''outbox-h'' demo_schema = Inr (EventId ''evt-idem-h'', demo_signed)"
proof -
  have none: "ld_events demo_schema = []"
    by (simp add: demo_schema_def with_identity_def empty_ledger_def)
  have "idempotent_event (tl_externals demo_libs) ''now'' demo_key (NamespaceKey ''session-1'') ''turn.state.accepted'' (demo_payload False)
      (Some (RunId ''turn-h'')) None ''outbox-h'' = \<lparr>pe_event_id = ''evt-idem-h'', pe_principal_id = ''agent-1'',
        pe_namespace_key = ''session-1'', pe_run_id = Some ''turn-h'', pe_event_type = ''turn.state.accepted'',
        pe_payload_json = encode_json (demo_payload False), pe_signature_hex = Some ''h'', pe_created_at = ''now'', pe_parent_event_id = None\<rparr>"
    by (simp add: idempotent_event_def Let_def demo_principal deterministic_idempotent_event_id_def prepare_def)
  then show ?thesis
    by (simp add: append_idempotent_tx_def append_prepared_event_def find_event_def none next_chain_position_def rows_of_principal_def
        insert_event_row_def row_of_prepared_def demo_principal deterministic_idempotent_event_id_def demo_signed_def demo_ledger_row_def)
qed

lemma call_simps:
  "m self db = (Inr a, self', db') \<Longrightarrow> then_call m f self db = f a self' db'"
  "then_call (return_call (Inr a)) f = f a" "return_call (Inr a) self db = (Inr a, self, db)"
  by (simp_all add: then_call_def return_call_def fun_eq_iff)

lemma demo_fields:
  "ib_idempotency_key demo_binding1 = ''outbox-h''" "ib_principal_id demo_binding1 = PrincipalId ''agent-1''"
  "ib_namespace_key demo_binding1 = NamespaceKey ''session-1''" "ib_run_id demo_binding1 = Some (RunId ''turn-h'')"
  "ib_event_type demo_binding1 = ''turn.state.accepted''" "ib_payload demo_binding1 = demo_payload False"
  "ib_parent_event_id demo_binding1 = None" "vc_event_id demo_commit = ''evt-idem-h''"
  "vc_canonical_ledger_path demo_commit = ''/ledger''" "vc_database_instance_id demo_commit = ''u-1''"
  "vc_binding_digest demo_commit = ''sha256:h''" "PublicKeyBytes (vc_public_key_bytes demo_commit) = demo_public"
  by (simp_all add: demo_binding1_def demo_commit_def)

lemma demo_append_call:
  "append_verified_idempotent_event (tl_externals demo_libs) uuid ''now'' demo_key demo_binding1 demo_object demo_schema =
     (Inr demo_commit, demo_object, demo_signed)"
proof -
  have "ledger_validate_idempotency_key ''outbox-h'' = Inr ()"
    by (simp add: ledger_validate_idempotency_key_def trim_graphic byte_class_defs MAX_IDEMPOTENCY_KEY_BYTES_def)
  then have "append_signed_idempotent_event_with_parent (tl_externals demo_libs) uuid ''now'' demo_key (NamespaceKey ''session-1'')
      ''turn.state.accepted'' (demo_payload False) (Some (RunId ''turn-h'')) None ''outbox-h'' demo_object demo_schema =
      (Inr (EventId ''evt-idem-h''), demo_object, demo_signed)"
    unfolding append_signed_idempotent_event_with_parent_def
    by (simp add: demo_with_conn [OF demo_identity_valid(3)] demo_append_tx)
  then show ?thesis
    by (simp add: append_verified_idempotent_event_def call_simps demo_identity_calls demo_verify_call verify_principal_binding_def
        demo_principal demo_event_id guard_def demo_fields flip: demo_public_def)
qed

lemma demo_match_call:
  "matches_binding (tl_externals demo_libs) uuid demo_commit demo_binding1 demo_object demo_signed = (Inr True, demo_object, demo_signed)"
  by (simp add: matches_binding_def call_simps demo_identity_calls demo_verify_call demo_event_id demo_fields binding_digest_def Let_def)
subsection \<open>Delivery\<close>

lemma demo_triggers_events:
  "td_ledger db = l\<lparr>ld_events := es\<rparr> \<Longrightarrow> validate_no_extra_outbox_triggers db = validate_no_extra_outbox_triggers (db\<lparr>td_ledger := l\<rparr>)"
  unfolding validate_no_extra_outbox_triggers_def validate_order_trigger_schema_def validate_outbox_dispatcher_triggers_def
    validate_outbox_trigger_allowlist_def extra_outbox_triggers_def validate_schema_object_def by simp

definition demo_appended :: turn_db where
  "demo_appended = (demo_leased False)\<lparr>td_ledger := demo_signed\<rparr>"

lemma demo_on_ledger:
  assumes "call demo_object (td_ledger db) = (Inr a, demo_object, l)"
  shows "on_ledger call demo_handle db = (Inr a, demo_handle, db\<lparr>td_ledger := l\<rparr>)"
  using assms by (simp add: on_ledger_def demo_handle_def demo_object_def)

lemma store_call_simps:
  "m h db = (Inr a, h', db') \<Longrightarrow> store_then m f h db = f a h' db'"
  "store_return (Inr a) h db = (Inr a, h, db)" "g db = Inr a \<Longrightarrow> store_read g h db = (Inr a, h, db)"
  by (simp_all add: store_then_def store_return_def store_read_def)

lemma demo_snapshot_of:
  assumes "db = demo_leased False \<or> db = demo_appended"
  shows "dispatch_snapshot_of demo_libs demo_self ''acme'' ''outbox-h'' ''worker-1'' ''outbox-lease-u1'' 0 delivered_ok db = Inr demo_snapshot"
    "load_dispatch_snapshot demo_libs ''acme'' ''outbox-h'' ''worker-1'' ''outbox-lease-u1'' 0 delivered_ok db = Inr demo_snapshot"
    "validate_no_extra_outbox_triggers db = Inr ()"
proof -
  have events: "ld_events demo_schema = []" "demo_leased False = (demo_leased False)\<lparr>td_ledger := demo_schema\<lparr>ld_events := []\<rparr>\<rparr>"
    by (simp_all add: demo_schema_def with_identity_def empty_ledger_def demo_leased_def demo_admitted_def demo_store_def)
  show load: "load_dispatch_snapshot demo_libs ''acme'' ''outbox-h'' ''worker-1'' ''outbox-lease-u1'' 0 delivered_ok db = Inr demo_snapshot"
    using assms demo_snapshot_loads [of delivered_ok "[]"] demo_snapshot_loads [of delivered_ok "[demo_ledger_row]"] events(2)
    by (auto simp: demo_appended_def demo_signed_def)
  show triggers: "validate_no_extra_outbox_triggers db = Inr ()"
    using assms demo_leased_facts(3,4) [of False] demo_triggers_events [where db = demo_appended and l = demo_schema and es = "[demo_ledger_row]"]
    by (auto simp: demo_appended_def demo_signed_def demo_store_triggers)
  show "dispatch_snapshot_of demo_libs demo_self ''acme'' ''outbox-h'' ''worker-1'' ''outbox-lease-u1'' 0 delivered_ok db = Inr demo_snapshot"
    using load triggers by (simp add: dispatch_snapshot_of_def demo_self_def demo_snapshot_def)
qed

lemma demo_snapshot_fields:
  "ds_database_path demo_snapshot = ''/ledger''" "ds_database_instance_id demo_snapshot = ''u-1''" "ds_tenant_prefix demo_snapshot = []"
  "vh_outbox (snapshot_target demo_snapshot) = demo_claim False" "vh_binding (snapshot_target demo_snapshot) = demo_binding1"
  by (simp_all add: demo_snapshot_def snapshot_target_def demo_entry_def)

lemma demo_scope:
  assumes "db = demo_leased False \<or> db = demo_appended"
  shows "verify_ledger_scope demo_libs uuid demo_snapshot pk demo_handle db = (Inr (), demo_handle, db)"
    "verify_tenant_prefix demo_libs uuid demo_snapshot demo_handle db = (Inr (), demo_handle, db)"
proof -
  have l: "td_ledger db = demo_schema \<or> td_ledger db = demo_signed"
    using assms demo_leased_facts(4) [of False] by (auto simp: demo_appended_def)
  have "on_ledger (canonical_database_path (tl_externals demo_libs) uuid) demo_handle db = (Inr ''/ledger'', demo_handle, db)"
    "on_ledger (database_instance_id (tl_externals demo_libs) uuid) demo_handle db = (Inr ''u-1'', demo_handle, db)"
    using demo_on_ledger [of "canonical_database_path (tl_externals demo_libs) uuid" db, OF demo_identity_calls(1) [OF l]]
      demo_on_ledger [of "database_instance_id (tl_externals demo_libs) uuid" db, OF demo_identity_calls(2) [OF l]] by simp_all
  then show "verify_ledger_scope demo_libs uuid demo_snapshot pk demo_handle db = (Inr (), demo_handle, db)"
    by (simp add: verify_ledger_scope_def store_call_simps demo_snapshot_fields demo_principal demo_fields)
  show "verify_tenant_prefix demo_libs uuid demo_snapshot demo_handle db = (Inr (), demo_handle, db)"
    by (simp add: verify_tenant_prefix_def demo_snapshot_fields store_call_simps)
qed

lemma demo_revalidates:
  "revalidate_outbox_for_signing demo_libs uuid demo_self ''acme'' ''outbox-h'' ''worker-1'' ''outbox-lease-u1'' 0 pk demo_handle
     (demo_leased False) = (Inr \<lparr>sv_outbox = demo_claim False, sv_binding = demo_binding1\<rparr>, demo_handle, demo_leased False)"
  by (simp add: revalidate_outbox_for_signing_def demo_worker store_call_simps demo_snapshot_of demo_scope demo_snapshot_fields)

lemma demo_appends:
  "on_ledger (append_verified_idempotent_event (tl_externals demo_libs) uuid ''now'' demo_key demo_binding1) demo_handle (demo_leased False) =
     (Inr demo_commit, demo_handle, demo_appended)"
  using demo_on_ledger [of "append_verified_idempotent_event (tl_externals demo_libs) uuid ''now'' demo_key demo_binding1" "demo_leased False"]
    demo_append_call [of uuid] demo_leased_facts(4) [of False] by (simp add: demo_appended_def)

definition demo_delivered_row :: outbox_row where
  "demo_delivered_row = deliver_row ''evt-idem-h'' 0 (demo_leased_row False)"

definition demo_evidence :: verified_row where
  "demo_evidence =
     \<lparr>vw_tenant_id = ''acme'', vw_outbox_id = ''outbox-h'', vw_ledger_event_id = ''evt-idem-h'',
      vw_signer_public_key = public_key_vec demo_public, vw_database_instance_id = ''u-1''\<rparr>"

definition demo_delivered :: turn_db where
  "demo_delivered = demo_appended\<lparr>td_verified := [demo_evidence], td_outbox := [demo_delivered_row]\<rparr>"

lemma demo_public_length: "length (public_key_vec demo_public) = 32"
  by (simp add: demo_public_def keypair_public_key_bytes_def demo_key_def demo_libs_def demo_externals_def)

lemma demo_payload_fields:
  "pointer_str [''state''] (demo_payload False) = Some ''accepted''"
  "pointer_str [''schema''] (demo_payload False) = Some TURN_OUTBOX_SCHEMA"
  "pointer_str [''outbox_id''] (demo_payload False) = Some ''outbox-h''"
  "pointer_str [''tenant_id''] (demo_payload False) = Some ''acme''"
  "pointer_str [''turn_id''] (demo_payload False) = Some ''turn-h''"
  "Option.bind (json_pointer [''revision''] (demo_payload False)) as_u64 = Some 0"
  by (simp_all add: demo_payload_def outbox_payload_def demo_record_def restore_def pointer_str_def)

lemma demo_delivered_row_fields:
  "demo_delivered_row =
     \<lparr>ow_tenant_id = ''acme'', ow_outbox_id = ''outbox-h'', ow_turn_id = ''turn-h'', ow_revision = 0,
      ow_event_type = ''turn.state.accepted'', ow_effect_kind = ''ledger_turn_state'', ow_idempotency_mode = ''key_required'',
      ow_payload_json = encode_json (demo_payload False), ow_payload_hash = ''sha256:h'', ow_status = ''delivered'', ow_attempts = 1,
      ow_available_at_ms = 0, ow_lease_owner = None, ow_lease_token = None, ow_lease_until_ms = None, ow_delivered_at_ms = Some 0,
      ow_ledger_event_id = Some ''evt-idem-h'', ow_last_error = None, ow_created_at_ms = 0, ow_updated_at_ms = 0\<rparr>"
  by (simp add: demo_delivered_row_def deliver_row_def demo_leased_row_def take_lease_def demo_event_row_fields)

lemma demo_delivered_loads:
  "require_outbox demo_libs ''acme'' ''outbox-h'' demo_delivered =
     Inr (outbox_record_of demo_delivered_row demo_order (Some demo_evidence) (demo_payload False) OutboxDelivered)"
proof -
  have "materialize_outbox demo_libs (demo_delivered_row, demo_order, Some demo_evidence) =
      Inr (outbox_record_of demo_delivered_row demo_order (Some demo_evidence) (demo_payload False) OutboxDelivered)"
    using demo_payload_fields demo_public_length
    by (simp add: materialize_outbox_def demo_delivered_row_fields verify_stored_hash_def
        parse_json_def checked_u64_def verify_outbox_bindings_def verify_json_text_binding_def outbox_event_type_matches_def
        deterministic_outbox_id_def demo_order_def parse_outbox_status_def validate_outbox_status_bindings_def status_shape_ok_def
        evidence_shape_ok_def before_ms_def parse_order_origin_def parse_timestamp_def optional_map_def outbox_record_of_def
        demo_evidence_def)
  then show ?thesis
    by (simp add: require_outbox_def load_outbox_def demo_delivered_def demo_delivered_row_fields outbox_at_def
        raw_outbox_of_def order_of_def evidence_of_def demo_appended_def demo_leased_def demo_admitted_def demo_store_def
        optional_map_def demo_order_def demo_evidence_def)
qed

lemma demo_delivers:
  "deliver_in_tx demo_libs ''acme'' ''outbox-h'' ''worker-1'' ''outbox-lease-u1'' demo_commit 0 (demo_claim False) demo_appended =
     Inr (CompletionDelivered, demo_delivered)"
proof -
  let ?mid = "demo_appended\<lparr>td_verified := [demo_evidence]\<rparr>"
  have evidence: "ensure_verified_commit_evidence (demo_claim False) demo_commit demo_public demo_appended = Inr (True, ?mid)"
    using demo_public_length
    by (simp add: ensure_verified_commit_evidence_def insert_verified_row_def demo_claim_def outbox_record_of_def demo_fields
        demo_leased_row_def take_lease_def demo_event_row_fields demo_appended_def demo_leased_def demo_admitted_def demo_store_def
        outbox_at_def demo_evidence_def)
  have update: "update_outbox (leased_row ''acme'' ''outbox-h'' ''worker-1'' ''outbox-lease-u1'' 0) (deliver_row ''evt-idem-h'' 0) ?mid =
      Inr (1, demo_delivered)"
    by (simp add: update_outbox_def leased_row_def outbox_at_def demo_appended_def demo_leased_def demo_leased_row_def take_lease_def
        demo_event_row_fields demo_delivered_def demo_delivered_row_def deliver_row_def delivery_guard_fires_def update_where_def
        demo_evidence_def delivered_def)
  have claim: "ob_status (demo_claim False) = OutboxLeased" "ob_updated_at (demo_claim False) = 0"
    by (simp_all add: demo_claim_def outbox_record_of_def demo_leased_row_def take_lease_def)
  have "tenant_outbox_head ''acme'' demo_delivered = Inr None"
    by (simp add: tenant_outbox_head_def tenant_rows_def order_of_def demo_delivered_def demo_appended_def demo_leased_def
        demo_admitted_def demo_store_def demo_delivered_row_fields outbox_at_def delivered_def List.map_filter_def sql_min_def sql_max_def)
  moreover have "vw_ledger_event_id demo_evidence = ''evt-idem-h''" "vw_database_instance_id demo_evidence = ''u-1''"
    "vw_signer_public_key demo_evidence = public_key_vec demo_public"
    by (simp_all add: demo_evidence_def)
  ultimately show ?thesis
    using demo_delivered_loads
    by (simp add: deliver_in_tx_def demo_fields evidence update claim verify_outbox_commit_evidence_def outbox_record_of_def
        demo_delivered_row_fields cong: and_then_cong)
qed

lemma demo_completes:
  "complete_outbox demo_libs uuid demo_self ''acme'' ''outbox-h'' ''worker-1'' ''outbox-lease-u1'' demo_commit 0 demo_handle demo_appended =
     (Inr CompletionDelivered, demo_handle, demo_delivered)"
proof -
  have "on_ledger (matches_binding (tl_externals demo_libs) uuid demo_commit demo_binding1) demo_handle demo_appended =
      (Inr True, demo_handle, demo_appended)"
    using demo_on_ledger [of "matches_binding (tl_externals demo_libs) uuid demo_commit demo_binding1" demo_appended]
      demo_match_call [of uuid] by (simp add: demo_appended_def)
  moreover have "complete_in_tx demo_libs ''acme'' ''outbox-h'' ''worker-1'' ''outbox-lease-u1'' demo_commit 0 demo_snapshot demo_appended =
      Inr (CompletionDelivered, demo_delivered)"
  proof -
    have "matches_binding_in_connection (tl_externals demo_libs) demo_commit demo_binding1 (td_ledger demo_appended) = Inr True"
      by (simp add: matches_binding_in_connection_def demo_fields demo_appended_def demo_verifies)
    then show ?thesis
      by (simp add: complete_in_tx_def demo_snapshot_of verify_tenant_prefix_in_connection_def demo_snapshot_fields bindings_match_def
          prefixes_match_def demo_fields demo_delivers cong: and_then_cong)
  qed
  ultimately show ?thesis
    by (simp add: complete_outbox_def demo_worker store_call_simps demo_snapshot_of demo_scope demo_snapshot_fields store_tx_def
        demo_fields)
qed

text \<open>The delivered state is reachable.\<close>

lemma demo_appended_reachable: "reaches empty_store (store_step demo_libs) demo_appended"
  using reaches.step [OF demo_leased_facts(2) store_step.step_append [OF demo_appends]] .

lemma demo_delivered_reachable: "reaches empty_store (store_step demo_libs) demo_delivered"
  using reaches.step [OF demo_appended_reachable store_step.step_complete [OF demo_completes]] .

end
