(* ===== verification/Store_Delivery.thy ===== *)
theory Store_Delivery
  imports Store_Pipeline
begin

text \<open>
  What a delivery guarantees and what it refuses: a completed row is the leased head of its tenant
  and has a canonically signed event of the ledger behind it, whose content is the row's payload;
  and no event of a turn that was admitted under approval can be revalidated.
\<close>

subsection \<open>The genesis of a history\<close>

lemma materialized_state:
  assumes "materialize_outbox L (r, c, e) = Inr rec" and "outbox_payload_state rec = Inr s"
  shows "ow_event_type r = state_event_type s \<or> ow_event_type r = ''turn.'' @ state_name s"
proof -
  obtain payload state where p: "ob_payload rec = payload" "pointer_str [''state''] payload = Some state"
    "outbox_event_type_matches (ow_event_type r) state"
    using assms(1) unfolding materialize_outbox_def verify_outbox_bindings_def by (auto simp: result_simps split: if_splits)
  have "state = state_name s"
    using assms(2) p(1,2) by (auto simp: outbox_payload_state_def result_simps dest: parse_state_ok)
  then show ?thesis
    using p(3) by (auto simp: outbox_event_type_matches_def state_event_type_def)
qed

lemma validated_genesis:
  assumes "validate_turn_history L turn db = Inr validated"
  shows "\<exists>raw rest rec. turn_outbox_rows (dt_tenant_id turn) (dt_turn_id turn) db = raw # rest \<and>
    materialize_outbox L raw = Inr rec \<and> outbox_payload_state rec = Inr Accepted"
proof -
  obtain outbox where o': "collect_results (materialize_outbox L) (turn_outbox_rows (dt_tenant_id turn) (dt_turn_id turn) db) = Inr outbox"
    "validate_history_loop L turn 0 False [] outbox = Inr validated" "validated \<noteq> []"
    using assms unfolding validate_turn_history_def by (auto simp: result_simps split: if_splits)
  then obtain rec rest where "outbox = rec # rest"
    by (cases outbox) auto
  moreover from this have "outbox_payload_state rec = Inr Accepted"
    using o'(2) by (auto simp: result_simps validate_history_transition_def Let_def split: if_splits)
  ultimately show ?thesis
    using o'(1) by (auto simp: collect_results_Inr_iff list_all2_Cons2)
qed

lemma first_row_of_turn:
  assumes inv: "outbox_inv db" and p: "p \<in> set (td_outbox db)" "ow_revision p = 0"
    and rows: "turn_outbox_rows (ow_tenant_id p) (ow_turn_id p) db = raw # rest"
  shows "fst raw = p"
proof -
  let ?rows = "sort_key ow_revision (filter (\<lambda>r. ow_tenant_id r = ow_tenant_id p \<and> ow_turn_id r = ow_turn_id p) (td_outbox db))"
  have "p \<in> set ?rows"
    using p(1) by simp
  then obtain r others where r: "?rows = r # others"
    by (cases ?rows) auto
  then have mem: "r \<in> set (td_outbox db)" "ow_tenant_id r = ow_tenant_id p" "ow_turn_id r = ow_turn_id p"
    using set_sort [of ow_revision "filter (\<lambda>r. ow_tenant_id r = ow_tenant_id p \<and> ow_turn_id r = ow_turn_id p) (td_outbox db)"] by auto
  have "sorted (map ow_revision ?rows)"
    by simp
  then have "ow_revision r \<le> ow_revision p"
    using \<open>p \<in> set ?rows\<close> unfolding r by auto
  moreover have "0 \<le> ow_revision r"
    using inv mem(1) by (simp add: outbox_inv_def outbox_row_ok_def)
  ultimately have "turn_revision r = turn_revision p"
    using p(2) mem by (simp add: turn_revision_def)
  then have "r = p"
    using inv mem(1) p(1) by (auto simp: outbox_inv_def distinct_map dest: inj_onD)
  moreover obtain c where "order_of db r = Some c"
    using order_complete(1) [OF inv mem(1)] by blast
  ultimately show ?thesis
    using rows r by (auto simp: turn_outbox_rows_def raw_outbox_of_def List.map_filter_def)
qed

lemma approval_history_rejected:
  assumes inv: "outbox_inv db" and p: "p \<in> set (td_outbox db)" "ow_revision p = 0" "ow_event_type p = state_event_type WaitingApproval"
    and turn: "dt_tenant_id turn = ow_tenant_id p" "dt_turn_id turn = ow_turn_id p"
  shows "validate_turn_history L turn db \<noteq> Inr validated"
proof
  assume "validate_turn_history L turn db = Inr validated"
  then obtain raw rest rec where g: "turn_outbox_rows (ow_tenant_id p) (ow_turn_id p) db = raw # rest"
    "materialize_outbox L raw = Inr rec" "outbox_payload_state rec = Inr Accepted"
    using validated_genesis turn by metis
  obtain c e where "raw = (p, c, e)"
    using first_row_of_turn [OF inv p(1,2) g(1)] by (cases raw) auto
  then show False
    using materialized_state [of L p c e rec Accepted] g(2,3) p(3) by (simp add: state_event_type_def)
qed

lemma approval_never_loads:
  assumes inv: "outbox_inv db" and p: "p \<in> set (td_outbox db)" "ow_revision p = 0" "ow_event_type p = state_event_type WaitingApproval"
    and q: "q \<in> set (td_outbox db)" "turn_of_outbox q = turn_of_outbox p"
  shows "load_dispatch_snapshot L (ow_tenant_id q) (ow_outbox_id q) w k now allow db \<noteq> Inr snapshot"
proof
  assume "load_dispatch_snapshot L (ow_tenant_id q) (ow_outbox_id q) w k now allow db = Inr snapshot"
  then obtain found turn history where st: "require_outbox L (ow_tenant_id q) (ow_outbox_id q) db = Inr found"
    "require_turn L (ow_tenant_id q) (ob_turn_id found) db = Inr turn" "validate_turn_history L turn db = Inr history"
    unfolding load_dispatch_snapshot_def by (auto simp: result_simps)
  have "ob_turn_id found = ow_turn_id q"
    using require_outbox_ok [OF st(1)] find_outbox_at [OF inv q(1)] by (auto simp: outbox_key_def outbox_record_of_def)
  then have "dt_tenant_id turn = ow_tenant_id p" "dt_turn_id turn = ow_turn_id p"
    using require_turn_row [OF st(2)] q(2) by (auto simp: represents_def turn_key_def turn_of_outbox_def)
  then show False
    using approval_history_rejected [OF inv p] st(3) by blast
qed
subsection \<open>Bindings of a validated history\<close>

definition bound_entry :: "validated_history_entry \<Rightarrow> bool" where
  "bound_entry e \<longleftrightarrow>
     ib_idempotency_key (vh_binding e) = ob_outbox_id (vh_outbox e) \<and> ib_event_type (vh_binding e) = ob_event_type (vh_outbox e) \<and>
     ib_payload (vh_binding e) = ob_payload (vh_outbox e)"

lemma history_binding_bound: "history_binding record' turn parent = Inr b \<Longrightarrow>
    ib_idempotency_key b = ob_outbox_id record' \<and> ib_event_type b = ob_event_type record' \<and> ib_payload b = ob_payload record'"
  by (auto simp: history_binding_def new_binding_def result_simps split: if_splits)

lemma validate_history_bound:
  "validate_history_loop L turn index seen acc records = Inr validated \<Longrightarrow> \<forall>e \<in> set acc. bound_entry e \<Longrightarrow>
     \<forall>e \<in> set validated. bound_entry e"
proof (induction records arbitrary: index seen acc)
  case (Cons rec rest)
  let ?previous = "if acc = [] then None else Some (last acc)"
  obtain state binding seen' where st: "history_binding rec turn
      (map_option (\<lambda>p. expected_event_id (tl_externals L) (vh_binding p)) ?previous) = Inr binding"
    "validate_history_loop L turn (Suc index) seen' (acc @ [\<lparr>vh_outbox = rec, vh_state = state, vh_binding = binding\<rparr>]) rest = Inr validated"
    using Cons.prems(1) unfolding validate_history_loop.simps Let_def and_then_eq_Inr
    by (cases "ob_revision rec \<noteq> of_nat index") (simp, simp only: if_False and_then_eq_Inr simp_thms, blast)
  have "\<forall>e \<in> set (acc @ [\<lparr>vh_outbox = rec, vh_state = state, vh_binding = binding\<rparr>]). bound_entry e"
    using Cons.prems(2) history_binding_bound [OF st(1)] by (auto simp: bound_entry_def)
  then show ?case
    by (rule Cons.IH [OF st(2)])
qed simp
lemma validate_turn_history_bound:
  assumes "validate_turn_history L turn db = Inr history" and "e \<in> set history"
  shows "bound_entry e"
proof -
  obtain records where "validate_history_loop L turn 0 False [] records = Inr history"
    using assms(1) unfolding validate_turn_history_def by (auto simp: result_simps split: if_splits)
  then show ?thesis
    using validate_history_bound assms(2) by fastforce
qed

lemma snapshot_target_bound:
  assumes "load_dispatch_snapshot L t i w k now allow db = Inr snapshot"
  shows "bound_entry (snapshot_target snapshot)"
proof -
  obtain turn history n where st: "validate_turn_history L turn db = Inr history"
    "find (\<lambda>n. ob_outbox_id (vh_outbox (history ! n)) = i) [0..<length history] = Some n"
    "snapshot_at L t i w k now allow turn history n db = Inr snapshot"
    using assms unfolding load_dispatch_snapshot_def by (auto simp: result_simps)
  have "snapshot_target snapshot = history ! n"
    using st(3) unfolding snapshot_at_def Let_def by (auto simp: result_simps snapshot_target_def)
  then show ?thesis
    using validate_turn_history_bound [OF st(1)] find_index [OF st(2)] by simp
qed

subsection \<open>Completion\<close>

text \<open>A call whose success comes from a transaction on the database with some ledger.\<close>

definition succeeds_by_tx :: "'a store_call \<Rightarrow> ((turn_db \<Rightarrow> turn_store_error + ('a \<times> turn_db)) \<Rightarrow> bool) \<Rightarrow> bool" where
  "succeeds_by_tx m Q \<longleftrightarrow>
     (\<forall>h db a h' db'. m h db = (Inr a, h', db') \<longrightarrow> (\<exists>tx l. Q tx \<and> tx (db\<lparr>td_ledger := l\<rparr>) = Inr (a, db')))"

lemma succeeds_by_tx_fail [intro]: "succeeds_by_tx (store_return (Inl e)) Q"
  by (simp add: succeeds_by_tx_def store_return_def store_read_def)

lemma succeeds_by_tx_tx [intro]: "Q tx \<Longrightarrow> succeeds_by_tx (store_tx tx) Q"
  unfolding succeeds_by_tx_def store_tx_def
proof (intro allI impI)
  fix h db a h' db'
  assume Q: "Q tx" and run: "(case tx db of Inl e \<Rightarrow> (Inl e, h, db) | Inr (a, db') \<Rightarrow> (Inr a, h, db')) = (Inr a, h', db')"
  then have "tx (db\<lparr>td_ledger := td_ledger db\<rparr>) = Inr (a, db')"
    by (auto split: sum.splits)
  then show "\<exists>tx l. Q tx \<and> tx (db\<lparr>td_ledger := l\<rparr>) = Inr (a, db')"
    using Q by blast
qed

lemma succeeds_by_tx_then [intro]:
  assumes m: "ledger_only m" and f: "\<And>a. succeeds_by_tx (f a) Q"
  shows "succeeds_by_tx (store_then m f) Q"
  unfolding succeeds_by_tx_def
proof (intro allI impI)
  fix h db a h' db' assume run: "store_then m f h db = (Inr a, h', db')"
  obtain r1 h1 l where m1: "m h db = (r1, h1, db\<lparr>td_ledger := l\<rparr>)"
    using m unfolding ledger_only_def by (metis prod.collapse)
  then obtain b where "f b h1 (db\<lparr>td_ledger := l\<rparr>) = (Inr a, h', db')"
    using run by (cases r1) (auto simp: store_then_def)
  then show "\<exists>tx l. Q tx \<and> tx (db\<lparr>td_ledger := l\<rparr>) = Inr (a, db')"
    using f [of b] unfolding succeeds_by_tx_def by fastforce
qed

lemma complete_outbox_tx:
  assumes "complete_outbox L uuid self t i w k commit now h db = (Inr c, h', db')"
  shows "\<exists>snapshot l. complete_in_tx L t i w k commit now snapshot (db\<lparr>td_ledger := l\<rparr>) = Inr (c, db')"
proof -
  have "succeeds_by_tx (complete_outbox L uuid self t i w k commit now)
      (\<lambda>tx. \<exists>snapshot. tx = complete_in_tx L t i w k commit now snapshot)"
    unfolding complete_outbox_def by (intro succeeds_by_tx_then) auto
  then show ?thesis
    using assms unfolding succeeds_by_tx_def by blast
qed

text \<open>The ledger event behind a completed row.\<close>

definition backed_by :: "turn_libs \<Rightarrow> outbox_row \<Rightarrow> verified_event_commit \<Rightarrow> ledger_db \<Rightarrow> bool" where
  "backed_by L r commit l \<longleftrightarrow>
     (\<exists>ev payload. get_event_from_connection (tl_externals L) (vc_event_id commit) l = Inr (Some ev) \<and>
        verify_event_signature (tl_externals L) (PublicKeyBytes (vc_public_key_bytes commit)) ev = Inr CanonicalEnvelope \<and>
        le_event_type ev = ow_event_type r \<and> x_json_parse (tl_externals L) (ow_payload_json r) = Some payload \<and>
        x_json_eq (tl_externals L) (le_payload ev) payload)"

lemma verify_existing_event:
  "verify_existing_idempotent_event_in_connection x pk b l = Inr commit \<Longrightarrow>
     \<exists>ev. get_event_from_connection x (vc_event_id commit) l = Inr (Some ev) \<and> event_matches_binding x b ev \<and>
       verify_event_signature x pk ev = Inr CanonicalEnvelope"
  by (auto simp: verify_existing_iff)

lemma complete_in_tx_backed:
  assumes inv: "full_inv db" and ok: "complete_in_tx L t i w k commit now snapshot db = Inr (CompletionDelivered, db')"
  shows "\<exists>r \<in> set (td_outbox db). outbox_key r = (t, i) \<and> backed_by L r commit (td_ledger db)"
proof -
  obtain current where cur: "load_dispatch_snapshot L t i w k now True db = Inr current"
    "matches_binding_in_connection (tl_externals L) commit (vh_binding (snapshot_target current)) (td_ledger db) = Inr True"
    using ok by (rule complete_in_tx_ok)
  obtain r c payload status where r: "r \<in> set (td_outbox db)" "outbox_key r = (t, i)"
    "vh_outbox (snapshot_target current) = outbox_record_of r c (evidence_of db r) payload status"
    "x_json_parse (tl_externals L) (ow_payload_json r) = Some payload"
    using snapshot_target_row [OF cur(1)] by blast
  have "verify_existing_idempotent_event_in_connection (tl_externals L) (PublicKeyBytes (vc_public_key_bytes commit))
      (vh_binding (snapshot_target current)) (td_ledger db) = Inr commit"
    using cur(2) by (auto simp: matches_binding_in_connection_def result_simps)
  then obtain ev where ev: "get_event_from_connection (tl_externals L) (vc_event_id commit) (td_ledger db) = Inr (Some ev)"
    "event_matches_binding (tl_externals L) (vh_binding (snapshot_target current)) ev"
    "verify_event_signature (tl_externals L) (PublicKeyBytes (vc_public_key_bytes commit)) ev = Inr CanonicalEnvelope"
    using verify_existing_event by blast
  have "bound_entry (snapshot_target current)"
    using snapshot_target_bound [OF cur(1)] .
  then have "le_event_type ev = ow_event_type r" "x_json_eq (tl_externals L) (le_payload ev) payload"
    using ev(2) r(3) by (auto simp: bound_entry_def event_matches_binding_def outbox_record_of_def)
  then show ?thesis
    using r(1,2,4) ev(1,3) unfolding backed_by_def by blast
qed
lemma revalidate_snapshot:
  assumes "fst (revalidate_outbox_for_signing L uuid self t i w k now pk h db) = Inr signing"
  shows "\<exists>snapshot. dispatch_snapshot_of L self t i w k now False db = Inr snapshot"
  using assms unfolding revalidate_outbox_for_signing_def
  by (auto simp: store_then_def store_return_def store_read_def split: sum.splits prod.splits)

end
