(* ===== verification/Store_Retry.thy ===== *)
theory Store_Retry
  imports Store_Delivery
begin

text \<open>
  Repeated admission under one idempotency key: while the actor's lease runs, the same request
  returns the turn that the first admission created and writes nothing, and a different request is
  refused as a conflict. Quarantine is final: a quarantined row stays in the quarantine table and at
  the head of its tenant's queue.
\<close>

subsection \<open>Retries\<close>

lemma find_by_idempotency:
  assumes inv: "turns_inv db" and r: "r \<in> set (td_turns db)" "idempotency_key_of r = (t, k)"
  shows "find (turn_keyed t k) (td_turns db) = Some r"
proof (cases "find (turn_keyed t k) (td_turns db)")
  case (Some s)
  then have "s \<in> set (td_turns db)" "idempotency_key_of s = (t, k)"
    by (auto simp: turn_keyed_def idempotency_key_of_def dest!: find_split)
  moreover have "inj_on idempotency_key_of (set (td_turns db))"
    using inv by (simp add: turns_inv_def distinct_map)
  ultimately have "s = r"
    using r by (metis inj_onD)
  then show ?thesis
    using Some by simp
qed (use r in \<open>auto simp: find_None_iff turn_keyed_def idempotency_key_of_def\<close>)

lemma find_actor_at:
  assumes inv: "turns_inv db" and a: "a \<in> set (td_actors db)" "actor_key_of a = (t, k)"
  shows "find (actor_at t k) (td_actors db) = Some a"
proof (cases "find (actor_at t k) (td_actors db)")
  case (Some b)
  then have "b = a"
    using actor_unique [OF inv, of b a] a find_actor [OF Some] by simp
  then show ?thesis
    using Some by simp
qed (use a in \<open>auto simp: find_None_iff actor_at_def actor_key_of_def\<close>)

text \<open>What an admission that creates a turn leaves behind.\<close>

lemma created_state:
  assumes inv: "store_inv db" and ok: "begin_turn L g adm now db = Inr (TurnCreated rec, db')"
  defines "r \<equiv> new_turn_row L g adm now"
  shows "store_inv db'" "r \<in> set (td_turns db')" "materialize_turn L r = Inr rec"
    "\<exists>a \<in> set (td_actors db'). actor_key_of a = actor_of_turn r \<and> aw_active_turn_id a = Some (tw_turn_id r) \<and>
       aw_lease_until_ms a = Some (timestamp_millis (ai_deadline g))"
proof -
  obtain db0 db1 db2 db3 where st: "ensure_actor_row L (da_actor adm) now db = Inr db0"
    "recover_actor_for_admission L (da_actor adm) now db0 = Inr db1" "insert_turn_row r db1 = Inr db2"
    "update_actor (\<lambda>a. actor_at (tw_tenant_id r) (tw_actor_key r) a \<and> aw_active_turn_id a = None)
      (set_actor_lease (Some (tw_turn_id r)) (Some (da_lease_owner adm)) (Some (timestamp_millis (ai_deadline g)))
        (timestamp_millis now)) CasLost db2 = Inr db3"
    "require_turn L (tw_tenant_id r) (tw_turn_id r) db3 = Inr rec" "insert_outbox L rec None None now db3 = Inr db'"
    using ok by (cases rule: begin_turn_cases) (auto simp: r_def)
  have inv1: "store_inv db1"
    using recover_for_admission_inv [OF st(2) ensure_actor_row_inv [OF st(1) inv]] .
  obtain p where p: "db' = appended p (next_ordinal db3) db3" "materialize_turn L r = Inr rec" "store_inv db'"
    using admit_created [OF inv1 r_def [THEN meta_eq_to_obj_eq] st(3-6)] by blast
  obtain as a bs where a: "actor_at (tw_tenant_id r) (tw_actor_key r) a \<and> aw_active_turn_id a = None"
    "db3 = db2\<lparr>td_actors := as @ set_actor_lease (Some (tw_turn_id r)) (Some (da_lease_owner adm))
      (Some (timestamp_millis (ai_deadline g))) (timestamp_millis now) a # bs\<rparr>"
    using st(4) by (rule update_actor_split)
  show "store_inv db'" "materialize_turn L r = Inr rec"
    using p by simp_all
  show "r \<in> set (td_turns db')"
    using insert_turn_row_ok [OF st(3)] a(2) p(1) by (simp add: appended_def)
  show "\<exists>a \<in> set (td_actors db'). actor_key_of a = actor_of_turn r \<and> aw_active_turn_id a = Some (tw_turn_id r) \<and>
       aw_lease_until_ms a = Some (timestamp_millis (ai_deadline g))"
    using a p(1) by (auto simp: appended_def actor_at_def actor_key_of_def actor_of_turn_def set_actor_lease_def)
qed

lemma retry_finds_turn:
  assumes inv: "store_inv db" and ok: "begin_turn L g adm now db = Inr (TurnCreated rec, db')"
  shows "load_by_idempotency L (tenant_str (ai_tenant_id g)) (ai_idempotency_key g) db' = Inr (Some rec)"
proof -
  note s = created_state [OF inv ok]
  have "find (turn_keyed (tenant_str (ai_tenant_id g)) (ai_idempotency_key g)) (td_turns db') = Some (new_turn_row L g adm now)"
    using find_by_idempotency [OF _ s(2)] s(1) by (simp add: store_inv_def idempotency_key_of_def new_turn_row_def Let_def)
  then show ?thesis
    using s(3) by (simp add: load_by_idempotency_def optional_map_def)
qed

lemma retry_keeps_turn:
  assumes inv: "store_inv db" and ok: "begin_turn L g adm now db = Inr (TurnCreated rec, db')"
    and load: "actors_load L db'" and time: "now' < milliseconds (timestamp_millis (ai_deadline g))"
  shows "recover_duplicate_if_expired L rec now' db' = Inr (rec, db')"
proof -
  note s = created_state [OF inv ok]
  let ?r = "new_turn_row L g adm now"
  obtain a where a: "a \<in> set (td_actors db')" "actor_key_of a = actor_of_turn ?r" "aw_active_turn_id a = Some (tw_turn_id ?r)"
    "aw_lease_until_ms a = Some (timestamp_millis (ai_deadline g))"
    using s(4) by blast
  obtain arec where arec: "row_to_actor L a = Inr arec"
    using load a(1) by (auto simp: actors_load_def)
  have rep: "represents ?r rec"
    using materialize_turn_ok [OF s(3)] .
  have find: "find (actor_at (dt_tenant_id rec) (dt_actor_key rec)) (td_actors db') = Some a"
    using find_actor_at [of db' a] s(1) a(1,2) rep by (simp add: store_inv_def actor_of_turn_def represents_def)
  then have actor: "load_actor L (dt_tenant_id rec) (dt_actor_key rec) db' = Inr (Some arec)"
    using arec by (simp add: load_actor_def optional_map_def)
  obtain b where b: "b \<in> set (td_actors db')" "actor_key_of b = (dt_tenant_id rec, dt_actor_key rec)" "shows_actor b arec"
    using load_actor_ok [OF actor] by blast
  moreover have "b = a"
    using actor_unique [of db' b a] s(1) a(1,2) b(1,2) rep by (simp add: store_inv_def actor_of_turn_def represents_def)
  ultimately have "shows_actor a arec"
    by simp
  then have "ar_active_turn_id arec = Some (dt_turn_id rec)" "\<not> until_passed (ar_lease_until arec) now'"
    using a(3,4) rep time by (auto simp: shows_actor_def represents_def until_passed_def)
  then show ?thesis
    using actor by (simp add: recover_duplicate_if_expired_def ok_or_def)
qed
subsection \<open>Quarantine\<close>

lemma quarantine_grows:
  assumes inv: "full_inv db" and step: "store_step L db db'"
  shows "set (td_quarantine db) \<subseteq> set (td_quarantine db')"
proof -
  have same: "td_quarantine db' = td_quarantine db \<Longrightarrow> ?thesis"
    by simp
  have extended: "outbox_extended db db' \<Longrightarrow> ?thesis"
    by (simp add: outbox_extended_def)
  have ledger: "ledger_only m \<Longrightarrow> m h db = (r, h', db') \<Longrightarrow> ?thesis" for m :: "'b store_call" and h r h'
    unfolding ledger_only_def by (metis order_refl snd_conv turn_db.select_convs(7) turn_db.surjective turn_db.update_convs(8))
  show ?thesis
    using step
  proof cases
    case step_begin
    then show ?thesis
      by (intro extended begin_turn_extends)
  next
    case step_transition
    then show ?thesis
      by (intro extended) (auto simp: store_transition_def split: if_splits intro: transition_extends)
  next
    case step_result
    then show ?thesis
      by (intro extended) (auto simp: store_transition_with_result_def split: if_splits intro: transition_extends)
  next
    case step_recover
    then show ?thesis
      by (intro extended) (auto simp: recover_expired_actor_leases_def Let_def intro: recover_actor_turns_extends)
  next
    case step_claim
    then show ?thesis
      using claim_cases by fastforce
  next
    case step_release
    then show ?thesis
      using release_cases by fastforce
  next
    case step_renew
    then show ?thesis
      using renew_cases by fastforce
  next
    case step_quarantine
    then show ?thesis
      by (rule quarantine_cases) auto
  next
    case step_revalidate
    then show ?thesis
      using ledger [OF revalidate_ledger_only] by blast
  next
    case step_append
    then show ?thesis
      using ledger [OF ledger_only_on_ledger] by blast
  next
    case step_verify
    then show ?thesis
      using ledger [OF ledger_only_on_ledger] by blast
  next
    case (step_complete uuid self t i w k token now h completion h')
    show ?thesis
      using complete_outbox_cases [OF step_complete]
    proof
      assume "\<exists>snapshot l c. complete_in_tx L t i w k token now snapshot (db\<lparr>td_ledger := l\<rparr>) = Inr (c, db') \<and> completion = Inr c"
      then obtain snapshot l c where "complete_in_tx L t i w k token now snapshot (db\<lparr>td_ledger := l\<rparr>) = Inr (c, db')"
        by blast
      then show ?thesis
        using complete_in_tx_cases [of "db\<lparr>td_ledger := l\<rparr>"] inv by (fastforce simp: head_delivered_def)
    qed auto
  qed
qed

lemma quarantine_run_grows:
  assumes "(store_step L)\<^sup>*\<^sup>* db db'" and "full_inv db"
  shows "set (td_quarantine db) \<subseteq> set (td_quarantine db')"
  using assms(1)
proof (induction rule: rtranclp_induct)
  case (step y z)
  then show ?case
    using store.run_inv [OF step.hyps(1) assms(2)] quarantine_grows by blast
qed simp

lemma quarantined_blocks:
  assumes inv: "full_inv db" and q: "q \<in> set (td_quarantine db)"
  shows "\<exists>before p after. td_outbox db = before @ p # after \<and> outbox_key p = quarantine_key q \<and> ow_status p = ''pending'' \<and>
    (\<forall>s \<in> set after. ow_tenant_id s = qw_tenant_id q \<longrightarrow> \<not> delivered s)"
proof -
  obtain p where p: "p \<in> set (td_outbox db)" "outbox_key p = quarantine_key q" "ow_status p = ''pending''"
    using inv q by (auto simp: full_inv_def quarantine_inv_def)
  then obtain before after where split: "td_outbox db = before @ p # after"
    by (metis split_list)
  have "sorted_wrt (\<lambda>r s. ow_tenant_id r = ow_tenant_id s \<longrightarrow> delivered s \<longrightarrow> delivered r) (td_outbox db)"
    using full_outbox_inv [OF inv] by (simp add: outbox_inv_def)
  then have "\<forall>s \<in> set after. ow_tenant_id s = qw_tenant_id q \<longrightarrow> \<not> delivered s"
    using p(2,3) unfolding split by (auto simp: sorted_wrt_append outbox_key_def quarantine_key_def delivered_def)
  then show ?thesis
    using split p(2,3) by blast
qed
subsection \<open>A quarantined event\<close>

definition demo_failure :: outbox_dispatch_failure where
  "demo_failure = \<lparr>df_phase = PhaseRevalidate, df_class = FailurePermanent, df_code = StoreIntegrity, df_message = ''genesis''\<rparr>"

definition demo_quarantine_row :: quarantine_row where
  "demo_quarantine_row = new_quarantine_row (demo_claim True) (PrincipalId ''agent-1'') demo_failure False ''worker-1'' ''outbox-lease-u1'' 0"

definition demo_released_row :: outbox_row where
  "demo_released_row = drop_lease 0 ''genesis'' 0 (demo_leased_row True)"

definition demo_quarantined :: turn_db where
  "demo_quarantined = (demo_leased True)\<lparr>td_quarantine := [demo_quarantine_row], td_outbox := [demo_released_row]\<rparr>"
lemma demo_quarantine_fields:
  "demo_quarantine_row =
     \<lparr>qw_tenant_id = ''acme'', qw_outbox_id = ''outbox-h'', qw_commit_ordinal = 1, qw_principal_id = ''agent-1'',
      qw_failure_class = ''permanent'', qw_failure_code = code_as_str StoreIntegrity, qw_failure_phase = ''revalidate'',
      qw_error_message = ''genesis'', qw_attempts = 1, qw_lease_owner = ''worker-1'', qw_lease_token = ''outbox-lease-u1'',
      qw_payload_hash = ''sha256:h'', qw_quarantined_at_ms = 0\<rparr>"
  by (simp add: demo_quarantine_row_def new_quarantine_row_def demo_claim_def outbox_record_of_def demo_leased_row_def take_lease_def
      demo_event_row_fields demo_order_def demo_failure_def)

lemma demo_quarantine_insert:
  "insert_quarantine_row demo_quarantine_row (demo_leased True) = Inr ((demo_leased True)\<lparr>td_quarantine := [demo_quarantine_row]\<rparr>)"
proof -
  have rows: "tenant_rows ''acme'' (demo_leased True) = [(demo_leased_row True, demo_order)]"
    by (simp add: tenant_rows_def List.map_filter_def demo_leased_def demo_leased_row_def take_lease_def demo_event_row_fields
        order_of_def demo_admitted_def demo_store_def demo_order_def)
  have "quarantine_guard demo_quarantine_row (demo_leased True)"
    by (simp add: quarantine_guard_def demo_quarantine_fields rows demo_leased_row_def take_lease_def demo_event_row_fields outbox_at_def
        demo_order_def sql_min_def delivered_def) (simp add: demo_leased_def demo_admitted_def demo_turn_fields turn_at_def)
  moreover have "quarantine_checks demo_quarantine_row"
    by (simp add: quarantine_checks_def demo_quarantine_fields)
  moreover have "td_quarantine (demo_leased True) = []"
    by (simp add: demo_leased_def demo_admitted_def demo_store_def)
  ultimately show ?thesis
    by (simp add: insert_quarantine_row_def)
qed

lemma demo_quarantined_loads:
  "\<exists>rec. require_outbox demo_libs ''acme'' ''outbox-h'' demo_quarantined = Inr rec \<and> ob_status rec = OutboxPending \<and>
     ob_lease_owner rec = None \<and> ob_lease_token rec = None \<and> ob_lease_until rec = None \<and> ob_last_error rec = Some ''genesis''"
proof -
  have payload: "pointer_str [''state''] (demo_payload True) = Some (state_name WaitingApproval)"
    "pointer_str [''schema''] (demo_payload True) = Some TURN_OUTBOX_SCHEMA"
    "pointer_str [''outbox_id''] (demo_payload True) = Some ''outbox-h''"
    "pointer_str [''tenant_id''] (demo_payload True) = Some ''acme''"
    "pointer_str [''turn_id''] (demo_payload True) = Some ''turn-h''"
    "Option.bind (json_pointer [''revision''] (demo_payload True)) as_u64 = Some 0"
    by (simp_all add: demo_payload_def outbox_payload_def demo_record_def restore_def pointer_str_def)
  have "materialize_outbox demo_libs (demo_released_row, demo_order, None) =
      Inr (outbox_record_of demo_released_row demo_order None (demo_payload True) OutboxPending)"
    using payload
    by (simp add: materialize_outbox_def demo_released_row_def drop_lease_def demo_leased_row_def take_lease_def demo_event_row_fields
        verify_stored_hash_def parse_json_def checked_u64_def verify_outbox_bindings_def verify_json_text_binding_def
        outbox_event_type_matches_def deterministic_outbox_id_def demo_order_def parse_outbox_status_def
        validate_outbox_status_bindings_def status_shape_ok_def evidence_shape_ok_def before_ms_def parse_order_origin_def
        parse_timestamp_def optional_map_def outbox_record_of_def)
  then show ?thesis
    by (simp add: require_outbox_def load_outbox_def demo_quarantined_def demo_released_row_def drop_lease_def demo_leased_row_def
        take_lease_def demo_event_row_fields outbox_at_def raw_outbox_of_def order_of_def evidence_of_def demo_leased_def
        demo_admitted_def demo_store_def optional_map_def demo_order_def outbox_record_of_def)
qed

lemma demo_quarantines: "\<exists>rec. quarantine_outbox demo_libs (demo_claim True) demo_failure False 0 (demo_leased True) = Inr (rec, demo_quarantined)"
proof -
  have claim: "ob_lease_owner (demo_claim True) = Some ''worker-1''" "ob_lease_token (demo_claim True) = Some ''outbox-lease-u1''"
    "ob_tenant_id (demo_claim True) = ''acme''" "ob_outbox_id (demo_claim True) = ''outbox-h''" "ob_commit_ordinal (demo_claim True) = 1"
    "ob_attempts (demo_claim True) = 1"
    by (simp_all add: demo_claim_def outbox_record_of_def demo_leased_row_def take_lease_def demo_event_row_fields demo_order_def)
  have principal: "claimed_principal_id (demo_claim True) = Inr (PrincipalId ''agent-1'')"
    by (simp add: claimed_principal_id_def demo_claim_def outbox_record_of_def demo_payload_def outbox_payload_def demo_record_def
        pointer_str_def)
  have held: "check_held_lease (demo_claim True) ''outbox-h'' ''worker-1'' ''outbox-lease-u1'' 0 = Inr ()"
    by (simp add: check_held_lease_def none_or_passed_def demo_claim_def outbox_record_of_def demo_leased_row_def take_lease_def
        demo_event_row_fields) (simp add: seconds_def)
  have update: "update_outbox (leased_row ''acme'' ''outbox-h'' ''worker-1'' ''outbox-lease-u1'' 0) (drop_lease 0 ''genesis'' 0)
      ((demo_leased True)\<lparr>td_quarantine := [demo_quarantine_row]\<rparr>) = Inr (1, demo_quarantined)"
    by (simp add: update_outbox_def leased_row_def outbox_at_def demo_leased_def demo_leased_row_def take_lease_def demo_event_row_fields
        demo_quarantined_def demo_released_row_def drop_lease_def delivery_guard_fires_def update_where_def delivered_def)
  have "materialize_quarantine demo_libs demo_quarantine_row = Inr qrec \<Longrightarrow>
      load_quarantine_record demo_libs ''acme'' ''outbox-h'' demo_quarantined = Inr (Some qrec)" for qrec
    by (simp add: load_quarantine_record_def demo_quarantined_def quarantine_at_def demo_quarantine_fields optional_map_def)
  moreover have "\<exists>qrec. materialize_quarantine demo_libs demo_quarantine_row = Inr qrec"
    by (simp add: materialize_quarantine_def demo_quarantine_fields checked_positive_u64_def checked_nonnegative_u64_def parse_timestamp_def)
  ultimately obtain qrec where qrec: "load_quarantine_record demo_libs ''acme'' ''outbox-h'' demo_quarantined = Inr (Some qrec)"
    by blast
  have "outbox_is_quarantined ''acme'' ''outbox-h'' demo_quarantined"
    by (simp add: outbox_is_quarantined_def demo_quarantined_def demo_quarantine_fields)
  then show ?thesis
    using demo_quarantined_loads demo_leased_head [of True] demo_leased_loads [of True] demo_leased_facts(3) [of True]
      demo_quarantine_insert qrec update held principal
    by (auto simp: quarantine_outbox_def claim i64_max_def demo_failure_def demo_quarantine_row_def cong: and_then_cong)
qed

end
