(* ===== verification/Store_Properties.thy ===== *)
theory Store_Properties
  imports Store_Retry
begin

text \<open>
  The properties of the turn store and its outbox, each with an instance on the concrete run of
  \<open>Store_Demo\<close>: reachable states, admission, the log of a turn, claims and leases, delivery.
\<close>

text \<open>The run: a turn is admitted at time 0 and its event is claimed at once for a minute.\<close>

lemma demo_claimed:
  "\<exists>rec db out db'. begin_turn demo_libs demo_ingress (demo_admission approval) 0 demo_store = Inr (TurnCreated rec, db) \<and>
     claim_next_outbox demo_libs ''u1'' ''acme'' ''worker-1'' 0 (seconds 60) db = Inr (Some out, db') \<and>
     td_quarantine db = [] \<and> full_inv db \<and> reaches empty_store (store_step demo_libs) db"
  using demo_admits demo_claims demo_admitted_facts by (fastforce simp: demo_admitted_def demo_store_def)

subsection \<open>Claims and leases\<close>

text \<open>
  The queue of a tenant is first in, first out: a claim that succeeds leases exactly the oldest
  row of the tenant that is not delivered yet (every row of the tenant before it is delivered) to
  the caller until \<open>now\<close> plus the duration, and it changes no other row.
\<close>

theorem claim_is_fifo:
  assumes "outbox_inv db" and "claim_next_outbox L uuid t w now d db = Inr (Some rec, db')"
  shows "\<exists>before r after.
    td_outbox db = before @ r # after \<and> ow_tenant_id r = t \<and> \<not> delivered r \<and>
    (\<forall>s \<in> set before. ow_tenant_id s = t \<longrightarrow> delivered s) \<and>
    td_outbox db' = before @ take_lease w (''outbox-lease-'' @ uuid) (timestamp_millis (now + d)) (timestamp_millis now) r # after \<and>
    ob_outbox_id rec = ow_outbox_id r \<and> ob_lease_owner rec = Some w \<and> db' = db\<lparr>td_outbox := td_outbox db'\<rparr>"
proof -
  let ?f = "take_lease w (''outbox-lease-'' @ uuid) (timestamp_millis (now + d)) (timestamp_millis now)"
  obtain i where i: "tenant_outbox_head t db = Inr (Some i)"
    "db' = db\<lparr>td_outbox := update_where (claimable_row t i (timestamp_millis now)) ?f (td_outbox db)\<rparr>"
    "length (filter (claimable_row t i (timestamp_millis now)) (td_outbox db)) = 1"
    "require_outbox L t i db' = Inr rec" "ob_lease_owner rec = Some w"
    using claim_cases [OF assms(2)] by auto
  obtain r where r: "queue_head t db = Some r" "ow_outbox_id r = i"
    using i(1) tenant_head_fifo [OF assms(1)] by auto
  obtain before after where split: "td_outbox db = before @ r # after" "ow_tenant_id r = t" "\<not> delivered r"
    "\<forall>s \<in> set before. \<not> (ow_tenant_id s = t \<and> \<not> delivered s)"
    using find_split [OF r(1) [unfolded queue_head_def]] by auto
  have "td_outbox db' = before @ ?f r # after"
    using update_where_at_key [OF outbox_inv_keys(2) [OF assms(1)] split(1), of "claimable_row t i (timestamp_millis now)" ?f]
      i(2,3) r(2) split(2) by (simp add: claimable_row_def outbox_at_def outbox_key_def)
  moreover have "ob_outbox_id rec = ow_outbox_id r"
    using require_outbox_ok [OF i(4)] r(2)
    by (auto simp: outbox_record_of_def outbox_at_def dest!: find_split)
  ultimately show ?thesis
    using split i(2,5) by (intro exI [of _ before] exI [of _ r] exI [of _ after]) auto
qed

theorem claim_is_fifo_witness:
  "\<exists>rec db out db' before r after.
     begin_turn demo_libs demo_ingress (demo_admission False) 0 demo_store = Inr (TurnCreated rec, db) \<and>
     claim_next_outbox demo_libs ''u1'' ''acme'' ''worker-1'' 0 (seconds 60) db = Inr (Some out, db') \<and>
     td_outbox db = before @ r # after \<and> \<not> delivered r \<and> ob_outbox_id out = ow_outbox_id r"
proof -
  obtain rec db out db' where run: "begin_turn demo_libs demo_ingress (demo_admission False) 0 demo_store = Inr (TurnCreated rec, db)"
    "claim_next_outbox demo_libs ''u1'' ''acme'' ''worker-1'' 0 (seconds 60) db = Inr (Some out, db')" "full_inv db"
    using demo_claimed by blast
  then show ?thesis
    using claim_is_fifo [OF full_outbox_inv [OF run(3)] run(2)] by blast
qed

text \<open>
  C3. A live lease excludes every other worker: once a claim has leased the head of a tenant, any
  further claim for that tenant before the lease runs out, by whichever worker, takes nothing and
  changes nothing.
\<close>

theorem claim_is_exclusive:
  assumes "claim_next_outbox L uuid t w now d db = Inr (Some rec, db')"
    and "timestamp_millis now' < timestamp_millis (now + d)"
    and "validate_lease_identity ''lease_owner'' w' = Inr ()" and "valid_lease_duration d'"
  shows "claim_next_outbox L uuid' t w' now' d' db' = Inr (None, db')"
proof -
  obtain i where i: "tenant_outbox_head t db' = Inr (Some i)" "require_outbox L t i db' = Inr rec"
    "ob_status rec = OutboxLeased"
    "map_option timestamp_millis (ob_lease_until rec) = Some (timestamp_millis (now + d))"
    "validate_no_extra_outbox_triggers db = Inr ()" "td_ledger db' = td_ledger db"
    using claim_cases [OF assms(1)] by auto
  obtain u where u: "ob_lease_until rec = Some u" "timestamp_millis u = timestamp_millis (now + d)"
    using i(4) by auto
  have "\<not> u \<le> now'"
    using assms(2) u(2) zdiv_mono1 [of u now' 1000000] by (auto simp: timestamp_millis_def)
  then have "\<not> claim_ready rec now'"
    using i(3) u(1) by (simp add: claim_ready_def until_passed_def)
  then show ?thesis
    using assms(3,4) i triggers_ledger_cong [OF i(6)] by (simp add: claim_next_outbox_def Let_def)
qed

theorem claim_is_exclusive_witness:
  "\<exists>db out db'. claim_next_outbox demo_libs ''u1'' ''acme'' ''worker-1'' 0 (seconds 60) db = Inr (Some out, db') \<and>
     claim_next_outbox demo_libs ''u2'' ''acme'' ''worker-1'' (seconds 30) (seconds 60) db' = Inr (None, db')"
proof -
  obtain db out db' where run: "claim_next_outbox demo_libs ''u1'' ''acme'' ''worker-1'' 0 (seconds 60) db = Inr (Some out, db')"
    using demo_claimed by blast
  have "timestamp_millis (seconds 30) < timestamp_millis (0 + seconds 60)"
    by (simp add: timestamp_millis_def seconds_def)
  then show ?thesis
    using run claim_is_exclusive [OF run _ demo_worker(1,4)] by blast
qed

text \<open>
  C20. A worker whose lease was taken over is fenced: after a claim under a new token, releasing or
  renewing the row with any other token is refused and changes nothing, whatever the clock says
  after the claim.
\<close>

theorem stale_worker_fenced:
  assumes claim: "claim_next_outbox L uuid t w' now d db = Inr (Some rec, db')"
    and stale: "token \<noteq> ''outbox-lease-'' @ uuid" and time: "now \<le> now'"
    and ids: "validate_lease_identity ''lease_owner'' w = Inr ()" "validate_lease_identity ''lease_token'' token = Inr ()"
    and retry: "length error \<le> MAX_OUTBOX_ERROR_BYTES" "now' \<le> available_at"
    and lease: "valid_lease_duration d'" "tl_datetime_ok L (now' + d')"
    and free: "\<not> outbox_is_quarantined t (ob_outbox_id rec) db"
  shows "release_outbox L t (ob_outbox_id rec) w token now' available_at error db' = Inl (OutboxLeaseLost (ob_outbox_id rec) w) \<and>
    renew_outbox_lease L t (ob_outbox_id rec) w token now' d' db' = Inl (OutboxLeaseLost (ob_outbox_id rec) w)"
proof -
  obtain i where i: "tenant_outbox_head t db' = Inr (Some i)" "require_outbox L t i db' = Inr rec"
    "ob_lease_token rec = Some (''outbox-lease-'' @ uuid)" "timestamp_millis (ob_updated_at rec) = timestamp_millis now"
    "validate_no_extra_outbox_triggers db = Inr ()" "td_ledger db' = td_ledger db" "td_quarantine db' = td_quarantine db"
    using claim_cases [OF claim] by auto
  have rec: "ob_outbox_id rec = i" "ob_updated_at rec = milliseconds (timestamp_millis now)"
    using require_outbox_ok [OF i(2)] i(4)
    by (auto simp: outbox_record_of_def outbox_at_def dest!: find_split)
  have "ob_updated_at rec \<le> now'"
    using time milliseconds_le [of "timestamp_millis now" now] by (simp add: rec(2))
  then have "check_held_lease rec i w token now' = Inl (OutboxLeaseLost i w)"
    using i(3) stale by (simp add: check_held_lease_def)
  then show ?thesis
    using ids retry lease i triggers_ledger_cong [OF i(6)] free
    by (simp add: release_outbox_def renew_outbox_lease_def Let_def rec(1) outbox_is_quarantined_def)
qed

theorem stale_worker_fenced_witness:
  "\<exists>db out db'. claim_next_outbox demo_libs ''u1'' ''acme'' ''worker-1'' 0 (seconds 60) db = Inr (Some out, db') \<and>
     release_outbox demo_libs ''acme'' (ob_outbox_id out) ''worker-1'' ''outbox-lease-u0'' 1 1 ''late'' db' =
       Inl (OutboxLeaseLost (ob_outbox_id out) ''worker-1'') \<and>
     renew_outbox_lease demo_libs ''acme'' (ob_outbox_id out) ''worker-1'' ''outbox-lease-u0'' 1 (seconds 60) db' =
       Inl (OutboxLeaseLost (ob_outbox_id out) ''worker-1'')"
proof -
  obtain db out db' where run: "claim_next_outbox demo_libs ''u1'' ''acme'' ''worker-1'' 0 (seconds 60) db = Inr (Some out, db')"
    "td_quarantine db = []"
    using demo_claimed by blast
  have "length ''late'' \<le> MAX_OUTBOX_ERROR_BYTES" "\<not> outbox_is_quarantined ''acme'' (ob_outbox_id out) db"
    using run(2) by (simp_all add: MAX_OUTBOX_ERROR_BYTES_def outbox_is_quarantined_def)
  then show ?thesis
    using run(1) stale_worker_fenced [OF run(1), where token = "''outbox-lease-u0''" and now' = 1 and error = "''late''" and available_at = 1
        and d' = "seconds 60" and w = "''worker-1''"] demo_worker
    by (intro exI [of _ db] exI [of _ out] exI [of _ db']) simp
qed
subsection \<open>Reachable states\<close>

text \<open>The claimed run again, as a run of the step relation with its one turn.\<close>

lemma demo_run:
  "\<exists>db db' r. reaches empty_store (store_step demo_libs) db \<and> store_step demo_libs db db' \<and> r \<in> set (td_turns db) \<and> live_turn r"
proof -
  have "store_step demo_libs (demo_admitted False) (demo_leased False)"
    using demo_claims by (rule store_step.step_claim)
  moreover have "demo_turn False \<in> set (td_turns (demo_admitted False))"
    by (simp add: demo_admitted_def)
  moreover have "live_turn (demo_turn False)"
    using live_turn_state [of "demo_turn False" Accepted] by (simp add: demo_turn_fields)
  ultimately show ?thesis
    using demo_admitted_facts(4) by blast
qed

text \<open>
  C18. An actor works on one turn at a time: in every state that the store can reach, two live turns
  of the same actor are the same turn.
\<close>

theorem one_live_turn:
  assumes "reaches empty_store (store_step L) db"
    and "r \<in> set (td_turns db)" "live_turn r" and "r' \<in> set (td_turns db)" "live_turn r'"
    and "actor_of_turn r' = actor_of_turn r"
  shows "r' = r"
proof -
  have inv: "turns_inv db"
    using store.reachable_inv [OF assms(1)] by (simp add: full_inv_def store_inv_def)
  obtain a a' where a: "a \<in> set (td_actors db)" "holds_turn a r" "a' \<in> set (td_actors db)" "holds_turn a' r'"
    using turns_inv_live [OF inv] assms(2-5) by blast
  then have "a' = a"
    using actor_unique [OF inv] assms(6) by (simp add: holds_turn_def)
  then have "tw_turn_id r' = tw_turn_id r"
    using a(2,4) by (simp add: holds_turn_def)
  then have "turn_key r' = turn_key r"
    using assms(6) by (simp add: turn_key_def actor_of_turn_def)
  then show ?thesis
    by (rule turns_inv_key [OF inv assms(4,2)])
qed

theorem one_live_turn_witness:
  "\<exists>db r. reaches empty_store (store_step demo_libs) db \<and> r \<in> set (td_turns db) \<and> live_turn r \<and>
     (\<forall>r' \<in> set (td_turns db). live_turn r' \<longrightarrow> actor_of_turn r' = actor_of_turn r \<longrightarrow> r' = r)"
proof -
  obtain db r where "reaches empty_store (store_step demo_libs) db" "r \<in> set (td_turns db)" "live_turn r"
    using demo_run by blast
  then show ?thesis
    using one_live_turn by (intro exI [of _ db] exI [of _ r]) blast
qed

text \<open>
  C6. The outbox is a write-ahead log of the state machine: in every reachable state, the outbox
  rows of a turn, in commit order, name the states of one run of the state machine that starts in
  \<open>Accepted\<close> or \<open>WaitingApproval\<close>, takes only legal transitions and ends in the turn's current
  state, with one row for every revision from 0 to the current one.
\<close>

theorem turn_log_is_run:
  assumes "reaches empty_store (store_step L) db" and "r \<in> set (td_turns db)"
  shows "\<exists>states. map ow_event_type (turn_log db r) = map state_event_type states \<and>
    map ow_revision (turn_log db r) = [0..tw_revision r] \<and> successively can_transition_to states \<and>
    hd states \<in> {Accepted, WaitingApproval} \<and> state_name (last states) = tw_state r"
proof -
  have inv: "store_inv db"
    using store.reachable_inv [OF assms(1)] by (simp add: full_inv_def)
  show ?thesis
    using turn_log_states [OF inv assms(2)] turn_log_revisions [OF inv assms(2)] by blast
qed

theorem turn_log_is_run_witness:
  "\<exists>db r. reaches empty_store (store_step demo_libs) db \<and> r \<in> set (td_turns db) \<and>
     map ow_revision (turn_log db r) = [0..tw_revision r]"
  using demo_run turn_log_is_run by meson

text \<open>
  Turns only move forward: along every run of the store from a reachable state, a turn keeps
  its identity, and it is either unchanged or it was live before and has a higher revision now. In
  particular a finished turn never changes again.
\<close>

theorem turns_only_advance:
  assumes "reaches empty_store (store_step L) db" and "(store_step L)\<^sup>*\<^sup>* db db'" and "r \<in> set (td_turns db)"
  shows "\<exists>r' \<in> set (td_turns db'). turn_key r' = turn_key r \<and> actor_of_turn r' = actor_of_turn r \<and>
    (r' = r \<or> live_turn r \<and> tw_revision r < tw_revision r')"
proof -
  have "turns_advance db db'"
    using store_run_advance [OF assms(2) store.reachable_inv [OF assms(1)]] .
  then obtain r' where "r' \<in> set (td_turns db')" "turn_advance\<^sup>*\<^sup>* r r'"
    using assms(3) by (auto simp: turns_advance_def)
  then show ?thesis
    using advance_effect by blast
qed

theorem turns_only_advance_witness:
  "\<exists>db db' r. store_step demo_libs db db' \<and> r \<in> set (td_turns db) \<and>
     (\<exists>r' \<in> set (td_turns db'). turn_key r' = turn_key r \<and> actor_of_turn r' = actor_of_turn r \<and>
       (r' = r \<or> live_turn r \<and> tw_revision r < tw_revision r'))"
proof -
  obtain db db' r where run: "reaches empty_store (store_step demo_libs) db" "store_step demo_libs db db'" "r \<in> set (td_turns db)"
    using demo_run by blast
  then show ?thesis
    using turns_only_advance [OF run(1) r_into_rtranclp [of "store_step demo_libs", OF run(2)] run(3)] by blast
qed
text \<open>
  C5. What is delivered is verified, in order: in every reachable state the delivered rows of a
  tenant are a prefix of its queue in commit order, and each of them has evidence of a verified
  commit under the event it was delivered with, by a 32-byte signer key.
\<close>

theorem delivered_is_verified_prefix:
  assumes "reaches empty_store (store_step L) db" and "td_outbox db = before @ r # after" and "delivered r"
  shows "(\<forall>s \<in> set before. ow_tenant_id s = ow_tenant_id r \<longrightarrow> delivered s) \<and>
    (\<exists>v \<in> set (td_verified db). vw_tenant_id v = ow_tenant_id r \<and> vw_outbox_id v = ow_outbox_id r \<and>
       ow_ledger_event_id r = Some (vw_ledger_event_id v) \<and> length (vw_signer_public_key v) = 32)"
proof -
  have inv: "full_inv db"
    using store.reachable_inv [OF assms(1)] .
  have "\<forall>s \<in> set before. ow_tenant_id s = ow_tenant_id r \<longrightarrow> delivered s"
    using full_outbox_inv [OF inv] assms(2,3) by (auto simp: outbox_inv_def sorted_wrt_append)
  moreover obtain v where "v \<in> set (td_verified db)" "evidence_key v = outbox_key r" "ow_ledger_event_id r = Some (vw_ledger_event_id v)"
    "length (vw_signer_public_key v) = 32"
    using inv assms(2,3) unfolding full_inv_def evidence_inv_def by auto
  ultimately show ?thesis
    by (auto simp: evidence_key_def outbox_key_def)
qed

theorem delivered_is_verified_prefix_witness:
  "reaches empty_store (store_step demo_libs) demo_delivered \<and> td_outbox demo_delivered = [demo_delivered_row] \<and>
     (\<exists>v \<in> set (td_verified demo_delivered). ow_ledger_event_id demo_delivered_row = Some (vw_ledger_event_id v))"
proof -
  have row: "td_outbox demo_delivered = [] @ demo_delivered_row # []" "delivered demo_delivered_row"
    by (simp_all add: demo_delivered_def demo_delivered_row_fields delivered_def)
  show ?thesis
    using delivered_is_verified_prefix [OF demo_delivered_reachable row] demo_delivered_reachable row(1) by auto
qed

text \<open>
  C36. Every row that the store holds in a reachable state can be read back: turns, actors and
  outbox rows all pass the checks of their loaders, so no operation fails on stored data.
\<close>

theorem every_row_loads:
  assumes "turn_laws L" and "reaches empty_store (store_step L) db"
  shows "(\<forall>r \<in> set (td_turns db). \<exists>rec. materialize_turn L r = Inr rec) \<and>
    (\<forall>a \<in> set (td_actors db). \<exists>rec. row_to_actor L a = Inr rec) \<and>
    (\<forall>p \<in> set (td_outbox db). \<exists>rec. require_outbox L (ow_tenant_id p) (ow_outbox_id p) db = Inr rec)"
proof -
  have inv: "full_inv db" "rows_load L db"
    using reachable_loads [OF assms] by simp_all
  have "\<exists>rec. require_outbox L (ow_tenant_id p) (ow_outbox_id p) db = Inr rec" if p: "p \<in> set (td_outbox db)" for p
  proof -
    obtain c rec where "order_of db p = Some c" "materialize_outbox L (p, c, evidence_of db p) = Inr rec"
      using inv(2) p by (auto simp: rows_load_def outbox_loads_def)
    then show ?thesis
      using require_outbox_row [OF full_outbox_inv [OF inv(1)] p] by (simp add: outbox_key_def)
  qed
  then show ?thesis
    using inv(2) by (simp add: rows_load_def turns_load_def actors_load_def)
qed

theorem every_row_loads_witness:
  "\<exists>db r. reaches empty_store (store_step demo_libs) db \<and> r \<in> set (td_turns db) \<and> (\<exists>rec. materialize_turn demo_libs r = Inr rec)"
proof -
  obtain db r where "reaches empty_store (store_step demo_libs) db" "r \<in> set (td_turns db)"
    using demo_run by blast
  then show ?thesis
    using every_row_loads [OF demo_laws] by blast
qed

text \<open>
  The scheduler's query and the head rule of the claim agree: in every reachable state a tenant
  is listed as ready exactly when the oldest undelivered row of its queue is due, that is
  available, not quarantined and not under a live lease.
\<close>

theorem ready_tenants_are_due_heads:
  assumes "reaches empty_store (store_step L) db"
  shows "distinct (ready_tenants ms db) \<and>
    (t \<in> set (ready_tenants ms db) \<longleftrightarrow> (\<exists>r. queue_head t db = Some r \<and> due_row t ms db r))"
  using ready_tenants_iff ready_tenants_distinct full_outbox_inv [OF store.reachable_inv [OF assms]] by blast

theorem ready_tenants_are_due_heads_witness:
  "reaches empty_store (store_step demo_libs) (demo_admitted False) \<and> ''acme'' \<in> set (ready_tenants 0 (demo_admitted False))"
  using ready_tenants_are_due_heads [OF demo_admitted_facts(4)] demo_head [of False] demo_admitted_facts(4) by blast

text \<open>
  C23. Delivery does not get stuck on a listed tenant: in every reachable state with the store's
  triggers intact, a claim for a tenant that the scheduler lists as ready gives the caller the
  lease of the head row.
\<close>

theorem ready_tenant_is_claimed:
  assumes laws: "turn_laws L" and run: "reaches empty_store (store_step L) db"
    and triggers: "validate_no_extra_outbox_triggers db = Inr ()" and ready: "t \<in> set (ready_tenants (timestamp_millis now) db)"
    and owner: "validate_lease_identity ''lease_owner'' w = Inr ()" and duration: "valid_lease_duration d"
    and time: "tl_datetime_ok L now" "tl_datetime_ok L (now + d)" and attempts: "\<forall>r \<in> set (td_outbox db). ow_attempts r < i64_max"
  shows "\<exists>r rec db'. queue_head t db = Some r \<and> claim_next_outbox L uuid t w now d db = Inr (Some rec, db') \<and>
    ob_outbox_id rec = ow_outbox_id r \<and> ob_lease_owner rec = Some w"
proof -
  note inv = reachable_loads [OF laws run]
  obtain r where r: "queue_head t db = Some r" "due_row t (timestamp_millis now) db r"
    using ready ready_tenants_iff [OF full_outbox_inv [OF inv(1)]] by blast
  have "ow_attempts r < i64_max"
    using attempts find_split [OF r(1) [unfolded queue_head_def]] by auto
  then show ?thesis
    using claim_gives_head [OF laws inv triggers r owner duration time] r(1) by blast
qed

theorem ready_tenant_is_claimed_witness:
  "\<exists>r rec db'. queue_head ''acme'' (demo_admitted False) = Some r \<and>
     claim_next_outbox demo_libs ''u1'' ''acme'' ''worker-1'' 0 (seconds 60) (demo_admitted False) = Inr (Some rec, db') \<and>
     ob_outbox_id rec = ow_outbox_id r \<and> ob_lease_owner rec = Some ''worker-1''"
proof -
  have ready: "''acme'' \<in> set (ready_tenants (timestamp_millis 0) (demo_admitted False))"
    using ready_tenants_iff [OF full_outbox_inv [OF demo_admitted_facts(1)]] demo_head [of False] by fastforce
  have "\<forall>r \<in> set (td_outbox (demo_admitted False)). ow_attempts r < i64_max"
    by (simp add: demo_admitted_def demo_event_row_fields i64_max_def)
  then show ?thesis
    using ready_tenant_is_claimed [OF demo_laws demo_admitted_facts(4,3) ready demo_worker(1,4)] by simp
qed
subsection \<open>Delivery\<close>

text \<open>
  C1. Delivery is verified: a completion that reports a delivery marks exactly the oldest
  undelivered row of the tenant, which the caller holds under a live lease, and at that moment the
  ledger holds the event named by the commit token, canonically signed under the token's key, with
  the event type and the payload of that row.
\<close>

theorem completion_is_verified:
  assumes run: "reaches empty_store (store_step L) db"
    and ok: "complete_outbox L uuid self t i w k commit now h db = (Inr CompletionDelivered, h', db')"
  shows "\<exists>before r after.
    td_outbox db = before @ r # after \<and> outbox_key r = (t, i) \<and> leased_row t i w k (timestamp_millis now) r \<and>
    (\<forall>s \<in> set before. ow_tenant_id s = t \<longrightarrow> delivered s) \<and>
    td_outbox db' = before @ deliver_row (vc_event_id commit) (timestamp_millis now) r # after \<and>
    backed_by L r commit (td_ledger db')"
proof -
  obtain snapshot l where tx: "complete_in_tx L t i w k commit now snapshot (db\<lparr>td_ledger := l\<rparr>) = Inr (CompletionDelivered, db')"
    using complete_outbox_tx [OF ok] by blast
  have inv: "full_inv (db\<lparr>td_ledger := l\<rparr>)"
    using store.reachable_inv [OF run] by simp
  obtain r where r: "r \<in> set (td_outbox db)" "outbox_key r = (t, i)" "backed_by L r commit l"
    using complete_in_tx_backed [OF inv tx] by auto
  obtain v where "head_delivered t i w k (vc_event_id commit) (timestamp_millis now) v (db\<lparr>td_ledger := l\<rparr>) db'"
    using complete_in_tx_cases [OF inv tx] by auto
  then obtain before s after where s: "td_outbox db = before @ s # after" "outbox_key s = (t, i)"
    "leased_row t i w k (timestamp_millis now) s" "\<forall>s \<in> set before. ow_tenant_id s = t \<longrightarrow> delivered s"
    "td_outbox db' = before @ deliver_row (vc_event_id commit) (timestamp_millis now) s # after" "td_ledger db' = l"
    by (auto simp: head_delivered_def)
  have "s = r"
    using outbox_unique [OF full_outbox_inv [OF store.reachable_inv [OF run]], of s r] r(1,2) s(1,2) by simp
  then show ?thesis
    using s r(3) by (intro exI [of _ before] exI [of _ s] exI [of _ after]) simp
qed

theorem completion_is_verified_witness:
  "complete_outbox demo_libs ''u'' demo_self ''acme'' ''outbox-h'' ''worker-1'' ''outbox-lease-u1'' demo_commit 0 demo_handle demo_appended =
     (Inr CompletionDelivered, demo_handle, demo_delivered) \<and>
   (\<exists>r. leased_row ''acme'' ''outbox-h'' ''worker-1'' ''outbox-lease-u1'' (timestamp_millis 0) r \<and>
     backed_by demo_libs r demo_commit (td_ledger demo_delivered))"
  using demo_completes [of "''u''"] completion_is_verified [OF demo_appended_reachable demo_completes [of "''u''"]] by blast

text \<open>
  C38. A turn that starts by waiting for approval can never be published: its first event records
  the state \<open>waiting_approval\<close>, while the validation of a turn's history accepts only histories that
  start in \<open>accepted\<close>; so for every event of such a turn, whatever the lease, the time and the signer,
  revalidation for signing fails.
\<close>

theorem approval_turn_unpublishable:
  assumes run: "reaches empty_store (store_step L) db"
    and genesis: "p \<in> set (td_outbox db)" "ow_revision p = 0" "ow_event_type p = state_event_type WaitingApproval"
    and event: "q \<in> set (td_outbox db)" "turn_of_outbox q = turn_of_outbox p"
  shows "fst (revalidate_outbox_for_signing L uuid self (ow_tenant_id q) (ow_outbox_id q) w k now pk h db) \<noteq> Inr signing"
proof
  assume "fst (revalidate_outbox_for_signing L uuid self (ow_tenant_id q) (ow_outbox_id q) w k now pk h db) = Inr signing"
  then obtain snapshot where "dispatch_snapshot_of L self (ow_tenant_id q) (ow_outbox_id q) w k now False db = Inr snapshot"
    using revalidate_snapshot by blast
  then have "load_dispatch_snapshot L (ow_tenant_id q) (ow_outbox_id q) w k now False db = Inr snapshot"
    by (auto simp: dispatch_snapshot_of_def result_simps split: if_splits)
  then show False
    using approval_never_loads [OF full_outbox_inv [OF store.reachable_inv [OF run]] genesis event] by blast
qed

theorem approval_turn_unpublishable_witness:
  "begin_turn demo_libs demo_ingress (demo_admission True) 0 demo_store = Inr (TurnCreated (demo_record True), demo_admitted True) \<and>
   claim_next_outbox demo_libs ''u1'' ''acme'' ''worker-1'' 0 (seconds 60) (demo_admitted True) =
     Inr (Some (demo_claim True), demo_leased True) \<and>
   (\<forall>signing. fst (revalidate_outbox_for_signing demo_libs ''u'' demo_self ''acme'' ''outbox-h'' ''worker-1'' ''outbox-lease-u1'' 0
      demo_public demo_handle (demo_leased True)) \<noteq> Inr signing)"
proof -
  have row: "demo_leased_row True \<in> set (td_outbox (demo_leased True))" "ow_revision (demo_leased_row True) = 0"
    "ow_event_type (demo_leased_row True) = state_event_type WaitingApproval" "ow_tenant_id (demo_leased_row True) = ''acme''"
    "ow_outbox_id (demo_leased_row True) = ''outbox-h''"
    by (simp_all add: demo_leased_def demo_leased_row_def take_lease_def demo_event_row_fields state_event_type_def)
  show ?thesis
    using demo_admits [of True] demo_claims [of True]
      approval_turn_unpublishable [OF demo_leased_facts(2) row(1-3) row(1) refl, unfolded row(4,5)] by simp
qed
text \<open>
  C37. Quarantine is final: once a row is quarantined it stays at its place in the queue, pending and
  undelivered, along every further run of the store, and no row of its tenant behind it is ever
  delivered.
\<close>

theorem quarantine_is_final:
  assumes "reaches empty_store (store_step L) db" and "(store_step L)\<^sup>*\<^sup>* db db'" and "outbox_is_quarantined t i db"
  shows "\<exists>before p after. td_outbox db' = before @ p # after \<and> outbox_key p = (t, i) \<and> ow_status p = ''pending'' \<and>
    (\<forall>s \<in> set after. ow_tenant_id s = t \<longrightarrow> \<not> delivered s)"
proof -
  have inv: "full_inv db" "full_inv db'"
    using store.reachable_inv [OF assms(1)] store.run_inv [OF assms(2)] by simp_all
  obtain q where q: "q \<in> set (td_quarantine db)" "quarantine_key q = (t, i)"
    using assms(3) by (auto simp: outbox_is_quarantined_def list_ex_iff quarantine_key_def)
  then have "q \<in> set (td_quarantine db')"
    using quarantine_run_grows [OF assms(2) inv(1)] by blast
  then show ?thesis
    using quarantined_blocks [OF inv(2)] q(2) by (fastforce simp: quarantine_key_def)
qed

theorem quarantine_is_final_witness:
  "store_step demo_libs (demo_leased True) demo_quarantined \<and>
   (\<exists>p. td_outbox demo_quarantined = [p] \<and> outbox_key p = (''acme'', ''outbox-h'') \<and> ow_status p = ''pending'')"
proof -
  have step: "store_step demo_libs (demo_leased True) demo_quarantined"
    using demo_quarantines store_step.step_quarantine by blast
  have run: "reaches empty_store (store_step demo_libs) demo_quarantined" "(store_step demo_libs)\<^sup>*\<^sup>* demo_quarantined demo_quarantined"
    using reaches.step [OF demo_leased_facts(2) step] by simp_all
  have "outbox_is_quarantined ''acme'' ''outbox-h'' demo_quarantined" "td_outbox demo_quarantined = [demo_released_row]"
    by (simp_all add: outbox_is_quarantined_def demo_quarantined_def demo_quarantine_fields)
  then show ?thesis
    using quarantine_is_final [OF run] step by (fastforce simp: append_eq_Cons_conv)
qed

subsection \<open>Admission\<close>

text \<open>
  C22. Admission is available: in every reachable state with the store's triggers intact, an
  authentic request for an actor that is unknown or idle, before its deadline and under unused
  keys, creates a turn in its first state at revision 0 together with the outbox row of that state.
\<close>

theorem admission_succeeds:
  assumes laws: "turn_laws L" and run: "reaches empty_store (store_step L) db"
    and triggers: "validate_no_extra_outbox_triggers db = Inr ()"
    and authority: "validate_actor_authority g (da_actor adm) = Inr ()" and req: "json_printable (da_request adm)"
    and time: "tl_datetime_ok L (ai_deadline g)" "tl_datetime_ok L now" "now < ai_deadline g"
    and free: "actor_free (da_actor adm) db" and unused: "keys_unused L g adm now db" and room: "next_ordinal db \<le> i64_max"
  shows "\<exists>rec db' p. begin_turn L g adm now db = Inr (TurnCreated rec, db') \<and> vts_revision (dt_state rec) = 0 \<and>
    vts_state (dt_state rec) = (if da_approval_required adm then WaitingApproval else Accepted) \<and>
    td_outbox db' = td_outbox db @ [p] \<and> ow_event_type p = state_event_type (vts_state (dt_state rec))"
proof -
  note inv = reachable_loads [OF laws run]
  have event: "ow_event_type (new_outbox_row L rec prev h at rev ms) = state_event_type (vts_state (dt_state rec))" for rec prev h at rev ms
    by (simp add: new_outbox_row_def Let_def)
  show ?thesis
    using begin_turn_creates [OF laws inv triggers authority req time free unused room] event by blast
qed

theorem admission_succeeds_witness:
  "\<exists>rec db' p. begin_turn demo_libs demo_ingress (demo_admission False) 0 demo_store = Inr (TurnCreated rec, db') \<and>
     td_outbox db' = [p] \<and> ow_event_type p = state_event_type Accepted"
proof -
  have db: "reaches empty_store (store_step demo_libs) demo_store"
    using reaches.start [of empty_store demo_store] demo_empty by simp
  have parts: "td_outbox demo_store = []" "td_actors demo_store = []" "td_turns demo_store = []" "td_sequence demo_store = None"
    by (simp_all add: demo_store_def)
  have adm: "validate_actor_authority demo_ingress (da_actor (demo_admission False)) = Inr ()"
    "json_printable (da_request (demo_admission False))" "\<not> da_approval_required (demo_admission False)" "0 < ai_deadline demo_ingress"
    by (simp_all add: validate_actor_authority_def demo_ingress_def demo_admission_def demo_actor_def) (simp add: seconds_def)
  have "actor_free (da_actor (demo_admission False)) demo_store" "keys_unused demo_libs demo_ingress (demo_admission False) 0 demo_store"
    "next_ordinal demo_store \<le> i64_max"
    by (simp_all add: actor_free_def keys_unused_def Let_def parts next_ordinal_def i64_max_def)
  then show ?thesis
    using admission_succeeds [OF demo_laws db demo_triggers adm(1,2) _ _ adm(4)] adm(3) parts(1) by auto
qed

text \<open>
  C21. Admission is idempotent: after a request created a turn, repeating it before its deadline
  returns that very turn as existing and leaves the database as it is, and another request content
  under the same idempotency key is refused as a conflict.
\<close>

theorem admission_is_idempotent:
  assumes laws: "turn_laws L" and run: "reaches empty_store (store_step L) db"
    and created: "begin_turn L g adm now db = Inr (TurnCreated rec, db')"
    and time: "now' < milliseconds (timestamp_millis (ai_deadline g))"
  shows "begin_turn L g adm now' db' = Inr (TurnExisting rec, db') \<and>
    (sha256_text L (canonical_json L (da_request adm2)) \<noteq> sha256_text L (canonical_json L (da_request adm)) \<longrightarrow>
      validate_actor_authority g (da_actor adm2) = Inr () \<longrightarrow> begin_turn L g adm2 now' db' = Inl IdempotencyConflict)"
proof -
  have inv: "store_inv db" "actors_load L db'"
    using reachable_loads [OF laws run] reachable_loads [OF laws reaches.step [OF run store_step.step_begin [OF created]]]
    by (simp_all add: full_inv_def rows_load_def)
  note load = retry_finds_turn [OF inv(1) created]
  have row: "tw_tenant_id (new_turn_row L g a n) = tenant_str (ai_tenant_id g)"
    "tw_idempotency_key (new_turn_row L g a n) = ai_idempotency_key g" "tw_actor_key (new_turn_row L g a n) = id_actor_key (da_actor a)"
    "tw_request_hash (new_turn_row L g a n) = sha256_text L (canonical_json L (da_request a))"
    "tw_authority_hash (new_turn_row L g a n) = sha256_text L (canonical_json L (ingress_to_value L g))" for a n
    by (simp_all add: new_turn_row_def Let_def)
  have rep: "dt_request_hash rec = sha256_text L (canonical_json L (da_request adm))" "dt_actor_key rec = id_actor_key (da_actor adm)"
    "dt_authority_hash rec = sha256_text L (canonical_json L (ingress_to_value L g))"
    using materialize_turn_ok [OF created_state(3) [OF inv(1) created]] row [of adm now] by (simp_all add: represents_def)
  have "validate_actor_authority g (da_actor adm) = Inr ()"
    using created unfolding begin_turn_def by (auto simp: result_simps)
  then show ?thesis
    using load retry_keeps_turn [OF inv(1) created inv(2) time] rep
    by (simp add: begin_turn_def Let_def row cong: and_then_cong)
qed

theorem admission_is_idempotent_witness:
  "begin_turn demo_libs demo_ingress (demo_admission False) (seconds 30) (demo_admitted False) =
     Inr (TurnExisting (demo_record False), demo_admitted False)"
proof -
  have "seconds 30 < milliseconds (timestamp_millis (ai_deadline demo_ingress))"
    by (simp add: demo_ingress_def) (simp add: seconds_def)
  then show ?thesis
    using admission_is_idempotent [OF demo_laws _ demo_admits [of False]] reaches.start [of empty_store demo_store] demo_empty by blast
qed

end
