(* ===== verification/Dispatcher_Control.thy ===== *)
theory Dispatcher_Control
  imports Outbox_Quarantine "HOL-Library.Multiset"
begin

text \<open>
  The control part of \<open>turn_store/dispatcher.rs\<close>: configuration and its validation, the resolver of
  signing keys, the classification of every error into retry, quarantine, lost lease or fatal, the
  retry delay with its deterministic jitter, and the shared state of the worker pool (lifecycle,
  append admission, counters) with every function that changes it. A \<open>Mutex\<close> section is one
  function on the shared state. A \<open>std::time::Duration\<close> is a number of nanoseconds, \<open>usize\<close> has
  64 bits. The text of an error (\<open>Display\<close>) is a parameter where a library's error is part of it.
\<close>

subsection \<open>Saturating arithmetic and durations\<close>

definition saturating_add_u64 :: "u64 \<Rightarrow> u64 \<Rightarrow> u64" where
  "saturating_add_u64 a b = (case checked_add_u64 a b of None \<Rightarrow> - 1 | Some c \<Rightarrow> c)"

definition saturating_sub_u64 :: "u64 \<Rightarrow> u64 \<Rightarrow> u64" where
  "saturating_sub_u64 a b = (if b \<le> a then a - b else 0)"

definition saturating_mul_u128 :: "nat \<Rightarrow> nat \<Rightarrow> nat" where
  "saturating_mul_u128 a b = min (a * b) (2 ^ 128 - 1)"

definition saturating_add_u128 :: "nat \<Rightarrow> nat \<Rightarrow> nat" where
  "saturating_add_u128 a b = min (a + b) (2 ^ 128 - 1)"

type_synonym std_duration = nat

definition std_secs :: "nat \<Rightarrow> std_duration" where
  "std_secs n = n * 1000000000"

definition std_millis :: "nat \<Rightarrow> std_duration" where
  "std_millis n = n * 1000000"

definition as_millis :: "std_duration \<Rightarrow> nat" where
  "as_millis d = d div 1000000"

text \<open>\<open>chrono::Duration::from_std\<close>: a \<open>chrono\<close> duration has at most \<open>i64::MAX\<close> milliseconds.\<close>

definition chrono_from_std :: "std_duration \<Rightarrow> duration option" where
  "chrono_from_std d = (if int d \<le> milliseconds i64_max then Some (int d) else None)"

fun from_le_bytes :: "bytes \<Rightarrow> nat" where
  "from_le_bytes [] = 0"
| "from_le_bytes (b # bs) = of_char b + 256 * from_le_bytes bs"

lemma saturating_add_u64_unat: "unat (saturating_add_u64 a b) = min (unat a + unat b) (2 ^ 64 - 1)"
proof (cases "checked_add_u64 a b")
  case None
  then have "2 ^ 64 \<le> unat a + unat b"
    by (simp add: checked_add_u64_def split: if_splits)
  moreover have "unat (- 1 :: u64) = 2 ^ 64 - 1"
    by (simp add: unsigned_minus_1_eq_mask mask_eq_exp_minus_1)
  ultimately show ?thesis
    using None by (simp add: saturating_add_u64_def)
next
  case (Some c)
  then have "unat c = unat a + unat b"
    by (simp add: checked_add_u64_Some)
  then show ?thesis
    using Some unat_less_u64 [of c] by (simp add: saturating_add_u64_def)
qed

lemma saturating_sub_u64_unat: "unat (saturating_sub_u64 a b) = unat a - unat b"
  by (auto simp: saturating_sub_u64_def unat_sub word_le_nat_alt)

subsection \<open>Configuration\<close>

datatype outbox_dispatcher_error =
  InvalidConfig string
  | WorkerSpawn io_error_kind string
  | WorkerPanicked
  | WorkerFailed string
  | DispatcherShutdownTimeout u64

record outbox_dispatcher_config =
  oc_worker_count :: nat
  oc_tenant_scan_limit :: nat
  oc_lease_duration :: std_duration
  oc_poll_interval :: std_duration
  oc_initial_retry_delay :: std_duration
  oc_maximum_retry_delay :: std_duration
  oc_minimum_commit_window :: std_duration
  oc_shutdown_timeout :: std_duration
  oc_retry_jitter_percent :: u8
  oc_maximum_attempts :: u64

definition default_config :: outbox_dispatcher_config where
  "default_config =
     \<lparr>oc_worker_count = 2, oc_tenant_scan_limit = 128, oc_lease_duration = std_secs 30,
      oc_poll_interval = std_millis 100, oc_initial_retry_delay = std_millis 250,
      oc_maximum_retry_delay = std_secs 30, oc_minimum_commit_window = std_secs 12,
      oc_shutdown_timeout = std_secs 15, oc_retry_jitter_percent = 20, oc_maximum_attempts = 8\<rparr>"

definition validate_config :: "outbox_dispatcher_config \<Rightarrow> outbox_dispatcher_error + unit" where
  "validate_config self =
     (if \<not> (1 \<le> oc_worker_count self \<and> oc_worker_count self \<le> 32)
      then Inl (InvalidConfig ''worker_count must be between 1 and 32'')
      else if oc_tenant_scan_limit self = 0 \<or> oc_tenant_scan_limit self > 10000
      then Inl (InvalidConfig ''tenant_scan_limit must be between 1 and 10000'')
      else if oc_lease_duration self < std_secs 1 \<or> oc_lease_duration self > std_secs (nat MAX_OUTBOX_LEASE_SECONDS)
      then Inl (InvalidConfig ''lease_duration is outside the TurnStore lease boundary'')
      else if oc_poll_interval self = 0
      then Inl (InvalidConfig ''poll_interval must be non-zero'')
      else if oc_initial_retry_delay self = 0 \<or> oc_initial_retry_delay self > oc_maximum_retry_delay self
      then Inl (InvalidConfig ''retry delays must be non-zero and monotonically bounded'')
      else if oc_minimum_commit_window self = 0 \<or> oc_minimum_commit_window self \<ge> oc_lease_duration self
      then Inl (InvalidConfig ''minimum_commit_window must be non-zero and shorter than lease_duration'')
      else if oc_shutdown_timeout self = 0 \<or> oc_shutdown_timeout self > std_secs 30
      then Inl (InvalidConfig ''shutdown_timeout must be between 1 nanosecond and 30 seconds'')
      else if oc_retry_jitter_percent self > 100
      then Inl (InvalidConfig ''retry_jitter_percent must not exceed 100'')
      else if oc_maximum_attempts self = 0 \<or> oc_maximum_attempts self > 10000
      then Inl (InvalidConfig ''maximum_attempts must be between 1 and 10000'')
      else Inr ())"

subsection \<open>Resolving signing keys\<close>

datatype outbox_signer_resolve_error =
  SignerKeyMissing string
  | SignerBackendUnavailable string
  | SignerKeyInvalid string

fun signer_error_text :: "outbox_signer_resolve_error \<Rightarrow> string" where
  "signer_error_text (SignerKeyMissing principal_id) = ''signer is not available for principal '' @ principal_id"
| "signer_error_text (SignerBackendUnavailable e) = ''signer backend is temporarily unavailable: '' @ e"
| "signer_error_text (SignerKeyInvalid e) = ''signer backend returned invalid key material: '' @ e"

record in_memory_resolver =
  mr_signers :: "string \<rightharpoonup> zaion_keypair"
  mr_public_keys :: "string \<rightharpoonup> public_key_bytes"

definition empty_resolver :: in_memory_resolver where
  "empty_resolver = \<lparr>mr_signers = Map.empty, mr_public_keys = Map.empty\<rparr>"

definition insert_signer ::
  "externals \<Rightarrow> zaion_keypair \<Rightarrow> in_memory_resolver \<Rightarrow> zaion_keypair option \<times> in_memory_resolver" where
  "insert_signer x keypair self =
     (let principal_id = principal_str (keypair_principal_id x keypair)
      in (mr_signers self principal_id,
          self\<lparr>mr_public_keys := (mr_public_keys self)(principal_id \<mapsto> keypair_public_key_bytes x keypair),
               mr_signers := (mr_signers self)(principal_id \<mapsto> keypair)\<rparr>))"

definition new_resolver :: "externals \<Rightarrow> zaion_keypair list \<Rightarrow> in_memory_resolver" where
  "new_resolver x keypairs = fold (\<lambda>k self. snd (insert_signer x k self)) keypairs empty_resolver"

definition remove_signer :: "principal_id \<Rightarrow> in_memory_resolver \<Rightarrow> zaion_keypair option \<times> in_memory_resolver" where
  "remove_signer principal_id self =
     (mr_signers self (principal_str principal_id),
      self\<lparr>mr_signers := (mr_signers self)(principal_str principal_id := None)\<rparr>)"

definition resolve_public_key ::
  "in_memory_resolver \<Rightarrow> principal_id \<Rightarrow> outbox_signer_resolve_error + public_key_bytes" where
  "resolve_public_key self principal_id =
     ok_or (SignerKeyMissing (principal_str principal_id)) (mr_public_keys self (principal_str principal_id))"

definition resolve_signer ::
  "in_memory_resolver \<Rightarrow> principal_id \<Rightarrow> outbox_signer_resolve_error + zaion_keypair" where
  "resolve_signer self principal_id =
     ok_or (SignerKeyMissing (principal_str principal_id)) (mr_signers self (principal_str principal_id))"

subsection \<open>Classification of errors\<close>

text \<open>The texts of library errors; the constructors are those of the error types.\<close>

record error_text =
  et_store :: "turn_store_error \<Rightarrow> string"
  et_ledger :: "ledger_error \<Rightarrow> string"
  et_sqlite :: "sqlite_error \<Rightarrow> string"
  et_io :: "io_error_kind \<Rightarrow> string \<Rightarrow> string"

fun classify_signer_error :: "outbox_signer_resolve_error \<Rightarrow> outbox_dispatch_failure" where
  "classify_signer_error (SignerKeyMissing p) =
     new_failure PhaseResolveSigner FailureRetryable SignerMissing (signer_error_text (SignerKeyMissing p))"
| "classify_signer_error (SignerBackendUnavailable e) =
     new_failure PhaseResolveSigner FailureRetryable SignerUnavailable (signer_error_text (SignerBackendUnavailable e))"
| "classify_signer_error (SignerKeyInvalid e) =
     new_failure PhaseResolveSigner FailurePermanent SignerInvalid (signer_error_text (SignerKeyInvalid e))"

fun sqlite_busy :: "sqlite_error \<Rightarrow> bool" where
  "sqlite_busy DatabaseBusy = True"
| "sqlite_busy DatabaseLocked = True"
| "sqlite_busy _ = False"

definition classify_sqlite_error ::
  "error_text \<Rightarrow> outbox_dispatch_phase \<Rightarrow> sqlite_error \<Rightarrow> outbox_failure_code \<Rightarrow> outbox_failure_code \<Rightarrow>
     outbox_dispatch_failure" where
  "classify_sqlite_error T phase error busy_code fatal_code =
     new_failure phase (if sqlite_busy error then FailureRetryable else FailureFatal)
       (if sqlite_busy error then busy_code else fatal_code) (et_sqlite T error)"

definition classify_io_error ::
  "error_text \<Rightarrow> outbox_dispatch_phase \<Rightarrow> io_error_kind \<Rightarrow> string \<Rightarrow> outbox_failure_code \<Rightarrow> outbox_dispatch_failure" where
  "classify_io_error T phase kind detail code =
     new_failure phase
       (if kind = IoInterrupted \<or> kind = IoWouldBlock \<or> kind = IoTimedOut then FailureRetryable else FailureFatal)
       code (et_io T kind detail)"

fun ledger_fatal :: "ledger_error \<Rightarrow> bool" where
  "ledger_fatal (EventBindingUnsupportedLedgerPath _) = True"
| "ledger_fatal (InvalidDatabaseInstanceIdentity _) = True"
| "ledger_fatal (DatabaseInstanceIdentityDrift _ _) = True"
| "ledger_fatal (CorruptChain _) = True"
| "ledger_fatal _ = False"

definition classify_ledger_error ::
  "error_text \<Rightarrow> outbox_dispatch_phase \<Rightarrow> ledger_error \<Rightarrow> outbox_dispatch_failure" where
  "classify_ledger_error T phase error =
     (case error of
        LedgerSqlite e \<Rightarrow> classify_sqlite_error T phase e LedgerBusy InfrastructureFailure
      | LedgerIo kind detail \<Rightarrow> classify_io_error T phase kind detail LedgerIoFailure
      | _ \<Rightarrow>
          if ledger_fatal error
          then new_failure phase FailureFatal InfrastructureFailure (et_ledger T error)
          else new_failure phase FailurePermanent LedgerIntegrity (et_ledger T error))"

fun store_lease_lost :: "turn_store_error \<Rightarrow> bool" where
  "store_lease_lost (OutboxLeaseLost _ _) = True"
| "store_lease_lost (OutboxLeaseExpired _) = True"
| "store_lease_lost (OutboxOrderConflict _) = True"
| "store_lease_lost CasLost = True"
| "store_lease_lost _ = False"

fun store_integrity :: "turn_store_error \<Rightarrow> bool" where
  "store_integrity (HashMismatch _) = True"
| "store_integrity (RecordBindingMismatch _) = True"
| "store_integrity (CorruptState _) = True"
| "store_integrity (CorruptOutboxStatus _) = True"
| "store_integrity (CorruptRevision _) = True"
| "store_integrity (CorruptTimestamp _ _) = True"
| "store_integrity TurnJson = True"
| "store_integrity (OutboxHistoryIncomplete _) = True"
| "store_integrity (OutboxHistoryRevision _ _) = True"
| "store_integrity (OutboxHistoryGenesis _) = True"
| "store_integrity (OutboxHistoryPreviousState _) = True"
| "store_integrity (OutboxHistoryIllegalTransition _ _ _) = True"
| "store_integrity (OutboxHistoryCurrentTurn _) = True"
| "store_integrity (OutboxDeliveredPrefix _) = True"
| "store_integrity (OutboxLedgerEventMismatch _) = True"
| "store_integrity (OutboxCommitMismatch _) = True"
| "store_integrity OutboxPrincipalMismatch = True"
| "store_integrity (OutboxSignerEvidenceMissing _) = True"
| "store_integrity _ = False"

fun store_infrastructure :: "turn_store_error \<Rightarrow> bool" where
  "store_infrastructure MutexPoisoned = True"
| "store_infrastructure (SchemaIntegrity _) = True"
| "store_infrastructure OutboxLedgerPathMismatch = True"
| "store_infrastructure OutboxLedgerInstanceMismatch = True"
| "store_infrastructure InvalidOutboxLeaseDuration = True"
| "store_infrastructure OutboxErrorTooLong = True"
| "store_infrastructure OutboxRetryTimeInvalid = True"
| "store_infrastructure OutboxAttemptsExhausted = True"
| "store_infrastructure OutboxLeaseTimeOverflow = True"
| "store_infrastructure CommitOrdinalExhausted = True"
| "store_infrastructure OutboxCompletionTimeInvalid = True"
| "store_infrastructure NonMonotonicTimestamp = True"
| "store_infrastructure _ = False"

definition classify_turn_store_error ::
  "error_text \<Rightarrow> outbox_dispatch_phase \<Rightarrow> turn_store_error \<Rightarrow> outbox_dispatch_failure" where
  "classify_turn_store_error T phase error =
     (case error of
        TurnSqlite e \<Rightarrow> classify_sqlite_error T phase e StoreBusy InfrastructureFailure
      | TurnIo kind detail \<Rightarrow> classify_io_error T phase kind detail StoreIo
      | TurnLedger e \<Rightarrow> classify_ledger_error T phase e
      | _ \<Rightarrow>
          if store_lease_lost error then new_failure phase FailureLeaseLost LeaseLost (et_store T error)
          else if store_integrity error then new_failure phase FailurePermanent StoreIntegrity (et_store T error)
          else if store_infrastructure error
          then new_failure phase FailureFatal InfrastructureFailure (et_store T error)
          else new_failure phase FailureFatal StoreIntegrity (et_store T error))"

subsection \<open>Retry delay and clock\<close>

definition retry_base_ms :: "outbox_dispatcher_config \<Rightarrow> u64 \<Rightarrow> nat" where
  "retry_base_ms config attempts =
     min (saturating_mul_u128 (as_millis (oc_initial_retry_delay config)) (2 ^ min (unat attempts - 1) 31))
       (as_millis (oc_maximum_retry_delay config))"

definition jitter_limit :: "outbox_dispatcher_config \<Rightarrow> u64 \<Rightarrow> nat" where
  "jitter_limit config attempts =
     saturating_mul_u128 (retry_base_ms config attempts) (unat (oc_retry_jitter_percent config)) div 100"

definition jitter_sample :: "externals \<Rightarrow> turn_outbox_record \<Rightarrow> nat" where
  "jitter_sample x claim = from_le_bytes (take 8 (x_sha256 x (ob_outbox_id claim @ le_bytes_64 (uint (ob_attempts claim)))))"

definition retry_delay :: "externals \<Rightarrow> outbox_dispatcher_config \<Rightarrow> turn_outbox_record \<Rightarrow> std_duration" where
  "retry_delay x config claim =
     (let base_ms = retry_base_ms config (ob_attempts claim);
          limit = jitter_limit config (ob_attempts claim);
          jitter = (if limit = 0 then 0 else jitter_sample x claim mod (limit + 1))
      in std_millis (min (saturating_add_u128 base_ms jitter) u64_max))"

definition has_commit_window :: "turn_outbox_record \<Rightarrow> std_duration \<Rightarrow> instant \<Rightarrow> bool" where
  "has_commit_window claim minimum now =
     (case chrono_from_std minimum of
        None \<Rightarrow> False
      | Some minimum \<Rightarrow>
          (case ob_lease_until claim of None \<Rightarrow> False | Some lease_until \<Rightarrow> lease_until - now \<ge> minimum))"

definition monotonic_now :: "turn_outbox_record \<Rightarrow> instant \<Rightarrow> instant" where
  "monotonic_now claim now = max now (ob_updated_at claim)"
subsection \<open>Shared state\<close>

datatype outbox_dispatcher_lifecycle = LifecycleRunning | LifecycleStopping | LifecycleStopped | LifecycleFailed

record outbox_dispatcher_last_error =
  le_tenant_id :: "string option"
  le_outbox_id :: "string option"
  le_occurred_at :: instant
  le_failure :: outbox_dispatch_failure

record runtime_health =
  rh_lifecycle :: outbox_dispatcher_lifecycle
  rh_running_workers :: u64
  rh_successes :: u64
  rh_retries :: u64
  rh_dead_letters :: u64
  rh_last_error :: "outbox_dispatcher_last_error option"

record append_admission_state =
  aa_accepting :: bool
  aa_in_flight :: u64

record dispatcher_shared =
  sh_config :: outbox_dispatcher_config
  sh_shutdown :: bool
  sh_wake_generation :: u64
  sh_append_admission :: append_admission_state
  sh_health :: runtime_health

definition start_shared :: "outbox_dispatcher_config \<Rightarrow> outbox_dispatcher_error + dispatcher_shared" where
  "start_shared config =
     and_then (validate_config config) (\<lambda>_.
     Inr \<lparr>sh_config = config, sh_shutdown = False, sh_wake_generation = 0,
          sh_append_admission = \<lparr>aa_accepting = True, aa_in_flight = 0\<rparr>,
          sh_health = \<lparr>rh_lifecycle = LifecycleRunning, rh_running_workers = 0, rh_successes = 0,
            rh_retries = 0, rh_dead_letters = 0, rh_last_error = None\<rparr>\<rparr>)"

definition wake :: "dispatcher_shared \<Rightarrow> dispatcher_shared" where
  "wake self = self\<lparr>sh_wake_generation := sh_wake_generation self + 1\<rparr>"

definition on_health :: "(runtime_health \<Rightarrow> runtime_health) \<Rightarrow> dispatcher_shared \<Rightarrow> dispatcher_shared" where
  "on_health f shared = shared\<lparr>sh_health := f (sh_health shared)\<rparr>"

definition request_shutdown :: "dispatcher_shared \<Rightarrow> dispatcher_shared" where
  "request_shutdown self =
     (let closed = self\<lparr>sh_append_admission := (sh_append_admission self)\<lparr>aa_accepting := False\<rparr>\<rparr>
      in if sh_shutdown self then closed
         else (on_health (\<lambda>health. if rh_lifecycle health = LifecycleRunning
                 then health\<lparr>rh_lifecycle := LifecycleStopping\<rparr> else health) closed)\<lparr>sh_shutdown := True\<rparr>)"

definition admit_append :: "dispatcher_shared \<Rightarrow> bool \<times> dispatcher_shared" where
  "admit_append shared =
     (let state = sh_append_admission shared
      in if \<not> aa_accepting state \<or> sh_shutdown shared then (False, shared)
         else (True, shared\<lparr>sh_append_admission := state\<lparr>aa_in_flight := saturating_add_u64 (aa_in_flight state) 1\<rparr>\<rparr>))"

definition drop_permit :: "dispatcher_shared \<Rightarrow> dispatcher_shared" where
  "drop_permit shared =
     (let state = sh_append_admission shared
      in shared\<lparr>sh_append_admission := state\<lparr>aa_in_flight := saturating_sub_u64 (aa_in_flight state) 1\<rparr>\<rparr>)"

definition worker_started :: "dispatcher_shared \<Rightarrow> dispatcher_shared" where
  "worker_started =
     on_health (\<lambda>health. health\<lparr>rh_running_workers := saturating_add_u64 (rh_running_workers health) 1\<rparr>)"

definition last_error ::
  "string option \<Rightarrow> string option \<Rightarrow> instant \<Rightarrow> outbox_dispatch_failure \<Rightarrow> runtime_health \<Rightarrow> runtime_health" where
  "last_error tenant_id outbox_id occurred_at failure health =
     health\<lparr>rh_last_error := Some \<lparr>le_tenant_id = tenant_id, le_outbox_id = outbox_id,
       le_occurred_at = occurred_at, le_failure = failure\<rparr>\<rparr>"

definition worker_stopped :: "instant \<Rightarrow> dispatcher_shared \<Rightarrow> dispatcher_shared" where
  "worker_stopped now =
     on_health (\<lambda>health.
       let health = health\<lparr>rh_running_workers := saturating_sub_u64 (rh_running_workers health) 1\<rparr>
       in if rh_running_workers health = 0 \<and> rh_lifecycle health = LifecycleRunning
          then last_error None None now (new_failure PhaseClaim FailureFatal InfrastructureFailure
            ''all outbox dispatcher workers exited without a shutdown request'')
            (health\<lparr>rh_lifecycle := LifecycleFailed\<rparr>)
          else health)"

definition fail_dispatcher ::
  "string option \<Rightarrow> string option \<Rightarrow> instant \<Rightarrow> outbox_dispatch_failure \<Rightarrow> dispatcher_shared \<Rightarrow> dispatcher_shared" where
  "fail_dispatcher tenant_id outbox_id now failure shared =
     (on_health (\<lambda>health. last_error tenant_id outbox_id now failure (health\<lparr>rh_lifecycle := LifecycleFailed\<rparr>))
        shared)\<lparr>sh_shutdown := True\<rparr>"

definition record_failure ::
  "string option \<Rightarrow> string option \<Rightarrow> instant \<Rightarrow> outbox_dispatch_failure \<Rightarrow> dispatcher_shared \<Rightarrow> dispatcher_shared" where
  "record_failure tenant_id outbox_id now failure =
     on_health (last_error tenant_id outbox_id now failure)"

definition count_success :: "dispatcher_shared \<Rightarrow> dispatcher_shared" where
  "count_success = on_health (\<lambda>health. health\<lparr>rh_successes := saturating_add_u64 (rh_successes health) 1\<rparr>)"

definition count_retry ::
  "turn_outbox_record \<Rightarrow> instant \<Rightarrow> outbox_dispatch_failure \<Rightarrow> dispatcher_shared \<Rightarrow> dispatcher_shared" where
  "count_retry claim now failure =
     on_health (\<lambda>health. last_error (Some (ob_tenant_id claim)) (Some (ob_outbox_id claim)) now failure
       (health\<lparr>rh_retries := saturating_add_u64 (rh_retries health) 1\<rparr>))"

definition count_dead_letter ::
  "turn_outbox_record \<Rightarrow> instant \<Rightarrow> outbox_dispatch_failure \<Rightarrow> dispatcher_shared \<Rightarrow> dispatcher_shared" where
  "count_dead_letter claim now failure =
     on_health (\<lambda>health. last_error (Some (ob_tenant_id claim)) (Some (ob_outbox_id claim)) now failure
       (health\<lparr>rh_dead_letters := saturating_add_u64 (rh_dead_letters health) 1\<rparr>))"

text \<open>The guard of a worker thread, dropped when the thread returns or panics.\<close>

definition drop_lifecycle_guard :: "bool \<Rightarrow> instant \<Rightarrow> dispatcher_shared \<Rightarrow> dispatcher_shared" where
  "drop_lifecycle_guard panicking now shared =
     worker_stopped now
       (if panicking
        then fail_dispatcher None None now (new_failure PhaseClaim FailureFatal InfrastructureFailure
          ''outbox dispatcher worker panicked'') shared
        else shared)"

subsection \<open>Shutdown\<close>

text \<open>A join handle: still running, or finished with or without a panic.\<close>

datatype worker_thread = ThreadRunning nat | ThreadFinished nat bool

fun is_finished :: "worker_thread \<Rightarrow> bool" where
  "is_finished (ThreadRunning _) = False"
| "is_finished (ThreadFinished _ _) = True"

fun join_is_err :: "worker_thread \<Rightarrow> bool" where
  "join_is_err (ThreadRunning _) = False"
| "join_is_err (ThreadFinished _ panicked) = panicked"

text \<open>\<open>Vec::swap_remove\<close>: the last element moves into the hole.\<close>

definition swap_remove :: "nat \<Rightarrow> 'a list \<Rightarrow> 'a list" where
  "swap_remove i xs = butlast (xs[i := last xs])"

function reap_from :: "nat \<Rightarrow> worker_thread list \<Rightarrow> bool \<Rightarrow> worker_thread list \<times> bool" where
  "reap_from index workers panicked =
     (if index < length workers then
        if is_finished (workers ! index)
        then reap_from index (swap_remove index workers) (panicked \<or> join_is_err (workers ! index))
        else reap_from (index + 1) workers panicked
      else (workers, panicked))"
  by pat_completeness auto
termination
  by (relation "measure (\<lambda>(index, workers, _). length workers - index)") (auto simp: swap_remove_def)

declare reap_from.simps [simp del]

definition reap_finished_workers :: "worker_thread list \<Rightarrow> bool \<Rightarrow> worker_thread list \<times> bool" where
  "reap_finished_workers workers panicked = reap_from 0 workers panicked"

definition shutdown_timed_out :: "runtime_health \<Rightarrow> bool" where
  "shutdown_timed_out health =
     (case rh_last_error health of None \<Rightarrow> False | Some error \<Rightarrow> df_code (le_failure error) = ShutdownTimeout)"

text \<open>The last part of \<open>shutdown_before\<close>, under the health lock, once the wait is over.\<close>

definition settle_health :: "(u64 \<Rightarrow> string) \<Rightarrow> bool \<Rightarrow> u64 \<Rightarrow> instant \<Rightarrow> runtime_health \<Rightarrow> runtime_health" where
  "settle_health show_u64 panicked remaining_workers now health =
     (if panicked \<or> remaining_workers > 0 then
        let health' = health\<lparr>rh_lifecycle := LifecycleFailed\<rparr>
        in if remaining_workers > 0 \<and> (rh_last_error health = None \<or> shutdown_timed_out health)
           then last_error None None now (new_failure PhaseResolveSigner FailureFatal ShutdownTimeout
             (''dispatcher shutdown deadline expired with '' @ show_u64 remaining_workers @
              '' worker(s) still running'')) health'
           else health'
      else if rh_lifecycle health \<noteq> LifecycleFailed \<or> shutdown_timed_out health
      then health\<lparr>rh_lifecycle := LifecycleStopped\<rparr>
      else health)"

definition shutdown_result :: "bool \<Rightarrow> u64 \<Rightarrow> runtime_health \<Rightarrow> outbox_dispatcher_error + unit" where
  "shutdown_result panicked remaining_workers health =
     (if panicked then Inl WorkerPanicked
      else if remaining_workers > 0 then Inl (DispatcherShutdownTimeout remaining_workers)
      else if rh_lifecycle health = LifecycleFailed
      then Inl (WorkerFailed (case rh_last_error health of
          Some error \<Rightarrow> df_message (le_failure error)
        | None \<Rightarrow> ''worker pool failed without structured detail''))
      else Inr ())"

definition finish_shutdown ::
  "(u64 \<Rightarrow> string) \<Rightarrow> bool \<Rightarrow> u64 \<Rightarrow> instant \<Rightarrow> dispatcher_shared \<Rightarrow>
     (outbox_dispatcher_error + unit) \<times> dispatcher_shared" where
  "finish_shutdown show_u64 panicked remaining_workers now shared =
     (let shared = on_health (settle_health show_u64 panicked remaining_workers now) shared
      in (shutdown_result panicked remaining_workers (sh_health shared), shared))"

subsection \<open>The health report\<close>

record outbox_dispatcher_health =
  oh_lifecycle :: outbox_dispatcher_lifecycle
  oh_configured_workers :: nat
  oh_running_workers :: u64
  oh_queue_depth :: "u64 option"
  oh_leased_count :: "u64 option"
  oh_oldest_queued_age_ms :: "u64 option"
  oh_persistent_dead_letters :: "u64 option"
  oh_successes :: u64
  oh_retries :: u64
  oh_dead_letters :: u64
  oh_last_error :: "outbox_dispatcher_last_error option"
  oh_metrics_error :: "string option"

text \<open>Milliseconds between two instants, rounded towards zero and never negative.\<close>

definition age_ms :: "instant \<Rightarrow> instant \<Rightarrow> u64" where
  "age_ms now created_at = (if now < created_at then 0 else word_of_int ((now - created_at) div 1000000))"

definition health :: "turn_libs \<Rightarrow> error_text \<Rightarrow> instant \<Rightarrow> dispatcher_shared \<Rightarrow> turn_db \<Rightarrow> outbox_dispatcher_health" where
  "health L T now shared db =
     (let runtime = sh_health shared;
          queue = dispatch_queue_snapshot L now (oc_tenant_scan_limit (sh_config shared)) db;
          metric = (\<lambda>f. case queue of Inl _ \<Rightarrow> None | Inr q \<Rightarrow> f q)
      in \<lparr>oh_lifecycle = rh_lifecycle runtime, oh_configured_workers = oc_worker_count (sh_config shared),
          oh_running_workers = rh_running_workers runtime,
          oh_queue_depth = metric (Some \<circ> qs_queue_depth), oh_leased_count = metric (Some \<circ> qs_leased_count),
          oh_oldest_queued_age_ms = metric (\<lambda>q. map_option (age_ms now) (qs_oldest_created_at q)),
          oh_persistent_dead_letters = metric (Some \<circ> qs_dead_letters),
          oh_successes = rh_successes runtime, oh_retries = rh_retries runtime,
          oh_dead_letters = rh_dead_letters runtime, oh_last_error = rh_last_error runtime,
          oh_metrics_error = (case queue of Inl e \<Rightarrow> Some (bounded_error_message (et_store T e)) | Inr _ \<Rightarrow> None)\<rparr>)"
subsection \<open>Laws of the retry delay\<close>

lemma as_millis_std_millis [simp]: "as_millis (std_millis n) = n"
  by (simp add: as_millis_def std_millis_def)

lemma saturating_mul_ge: "a \<le> 2 ^ 128 - 1 \<Longrightarrow> 0 < b \<Longrightarrow> a \<le> saturating_mul_u128 a b"
  by (simp add: saturating_mul_u128_def)

lemma retry_base_bounds:
  assumes "as_millis (oc_initial_retry_delay c) \<le> as_millis (oc_maximum_retry_delay c)"
    and "as_millis (oc_maximum_retry_delay c) \<le> u64_max"
  shows "as_millis (oc_initial_retry_delay c) \<le> retry_base_ms c n" and "retry_base_ms c n \<le> as_millis (oc_maximum_retry_delay c)"
proof -
  have "as_millis (oc_initial_retry_delay c) \<le> 2 ^ 128 - 1"
    using assms by (simp add: u64_max_def)
  then show "as_millis (oc_initial_retry_delay c) \<le> retry_base_ms c n"
    using assms saturating_mul_ge by (simp add: retry_base_ms_def)
  show "retry_base_ms c n \<le> as_millis (oc_maximum_retry_delay c)"
    by (simp add: retry_base_ms_def)
qed

lemma retry_base_mono:
  assumes "unat m \<le> unat n"
  shows "retry_base_ms c m \<le> retry_base_ms c n"
proof -
  have "(2 :: nat) ^ min (unat m - 1) 31 \<le> 2 ^ min (unat n - 1) 31"
    using assms by (intro power_increasing) auto
  then show ?thesis
    by (auto simp: retry_base_ms_def saturating_mul_u128_def min_le_iff_disj mult_le_mono2)
qed

text \<open>The delay is the base delay plus at most the configured percentage, in whole milliseconds.\<close>

lemma retry_delay_between:
  assumes "as_millis (oc_maximum_retry_delay c) \<le> 2 ^ 62" and "oc_retry_jitter_percent c \<le> 100"
  shows "retry_base_ms c (ob_attempts claim) \<le> as_millis (retry_delay x c claim) \<and>
    as_millis (retry_delay x c claim) \<le> retry_base_ms c (ob_attempts claim) + jitter_limit c (ob_attempts claim) \<and>
    jitter_limit c (ob_attempts claim) * 100 \<le> retry_base_ms c (ob_attempts claim) * unat (oc_retry_jitter_percent c)"
proof -
  let ?b = "retry_base_ms c (ob_attempts claim)" and ?l = "jitter_limit c (ob_attempts claim)"
  have b: "?b \<le> 2 ^ 62"
    using assms(1) by (simp add: retry_base_ms_def)
  have p: "unat (oc_retry_jitter_percent c) \<le> 100"
    using assms(2) by (simp add: word_le_nat_alt)
  have l: "?l * 100 \<le> ?b * unat (oc_retry_jitter_percent c)"
    by (simp add: jitter_limit_def saturating_mul_u128_def)
  also have "\<dots> \<le> ?b * 100"
    using p by (rule mult_le_mono2)
  finally have lb: "?l \<le> ?b"
    by simp
  define j where "j = (if ?l = 0 then 0 else jitter_sample x claim mod (?l + 1))"
  have j: "j \<le> ?l"
    using mod_less_divisor [of "?l + 1" "jitter_sample x claim"] by (auto simp: j_def)
  have "?b + j \<le> 2 ^ 63"
    using b j lb by simp
  then have "as_millis (retry_delay x c claim) = ?b + j"
    by (simp add: retry_delay_def j_def [symmetric] saturating_add_u128_def u64_max_def Let_def del: split_paired_All)
  then show ?thesis
    using j l by simp
qed

lemma validate_config_ok:
  assumes "validate_config c = Inr ()"
  shows "1 \<le> oc_worker_count c" and "oc_worker_count c \<le> 32" and "0 < oc_tenant_scan_limit c" and
    "std_secs 1 \<le> oc_lease_duration c" and "oc_lease_duration c \<le> std_secs (nat MAX_OUTBOX_LEASE_SECONDS)" and
    "oc_initial_retry_delay c \<le> oc_maximum_retry_delay c" and "0 < oc_minimum_commit_window c" and
    "oc_minimum_commit_window c < oc_lease_duration c" and "oc_retry_jitter_percent c \<le> 100" and
    "0 < oc_maximum_attempts c" and "oc_maximum_attempts c \<le> 10000"
  using assms by (auto simp: validate_config_def word_neq_0_conv split: if_splits)

lemma default_config_valid: "validate_config default_config = Inr ()"
  by (simp add: validate_config_def default_config_def std_secs_def std_millis_def MAX_OUTBOX_LEASE_SECONDS_def)

text \<open>A validated lease duration is a \<open>chrono\<close> duration the store accepts.\<close>

lemma validated_lease_duration:
  assumes "validate_config c = Inr ()"
  shows "chrono_from_std (oc_lease_duration c) = Some (int (oc_lease_duration c))" and
    "valid_lease_duration (int (oc_lease_duration c))"
  using validate_config_ok(4,5) [OF assms]
  by (auto simp: chrono_from_std_def valid_lease_duration_def std_secs_def seconds_def milliseconds_def i64_max_def
      MAX_OUTBOX_LEASE_SECONDS_def)

subsection \<open>Reaping\<close>

lemma swap_remove_mset:
  assumes "i < length xs"
  shows "mset (swap_remove i xs) = mset xs - {#xs ! i#}"
proof -
  let ?ys = "xs[i := last xs]"
  have "xs \<noteq> []"
    using assms by auto
  then have ne: "?ys \<noteq> []" and last: "last ?ys = last xs"
    using assms by (simp, cases "i = length xs - 1") (simp_all add: last_conv_nth)
  have "mset (butlast ?ys @ [last ?ys]) = mset xs - {#xs ! i#} + {#last xs#}"
    using assms ne by (simp add: mset_update)
  then show ?thesis
    using last by (simp add: swap_remove_def)
qed

lemma running_no_error: "\<not> is_finished w \<Longrightarrow> \<not> join_is_err w"
  by (cases w) simp_all

lemma reap_from_result:
  assumes "reap_from index workers panicked = (rest, flag)" and "\<forall>w \<in> set (take index workers). \<not> is_finished w"
  shows "mset rest = filter_mset (\<lambda>w. \<not> is_finished w) (mset workers) \<and>
    (flag \<longleftrightarrow> panicked \<or> (\<exists>w \<in> set workers. join_is_err w))"
  using assms
proof (induction index workers panicked arbitrary: rest flag rule: reap_from.induct)
  case (1 index workers panicked)
  show ?case
  proof (cases "index < length workers")
    case False
    then have none: "\<forall>w \<in> set workers. \<not> is_finished w"
      using 1(4) by simp
    then have "filter_mset (\<lambda>w. \<not> is_finished w) (mset workers) = mset workers"
      by (simp add: filter_mset_eq_conv)
    then show ?thesis
      using 1(3) False none running_no_error by (auto simp: reap_from.simps [of index workers])
  next
    case True
    show ?thesis
    proof (cases "is_finished (workers ! index)")
      case finished: True
      have keep: "take index (swap_remove index workers) = take index workers"
        using True by (simp add: swap_remove_def take_butlast)
      have ms: "mset workers = add_mset (workers ! index) (mset (swap_remove index workers))"
        using True by (simp add: swap_remove_mset)
      then have st: "set workers = insert (workers ! index) (set (swap_remove index workers))"
        by (metis set_mset_add_mset_insert set_mset_mset)
      show ?thesis
        using 1(1) [OF True finished] 1(3,4) True finished keep ms st
        by (auto simp: reap_from.simps [of index workers])
    next
      case False
      then show ?thesis
        using 1(2) [OF True False] 1(3,4) True by (auto simp: reap_from.simps [of index workers] take_Suc_conv_app_nth)
    qed
  qed
qed
subsection \<open>The life of a dispatcher\<close>

text \<open>
  What the threads do to the shared state: each rule is one locked section. Failures that workers
  report come from the classifiers, which never produce the shutdown timeout; only the settling of
  a shutdown does, and it runs after \<open>request_shutdown\<close>.
\<close>

inductive control_step :: "dispatcher_shared \<Rightarrow> dispatcher_shared \<Rightarrow> bool" where
  control_wake: "control_step s (wake s)"
| control_request: "control_step s (request_shutdown s)"
| control_admit: "admit_append s = (admitted, s') \<Longrightarrow> control_step s s'"
| control_permit: "control_step s (drop_permit s)"
| control_started: "control_step s (worker_started s)"
| control_guard: "control_step s (drop_lifecycle_guard panicking now s)"
| control_fail: "df_code failure \<noteq> ShutdownTimeout \<Longrightarrow> control_step s (fail_dispatcher t i now failure s)"
| control_record: "df_code failure \<noteq> ShutdownTimeout \<Longrightarrow> control_step s (record_failure t i now failure s)"
| control_success: "control_step s (count_success s)"
| control_retry: "df_code failure \<noteq> ShutdownTimeout \<Longrightarrow> control_step s (count_retry claim now failure s)"
| control_dead: "df_code failure \<noteq> ShutdownTimeout \<Longrightarrow> control_step s (count_dead_letter claim now failure s)"
| control_finish: "sh_shutdown s \<Longrightarrow> \<not> aa_accepting (sh_append_admission s) \<Longrightarrow>
    finish_shutdown show_u64 panicked remaining now s = (result, s') \<Longrightarrow> control_step s s'"

inductive_cases control_stepE: "control_step s s'"

definition started_shared :: "dispatcher_shared \<Rightarrow> bool" where
  "started_shared s = (start_shared (sh_config s) = Inr s)"

lemmas control_defs =
  wake_def request_shutdown_def admit_append_def drop_permit_def worker_started_def drop_lifecycle_guard_def
  worker_stopped_def fail_dispatcher_def record_failure_def count_success_def count_retry_def
  count_dead_letter_def finish_shutdown_def settle_health_def on_health_def last_error_def Let_def

lemma new_failure_code [simp]: "df_code (new_failure p c k m) = k"
  by (simp add: new_failure_def)

lemma new_failure_class [simp]: "df_class (new_failure p c k m) = c"
  by (simp add: new_failure_def)

lemma classify_not_timeout:
  "df_code (classify_signer_error e) \<noteq> ShutdownTimeout"
  "df_code (classify_ledger_error T p le) \<noteq> ShutdownTimeout"
  "df_code (classify_turn_store_error T p se) \<noteq> ShutdownTimeout"
proof -
  show "df_code (classify_signer_error e) \<noteq> ShutdownTimeout"
    by (cases e) simp_all
  show ledger: "df_code (classify_ledger_error T p le) \<noteq> ShutdownTimeout" for le
    by (simp add: classify_ledger_error_def classify_sqlite_error_def classify_io_error_def split: ledger_error.split)
  show "df_code (classify_turn_store_error T p se) \<noteq> ShutdownTimeout"
    using ledger
    by (simp add: classify_turn_store_error_def classify_sqlite_error_def classify_io_error_def split: turn_store_error.split)
qed

text \<open>While the dispatcher is running no stop has been requested, and the configuration is fixed.\<close>

definition control_inv :: "dispatcher_shared \<Rightarrow> bool" where
  "control_inv s =
     (validate_config (sh_config s) = Inr () \<and>
      (sh_shutdown s \<longrightarrow> rh_lifecycle (sh_health s) \<noteq> LifecycleRunning) \<and>
      (\<not> aa_accepting (sh_append_admission s) \<longrightarrow> sh_shutdown s))"

text \<open>A stop request is never withdrawn.\<close>

definition stopping :: "dispatcher_shared \<Rightarrow> bool" where
  "stopping s = (sh_shutdown s \<or> \<not> aa_accepting (sh_append_admission s))"

text \<open>The dispatcher failed for a reason other than a shutdown that took too long.\<close>

definition failed_hard :: "dispatcher_shared \<Rightarrow> bool" where
  "failed_hard s =
     (rh_lifecycle (sh_health s) = LifecycleFailed \<and> rh_last_error (sh_health s) \<noteq> None \<and>
      \<not> shutdown_timed_out (sh_health s))"

lemma control_step_facts:
  assumes "control_step s s'"
  shows "control_inv s \<Longrightarrow> control_inv s'" and "stopping s \<Longrightarrow> stopping s'" and
    "failed_hard s \<Longrightarrow> failed_hard s'" and "sh_config s' = sh_config s"
  using assms
  by (cases; auto simp: control_inv_def control_defs stopping_def failed_hard_def shutdown_timed_out_def split: if_splits)+

interpretation control: inductive_invariant started_shared control_step control_inv
proof
  show "started_shared s \<Longrightarrow> control_inv s" for s
    by (cases s) (auto simp: started_shared_def start_shared_def control_inv_def result_simps)
  show "control_inv s \<Longrightarrow> control_step s s' \<Longrightarrow> control_inv s'" for s s'
    by (rule control_step_facts)
qed

lemma control_run_facts:
  assumes "control_step\<^sup>*\<^sup>* s s'"
  shows "stopping s \<Longrightarrow> stopping s'" and "failed_hard s \<Longrightarrow> failed_hard s'"
  using assms by (induction rule: rtranclp_induct) (auto dest: control_step_facts)

lemma failed_hard_shutdown:
  assumes "failed_hard s"
  shows "fst (finish_shutdown show_u64 panicked remaining now s) \<noteq> Inr ()"
  using assms by (auto simp: failed_hard_def finish_shutdown_def shutdown_result_def settle_health_def on_health_def Let_def)

end
