(* ===== verification/Dispatcher.thy ===== *)
theory Dispatcher
  imports Dispatcher_Control
begin

text \<open>
  The worker of \<open>turn_store/dispatcher.rs\<close>: one claimed event from the lookup of its key over the
  repeated revalidation, the signed append and the completion, with the handling of every failure,
  and the loop that claims the due head of each tenant. The worker shares the database and the
  control state with other threads. Every transaction, ledger call, locked section and clock
  reading is one tick; before it the environment lets the other threads act, and it may make a
  transaction fail, before or after it committed. Keys come from a resolver outside the crate.
\<close>

subsection \<open>Actions of a worker\<close>

text \<open>A body goes on with a value, returns early, or panics.\<close>

datatype 'a flow = Proceed 'a | Return | Unwind

record dispatch_env =
  de_libs :: turn_libs
  de_text :: error_text
  de_store :: durable_turn_store
  de_config :: outbox_dispatcher_config
  de_now :: "nat \<Rightarrow> instant"
  de_now_text :: "nat \<Rightarrow> string"
  de_uuid :: "nat \<Rightarrow> string"
  de_public_key :: "nat \<Rightarrow> principal_id \<Rightarrow> outbox_signer_resolve_error + public_key_bytes"
  de_keypair :: "nat \<Rightarrow> principal_id \<Rightarrow> outbox_signer_resolve_error + zaion_keypair"
  de_store_fault :: "nat \<Rightarrow> (bool \<times> turn_store_error) option"
  de_ledger_fault :: "nat \<Rightarrow> (bool \<times> ledger_error) option"
  de_others :: "nat \<Rightarrow> dispatcher_shared \<times> turn_db \<Rightarrow> dispatcher_shared \<times> turn_db"

record dispatch_world =
  dw_shared :: dispatcher_shared
  dw_db :: turn_db
  dw_ledger :: ledger_handle
  dw_tick :: nat

type_synonym 'a action = "dispatch_world \<Rightarrow> 'a flow \<times> dispatch_world"

definition proceed :: "'a \<Rightarrow> 'a action" where
  "proceed x w = (Proceed x, w)"

definition return_now :: "'a action" where
  "return_now w = (Return, w)"

definition unwind :: "'a action" where
  "unwind w = (Unwind, w)"

definition act_then :: "'a action \<Rightarrow> ('a \<Rightarrow> 'b action) \<Rightarrow> 'b action" where
  "act_then m f w =
     (case m w of
        (Proceed x, w') \<Rightarrow> f x w'
      | (Return, w') \<Rightarrow> (Return, w')
      | (Unwind, w') \<Rightarrow> (Unwind, w'))"

text \<open>The end of a called function: an early return of the callee goes on in the caller.\<close>

definition called :: "unit action \<Rightarrow> unit action" where
  "called m w = (case m w of (Unwind, w') \<Rightarrow> (Unwind, w') | (_, w') \<Rightarrow> (Proceed (), w'))"

definition interfere :: "dispatch_env \<Rightarrow> dispatch_world \<Rightarrow> dispatch_world" where
  "interfere E w =
     (case de_others E (dw_tick w) (dw_shared w, dw_db w) of
        (shared, db) \<Rightarrow> w\<lparr>dw_shared := shared, dw_db := db, dw_tick := dw_tick w + 1\<rparr>)"

definition observe :: "dispatch_env \<Rightarrow> (nat \<Rightarrow> 'a) \<Rightarrow> 'a action" where
  "observe E f w = (Proceed (f (dw_tick w)), interfere E w)"

definition locked :: "dispatch_env \<Rightarrow> (dispatcher_shared \<Rightarrow> 'a \<times> dispatcher_shared) \<Rightarrow> 'a action" where
  "locked E f w =
     (let w = interfere E w
      in case f (dw_shared w) of (x, shared) \<Rightarrow> (Proceed x, w\<lparr>dw_shared := shared\<rparr>))"

definition transaction ::
  "dispatch_env \<Rightarrow> (nat \<Rightarrow> (bool \<times> turn_store_error) option) \<Rightarrow> (nat \<Rightarrow> 'a store_call) \<Rightarrow> (turn_store_error + 'a) action" where
  "transaction E fault call w =
     (let n = dw_tick w; w = interfere E w; ran = call n (dw_ledger w) (dw_db w)
      in case fault n of
           None \<Rightarrow> (Proceed (fst ran), w\<lparr>dw_ledger := fst (snd ran), dw_db := snd (snd ran)\<rparr>)
         | Some (committed, e) \<Rightarrow>
             (Proceed (Inl e), if committed then w\<lparr>dw_ledger := fst (snd ran), dw_db := snd (snd ran)\<rparr> else w))"

definition call_store :: "dispatch_env \<Rightarrow> (nat \<Rightarrow> 'a store_call) \<Rightarrow> (turn_store_error + 'a) action" where
  "call_store E = transaction E (de_store_fault E)"

definition call_ledger :: "dispatch_env \<Rightarrow> (nat \<Rightarrow> 'a ledger_call) \<Rightarrow> (turn_store_error + 'a) action" where
  "call_ledger E call =
     transaction E (map_option (map_prod id TurnLedger) \<circ> de_ledger_fault E) (\<lambda>n. on_ledger (call n))"

definition is_shutdown :: "dispatch_env \<Rightarrow> bool action" where
  "is_shutdown E = locked E (\<lambda>shared. (sh_shutdown shared, shared))"

definition now_for :: "dispatch_env \<Rightarrow> turn_outbox_record \<Rightarrow> instant action" where
  "now_for E claim = act_then (observe E (de_now E)) (\<lambda>now. proceed (monotonic_now claim now))"

text \<open>A report stamped with the time it is made.\<close>

definition stamped :: "dispatch_env \<Rightarrow> (instant \<Rightarrow> dispatcher_shared \<Rightarrow> dispatcher_shared) \<Rightarrow> unit action" where
  "stamped E f = act_then (observe E (de_now E)) (\<lambda>now. locked E (\<lambda>shared. ((), f now shared)))"

definition expect :: "'a option \<Rightarrow> 'a action" where
  "expect x = (case x of None \<Rightarrow> unwind | Some a \<Rightarrow> proceed a)"

subsection \<open>Failures\<close>

definition fail_at :: "dispatch_env \<Rightarrow> turn_outbox_record \<Rightarrow> outbox_dispatch_failure \<Rightarrow> unit action" where
  "fail_at E claim failure =
     stamped E (\<lambda>now. fail_dispatcher (Some (ob_tenant_id claim)) (Some (ob_outbox_id claim)) now failure)"

definition record_at :: "dispatch_env \<Rightarrow> turn_outbox_record \<Rightarrow> outbox_dispatch_failure \<Rightarrow> unit action" where
  "record_at E claim failure =
     stamped E (\<lambda>now. record_failure (Some (ob_tenant_id claim)) (Some (ob_outbox_id claim)) now failure)"

text \<open>A failure to persist the outcome of a failure.\<close>

definition persist_failed :: "dispatch_env \<Rightarrow> turn_outbox_record \<Rightarrow> outbox_dispatch_failure \<Rightarrow> unit action" where
  "persist_failed E claim failure =
     (if df_class failure = FailureFatal then fail_at E claim failure else record_at E claim failure)"

definition quarantine_claim ::
  "dispatch_env \<Rightarrow> turn_outbox_record \<Rightarrow> outbox_dispatch_failure \<Rightarrow> unit action" where
  "quarantine_claim E claim failure =
     act_then (now_for E claim) (\<lambda>now.
     act_then (call_store E (\<lambda>_. store_tx (quarantine_outbox (de_libs E) claim failure
       (df_class failure = FailureRetryable) now))) (\<lambda>quarantined.
     case quarantined of
       Inr _ \<Rightarrow> locked E (\<lambda>shared. ((), count_dead_letter claim now failure shared))
     | Inl e \<Rightarrow> persist_failed E claim (classify_turn_store_error (de_text E) PhaseQuarantinePersist e)))"

definition retry_claim :: "dispatch_env \<Rightarrow> turn_outbox_record \<Rightarrow> outbox_dispatch_failure \<Rightarrow> unit action" where
  "retry_claim E claim failure =
     act_then (now_for E claim) (\<lambda>now.
     act_then (expect (chrono_from_std (retry_delay (tl_externals (de_libs E)) (de_config E) claim))) (\<lambda>delay.
     if \<not> tl_datetime_ok (de_libs E) (now + delay) then unwind
     else
       let lease_owner = case_option ''missing'' id (ob_lease_owner claim);
           lease_token = case_option ''missing'' id (ob_lease_token claim)
       in act_then (call_store E (\<lambda>_. store_tx (release_outbox (de_libs E) (ob_tenant_id claim) (ob_outbox_id claim)
            lease_owner lease_token now (now + delay) (df_message failure)))) (\<lambda>released.
          case released of
            Inr _ \<Rightarrow> locked E (\<lambda>shared. ((), count_retry claim now failure shared))
          | Inl e \<Rightarrow> persist_failed E claim (classify_turn_store_error (de_text E) PhaseRetryPersist e))))"

definition handle_claim_failure ::
  "dispatch_env \<Rightarrow> turn_outbox_record \<Rightarrow> outbox_dispatch_failure \<Rightarrow> unit action" where
  "handle_claim_failure E claim failure =
     (case df_class failure of
        FailureFatal \<Rightarrow> fail_at E claim failure
      | FailureLeaseLost \<Rightarrow> record_at E claim failure
      | FailurePermanent \<Rightarrow> quarantine_claim E claim failure
      | FailureRetryable \<Rightarrow>
          if ob_attempts claim \<ge> oc_maximum_attempts (de_config E) then quarantine_claim E claim failure
          else retry_claim E claim failure)"

definition handle_post_append_failure ::
  "dispatch_env \<Rightarrow> turn_outbox_record \<Rightarrow> outbox_dispatch_failure \<Rightarrow> unit action" where
  "handle_post_append_failure E claim failure =
     act_then (is_shutdown E) (\<lambda>stop.
     if stop \<and> df_class failure = FailureRetryable then fail_at E claim failure
     else handle_claim_failure E claim failure)"

definition defer_for_shutdown :: "dispatch_env \<Rightarrow> turn_outbox_record \<Rightarrow> unit action" where
  "defer_for_shutdown E claim =
     act_then (now_for E claim) (\<lambda>now.
     case ob_lease_owner claim of
       None \<Rightarrow> proceed ()
     | Some lease_owner \<Rightarrow>
         (case ob_lease_token claim of
            None \<Rightarrow> proceed ()
          | Some lease_token \<Rightarrow>
              act_then (call_store E (\<lambda>_. store_tx (release_outbox (de_libs E) (ob_tenant_id claim)
                (ob_outbox_id claim) lease_owner lease_token now now ''dispatcher shutdown before signed append''))) (\<lambda>released.
              case released of
                Inr _ \<Rightarrow> proceed ()
              | Inl e \<Rightarrow>
                  let failure = classify_turn_store_error (de_text E) PhaseRetryPersist e
                  in if df_class failure \<noteq> FailureLeaseLost then record_at E claim failure else proceed ())))"

text \<open>Handle a failure and return from the dispatch.\<close>

definition fail_claim :: "dispatch_env \<Rightarrow> turn_outbox_record \<Rightarrow> outbox_dispatch_failure \<Rightarrow> 'a action" where
  "fail_claim E claim failure = act_then (handle_claim_failure E claim failure) (\<lambda>_. return_now)"

definition fail_post_append :: "dispatch_env \<Rightarrow> turn_outbox_record \<Rightarrow> outbox_dispatch_failure \<Rightarrow> 'a action" where
  "fail_post_append E claim failure = act_then (handle_post_append_failure E claim failure) (\<lambda>_. return_now)"

definition or_fail ::
  "dispatch_env \<Rightarrow> turn_outbox_record \<Rightarrow> ('e \<Rightarrow> outbox_dispatch_failure) \<Rightarrow> 'e + 'a \<Rightarrow> 'a action" where
  "or_fail E claim classify r = (case r of Inl e \<Rightarrow> fail_claim E claim (classify e) | Inr x \<Rightarrow> proceed x)"

definition unless_shutdown :: "dispatch_env \<Rightarrow> turn_outbox_record \<Rightarrow> unit action" where
  "unless_shutdown E claim =
     act_then (is_shutdown E) (\<lambda>stop.
     if stop then act_then (defer_for_shutdown E claim) (\<lambda>_. return_now) else proceed ())"

subsection \<open>Dispatching one claim\<close>

text \<open>Renew the lease and revalidate the event under it.\<close>

definition renew_and_revalidate ::
  "dispatch_env \<Rightarrow> public_key_bytes \<Rightarrow> string \<Rightarrow> string \<Rightarrow> turn_outbox_record \<Rightarrow> signing_validated_outbox action" where
  "renew_and_revalidate E public_key lease_owner lease_token claim =
     act_then (expect (chrono_from_std (oc_lease_duration (de_config E)))) (\<lambda>lease_duration.
     act_then (now_for E claim) (\<lambda>renewal_now.
     act_then (call_store E (\<lambda>_. store_tx (renew_outbox_lease (de_libs E) (ob_tenant_id claim) (ob_outbox_id claim)
       lease_owner lease_token renewal_now lease_duration))) (\<lambda>renewed.
     act_then (or_fail E claim (classify_turn_store_error (de_text E) PhaseRevalidate) renewed) (\<lambda>claim.
     act_then (now_for E claim) (\<lambda>now.
     act_then (call_store E (\<lambda>n. revalidate_outbox_for_signing (de_libs E) (de_uuid E n) (de_store E)
       (ob_tenant_id claim) (ob_outbox_id claim) lease_owner lease_token now public_key)) (\<lambda>validated.
     or_fail E claim (classify_turn_store_error (de_text E) PhaseRevalidate) validated))))))"

definition commit_window_left :: "dispatch_env \<Rightarrow> turn_outbox_record \<Rightarrow> bool action" where
  "commit_window_left E claim =
     act_then (observe E (de_now E)) (\<lambda>now.
     proceed (has_commit_window claim (oc_minimum_commit_window (de_config E)) now))"

definition require_window :: "dispatch_env \<Rightarrow> turn_outbox_record \<Rightarrow> string \<Rightarrow> unit action" where
  "require_window E claim message =
     act_then (commit_window_left E claim) (\<lambda>enough.
     if enough then proceed ()
     else fail_claim E claim (new_failure PhaseRevalidate FailureRetryable LeaseBudgetExhausted message))"

definition verify_event ::
  "dispatch_env \<Rightarrow> public_key_bytes \<Rightarrow> idempotent_event_binding \<Rightarrow> (turn_store_error + verified_event_commit) action" where
  "verify_event E public_key binding =
     call_ledger E (\<lambda>n. verify_existing_idempotent_event (tl_externals (de_libs E)) (de_uuid E n) public_key binding)"

fun not_found :: "turn_store_error \<Rightarrow> bool" where
  "not_found (TurnLedger (LedgerNotFound _)) = True"
| "not_found _ = False"

definition holding_permit :: "dispatch_env \<Rightarrow> 'a action \<Rightarrow> 'a action" where
  "holding_permit E m w =
     (case m w of (r, w') \<Rightarrow> (r, snd (locked E (\<lambda>shared. ((), drop_permit shared)) w')))"

definition append_claimed ::
  "dispatch_env \<Rightarrow> zaion_keypair \<Rightarrow> public_key_bytes \<Rightarrow> signing_validated_outbox \<Rightarrow> verified_event_commit action" where
  "append_claimed E keypair public_key validated =
     act_then (locked E admit_append) (\<lambda>admitted.
     if \<not> admitted then act_then (defer_for_shutdown E (sv_outbox validated)) (\<lambda>_. return_now)
     else
       holding_permit E
         (act_then (call_ledger E (\<lambda>n. append_verified_idempotent_event (tl_externals (de_libs E)) (de_uuid E n)
            (de_now_text E n) keypair (sv_binding validated))) (\<lambda>appended.
          case appended of
            Inr commit \<Rightarrow> proceed commit
          | Inl append_error \<Rightarrow>
              act_then (verify_event E public_key (sv_binding validated)) (\<lambda>verified.
              case verified of
                Inr commit \<Rightarrow> proceed commit
              | Inl verify_error \<Rightarrow>
                  fail_post_append E (sv_outbox validated) (classify_turn_store_error (de_text E) PhaseAppend
                    (if not_found verify_error then append_error else verify_error))))))"

definition sign_and_append ::
  "dispatch_env \<Rightarrow> principal_id \<Rightarrow> public_key_bytes \<Rightarrow> string \<Rightarrow> string \<Rightarrow> turn_outbox_record \<Rightarrow>
     (turn_outbox_record \<times> verified_event_commit) action" where
  "sign_and_append E principal_id public_key lease_owner lease_token claim =
     act_then (observe E (\<lambda>n. de_keypair E n principal_id)) (\<lambda>resolved.
     act_then (or_fail E claim classify_signer_error resolved) (\<lambda>keypair.
     act_then (unless_shutdown E claim) (\<lambda>_.
     if keypair_principal_id (tl_externals (de_libs E)) keypair \<noteq> principal_id \<or>
        keypair_public_key_bytes (tl_externals (de_libs E)) keypair \<noteq> public_key
     then fail_claim E claim (new_failure PhaseResolveSigner FailurePermanent SignerMismatch
       ''resolved signing key does not match the verified principal key'')
     else
       act_then (renew_and_revalidate E public_key lease_owner lease_token claim) (\<lambda>validated.
       act_then (require_window E (sv_outbox validated)
         ''private signer resolution exhausted the append/complete lease window'') (\<lambda>_.
       act_then (verify_event E public_key (sv_binding validated)) (\<lambda>verified.
       act_then (case verified of
           Inr commit \<Rightarrow> proceed commit
         | Inl e \<Rightarrow>
             if not_found e then append_claimed E keypair public_key validated
             else fail_post_append E (sv_outbox validated) (classify_turn_store_error (de_text E) PhaseAppend e)) (\<lambda>commit.
       proceed (sv_outbox validated, commit))))))))"

definition obtain_commit ::
  "dispatch_env \<Rightarrow> principal_id \<Rightarrow> public_key_bytes \<Rightarrow> string \<Rightarrow> string \<Rightarrow> signing_validated_outbox \<Rightarrow>
     (turn_outbox_record \<times> verified_event_commit) action" where
  "obtain_commit E principal_id public_key lease_owner lease_token validated =
     act_then (verify_event E public_key (sv_binding validated)) (\<lambda>verified.
     case verified of
       Inr commit \<Rightarrow> proceed (sv_outbox validated, commit)
     | Inl e \<Rightarrow>
         if not_found e then sign_and_append E principal_id public_key lease_owner lease_token (sv_outbox validated)
         else fail_post_append E (sv_outbox validated) (classify_turn_store_error (de_text E) PhaseAppend e))"

definition complete_claim ::
  "dispatch_env \<Rightarrow> string \<Rightarrow> string \<Rightarrow> turn_outbox_record \<Rightarrow> verified_event_commit \<Rightarrow> unit action" where
  "complete_claim E lease_owner lease_token claim commit =
     act_then (now_for E claim) (\<lambda>now.
     act_then (call_store E (\<lambda>n. complete_outbox (de_libs E) (de_uuid E n) (de_store E) (ob_tenant_id claim)
       (ob_outbox_id claim) lease_owner lease_token commit now)) (\<lambda>completed.
     case completed of
       Inr _ \<Rightarrow> locked E (\<lambda>shared. ((), count_success shared))
     | Inl e \<Rightarrow> fail_post_append E claim (classify_turn_store_error (de_text E) PhaseComplete e)))"

text \<open>Renew and revalidate once more when the lease is too short for the append.\<close>

definition widen_window ::
  "dispatch_env \<Rightarrow> public_key_bytes \<Rightarrow> string \<Rightarrow> string \<Rightarrow> signing_validated_outbox \<Rightarrow> signing_validated_outbox action" where
  "widen_window E public_key lease_owner lease_token validated =
     act_then (commit_window_left E (sv_outbox validated)) (\<lambda>enough.
     if enough then proceed validated
     else renew_and_revalidate E public_key lease_owner lease_token (sv_outbox validated))"

definition dispatch_claim :: "dispatch_env \<Rightarrow> turn_outbox_record \<Rightarrow> unit action" where
  "dispatch_claim E claim =
     act_then (unless_shutdown E claim) (\<lambda>_.
     act_then (or_fail E claim (classify_turn_store_error (de_text E) PhaseResolveSigner) (claimed_principal_id claim)) (\<lambda>principal_id.
     act_then (observe E (\<lambda>n. de_public_key E n principal_id)) (\<lambda>resolved.
     act_then (or_fail E claim classify_signer_error resolved) (\<lambda>public_key.
     if principal_id_from_public_key (tl_externals (de_libs E)) public_key \<noteq> principal_id
     then fail_claim E claim (new_failure PhaseResolveSigner FailurePermanent SignerMismatch
       ''resolved verification key does not derive the requested PrincipalId'')
     else
       act_then (unless_shutdown E claim) (\<lambda>_.
       act_then (expect (ob_lease_owner claim)) (\<lambda>lease_owner.
       act_then (expect (ob_lease_token claim)) (\<lambda>lease_token.
       act_then (renew_and_revalidate E public_key lease_owner lease_token claim) (\<lambda>validated.
       act_then (unless_shutdown E (sv_outbox validated)) (\<lambda>_.
       act_then (widen_window E public_key lease_owner lease_token validated) (\<lambda>validated.
       act_then (require_window E (sv_outbox validated)
         ''verified outbox does not retain the configured append/complete lease window'') (\<lambda>_.
       act_then (obtain_commit E principal_id public_key lease_owner lease_token validated) (\<lambda>(claim, commit).
       complete_claim E lease_owner lease_token claim commit))))))))))))"

subsection \<open>The worker loop\<close>

definition wait_for_work :: "dispatch_env \<Rightarrow> unit action" where
  "wait_for_work E = locked E (\<lambda>shared. ((), shared))"

fun claim_tenants :: "dispatch_env \<Rightarrow> string \<Rightarrow> duration \<Rightarrow> string list \<Rightarrow> bool \<Rightarrow> bool action" where
  "claim_tenants E worker_id lease_duration [] claimed_any = proceed claimed_any"
| "claim_tenants E worker_id lease_duration (tenant_id # rest) claimed_any =
     act_then (is_shutdown E) (\<lambda>stop.
     if stop then proceed claimed_any
     else
       act_then (observe E (de_now E)) (\<lambda>claim_now.
       act_then (call_store E (\<lambda>n. store_tx (claim_next_outbox (de_libs E) (de_uuid E n) tenant_id worker_id
         claim_now lease_duration))) (\<lambda>claimed.
       case claimed of
         Inr (Some claim) \<Rightarrow>
           act_then (called (dispatch_claim E claim)) (\<lambda>_. claim_tenants E worker_id lease_duration rest True)
       | Inr None \<Rightarrow> claim_tenants E worker_id lease_duration rest claimed_any
       | Inl e \<Rightarrow>
           let failure = classify_turn_store_error (de_text E) PhaseClaim e
           in if df_class failure = FailureFatal
              then act_then (stamped E (\<lambda>now. fail_dispatcher (Some tenant_id) None now failure)) (\<lambda>_. proceed claimed_any)
              else act_then (stamped E (\<lambda>now. record_failure (Some tenant_id) None now failure))
                (\<lambda>_. claim_tenants E worker_id lease_duration rest claimed_any))))"

definition worker_pass :: "dispatch_env \<Rightarrow> string \<Rightarrow> duration \<Rightarrow> unit action" where
  "worker_pass E worker_id lease_duration =
     act_then (observe E (de_now E)) (\<lambda>now.
     act_then (call_store E (\<lambda>_. store_read (dispatch_queue_snapshot (de_libs E) now
       (oc_tenant_scan_limit (de_config E))))) (\<lambda>snapshot.
     case snapshot of
       Inl e \<Rightarrow>
         let failure = classify_turn_store_error (de_text E) PhaseClaim e
         in if df_class failure = FailureFatal
            then act_then (stamped E (\<lambda>now. fail_dispatcher None None now failure)) (\<lambda>_. return_now)
            else act_then (stamped E (\<lambda>now. record_failure None None now failure)) (\<lambda>_. wait_for_work E)
     | Inr snapshot \<Rightarrow>
         if qs_ready_tenants snapshot = [] then wait_for_work E
         else
           act_then (claim_tenants E worker_id lease_duration (qs_ready_tenants snapshot) False) (\<lambda>claimed_any.
           if claimed_any then proceed () else wait_for_work E)))"

text \<open>The loop runs until the shutdown flag is seen; the number bounds the rounds looked at.\<close>

fun worker_rounds :: "dispatch_env \<Rightarrow> string \<Rightarrow> duration \<Rightarrow> nat \<Rightarrow> unit action" where
  "worker_rounds E worker_id lease_duration 0 = proceed ()"
| "worker_rounds E worker_id lease_duration (Suc n) =
     act_then (is_shutdown E) (\<lambda>stop.
     if stop then return_now
     else act_then (worker_pass E worker_id lease_duration) (\<lambda>_. worker_rounds E worker_id lease_duration n))"

text \<open>A worker thread whose store is open, with the guard that reports its end.\<close>

definition worker_loop :: "dispatch_env \<Rightarrow> nat \<Rightarrow> string \<Rightarrow> dispatch_world \<Rightarrow> unit flow \<times> dispatch_world" where
  "worker_loop E rounds uuid w =
     (case act_then (locked E (\<lambda>shared. ((), worker_started shared))) (\<lambda>_.
           act_then (is_shutdown E) (\<lambda>stop.
           if stop then return_now
           else
             act_then (expect (chrono_from_std (oc_lease_duration (de_config E)))) (\<lambda>lease_duration.
             worker_rounds E (''dispatcher-'' @ uuid) lease_duration rounds))) w of
        (Proceed u, w') \<Rightarrow> (Proceed u, w')
      | (Return, w') \<Rightarrow> (Return, snd (stamped E (drop_lifecycle_guard False) w'))
      | (Unwind, w') \<Rightarrow> (Unwind, snd (stamped E (drop_lifecycle_guard True) w')))"

end
