(* ===== verification/Dispatcher_Runs.thy ===== *)
theory Dispatcher_Runs
  imports Dispatcher Store_Retry
begin

text \<open>
  The dispatcher against the store: whatever the other threads do with the same operations, and
  whichever transactions fail, a worker only ever takes steps of the store and of the control
  state. The proof is compositional over the actions of the worker.
\<close>

named_theorems within_intros \<open>actions that stay within the steps of the store and of the control state\<close>

text \<open>The other threads use the same operations.\<close>

definition others_behave :: "dispatch_env \<Rightarrow> bool" where
  "others_behave E =
     (\<forall>n s db s' db'. de_others E n (s, db) = (s', db') \<longrightarrow>
        (store_step (de_libs E))\<^sup>*\<^sup>* db db' \<and> control_step\<^sup>*\<^sup>* s s')"

definition steps_within :: "dispatch_env \<Rightarrow> dispatch_world \<Rightarrow> dispatch_world \<Rightarrow> bool" where
  "steps_within E w w' =
     ((store_step (de_libs E))\<^sup>*\<^sup>* (dw_db w) (dw_db w') \<and> control_step\<^sup>*\<^sup>* (dw_shared w) (dw_shared w'))"

definition within :: "dispatch_env \<Rightarrow> 'a action \<Rightarrow> bool" where
  "within E m = (others_behave E \<longrightarrow> (\<forall>w. steps_within E w (snd (m w))))"

text \<open>A database operation that is a step of the store, whatever it answers.\<close>

definition store_like :: "turn_libs \<Rightarrow> 'a store_call \<Rightarrow> bool" where
  "store_like L call = (\<forall>h db. (store_step L)\<^sup>*\<^sup>* db (snd (snd (call h db))))"

lemma steps_within_refl [simp]: "steps_within E w w"
  by (simp add: steps_within_def)

lemma steps_within_trans: "steps_within E w w' \<Longrightarrow> steps_within E w' w'' \<Longrightarrow> steps_within E w w''"
  unfolding steps_within_def by (meson rtranclp_trans)

lemma withinD: "within E m \<Longrightarrow> others_behave E \<Longrightarrow> m w = (r, w') \<Longrightarrow> steps_within E w w'"
  unfolding within_def by (metis snd_conv)

lemma interfere_within: "others_behave E \<Longrightarrow> steps_within E w (interfere E w)"
  by (cases "de_others E (dw_tick w) (dw_shared w, dw_db w)")
    (auto simp: interfere_def steps_within_def others_behave_def)

subsection \<open>Composition\<close>

lemma within_proceed [within_intros]: "within E (proceed x)"
  by (simp add: within_def proceed_def)

lemma within_return [within_intros]: "within E return_now"
  by (simp add: within_def return_now_def)

lemma within_unwind [within_intros]: "within E unwind"
  by (simp add: within_def unwind_def)

lemma within_then [within_intros]:
  assumes "within E m" and "\<And>x. within E (f x)"
  shows "within E (act_then m f)"
  unfolding within_def
proof (intro impI allI)
  fix w assume E: "others_behave E"
  obtain r w' where m: "m w = (r, w')"
    by fastforce
  then show "steps_within E w (snd (act_then m f w))"
    using withinD [OF assms(1) E m] assms(2) E
    by (cases r) (auto simp: act_then_def within_def intro: steps_within_trans)
qed

lemma within_called [within_intros]: "within E m \<Longrightarrow> within E (called m)"
  by (auto simp: within_def called_def split: prod.splits flow.splits; metis snd_conv)

lemma within_observe [within_intros]: "within E (observe E f)"
  by (simp add: within_def observe_def interfere_within)

lemma within_locked [within_intros]:
  assumes "\<And>s. control_step\<^sup>*\<^sup>* s (snd (f s))"
  shows "within E (locked E f)"
  unfolding within_def
proof (intro impI allI)
  fix w assume E: "others_behave E"
  have "steps_within E (interfere E w) ((interfere E w)\<lparr>dw_shared := snd (f (dw_shared (interfere E w)))\<rparr>)"
    using assms by (simp add: steps_within_def)
  then show "steps_within E w (snd (locked E f w))"
    using interfere_within [OF E, of w] by (auto simp: locked_def Let_def split: prod.splits intro: steps_within_trans)
qed

lemma within_transaction:
  assumes "\<And>n. store_like (de_libs E) (call n)"
  shows "within E (transaction E fault call)"
  unfolding within_def
proof (intro impI allI)
  fix w assume E: "others_behave E"
  let ?w = "interfere E w"
  let ?ran = "call (dw_tick w) (dw_ledger ?w) (dw_db ?w)"
  have "steps_within E ?w (?w\<lparr>dw_ledger := fst (snd ?ran), dw_db := snd (snd ?ran)\<rparr>)"
    using assms by (simp add: steps_within_def store_like_def)
  then show "steps_within E w (snd (transaction E fault call w))"
    using interfere_within [OF E, of w]
    by (auto simp: transaction_def Let_def split: option.split intro: steps_within_trans)
qed

lemma within_expect [within_intros]: "within E (expect x)"
  by (cases x) (simp_all add: expect_def within_intros)

lemma within_holding [within_intros]:
  assumes "within E m"
  shows "within E (holding_permit E m)"
  unfolding within_def
proof (intro impI allI)
  fix w assume E: "others_behave E"
  have "within E (locked E (\<lambda>shared. ((), drop_permit shared)))"
    by (rule within_locked) (auto intro: control_permit)
  then show "steps_within E w (snd (holding_permit E m w))"
    using assms E by (auto simp: holding_permit_def within_def split: prod.splits intro: steps_within_trans)
qed

subsection \<open>The store's operations\<close>

lemma tx_like:
  assumes "\<And>db a db'. f db = Inr (a, db') \<Longrightarrow> store_step L db db'"
  shows "store_like L (store_tx f)"
  unfolding store_like_def
proof (intro allI)
  fix h db
  show "(store_step L)\<^sup>*\<^sup>* db (snd (snd (store_tx f h db)))"
    using assms by (cases "f db") (auto simp: store_tx_def split: prod.splits)
qed

lemma call_like:
  assumes "\<And>h db r h' db'. call h db = (r, h', db') \<Longrightarrow> store_step L db db'"
  shows "store_like L call"
  unfolding store_like_def by (metis assms prod.collapse r_into_rtranclp)

lemma store_read_like: "store_like L (store_read f)"
  by (simp add: store_like_def store_read_def)

lemma within_store [within_intros]:
  "(\<And>n. store_like (de_libs E) (call n)) \<Longrightarrow> within E (call_store E call)"
  unfolding call_store_def by (rule within_transaction)

lemma store_likes [within_intros]:
  "store_like L (store_tx (claim_next_outbox L uuid t w now d))"
  "store_like L (store_tx (release_outbox L t i w k now available_at error))"
  "store_like L (store_tx (renew_outbox_lease L t i w k now d))"
  "store_like L (store_tx (quarantine_outbox L claim failure exhausted now))"
  by (rule tx_like, erule step_claim step_release step_renew step_quarantine)+

lemma call_likes [within_intros]:
  "store_like L (revalidate_outbox_for_signing L uuid self t i w k now pk)"
  "store_like L (complete_outbox L uuid self t i w k token now)"
  "store_like L (store_read f)"
  by (rule call_like, erule step_revalidate step_complete)+ (rule store_read_like)

lemma within_ledger:
  "(\<And>n. store_like (de_libs E) (on_ledger (call n))) \<Longrightarrow> within E (call_ledger E call)"
  unfolding call_ledger_def by (rule within_transaction)

lemma within_verify [within_intros]: "within E (verify_event E pk binding)"
  unfolding verify_event_def by (intro within_ledger call_like) (rule step_verify)

lemma within_append [within_intros]:
  "within E (call_ledger E (\<lambda>n. append_verified_idempotent_event (tl_externals (de_libs E)) (u n) (t n) keypair binding))"
  by (intro within_ledger call_like) (rule step_append)

subsection \<open>Control\<close>

lemma within_section:
  assumes "\<And>s. control_step s (f s)"
  shows "within E (locked E (\<lambda>s. ((), f s)))"
  using assms by (intro within_locked) auto

lemma within_peek [within_intros]: "within E (locked E (\<lambda>s. (f s, s)))"
  by (intro within_locked) simp

lemma within_admit [within_intros]: "within E (locked E admit_append)"
  by (intro within_locked) (metis control_admit prod.collapse r_into_rtranclp)

lemma within_stamped: "(\<And>now s. control_step s (f now s)) \<Longrightarrow> within E (stamped E f)"
  unfolding stamped_def by (intro within_intros within_section)

lemma within_fail [within_intros]:
  "df_code failure \<noteq> ShutdownTimeout \<Longrightarrow> within E (stamped E (\<lambda>now. fail_dispatcher t i now failure))"
  by (intro within_stamped control_fail)

lemma within_record [within_intros]:
  "df_code failure \<noteq> ShutdownTimeout \<Longrightarrow> within E (stamped E (\<lambda>now. record_failure t i now failure))"
  by (intro within_stamped control_record)

lemma within_counted [within_intros]:
  "within E (locked E (\<lambda>s. ((), count_success s)))"
  "df_code failure \<noteq> ShutdownTimeout \<Longrightarrow> within E (locked E (\<lambda>s. ((), count_retry claim now failure s)))"
  "df_code failure \<noteq> ShutdownTimeout \<Longrightarrow> within E (locked E (\<lambda>s. ((), count_dead_letter claim now failure s)))"
  "within E (locked E (\<lambda>s. ((), worker_started s)))"
  by (intro within_section control_success control_retry control_dead control_started; assumption)+

lemma within_sum [within_intros]:
  "(\<And>e. r = Inl e \<Longrightarrow> within E (f e)) \<Longrightarrow> (\<And>x. r = Inr x \<Longrightarrow> within E (g x)) \<Longrightarrow> within E (case_sum f g r)"
  by (cases r) simp_all

lemma within_option [within_intros]:
  "within E f \<Longrightarrow> (\<And>x. r = Some x \<Longrightarrow> within E (g x)) \<Longrightarrow> within E (case_option f g r)"
  by (cases r) simp_all

lemma within_if [within_intros]:
  "(b \<Longrightarrow> within E m) \<Longrightarrow> (\<not> b \<Longrightarrow> within E m') \<Longrightarrow> within E (if b then m else m')"
  by simp

lemmas not_timeout = classify_not_timeout new_failure_code outbox_failure_code.distinct

subsection \<open>The worker\<close>

lemma within_clock [within_intros]:
  "within E (is_shutdown E)" "within E (now_for E claim)" "within E (commit_window_left E claim)" "within E (wait_for_work E)"
  unfolding is_shutdown_def now_for_def commit_window_left_def wait_for_work_def by (intro within_intros)+

lemma within_persist_failed [within_intros]:
  "df_code failure \<noteq> ShutdownTimeout \<Longrightarrow> within E (persist_failed E claim failure)"
  unfolding persist_failed_def fail_at_def record_at_def by (intro within_intros)

lemma within_quarantine [within_intros]:
  "df_code failure \<noteq> ShutdownTimeout \<Longrightarrow> within E (quarantine_claim E claim failure)"
  unfolding quarantine_claim_def by (intro within_intros not_timeout)

lemma within_retry [within_intros]:
  "df_code failure \<noteq> ShutdownTimeout \<Longrightarrow> within E (retry_claim E claim failure)"
  unfolding retry_claim_def Let_def by (intro within_intros not_timeout)

lemma within_claim_failure [within_intros]:
  "df_code failure \<noteq> ShutdownTimeout \<Longrightarrow> within E (handle_claim_failure E claim failure)"
  by (cases "df_class failure") (auto simp: handle_claim_failure_def fail_at_def record_at_def intro: within_intros)

lemma within_post_append [within_intros]:
  "df_code failure \<noteq> ShutdownTimeout \<Longrightarrow> within E (handle_post_append_failure E claim failure)"
  unfolding handle_post_append_failure_def fail_at_def by (intro within_intros)

lemma within_defer [within_intros]: "within E (defer_for_shutdown E claim)"
  unfolding defer_for_shutdown_def Let_def record_at_def by (intro within_intros not_timeout)

lemma within_fail_claim [within_intros]:
  "df_code failure \<noteq> ShutdownTimeout \<Longrightarrow> within E (fail_claim E claim failure)"
  "df_code failure \<noteq> ShutdownTimeout \<Longrightarrow> within E (fail_post_append E claim failure)"
  unfolding fail_claim_def fail_post_append_def by (intro within_intros; assumption)+

lemma within_or_fail [within_intros]:
  "(\<And>e. df_code (f e) \<noteq> ShutdownTimeout) \<Longrightarrow> within E (or_fail E claim f r)"
  unfolding or_fail_def by (intro within_intros)

lemma within_unless_shutdown [within_intros]: "within E (unless_shutdown E claim)"
  unfolding unless_shutdown_def by (intro within_intros)

lemma within_revalidated [within_intros]: "within E (renew_and_revalidate E pk owner token claim)"
  unfolding renew_and_revalidate_def by (intro within_intros not_timeout)

lemma within_window [within_intros]:
  "within E (require_window E claim message)" "within E (widen_window E pk owner token validated)"
  unfolding require_window_def widen_window_def by (intro within_intros; simp)+

lemma within_append_claimed [within_intros]: "within E (append_claimed E keypair pk validated)"
  unfolding append_claimed_def by (intro within_intros not_timeout)

lemma within_sign [within_intros]: "within E (sign_and_append E p pk owner token claim)"
  unfolding sign_and_append_def by (intro within_intros not_timeout; simp)

lemma within_obtain [within_intros]: "within E (obtain_commit E p pk owner token validated)"
  unfolding obtain_commit_def by (intro within_intros not_timeout)

lemma within_complete [within_intros]: "within E (complete_claim E owner token claim commit)"
  unfolding complete_claim_def by (intro within_intros not_timeout)

lemma within_dispatch [within_intros]: "within E (dispatch_claim E claim)"
  unfolding dispatch_claim_def split_def by (intro within_intros not_timeout; simp)

lemma within_claim_tenants [within_intros]: "within E (claim_tenants E worker_id d tenants claimed)"
  by (induction tenants arbitrary: claimed) (auto simp: Let_def intro!: within_intros not_timeout)

lemma within_pass [within_intros]: "within E (worker_pass E worker_id d)"
  unfolding worker_pass_def Let_def by (intro within_intros not_timeout)

lemma within_rounds [within_intros]: "within E (worker_rounds E worker_id d n)"
  by (induction n) (auto intro!: within_intros)

lemma within_worker: "within E (worker_loop E n uuid)"
proof -
  let ?m = "act_then (locked E (\<lambda>shared. ((), worker_started shared))) (\<lambda>_.
    act_then (is_shutdown E) (\<lambda>stop. if stop then return_now
      else act_then (expect (chrono_from_std (oc_lease_duration (de_config E)))) (\<lambda>d. worker_rounds E (''dispatcher-'' @ uuid) d n)))"
  have m: "within E ?m"
    by (intro within_intros)
  have guard: "within E (stamped E (drop_lifecycle_guard b))" for b
    by (intro within_stamped control_guard)
  show ?thesis
    unfolding within_def
  proof (intro impI allI)
    fix w assume E: "others_behave E"
    obtain r w' where run: "?m w = (r, w')"
      by fastforce
    have "steps_within E w w'"
      by (rule withinD [OF m E run])
    moreover have "steps_within E w' (snd (stamped E (drop_lifecycle_guard b) w'))" for b
      using guard E by (simp add: within_def)
    ultimately show "steps_within E w (snd (worker_loop E n uuid w))"
      by (cases r) (auto simp: worker_loop_def run intro: steps_within_trans)
  qed
qed

subsection \<open>Delivered rows stay\<close>

lemma kept_delivered: "(\<And>r. P r \<Longrightarrow> \<not> delivered r) \<Longrightarrow> r \<in> set rows \<Longrightarrow> delivered r \<Longrightarrow> r \<in> set (update_where P f rows)"
  by (force simp: update_where_def)

lemma open_rows: "claimable_row t i ms r \<Longrightarrow> \<not> delivered r" "leased_row t i w k ms r \<Longrightarrow> \<not> delivered r"
  by (auto simp: claimable_row_def leased_row_def delivered_def)

lemma delivered_step:
  assumes inv: "full_inv db" and step: "store_step L db db'" and r: "r \<in> set (td_outbox db)" "delivered r"
  shows "r \<in> set (td_outbox db')"
proof -
  have extended: "outbox_extended db db' \<Longrightarrow> ?thesis"
    using r by (auto simp: outbox_extended_def)
  have ledger: "ledger_only m \<Longrightarrow> m h db = (x, h', db') \<Longrightarrow> ?thesis" for m :: "'b store_call" and h x h'
    using r unfolding ledger_only_def by (metis snd_conv turn_db.select_convs(3) turn_db.surjective turn_db.update_convs(8))
  have updated: "td_outbox db' = update_where P f (td_outbox db) \<Longrightarrow> (\<And>r. P r \<Longrightarrow> \<not> delivered r) \<Longrightarrow> ?thesis" for P f
    using kept_delivered r by metis
  show ?thesis
    using step
  proof cases
    case step_begin
    then show ?thesis
      by (intro extended begin_turn_extends)
  next
    case step_transition
    then show ?thesis
      by (intro extended) (auto simp: store_transition_def split: if_splits intro: transition_extends)
  next
    case step_result
    then show ?thesis
      by (intro extended) (auto simp: store_transition_with_result_def split: if_splits intro: transition_extends)
  next
    case step_recover
    then show ?thesis
      by (intro extended) (auto simp: recover_expired_actor_leases_def Let_def intro: recover_actor_turns_extends)
  next
    case step_claim
    then show ?thesis
      using claim_cases [OF step_claim] r updated open_rows(1) by auto
  next
    case step_release
    then show ?thesis
      using release_cases [OF step_release] updated open_rows(2) by auto
  next
    case step_renew
    then show ?thesis
      using renew_cases [OF step_renew] updated open_rows(2) by auto
  next
    case step_quarantine
    then show ?thesis
      by (rule quarantine_cases) (use kept_delivered [OF open_rows(2) r] in simp)
  next
    case step_revalidate
    then show ?thesis
      using ledger [OF revalidate_ledger_only] by blast
  next
    case step_append
    then show ?thesis
      using ledger [OF ledger_only_on_ledger] by blast
  next
    case step_verify
    then show ?thesis
      using ledger [OF ledger_only_on_ledger] by blast
  next
    case (step_complete uuid self t i w k token now h completion h')
    show ?thesis
      using complete_outbox_cases [OF step_complete]
    proof
      assume "\<exists>snapshot l c. complete_in_tx L t i w k token now snapshot (db\<lparr>td_ledger := l\<rparr>) = Inr (c, db') \<and> completion = Inr c"
      then obtain snapshot l c where "complete_in_tx L t i w k token now snapshot (db\<lparr>td_ledger := l\<rparr>) = Inr (c, db')"
        by blast
      then show ?thesis
        using complete_in_tx_cases [of "db\<lparr>td_ledger := l\<rparr>"] inv r open_rows(2) by (fastforce simp: head_delivered_def)
    qed (use r in auto)
  qed
qed

lemma delivered_run:
  assumes "(store_step L)\<^sup>*\<^sup>* db db'" and "full_inv db" and "r \<in> set (td_outbox db)" "delivered r"
  shows "r \<in> set (td_outbox db')"
  using assms(1)
proof (induction rule: rtranclp_induct)
  case (step y z)
  then show ?case
    using store.run_inv [OF step.hyps(1) assms(2)] delivered_step assms(4) by blast
qed (rule assms(3))

lemma complete_outbox_delivers:
  assumes inv: "full_inv db" and ok: "complete_outbox L uuid self t i w k commit now h db = (Inr c, h', db')"
  shows "\<exists>r \<in> set (td_outbox db'). outbox_key r = (t, i) \<and> delivered r \<and> ow_ledger_event_id r = Some (vc_event_id commit)"
proof -
  obtain snapshot l where tx: "complete_in_tx L t i w k commit now snapshot (db\<lparr>td_ledger := l\<rparr>) = Inr (c, db')"
    using complete_outbox_tx [OF ok] by blast
  have inv': "full_inv (db\<lparr>td_ledger := l\<rparr>)"
    using inv by simp
  obtain current where cur: "load_dispatch_snapshot L t i w k now True (db\<lparr>td_ledger := l\<rparr>) = Inr current"
    "deliver_in_tx L t i w k commit now (vh_outbox (snapshot_target current)) (db\<lparr>td_ledger := l\<rparr>) = Inr (c, db')"
    using tx by (rule complete_in_tx_ok)
  obtain r o' payload status where r: "r \<in> set (td_outbox db)" "outbox_key r = (t, i)"
    "vh_outbox (snapshot_target current) = outbox_record_of r o' (evidence_of (db\<lparr>td_ledger := l\<rparr>) r) payload status"
    "row_status r = Some status" "status \<noteq> OutboxDelivered \<longrightarrow> tenant_outbox_head t (db\<lparr>td_ledger := l\<rparr>) = Inr (Some i)"
    using snapshot_target_row [OF cur(1)] by auto
  show ?thesis
    using deliver_in_tx_cases [OF inv' _ r(2,4) _ cur(2) [unfolded r(3)]] r
    by (auto simp: head_delivered_def deliver_row_def delivered_def outbox_key_def)
qed

end
