(* ===== verification/Dispatcher_Delivery.thy ===== *)
theory Dispatcher_Delivery
  imports Dispatcher_Runs
begin

text \<open>
  What a dispatch that runs to its end has achieved: inversion of the worker's control flow, the
  key of the event through renewal and revalidation, and the delivery of that event.
\<close>

subsection \<open>Inversion of the control flow\<close>

named_theorems flow_simps \<open>when an action goes on with a value\<close>

lemma proceed_flow [flow_simps]: "proceed x w = (Proceed y, w') \<longleftrightarrow> y = x \<and> w' = w"
  by (auto simp: proceed_def)

lemma return_flow [flow_simps]: "return_now w \<noteq> (Proceed y, w')"
  by (simp add: return_now_def)

lemma unwind_flow [flow_simps]: "unwind w \<noteq> (Proceed y, w')"
  by (simp add: unwind_def)

lemma then_flow [flow_simps]:
  "act_then m f w = (Proceed y, w'') \<longleftrightarrow> (\<exists>x w'. m w = (Proceed x, w') \<and> f x w' = (Proceed y, w''))"
  by (auto simp: act_then_def split: prod.splits flow.splits)

lemma expect_flow [flow_simps]: "expect x w = (Proceed y, w') \<longleftrightarrow> x = Some y \<and> w' = w"
  by (cases x) (auto simp: expect_def flow_simps)

lemma fail_flow [flow_simps]:
  "fail_claim E claim failure w \<noteq> (Proceed y, w')" "fail_post_append E claim failure w \<noteq> (Proceed y, w')"
  by (simp_all add: fail_claim_def fail_post_append_def flow_simps)

lemma or_fail_flow [flow_simps]: "or_fail E claim f r w = (Proceed y, w') \<longleftrightarrow> r = Inr y \<and> w' = w"
  by (cases r) (auto simp: or_fail_def flow_simps)

lemma sum_flow [flow_simps]:
  "case_sum f g r w = (Proceed y, w') \<longleftrightarrow>
     (\<exists>e. r = Inl e \<and> f e w = (Proceed y, w')) \<or> (\<exists>x. r = Inr x \<and> g x w = (Proceed y, w'))"
  by (cases r) auto

lemma if_flow [flow_simps]:
  "(if b then m else m') w = (Proceed y, w') \<longleftrightarrow> b \<and> m w = (Proceed y, w') \<or> \<not> b \<and> m' w = (Proceed y, w')"
  by simp

lemma transaction_flow:
  "transaction E fault call w = (Proceed (Inr y), w') \<longleftrightarrow>
     (let v = interfere E w
      in fault (dw_tick w) = None \<and> fst (call (dw_tick w) (dw_ledger v) (dw_db v)) = Inr y \<and>
         w' = v\<lparr>dw_ledger := fst (snd (call (dw_tick w) (dw_ledger v) (dw_db v))),
               dw_db := snd (snd (call (dw_tick w) (dw_ledger v) (dw_db v)))\<rparr>)"
  by (auto simp: transaction_def Let_def split: option.splits)

lemma store_flow:
  assumes "call_store E call w = (Proceed (Inr y), w')"
  shows "\<exists>n h db h'. (n = dw_tick w \<and> db = dw_db (interfere E w)) \<and> call n h db = (Inr y, h', dw_db w')"
  using assms by (auto simp: call_store_def transaction_flow Let_def) (metis prod.collapse)

lemma tx_flow: "store_tx f h db = (Inr y, h', db') \<longleftrightarrow> f db = Inr (y, db') \<and> h' = h"
  by (auto simp: store_tx_def split: sum.splits)

subsection \<open>The key of the event\<close>

definition claim_key :: "turn_outbox_record \<Rightarrow> string \<times> string" where
  "claim_key claim = (ob_tenant_id claim, ob_outbox_id claim)"

lemma claim_key_eq: "claim_key c = (t, i) \<longleftrightarrow> ob_tenant_id c = t \<and> ob_outbox_id c = i"
  by (simp add: claim_key_def)

lemma record_key: "claim_key (outbox_record_of r c e payload status) = outbox_key r"
  by (simp add: claim_key_def outbox_record_of_def outbox_key_def)

lemma required_key:
  assumes "require_outbox L t i db = Inr rec"
  shows "claim_key rec = (t, i)"
proof -
  obtain r c payload status where "find (outbox_at t i) (td_outbox db) = Some r"
    "rec = outbox_record_of r c (evidence_of db r) payload status"
    using require_outbox_ok [OF assms] by blast
  then show ?thesis
    using find_Some_iff [of "outbox_at t i" "td_outbox db" r] by (auto simp: record_key outbox_at_def outbox_key_def)
qed

lemma renewed_key: "renew_outbox_lease L t i w k now d db = Inr (rec, db') \<Longrightarrow> claim_key rec = (t, i)"
  unfolding renew_outbox_lease_def Let_def by (auto simp: result_simps split: if_splits dest: required_key)

lemma revalidated_key:
  assumes "revalidate_outbox_for_signing L uuid self t i w k now pk h db = (Inr v, h', db')"
  shows "claim_key (sv_outbox v) = (t, i)"
proof -
  obtain snapshot where s: "dispatch_snapshot_of L self t i w k now False db = Inr snapshot"
    "sv_outbox v = vh_outbox (snapshot_target snapshot)"
    using assms unfolding revalidate_outbox_for_signing_def
    by (auto simp: store_then_def store_return_def store_read_def split: sum.splits prod.splits)
  then have "load_dispatch_snapshot L t i w k now False db = Inr snapshot"
    by (auto simp: dispatch_snapshot_of_def result_simps split: if_splits)
  then show ?thesis
    using snapshot_target_row s(2) record_key by metis
qed

lemma renew_and_revalidate_key:
  assumes "renew_and_revalidate E pk owner token claim w = (Proceed v, w')"
  shows "claim_key (sv_outbox v) = claim_key claim"
proof -
  obtain d now w1 renewed w2 now' w3 where st:
    "call_store E (\<lambda>_. store_tx (renew_outbox_lease (de_libs E) (ob_tenant_id claim) (ob_outbox_id claim) owner token now d)) w1 =
       (Proceed (Inr renewed), w2)"
    "call_store E (\<lambda>n. revalidate_outbox_for_signing (de_libs E) (de_uuid E n) (de_store E) (ob_tenant_id renewed)
       (ob_outbox_id renewed) owner token now' pk) w3 = (Proceed (Inr v), w')"
    using assms unfolding renew_and_revalidate_def by (auto simp: flow_simps)
  obtain db db' where "renew_outbox_lease (de_libs E) (ob_tenant_id claim) (ob_outbox_id claim) owner token now d db = Inr (renewed, db')"
    using store_flow [OF st(1)] by (auto simp: tx_flow)
  then have "claim_key renewed = claim_key claim"
    using renewed_key by (fastforce simp: claim_key_def)
  moreover have "claim_key (sv_outbox v) = claim_key renewed"
    using store_flow [OF st(2)] revalidated_key by (fastforce simp: claim_key_def)
  ultimately show ?thesis
    by simp
qed

lemma widen_key:
  "widen_window E pk owner token v w = (Proceed v', w') \<Longrightarrow> claim_key (sv_outbox v') = claim_key (sv_outbox v)"
  by (auto simp: widen_window_def flow_simps dest: renew_and_revalidate_key)

lemma obtained_key:
  assumes "obtain_commit E p pk owner token v w = (Proceed (claim, commit), w')"
  shows "claim_key claim = claim_key (sv_outbox v)"
proof -
  have "claim_key claim = claim_key (sv_outbox v)"
    if "sign_and_append E p pk owner token (sv_outbox v) u = (Proceed (claim, commit), w')" for u
    using that unfolding sign_and_append_def
    by (auto simp: flow_simps dest: renew_and_revalidate_key)
  then show ?thesis
    using assms unfolding obtain_commit_def by (auto simp: flow_simps)
qed

subsection \<open>Delivery\<close>

text \<open>
  Partial correctness of an action that goes on, from states that keep the store's invariant. The
  invariant survives every action, so a step is either passed over or contributes a fact on its value.
\<close>

definition sound :: "dispatch_env \<Rightarrow> 'a action \<Rightarrow> ('a \<Rightarrow> dispatch_world \<Rightarrow> bool) \<Rightarrow> bool" where
  "sound E m Q =
     (others_behave E \<longrightarrow> (\<forall>w x w'. full_inv (dw_db w) \<longrightarrow> m w = (Proceed x, w') \<longrightarrow> Q x w'))"

lemma within_inv: "within E m \<Longrightarrow> others_behave E \<Longrightarrow> full_inv (dw_db w) \<Longrightarrow> m w = (r, w') \<Longrightarrow> full_inv (dw_db w')"
  using withinD store.run_inv unfolding steps_within_def by blast

lemma sound_with:
  assumes "within E m" and "\<And>w x w'. m w = (Proceed x, w') \<Longrightarrow> R x" and "\<And>x. R x \<Longrightarrow> sound E (f x) Q"
  shows "sound E (act_then m f) Q"
  using assms within_inv [OF assms(1)] unfolding sound_def then_flow by blast

lemma sound_skip: "within E m \<Longrightarrow> (\<And>x. sound E (f x) Q) \<Longrightarrow> sound E (act_then m f) Q"
  by (rule sound_with [where R = "\<lambda>_. True"]) auto

lemma sound_if: "(b \<Longrightarrow> sound E m Q) \<Longrightarrow> (\<not> b \<Longrightarrow> sound E m' Q) \<Longrightarrow> sound E (if b then m else m') Q"
  by simp

lemma sound_fail: "sound E (fail_claim E claim failure) Q"
  by (simp add: sound_def flow_simps)

definition claim_delivered :: "string \<times> string \<Rightarrow> turn_db \<Rightarrow> bool" where
  "claim_delivered key db = (\<exists>r \<in> set (td_outbox db). outbox_key r = key \<and> delivered r)"

lemma complete_claim_delivers:
  "sound E (complete_claim E owner token claim commit) (\<lambda>_ w. claim_delivered (claim_key claim) (dw_db w))"
  unfolding sound_def
proof (intro impI allI)
  fix w x w'
  assume E: "others_behave E" and inv: "full_inv (dw_db w)" and ok: "complete_claim E owner token claim commit w = (Proceed x, w')"
  obtain now u v c where st: "now_for E claim w = (Proceed now, u)"
    "call_store E (\<lambda>n. complete_outbox (de_libs E) (de_uuid E n) (de_store E) (ob_tenant_id claim)
       (ob_outbox_id claim) owner token commit now) u = (Proceed (Inr c), v)"
    "locked E (\<lambda>shared. ((), count_success shared)) v = (Proceed x, w')"
    using ok unfolding complete_claim_def by (auto simp: flow_simps)
  have u: "full_inv (dw_db u)"
    by (rule within_inv [OF within_clock(2) E inv st(1)])
  have "full_inv (dw_db (interfere E u))"
    using interfere_within [OF E, of u] store.run_inv u unfolding steps_within_def by blast
  then obtain r where r: "r \<in> set (td_outbox (dw_db v))" "outbox_key r = claim_key claim" "delivered r"
    using store_flow [OF st(2)] complete_outbox_delivers unfolding claim_key_def by blast
  have "full_inv (dw_db v)"
    by (rule within_inv [OF within_store E u st(2)]) (intro within_intros)
  moreover have "steps_within E v w'"
    by (rule withinD [OF within_counted(1) E st(3)])
  ultimately show "claim_delivered (claim_key claim) (dw_db w')"
    using delivered_run r unfolding steps_within_def claim_delivered_def by blast
qed

lemma dispatch_claim_delivers:
  "sound E (dispatch_claim E claim) (\<lambda>_ w. claim_delivered (claim_key claim) (dw_db w))"
proof -
  let ?Q = "\<lambda>_ w. claim_delivered (claim_key claim) (dw_db w)"
  have complete: "sound E (case cc of (c, commit) \<Rightarrow> complete_claim E owner token c commit) ?Q"
    if "claim_key (fst cc) = claim_key claim" for cc owner token
    using complete_claim_delivers [of E owner token "fst cc" "snd cc"] that by (simp add: split_def)
  have commit: "sound E (act_then (obtain_commit E p pk owner token v) (\<lambda>(c, commit). complete_claim E owner token c commit)) ?Q"
    if "claim_key (sv_outbox v) = claim_key claim" for p pk owner token v
    by (rule sound_with [where R = "\<lambda>cc. claim_key (fst cc) = claim_key claim", OF within_obtain _ complete])
      (use that obtained_key in force)
  have widen: "sound E (act_then (widen_window E pk owner token v) (\<lambda>v. act_then (require_window E (sv_outbox v) message) (\<lambda>_.
      act_then (obtain_commit E p pk owner token v) (\<lambda>(c, commit). complete_claim E owner token c commit)))) ?Q"
    if "claim_key (sv_outbox v) = claim_key claim" for p pk owner token v message
    by (rule sound_with [where R = "\<lambda>v. claim_key (sv_outbox v) = claim_key claim", OF within_window(2)])
      (use that widen_key in \<open>auto intro: sound_skip within_window(1) commit\<close>)
  have dispatch: "sound E (act_then (renew_and_revalidate E pk owner token claim) (\<lambda>v. act_then (unless_shutdown E (sv_outbox v)) (\<lambda>_.
      act_then (widen_window E pk owner token v) (\<lambda>v. act_then (require_window E (sv_outbox v) message) (\<lambda>_.
      act_then (obtain_commit E p pk owner token v) (\<lambda>(c, commit). complete_claim E owner token c commit)))))) ?Q"
    for p pk owner token message
    by (rule sound_with [where R = "\<lambda>v. claim_key (sv_outbox v) = claim_key claim", OF within_revalidated renew_and_revalidate_key])
      (auto intro: sound_skip within_unless_shutdown widen)
  show ?thesis
    unfolding dispatch_claim_def by (intro dispatch sound_skip within_intros sound_if sound_fail not_timeout)
qed

end
