(* ===== verification/Dispatcher_Demo.thy ===== *)
theory Dispatcher_Demo
  imports Dispatcher_Delivery
begin

text \<open>
  A worker run from claim to delivery, evaluated on the concrete store of \<open>Store_Demo\<close>: an
  environment without interference and faults, with the key of the claimed principal.
\<close>

definition demo_text :: error_text where
  "demo_text = \<lparr>et_store = \<lambda>_. ''store'', et_ledger = \<lambda>_. ''ledger'', et_sqlite = \<lambda>_. ''sqlite'', et_io = \<lambda>_ _. ''io''\<rparr>"

definition demo_config :: outbox_dispatcher_config where
  "demo_config = default_config\<lparr>oc_lease_duration := std_secs 60\<rparr>"

definition demo_env :: dispatch_env where
  "demo_env =
     \<lparr>de_libs = demo_libs, de_text = demo_text, de_store = demo_self, de_config = demo_config, de_now = \<lambda>_. 0,
      de_now_text = \<lambda>_. ''now'', de_uuid = \<lambda>_. ''u1'', de_public_key = \<lambda>_ _. Inr demo_public,
      de_keypair = \<lambda>_ _. Inr demo_key, de_store_fault = \<lambda>_. None, de_ledger_fault = \<lambda>_. None, de_others = \<lambda>_ x. x\<rparr>"

definition demo_shared :: dispatcher_shared where
  "demo_shared =
     \<lparr>sh_config = demo_config, sh_shutdown = False, sh_wake_generation = 0,
      sh_append_admission = \<lparr>aa_accepting = True, aa_in_flight = 0\<rparr>,
      sh_health = \<lparr>rh_lifecycle = LifecycleRunning, rh_running_workers = 0, rh_successes = 0,
        rh_retries = 0, rh_dead_letters = 0, rh_last_error = None\<rparr>\<rparr>"

definition demo_world :: "dispatcher_shared \<Rightarrow> turn_db \<Rightarrow> nat \<Rightarrow> dispatch_world" where
  "demo_world shared db n = \<lparr>dw_shared = shared, dw_db = db, dw_ledger = demo_handle, dw_tick = n\<rparr>"

lemma demo_env_simps [simp]:
  "de_libs demo_env = demo_libs" "de_text demo_env = demo_text" "de_store demo_env = demo_self" "de_config demo_env = demo_config"
  "de_now demo_env n = 0" "de_now_text demo_env n = ''now''" "de_uuid demo_env n = ''u1''" "de_public_key demo_env n p = Inr demo_public"
  "de_keypair demo_env n p = Inr demo_key" "de_store_fault demo_env n = None" "de_ledger_fault demo_env n = None"
  "de_others demo_env n x = x"
  by (simp_all add: demo_env_def)

lemma demo_others: "others_behave demo_env"
  by (simp add: others_behave_def)

lemma demo_config_simps [simp]:
  "chrono_from_std (oc_lease_duration demo_config) = Some (seconds 60)" "oc_minimum_commit_window demo_config = std_secs 12"
  "oc_maximum_attempts demo_config = 8" "oc_tenant_scan_limit demo_config = 128"
  by (simp_all add: demo_config_def default_config_def chrono_from_std_def std_secs_def seconds_def milliseconds_def i64_max_def)

lemma demo_started: "reaches started_shared control_step demo_shared"
  by (rule reaches.start)
    (simp add: started_shared_def start_shared_def demo_shared_def validate_config_def demo_config_def default_config_def std_secs_def
      std_millis_def MAX_OUTBOX_LEASE_SECONDS_def)

lemma demo_interfere [simp]: "interfere demo_env (demo_world s db n) = demo_world s db (Suc n)"
  by (simp add: interfere_def demo_world_def)

text \<open>The steps of the run.\<close>

lemma demo_observe: "observe demo_env f (demo_world s db n) = (Proceed (f n), demo_world s db (Suc n))"
  by (simp add: observe_def demo_world_def interfere_def)

lemma demo_locked: "locked demo_env f (demo_world s db n) = (Proceed (fst (f s)), demo_world (snd (f s)) db (Suc n))"
  by (simp add: locked_def Let_def split_def demo_interfere) (simp add: demo_world_def)

lemma demo_store_call:
  assumes "call n demo_handle db = (r, demo_handle, db')"
  shows "call_store demo_env call (demo_world s db n) = (Proceed r, demo_world s db' (Suc n))"
proof -
  have "dw_tick (demo_world s db n) = n" "dw_ledger (demo_world s db m) = demo_handle" "dw_db (demo_world s db m) = db" for m
    by (simp_all add: demo_world_def)
  then show ?thesis
    using assms by (simp add: call_store_def transaction_def Let_def) (simp add: demo_world_def)
qed

lemma demo_ledger_call:
  assumes "on_ledger (call n) demo_handle db = (r, demo_handle, db')"
  shows "call_ledger demo_env call (demo_world s db n) = (Proceed r, demo_world s db' (Suc n))"
proof -
  have "dw_tick (demo_world s db n) = n" "dw_ledger (demo_world s db m) = demo_handle" "dw_db (demo_world s db m) = db" for m
    by (simp_all add: demo_world_def)
  then show ?thesis
    using assms by (simp add: call_ledger_def transaction_def Let_def) (simp add: demo_world_def)
qed

lemma act_then_run: "m w = (Proceed x, w') \<Longrightarrow> act_then m f w = f x w'"
  by (simp add: act_then_def)

lemma demo_claim_fields:
  "ob_tenant_id (demo_claim approval) = ''acme''" "ob_outbox_id (demo_claim approval) = ''outbox-h''"
  "ob_lease_owner (demo_claim approval) = Some ''worker-1''" "ob_lease_token (demo_claim approval) = Some ''outbox-lease-u1''"
  "ob_lease_until (demo_claim approval) = Some (seconds 60)" "ob_updated_at (demo_claim approval) = 0"
  "ob_status (demo_claim approval) = OutboxLeased" "ob_attempts (demo_claim approval) = 1"
  "claimed_principal_id (demo_claim approval) = Inr (PrincipalId ''agent-1'')"
  by (simp_all add: demo_claim_def outbox_record_of_def demo_leased_row_def take_lease_def demo_event_row_fields claimed_principal_id_def
      demo_payload_def outbox_payload_def demo_record_def pointer_str_def)

lemma demo_now: "now_for demo_env (demo_claim approval) (demo_world s db n) = (Proceed 0, demo_world s db (Suc n))"
  by (simp add: now_for_def act_then_def demo_observe proceed_def monotonic_now_def demo_claim_fields)

lemma demo_running: "sh_shutdown s = False \<Longrightarrow> unless_shutdown demo_env c (demo_world s db n) = (Proceed (), demo_world s db (Suc n))"
  by (simp add: unless_shutdown_def is_shutdown_def act_then_def demo_locked proceed_def)

lemma demo_renews: "renew_outbox_lease demo_libs ''acme'' ''outbox-h'' ''worker-1'' ''outbox-lease-u1'' 0 (seconds 60) (demo_leased False) =
    Inr (demo_claim False, demo_leased False)"
proof -
  have "update_where (leased_row ''acme'' ''outbox-h'' ''worker-1'' ''outbox-lease-u1'' 0) (extend_lease 60000 0) (td_outbox (demo_leased False)) =
      td_outbox (demo_leased False)"
    by (simp add: demo_leased_def demo_leased_row_def take_lease_def demo_event_row_fields update_where_def extend_lease_def)
  then have update: "update_outbox (leased_row ''acme'' ''outbox-h'' ''worker-1'' ''outbox-lease-u1'' 0) (extend_lease 60000 0) (demo_leased False) =
      Inr (1, demo_leased False)"
    by (simp add: update_outbox_Inr)
      (simp add: demo_leased_def demo_leased_row_def take_lease_def demo_event_row_fields leased_row_def outbox_at_def
        delivery_guard_fires_def delivered_def extend_lease_def)
  have held: "check_held_lease (demo_claim False) ''outbox-h'' ''worker-1'' ''outbox-lease-u1'' 0 = Inr ()"
    by (simp add: check_held_lease_def demo_claim_fields none_or_passed_def seconds_def)
  have "\<not> outbox_is_quarantined ''acme'' ''outbox-h'' (demo_leased False)"
    by (simp add: outbox_is_quarantined_def demo_leased_def demo_admitted_def demo_store_def)
  then show ?thesis
    by (simp add: renew_outbox_lease_def Let_def demo_worker demo_leased_facts demo_leased_head demo_leased_loads update held
        demo_claim_fields cong: and_then_cong)
qed

text \<open>Renewal with revalidation, and the ledger before the append.\<close>

lemma demo_revalidated:
  "renew_and_revalidate demo_env pk ''worker-1'' ''outbox-lease-u1'' (demo_claim False) (demo_world s (demo_leased False) n) =
     (Proceed \<lparr>sv_outbox = demo_claim False, sv_binding = demo_binding1\<rparr>, demo_world s (demo_leased False) (Suc (Suc (Suc (Suc n)))))"
proof -
  let ?renew = "\<lambda>_ :: nat. store_tx (renew_outbox_lease demo_libs ''acme'' ''outbox-h'' ''worker-1'' ''outbox-lease-u1'' 0 (seconds 60))"
  let ?check = "\<lambda>_ :: nat. revalidate_outbox_for_signing demo_libs ''u1'' demo_self ''acme'' ''outbox-h'' ''worker-1'' ''outbox-lease-u1'' 0 pk"
  have renew: "call_store demo_env ?renew (demo_world s (demo_leased False) m) =
      (Proceed (Inr (demo_claim False)), demo_world s (demo_leased False) (Suc m))" for m
    by (rule demo_store_call) (simp add: store_tx_def demo_renews)
  have check: "call_store demo_env ?check (demo_world s (demo_leased False) m) =
      (Proceed (Inr \<lparr>sv_outbox = demo_claim False, sv_binding = demo_binding1\<rparr>), demo_world s (demo_leased False) (Suc m))" for m
    by (rule demo_store_call) (rule demo_revalidates)
  show ?thesis
    by (simp add: renew_and_revalidate_def act_then_run expect_def proceed_def demo_now demo_claim_fields renew check or_fail_def)
qed

lemma demo_window: "commit_window_left demo_env (demo_claim False) (demo_world s db n) = (Proceed True, demo_world s db (Suc n))"
proof -
  have "chrono_from_std (std_secs 12) = Some (seconds 12)"
    by (simp add: chrono_from_std_def std_secs_def seconds_def milliseconds_def i64_max_def)
  then show ?thesis
    by (simp add: commit_window_left_def act_then_run demo_observe proceed_def has_commit_window_def demo_claim_fields seconds_def)
qed

lemma demo_missing:
  "on_ledger (verify_existing_idempotent_event (tl_externals demo_libs) uuid demo_public demo_binding1) demo_handle (demo_leased False) =
     (Inl (TurnLedger (LedgerNotFound ''evt-idem-h'')), demo_handle, demo_leased False)"
proof -
  have "get_event_from_connection (tl_externals demo_libs) ''evt-idem-h'' demo_schema = Inr None"
    by (simp add: get_event_from_connection_def find_event_def demo_schema_def with_identity_def empty_ledger_def)
  then have "verify_existing_idempotent_event_in_connection (tl_externals demo_libs) demo_public demo_binding1 demo_schema =
      Inl (LedgerNotFound ''evt-idem-h'')"
    by (simp add: verify_existing_idempotent_event_in_connection_def Let_def demo_event_id demo_principal verify_principal_binding_def
        demo_binding1_def demo_identity_valid guard_def cong: and_then_cong)
  then have "verify_existing_idempotent_event (tl_externals demo_libs) uuid demo_public demo_binding1 demo_object demo_schema =
      (Inl (LedgerNotFound ''evt-idem-h''), demo_object, demo_schema)"
    using demo_identity_valid(3)
    by (simp add: verify_existing_idempotent_event_def query_def with_conn_def demo_object_def)
  then show ?thesis
    using demo_leased_facts(4) [of False]
    by (simp add: on_ledger_def demo_handle_def demo_object_def)
qed

lemma demo_verify_missing:
  "verify_event demo_env demo_public demo_binding1 (demo_world s (demo_leased False) n) =
     (Proceed (Inl (TurnLedger (LedgerNotFound ''evt-idem-h''))), demo_world s (demo_leased False) (Suc n))"
  unfolding verify_event_def by (rule demo_ledger_call) (simp add: demo_missing)

text \<open>The signed append and the completion.\<close>

definition demo_appending :: dispatcher_shared where
  "demo_appending = snd (admit_append demo_shared)"

lemma demo_admission:
  "admit_append demo_shared = (True, demo_appending)" "drop_permit demo_appending = demo_shared" "sh_shutdown demo_shared = False"
  by (simp_all add: demo_appending_def admit_append_def demo_shared_def drop_permit_def saturating_add_u64_def saturating_sub_u64_def
      checked_add_u64_def)

definition demo_validated :: signing_validated_outbox where
  "demo_validated = \<lparr>sv_outbox = demo_claim False, sv_binding = demo_binding1\<rparr>"

lemma demo_validated_simps [simp]: "sv_outbox demo_validated = demo_claim False" "sv_binding demo_validated = demo_binding1"
  by (simp_all add: demo_validated_def)

lemma demo_append_claimed:
  "append_claimed demo_env demo_key demo_public demo_validated (demo_world demo_shared (demo_leased False) n) =
     (Proceed demo_commit, demo_world demo_shared demo_appended (n + 3))"
proof -
  have "call_ledger demo_env (\<lambda>n. append_verified_idempotent_event (tl_externals demo_libs) (de_uuid demo_env n) (de_now_text demo_env n)
      demo_key demo_binding1) (demo_world s (demo_leased False) m) = (Proceed (Inr demo_commit), demo_world s demo_appended (Suc m))" for s m
    by (rule demo_ledger_call) (simp add: demo_appends)
  then show ?thesis
    by (simp add: append_claimed_def act_then_run demo_locked demo_admission holding_permit_def proceed_def eval_nat_numeral)
qed

lemma demo_complete_claim:
  "complete_claim demo_env ''worker-1'' ''outbox-lease-u1'' (demo_claim False) demo_commit (demo_world demo_shared demo_appended n) =
     (Proceed (), demo_world (count_success demo_shared) demo_delivered (n + 3))"
proof -
  have "call_store demo_env (\<lambda>n. complete_outbox demo_libs (de_uuid demo_env n) demo_self ''acme'' ''outbox-h'' ''worker-1''
      ''outbox-lease-u1'' demo_commit 0) (demo_world demo_shared demo_appended m) =
      (Proceed (Inr CompletionDelivered), demo_world demo_shared demo_delivered (Suc m))" for m
    by (rule demo_store_call) (simp add: demo_completes)
  then show ?thesis
    by (simp add: complete_claim_def act_then_run demo_now demo_claim_fields demo_locked eval_nat_numeral)
qed

lemma demo_commit_obtained:
  "obtain_commit demo_env (PrincipalId ''agent-1'') demo_public ''worker-1'' ''outbox-lease-u1'' demo_validated
     (demo_world demo_shared (demo_leased False) n) = (Proceed (demo_claim False, demo_commit), demo_world demo_shared demo_appended (n + 12))"
  using demo_public_def
  by (simp add: obtain_commit_def sign_and_append_def act_then_run demo_verify_missing demo_observe or_fail_def proceed_def demo_running
      demo_admission demo_principal demo_revalidated require_window_def demo_window demo_append_claimed eval_nat_numeral
      flip: demo_validated_def)

lemma demo_dispatches:
  "dispatch_claim demo_env (demo_claim False) (demo_world demo_shared (demo_leased False) 0) =
     (Proceed (), demo_world (count_success demo_shared) demo_delivered 25)"
  by (simp add: dispatch_claim_def act_then_run demo_running demo_admission demo_claim_fields or_fail_def proceed_def demo_observe
      demo_principal expect_def demo_revalidated widen_window_def require_window_def demo_window demo_commit_obtained
      demo_complete_claim flip: demo_validated_def)

end
