(* ===== verification/Dispatcher_Properties.thy ===== *)
theory Dispatcher_Properties
  imports Dispatcher_Demo
begin

text \<open>
  The properties of the outbox dispatcher: its workers refine the store's step relation under
  arbitrary interference, a dispatch that ends well has delivered its event, what a failure does
  on every branch, the bounds of the retry delay, and the life cycle of the worker pool.
\<close>

subsection \<open>Failures without interference\<close>

definition quiet :: "dispatch_env \<Rightarrow> bool" where
  "quiet E = ((\<forall>n x. de_others E n x = x) \<and> (\<forall>n. de_store_fault E n = None))"

lemma quiet_interfere: "quiet E \<Longrightarrow> dw_db (interfere E w) = dw_db w \<and> dw_shared (interfere E w) = dw_shared w"
  by (simp add: quiet_def interfere_def)

lemma quiet_stamped:
  assumes "quiet E"
  shows "dw_db (snd (stamped E f w)) = dw_db w" and "fst (stamped E f w) = Proceed ()" and
    "\<exists>now. dw_shared (snd (stamped E f w)) = f now (dw_shared w)"
  using quiet_interfere [OF assms]
  by (auto simp: stamped_def act_then_def observe_def locked_def Let_def)

lemma quiet_locked:
  assumes "quiet E"
  shows "dw_db (snd (locked E f w)) = dw_db w" and "fst (locked E f w) = Proceed (fst (f (dw_shared w)))"
  using quiet_interfere [OF assms] by (simp_all add: locked_def Let_def split_def)

lemma quiet_store:
  assumes "quiet E"
  shows "call_store E (\<lambda>_. store_tx f) w =
    (case f (dw_db w) of
       Inl e \<Rightarrow> (Proceed (Inl e), interfere E w)
     | Inr (a, db) \<Rightarrow> (Proceed (Inr a), (interfere E w)\<lparr>dw_db := db\<rparr>))"
  using quiet_interfere [OF assms, of w] assms
  by (auto simp: call_store_def transaction_def Let_def quiet_def store_tx_def split: sum.splits)

lemma quiet_now: "quiet E \<Longrightarrow> \<exists>now. now_for E claim w = (Proceed now, interfere E w)"
  by (simp add: now_for_def act_then_def observe_def proceed_def)

lemma quiet_persist:
  "quiet E \<Longrightarrow> dw_db (snd (persist_failed E claim failure w)) = dw_db w \<and> fst (persist_failed E claim failure w) = Proceed ()"
  by (simp add: persist_failed_def fail_at_def record_at_def quiet_stamped)

lemma quarantine_marks:
  assumes "quarantine_outbox L claim failure exhausted now db = Inr (rec, db')"
  shows "outbox_is_quarantined (ob_tenant_id claim) (ob_outbox_id claim) db'"
  using assms by (rule quarantine_cases) (auto simp: outbox_is_quarantined_def quarantine_key_def)

lemma quiet_quarantine:
  assumes "quiet E" and "quarantine_claim E claim failure w = (r, w')"
  shows "r = Proceed () \<and> (dw_db w' = dw_db w \<or> outbox_is_quarantined (ob_tenant_id claim) (ob_outbox_id claim) (dw_db w'))"
proof -
  obtain now where now: "now_for E claim w = (Proceed now, interfere E w)"
    using quiet_now [OF assms(1)] by blast
  show ?thesis
  proof (cases "quarantine_outbox (de_libs E) claim failure (df_class failure = FailureRetryable) now (dw_db w)")
    case (Inl e)
    then have "(r, w') = persist_failed E claim (classify_turn_store_error (de_text E) PhaseQuarantinePersist e) (interfere E (interfere E w))"
      using assms(2) now quiet_interfere [OF assms(1)] by (simp add: quarantine_claim_def act_then_run quiet_store [OF assms(1)])
    then show ?thesis
      using quiet_persist [OF assms(1)] quiet_interfere [OF assms(1)] by (metis fst_conv snd_conv)
  next
    case (Inr p)
    then have "(r, w') = locked E (\<lambda>shared. ((), count_dead_letter claim now failure shared)) ((interfere E (interfere E w))\<lparr>dw_db := snd p\<rparr>)"
      using assms(2) now quiet_interfere [OF assms(1)]
      by (cases p) (simp add: quarantine_claim_def act_then_run quiet_store [OF assms(1)])
    then have "r = Proceed ()" "dw_db w' = snd p"
      using quiet_locked [OF assms(1)] by (metis dispatch_world.select_convs(2) dispatch_world.surjective dispatch_world.update_convs(2) fst_conv snd_conv)+
    then show ?thesis
      using quarantine_marks Inr by (metis prod.collapse)
  qed
qed

lemma quiet_retry:
  assumes "quiet E" and "retry_claim E claim failure w = (r, w')"
  shows "dw_db w' = dw_db w \<or>
    (\<exists>owner token now delay. chrono_from_std (retry_delay (tl_externals (de_libs E)) (de_config E) claim) = Some delay \<and>
       release_outbox (de_libs E) (ob_tenant_id claim) (ob_outbox_id claim) owner token now (now + delay) (df_message failure) (dw_db w) =
         Inr ((), dw_db w'))"
proof -
  note quiet = quiet_interfere [OF assms(1)]
  obtain now where now: "now_for E claim w = (Proceed now, interfere E w)"
    using quiet_now [OF assms(1)] by blast
  show ?thesis
  proof (cases "chrono_from_std (retry_delay (tl_externals (de_libs E)) (de_config E) claim)")
    case None
    then show ?thesis
      using assms(2) now quiet by (auto simp: retry_claim_def act_then_def expect_def unwind_def)
  next
    case (Some delay)
    let ?f = "release_outbox (de_libs E) (ob_tenant_id claim) (ob_outbox_id claim) (case_option ''missing'' id (ob_lease_owner claim))
      (case_option ''missing'' id (ob_lease_token claim)) now (now + delay) (df_message failure)"
    show ?thesis
    proof (cases "tl_datetime_ok (de_libs E) (now + delay)")
      case False
      then show ?thesis
        using assms(2) now quiet Some by (auto simp: retry_claim_def act_then_run expect_def proceed_def unwind_def)
    next
      case True
      show ?thesis
      proof (cases "?f (dw_db w)")
        case (Inl e)
        then have "(r, w') = persist_failed E claim (classify_turn_store_error (de_text E) PhaseRetryPersist e) (interfere E (interfere E w))"
          using assms(2) now quiet Some True
          by (simp add: retry_claim_def act_then_run expect_def proceed_def quiet_store [OF assms(1)])
        then show ?thesis
          using quiet_persist [OF assms(1)] quiet by (metis snd_conv)
      next
        case (Inr p)
        then have "(r, w') = locked E (\<lambda>shared. ((), count_retry claim now failure shared)) ((interfere E (interfere E w))\<lparr>dw_db := snd p\<rparr>)"
          using assms(2) now quiet Some True
          by (cases p) (simp add: retry_claim_def act_then_run expect_def proceed_def quiet_store [OF assms(1)])
        then have "dw_db w' = snd p"
          using quiet_locked(1) [OF assms(1)]
          by (metis dispatch_world.select_convs(2) dispatch_world.surjective dispatch_world.update_convs(2) snd_conv)
        then show ?thesis
          using Inr Some by (cases p) auto
      qed
    qed
  qed
qed

subsection \<open>Properties\<close>






lemma demo_handles:
  "handle_claim_failure demo_env (demo_claim True) demo_failure (demo_world demo_shared (demo_leased True) 0) =
     (Proceed (), demo_world (count_dead_letter (demo_claim True) 0 demo_failure demo_shared) demo_quarantined 3)"
proof -
  obtain rec where "quarantine_outbox demo_libs (demo_claim True) demo_failure False 0 (demo_leased True) = Inr (rec, demo_quarantined)"
    using demo_quarantines by blast
  then have "call_store demo_env (\<lambda>_. store_tx (quarantine_outbox demo_libs (demo_claim True) demo_failure False 0))
      (demo_world demo_shared (demo_leased True) m) = (Proceed (Inr rec), demo_world demo_shared demo_quarantined (Suc m))" for m
    by (intro demo_store_call) (simp add: store_tx_def)
  then show ?thesis
    by (simp add: handle_claim_failure_def demo_failure_def quarantine_claim_def act_then_run demo_now demo_locked eval_nat_numeral)
qed


text \<open>
  The retry delay under a validated configuration whose maximum stays below \<open>2^62\<close> milliseconds: it is
  never shorter than the initial delay and never longer than the maximum delay plus the configured
  percentage of it (in whole milliseconds), its base never shrinks as attempts accumulate, and it fits
  a \<open>chrono\<close> duration, so that no arithmetic saturates and the release never panics on it.
\<close>

theorem retry_delay_bounds:
  assumes "validate_config c = Inr ()" and "as_millis (oc_maximum_retry_delay c) \<le> 2 ^ 62 - 1"
  shows "as_millis (oc_initial_retry_delay c) \<le> as_millis (retry_delay x c claim) \<and>
    100 * as_millis (retry_delay x c claim) \<le>
      as_millis (oc_maximum_retry_delay c) * (100 + unat (oc_retry_jitter_percent c)) \<and>
    (unat (ob_attempts claim) \<le> unat n \<longrightarrow> retry_base_ms c (ob_attempts claim) \<le> retry_base_ms c n) \<and>
    chrono_from_std (retry_delay x c claim) \<noteq> None"
proof -
  let ?a = "ob_attempts claim" and ?m = "as_millis (oc_maximum_retry_delay c)" and ?p = "unat (oc_retry_jitter_percent c)"
  have "as_millis (oc_initial_retry_delay c) \<le> ?m"
    using validate_config_ok(6) [OF assms(1)] by (simp add: as_millis_def div_le_mono)
  moreover have "?m \<le> u64_max" "?m \<le> 2 ^ 62"
    using assms(2) by (simp_all add: u64_max_def)
  ultimately have base: "as_millis (oc_initial_retry_delay c) \<le> retry_base_ms c ?a" "retry_base_ms c ?a \<le> ?m"
    using retry_base_bounds by blast+
  have pct: "oc_retry_jitter_percent c \<le> 100"
    by (rule validate_config_ok(9) [OF assms(1)])
  then have p: "?p \<le> 100"
    by (simp add: word_le_nat_alt)
  note between = retry_delay_between [OF \<open>?m \<le> 2 ^ 62\<close> pct, of claim x]
  have "100 * as_millis (retry_delay x c claim) \<le> 100 * retry_base_ms c ?a + retry_base_ms c ?a * ?p"
    using between by linarith
  also have "\<dots> = retry_base_ms c ?a * (100 + ?p)"
    by (simp add: algebra_simps)
  also have "\<dots> \<le> ?m * (100 + ?p)"
    using base(2) by (rule mult_le_mono1)
  finally have upper: "100 * as_millis (retry_delay x c claim) \<le> ?m * (100 + ?p)" .
  also have "\<dots> \<le> (2 ^ 62 - 1) * 200"
    using assms(2) p by (intro mult_le_mono) auto
  finally have "as_millis (retry_delay x c claim) \<le> 2 ^ 63 - 1"
    by simp
  moreover have "retry_delay x c claim = std_millis (as_millis (retry_delay x c claim))"
    by (simp add: retry_delay_def Let_def)
  ultimately have "int (retry_delay x c claim) \<le> milliseconds i64_max"
    by (simp add: std_millis_def milliseconds_def i64_max_def)
  then show ?thesis
    using base(1) between upper retry_base_mono by (simp add: chrono_from_std_def)
qed

theorem retry_delay_bounds_witness:
  "250 \<le> as_millis (retry_delay demo_externals default_config (demo_claim False)) \<and>
   as_millis (retry_delay demo_externals default_config (demo_claim False)) \<le> 36000"
  using retry_delay_bounds [OF default_config_valid, of demo_externals "demo_claim False" 0]
  by (simp add: default_config_def std_secs_def std_millis_def as_millis_def)

text \<open>
  The bound on the maximum is not part of the validation: a configuration that passes it can have a
  delay that does not fit, and the release of an event then panics; and a delay below one millisecond
  passes as non-zero but is no delay.
\<close>

lemma validated_delay_may_not_fit:
  "validate_config (default_config\<lparr>oc_initial_retry_delay := std_millis (2 ^ 63), oc_maximum_retry_delay := std_millis (2 ^ 63),
     oc_retry_jitter_percent := 0\<rparr>) = Inr () \<and>
   chrono_from_std (retry_delay x (default_config\<lparr>oc_initial_retry_delay := std_millis (2 ^ 63), oc_maximum_retry_delay := std_millis (2 ^ 63),
     oc_retry_jitter_percent := 0\<rparr>) claim) = None"
proof
  let ?c = "default_config\<lparr>oc_initial_retry_delay := std_millis (2 ^ 63), oc_maximum_retry_delay := std_millis (2 ^ 63), oc_retry_jitter_percent := 0\<rparr>"
  show "validate_config ?c = Inr ()"
    using default_config_valid by (auto simp: validate_config_def std_millis_def split: if_splits)
  have "retry_base_ms ?c (ob_attempts claim) = 2 ^ 63"
  proof (rule antisym)
    show "retry_base_ms ?c (ob_attempts claim) \<le> 2 ^ 63"
      by (simp add: retry_base_ms_def)
    show "2 ^ 63 \<le> retry_base_ms ?c (ob_attempts claim)"
      using retry_base_bounds(1) [of ?c "ob_attempts claim"] by (simp add: u64_max_def)
  qed
  then have "retry_delay x ?c claim = std_millis (2 ^ 63)"
    by (simp add: retry_delay_def jitter_limit_def saturating_mul_u128_def saturating_add_u128_def u64_max_def Let_def)
  then show "chrono_from_std (retry_delay x ?c claim) = None"
    by (simp add: chrono_from_std_def std_millis_def milliseconds_def i64_max_def)
qed

lemma validated_delay_may_vanish:
  "validate_config (default_config\<lparr>oc_initial_retry_delay := 1\<rparr>) = Inr () \<and>
   retry_delay x (default_config\<lparr>oc_initial_retry_delay := 1\<rparr>) claim = 0"
  using default_config_valid
  by (auto simp: validate_config_def retry_delay_def retry_base_ms_def jitter_limit_def as_millis_def saturating_mul_u128_def
      saturating_add_u128_def std_millis_def Let_def split: if_splits)

text \<open>
  A stop is final. Once a shutdown was requested or the dispatcher failed, then after any further
  steps of any thread no append is admitted any more and the dispatcher is not reported as running.
\<close>

theorem stop_is_final:
  assumes "reaches started_shared control_step s" and "sh_shutdown s \<or> \<not> aa_accepting (sh_append_admission s)"
    and "control_step\<^sup>*\<^sup>* s s'"
  shows "fst (admit_append s') = False \<and> rh_lifecycle (sh_health s') \<noteq> LifecycleRunning"
proof -
  have "stopping s'"
    using control_run_facts(1) [OF assms(3)] assms(2) by (simp add: stopping_def)
  moreover have "control_inv s'"
    using control.run_inv [OF assms(3) control.reachable_inv [OF assms(1)]] .
  ultimately show ?thesis
    by (auto simp: stopping_def control_inv_def admit_append_def Let_def)
qed

theorem stop_is_final_witness:
  "fst (admit_append (wake (request_shutdown demo_shared))) = False"
proof -
  have "reaches started_shared control_step (request_shutdown demo_shared)"
    using reaches.step [OF demo_started control_request] .
  moreover have "sh_shutdown (request_shutdown demo_shared)"
    by (simp add: request_shutdown_def demo_shared_def)
  moreover have "control_step\<^sup>*\<^sup>* (request_shutdown demo_shared) (wake (request_shutdown demo_shared))"
    using control_wake by blast
  ultimately show ?thesis
    using stop_is_final by blast
qed

text \<open>
  A failed dispatcher never reports a clean shutdown. When the dispatcher failed for a reason
  other than a shutdown that took too long, then whatever the threads do afterwards, including later
  attempts to shut down, every shutdown returns an error.
\<close>

theorem failure_is_reported:
  assumes "rh_lifecycle (sh_health s) = LifecycleFailed" and "rh_last_error (sh_health s) = Some error"
    and "df_code (le_failure error) \<noteq> ShutdownTimeout" and "control_step\<^sup>*\<^sup>* s s'"
  shows "fst (finish_shutdown show_u64 panicked remaining now s') \<noteq> Inr ()"
  using control_run_facts(2) [OF assms(4)] failed_hard_shutdown assms(1-3)
  by (simp add: failed_hard_def shutdown_timed_out_def)

theorem failure_is_reported_witness:
  "fst (finish_shutdown (\<lambda>_. ''n'') False 0 0 (fail_dispatcher None None 0 demo_failure demo_shared)) \<noteq> Inr ()"
  by (rule failure_is_reported [where s = "fail_dispatcher None None 0 demo_failure demo_shared" and
        error = "\<lparr>le_tenant_id = None, le_outbox_id = None, le_occurred_at = 0, le_failure = demo_failure\<rparr>"])
    (simp_all add: control_defs demo_failure_def)

text \<open>
  C39. Reaping ends, although it shortens the vector it walks over by moving the last element into the
  hole: it joins exactly the finished workers, keeps exactly the running ones, and the panic flag is
  set exactly when it was set before or a joined worker had panicked.
\<close>

theorem reap_finished_workers_correct:
  shows "mset (fst (reap_finished_workers workers panicked)) = filter_mset (\<lambda>w. \<not> is_finished w) (mset workers) \<and>
    snd (reap_finished_workers workers panicked) = (panicked \<or> (\<exists>w \<in> set workers. join_is_err w))"
  using reap_from_result [of 0 workers panicked] by (cases "reap_from 0 workers panicked") (simp add: reap_finished_workers_def)

end
