(* ===== verification/Evidence_Graph.thy ===== *)
theory Evidence_Graph
  imports Json Externals "HOL-Library.Product_Lexorder"
begin

text \<open>
  \<open>evidence_graph.rs\<close>: the answer-local evidence graph, whose nodes and edges are sorted and
  deduplicated before the graph is hashed, and its construction from the ids an answer used.
  \<open>stable_hash_json\<close> and \<open>stable_hash_bytes\<close> are from \<open>turn_proof.rs\<close>; the JSON text of a derived
  type is that of the value given here.
\<close>

definition stable_hash_bytes :: "externals \<Rightarrow> bytes \<Rightarrow> string" where
  "stable_hash_bytes x b = sha256_hex x b"

definition stable_hash_json :: "externals \<Rightarrow> json \<Rightarrow> string" where
  "stable_hash_json x v = stable_hash_bytes x (x_json_print x v)"

datatype evidence_node_kind =
  ProviderTraceNode | ContextPackNode | MemoryAtomNode | ToolReceiptNode | LedgerEventNode | AnswerTraceSpanNode

fun node_kind_str :: "evidence_node_kind \<Rightarrow> string" where
  "node_kind_str ProviderTraceNode = ''provider_trace''"
| "node_kind_str ContextPackNode = ''context_pack''"
| "node_kind_str MemoryAtomNode = ''memory_atom''"
| "node_kind_str ToolReceiptNode = ''tool_receipt''"
| "node_kind_str LedgerEventNode = ''ledger_event''"
| "node_kind_str AnswerTraceSpanNode = ''answer_trace_span''"

text \<open>The derived order compares the constructors in the order of their declaration.\<close>

fun node_kind_rank :: "evidence_node_kind \<Rightarrow> nat" where
  "node_kind_rank ProviderTraceNode = 0"
| "node_kind_rank ContextPackNode = 1"
| "node_kind_rank MemoryAtomNode = 2"
| "node_kind_rank ToolReceiptNode = 3"
| "node_kind_rank LedgerEventNode = 4"
| "node_kind_rank AnswerTraceSpanNode = 5"

record evidence_node =
  en_id :: string
  en_kind :: evidence_node_kind
  en_evidence_hash :: string

definition node_with_hash :: "evidence_node_kind \<Rightarrow> string \<Rightarrow> string \<Rightarrow> evidence_node" where
  "node_with_hash kind node_id evidence_hash = \<lparr>en_id = node_id, en_kind = kind, en_evidence_hash = evidence_hash\<rparr>"

definition node_reference :: "externals \<Rightarrow> evidence_node_kind \<Rightarrow> string \<Rightarrow> evidence_node" where
  "node_reference x kind node_id =
     node_with_hash kind node_id
       (stable_hash_json x (JObj [(''kind'', JStr (node_kind_str kind)), (''id'', JStr node_id)]))"

datatype evidence_edge_kind = UsedBy | DerivedFrom

fun edge_kind_str :: "evidence_edge_kind \<Rightarrow> string" where
  "edge_kind_str UsedBy = ''used_by''"
| "edge_kind_str DerivedFrom = ''derived_from''"

fun edge_kind_rank :: "evidence_edge_kind \<Rightarrow> nat" where
  "edge_kind_rank UsedBy = 0"
| "edge_kind_rank DerivedFrom = 1"

record evidence_edge =
  ee_from :: string
  ee_to :: string
  ee_kind :: evidence_edge_kind

definition new_edge :: "string \<Rightarrow> string \<Rightarrow> evidence_edge_kind \<Rightarrow> evidence_edge" where
  "new_edge from to kind = \<lparr>ee_from = from, ee_to = to, ee_kind = kind\<rparr>"

definition node_key :: "evidence_node \<Rightarrow> string \<times> nat \<times> string" where
  "node_key n = (en_id n, node_kind_rank (en_kind n), en_evidence_hash n)"

definition edge_key :: "evidence_edge \<Rightarrow> string \<times> string \<times> nat" where
  "edge_key e = (ee_from e, ee_to e, edge_kind_rank (ee_kind e))"

record evidence_subgraph =
  eg_schema :: string
  eg_answer_id :: string
  eg_nodes :: "evidence_node list"
  eg_edges :: "evidence_edge list"
  eg_graph_hash :: string

definition node_to_value :: "evidence_node \<Rightarrow> json" where
  "node_to_value n =
     JObj [(''id'', JStr (en_id n)), (''kind'', JStr (node_kind_str (en_kind n))), (''evidence_hash'', JStr (en_evidence_hash n))]"

definition edge_to_value :: "evidence_edge \<Rightarrow> json" where
  "edge_to_value e =
     JObj [(''from'', JStr (ee_from e)), (''to'', JStr (ee_to e)), (''kind'', JStr (edge_kind_str (ee_kind e)))]"

definition expected_hash :: "externals \<Rightarrow> evidence_subgraph \<Rightarrow> string" where
  "expected_hash x self =
     stable_hash_json x (JObj
       [(''schema'', JStr (eg_schema self)), (''answer_id'', JStr (eg_answer_id self)),
        (''nodes'', JArr (map node_to_value (eg_nodes self))), (''edges'', JArr (map edge_to_value (eg_edges self)))])"

definition new_subgraph :: "externals \<Rightarrow> string \<Rightarrow> evidence_node list \<Rightarrow> evidence_edge list \<Rightarrow> evidence_subgraph" where
  "new_subgraph x answer_id nodes edges =
     (let graph = \<lparr>eg_schema = ''zaion.evidence_subgraph.v1'', eg_answer_id = answer_id,
            eg_nodes = remdups_adj (sort_key node_key nodes), eg_edges = remdups_adj (sort_key edge_key edges),
            eg_graph_hash = []\<rparr>
      in graph\<lparr>eg_graph_hash := expected_hash x graph\<rparr>)"

definition verify_hash :: "externals \<Rightarrow> evidence_subgraph \<Rightarrow> bool" where
  "verify_hash x self = (eg_graph_hash self \<noteq> [] \<and> eg_graph_hash self = expected_hash x self)"

record answer_evidence_input =
  ae_response_hash :: string
  ae_context_pack_id :: "string option"
  ae_memory_atom_ids :: "string list"
  ae_tool_receipt_ids :: "string list"
  ae_source_ledger_event_ids :: "string list"
  ae_output_ledger_event_id :: string
  ae_answer_trace_span_hashes :: "string list"

text \<open>The ids an answer read, in the order the builder adds them, each with its kind and prefix.\<close>

definition input_references :: "answer_evidence_input \<Rightarrow> (evidence_node_kind \<times> string) list" where
  "input_references inp =
     map (\<lambda>i. (ContextPackNode, ''context-pack:'' @ i)) (case ae_context_pack_id inp of None \<Rightarrow> [] | Some i \<Rightarrow> [i]) @
     map (\<lambda>i. (MemoryAtomNode, ''memory-atom:'' @ i)) (ae_memory_atom_ids inp) @
     map (\<lambda>i. (ToolReceiptNode, ''tool-receipt:'' @ i)) (ae_tool_receipt_ids inp) @
     map (\<lambda>i. (LedgerEventNode, ''ledger-event:'' @ i)) (ae_source_ledger_event_ids inp)"

definition build_answer_evidence_subgraph :: "externals \<Rightarrow> answer_evidence_input \<Rightarrow> evidence_subgraph" where
  "build_answer_evidence_subgraph x inp =
     (let response = ''provider-response:'' @ ae_response_hash inp;
          refs = input_references inp;
          out = (if ae_output_ledger_event_id inp = [] then [] else [''ledger-event:'' @ ae_output_ledger_event_id inp]);
          spans = ae_answer_trace_span_hashes inp
      in new_subgraph x response
           (node_with_hash ProviderTraceNode response (ae_response_hash inp) #
            map (\<lambda>(kind, node). node_reference x kind node) refs @
            map (node_reference x LedgerEventNode) out @
            map (\<lambda>h. node_with_hash AnswerTraceSpanNode (''answer-span:'' @ h) h) spans)
           (map (\<lambda>(kind, node). new_edge node response UsedBy) refs @
            map (\<lambda>node. new_edge node response DerivedFrom) out @
            map (\<lambda>h. new_edge (''answer-span:'' @ h) response DerivedFrom) spans))"

subsection \<open>Laws\<close>

text \<open>Hashes of 32 bytes in hexadecimal are not empty.\<close>

lemma stable_hash_nonempty:
  assumes "hex_laws x" and "sha256_length x"
  shows "stable_hash_bytes x b \<noteq> []"
proof -
  have "length (stable_hash_bytes x b) = 64"
    using assms by (simp add: stable_hash_bytes_def sha256_hex_def hex_laws_def sha256_length_def)
  then show ?thesis
    by auto
qed

lemma expected_hash_ignores [simp]: "expected_hash x (g\<lparr>eg_graph_hash := h\<rparr>) = expected_hash x g"
  by (simp add: expected_hash_def)

lemma new_subgraph_verifies:
  assumes "hex_laws x" and "sha256_length x"
  shows "verify_hash x (new_subgraph x answer nodes edges)"
  using stable_hash_nonempty [OF assms]
  by (simp add: verify_hash_def new_subgraph_def Let_def) (simp add: expected_hash_def stable_hash_json_def)

lemma new_subgraph_sets [simp]:
  "set (eg_nodes (new_subgraph x answer nodes edges)) = set nodes"
  "set (eg_edges (new_subgraph x answer nodes edges)) = set edges"
  by (simp_all add: new_subgraph_def Let_def)

lemma node_kind_rank_inj: "node_kind_rank a = node_kind_rank b \<Longrightarrow> a = b"
  by (cases a; cases b) simp_all

lemma edge_kind_rank_inj: "edge_kind_rank a = edge_kind_rank b \<Longrightarrow> a = b"
  by (cases a; cases b) simp_all

lemma node_key_inj: "inj_on node_key A"
  by (rule inj_onI) (auto simp: node_key_def dest: node_kind_rank_inj)

lemma edge_key_inj: "inj_on edge_key A"
  by (rule inj_onI) (auto simp: edge_key_def dest: edge_kind_rank_inj)

text \<open>Sorting and deduplicating by an injective key depends on the set of elements only.\<close>

lemma sorted_remdups_adj: "sorted (map f xs) \<Longrightarrow> sorted (map f (remdups_adj xs))"
  by (induction xs rule: remdups_adj.induct) auto

lemma distinct_remdups_adj_key:
  assumes "sorted (map f xs)" and "inj_on f (set xs)"
  shows "distinct (map f (remdups_adj xs))"
  using assms
proof (induction xs rule: remdups_adj.induct)
  case (3 a b xs)
  show ?case
  proof (cases "a = b")
    case True
    then show ?thesis
      using 3 by simp
  next
    case False
    then have "f a < f b"
      using 3(3,4) by (auto simp: order_less_le dest: inj_onD)
    then have "f a \<notin> f ` set (b # xs)"
      using 3(3) by (auto dest: leD)
    then show ?thesis
      using 3 False by (auto simp: inj_on_def)
  qed
qed simp_all

lemma dedup_sorted_canonical:
  assumes "set xs = set ys" and "\<And>A. inj_on f A"
  shows "remdups_adj (sort_key f xs) = remdups_adj (sort_key f ys)"
proof -
  have sorted: "sorted (map f (remdups_adj (sort_key f zs)))" for zs
    by (rule sorted_remdups_adj) simp
  have distinct: "distinct (map f (remdups_adj (sort_key f zs)))" for zs
    using assms(2) by (intro distinct_remdups_adj_key) simp_all
  have "map f (remdups_adj (sort_key f xs)) = map f (remdups_adj (sort_key f ys))"
    by (rule sorted_distinct_set_unique [OF sorted distinct sorted distinct]) (simp add: assms(1))
  then show ?thesis
    using inj_map_eq_map [OF assms(2) [of UNIV]] by blast
qed

text \<open>The graph, and with it its hash, does not depend on the order or the multiplicity of what was added.\<close>

lemma new_subgraph_canonical:
  assumes "set nodes = set nodes'" and "set edges = set edges'"
  shows "new_subgraph x answer nodes edges = new_subgraph x answer nodes' edges'"
  using dedup_sorted_canonical [OF assms(1) node_key_inj] dedup_sorted_canonical [OF assms(2) edge_key_inj]
  by (simp add: new_subgraph_def)

end
