(* ===== verification/Turn_Proofs.thy ===== *)
theory Turn_Proofs
  imports Evidence_Graph
begin

text \<open>
  \<open>turn_proof.rs\<close>: what a finished turn proves about itself (its event lineage, context, cost and
  capabilities) and the hash that seals it. The derived serialisations are parameters: the JSON text
  of a proof and of a manifest, the values of the evidence records, the fields of a proof value, and the
  decoders. A \<open>usize\<close> has
  64 bits, an \<open>f64\<close> is its bit pattern.
\<close>

type_synonym u32 = "32 word"
type_synonym f64 = "64 word"

record turn_context_layer =
  cl_layer :: u8
  cl_label :: string
  cl_token_estimate :: u64

record turn_compression_evidence =
  ce_schema :: string
  ce_compression_requested :: bool
  ce_was_compressed :: bool
  ce_original_turns :: u64
  ce_compressed_turns :: u64
  ce_turns_pruned :: u64
  ce_original_tokens :: u64
  ce_compressed_tokens :: u64
  ce_token_budget :: u64
  ce_trigger_threshold :: u64
  ce_summary_hash :: string
  ce_summary_strategy :: string
  ce_pruned_tool_outputs :: u64
  ce_protected_head_turns :: u64
  ce_protected_tail_turns :: u64
  ce_protected_tail_tokens :: u64
  ce_summary_budget_tokens :: u64
  ce_evidence_hash :: string

record turn_canonical_usage_evidence =
  ue_input_tokens :: u64
  ue_output_tokens :: u64
  ue_cache_read_tokens :: u64
  ue_cache_write_tokens :: u64
  ue_reasoning_tokens :: u64
  ue_request_count :: u64

record turn_cost_evidence =
  co_schema :: string
  co_provider :: string
  co_model :: string
  co_billing_provider :: string
  co_billing_mode :: string
  co_usage :: turn_canonical_usage_evidence
  co_cost_status :: string
  co_cost_source :: string
  co_estimated_cost_usd :: "f64 option"
  co_actual_cost_usd :: "f64 option"
  co_session_estimated_cost_usd :: f64
  co_session_actual_cost_usd :: "f64 option"
  co_pricing_version :: "string option"
  co_rollup_event_id :: "string option"
  co_notes :: "string list"
  co_evidence_hash :: string

record turn_runtime_memory_evidence =
  me_schema :: string
  me_memory_enabled :: bool
  me_memory_context_bytes :: u64
  me_memory_context_hash :: string
  me_fenced_context :: bool
  me_evidence_hash :: string

record turn_capability_manifest =
  cm_provider :: string
  cm_model :: string
  cm_max_tokens :: "u32 option"
  cm_temperature :: "f64 option"
  cm_memory_enabled :: bool
  cm_mcp_enabled :: bool
  cm_cache_enabled :: bool
  cm_smart_route_enabled :: bool
  cm_compression_requested :: bool
  cm_tools_requested :: "string list"
  cm_boundaries :: "string list"

record turn_proof_input =
  pi_principal_id :: string
  pi_workspace_id :: string
  pi_project_id :: string
  pi_channel_id :: string
  pi_thread_id :: string
  pi_namespace_key :: string
  pi_user_event_id :: string
  pi_output_event_id :: string
  pi_omni_route_event_id :: "string option"
  pi_omni_route_authority_hash :: "string option"
  pi_namespace_transition_event_id :: "string option"
  pi_identity_contract :: string
  pi_capability_manifest :: turn_capability_manifest
  pi_context_pack_id :: "string option"
  pi_context_layers :: "turn_context_layer list"
  pi_memory_atom_ids :: "string list"
  pi_compression_evidence :: "turn_compression_evidence option"
  pi_cost_evidence :: "turn_cost_evidence option"
  pi_runtime_memory_evidence :: "turn_runtime_memory_evidence option"
  pi_evidence_graph_hash :: "string option"
  pi_tokens_in :: u32
  pi_tokens_out :: u32
  pi_tool_call_count :: u64
  pi_tool_receipt_ids :: "string list"

record turn_proof =
  tp_schema_version :: u8
  tp_proof_id :: string
  tp_principal_id :: string
  tp_workspace_id :: string
  tp_project_id :: string
  tp_channel_id :: string
  tp_thread_id :: string
  tp_namespace_key :: string
  tp_user_event_id :: string
  tp_output_event_id :: string
  tp_omni_route_event_id :: "string option"
  tp_omni_route_authority_hash :: "string option"
  tp_namespace_transition_event_id :: "string option"
  tp_event_lineage :: "string list"
  tp_identity_contract_hash :: string
  tp_capability_manifest_hash :: string
  tp_context_pack_id :: "string option"
  tp_context_digest :: string
  tp_context_layers :: "turn_context_layer list"
  tp_memory_atom_ids :: "string list"
  tp_compression_evidence :: "turn_compression_evidence option"
  tp_compression_evidence_hash :: "string option"
  tp_cost_evidence :: "turn_cost_evidence option"
  tp_cost_evidence_hash :: "string option"
  tp_runtime_memory_evidence :: "turn_runtime_memory_evidence option"
  tp_runtime_memory_evidence_hash :: "string option"
  tp_evidence_graph_hash :: "string option"
  tp_capability_manifest :: turn_capability_manifest
  tp_tokens_in :: u32
  tp_tokens_out :: u32
  tp_tool_call_count :: u64
  tp_tool_receipt_ids :: "string list"
  tp_tool_receipt_count :: u64
  tp_proof_hash :: string

record proof_libs =
  pl_externals :: externals
  pl_manifest_text :: "turn_capability_manifest \<Rightarrow> bytes"
  pl_proof_text :: "turn_proof \<Rightarrow> bytes"
  pl_layer_value :: "turn_context_layer \<Rightarrow> json"
  pl_compression_value :: "turn_compression_evidence \<Rightarrow> json"
  pl_cost_value :: "turn_cost_evidence \<Rightarrow> json"
  pl_memory_value :: "turn_runtime_memory_evidence \<Rightarrow> json"
  pl_proof_fields :: "turn_proof \<Rightarrow> (string \<times> json) list"
  pl_proof_from_value :: "json \<Rightarrow> string + turn_proof"
  pl_graph_from_value :: "json \<Rightarrow> evidence_subgraph option"

definition option_value :: "('a \<Rightarrow> json) \<Rightarrow> 'a option \<Rightarrow> json" where
  "option_value f v = (case v of None \<Rightarrow> JNull | Some a \<Rightarrow> f a)"

definition runtime_memory_evidence_hash :: "externals \<Rightarrow> turn_runtime_memory_evidence \<Rightarrow> string" where
  "runtime_memory_evidence_hash x evidence =
     stable_hash_json x (JObj
       [(''schema'', JStr (me_schema evidence)), (''memory_enabled'', JBool (me_memory_enabled evidence)),
        (''memory_context_bytes'', JInt (uint (me_memory_context_bytes evidence))),
        (''memory_context_hash'', JStr (me_memory_context_hash evidence)),
        (''fenced_context'', JBool (me_fenced_context evidence))])"

definition from_context :: "externals \<Rightarrow> bool \<Rightarrow> string \<Rightarrow> turn_runtime_memory_evidence option" where
  "from_context x memory_enabled memory_context =
     (if \<not> memory_enabled \<or> memory_context = [] then None
      else
        let evidence = \<lparr>me_schema = ''zaion.runtime_memory_evidence.v1'', me_memory_enabled = memory_enabled,
              me_memory_context_bytes = of_nat (length memory_context),
              me_memory_context_hash = stable_hash_bytes x memory_context,
              me_fenced_context = (str_contains ''<memory-context>'' memory_context \<and>
                str_contains ''</memory-context>'' memory_context),
              me_evidence_hash = []\<rparr>
        in Some (evidence\<lparr>me_evidence_hash := runtime_memory_evidence_hash x evidence\<rparr>))"

definition lineage_of :: "string \<Rightarrow> string option \<Rightarrow> string option \<Rightarrow> string \<Rightarrow> string list \<Rightarrow> string list" where
  "lineage_of user route transition out receipts =
     [user] @ case_option [] (\<lambda>e. [e]) route @ case_option [] (\<lambda>e. [e]) transition @ [out] @ receipts"

definition build_turn_proof :: "proof_libs \<Rightarrow> turn_proof_input \<Rightarrow> turn_proof" where
  "build_turn_proof P inp =
     (let x = pl_externals P;
          proof_seed = pi_principal_id inp @ '':'' @ pi_namespace_key inp @ '':'' @ pi_user_event_id inp @ '':'' @ pi_output_event_id inp;
          unsealed = \<lparr>tp_schema_version = 1,
            tp_proof_id = ''turn-proof-'' @ take 16 (stable_hash_bytes x proof_seed),
            tp_principal_id = pi_principal_id inp, tp_workspace_id = pi_workspace_id inp, tp_project_id = pi_project_id inp,
            tp_channel_id = pi_channel_id inp, tp_thread_id = pi_thread_id inp, tp_namespace_key = pi_namespace_key inp,
            tp_user_event_id = pi_user_event_id inp, tp_output_event_id = pi_output_event_id inp,
            tp_omni_route_event_id = pi_omni_route_event_id inp, tp_omni_route_authority_hash = pi_omni_route_authority_hash inp,
            tp_namespace_transition_event_id = pi_namespace_transition_event_id inp,
            tp_event_lineage = lineage_of (pi_user_event_id inp) (pi_omni_route_event_id inp)
              (pi_namespace_transition_event_id inp) (pi_output_event_id inp) (pi_tool_receipt_ids inp),
            tp_identity_contract_hash = stable_hash_bytes x (pi_identity_contract inp),
            tp_capability_manifest_hash = stable_hash_bytes x (pl_manifest_text P (pi_capability_manifest inp)),
            tp_context_pack_id = pi_context_pack_id inp,
            tp_context_digest = stable_hash_json x (JObj
              [(''context_layers'', JArr (map (pl_layer_value P) (pi_context_layers inp))),
               (''memory_atom_ids'', JArr (map JStr (pi_memory_atom_ids inp))),
               (''compression_evidence'', option_value (pl_compression_value P) (pi_compression_evidence inp)),
               (''cost_evidence'', option_value (pl_cost_value P) (pi_cost_evidence inp)),
               (''runtime_memory_evidence'', option_value (pl_memory_value P) (pi_runtime_memory_evidence inp))]),
            tp_context_layers = pi_context_layers inp, tp_memory_atom_ids = pi_memory_atom_ids inp,
            tp_compression_evidence = pi_compression_evidence inp,
            tp_compression_evidence_hash = map_option ce_evidence_hash (pi_compression_evidence inp),
            tp_cost_evidence = pi_cost_evidence inp,
            tp_cost_evidence_hash = map_option co_evidence_hash (pi_cost_evidence inp),
            tp_runtime_memory_evidence = pi_runtime_memory_evidence inp,
            tp_runtime_memory_evidence_hash = map_option me_evidence_hash (pi_runtime_memory_evidence inp),
            tp_evidence_graph_hash = pi_evidence_graph_hash inp, tp_capability_manifest = pi_capability_manifest inp,
            tp_tokens_in = pi_tokens_in inp, tp_tokens_out = pi_tokens_out inp,
            tp_tool_call_count = pi_tool_call_count inp, tp_tool_receipt_ids = pi_tool_receipt_ids inp,
            tp_tool_receipt_count = of_nat (length (pi_tool_receipt_ids inp)), tp_proof_hash = []\<rparr>
      in unsealed\<lparr>tp_proof_hash := stable_hash_bytes x (pl_proof_text P unsealed)\<rparr>)"

definition verify_turn_proof_hash :: "proof_libs \<Rightarrow> turn_proof \<Rightarrow> bool" where
  "verify_turn_proof_hash P p =
     (tp_proof_hash p \<noteq> [] \<and>
      stable_hash_bytes (pl_externals P) (pl_proof_text P (p\<lparr>tp_proof_hash := []\<rparr>)) = tp_proof_hash p)"

lemma build_turn_proof_fields [simp]:
  "tp_principal_id (build_turn_proof P inp) = pi_principal_id inp"
  "tp_namespace_key (build_turn_proof P inp) = pi_namespace_key inp"
  "tp_user_event_id (build_turn_proof P inp) = pi_user_event_id inp"
  "tp_output_event_id (build_turn_proof P inp) = pi_output_event_id inp"
  "tp_omni_route_event_id (build_turn_proof P inp) = pi_omni_route_event_id inp"
  "tp_namespace_transition_event_id (build_turn_proof P inp) = pi_namespace_transition_event_id inp"
  "tp_event_lineage (build_turn_proof P inp) = lineage_of (pi_user_event_id inp) (pi_omni_route_event_id inp)
     (pi_namespace_transition_event_id inp) (pi_output_event_id inp) (pi_tool_receipt_ids inp)"
  "tp_context_pack_id (build_turn_proof P inp) = pi_context_pack_id inp"
  "tp_memory_atom_ids (build_turn_proof P inp) = pi_memory_atom_ids inp"
  "tp_evidence_graph_hash (build_turn_proof P inp) = pi_evidence_graph_hash inp"
  "tp_tool_receipt_ids (build_turn_proof P inp) = pi_tool_receipt_ids inp"
  by (simp_all add: build_turn_proof_def Let_def)

text \<open>A built proof verifies.\<close>

lemma build_turn_proof_verifies:
  assumes "hex_laws (pl_externals P)" and "sha256_length (pl_externals P)"
  shows "verify_turn_proof_hash P (build_turn_proof P inp)"
  using stable_hash_nonempty [OF assms]
  by (simp add: verify_turn_proof_hash_def build_turn_proof_def Let_def)

text \<open>Two proofs that verify under the same hash have the same text up to the hash, or SHA-256 collides.\<close>

lemma proof_hash_binds:
  assumes "verify_turn_proof_hash P p" and "verify_turn_proof_hash P q" and "tp_proof_hash p = tp_proof_hash q"
    and "hex_laws (pl_externals P)"
  shows "pl_proof_text P (p\<lparr>tp_proof_hash := []\<rparr>) = pl_proof_text P (q\<lparr>tp_proof_hash := []\<rparr>) \<or>
    (\<exists>a b. a \<noteq> b \<and> x_sha256 (pl_externals P) a = x_sha256 (pl_externals P) b)"
proof -
  have "x_hex_encode (pl_externals P) (x_sha256 (pl_externals P) (pl_proof_text P (p\<lparr>tp_proof_hash := []\<rparr>))) =
      x_hex_encode (pl_externals P) (x_sha256 (pl_externals P) (pl_proof_text P (q\<lparr>tp_proof_hash := []\<rparr>)))"
    using assms(1-3) by (simp add: verify_turn_proof_hash_def stable_hash_bytes_def sha256_hex_def)
  then have "x_sha256 (pl_externals P) (pl_proof_text P (p\<lparr>tp_proof_hash := []\<rparr>)) =
      x_sha256 (pl_externals P) (pl_proof_text P (q\<lparr>tp_proof_hash := []\<rparr>))"
    using assms(4) by (metis hex_laws_def option.inject)
  then show ?thesis
    by blast
qed

end
