(* ===== verification/Proof_Closure.thy ===== *)
theory Proof_Closure
  imports Turn_Proofs Turn_Outcome Event_Ledger
begin

text \<open>
  The verifier of \<open>turn_outcome.rs\<close> that turns a finished turn into a proof closure: it reads the
  events of the turn back from the ledger, checks types, signatures, principals, namespaces and
  parents, the sealed proof and the evidence graph, the receipts and their join, and the principal's
  chain. The ledger object is open, so that its reads change neither it nor the database.
\<close>

datatype proof_closure_error =
  ClosureLedger ledger_error
  | MissingEvent string
  | WrongEventType string string string
  | ScopeMismatch
  | ParentMismatch string string
  | InvalidSignature string crypto_error
  | InvalidTurnProof string
  | InvalidTurnProofHash
  | EvidenceGraphMismatch
  | InvalidNamespaceTransition string
  | InvalidEvidenceGraph
  | MissingEvidenceNode string
  | MissingReceiptProofJoin
  | InvalidReceiptProofJoin
  | BrokenLedgerChain int

record closure_verifier =
  vr_libs :: proof_libs
  vr_uuid :: string
  vr_ledger :: event_ledger
  vr_database :: ledger_db
  vr_public_key :: public_key_bytes

text \<open>A read of the open ledger.\<close>

definition read_ledger :: "closure_verifier \<Rightarrow> (ledger_db \<Rightarrow> ledger_error + 'a) \<Rightarrow> proof_closure_error + 'a" where
  "read_ledger self q =
     map_err ClosureLedger (fst (query (pl_externals (vr_libs self)) (vr_uuid self) q (vr_ledger self) (vr_database self)))"

definition closure_event :: "closure_verifier \<Rightarrow> string \<Rightarrow> string \<Rightarrow> proof_closure_error + ledger_event" where
  "closure_event self event_id expected_type =
     and_then (read_ledger self (get_event_from_connection (pl_externals (vr_libs self)) event_id)) (\<lambda>found.
     and_then (ok_or (MissingEvent event_id) found) (\<lambda>event.
     if le_event_type event \<noteq> expected_type
     then Inl (WrongEventType event_id expected_type (le_event_type event))
     else Inr event))"

definition closure_signature :: "closure_verifier \<Rightarrow> ledger_event \<Rightarrow> proof_closure_error + unit" where
  "closure_signature self event =
     (case verify_event_signature (pl_externals (vr_libs self)) (vr_public_key self) event of
        Inl e \<Rightarrow> Inl (InvalidSignature (event_id_str (le_event_id event)) e)
      | Inr _ \<Rightarrow> Inr ())"

text \<open>Read an event and check its signature, as every event of the closure is.\<close>

definition signed_event :: "closure_verifier \<Rightarrow> string \<Rightarrow> string \<Rightarrow> proof_closure_error + ledger_event" where
  "signed_event self event_id expected_type =
     and_then (closure_event self event_id expected_type) (\<lambda>event.
     and_then (closure_signature self event) (\<lambda>_. Inr event))"

definition parent_is :: "ledger_event \<Rightarrow> string \<Rightarrow> bool" where
  "parent_is event parent = (map_option event_id_str (le_parent_event_id event) = Some parent)"

definition payload_str :: "string \<Rightarrow> ledger_event \<Rightarrow> string option" where
  "payload_str field event = Option.bind (json_get field (le_payload event)) as_str"

definition same_scope :: "ledger_event \<Rightarrow> ledger_event \<Rightarrow> bool" where
  "same_scope a b = (le_principal_id a = le_principal_id b \<and> le_namespace_key a = le_namespace_key b)"

text \<open>The evidence graph of the answer trace, with the hash the trace states.\<close>

definition answer_graph :: "closure_verifier \<Rightarrow> ledger_event \<Rightarrow> proof_closure_error + (evidence_subgraph \<times> string)" where
  "answer_graph self answer_trace =
     and_then (ok_or InvalidEvidenceGraph (json_get ''evidence_graph'' (le_payload answer_trace))) (\<lambda>v.
     and_then (ok_or InvalidEvidenceGraph (pl_graph_from_value (vr_libs self) v)) (\<lambda>graph.
     and_then (ok_or InvalidEvidenceGraph (payload_str ''evidence_graph_hash'' answer_trace)) (\<lambda>answer_graph_hash.
     if \<not> verify_hash (pl_externals (vr_libs self)) graph \<or> eg_graph_hash graph \<noteq> answer_graph_hash
     then Inl InvalidEvidenceGraph
     else Inr (graph, answer_graph_hash))))"

definition closure_proof ::
  "closure_verifier \<Rightarrow> string \<Rightarrow> ledger_event \<Rightarrow> ledger_event \<Rightarrow> string \<Rightarrow> proof_closure_error + turn_proof" where
  "closure_proof self answer_trace_event_id answer_trace turn_proof_event answer_graph_hash =
     and_then (map_err InvalidTurnProof (pl_proof_from_value (vr_libs self) (le_payload turn_proof_event))) (\<lambda>p.
     if \<not> verify_turn_proof_hash (vr_libs self) p then Inl InvalidTurnProofHash
     else if tp_principal_id p \<noteq> principal_str (le_principal_id turn_proof_event) \<or>
        tp_namespace_key p \<noteq> namespace_str (le_namespace_key turn_proof_event)
     then Inl ScopeMismatch
     else if payload_str ''answer_trace_event_id'' turn_proof_event \<noteq> Some answer_trace_event_id
     then Inl (InvalidTurnProof ''answer_trace_event_id does not match parent'')
     else if tp_evidence_graph_hash p \<noteq> Some answer_graph_hash then Inl EvidenceGraphMismatch
     else if payload_str ''namespace_transition_event_id'' answer_trace \<noteq> tp_namespace_transition_event_id p
     then Inl (InvalidNamespaceTransition ''answer trace and turn proof transition ids do not match'')
     else Inr p)"

definition closure_route ::
  "closure_verifier \<Rightarrow> turn_proof \<Rightarrow> ledger_event \<Rightarrow> ledger_event \<Rightarrow> ledger_event \<Rightarrow> proof_closure_error + unit" where
  "closure_route self p turn_proof_event received sent =
     (case tp_omni_route_event_id p of
        Some route_event_id \<Rightarrow>
          and_then (signed_event self route_event_id ''omni.route'') (\<lambda>route.
          if le_principal_id route \<noteq> le_principal_id turn_proof_event \<or> le_namespace_key route \<noteq> le_namespace_key received
          then Inl ScopeMismatch
          else if \<not> parent_is sent route_event_id \<or> \<not> parent_is route (tp_user_event_id p)
          then Inl (InvalidTurnProof ''received -> route -> sent lineage is not closed'')
          else Inr ())
      | None \<Rightarrow>
          if \<not> parent_is sent (tp_user_event_id p)
          then Inl (InvalidTurnProof ''received -> sent lineage is not closed'')
          else Inr ())"

definition closure_transition ::
  "closure_verifier \<Rightarrow> turn_proof \<Rightarrow> ledger_event \<Rightarrow> ledger_event \<Rightarrow> proof_closure_error + unit" where
  "closure_transition self p turn_proof_event received =
     (if le_namespace_key received = le_namespace_key turn_proof_event then
        (case tp_namespace_transition_event_id p of
           None \<Rightarrow> Inr ()
         | Some _ \<Rightarrow> Inl (InvalidNamespaceTransition ''same-namespace turn must not declare a transition event''))
      else
        (case tp_namespace_transition_event_id p of
           None \<Rightarrow> Inl (InvalidNamespaceTransition ''cross-namespace turn is missing a transition event'')
         | Some transition_event_id \<Rightarrow>
             and_then (signed_event self transition_event_id ''channel.received'') (\<lambda>transition.
             if \<not> same_scope transition turn_proof_event then Inl ScopeMismatch
             else if \<not> parent_is transition (tp_user_event_id p)
             then Inl (ParentMismatch transition_event_id (tp_user_event_id p))
             else if payload_str ''source_parent_namespace_key'' transition \<noteq> Some (namespace_str (le_namespace_key received)) \<or>
                payload_str ''source_parent_received_event_id'' transition \<noteq> Some (tp_user_event_id p) \<or>
                payload_str ''source'' transition \<noteq> Some ''compression.active_child_continuation'' \<or>
                payload_str ''copy_policy'' transition \<noteq> Some ''active_child_turn_materialization''
             then Inl (InvalidNamespaceTransition
               ''signed transition payload does not bind the source ingress and policy'')
             else Inr ())))"

definition require_graph_node :: "evidence_subgraph \<Rightarrow> string \<Rightarrow> string \<Rightarrow> proof_closure_error + unit" where
  "require_graph_node graph prefix ident =
     (let node_id = prefix @ '':'' @ ident
      in guard (list_ex (\<lambda>node. en_id node = node_id) (eg_nodes graph)) (MissingEvidenceNode node_id))"

definition require_graph_nodes :: "evidence_subgraph \<Rightarrow> string \<Rightarrow> string list \<Rightarrow> proof_closure_error + unit" where
  "require_graph_nodes graph prefix idents =
     and_then (collect_results (require_graph_node graph prefix) idents) (\<lambda>_. Inr ())"

definition closure_receipt ::
  "closure_verifier \<Rightarrow> evidence_subgraph \<Rightarrow> ledger_event \<Rightarrow> string \<Rightarrow> proof_closure_error + unit" where
  "closure_receipt self graph turn_proof_event receipt_id =
     and_then (require_graph_node graph ''tool-receipt'' receipt_id) (\<lambda>_.
     and_then (signed_event self receipt_id ''tool.receipt'') (\<lambda>receipt.
     guard (same_scope receipt turn_proof_event) ScopeMismatch))"

definition joined_receipts :: "ledger_event \<Rightarrow> string list" where
  "joined_receipts join =
     (case Option.bind (json_get ''tool_receipt_ids'' (le_payload join)) as_array of
        None \<Rightarrow> []
      | Some ids \<Rightarrow> List.map_filter as_str ids)"

definition closure_join ::
  "closure_verifier \<Rightarrow> string \<Rightarrow> string \<Rightarrow> string option \<Rightarrow> turn_proof \<Rightarrow> ledger_event \<Rightarrow>
     proof_closure_error + string option" where
  "closure_join self answer_trace_event_id turn_proof_event_id receipt_proof_join_event_id p turn_proof_event =
     (case receipt_proof_join_event_id of
        Some event_id \<Rightarrow>
          and_then (signed_event self event_id ''tool.receipt.proof_join'') (\<lambda>join.
          if \<not> same_scope join turn_proof_event then Inl ScopeMismatch
          else if \<not> parent_is join turn_proof_event_id then Inl (ParentMismatch event_id turn_proof_event_id)
          else if payload_str ''turn_proof_event_id'' join \<noteq> Some turn_proof_event_id \<or>
             payload_str ''turn_proof_hash'' join \<noteq> Some (tp_proof_hash p) \<or>
             payload_str ''answer_trace_event_id'' join \<noteq> Some answer_trace_event_id \<or>
             joined_receipts join \<noteq> tp_tool_receipt_ids p
          then Inl InvalidReceiptProofJoin
          else Inr (Some event_id))
      | None \<Rightarrow> if tp_tool_receipt_ids p = [] then Inr None else Inl MissingReceiptProofJoin)"

text \<open>The lineage of the answer trace and the nodes its evidence graph must have.\<close>

definition answer_lineage_ok :: "turn_proof \<Rightarrow> ledger_event \<Rightarrow> bool" where
  "answer_lineage_ok p answer_trace =
     (parent_is answer_trace (tp_output_event_id p) \<and>
      payload_str ''user_event_id'' answer_trace = Some (tp_user_event_id p) \<and>
      payload_str ''output_event_id'' answer_trace = Some (tp_output_event_id p))"

definition closure_nodes ::
  "closure_verifier \<Rightarrow> evidence_subgraph \<Rightarrow> turn_proof \<Rightarrow> ledger_event \<Rightarrow> proof_closure_error + unit" where
  "closure_nodes self graph p turn_proof_event =
     and_then (require_graph_nodes graph ''ledger-event''
       ([tp_user_event_id p, tp_output_event_id p] @ case_option [] (\<lambda>e. [e]) (tp_omni_route_event_id p) @
        case_option [] (\<lambda>e. [e]) (tp_namespace_transition_event_id p))) (\<lambda>_.
     and_then (require_graph_nodes graph ''context-pack'' (case_option [] (\<lambda>e. [e]) (tp_context_pack_id p))) (\<lambda>_.
     and_then (require_graph_nodes graph ''memory-atom'' (tp_memory_atom_ids p)) (\<lambda>_.
     and_then (collect_results (closure_receipt self graph turn_proof_event) (tp_tool_receipt_ids p)) (\<lambda>_.
     Inr ()))))"

definition verify_closure ::
  "closure_verifier \<Rightarrow> string \<Rightarrow> string \<Rightarrow> string option \<Rightarrow> proof_closure_error + proof_closure" where
  "verify_closure self answer_trace_event_id turn_proof_event_id receipt_proof_join_event_id =
     and_then (closure_event self answer_trace_event_id ''answer.trace'') (\<lambda>answer_trace.
     and_then (closure_event self turn_proof_event_id ''turn.proof'') (\<lambda>turn_proof_event.
     and_then (closure_signature self answer_trace) (\<lambda>_.
     and_then (closure_signature self turn_proof_event) (\<lambda>_.
     if \<not> same_scope answer_trace turn_proof_event then Inl ScopeMismatch
     else if \<not> parent_is turn_proof_event answer_trace_event_id
     then Inl (ParentMismatch turn_proof_event_id answer_trace_event_id)
     else
       and_then (answer_graph self answer_trace) (\<lambda>(graph, answer_graph_hash).
       and_then (closure_proof self answer_trace_event_id answer_trace turn_proof_event answer_graph_hash) (\<lambda>p.
       and_then (closure_event self (tp_user_event_id p) ''channel.received'') (\<lambda>received.
       and_then (closure_event self (tp_output_event_id p) ''channel.sent'') (\<lambda>sent.
       and_then (closure_signature self received) (\<lambda>_.
       and_then (closure_signature self sent) (\<lambda>_.
       if le_principal_id received \<noteq> le_principal_id turn_proof_event \<or>
          le_principal_id sent \<noteq> le_principal_id turn_proof_event \<or>
          le_namespace_key sent \<noteq> le_namespace_key turn_proof_event
       then Inl ScopeMismatch
       else if \<not> answer_lineage_ok p answer_trace
       then Inl (InvalidTurnProof ''answer trace lineage does not match turn proof'')
       else
         and_then (closure_route self p turn_proof_event received sent) (\<lambda>_.
         and_then (closure_transition self p turn_proof_event received) (\<lambda>_.
         if tp_event_lineage p \<noteq> lineage_of (tp_user_event_id p) (tp_omni_route_event_id p)
           (tp_namespace_transition_event_id p) (tp_output_event_id p) (tp_tool_receipt_ids p)
         then Inl (InvalidTurnProof ''event_lineage does not match the proof event ids'')
         else
           and_then (closure_nodes self graph p turn_proof_event) (\<lambda>_.
           and_then (closure_join self answer_trace_event_id turn_proof_event_id receipt_proof_join_event_id p
             turn_proof_event) (\<lambda>receipt_join_id.
           and_then (read_ledger self (verify_chain (pl_externals (vr_libs self))
             (principal_str (le_principal_id answer_trace)))) (\<lambda>chain.
           case cv_broken_at chain of
             Some sequence \<Rightarrow> Inl (BrokenLedgerChain sequence)
           | None \<Rightarrow>
               Inr \<lparr>pc_schema_version = 1, pc_answer_trace_event_id = answer_trace_event_id,
                    pc_turn_proof_event_id = turn_proof_event_id, pc_proof_hash = tp_proof_hash p,
                    pc_receipt_proof_join_event_id = receipt_join_id,
                    pc_evidence_graph_hash = answer_graph_hash\<rparr>)))))))))))))))"

subsection \<open>What a closure certifies\<close>

text \<open>An open ledger: initialised, and on the database it was opened on.\<close>

definition open_ledger :: "closure_verifier \<Rightarrow> bool" where
  "open_ledger V =
     (el_tables_ensured (vr_ledger V) \<and>
      (\<exists>u. read_database_instance_id (pl_externals (vr_libs V)) (vr_database V) = Inr u \<and>
         (el_database_instance_id (vr_ledger V) = None \<or> el_database_instance_id (vr_ledger V) = Some u)))"

lemma read_open_ledger:
  assumes "open_ledger V"
  shows "read_ledger V q = map_err ClosureLedger (q (vr_database V))"
proof -
  obtain u where u: "el_tables_ensured (vr_ledger V)"
    "read_database_instance_id (pl_externals (vr_libs V)) (vr_database V) = Inr u"
    "el_database_instance_id (vr_ledger V) = None \<or> el_database_instance_id (vr_ledger V) = Some u"
    using assms by (auto simp: open_ledger_def)
  then show ?thesis
    by (cases "q (vr_database V)") (auto simp: read_ledger_def query_def with_conn_def Let_def)
qed

text \<open>An event of the ledger with this id and type whose signature verifies.\<close>

definition ledger_event_signed :: "closure_verifier \<Rightarrow> string \<Rightarrow> string \<Rightarrow> ledger_event \<Rightarrow> bool" where
  "ledger_event_signed V i ty ev =
     (get_event_from_connection (pl_externals (vr_libs V)) i (vr_database V) = Inr (Some ev) \<and> le_event_type ev = ty \<and>
      is_ok (verify_event_signature (pl_externals (vr_libs V)) (vr_public_key V) ev))"

lemma signed_event_iff:
  assumes "open_ledger V"
  shows "closure_event V i ty = Inr ev \<and> closure_signature V ev = Inr () \<longleftrightarrow> ledger_event_signed V i ty ev"
    and "signed_event V i ty = Inr ev \<longleftrightarrow> ledger_event_signed V i ty ev"
proof -
  show both: "closure_event V i ty = Inr ev \<and> closure_signature V ev = Inr () \<longleftrightarrow> ledger_event_signed V i ty ev"
    by (auto simp: closure_event_def read_open_ledger [OF assms] closure_signature_def ledger_event_signed_def result_simps is_ok_iff
        split: if_splits sum.splits)
  show "signed_event V i ty = Inr ev \<longleftrightarrow> ledger_event_signed V i ty ev"
    unfolding both [symmetric] by (auto simp: signed_event_def result_simps)
qed

text \<open>
  A path in the parent relation of the ledger: each event has its type, is signed by the verifier's
  key, belongs to the principal, and names the next event of the path as its parent.
\<close>

fun signed_path :: "closure_verifier \<Rightarrow> principal_id \<Rightarrow> (string \<times> string) list \<Rightarrow> bool" where
  "signed_path V pr [] = True"
| "signed_path V pr ((i, ty) # rest) =
     (signed_path V pr rest \<and>
      (\<exists>ev. ledger_event_signed V i ty ev \<and> le_principal_id ev = pr \<and>
         (case rest of [] \<Rightarrow> True | (parent, _) # _ \<Rightarrow> parent_is ev parent)))"

lemma require_graph_nodes_ok:
  "require_graph_nodes graph prefix idents = Inr u \<longleftrightarrow>
     (\<forall>i \<in> set idents. \<exists>node \<in> set (eg_nodes graph). en_id node = prefix @ '':'' @ i)"
proof -
  have "(\<exists>us. collect_results (require_graph_node graph prefix) idents = Inr us) \<longleftrightarrow>
      (\<forall>i \<in> set idents. require_graph_node graph prefix i = Inr ())"
    by (induction idents) (auto simp: result_simps)
  then show ?thesis
    by (auto simp: require_graph_nodes_def result_simps require_graph_node_def Let_def guard_def list_ex_iff)
qed

lemma collect_unit_ok: "(\<exists>us. collect_results f xs = Inr us) \<longleftrightarrow> (\<forall>x \<in> set xs. \<exists>u. f x = Inr u)"
  by (induction xs) (auto simp: result_simps)

lemma early_return_Inr:
  "(if b then Inl e else r) = Inr y \<longleftrightarrow> \<not> b \<and> r = Inr y"
  "case_option r (\<lambda>s. Inl (f s)) found = Inr y \<longleftrightarrow> found = None \<and> r = Inr y"
  by (simp_all split: option.split)

lemma verify_closure_parts:
  assumes "verify_closure V a t j = Inr c"
  obtains answer proof_event graph h p received sent join chain where
    "closure_event V a ''answer.trace'' = Inr answer" "closure_signature V answer = Inr ()"
    "closure_event V t ''turn.proof'' = Inr proof_event" "closure_signature V proof_event = Inr ()"
    "same_scope answer proof_event" "parent_is proof_event a"
    "answer_graph V answer = Inr (graph, h)" "closure_proof V a answer proof_event h = Inr p"
    "closure_event V (tp_user_event_id p) ''channel.received'' = Inr received" "closure_signature V received = Inr ()"
    "closure_event V (tp_output_event_id p) ''channel.sent'' = Inr sent" "closure_signature V sent = Inr ()"
    "le_principal_id received = le_principal_id proof_event" "le_principal_id sent = le_principal_id proof_event"
    "answer_lineage_ok p answer" "closure_route V p proof_event received sent = Inr ()"
    "closure_transition V p proof_event received = Inr ()" "closure_nodes V graph p proof_event = Inr ()"
    "closure_join V a t j p proof_event = Inr join"
    "read_ledger V (verify_chain (pl_externals (vr_libs V)) (principal_str (le_principal_id answer))) = Inr chain"
    "cv_broken_at chain = None"
    "c = \<lparr>pc_schema_version = 1, pc_answer_trace_event_id = a, pc_turn_proof_event_id = t, pc_proof_hash = tp_proof_hash p,
      pc_receipt_proof_join_event_id = join, pc_evidence_graph_hash = h\<rparr>"
  using assms unfolding verify_closure_def
  apply (simp only: and_then_eq_Inr early_return_Inr split_paired_Ex prod.case de_Morgan_disj not_not sum.inject)
  apply (elim exE conjE)
  apply (rule that)
  apply (assumption | simp (no_asm_simp))+
  done

text \<open>The path from the proof back to the message that started the turn.\<close>

definition turn_path :: "string \<Rightarrow> string \<Rightarrow> turn_proof \<Rightarrow> (string \<times> string) list" where
  "turn_path a t p =
     [(t, ''turn.proof''), (a, ''answer.trace''), (tp_output_event_id p, ''channel.sent'')] @
     case_option [] (\<lambda>route. [(route, ''omni.route'')]) (tp_omni_route_event_id p) @
     [(tp_user_event_id p, ''channel.received'')]"

lemma closure_route_path:
  assumes V: "open_ledger V" and route: "closure_route V p proof_event received sent = Inr ()"
    and received: "ledger_event_signed V (tp_user_event_id p) ''channel.received'' received"
    and sent: "ledger_event_signed V (tp_output_event_id p) ''channel.sent'' sent"
    and principal: "le_principal_id received = le_principal_id proof_event" "le_principal_id sent = le_principal_id proof_event"
  shows "signed_path V (le_principal_id proof_event) ((tp_output_event_id p, ''channel.sent'') #
    case_option [] (\<lambda>route. [(route, ''omni.route'')]) (tp_omni_route_event_id p) @ [(tp_user_event_id p, ''channel.received'')])"
proof (cases "tp_omni_route_event_id p")
  case None
  then show ?thesis
    using assms by (auto simp: closure_route_def split: if_splits)
next
  case (Some r)
  then obtain ev where "signed_event V r ''omni.route'' = Inr ev" "le_principal_id ev = le_principal_id proof_event"
    "parent_is sent r" "parent_is ev (tp_user_event_id p)"
    using route by (auto simp: closure_route_def result_simps split: if_splits)
  then show ?thesis
    using Some received sent principal signed_event_iff(2) [OF V] by auto
qed

lemma closure_path:
  assumes V: "open_ledger V" and ok: "verify_closure V a t j = Inr c"
  shows "\<exists>pr p. verify_turn_proof_hash (vr_libs V) p \<and> pc_proof_hash c = tp_proof_hash p \<and> tp_principal_id p = principal_str pr \<and>
    signed_path V pr (turn_path a t p) \<and>
    (\<forall>r \<in> set (tp_tool_receipt_ids p). signed_path V pr [(r, ''tool.receipt'')]) \<and>
    (tp_tool_receipt_ids p \<noteq> [] \<longrightarrow>
      (\<exists>k. j = Some k \<and> signed_path V pr [(k, ''tool.receipt.proof_join''), (t, ''turn.proof'')])) \<and>
    (\<exists>chain. verify_chain (pl_externals (vr_libs V)) (principal_str pr) (vr_database V) = Inr chain \<and> cv_broken_at chain = None)"
proof -
  obtain answer pe graph h p received sent join chain where st:
    "closure_event V a ''answer.trace'' = Inr answer" "closure_signature V answer = Inr ()"
    "closure_event V t ''turn.proof'' = Inr pe" "closure_signature V pe = Inr ()"
    "same_scope answer pe" "parent_is pe a"
    "answer_graph V answer = Inr (graph, h)" "closure_proof V a answer pe h = Inr p"
    "closure_event V (tp_user_event_id p) ''channel.received'' = Inr received" "closure_signature V received = Inr ()"
    "closure_event V (tp_output_event_id p) ''channel.sent'' = Inr sent" "closure_signature V sent = Inr ()"
    "le_principal_id received = le_principal_id pe" "le_principal_id sent = le_principal_id pe"
    "answer_lineage_ok p answer" "closure_route V p pe received sent = Inr ()"
    "closure_transition V p pe received = Inr ()" "closure_nodes V graph p pe = Inr ()"
    "closure_join V a t j p pe = Inr join"
    "read_ledger V (verify_chain (pl_externals (vr_libs V)) (principal_str (le_principal_id answer))) = Inr chain"
    "cv_broken_at chain = None"
    "c = \<lparr>pc_schema_version = 1, pc_answer_trace_event_id = a, pc_turn_proof_event_id = t, pc_proof_hash = tp_proof_hash p,
      pc_receipt_proof_join_event_id = join, pc_evidence_graph_hash = h\<rparr>"
    using ok by (rule verify_closure_parts)
  note signed = signed_event_iff(1) [OF V, THEN iffD1, OF conjI]
  have scope: "le_principal_id answer = le_principal_id pe"
    using st(5) by (simp add: same_scope_def)
  have sealed: "verify_turn_proof_hash (vr_libs V) p" "tp_principal_id p = principal_str (le_principal_id pe)"
    using st(8) by (auto simp: closure_proof_def result_simps split: if_splits)
  have pe: "ledger_event_signed V t ''turn.proof'' pe"
    by (rule signed [OF st(3,4)])
  have tail: "signed_path V (le_principal_id pe) ((tp_output_event_id p, ''channel.sent'') #
      case_option [] (\<lambda>route. [(route, ''omni.route'')]) (tp_omni_route_event_id p) @ [(tp_user_event_id p, ''channel.received'')])"
    by (rule closure_route_path [OF V st(16) signed [OF st(9,10)] signed [OF st(11,12)] st(13,14)])
  have "parent_is answer (tp_output_event_id p)"
    using st(15) by (simp add: answer_lineage_ok_def)
  then have path: "signed_path V (le_principal_id pe) (turn_path a t p)"
    using tail pe signed [OF st(1,2)] st(6) scope by (auto simp: turn_path_def)
  have receipts: "signed_path V (le_principal_id pe) [(r, ''tool.receipt'')]" if "r \<in> set (tp_tool_receipt_ids p)" for r
  proof -
    have "\<exists>u. closure_receipt V graph pe r = Inr u"
      using st(18) that collect_unit_ok [of "closure_receipt V graph pe"] by (auto simp: closure_nodes_def result_simps)
    then show ?thesis
      using signed_event_iff(2) [OF V] by (auto simp: closure_receipt_def result_simps same_scope_def)
  qed
  have joined: "\<exists>k. j = Some k \<and> signed_path V (le_principal_id pe) [(k, ''tool.receipt.proof_join''), (t, ''turn.proof'')]"
    if "tp_tool_receipt_ids p \<noteq> []"
    using st(19) that pe signed_event_iff(2) [OF V]
    by (auto simp: closure_join_def result_simps same_scope_def split: option.splits if_splits)
  have "verify_chain (pl_externals (vr_libs V)) (principal_str (le_principal_id pe)) (vr_database V) = Inr chain"
    using st(20) scope by (simp add: read_open_ledger [OF V] result_simps)
  then show ?thesis
    using sealed path receipts joined st(21,22) by (intro exI [of _ "le_principal_id pe"] exI [of _ p]) auto
qed

end
