(* ===== verification/Canonical_Envelope.thy ===== *)
theory Canonical_Envelope
  imports Externals
begin

text \<open>
  \<open>crates/zaion-types/src/envelope.rs\<close>: the one ingress envelope of every channel, its validation, the
  length-framed source hash, and the payload of the \<open>channel.received\<close> event. The clock is an argument;
  the metadata is a list of pairs sorted by key. The envelope id is a prefix of the source hash, which
  the source slices without a check; every caller holds a validated envelope, whose hash has 64
  characters.
\<close>

datatype canonical_envelope_error =
  EnvEmptySource
  | EnvEmptyPrincipal
  | EnvUnsafePrincipal string
  | EnvEmptyChannel
  | EnvEmptyThread
  | EnvEmptyMessageId
  | EnvEmptySourceHash
  | EnvInvalidSourceHash
  | EnvSourceHashMismatch
  | EnvEmptyBody

datatype channel_id = ChannelId (channel_str: string)

datatype thread_id = ThreadId (thread_str: string)

record canonical_envelope =
  env_schema_version :: u8
  env_source :: string
  env_principal :: principal_id
  env_channel :: channel_id
  env_thread :: thread_id
  env_message_id :: string
  env_source_hash :: string
  env_body :: string
  env_received_at :: string
  env_signature :: "signature_bytes option"
  env_metadata :: "(string \<times> json) list"

definition compute_source_hash :: "externals \<Rightarrow> string \<Rightarrow> string \<Rightarrow> string \<Rightarrow> string \<Rightarrow> string \<Rightarrow> string \<Rightarrow> string" where
  "compute_source_hash x source princ channel thread message_id body =
     x_hex_encode x (x_sha256 x (framed [source, princ, channel, thread, message_id, body]))"

definition is_unsafe_principal :: "string \<Rightarrow> bool" where
  "is_unsafe_principal princ =
     List.member [''default'', ''default_principal'', ''unbound'', ''unbound-principal'', ''anonymous'', ''ephemeral'',
       ''principal_placeholder''] (to_ascii_lowercase (trim princ))"

definition is_ascii_hexdigit :: "char \<Rightarrow> bool" where
  "is_ascii_hexdigit c = (is_ascii_digit c \<or> byte_in 97 102 c \<or> byte_in 65 70 c)"

definition is_sha256_hex :: "string \<Rightarrow> bool" where
  "is_sha256_hex value = (length value = 64 \<and> list_all is_ascii_hexdigit value \<and> value = to_ascii_lowercase value)"

text \<open>The hash an envelope should have.\<close>

definition own_source_hash :: "externals \<Rightarrow> canonical_envelope \<Rightarrow> string" where
  "own_source_hash x self =
     compute_source_hash x (env_source self) (principal_str (env_principal self)) (channel_str (env_channel self))
       (thread_str (env_thread self)) (env_message_id self) (env_body self)"

definition validate_envelope :: "externals \<Rightarrow> canonical_envelope \<Rightarrow> canonical_envelope_error + unit" where
  "validate_envelope x self =
     (if trim (env_source self) = [] then Inl EnvEmptySource
      else if trim (principal_str (env_principal self)) = [] then Inl EnvEmptyPrincipal
      else if is_unsafe_principal (principal_str (env_principal self))
      then Inl (EnvUnsafePrincipal (principal_str (env_principal self)))
      else if trim (channel_str (env_channel self)) = [] then Inl EnvEmptyChannel
      else if trim (thread_str (env_thread self)) = [] then Inl EnvEmptyThread
      else if trim (env_message_id self) = [] then Inl EnvEmptyMessageId
      else if trim (env_source_hash self) = [] then Inl EnvEmptySourceHash
      else if \<not> is_sha256_hex (env_source_hash self) then Inl EnvInvalidSourceHash
      else if env_source_hash self \<noteq> own_source_hash x self then Inl EnvSourceHashMismatch
      else if trim (env_body self) = [] then Inl EnvEmptyBody
      else Inr ())"

definition new_envelope ::
  "externals \<Rightarrow> string \<Rightarrow> string \<Rightarrow> principal_id \<Rightarrow> channel_id \<Rightarrow> thread_id \<Rightarrow> string \<Rightarrow> string \<Rightarrow> string option \<Rightarrow>
     canonical_envelope_error + canonical_envelope" where
  "new_envelope x now source princ channel thread message_id body source_hash =
     (let source_hash = (case source_hash of
          Some h \<Rightarrow> h
        | None \<Rightarrow> compute_source_hash x source (principal_str princ) (channel_str channel) (thread_str thread) message_id body);
          envelope = \<lparr>env_schema_version = 1, env_source = source, env_principal = princ, env_channel = channel,
            env_thread = thread, env_message_id = message_id, env_source_hash = source_hash, env_body = body,
            env_received_at = now, env_signature = None, env_metadata = []\<rparr>
      in and_then (validate_envelope x envelope) (\<lambda>_. Inr envelope))"

definition ingest :: "externals \<Rightarrow> canonical_envelope \<Rightarrow> canonical_envelope_error + canonical_envelope" where
  "ingest x envelope = and_then (validate_envelope x envelope) (\<lambda>_. Inr envelope)"

definition envelope_session_id :: "canonical_envelope \<Rightarrow> string" where
  "envelope_session_id self = principal_str (env_principal self) @ '':'' @ thread_str (env_thread self)"

definition envelope_id :: "canonical_envelope \<Rightarrow> string" where
  "envelope_id self = take 16 (env_source_hash self)"

text \<open>Insertion into a sorted map.\<close>

fun sorted_insert :: "string \<Rightarrow> json \<Rightarrow> (string \<times> json) list \<Rightarrow> (string \<times> json) list" where
  "sorted_insert k v [] = [(k, v)]"
| "sorted_insert k v ((k', v') # kvs) =
     (if k = k' then (k, v) # kvs else if k < k' then (k, v) # (k', v') # kvs else (k', v') # sorted_insert k v kvs)"

definition with_metadata :: "string \<Rightarrow> json \<Rightarrow> canonical_envelope \<Rightarrow> canonical_envelope" where
  "with_metadata key value self = self\<lparr>env_metadata := sorted_insert key value (env_metadata self)\<rparr>"

definition to_channel_received_payload :: "canonical_envelope \<Rightarrow> json" where
  "to_channel_received_payload self =
     JObj [(''schema'', JStr ''zaion.canonical_envelope.v1''), (''envelope_id'', JStr (envelope_id self)),
       (''source'', JStr (env_source self)), (''principal_id'', JStr (principal_str (env_principal self))),
       (''channel_id'', JStr (channel_str (env_channel self))), (''thread_id'', JStr (thread_str (env_thread self))),
       (''message_id'', JStr (env_message_id self)), (''source_message_id'', JStr (env_message_id self)),
       (''source_hash'', JStr (env_source_hash self)), (''received_at'', JStr (env_received_at self)),
       (''signature_present'', JBool (env_signature self \<noteq> None)), (''metadata'', JObj (env_metadata self)),
       (''content'', JStr (env_body self)), (''message'', JStr (env_body self))]"

subsection \<open>What an ingested envelope guarantees\<close>

definition envelope_parts :: "canonical_envelope \<Rightarrow> string list" where
  "envelope_parts e =
     [env_source e, principal_str (env_principal e), channel_str (env_channel e), thread_str (env_thread e),
      env_message_id e, env_body e]"

lemma validate_envelope_ok:
  "validate_envelope x e = Inr u \<longleftrightarrow>
     (\<forall>part \<in> set (envelope_parts e). trim part \<noteq> []) \<and> \<not> is_unsafe_principal (principal_str (env_principal e)) \<and>
     trim (env_source_hash e) \<noteq> [] \<and> is_sha256_hex (env_source_hash e) \<and> env_source_hash e = own_source_hash x e"
  by (auto simp: validate_envelope_def envelope_parts_def)

lemma ingest_ok: "ingest x e = Inr e' \<longleftrightarrow> e' = e \<and> (\<exists>u. validate_envelope x e = Inr u)"
  by (auto simp: ingest_def result_simps)

lemma own_source_hash_framed: "own_source_hash x e = sha256_hex x (framed (envelope_parts e))"
  by (simp add: own_source_hash_def compute_source_hash_def envelope_parts_def sha256_hex_def)

text \<open>Ingested envelopes with the same source hash say the same, or SHA-256 collides.\<close>

lemma source_hash_binds:
  assumes "ingest x a = Inr a'" and "ingest x b = Inr b'" and "env_source_hash a = env_source_hash b" and "hex_laws x"
    and short: "\<forall>part \<in> set (envelope_parts a @ envelope_parts b). length part < 2 ^ 64"
  shows "envelope_parts a = envelope_parts b \<or> (\<exists>u v. u \<noteq> v \<and> x_sha256 x u = x_sha256 x v)"
proof -
  have "sha256_hex x (framed (envelope_parts a)) = sha256_hex x (framed (envelope_parts b))"
    using assms(1-3) by (auto simp: ingest_ok validate_envelope_ok own_source_hash_framed)
  then have hash: "x_sha256 x (framed (envelope_parts a)) = x_sha256 x (framed (envelope_parts b))"
    using assms(4) by (metis hex_laws_def option.inject sha256_hex_def)
  show ?thesis
  proof (cases "framed (envelope_parts a) = framed (envelope_parts b)")
    case True
    then show ?thesis
      using framed_inject [OF _ short] by (simp add: envelope_parts_def)
  next
    case False
    then show ?thesis
      using hash by blast
  qed
qed

end
