(* ===== verification/Omni_Session.thy ===== *)
theory Omni_Session
  imports Canonical_Envelope Event_Ledger "HOL-Library.AList" "HOL-Library.Product_Lexorder"
begin

text \<open>
  \<open>crates/zaion-runtime/src/omni_session.rs\<close>: one session per principal to which channels attach, the
  routing of envelopes, the authority a route returns, the replay of recorded routes, the split of an
  overflowing session and the context pyramid. Hash maps are association lists, a token count has 64
  bits, an \<open>f32\<close> is its bit pattern; the clock and fresh ids are arguments, read once per call. The JSON
  texts of the hashed structs are parameters.
\<close>

subsection \<open>Channels\<close>

datatype channel_type =
  ChCli | ChTelegram | ChDiscord | ChFeishu | ChDingTalk | ChSlack | ChMatrix | ChApiServer | ChMcp | ChAcp | ChWebhook | ChEmail

fun channel_type_str :: "channel_type \<Rightarrow> string" where
  "channel_type_str ChCli = ''cli''"
| "channel_type_str ChTelegram = ''telegram''"
| "channel_type_str ChDiscord = ''discord''"
| "channel_type_str ChFeishu = ''feishu''"
| "channel_type_str ChDingTalk = ''dingtalk''"
| "channel_type_str ChSlack = ''slack''"
| "channel_type_str ChMatrix = ''matrix''"
| "channel_type_str ChApiServer = ''api-server''"
| "channel_type_str ChMcp = ''mcp''"
| "channel_type_str ChAcp = ''acp''"
| "channel_type_str ChWebhook = ''webhook''"
| "channel_type_str ChEmail = ''email''"

definition from_ingress :: "string \<Rightarrow> string \<Rightarrow> channel_type" where
  "from_ingress source channel_id =
     (let source = to_ascii_lowercase (trim source);
          channel_id = to_ascii_lowercase (trim channel_id)
      in if source = ''telegram'' then ChTelegram
         else if source = ''discord'' then ChDiscord
         else if source = ''feishu'' \<or> source = ''lark'' then ChFeishu
         else if source = ''dingtalk'' then ChDingTalk
         else if source = ''slack'' then ChSlack
         else if source = ''matrix'' then ChMatrix
         else if source = ''mcp'' then ChMcp
         else if source = ''acp'' then ChAcp
         else if source = ''webhook'' then ChWebhook
         else if source = ''email'' then ChEmail
         else if source = ''http'' \<or> source = ''api'' \<or> source = ''api-server''
         then (if str_contains ''webhook'' channel_id then ChWebhook else ChApiServer)
         else if source = ''cli'' \<or> source = ''terminal'' \<or> source = ''tui'' \<or> source = ''internal-queue'' then ChCli
         else if channel_id = ''telegram'' then ChTelegram
         else if channel_id = ''mcp'' then ChMcp
         else if channel_id = ''acp'' then ChAcp
         else if channel_id = ''webhook'' \<or> channel_id = ''http-webhook'' then ChWebhook
         else if channel_id = ''api'' \<or> channel_id = ''http'' then ChApiServer
         else ChCli)"

definition from_authority_value :: "string \<Rightarrow> string \<Rightarrow> channel_type" where
  "from_authority_value value channel_id =
     (let v = to_ascii_lowercase (trim value)
      in if v = ''cli'' then ChCli
         else if v = ''telegram'' then ChTelegram
         else if v = ''discord'' then ChDiscord
         else if v = ''feishu'' \<or> v = ''lark'' then ChFeishu
         else if v = ''dingtalk'' then ChDingTalk
         else if v = ''slack'' then ChSlack
         else if v = ''matrix'' then ChMatrix
         else if v = ''api-server'' \<or> v = ''api'' \<or> v = ''http'' then ChApiServer
         else if v = ''mcp'' then ChMcp
         else if v = ''acp'' then ChAcp
         else if v = ''webhook'' then ChWebhook
         else if v = ''email'' then ChEmail
         else from_ingress value channel_id)"

record display_capabilities =
  supports_markdown :: bool
  supports_html :: bool
  supports_ansi_colors :: bool
  supports_images :: bool
  supports_interactive :: bool
  max_message_length :: "nat option"

record media_capabilities =
  supports_file_upload :: bool
  supports_file_download :: bool
  supports_voice :: bool
  supports_video :: bool
  max_file_size_mb :: "nat option"

definition display_caps_of :: "bool \<Rightarrow> bool \<Rightarrow> bool \<Rightarrow> bool \<Rightarrow> bool \<Rightarrow> nat option \<Rightarrow> display_capabilities" where
  "display_caps_of markdown html ansi images interactive limit =
     \<lparr>supports_markdown = markdown, supports_html = html, supports_ansi_colors = ansi, supports_images = images,
      supports_interactive = interactive, max_message_length = limit\<rparr>"

fun default_display_caps :: "channel_type \<Rightarrow> display_capabilities" where
  "default_display_caps ChCli = display_caps_of True False True False True None"
| "default_display_caps ChTelegram = display_caps_of True True False True True (Some 4096)"
| "default_display_caps ChDiscord = display_caps_of True False False True True (Some 2000)"
| "default_display_caps ChFeishu = display_caps_of True False False True True (Some 5000)"
| "default_display_caps ChDingTalk = display_caps_of True False False True True (Some 5000)"
| "default_display_caps ChSlack = display_caps_of True False False True True (Some 4000)"
| "default_display_caps ChMatrix = display_caps_of True True False True False (Some 65536)"
| "default_display_caps ChEmail = display_caps_of False True False True False None"
| "default_display_caps _ = display_caps_of False False False False False None"

definition media_caps_of :: "bool \<Rightarrow> bool \<Rightarrow> bool \<Rightarrow> bool \<Rightarrow> nat option \<Rightarrow> media_capabilities" where
  "media_caps_of upload download voice video limit =
     \<lparr>supports_file_upload = upload, supports_file_download = download, supports_voice = voice, supports_video = video,
      max_file_size_mb = limit\<rparr>"

fun default_media_caps :: "channel_type \<Rightarrow> media_capabilities" where
  "default_media_caps ChCli = media_caps_of True True False False None"
| "default_media_caps ChTelegram = media_caps_of True True True True (Some 2000)"
| "default_media_caps ChDiscord = media_caps_of True True True True (Some 25)"
| "default_media_caps ChFeishu = media_caps_of True True True True (Some 200)"
| "default_media_caps ChDingTalk = media_caps_of True True True True (Some 200)"
| "default_media_caps ChSlack = media_caps_of True True False False (Some 1000)"
| "default_media_caps ChMatrix = media_caps_of True True True True (Some 100)"
| "default_media_caps ChEmail = media_caps_of True True False False (Some 25)"
| "default_media_caps _ = media_caps_of False False False False None"

record channel_attachment =
  at_channel_type :: channel_type
  at_channel_id :: string
  at_display_caps :: display_capabilities
  at_media_caps :: media_capabilities
  at_attached_at :: int
  at_last_active_at :: int

definition new_attachment :: "int \<Rightarrow> channel_type \<Rightarrow> string \<Rightarrow> channel_attachment" where
  "new_attachment now channel_type channel_id =
     \<lparr>at_channel_type = channel_type, at_channel_id = channel_id, at_display_caps = default_display_caps channel_type,
      at_media_caps = default_media_caps channel_type, at_attached_at = now, at_last_active_at = now\<rparr>"

definition touch :: "int \<Rightarrow> channel_attachment \<Rightarrow> channel_attachment" where
  "touch now self = self\<lparr>at_last_active_at := now\<rparr>"

subsection \<open>Sessions\<close>

type_synonym f32 = "32 word"

datatype context_layer = L0Critical | L1Recent | L2Important | L3Background | L4Archive

fun layer_priority :: "context_layer \<Rightarrow> nat" where
  "layer_priority L0Critical = 0"
| "layer_priority L1Recent = 1"
| "layer_priority L2Important = 2"
| "layer_priority L3Background = 3"
| "layer_priority L4Archive = 4"

text \<open>
  Comparison of an \<open>f32\<close> with a positive constant by bit patterns: a negative number and a NaN are not
  above it, and positive numbers are ordered like their patterns up to infinity.
\<close>

definition f32_at_least :: "f32 \<Rightarrow> f32 \<Rightarrow> bool" where
  "f32_at_least v c = (c \<le> v \<and> v \<le> 0x7F800000)"

text \<open>The constants are 0.9, 0.7 and 0.4.\<close>

definition from_importance :: "f32 \<Rightarrow> bool \<Rightarrow> context_layer" where
  "from_importance importance is_recent =
     (if f32_at_least importance 0x3F666666 then L0Critical
      else if is_recent then L1Recent
      else if f32_at_least importance 0x3F333333 then L2Important
      else if f32_at_least importance 0x3ECCCCCD then L3Background
      else L4Archive)"

record turn_signature =
  sig_scheme :: string
  sig_signature :: bytes
  sig_signing_key_id :: string
  sig_schema_version :: "32 word"

record unified_message =
  um_message_id :: string
  um_source_channel :: channel_type
  um_source_channel_id :: string
  um_role :: string
  um_content :: string
  um_signature :: "turn_signature option"
  um_timestamp :: int
  um_importance :: f32
  um_layer :: context_layer

record omni_session =
  os_session_id :: string
  os_principal_id :: principal_id
  os_messages :: "unified_message list"
  os_attachments :: "channel_attachment list"
  os_created_at :: int
  os_last_active_at :: int
  os_parent_session_id :: "string option"
  os_child_session_ids :: "string list"
  os_total_tokens :: u64
  os_max_tokens :: u64

definition new_session :: "int \<Rightarrow> string \<Rightarrow> principal_id \<Rightarrow> u64 \<Rightarrow> omni_session" where
  "new_session now uuid principal_id max_tokens =
     \<lparr>os_session_id = uuid, os_principal_id = principal_id, os_messages = [], os_attachments = [], os_created_at = now,
      os_last_active_at = now, os_parent_session_id = None, os_child_session_ids = [], os_total_tokens = 0,
      os_max_tokens = max_tokens\<rparr>"

definition estimate_tokens :: "string \<Rightarrow> u64" where
  "estimate_tokens s = of_nat (length s div 4)"

definition add_message :: "int \<Rightarrow> unified_message \<Rightarrow> omni_session \<Rightarrow> omni_session" where
  "add_message now message self =
     self\<lparr>os_total_tokens := os_total_tokens self + estimate_tokens (um_content message),
          os_messages := os_messages self @ [message], os_last_active_at := now\<rparr>"

definition attach_channel :: "channel_attachment \<Rightarrow> omni_session \<Rightarrow> omni_session" where
  "attach_channel attachment self =
     (if \<not> list_ex (\<lambda>a. at_channel_type a = at_channel_type attachment \<and> at_channel_id a = at_channel_id attachment)
          (os_attachments self)
      then self\<lparr>os_attachments := os_attachments self @ [attachment]\<rparr>
      else self)"

definition messages_by_layer :: "context_layer \<Rightarrow> omni_session \<Rightarrow> unified_message list" where
  "messages_by_layer layer self = filter (\<lambda>m. um_layer m = layer) (os_messages self)"

definition needs_split :: "omni_session \<Rightarrow> bool" where
  "needs_split self = (os_max_tokens self \<le> os_total_tokens self)"

text \<open>Active in the last 24 hours; times are in nanoseconds.\<close>

definition active_channels :: "int \<Rightarrow> omni_session \<Rightarrow> channel_attachment list" where
  "active_channels now self =
     (let threshold = now - 24 * 3600 * 1000000000
      in filter (\<lambda>a. at_last_active_at a > threshold) (os_attachments self))"

record channel_key =
  ck_channel_type :: channel_type
  ck_channel_id :: string

definition new_channel_key :: "channel_type \<Rightarrow> string \<Rightarrow> channel_key" where
  "new_channel_key channel_type channel_id = \<lparr>ck_channel_type = channel_type, ck_channel_id = channel_id\<rparr>"

subsection \<open>The context pyramid\<close>

text \<open>The five layers are a list of five lists.\<close>

record context_pyramid =
  py_layers :: "string list list"
  py_token_budget :: nat
  py_tokens_used :: nat

definition new_pyramid :: "nat \<Rightarrow> context_pyramid" where
  "new_pyramid token_budget = \<lparr>py_layers = replicate 5 [], py_token_budget = token_budget, py_tokens_used = 0\<rparr>"

definition add_to_layer :: "context_layer \<Rightarrow> string \<Rightarrow> context_pyramid \<Rightarrow> bool \<times> context_pyramid" where
  "add_to_layer layer content self =
     (let tokens = length content div 4
      in if py_tokens_used self + tokens > py_token_budget self then (False, self)
         else (True, self\<lparr>py_tokens_used := py_tokens_used self + tokens,
           py_layers := (py_layers self)[layer_priority layer := py_layers self ! layer_priority layer @ [content]]\<rparr>))"

definition assemble :: "context_pyramid \<Rightarrow> string" where
  "assemble self = join_on (CHR 0x0A) (concat (py_layers self))"

definition pyramid_entry :: "unified_message \<Rightarrow> string" where
  "pyramid_entry msg = ''['' @ um_source_channel_id msg @ ''] '' @ um_role msg @ '': '' @ um_content msg"

fun pyramid_loop :: "unified_message list \<Rightarrow> context_pyramid \<Rightarrow> context_pyramid" where
  "pyramid_loop [] pyramid = pyramid"
| "pyramid_loop (msg # msgs) pyramid =
     (case add_to_layer (um_layer msg) (pyramid_entry msg) pyramid of
        (False, pyramid') \<Rightarrow> pyramid'
      | (True, pyramid') \<Rightarrow> pyramid_loop msgs pyramid')"

definition build_from_session :: "omni_session \<Rightarrow> nat \<Rightarrow> context_pyramid" where
  "build_from_session session token_budget = pyramid_loop (os_messages session) (new_pyramid token_budget)"

definition layer_token_count :: "context_layer \<Rightarrow> context_pyramid \<Rightarrow> nat" where
  "layer_token_count layer self = (\<Sum>s \<leftarrow> py_layers self ! layer_priority layer. length s div 4)"

subsection \<open>The authority of a route\<close>

record omni_route_authority =
  oa_authority :: string
  oa_authority_schema :: string
  oa_session_id :: string
  oa_omni_session_id :: string
  oa_principal_id :: string
  oa_channel_type :: string
  oa_channel_id :: string
  oa_thread_id :: string
  oa_message_id :: string
  oa_envelope_id :: string
  oa_source_hash :: string
  oa_route :: string
  oa_channel_attached :: bool
  oa_message_count :: nat
  oa_attachment_count :: nat
  oa_session_graph_hash :: string

record graph_message =
  gm_message_id :: string
  gm_source_channel :: string
  gm_source_channel_id :: string
  gm_role :: string
  gm_layer :: context_layer

record graph_attachment =
  ga_channel_type :: string
  ga_channel_id :: string

record graph_hash_basis =
  gb_schema :: string
  gb_principal_id :: string
  gb_active_omni_session_id :: string
  gb_parent_session_id :: "string option"
  gb_child_session_ids :: "string list"
  gb_messages :: "graph_message list"
  gb_attachments :: "graph_attachment list"

record omni_libs =
  ol_externals :: externals
  ol_parse_rfc3339 :: "string \<Rightarrow> int option"
  ol_authority_text :: "omni_route_authority \<Rightarrow> bytes"
  ol_graph_text :: "graph_hash_basis \<Rightarrow> bytes"

definition authority_hash :: "omni_libs \<Rightarrow> omni_route_authority \<Rightarrow> string" where
  "authority_hash L self = sha256_hex (ol_externals L) (ol_authority_text L self)"

definition to_ledger_payload :: "omni_libs \<Rightarrow> omni_route_authority \<Rightarrow> string \<Rightarrow> json" where
  "to_ledger_payload L self parent_received_event_id =
     JObj [(''schema'', JStr ''zaion.omni_route.v1''), (''authority'', JStr (oa_authority self)),
       (''authority_schema'', JStr (oa_authority_schema self)), (''authority_hash'', JStr (authority_hash L self)),
       (''principal_id'', JStr (oa_principal_id self)), (''channel_type'', JStr (oa_channel_type self)),
       (''channel_id'', JStr (oa_channel_id self)), (''thread_id'', JStr (oa_thread_id self)),
       (''session_id'', JStr (oa_session_id self)), (''omni_session_id'', JStr (oa_omni_session_id self)),
       (''message_id'', JStr (oa_message_id self)), (''envelope_id'', JStr (oa_envelope_id self)),
       (''route'', JStr (oa_route self)), (''channel_attached'', JBool (oa_channel_attached self)),
       (''message_count'', JInt (int (oa_message_count self))), (''attachment_count'', JInt (int (oa_attachment_count self))),
       (''session_graph_hash'', JStr (oa_session_graph_hash self)), (''source_hash'', JStr (oa_source_hash self)),
       (''parent_received_event_id'', JStr parent_received_event_id)]"

definition graph_message_of :: "unified_message \<Rightarrow> graph_message" where
  "graph_message_of message =
     \<lparr>gm_message_id = um_message_id message, gm_source_channel = channel_type_str (um_source_channel message),
      gm_source_channel_id = um_source_channel_id message, gm_role = um_role message, gm_layer = um_layer message\<rparr>"

definition graph_attachment_of :: "channel_attachment \<Rightarrow> graph_attachment" where
  "graph_attachment_of attachment =
     \<lparr>ga_channel_type = channel_type_str (at_channel_type attachment), ga_channel_id = at_channel_id attachment\<rparr>"

definition graph_basis :: "omni_session \<Rightarrow> graph_hash_basis" where
  "graph_basis session =
     \<lparr>gb_schema = ''zaion.omni_session_graph_hash.v1'', gb_principal_id = principal_str (os_principal_id session),
      gb_active_omni_session_id = os_session_id session, gb_parent_session_id = os_parent_session_id session,
      gb_child_session_ids = os_child_session_ids session,
      gb_messages = sort_key gm_message_id (map graph_message_of (os_messages session)),
      gb_attachments = sort_key (\<lambda>a. (ga_channel_type a, ga_channel_id a)) (map graph_attachment_of (os_attachments session))\<rparr>"

definition session_graph_hash :: "omni_libs \<Rightarrow> omni_session \<Rightarrow> string" where
  "session_graph_hash L session = sha256_hex (ol_externals L) (ol_graph_text L (graph_basis session))"

subsection \<open>The manager\<close>

datatype runtime_error =
  RuntimeLedger ledger_error
  | RuntimeMemory string
  | RuntimeSerialization string
  | RuntimeTaskFailed string
  | RuntimeTask string
  | RuntimePolicyViolation string
  | RuntimeInternal string

record omni_session_manager =
  om_sessions :: "(principal_id \<times> omni_session) list"
  om_archived_sessions :: "(string \<times> omni_session) list"
  om_channel_map :: "(channel_key \<times> principal_id) list"
  om_default_max_tokens :: u64

definition new_manager :: "u64 \<Rightarrow> omni_session_manager" where
  "new_manager default_max_tokens =
     \<lparr>om_sessions = [], om_archived_sessions = [], om_channel_map = [], om_default_max_tokens = default_max_tokens\<rparr>"

definition get_session :: "principal_id \<Rightarrow> omni_session_manager \<Rightarrow> omni_session option" where
  "get_session principal_id self = map_of (om_sessions self) principal_id"

text \<open>\<open>get_or_create_session\<close> hands out a mutable session; what the caller does to it is an argument.\<close>

definition with_session ::
  "int \<Rightarrow> string \<Rightarrow> principal_id \<Rightarrow> (omni_session \<Rightarrow> omni_session) \<Rightarrow> omni_session_manager \<Rightarrow> omni_session_manager" where
  "with_session now uuid principal_id change self =
     (let session = (case get_session principal_id self of
          Some session \<Rightarrow> session
        | None \<Rightarrow> new_session now uuid principal_id (om_default_max_tokens self))
      in self\<lparr>om_sessions := AList.update principal_id (change session) (om_sessions self)\<rparr>)"

definition map_channel :: "channel_type \<Rightarrow> string \<Rightarrow> principal_id \<Rightarrow> omni_session_manager \<Rightarrow> omni_session_manager" where
  "map_channel channel_type channel_id principal_id self =
     self\<lparr>om_channel_map := AList.update (new_channel_key channel_type channel_id) principal_id (om_channel_map self)\<rparr>"

definition route_message ::
  "int \<Rightarrow> string \<Rightarrow> channel_type \<Rightarrow> string \<Rightarrow> principal_id \<Rightarrow> unified_message \<Rightarrow> omni_session_manager \<Rightarrow> omni_session_manager" where
  "route_message now uuid channel_type channel_id principal_id message self =
     with_session now uuid principal_id
       (\<lambda>session. add_message now message (attach_channel (new_attachment now channel_type channel_id) session))
       (map_channel channel_type channel_id principal_id self)"

definition routed_message :: "channel_type \<Rightarrow> string \<Rightarrow> string \<Rightarrow> string \<Rightarrow> int \<Rightarrow> unified_message" where
  "routed_message channel_type channel_id message_id content timestamp =
     \<lparr>um_message_id = message_id, um_source_channel = channel_type, um_source_channel_id = channel_id, um_role = ''user'',
      um_content = content, um_signature = None, um_timestamp = timestamp, um_importance = 0x3F19999A, um_layer = L1Recent\<rparr>"

definition parse_event_time :: "omni_libs \<Rightarrow> int \<Rightarrow> string \<Rightarrow> int" where
  "parse_event_time L now value = (case ol_parse_rfc3339 L value of Some t \<Rightarrow> t | None \<Rightarrow> now)"

definition route_authority :: "omni_libs \<Rightarrow> canonical_envelope \<Rightarrow> channel_type \<Rightarrow> omni_session \<Rightarrow> omni_route_authority" where
  "route_authority L envelope channel_type session =
     \<lparr>oa_authority = ''OmniSessionManager'', oa_authority_schema = ''zaion.omni_session_authority.v1'',
      oa_session_id = envelope_session_id envelope, oa_omni_session_id = os_session_id session,
      oa_principal_id = principal_str (env_principal envelope), oa_channel_type = channel_type_str channel_type,
      oa_channel_id = channel_str (env_channel envelope), oa_thread_id = thread_str (env_thread envelope),
      oa_message_id = env_message_id envelope, oa_envelope_id = envelope_id envelope,
      oa_source_hash = env_source_hash envelope,
      oa_route = ''CanonicalEnvelope -> OmniSessionManager -> principal session graph'',
      oa_channel_attached = list_ex (\<lambda>a. at_channel_type a = channel_type \<and>
        at_channel_id a = channel_str (env_channel envelope)) (os_attachments session),
      oa_message_count = length (os_messages session), oa_attachment_count = length (os_attachments session),
      oa_session_graph_hash = session_graph_hash L session\<rparr>"

definition route_envelope ::
  "omni_libs \<Rightarrow> int \<Rightarrow> string \<Rightarrow> canonical_envelope \<Rightarrow> omni_session_manager \<Rightarrow>
     (runtime_error + omni_route_authority) \<times> omni_session_manager" where
  "route_envelope L now uuid envelope self =
     (let channel_type = from_ingress (env_source envelope) (channel_str (env_channel envelope));
          principal_id = env_principal envelope;
          message = routed_message channel_type (channel_str (env_channel envelope)) (env_message_id envelope)
            (env_body envelope) (parse_event_time L now (env_received_at envelope));
          self = route_message now uuid channel_type (channel_str (env_channel envelope)) principal_id message self
      in case get_session principal_id self of
           None \<Rightarrow> (Inl (RuntimeInternal ''OmniSessionManager authority missing routed session''), self)
         | Some session \<Rightarrow> (Inr (route_authority L envelope channel_type session), self))"

definition get_principal_by_channel :: "channel_type \<Rightarrow> string \<Rightarrow> omni_session_manager \<Rightarrow> principal_id option" where
  "get_principal_by_channel channel_type channel_id self = map_of (om_channel_map self) (new_channel_key channel_type channel_id)"

definition MAX_INHERITED_L1_MESSAGES :: nat where
  "MAX_INHERITED_L1_MESSAGES = 20"

definition split_session ::
  "int \<Rightarrow> string \<Rightarrow> principal_id \<Rightarrow> omni_session_manager \<Rightarrow> (runtime_error + string) \<times> omni_session_manager" where
  "split_session now uuid principal_id self =
     (case get_session principal_id self of
        None \<Rightarrow> (Inl (RuntimeInternal ''Session not found''), self)
      | Some session \<Rightarrow>
          let l0_messages = filter (\<lambda>m. um_layer m = L0Critical) (os_messages session);
              l1_messages = rev (take MAX_INHERITED_L1_MESSAGES (rev (filter (\<lambda>m. um_layer m = L1Recent) (os_messages session))));
              inherited_messages = l0_messages @ l1_messages;
              child_session = (new_session now uuid principal_id (om_default_max_tokens self))
                \<lparr>os_parent_session_id := Some (os_session_id session),
                 os_total_tokens := sum_list (map (\<lambda>m. estimate_tokens (um_content m)) inherited_messages),
                 os_messages := inherited_messages, os_attachments := os_attachments session\<rparr>;
              archived_parent = session\<lparr>os_child_session_ids := os_child_session_ids session @ [os_session_id child_session]\<rparr>
          in (Inr (os_session_id child_session),
              self\<lparr>om_archived_sessions := AList.update (os_session_id archived_parent) archived_parent (om_archived_sessions self),
                   om_sessions := AList.update principal_id child_session (om_sessions self)\<rparr>))"

definition get_archived_session :: "string \<Rightarrow> omni_session_manager \<Rightarrow> omni_session option" where
  "get_archived_session session_id self = map_of (om_archived_sessions self) session_id"

definition archived_session_count :: "omni_session_manager \<Rightarrow> nat" where
  "archived_session_count self = length (om_archived_sessions self)"

definition session_count :: "omni_session_manager \<Rightarrow> nat" where
  "session_count self = length (om_sessions self)"

definition channel_count :: "omni_session_manager \<Rightarrow> nat" where
  "channel_count self = length (om_channel_map self)"

subsection \<open>Replay\<close>

record graph_replay =
  gr_schema :: string
  gr_principal_id :: string
  gr_active_omni_session_id :: string
  gr_route_event_count :: nat
  gr_verified_route_event_count :: nat
  gr_message_count :: nat
  gr_attachment_count :: nat
  gr_channel_count :: nat
  gr_last_route_event_id :: "string option"
  gr_last_authority_hash :: "string option"
  gr_replay_hash :: string

definition payload_field :: "json \<Rightarrow> string \<Rightarrow> string option" where
  "payload_field payload key = Option.bind (json_get key payload) as_str"

definition required_payload_str :: "json \<Rightarrow> string \<Rightarrow> runtime_error + string" where
  "required_payload_str payload key =
     (case payload_field payload key of
        Some value \<Rightarrow> if trim value \<noteq> [] then Inr value
          else Inl (RuntimeInternal (''omni.route replay missing required payload field `'' @ key @ ''`''))
      | None \<Rightarrow> Inl (RuntimeInternal (''omni.route replay missing required payload field `'' @ key @ ''`'')))"

definition replayable :: "string option \<Rightarrow> ledger_event \<Rightarrow> bool" where
  "replayable principal_filter event =
     (le_event_type event = ''omni.route'' \<and> le_signature event \<noteq> None \<and>
      payload_field (le_payload event) ''authority'' = Some ''OmniSessionManager'' \<and>
      payload_field (le_payload event) ''authority_schema'' = Some ''zaion.omni_session_authority.v1'' \<and>
      (case principal_filter of
         None \<Rightarrow> True
       | Some p \<Rightarrow> payload_field (le_payload event) ''principal_id'' = Some p))"

text \<open>The last principal, session, event and authority hash seen by the loop.\<close>

record replay_cursor =
  rc_principal :: string
  rc_omni_session_id :: string
  rc_event_id :: "string option"
  rc_authority_hash :: "string option"

definition replay_message :: "omni_libs \<Rightarrow> int \<Rightarrow> ledger_event \<Rightarrow> channel_type \<Rightarrow> string \<Rightarrow> string \<Rightarrow> string \<Rightarrow> omni_session \<Rightarrow> omni_session" where
  "replay_message L now event channel_type channel_id message_id source_hash session =
     (if list_ex (\<lambda>m. um_message_id m = message_id) (os_messages session) then session
      else add_message now (routed_message channel_type channel_id message_id (''source_hash:'' @ source_hash)
        (parse_event_time L now (le_created_at event))) session)"

definition replay_event ::
  "omni_libs \<Rightarrow> int \<Rightarrow> string \<Rightarrow> ledger_event \<Rightarrow> omni_session_manager \<Rightarrow> runtime_error + replay_cursor \<times> omni_session_manager" where
  "replay_event L now uuid event self =
     (let payload = le_payload event
      in and_then (required_payload_str payload ''principal_id'') (\<lambda>princ.
         and_then (required_payload_str payload ''omni_session_id'') (\<lambda>omni_session_id.
         and_then (required_payload_str payload ''channel_id'') (\<lambda>channel_id.
         and_then (required_payload_str payload ''thread_id'') (\<lambda>_.
         and_then (required_payload_str payload ''message_id'') (\<lambda>message_id.
         and_then (required_payload_str payload ''source_hash'') (\<lambda>source_hash.
         and_then (required_payload_str payload ''authority_hash'') (\<lambda>authority_hash.
         let channel_type = from_authority_value
               (case payload_field payload ''channel_type'' of None \<Rightarrow> [] | Some v \<Rightarrow> v) channel_id;
             principal_id = PrincipalId princ;
             self = with_session now uuid principal_id (\<lambda>session.
               replay_message L now event channel_type channel_id message_id source_hash
                 (attach_channel (new_attachment now channel_type channel_id)
                   (session\<lparr>os_session_id := omni_session_id,
                     os_last_active_at := parse_event_time L now (le_created_at event)\<rparr>))) self;
             self = map_channel channel_type channel_id principal_id self
         in Inr (\<lparr>rc_principal = princ, rc_omni_session_id = omni_session_id,
               rc_event_id = Some (event_id_str (le_event_id event)), rc_authority_hash = Some authority_hash\<rparr>, self)))))))))"

fun replay_loop ::
  "omni_libs \<Rightarrow> int \<Rightarrow> string \<Rightarrow> ledger_event list \<Rightarrow> replay_cursor \<Rightarrow> omni_session_manager \<Rightarrow>
     (runtime_error + replay_cursor) \<times> omni_session_manager" where
  "replay_loop L now uuid [] cursor self = (Inr cursor, self)"
| "replay_loop L now uuid (event # events) cursor self =
     (case replay_event L now uuid event self of
        Inl e \<Rightarrow> (Inl e, self)
      | Inr (cursor', self') \<Rightarrow> replay_loop L now uuid events cursor' self')"

definition replay_signed_route_events ::
  "omni_libs \<Rightarrow> int \<Rightarrow> string \<Rightarrow> ledger_event list \<Rightarrow> string option \<Rightarrow> omni_session_manager \<Rightarrow>
     (runtime_error + graph_replay) \<times> omni_session_manager" where
  "replay_signed_route_events L now uuid events principal_filter self =
     (let routes = sort_key le_created_at (filter (replayable principal_filter) events)
      in if routes = []
         then (Inl (RuntimeInternal ''no signed OmniSessionManager route events available for replay''), self)
         else
           let self = self\<lparr>om_sessions := [], om_archived_sessions := [], om_channel_map := []\<rparr>
           in case replay_loop L now uuid routes
                \<lparr>rc_principal = [], rc_omni_session_id = [], rc_event_id = None, rc_authority_hash = None\<rparr> self of
                (Inl e, self) \<Rightarrow> (Inl e, self)
              | (Inr cursor, self) \<Rightarrow>
                  (case get_session (PrincipalId (rc_principal cursor)) self of
                     None \<Rightarrow> (Inl (RuntimeInternal ''OmniSession graph replay produced no active session''), self)
                   | Some session \<Rightarrow>
                       (Inr \<lparr>gr_schema = ''zaion.omni_session_graph_replay.v1'', gr_principal_id = rc_principal cursor,
                          gr_active_omni_session_id = rc_omni_session_id cursor, gr_route_event_count = length routes,
                          gr_verified_route_event_count = length routes, gr_message_count = length (os_messages session),
                          gr_attachment_count = length (os_attachments session), gr_channel_count = length (om_channel_map self),
                          gr_last_route_event_id = rc_event_id cursor, gr_last_authority_hash = rc_authority_hash cursor,
                          gr_replay_hash = session_graph_hash L session\<rparr>, self)))"

definition replay_from_ledger ::
  "omni_libs \<Rightarrow> int \<Rightarrow> string \<Rightarrow> string \<Rightarrow> event_ledger \<Rightarrow> ledger_db \<Rightarrow> string option \<Rightarrow> nat \<Rightarrow> omni_session_manager \<Rightarrow>
     (runtime_error + graph_replay) \<times> omni_session_manager \<times> event_ledger \<times> ledger_db" where
  "replay_from_ledger L now uuid new_uuid ledger db principal_filter limit self =
     (case query (ol_externals L) new_uuid (list_global_events (ol_externals L) limit) ledger db of
        (Inl e, s) \<Rightarrow> (Inl (RuntimeLedger e), self, s)
      | (Inr events, s) \<Rightarrow>
          (case replay_signed_route_events L now uuid events principal_filter self of (r, self') \<Rightarrow> (r, self', s)))"

end
