(* ===== verification/Unified_Turn.thy ===== *)
theory Unified_Turn
  imports Proof_Closure Omni_Session
begin

text \<open>
  How the unified wake records a turn (\<open>crates/zaion-cli/src/commands/process_unified.rs\<close>): it inherits
  the route of the wake handoff, appends the signed sent, answer and proof events, builds the evidence
  graph and the sealed proof, and closes the turn with the verifier. The calls before it (provider,
  memory, compression) end in \<open>unified_agent_result\<close>; the clock, the random ids and the recorder's
  transcript hash are arguments. The theorem composes the parts: the recorded turn closes.
\<close>

text \<open>The texts of \<open>CliError::Runtime\<close> are represented by the errors they print.\<close>

datatype cli_error =
  CliUsage string
  | CliCore string
  | CliLedger ledger_error
  | CliRuntime proof_closure_error
  | CliEnvelope canonical_envelope_error
  | CliRoute runtime_error

type_synonym 'a ledger_action = "event_ledger \<times> ledger_db \<Rightarrow> (cli_error + 'a) \<times> event_ledger \<times> ledger_db"

definition do_return :: "cli_error + 'a \<Rightarrow> 'a ledger_action" where
  "do_return r s = (r, s)"

definition do_then :: "'a ledger_action \<Rightarrow> ('a \<Rightarrow> 'b ledger_action) \<Rightarrow> 'b ledger_action" where
  "do_then m f s = (case m s of (Inl e, s') \<Rightarrow> (Inl e, s') | (Inr a, s') \<Rightarrow> f a s')"

definition on_ledger ::
  "(event_ledger \<Rightarrow> ledger_db \<Rightarrow> (ledger_error + 'a) \<times> event_ledger \<times> ledger_db) \<Rightarrow> 'a ledger_action" where
  "on_ledger call s = (case call (fst s) (snd s) of (r, s') \<Rightarrow> (map_err CliLedger r, s'))"

text \<open>The signature of the turn is given by its JSON value.\<close>

record unified_agent_result =
  ur_response :: string
  ur_was_compressed :: bool
  ur_turns_compressed :: u64
  ur_compression_evidence :: turn_compression_evidence
  ur_memory_context_size :: u64
  ur_runtime_memory_evidence :: "turn_runtime_memory_evidence option"
  ur_mcp_tools_loaded :: u64
  ur_execution_time_ms :: u64
  ur_ed25519_signature :: json
  ur_provenance_hash :: string

record unified_wake_handoff =
  uh_received_event_id :: "event_id option"
  uh_inherited_omni_route_event_id :: "event_id option"
  uh_inherited_omni_route_authority_hash :: "string option"
  uh_runtime_owner :: string
  uh_runtime_topology :: "string list"

text \<open>The loaded process and key, the resolved features, and the clock and ids of the three appends.\<close>

record unified_turn_env =
  ue_libs :: proof_libs
  ue_pid :: string
  ue_keypair :: zaion_keypair
  ue_workspace_id :: string
  ue_project_id :: string
  ue_identity_contract :: string
  ue_manifest :: turn_capability_manifest
  ue_new_uuid :: string
  ue_sent_uuid :: string
  ue_answer_uuid :: string
  ue_proof_uuid :: string
  ue_now :: string
  ue_transcript_hash :: string

definition inherit_omni_route_proof_from_wake_handoff ::
  "unified_turn_env \<Rightarrow> unified_wake_handoff \<Rightarrow> (event_id \<times> string) ledger_action" where
  "inherit_omni_route_proof_from_wake_handoff E handoff =
     (case uh_received_event_id handoff of
        None \<Rightarrow> do_return (Inl (CliUsage
          ''unified wake must inherit channel.received and omni.route from wake handoff''))
      | Some received_event_id \<Rightarrow>
     case uh_inherited_omni_route_event_id handoff of
        None \<Rightarrow> do_return (Inl (CliUsage ''unified wake must inherit omni.route event from wake handoff''))
      | Some inherited_omni_route_event_id \<Rightarrow>
     case uh_inherited_omni_route_authority_hash handoff of
        None \<Rightarrow> do_return (Inl (CliUsage ''unified wake must inherit omni route authority hash from wake handoff''))
      | Some inherited_omni_route_authority_hash \<Rightarrow>
     do_then (on_ledger (get_event (pl_externals (ue_libs E)) (ue_new_uuid E) (event_id_str inherited_omni_route_event_id)))
       (\<lambda>found.
     case found of
        None \<Rightarrow> do_return (Inl (CliUsage ''unified wake must fail closed if inherited omni.route is missing''))
      | Some route_event \<Rightarrow>
          if le_event_type route_event \<noteq> ''omni.route''
          then do_return (Inl (CliUsage (''unified wake inherited event '' @ event_id_str inherited_omni_route_event_id @
            '' is '' @ le_event_type route_event @ '', expected omni.route'')))
          else if \<not> parent_is route_event (event_id_str received_event_id)
          then do_return (Inl (CliUsage (''unified wake inherited omni.route '' @ event_id_str inherited_omni_route_event_id @
            '' is not parented to channel.received '' @ event_id_str received_event_id)))
          else if payload_str ''principal_id'' route_event \<noteq> Some (ue_pid E)
          then do_return (Inl (CliUsage ''unified wake inherited omni.route principal does not match wake principal''))
          else if payload_str ''authority'' route_event \<noteq> Some ''OmniSessionManager''
          then do_return (Inl (CliUsage ''unified wake inherited omni.route must be issued by OmniSessionManager''))
          else (case payload_str ''authority_hash'' route_event of
              None \<Rightarrow> do_return (Inl (CliUsage ''unified wake inherited omni.route missing authority_hash''))
            | Some route_authority_hash \<Rightarrow>
                if route_authority_hash \<noteq> inherited_omni_route_authority_hash
                then do_return (Inl (CliUsage
                  ''unified wake inherited omni authority hash does not match route event''))
                else do_return (Inr (inherited_omni_route_event_id, inherited_omni_route_authority_hash)))))"

definition event_field :: "string \<Rightarrow> string \<Rightarrow> ledger_event option \<Rightarrow> string" where
  "event_field field fallback event = case_option fallback (\<lambda>s. s) (Option.bind event (payload_str field))"

definition sent_payload :: "unified_turn_env \<Rightarrow> unified_agent_result \<Rightarrow> string \<Rightarrow> string \<Rightarrow> json" where
  "sent_payload E result channel_id thread_id =
     JObj [(''principal_id'', JStr (ue_pid E)), (''response'', JStr (ur_response result)),
       (''content'', JStr (ur_response result)), (''channel_id'', JStr channel_id), (''thread_id'', JStr thread_id),
       (''unified'', JBool True), (''was_compressed'', JBool (ur_was_compressed result)),
       (''turns_compressed'', JInt (uint (ur_turns_compressed result))),
       (''execution_time_ms'', JInt (uint (ur_execution_time_ms result))),
       (''provenance_hash'', JStr (ur_provenance_hash result)), (''ed25519_signature'', ur_ed25519_signature result)]"

definition graph_to_value :: "evidence_subgraph \<Rightarrow> json" where
  "graph_to_value g =
     JObj [(''schema'', JStr (eg_schema g)), (''answer_id'', JStr (eg_answer_id g)),
       (''nodes'', JArr (map node_to_value (eg_nodes g))), (''edges'', JArr (map edge_to_value (eg_edges g))),
       (''graph_hash'', JStr (eg_graph_hash g))]"

definition unified_graph :: "unified_turn_env \<Rightarrow> unified_agent_result \<Rightarrow> event_id option \<Rightarrow> event_id \<Rightarrow> event_id \<Rightarrow> evidence_subgraph" where
  "unified_graph E result received_event_id omni_route_event_id sent_event_id =
     build_answer_evidence_subgraph (pl_externals (ue_libs E))
       \<lparr>ae_response_hash = stable_hash_bytes (pl_externals (ue_libs E)) (ur_response result),
        ae_context_pack_id = None, ae_memory_atom_ids = [], ae_tool_receipt_ids = [],
        ae_source_ledger_event_ids = [event_id_str omni_route_event_id] @
          case_option [] (\<lambda>e. [event_id_str e]) received_event_id,
        ae_output_ledger_event_id = event_id_str sent_event_id, ae_answer_trace_span_hashes = []\<rparr>"

definition answer_payload ::
  "unified_turn_env \<Rightarrow> unified_agent_result \<Rightarrow> string \<Rightarrow> string \<Rightarrow> string \<Rightarrow> event_id \<Rightarrow> string \<Rightarrow> event_id \<Rightarrow>
     evidence_subgraph \<Rightarrow> json" where
  "answer_payload E result channel_id thread_id user_event_id omni_route_event_id omni_route_authority_hash
       sent_event_id evidence_graph =
     JObj [(''schema'', JStr ''zaion.answer_trace.v1''), (''principal_id'', JStr (ue_pid E)),
       (''channel_id'', JStr channel_id), (''thread_id'', JStr thread_id),
       (''user_event_id'', JStr user_event_id), (''output_event_id'', JStr (event_id_str sent_event_id)),
       (''omni_route_event_id'', JStr (event_id_str omni_route_event_id)),
       (''omni_route_authority_hash'', JStr omni_route_authority_hash),
       (''context_pack_id'', JNull), (''context_layers'', JArr []), (''memory_atom_ids'', JArr []),
       (''runtime_memory_evidence'', option_value (pl_memory_value (ue_libs E)) (ur_runtime_memory_evidence result)),
       (''runtime_memory_evidence_hash'',
         json_opt_str (map_option me_evidence_hash (ur_runtime_memory_evidence result))),
       (''compression_evidence'', pl_compression_value (ue_libs E) (ur_compression_evidence result)),
       (''compression_evidence_hash'', JStr (ce_evidence_hash (ur_compression_evidence result))),
       (''evidence_graph_hash'', JStr (eg_graph_hash evidence_graph)),
       (''evidence_graph'', graph_to_value evidence_graph),
       (''tool_call_count'', JInt 0), (''tokens_in'', JInt 0), (''tokens_out'', JInt 0),
       (''response_hash'', JStr (stable_hash_bytes (pl_externals (ue_libs E)) (ur_response result))),
       (''runtime'', JStr ''unified''), (''provenance_hash'', JStr (ur_provenance_hash result)),
       (''lineage'', JArr [JStr user_event_id, JStr (event_id_str omni_route_event_id), JStr (event_id_str sent_event_id)])]"

definition unified_proof ::
  "unified_turn_env \<Rightarrow> unified_agent_result \<Rightarrow> string \<Rightarrow> string \<Rightarrow> string \<Rightarrow> event_id \<Rightarrow> string \<Rightarrow> event_id \<Rightarrow>
     evidence_subgraph \<Rightarrow> turn_proof" where
  "unified_proof E result channel_id thread_id user_event_id omni_route_event_id omni_route_authority_hash
       sent_event_id evidence_graph =
     build_turn_proof (ue_libs E)
       \<lparr>pi_principal_id = ue_pid E, pi_workspace_id = ue_workspace_id E, pi_project_id = ue_project_id E,
        pi_channel_id = channel_id, pi_thread_id = thread_id, pi_namespace_key = ue_pid E,
        pi_user_event_id = user_event_id, pi_output_event_id = event_id_str sent_event_id,
        pi_omni_route_event_id = Some (event_id_str omni_route_event_id),
        pi_omni_route_authority_hash = Some omni_route_authority_hash, pi_namespace_transition_event_id = None,
        pi_identity_contract = ue_identity_contract E, pi_capability_manifest = ue_manifest E,
        pi_context_pack_id = None, pi_context_layers = [], pi_memory_atom_ids = [],
        pi_compression_evidence = Some (ur_compression_evidence result), pi_cost_evidence = None,
        pi_runtime_memory_evidence = ur_runtime_memory_evidence result,
        pi_evidence_graph_hash = Some (eg_graph_hash evidence_graph), pi_tokens_in = 0, pi_tokens_out = 0,
        pi_tool_call_count = 0, pi_tool_receipt_ids = []\<rparr>"

definition proof_payload :: "unified_turn_env \<Rightarrow> unified_wake_handoff \<Rightarrow> event_id \<Rightarrow> turn_proof \<Rightarrow> json" where
  "proof_payload E handoff answer_trace_event_id p =
     JObj (obj_insert ''runtime_topology'' (JArr (map JStr (uh_runtime_topology handoff)))
       (obj_insert ''runtime_owner'' (JStr (uh_runtime_owner handoff))
       (obj_insert ''runtime'' (JStr ''unified'')
       (obj_insert ''answer_trace_event_id'' (JStr (event_id_str answer_trace_event_id))
         (pl_proof_fields (ue_libs E) p)))))"

definition append_turn_event :: "unified_turn_env \<Rightarrow> string \<Rightarrow> event_type \<Rightarrow> json \<Rightarrow> event_id option \<Rightarrow> event_id ledger_action" where
  "append_turn_event E uuid event_type payload parent_event_id =
     on_ledger (append_signed_typed_event_with_parent (pl_externals (ue_libs E)) (ue_new_uuid E) uuid (ue_now E)
       (ue_keypair E) (NamespaceKey (ue_pid E)) event_type payload None parent_event_id)"

definition closure_on_ledger :: "unified_turn_env \<Rightarrow> event_id \<Rightarrow> event_id \<Rightarrow> proof_closure ledger_action" where
  "closure_on_ledger E answer_trace_event_id turn_proof_event_id s =
     (map_err CliRuntime (verify_closure
        \<lparr>vr_libs = ue_libs E, vr_uuid = ue_new_uuid E, vr_ledger = fst s, vr_database = snd s,
         vr_public_key = keypair_public_key_bytes (pl_externals (ue_libs E)) (ue_keypair E)\<rparr>
        (event_id_str answer_trace_event_id) (event_id_str turn_proof_event_id) None), s)"

definition cmd_wake_unified ::
  "unified_turn_env \<Rightarrow> unified_wake_handoff \<Rightarrow> unified_agent_result \<Rightarrow> ledger_db \<Rightarrow>
     (cli_error + turn_execution) \<times> event_ledger \<times> ledger_db" where
  "cmd_wake_unified E handoff result db =
     do_then (case uh_received_event_id handoff of
         None \<Rightarrow> do_return (Inr None)
       | Some e \<Rightarrow> on_ledger (get_event (pl_externals (ue_libs E)) (ue_new_uuid E) (event_id_str e))) (\<lambda>received_event.
     do_then (inherit_omni_route_proof_from_wake_handoff E handoff) (\<lambda>(omni_route_event_id, omni_route_authority_hash).
     let channel_id = event_field ''channel_id'' ''unified'' received_event;
         thread_id = event_field ''thread_id'' ''wake'' received_event
     in do_then (append_turn_event E (ue_sent_uuid E) ChannelSent (sent_payload E result channel_id thread_id)
         (if uh_received_event_id handoff = None then None else Some omni_route_event_id)) (\<lambda>sent_event_id.
     let user_event_id = (case uh_received_event_id handoff of Some e \<Rightarrow> event_id_str e | None \<Rightarrow> event_id_str sent_event_id);
         evidence_graph = unified_graph E result (uh_received_event_id handoff) omni_route_event_id sent_event_id;
         p = unified_proof E result channel_id thread_id user_event_id omni_route_event_id omni_route_authority_hash
           sent_event_id evidence_graph
     in do_then (append_turn_event E (ue_answer_uuid E) AnswerTrace
         (answer_payload E result channel_id thread_id user_event_id omni_route_event_id omni_route_authority_hash
           sent_event_id evidence_graph) (Some sent_event_id)) (\<lambda>answer_trace_event_id.
     do_then (append_turn_event E (ue_proof_uuid E) TurnProof (proof_payload E handoff answer_trace_event_id p)
         (Some answer_trace_event_id)) (\<lambda>turn_proof_event_id.
     do_then (closure_on_ledger E answer_trace_event_id turn_proof_event_id) (\<lambda>proof_closure.
     do_return (Inr (completed_execution
       \<lparr>ro_runtime_owner = uh_runtime_owner handoff, ro_runtime_topology = uh_runtime_topology handoff,
        ro_provider_response_hash = stable_hash_bytes (pl_externals (ue_libs E)) (ur_response result),
        ro_context_pack_id = [], ro_memory_atom_ids = [], ro_tool_receipt_ids = [],
        ro_stream_hash = ue_transcript_hash E\<rparr> proof_closure)))))))) (new_event_ledger, db)"

subsection \<open>Calls on an open ledger\<close>

text \<open>A ledger object bound to the database it was opened on.\<close>

definition opened :: "externals \<Rightarrow> event_ledger \<Rightarrow> ledger_db \<Rightarrow> bool" where
  "opened x L db =
     (\<exists>u. L = \<lparr>el_tables_ensured = True, el_database_instance_id = Some u\<rparr> \<and> read_database_instance_id x db = Inr u)"

lemma with_conn_opened:
  assumes "opened x L db"
  shows "with_conn x u f L db = (case f db of Inl e \<Rightarrow> (Inl e, L, db) | Inr (r, db') \<Rightarrow> (Inr r, L, db'))"
  using assms by (auto simp: opened_def with_conn_def Let_def split: sum.split)

lemma with_conn_opens:
  assumes "ensure_schema x u db = Inr db" and "read_database_instance_id x db = Inr i"
  shows "with_conn x u f new_event_ledger db =
    with_conn x u f \<lparr>el_tables_ensured = True, el_database_instance_id = Some i\<rparr> db"
  using assms by (simp add: with_conn_def Let_def new_event_ledger_def split: sum.split)

lemma get_event_opened:
  assumes "opened x L db" and "get_event_from_connection x i db = Inr found"
  shows "on_ledger (get_event x u i) (L, db) = (Inr found, L, db)"
  using assms by (simp add: on_ledger_def get_event_def query_def with_conn_opened)

lemma open_ledger_opened:
  assumes "opened x L db" and "pl_externals P = x"
  shows "open_ledger \<lparr>vr_libs = P, vr_uuid = u, vr_ledger = L, vr_database = db, vr_public_key = k\<rparr>"
  using assms by (auto simp: opened_def open_ledger_def)

text \<open>What the turn relies on: primitives and JSON text that round-trip.\<close>

definition record_laws :: "externals \<Rightarrow> bool" where
  "record_laws x =
     (ed25519_laws x \<and> hex_laws x \<and> sha256_length x \<and> (\<forall>v. x_json_parse x (x_json_print x v) = Some v))"

text \<open>An event of the process in the ledger, signed with its key.\<close>

definition recorded :: "unified_turn_env \<Rightarrow> ledger_db \<Rightarrow> ledger_event \<Rightarrow> bool" where
  "recorded E db ev =
     (let x = pl_externals (ue_libs E)
      in get_event_from_connection x (event_id_str (le_event_id ev)) db = Inr (Some ev) \<and>
         le_principal_id ev = keypair_principal_id x (ue_keypair E) \<and> le_namespace_key ev = NamespaceKey (ue_pid E) \<and>
         is_ok (verify_event_signature x (keypair_public_key_bytes x (ue_keypair E)) ev))"

lemma recorded_kept:
  assumes "recorded E db ev" and "\<And>i r. find_event i db = Some r \<Longrightarrow> find_event i db' = Some r"
  shows "recorded E db' ev"
  using assms by (auto simp: recorded_def get_event_from_connection_def Let_def split: option.splits)

text \<open>
  One append of the turn: the event is in the ledger as it was given and signed, no other event is
  lost, the chain is kept and the ledger stays open.
\<close>

definition turn_event_id :: "string \<Rightarrow> event_id" where
  "turn_event_id uuid = EventId (''evt-'' @ uuid)"

definition turn_appended ::
  "unified_turn_env \<Rightarrow> event_ledger \<Rightarrow> string \<Rightarrow> event_type \<Rightarrow> json \<Rightarrow> event_id option \<Rightarrow> ledger_db \<Rightarrow> ledger_db \<Rightarrow>
     ledger_event \<Rightarrow> bool" where
  "turn_appended E L uuid ty v par db db' ev =
     (append_turn_event E uuid ty v par (L, db) = (Inr (turn_event_id uuid), L, db') \<and>
      opened (pl_externals (ue_libs E)) L db' \<and> ledger_inv (pl_externals (ue_libs E)) db' \<and>
      recorded E db' ev \<and> le_event_id ev = turn_event_id uuid \<and> le_event_type ev = event_type_str ty \<and>
      le_payload ev = v \<and> le_parent_event_id ev = par \<and>
      (\<exists>row. db' = db\<lparr>ld_events := ld_events db @ [row]\<rparr> \<and> er_event_id row = ''evt-'' @ uuid \<and> er_event_type row = event_type_str ty) \<and>
      (\<forall>i r. find_event i db = Some r \<longrightarrow> find_event i db' = Some r))"

lemma append_turn_event_records:
  assumes laws: "record_laws (pl_externals (ue_libs E))" and op: "opened (pl_externals (ue_libs E)) L db"
    and inv: "ledger_inv (pl_externals (ue_libs E)) db" and new: "find_event (''evt-'' @ uuid) db = None"
    and room: "int (length (ld_events db)) \<le> i64_max"
  shows "\<exists>db' ev. turn_appended E L uuid ty v par db db' ev"
proof -
  let ?x = "pl_externals (ue_libs E)"
  let ?p = "keypair_principal_id ?x (ue_keypair E)"
  let ?sg = "sign_event_envelope ?x (ue_keypair E) ?p (NamespaceKey (ue_pid E)) None (event_type_str ty) v par"
  let ?e = "prepare ?x (''evt-'' @ uuid) ?p (NamespaceKey (ue_pid E)) None (event_type_str ty) v (Some ?sg) (ue_now E) par"
  have eid: "pe_event_id ?e = ''evt-'' @ uuid"
    by (simp add: prepare_def)
  have "int (length (rows_of_principal (pe_principal_id ?e) db)) \<le> i64_max"
    using room of_nat_mono [OF length_filter_le] unfolding rows_of_principal_def by (rule order_trans [rotated])
  then obtain db' where app: "append_prepared_event ?x ?e Reject db = Inr (True, db')"
    using append_succeeds [OF inv, of ?e Reject] new eid by auto
  obtain seq prev where db': "db' = db\<lparr>ld_events := ld_events db @ [row_of_prepared ?e seq prev]\<rparr>"
    using app by (cases rule: append_cases) auto
  obtain r where r: "find_event (''evt-'' @ uuid) db' = Some r" "stored_matches r ?e False"
    using append_stores [OF app] stored_matches_weaken eid by metis
  define ev where "ev = \<lparr>le_event_id = EventId (''evt-'' @ uuid), le_principal_id = ?p,
    le_namespace_key = NamespaceKey (ue_pid E), le_run_id = None, le_event_type = event_type_str ty, le_payload = v,
    le_signature = Some ?sg, le_created_at = er_created_at r, le_parent_event_id = par\<rparr>"
  have "row_to_event ?x r = Inr ev"
    using row_to_event_stored [OF r(2) refl] laws find_event_Some [OF r(1)] by (simp add: record_laws_def ev_def)
  then have "recorded E db' ev"
    using r(1) laws verify_own_signature
    by (simp add: recorded_def Let_def get_event_from_connection_def ev_def verify_event_signature_def
        sign_event_envelope_def record_laws_def is_ok_def)
  moreover have "opened ?x L db'"
    using op by (simp add: opened_def db' read_database_instance_id_def)
  moreover have "append_turn_event E uuid ty v par (L, db) = (Inr (EventId (''evt-'' @ uuid)), L, db')"
    using app op by (simp add: append_turn_event_def on_ledger_def append_signed_typed_event_with_parent_def
        append_signed_event_with_parent_def append_event_with_parent_def with_conn_opened
        append_event_with_parent_tx_def Let_def)
  ultimately have "turn_appended E L uuid ty v par db db' ev"
    using append_inv [OF inv app] append_keeps_event [OF app]
    by (auto simp: turn_appended_def turn_event_id_def ev_def db' row_of_prepared_def prepare_def)
  then show ?thesis
    by blast
qed

lemma turn_appended_fresh:
  assumes "turn_appended E L uuid ty v par db db' ev" and "find_event i db = None" and "i \<noteq> ''evt-'' @ uuid"
  shows "find_event i db' = None"
  using assms by (auto simp: turn_appended_def find_event_None)

lemma turn_appended_keeps:
  assumes "turn_appended E L uuid ty v par db db' ev" and "recorded E db ev'"
  shows "recorded E db' ev'"
  using assms by (auto simp: turn_appended_def intro: recorded_kept)

lemma turn_appended_state:
  "turn_appended E L uuid ty v par db db' ev \<Longrightarrow>
     opened (pl_externals (ue_libs E)) L db' \<and> ledger_inv (pl_externals (ue_libs E)) db'"
  by (simp add: turn_appended_def)

lemma turn_appended_length: "turn_appended E L uuid ty v par db db' ev \<Longrightarrow> length (ld_events db') = Suc (length (ld_events db))"
  by (auto simp: turn_appended_def)

subsection \<open>A recorded turn closes\<close>

definition turn_verifier :: "unified_turn_env \<Rightarrow> event_ledger \<Rightarrow> ledger_db \<Rightarrow> closure_verifier" where
  "turn_verifier E L db =
     \<lparr>vr_libs = ue_libs E, vr_uuid = ue_new_uuid E, vr_ledger = L, vr_database = db,
      vr_public_key = keypair_public_key_bytes (pl_externals (ue_libs E)) (ue_keypair E)\<rparr>"

lemma turn_verifier_simps [simp]:
  "vr_libs (turn_verifier E L db) = ue_libs E" "vr_database (turn_verifier E L db) = db"
  by (simp_all add: turn_verifier_def)

lemma recorded_checks:
  assumes "opened (pl_externals (ue_libs E)) L db" and "recorded E db ev"
    and "i = event_id_str (le_event_id ev)" and "ty = le_event_type ev"
  shows "closure_event (turn_verifier E L db) i ty = Inr ev" "closure_signature (turn_verifier E L db) ev = Inr ()"
    "signed_event (turn_verifier E L db) i ty = Inr ev"
proof -
  have op: "open_ledger (turn_verifier E L db)"
    using open_ledger_opened [OF assms(1)] by (simp add: turn_verifier_def)
  have "ledger_event_signed (turn_verifier E L db) i ty ev"
    using assms by (auto simp: ledger_event_signed_def recorded_def turn_verifier_def Let_def)
  then show "closure_event (turn_verifier E L db) i ty = Inr ev" "closure_signature (turn_verifier E L db) ev = Inr ()"
    "signed_event (turn_verifier E L db) i ty = Inr ev"
    using signed_event_iff [OF op] by blast+
qed

lemma recorded_same_scope: "recorded E db a \<Longrightarrow> recorded E db b \<Longrightarrow> same_scope a b"
  by (simp add: recorded_def same_scope_def Let_def)

lemma unified_graph_nodes:
  "en_id ` set (eg_nodes (unified_graph E result (Some received) route sent)) \<supseteq>
     {''ledger-event:'' @ event_id_str received, ''ledger-event:'' @ event_id_str route} \<union>
     (if event_id_str sent = [] then {} else {''ledger-event:'' @ event_id_str sent})"
  by (auto simp: unified_graph_def build_answer_evidence_subgraph_def Let_def input_references_def node_reference_def
      node_with_hash_def)

lemma unified_graph_sealed:
  assumes "record_laws (pl_externals (ue_libs E))"
  shows "verify_hash (pl_externals (ue_libs E)) (unified_graph E result received route sent)"
  using assms new_subgraph_verifies
  by (auto simp: record_laws_def unified_graph_def build_answer_evidence_subgraph_def Let_def)

text \<open>The decoders return what was written for this turn.\<close>

definition decodes_turn :: "unified_turn_env \<Rightarrow> unified_wake_handoff \<Rightarrow> evidence_subgraph \<Rightarrow> turn_proof \<Rightarrow> bool" where
  "decodes_turn E handoff graph p =
     (pl_graph_from_value (ue_libs E) (graph_to_value graph) = Some graph \<and>
      (\<forall>answer. pl_proof_from_value (ue_libs E) (proof_payload E handoff answer p) = Inr p))"

lemma proof_payload_answer: "json_get ''answer_trace_event_id'' (proof_payload E handoff answer p) = Some (JStr (event_id_str answer))"
  by (simp add: proof_payload_def map_of_obj_insert)

lemma answer_payload_fields:
  "json_get ''user_event_id'' (answer_payload E result ch th user route h sent graph) = Some (JStr user)"
  "json_get ''output_event_id'' (answer_payload E result ch th user route h sent graph) = Some (JStr (event_id_str sent))"
  "json_get ''evidence_graph'' (answer_payload E result ch th user route h sent graph) = Some (graph_to_value graph)"
  "json_get ''evidence_graph_hash'' (answer_payload E result ch th user route h sent graph) = Some (JStr (eg_graph_hash graph))"
  "json_get ''namespace_transition_event_id'' (answer_payload E result ch th user route h sent graph) = None"
  by (simp_all add: answer_payload_def)

lemma unified_proof_fields:
  fixes E result ch th user route h sent graph
  defines "p \<equiv> unified_proof E result ch th user route h sent graph"
  shows "tp_principal_id p = ue_pid E" "tp_namespace_key p = ue_pid E" "tp_user_event_id p = user"
    "tp_output_event_id p = event_id_str sent" "tp_omni_route_event_id p = Some (event_id_str route)"
    "tp_namespace_transition_event_id p = None" "tp_evidence_graph_hash p = Some (eg_graph_hash graph)"
    "tp_context_pack_id p = None" "tp_memory_atom_ids p = []" "tp_tool_receipt_ids p = []"
    "tp_event_lineage p = lineage_of user (Some (event_id_str route)) None (event_id_str sent) []"
  by (simp_all add: p_def unified_proof_def)

lemma unified_proof_sealed:
  assumes "record_laws (pl_externals (ue_libs E))"
  shows "verify_turn_proof_hash (ue_libs E) (unified_proof E result ch th user route h sent graph)"
  using assms build_turn_proof_verifies by (simp add: record_laws_def unified_proof_def)

lemma recorded_turn_closes:
  fixes E L db received route sent answer pe result handoff ch th h
  defines "V \<equiv> turn_verifier E L db"
    and "graph \<equiv> unified_graph E result (Some (le_event_id received)) (le_event_id route) (le_event_id sent)"
  defines "p \<equiv> unified_proof E result ch th (event_id_str (le_event_id received)) (le_event_id route) h (le_event_id sent) graph"
  assumes laws: "record_laws (pl_externals (ue_libs E))" and op: "opened (pl_externals (ue_libs E)) L db"
    and inv: "ledger_inv (pl_externals (ue_libs E)) db" and room: "int (length (ld_events db)) \<le> i64_max"
    and pid: "ue_pid E = principal_str (keypair_principal_id (pl_externals (ue_libs E)) (ue_keypair E))"
    and rec: "recorded E db received" "recorded E db route" "recorded E db sent" "recorded E db answer" "recorded E db pe"
    and types: "le_event_type received = ''channel.received''" "le_event_type route = ''omni.route''"
      "le_event_type sent = ''channel.sent''" "le_event_type answer = ''answer.trace''" "le_event_type pe = ''turn.proof''"
    and parents: "le_parent_event_id route = Some (le_event_id received)" "le_parent_event_id sent = Some (le_event_id route)"
      "le_parent_event_id answer = Some (le_event_id sent)" "le_parent_event_id pe = Some (le_event_id answer)"
    and payloads: "le_payload answer = answer_payload E result ch th (event_id_str (le_event_id received)) (le_event_id route) h
        (le_event_id sent) graph"
      "le_payload pe = proof_payload E handoff (le_event_id answer) p"
    and serde: "decodes_turn E handoff graph p" and named: "event_id_str (le_event_id sent) \<noteq> []"
  shows "verify_closure V (event_id_str (le_event_id answer)) (event_id_str (le_event_id pe)) None =
    Inr \<lparr>pc_schema_version = 1, pc_answer_trace_event_id = event_id_str (le_event_id answer),
      pc_turn_proof_event_id = event_id_str (le_event_id pe), pc_proof_hash = tp_proof_hash p,
      pc_receipt_proof_join_event_id = None, pc_evidence_graph_hash = eg_graph_hash graph\<rparr>"
proof -
  let ?i = "\<lambda>ev. event_id_str (le_event_id ev)"
  note checks = recorded_checks [OF op]
  note p_fields = unified_proof_fields [of E result ch th "?i received" "le_event_id route" h "le_event_id sent" graph,
      folded p_def]
  have principal: "le_principal_id ev = keypair_principal_id (pl_externals (ue_libs E)) (ue_keypair E) \<and>
      le_namespace_key ev = NamespaceKey (ue_pid E)" if "recorded E db ev" for ev
    using that by (simp add: recorded_def Let_def)
  have graph: "answer_graph V answer = Inr (graph, eg_graph_hash graph)"
    using serde payloads(1) unified_graph_sealed [OF laws]
    by (simp add: answer_graph_def V_def answer_payload_fields decodes_turn_def payload_str_def graph_def)
  have "closure_proof V (?i answer) answer pe (eg_graph_hash graph) = Inr p"
    using serde payloads unified_proof_sealed [OF laws] principal [OF rec(5)] pid p_fields proof_payload_answer
    by (simp add: closure_proof_def V_def decodes_turn_def payload_str_def answer_payload_fields p_def)
  moreover have "closure_route V p pe received sent = Inr ()"
    using checks(3) [OF rec(2) refl types(2) [symmetric]] principal rec parents p_fields
    by (simp add: closure_route_def V_def parent_is_def)
  moreover have "closure_transition V p pe received = Inr ()"
    using principal rec p_fields by (simp add: closure_transition_def)
  moreover have "closure_nodes V graph p pe = Inr ()"
    using unified_graph_nodes [of "le_event_id received" "le_event_id route" "le_event_id sent" E result] named p_fields
    by (auto simp: closure_nodes_def graph_def result_simps require_graph_nodes_ok)
  moreover have "closure_join V (?i answer) (?i pe) None p pe = Inr None"
    using p_fields by (simp add: closure_join_def)
  moreover have "answer_lineage_ok p answer"
    using parents p_fields payloads by (simp add: answer_lineage_ok_def parent_is_def payload_str_def answer_payload_fields)
  moreover obtain chain where "read_ledger V (verify_chain (pl_externals (vr_libs V)) (principal_str (le_principal_id answer))) = Inr chain"
    "cv_broken_at chain = None"
  proof -
    let ?rows = "rows_of_principal (principal_str (le_principal_id answer)) db"
    have "int (length ?rows) \<le> i64_max"
      using room of_nat_mono [OF length_filter_le] unfolding rows_of_principal_def by (rule order_trans [rotated])
    then show ?thesis
      using verify_chain_inv [of "pl_externals (ue_libs E)"] inv open_ledger_opened [OF op] that
      by (simp add: read_open_ledger V_def turn_verifier_def ledger_inv_def)
  qed
  ultimately show ?thesis
    using checks [OF rec(1) refl types(1) [symmetric]] checks [OF rec(3) refl types(3) [symmetric]]
      checks [OF rec(4) refl types(4) [symmetric]] checks [OF rec(5) refl types(5) [symmetric]]
      recorded_same_scope [OF rec(4,5)] principal rec parents p_fields graph
    by (simp add: verify_closure_def V_def parent_is_def)
qed

subsection \<open>The whole command\<close>

text \<open>The graph and the proof of a turn that follows the given received and route events.\<close>

definition turn_graph :: "unified_turn_env \<Rightarrow> unified_agent_result \<Rightarrow> ledger_event \<Rightarrow> ledger_event \<Rightarrow> evidence_subgraph" where
  "turn_graph E result received route =
     unified_graph E result (Some (le_event_id received)) (le_event_id route) (turn_event_id (ue_sent_uuid E))"

definition turn_sealed_proof ::
  "unified_turn_env \<Rightarrow> unified_agent_result \<Rightarrow> ledger_event \<Rightarrow> ledger_event \<Rightarrow> string \<Rightarrow> turn_proof" where
  "turn_sealed_proof E result received route h =
     unified_proof E result (event_field ''channel_id'' ''unified'' (Some received))
       (event_field ''thread_id'' ''wake'' (Some received)) (event_id_str (le_event_id received)) (le_event_id route) h
       (turn_event_id (ue_sent_uuid E)) (turn_graph E result received route)"

text \<open>The handoff names events of the ledger that a wake recorded for this process.\<close>

definition handoff_recorded ::
  "unified_turn_env \<Rightarrow> unified_wake_handoff \<Rightarrow> ledger_db \<Rightarrow> ledger_event \<Rightarrow> ledger_event \<Rightarrow> string \<Rightarrow> bool" where
  "handoff_recorded E handoff db received route h =
     (uh_received_event_id handoff = Some (le_event_id received) \<and>
      uh_inherited_omni_route_event_id handoff = Some (le_event_id route) \<and>
      uh_inherited_omni_route_authority_hash handoff = Some h \<and>
      recorded E db received \<and> le_event_type received = ''channel.received'' \<and>
      recorded E db route \<and> le_event_type route = ''omni.route'' \<and> le_parent_event_id route = Some (le_event_id received) \<and>
      payload_str ''principal_id'' route = Some (ue_pid E) \<and> payload_str ''authority'' route = Some ''OmniSessionManager'' \<and>
      payload_str ''authority_hash'' route = Some h)"

lemma inherit_recorded:
  assumes "handoff_recorded E handoff db received route h" and "opened (pl_externals (ue_libs E)) L db"
  shows "inherit_omni_route_proof_from_wake_handoff E handoff (L, db) = (Inr (le_event_id route, h), L, db)"
  using assms get_event_opened [OF assms(2)]
  by (simp add: inherit_omni_route_proof_from_wake_handoff_def handoff_recorded_def recorded_def Let_def do_then_def
      do_return_def parent_is_def)

definition fresh_uuids :: "unified_turn_env \<Rightarrow> ledger_db \<Rightarrow> bool" where
  "fresh_uuids E db =
     (distinct [ue_sent_uuid E, ue_answer_uuid E, ue_proof_uuid E] \<and>
      (\<forall>u \<in> {ue_sent_uuid E, ue_answer_uuid E, ue_proof_uuid E}. find_event (''evt-'' @ u) db = None))"

lemma wake_unified_closes:
  fixes E handoff result received route h
  defines "x \<equiv> pl_externals (ue_libs E)" and "graph \<equiv> turn_graph E result received route"
    and "p \<equiv> turn_sealed_proof E result received route h"
  assumes laws: "record_laws x" and schema: "ensure_schema x (ue_new_uuid E) db = Inr db"
    and ident: "read_database_instance_id x db = Inr i" and inv: "ledger_inv x db"
    and room: "int (length (ld_events db)) + 3 \<le> i64_max"
    and pid: "ue_pid E = principal_str (keypair_principal_id x (ue_keypair E))"
    and handoff: "handoff_recorded E handoff db received route h"
    and fresh: "fresh_uuids E db" and serde: "decodes_turn E handoff graph p"
  shows "\<exists>out L db' rows. cmd_wake_unified E handoff result db = (Inr (completed_execution out
      \<lparr>pc_schema_version = 1, pc_answer_trace_event_id = ''evt-'' @ ue_answer_uuid E,
       pc_turn_proof_event_id = ''evt-'' @ ue_proof_uuid E, pc_proof_hash = tp_proof_hash p,
       pc_receipt_proof_join_event_id = None, pc_evidence_graph_hash = eg_graph_hash graph\<rparr>), L, db') \<and>
    ledger_inv x db' \<and> ld_events db' = ld_events db @ rows \<and>
    map er_event_type rows = [''channel.sent'', ''answer.trace'', ''turn.proof''] \<and> opened x L db' \<and>
    (\<exists>c. verify_closure (turn_verifier E L db') (''evt-'' @ ue_answer_uuid E) (''evt-'' @ ue_proof_uuid E) None = Inr c)"
proof -
  let ?L = "\<lparr>el_tables_ensured = True, el_database_instance_id = Some i\<rparr>"
  let ?ch = "event_field ''channel_id'' ''unified'' (Some received)" and ?th = "event_field ''thread_id'' ''wake'' (Some received)"
  let ?user = "event_id_str (le_event_id received)" and ?route = "le_event_id route"
  let ?sent = "turn_event_id (ue_sent_uuid E)" and ?answer = "turn_event_id (ue_answer_uuid E)"
  have op: "opened x ?L db"
    using ident by (simp add: opened_def)
  have new: "find_event (''evt-'' @ ue_sent_uuid E) db = None" "find_event (''evt-'' @ ue_answer_uuid E) db = None"
    "find_event (''evt-'' @ ue_proof_uuid E) db = None" "ue_answer_uuid E \<noteq> ue_sent_uuid E"
    "ue_proof_uuid E \<noteq> ue_sent_uuid E" "ue_proof_uuid E \<noteq> ue_answer_uuid E"
    using fresh by (auto simp: fresh_uuids_def)
  obtain db1 sent where s1: "turn_appended E ?L (ue_sent_uuid E) ChannelSent (sent_payload E result ?ch ?th) (Some ?route) db db1 sent"
    using append_turn_event_records laws op inv new(1) room unfolding x_def by (smt (verit))
  have st1: "find_event (''evt-'' @ ue_answer_uuid E) db1 = None" "find_event (''evt-'' @ ue_proof_uuid E) db1 = None"
    "int (length (ld_events db1)) \<le> i64_max"
    using new room turn_appended_fresh [OF s1] turn_appended_length [OF s1] by simp_all
  obtain db2 answer where s2: "turn_appended E ?L (ue_answer_uuid E) AnswerTrace
      (answer_payload E result ?ch ?th ?user ?route h ?sent graph) (Some ?sent) db1 db2 answer"
    using append_turn_event_records laws turn_appended_state [OF s1] st1 unfolding x_def by blast
  have st2: "find_event (''evt-'' @ ue_proof_uuid E) db2 = None" "int (length (ld_events db2)) \<le> i64_max"
    using new(6) st1 room turn_appended_fresh [OF s2] turn_appended_length [OF s2] turn_appended_length [OF s1] by simp_all
  obtain db3 pe where s3: "turn_appended E ?L (ue_proof_uuid E) TurnProof (proof_payload E handoff ?answer p) (Some ?answer) db2 db3 pe"
    using append_turn_event_records laws turn_appended_state [OF s2] st2 unfolding x_def by blast
  have ids: "le_event_id sent = ?sent" "le_event_id answer = ?answer" "le_event_id pe = turn_event_id (ue_proof_uuid E)"
    using s1 s2 s3 by (simp_all add: turn_appended_def)
  have room3: "int (length (ld_events db3)) \<le> i64_max"
    using room turn_appended_length [OF s1] turn_appended_length [OF s2] turn_appended_length [OF s3] by simp
  have recs: "recorded E db3 received" "recorded E db3 route" "recorded E db3 sent" "recorded E db3 answer" "recorded E db3 pe"
    using handoff turn_appended_keeps [OF s1] turn_appended_keeps [OF s2] turn_appended_keeps [OF s3] s1 s2 s3
    by (auto simp: handoff_recorded_def turn_appended_def)
  have verified: "verify_closure (turn_verifier E ?L db3) (event_id_str (le_event_id answer)) (event_id_str (le_event_id pe)) None =
      Inr \<lparr>pc_schema_version = 1, pc_answer_trace_event_id = event_id_str (le_event_id answer),
       pc_turn_proof_event_id = event_id_str (le_event_id pe), pc_proof_hash = tp_proof_hash p,
       pc_receipt_proof_join_event_id = None, pc_evidence_graph_hash = eg_graph_hash graph\<rparr>"
    unfolding p_def turn_sealed_proof_def graph_def turn_graph_def ids(1) [symmetric]
    by (rule recorded_turn_closes [where received = received and route = route and sent = sent and handoff = handoff])
      (use laws recs room3 pid handoff serde s1 s2 s3 ids in
        \<open>auto simp: x_def handoff_recorded_def turn_appended_def turn_event_id_def p_def turn_sealed_proof_def graph_def turn_graph_def\<close>)
  then have closure: "closure_on_ledger E ?answer (turn_event_id (ue_proof_uuid E)) (?L, db3) =
      (Inr \<lparr>pc_schema_version = 1, pc_answer_trace_event_id = ''evt-'' @ ue_answer_uuid E,
       pc_turn_proof_event_id = ''evt-'' @ ue_proof_uuid E, pc_proof_hash = tp_proof_hash p,
       pc_receipt_proof_join_event_id = None, pc_evidence_graph_hash = eg_graph_hash graph\<rparr>, ?L, db3)"
    by (simp add: ids closure_on_ledger_def turn_verifier_def turn_event_id_def)
  have "on_ledger (get_event x (ue_new_uuid E) ?user) (new_event_ledger, db) = (Inr (Some received), ?L, db)"
    using handoff unfolding on_ledger_def get_event_def query_def fst_conv snd_conv with_conn_opens [OF schema ident]
      with_conn_opened [OF op] by (simp add: handoff_recorded_def recorded_def Let_def x_def)
  then show ?thesis
    using inherit_recorded [OF handoff op [unfolded x_def]] s1 s2 s3 closure handoff verified [unfolded ids turn_event_id_def event_id.sel]
    by (auto simp: turn_appended_def cmd_wake_unified_def do_then_def do_return_def Let_def handoff_recorded_def x_def p_def
        turn_sealed_proof_def graph_def turn_graph_def)
qed

end
