(* ===== verification/Closure_Properties.thy ===== *)
theory Closure_Properties
  imports Unified_Turn Store_Demo
begin

text \<open>
  What a proof closure is worth and when a turn has one: the properties of the verifier and of the
  unified wake that records a turn, with a concrete ledger, handoff and libraries to evaluate them on.
\<close>

subsection \<open>A concrete turn\<close>

definition turn_externals :: externals where
  "turn_externals = demo_externals\<lparr>x_json_print := encode_json, x_json_parse := decode_json,
     x_sha256 := (\<lambda>_. replicate 32 CHR ''0'')\<rparr>"

lemma turn_laws_hold: "record_laws turn_externals"
  by (auto simp: record_laws_def turn_externals_def demo_externals_def ed25519_laws_def hex_laws_def sha256_length_def
      simp del: encode_json.simps)

definition demo_pid :: string where
  "demo_pid = replicate 32 CHR ''0''"

definition demo_turn_row :: "string \<Rightarrow> string \<Rightarrow> json \<Rightarrow> string option \<Rightarrow> int \<Rightarrow> event_row" where
  "demo_turn_row i ty payload par n =
     \<lparr>er_event_id = i, er_principal_id = demo_pid, er_namespace_key = demo_pid, er_run_id = None, er_event_type = ty,
      er_payload_json = encode_json payload, er_signature_hex = Some (replicate 128 CHR ''s''), er_created_at = ''now'',
      er_parent_event_id = par, er_seq_num = n, er_prev_hash = GENESIS_HASH\<rparr>"

definition demo_turn_event :: "string \<Rightarrow> string \<Rightarrow> json \<Rightarrow> string option \<Rightarrow> ledger_event" where
  "demo_turn_event i ty payload par =
     \<lparr>le_event_id = EventId i, le_principal_id = PrincipalId demo_pid, le_namespace_key = NamespaceKey demo_pid,
      le_run_id = None, le_event_type = ty, le_payload = payload, le_signature = Some (SignatureBytes (replicate 64 CHR ''s'')),
      le_created_at = ''now'', le_parent_event_id = map_option EventId par\<rparr>"

definition demo_received_payload :: json where
  "demo_received_payload = JObj [(''channel_id'', JStr ''chat''), (''thread_id'', JStr ''t-1'')]"

definition demo_route_payload :: json where
  "demo_route_payload = JObj [(''principal_id'', JStr demo_pid), (''authority'', JStr ''OmniSessionManager''),
     (''authority_hash'', JStr ''auth'')]"

definition demo_turn_ledger :: ledger_db where
  "demo_turn_ledger = with_identity turn_externals ''u-1'' (empty_ledger
     \<lparr>ld_events := [demo_turn_row ''evt-in'' ''channel.received'' demo_received_payload None 0,
        demo_turn_row ''evt-route'' ''omni.route'' demo_route_payload (Some ''evt-in'') 1]\<rparr>)"

definition demo_received :: ledger_event where
  "demo_received = demo_turn_event ''evt-in'' ''channel.received'' demo_received_payload None"

definition demo_route :: ledger_event where
  "demo_route = demo_turn_event ''evt-route'' ''omni.route'' demo_route_payload (Some ''evt-in'')"

definition demo_compression :: turn_compression_evidence where
  "demo_compression =
     \<lparr>ce_schema = ''v1'', ce_compression_requested = False, ce_was_compressed = False, ce_original_turns = 1,
      ce_compressed_turns = 1, ce_turns_pruned = 0, ce_original_tokens = 10, ce_compressed_tokens = 10, ce_token_budget = 100,
      ce_trigger_threshold = 80, ce_summary_hash = ''s'', ce_summary_strategy = ''none'', ce_pruned_tool_outputs = 0,
      ce_protected_head_turns = 0, ce_protected_tail_turns = 0, ce_protected_tail_tokens = 0, ce_summary_budget_tokens = 0,
      ce_evidence_hash = ''c''\<rparr>"

definition demo_result :: unified_agent_result where
  "demo_result =
     \<lparr>ur_response = ''hello'', ur_was_compressed = False, ur_turns_compressed = 0, ur_compression_evidence = demo_compression,
      ur_memory_context_size = 0, ur_runtime_memory_evidence = None, ur_mcp_tools_loaded = 0, ur_execution_time_ms = 5, ur_ed25519_signature = JNull, ur_provenance_hash = ''prov''\<rparr>"

definition demo_handoff :: unified_wake_handoff where
  "demo_handoff =
     \<lparr>uh_received_event_id = Some (EventId ''evt-in''), uh_inherited_omni_route_event_id = Some (EventId ''evt-route''),
      uh_inherited_omni_route_authority_hash = Some ''auth'', uh_runtime_owner = ''wake'', uh_runtime_topology = [''kernel'']\<rparr>"

text \<open>The environment with decoders that know the one graph and the one proof of this turn.\<close>

definition demo_turn_env :: "(json \<Rightarrow> string + turn_proof) \<Rightarrow> (json \<Rightarrow> evidence_subgraph option) \<Rightarrow> unified_turn_env" where
  "demo_turn_env proof_from graph_from =
     \<lparr>ue_libs = \<lparr>pl_externals = turn_externals, pl_manifest_text = (\<lambda>_. ''manifest''), pl_proof_text = tp_proof_id,
        pl_layer_value = (\<lambda>_. JNull), pl_compression_value = (\<lambda>_. JNull), pl_cost_value = (\<lambda>_. JNull),
        pl_memory_value = (\<lambda>_. JNull), 
        pl_proof_fields = (\<lambda>p. [(''omni_route_authority_hash'', json_opt_str (tp_omni_route_authority_hash p))]),
        pl_proof_from_value = proof_from, pl_graph_from_value = graph_from\<rparr>,
      ue_pid = demo_pid, ue_keypair = ZaionKeypair ''key'', ue_workspace_id = ''main'', ue_project_id = ''zaion'',
      ue_identity_contract = ''contract'',
      ue_manifest = \<lparr>cm_provider = ''p'', cm_model = ''m'', cm_max_tokens = Some 4096, cm_temperature = None,
        cm_memory_enabled = False, cm_mcp_enabled = False, cm_cache_enabled = False, cm_smart_route_enabled = False,
        cm_compression_requested = False, cm_tools_requested = [], cm_boundaries = [''identity_contract_required'']\<rparr>,
      ue_new_uuid = ''u-2'', ue_sent_uuid = ''sent'', ue_answer_uuid = ''answer'', ue_proof_uuid = ''proof'', ue_now = ''now'',
      ue_transcript_hash = ''stream''\<rparr>"

definition demo_graph :: evidence_subgraph where
  "demo_graph = turn_graph (demo_turn_env (\<lambda>_. Inl []) (\<lambda>_. None)) demo_result demo_received demo_route"

definition demo_proof :: turn_proof where
  "demo_proof = turn_sealed_proof (demo_turn_env (\<lambda>_. Inl []) (\<lambda>_. None)) demo_result demo_received demo_route ''auth''"

abbreviation demo_turn :: unified_turn_env where
  "demo_turn \<equiv> demo_turn_env (\<lambda>_. Inr demo_proof) (\<lambda>_. Some demo_graph)"

lemma demo_turn_graph: "turn_graph demo_turn demo_result demo_received demo_route = demo_graph"
  by (simp add: demo_graph_def turn_graph_def unified_graph_def demo_turn_env_def)

lemma demo_turn_proof: "turn_sealed_proof demo_turn demo_result demo_received demo_route ''auth'' = demo_proof"
  by (simp add: demo_proof_def turn_sealed_proof_def unified_proof_def turn_graph_def unified_graph_def demo_turn_env_def
      build_turn_proof_def)

lemma demo_turn_decodes: "decodes_turn demo_turn demo_handoff demo_graph demo_proof"
  by (simp add: decodes_turn_def demo_turn_env_def)

lemma demo_turn_events [simp]:
  "ld_events demo_turn_ledger = [demo_turn_row ''evt-in'' ''channel.received'' demo_received_payload None 0,
     demo_turn_row ''evt-route'' ''omni.route'' demo_route_payload (Some ''evt-in'') 1]"
  by (simp add: demo_turn_ledger_def with_identity_def)

lemma demo_turn_rows_read:
  "get_event_from_connection turn_externals ''evt-in'' demo_turn_ledger = Inr (Some demo_received)"
  "get_event_from_connection turn_externals ''evt-route'' demo_turn_ledger = Inr (Some demo_route)"
  by (simp_all add: get_event_from_connection_def find_event_def demo_turn_row_def row_to_event_def
      turn_externals_def demo_externals_def demo_received_def demo_route_def demo_turn_event_def del: encode_json.simps)

lemma genesis_is_hash: "GENESIS_HASH = replicate 32 CHR ''0'' @ replicate 32 CHR ''0''"
  by (simp add: GENESIS_HASH_def flip: replicate_add)

lemma demo_ledger_opens: "ensure_schema turn_externals ''u-2'' demo_turn_ledger = Inr demo_turn_ledger"
proof -
  let ?base = "empty_ledger\<lparr>ld_events := ld_events demo_turn_ledger\<rparr>"
  have base: "no_identity_objects ?base" "demo_turn_ledger = with_identity turn_externals ''u-1'' ?base"
    by (simp_all add: no_identity_objects_def empty_ledger_def database_schema_object_sql_def schema_object_sql_def
        extra_identity_triggers_def demo_turn_ledger_def with_identity_def del: demo_turn_events)
  have "validated_database_instance_id turn_externals demo_turn_ledger = Inr ''u-1''"
    using with_identity_valid [OF base(1), of turn_externals "''u-1''"] base(2)
    by (simp add: stored_sql_law_def turn_externals_def demo_externals_def)
  then have "ensure_database_instance_identity turn_externals ''u-2'' demo_turn_ledger = Inr demo_turn_ledger"
    using with_identity_objects [OF base(1), of turn_externals "''u-1''"] base(2)
    by (simp add: ensure_database_instance_identity_def demo_turn_ledger_def del: demo_turn_events)
      (simp add: with_identity_def)
  moreover have "validate_chain_metadata turn_externals demo_turn_ledger = Inr ()"
    by (simp add: validate_chain_metadata_def demo_turn_row_def demo_pid_def genesis_is_hash
        row_hash_def event_hash_def sha256_hex_def turn_externals_def demo_externals_def checked_succ_i64_def i64_max_def
        del: encode_json.simps)
  moreover have "ld_chain_columns demo_turn_ledger" "ld_sequence_index demo_turn_ledger"
    by (simp_all add: demo_turn_ledger_def with_identity_def empty_ledger_def)
  ultimately show ?thesis
    by (simp add: ensure_schema_def Let_def migrate_or_validate_event_chain_def)
qed

lemma demo_ledger_inv: "ledger_inv turn_externals demo_turn_ledger"
  by (auto simp: ledger_inv_def chain_ok_def rows_of_principal_def demo_turn_row_def
      genesis_is_hash row_hash_def event_hash_def sha256_hex_def turn_externals_def demo_externals_def simp del: encode_json.simps)

lemma demo_handoff_recorded: "handoff_recorded demo_turn demo_handoff demo_turn_ledger demo_received demo_route ''auth''"
proof -
  have ids: "keypair_principal_id turn_externals (ZaionKeypair ''key'') = PrincipalId demo_pid"
    by (simp add: keypair_principal_id_def turn_externals_def demo_externals_def demo_pid_def)
  have "recorded demo_turn demo_turn_ledger demo_received" "recorded demo_turn demo_turn_ledger demo_route"
    using demo_turn_rows_read ids
    by (simp_all add: recorded_def demo_turn_env_def demo_received_def demo_route_def demo_turn_event_def verify_event_signature_def
        verify_signature_def keypair_public_key_bytes_def turn_externals_def demo_externals_def is_ok_def del: encode_json.simps)
  then show ?thesis
    by (simp add: handoff_recorded_def demo_handoff_def demo_received_def demo_route_def demo_turn_event_def payload_str_def
        demo_route_payload_def demo_turn_env_def)
qed

lemma demo_turn_env_simps [simp]:
  "pl_externals (ue_libs demo_turn) = turn_externals" "ue_new_uuid demo_turn = ''u-2''" "ue_sent_uuid demo_turn = ''sent''"
  "ue_answer_uuid demo_turn = ''answer''" "ue_proof_uuid demo_turn = ''proof''"
  by (simp_all add: demo_turn_env_def)

text \<open>The concrete turn has everything the theorem below asks for.\<close>

lemma demo_turn_ready:
  "record_laws (pl_externals (ue_libs demo_turn))"
  "ensure_schema (pl_externals (ue_libs demo_turn)) (ue_new_uuid demo_turn) demo_turn_ledger = Inr demo_turn_ledger"
  "read_database_instance_id (pl_externals (ue_libs demo_turn)) demo_turn_ledger = Inr ''u-1''"
  "ledger_inv (pl_externals (ue_libs demo_turn)) demo_turn_ledger"
  "int (length (ld_events demo_turn_ledger)) + 3 \<le> i64_max"
  "ue_pid demo_turn = principal_str (keypair_principal_id (pl_externals (ue_libs demo_turn)) (ue_keypair demo_turn))"
  "handoff_recorded demo_turn demo_handoff demo_turn_ledger demo_received demo_route ''auth''"
  "fresh_uuids demo_turn demo_turn_ledger"
  "decodes_turn demo_turn demo_handoff (turn_graph demo_turn demo_result demo_received demo_route)
     (turn_sealed_proof demo_turn demo_result demo_received demo_route ''auth'')"
proof -
  show "read_database_instance_id (pl_externals (ue_libs demo_turn)) demo_turn_ledger = Inr ''u-1''"
    by (simp add: read_database_instance_id_def demo_turn_ledger_def with_identity_def turn_externals_def demo_externals_def)
  show "ue_pid demo_turn = principal_str (keypair_principal_id (pl_externals (ue_libs demo_turn)) (ue_keypair demo_turn))"
    by (simp add: demo_turn_env_def keypair_principal_id_def turn_externals_def demo_externals_def demo_pid_def)
  show "fresh_uuids demo_turn demo_turn_ledger"
    by (simp add: fresh_uuids_def find_event_None demo_turn_row_def)
qed (simp_all add: turn_laws_hold demo_ledger_opens demo_ledger_inv demo_handoff_recorded demo_turn_decodes demo_turn_graph
    demo_turn_proof i64_max_def)

lemma demo_turn_closes:
  "\<exists>L db' c. opened turn_externals L db' \<and> verify_closure (turn_verifier demo_turn L db') ''evt-answer'' ''evt-proof'' None = Inr c"
  using wake_unified_closes [OF demo_turn_ready] by auto

subsection \<open>A recorded turn closes\<close>

text \<open>
  A unified wake on an initialised ledger, with fresh random ids and a handoff whose received and
  route events were recorded and signed for this process, always completes: it appends exactly the
  sent, answer and proof events, keeps every chain intact, and the verifier accepts what was written,
  so that the execution is completed with a closure that carries the sealed proof's hash and the hash
  of the evidence graph.
\<close>

theorem unified_turn_closes:
  assumes "record_laws (pl_externals (ue_libs E))"
    and "ensure_schema (pl_externals (ue_libs E)) (ue_new_uuid E) db = Inr db"
    and "read_database_instance_id (pl_externals (ue_libs E)) db = Inr i"
    and "ledger_inv (pl_externals (ue_libs E)) db" and "int (length (ld_events db)) + 3 \<le> i64_max"
    and "ue_pid E = principal_str (keypair_principal_id (pl_externals (ue_libs E)) (ue_keypair E))"
    and "handoff_recorded E handoff db received route h" and "fresh_uuids E db"
    and "decodes_turn E handoff (turn_graph E result received route) (turn_sealed_proof E result received route h)"
  shows "\<exists>out L db' rows. cmd_wake_unified E handoff result db = (Inr (completed_execution out
      \<lparr>pc_schema_version = 1, pc_answer_trace_event_id = ''evt-'' @ ue_answer_uuid E,
       pc_turn_proof_event_id = ''evt-'' @ ue_proof_uuid E,
       pc_proof_hash = tp_proof_hash (turn_sealed_proof E result received route h),
       pc_receipt_proof_join_event_id = None,
       pc_evidence_graph_hash = eg_graph_hash (turn_graph E result received route)\<rparr>), L, db') \<and>
    ledger_inv (pl_externals (ue_libs E)) db' \<and> ld_events db' = ld_events db @ rows \<and>
    map er_event_type rows = [''channel.sent'', ''answer.trace'', ''turn.proof'']"
  using wake_unified_closes [OF assms] by (elim exE conjE) (intro exI conjI; assumption)

theorem unified_turn_closes_witness:
  "\<exists>out c L db' rows. cmd_wake_unified demo_turn demo_handoff demo_result demo_turn_ledger =
     (Inr (completed_execution out c), L, db') \<and> pc_proof_hash c = tp_proof_hash demo_proof \<and>
     ld_events db' = ld_events demo_turn_ledger @ rows \<and> length rows = 3"
  using unified_turn_closes [OF demo_turn_ready] unfolding demo_turn_graph demo_turn_proof
  by (force simp: map_eq_Cons_conv)

subsection \<open>What a closure certifies\<close>

text \<open>
  C13. A closure is issued only for a signed lineage: when the verifier accepts a turn on an open ledger,
  there are a principal and a sealed proof with the closure's hash such that the proof event, the answer
  trace, the sent message, the route if one is named and the received message all exist with their
  types, carry signatures that verify under the verifier's key, belong to that principal and name each
  other as parents in this order; every receipt of the proof is such a signed event; a turn with
  receipts has a signed join whose parent is the proof; and the principal's hash chain is unbroken.
\<close>

theorem closure_is_signed_lineage:
  assumes "open_ledger V" and "verify_closure V a t j = Inr c"
  shows "\<exists>pr p. verify_turn_proof_hash (vr_libs V) p \<and> pc_proof_hash c = tp_proof_hash p \<and> tp_principal_id p = principal_str pr \<and>
    signed_path V pr (turn_path a t p) \<and>
    (\<forall>r \<in> set (tp_tool_receipt_ids p). signed_path V pr [(r, ''tool.receipt'')]) \<and>
    (tp_tool_receipt_ids p \<noteq> [] \<longrightarrow>
      (\<exists>k. j = Some k \<and> signed_path V pr [(k, ''tool.receipt.proof_join''), (t, ''turn.proof'')])) \<and>
    (\<exists>chain. verify_chain (pl_externals (vr_libs V)) (principal_str pr) (vr_database V) = Inr chain \<and> cv_broken_at chain = None)"
  using assms by (rule closure_path)

theorem closure_is_signed_lineage_witness:
  "\<exists>V pr p. signed_path V pr (turn_path ''evt-answer'' ''evt-proof'' p) \<and> verify_turn_proof_hash (vr_libs V) p"
proof -
  obtain L db c where turn: "opened turn_externals L db"
    "verify_closure (turn_verifier demo_turn L db) ''evt-answer'' ''evt-proof'' None = Inr c"
    using demo_turn_closes by blast
  then have "open_ledger (turn_verifier demo_turn L db)"
    using open_ledger_opened by (simp add: turn_verifier_def)
  from closure_is_signed_lineage [OF this turn(2)] show ?thesis
    by blast
qed

text \<open>
  The verifier takes signatures over the payload alone: such a signature stays good when the type, the
  parent, the namespace, the run or the principal of the event is changed, and the hash of the chain
  covers neither the parent nor the namespace.
\<close>

lemma payload_signature_covers_payload_only:
  assumes "le_signature ev = Some sg"
    and "verify_signature (pl_externals (vr_libs V)) (vr_public_key V) (x_json_print (pl_externals (vr_libs V)) (le_payload ev)) sg = Inr ()"
  shows "closure_signature V (ev\<lparr>le_principal_id := pr, le_namespace_key := ns, le_run_id := run, le_event_type := ty,
      le_parent_event_id := par\<rparr>) = Inr ()"
    and "row_hash x p (r\<lparr>er_parent_event_id := i, er_namespace_key := n, er_signature_hex := s\<rparr>) = row_hash x p r"
  using assms by (auto simp: closure_signature_def verify_event_signature_def row_hash_def)

subsection \<open>The evidence graph\<close>

lemma input_references_set:
  "set (input_references inp) =
     (\<lambda>i. (ContextPackNode, ''context-pack:'' @ i)) ` set_option (ae_context_pack_id inp) \<union>
     (\<lambda>i. (MemoryAtomNode, ''memory-atom:'' @ i)) ` set (ae_memory_atom_ids inp) \<union>
     (\<lambda>i. (ToolReceiptNode, ''tool-receipt:'' @ i)) ` set (ae_tool_receipt_ids inp) \<union>
     (\<lambda>i. (LedgerEventNode, ''ledger-event:'' @ i)) ` set (ae_source_ledger_event_ids inp)"
  by (auto simp: input_references_def split: option.splits)

text \<open>
  C40. The evidence graph of an answer is canonical and sealed: it depends only on the response, the
  context pack, the output event and the sets of memory atoms, receipts, source events and spans, not
  on the order or the repetition in which they were collected, and its hash verifies.
\<close>

theorem evidence_graph_canonical:
  assumes "set (ae_memory_atom_ids a) = set (ae_memory_atom_ids b)" and "set (ae_tool_receipt_ids a) = set (ae_tool_receipt_ids b)"
    and "set (ae_source_ledger_event_ids a) = set (ae_source_ledger_event_ids b)"
    and "set (ae_answer_trace_span_hashes a) = set (ae_answer_trace_span_hashes b)"
    and "ae_response_hash a = ae_response_hash b" and "ae_context_pack_id a = ae_context_pack_id b"
    and "ae_output_ledger_event_id a = ae_output_ledger_event_id b" and "hex_laws x" and "sha256_length x"
  shows "build_answer_evidence_subgraph x a = build_answer_evidence_subgraph x b \<and>
    verify_hash x (build_answer_evidence_subgraph x a)"
proof
  have "set (input_references a) = set (input_references b)"
    using assms by (simp add: input_references_set)
  then show "build_answer_evidence_subgraph x a = build_answer_evidence_subgraph x b"
    using assms unfolding build_answer_evidence_subgraph_def Let_def by (simp add: new_subgraph_canonical)
  show "verify_hash x (build_answer_evidence_subgraph x a)"
    using new_subgraph_verifies [OF assms(8,9)] by (simp add: build_answer_evidence_subgraph_def Let_def)
qed

theorem evidence_graph_canonical_witness:
  "let inp = \<lambda>atoms. \<lparr>ae_response_hash = ''r'', ae_context_pack_id = Some ''ctx'', ae_memory_atom_ids = atoms,
         ae_tool_receipt_ids = [''t''], ae_source_ledger_event_ids = [''in'', ''route''], ae_output_ledger_event_id = ''sent'',
         ae_answer_trace_span_hashes = []\<rparr>
   in build_answer_evidence_subgraph turn_externals (inp [''m2'', ''m1'', ''m2'']) =
        build_answer_evidence_subgraph turn_externals (inp [''m1'', ''m2'']) \<and>
      verify_hash turn_externals (build_answer_evidence_subgraph turn_externals (inp [''m2'', ''m1'', ''m2'']))"
  unfolding Let_def using turn_laws_hold by (intro evidence_graph_canonical) (auto simp: record_laws_def)

end
