(* ===== verification/Omni_Replay.thy ===== *)
theory Omni_Replay
  imports Omni_Session "HOL-Library.Multiset"
begin

text \<open>
  Sessions survive a restart: replaying the recorded routes rebuilds, for every principal, the session
  graph that the routing manager had, so that it goes on issuing the same authorities. The lemmas
  compare managers by the part of a session that the graph hash covers.
\<close>

subsection \<open>The graph of a session\<close>

lemma channel_type_str_plain: "trim (channel_type_str ct) = channel_type_str ct" "to_ascii_lowercase (channel_type_str ct) = channel_type_str ct"
proof -
  show "trim (channel_type_str ct) = channel_type_str ct"
    by (rule trim_graphic) (cases ct; simp add: byte_class_defs)
  show "to_ascii_lowercase (channel_type_str ct) = channel_type_str ct"
    by (cases ct) (simp_all add: to_ascii_lowercase_def byte_class_defs)
qed

lemma authority_value_str: "from_authority_value (channel_type_str ct) channel_id = ct"
  unfolding from_authority_value_def channel_type_str_plain Let_def by (cases ct) simp_all

lemma channel_type_str_inject: "channel_type_str a = channel_type_str b \<longleftrightarrow> a = b"
  using authority_value_str by metis

definition session_view ::
  "omni_session \<Rightarrow> principal_id \<times> string \<times> string option \<times> string list \<times> graph_message list \<times> graph_attachment list" where
  "session_view s =
     (os_principal_id s, os_session_id s, os_parent_session_id s, os_child_session_ids s,
      map graph_message_of (os_messages s), map graph_attachment_of (os_attachments s))"

lemma view_basis: "session_view s = session_view t \<Longrightarrow> graph_basis s = graph_basis t"
  by (simp add: session_view_def graph_basis_def)

lemma view_lengths:
  assumes "session_view s = session_view t"
  shows "length (os_messages s) = length (os_messages t)" "length (os_attachments s) = length (os_attachments t)"
  using assms unfolding session_view_def by (auto dest: map_eq_imp_length_eq)

definition attached :: "channel_type \<Rightarrow> string \<Rightarrow> omni_session \<Rightarrow> bool" where
  "attached ct ch s \<longleftrightarrow> \<lparr>ga_channel_type = channel_type_str ct, ga_channel_id = ch\<rparr> \<in> graph_attachment_of ` set (os_attachments s)"

lemma attached_iff: "attached ct ch s \<longleftrightarrow> list_ex (\<lambda>a. at_channel_type a = ct \<and> at_channel_id a = ch) (os_attachments s)"
  by (auto simp: attached_def list_ex_iff graph_attachment_of_def channel_type_str_inject image_iff)

lemma view_attached: "session_view s = session_view t \<Longrightarrow> attached ct ch s = attached ct ch t"
  unfolding attached_def session_view_def by (metis list.set_map prod.inject)

definition message_ids :: "omni_session \<Rightarrow> string set" where
  "message_ids s = um_message_id ` set (os_messages s)"

lemma message_ids_list_ex: "\<not> list_ex (\<lambda>m. um_message_id m = i) (os_messages s) \<longleftrightarrow> i \<notin> message_ids s"
  by (auto simp: message_ids_def list_ex_iff)

lemma message_ids_view: "message_ids s = gm_message_id ` set (map graph_message_of (os_messages s))"
  by (auto simp: message_ids_def graph_message_of_def image_image)

lemma attach_view:
  assumes "session_view s = session_view t"
  shows "session_view (attach_channel (new_attachment n ct ch) s) = session_view (attach_channel (new_attachment n' ct ch) t)"
  using assms view_attached [OF assms, of ct ch]
  by (simp add: attach_channel_def new_attachment_def flip: attached_iff)
    (simp add: session_view_def graph_attachment_of_def)

text \<open>What one routed message adds to the view, in the routing and in the replaying manager.\<close>

lemma add_view:
  assumes "session_view s = session_view t"
  shows "session_view (add_message n (routed_message ct ch i c ts) s) = session_view (add_message n' (routed_message ct ch i c' ts') t)"
  using assms by (simp add: session_view_def add_message_def routed_message_def graph_message_of_def)

lemma attach_simps [simp]:
  "os_messages (attach_channel a s) = os_messages s" "os_session_id (attach_channel a s) = os_session_id s"
  "os_principal_id (attach_channel a s) = os_principal_id s"
  by (simp_all add: attach_channel_def)

lemma with_session_get:
  "get_session p (with_session n u q change M) =
     (if p = q then Some (change (case get_session q M of Some s \<Rightarrow> s | None \<Rightarrow> new_session n u q (om_default_max_tokens M)))
      else get_session p M)"
  by (simp add: with_session_def get_session_def Let_def update_conv')

lemma map_channel_simps [simp]:
  "get_session p (map_channel ct ch q M) = get_session p M" "om_default_max_tokens (map_channel ct ch q M) = om_default_max_tokens M"
  by (simp_all add: map_channel_def get_session_def)

subsection \<open>Managers with the same graphs\<close>

definition same_graph :: "omni_session_manager \<Rightarrow> omni_session_manager \<Rightarrow> bool" where
  "same_graph M M' =
     ((\<forall>p. map_option session_view (get_session p M) = map_option session_view (get_session p M')) \<and>
      om_channel_map M = om_channel_map M')"

text \<open>The session a route works on, and the session it leaves.\<close>

definition routed_session :: "omni_libs \<Rightarrow> int \<Rightarrow> string \<Rightarrow> canonical_envelope \<Rightarrow> omni_session_manager \<Rightarrow> omni_session" where
  "routed_session L now uuid e M =
     (let ct = from_ingress (env_source e) (channel_str (env_channel e)); ch = channel_str (env_channel e)
      in add_message now (routed_message ct ch (env_message_id e) (env_body e) (parse_event_time L now (env_received_at e)))
           (attach_channel (new_attachment now ct ch)
             (case get_session (env_principal e) M of
                Some s \<Rightarrow> s
              | None \<Rightarrow> new_session now uuid (env_principal e) (om_default_max_tokens M))))"

lemma route_envelope_result:
  "\<exists>M'. route_envelope L now uuid e M =
     (Inr (route_authority L e (from_ingress (env_source e) (channel_str (env_channel e))) (routed_session L now uuid e M)), M') \<and>
     (\<forall>p. get_session p M' = (if p = env_principal e then Some (routed_session L now uuid e M) else get_session p M)) \<and>
     om_channel_map M' = AList.update (new_channel_key (from_ingress (env_source e) (channel_str (env_channel e)))
       (channel_str (env_channel e))) (env_principal e) (om_channel_map M)"
  by (simp add: route_envelope_def route_message_def Let_def with_session_get routed_session_def cong: option.case_cong)
    (simp add: with_session_def map_channel_def Let_def)

lemma new_session_view [simp]: "session_view (new_session n u p m) = (p, u, None, [], [], [])"
  by (simp add: session_view_def new_session_def)

lemma routed_session_view:
  assumes "same_graph M M'"
  shows "session_view (routed_session L n u e M) = session_view (routed_session L n' u e M')"
proof -
  have "map_option session_view (get_session (env_principal e) M) = map_option session_view (get_session (env_principal e) M')"
    using assms by (simp add: same_graph_def)
  then show ?thesis
    by (cases "get_session (env_principal e) M"; cases "get_session (env_principal e) M'")
      (auto simp: routed_session_def Let_def intro!: add_view attach_view)
qed

lemma authority_view:
  assumes "session_view s = session_view t"
  shows "route_authority L e ct s = route_authority L e ct t"
  using assms view_basis [OF assms] view_lengths [OF assms] view_attached [OF assms, of ct "channel_str (env_channel e)"]
  by (simp add: route_authority_def session_graph_hash_def flip: attached_iff) (simp add: session_view_def)

lemma same_graph_routes:
  assumes "same_graph M M'"
  shows "fst (route_envelope L n u e M) = fst (route_envelope L n' u e M')"
    "same_graph (snd (route_envelope L n u e M)) (snd (route_envelope L n' u e M'))"
proof -
  obtain M1 where r1: "route_envelope L n u e M =
      (Inr (route_authority L e (from_ingress (env_source e) (channel_str (env_channel e))) (routed_session L n u e M)), M1)"
    "\<And>p. get_session p M1 = (if p = env_principal e then Some (routed_session L n u e M) else get_session p M)"
    "om_channel_map M1 = AList.update (new_channel_key (from_ingress (env_source e) (channel_str (env_channel e)))
       (channel_str (env_channel e))) (env_principal e) (om_channel_map M)"
    using route_envelope_result by blast
  obtain M2 where r2: "route_envelope L n' u e M' =
      (Inr (route_authority L e (from_ingress (env_source e) (channel_str (env_channel e))) (routed_session L n' u e M')), M2)"
    "\<And>p. get_session p M2 = (if p = env_principal e then Some (routed_session L n' u e M') else get_session p M')"
    "om_channel_map M2 = AList.update (new_channel_key (from_ingress (env_source e) (channel_str (env_channel e)))
       (channel_str (env_channel e))) (env_principal e) (om_channel_map M')"
    using route_envelope_result by blast
  show "fst (route_envelope L n u e M) = fst (route_envelope L n' u e M')"
    using authority_view [OF routed_session_view [OF assms]] by (simp add: r1(1) r2(1))
  show "same_graph (snd (route_envelope L n u e M)) (snd (route_envelope L n' u e M'))"
    using assms routed_session_view [OF assms] by (simp add: same_graph_def r1 r2)
qed

subsection \<open>Replaying one route\<close>

text \<open>Hexadecimal digests have visible characters.\<close>

definition visible_digests :: "externals \<Rightarrow> bool" where
  "visible_digests x = (\<forall>b. trim (sha256_hex x b) \<noteq> [])"

text \<open>The event that a wake appends for a route.\<close>

definition route_recorded :: "omni_libs \<Rightarrow> runtime_error + omni_route_authority \<Rightarrow> ledger_event \<Rightarrow> bool" where
  "route_recorded L r ev =
     (\<exists>a par. r = Inr a \<and> le_event_type ev = ''omni.route'' \<and> le_signature ev \<noteq> None \<and> le_payload ev = to_ledger_payload L a par)"

definition named_sessions :: "omni_session_manager \<Rightarrow> bool" where
  "named_sessions M = (\<forall>p s. get_session p M = Some s \<longrightarrow> trim (os_session_id s) \<noteq> [])"

lemma payload_fields:
  "payload_field (to_ledger_payload L a par) ''principal_id'' = Some (oa_principal_id a)"
  "payload_field (to_ledger_payload L a par) ''omni_session_id'' = Some (oa_omni_session_id a)"
  "payload_field (to_ledger_payload L a par) ''channel_id'' = Some (oa_channel_id a)"
  "payload_field (to_ledger_payload L a par) ''thread_id'' = Some (oa_thread_id a)"
  "payload_field (to_ledger_payload L a par) ''message_id'' = Some (oa_message_id a)"
  "payload_field (to_ledger_payload L a par) ''source_hash'' = Some (oa_source_hash a)"
  "payload_field (to_ledger_payload L a par) ''authority_hash'' = Some (authority_hash L a)"
  "payload_field (to_ledger_payload L a par) ''channel_type'' = Some (oa_channel_type a)"
  by (simp_all add: payload_field_def to_ledger_payload_def)

text \<open>The session that a replayed event leaves.\<close>

definition replayed_session ::
  "omni_libs \<Rightarrow> int \<Rightarrow> string \<Rightarrow> ledger_event \<Rightarrow> canonical_envelope \<Rightarrow> string \<Rightarrow> omni_session_manager \<Rightarrow> omni_session" where
  "replayed_session L now uuid ev e i M =
     (let ct = from_ingress (env_source e) (channel_str (env_channel e)); ch = channel_str (env_channel e)
      in replay_message L now ev ct ch (env_message_id e) (env_source_hash e)
           (attach_channel (new_attachment now ct ch)
             ((case get_session (env_principal e) M of
                Some s \<Rightarrow> s
              | None \<Rightarrow> new_session now uuid (env_principal e) (om_default_max_tokens M))
              \<lparr>os_session_id := i, os_last_active_at := parse_event_time L now (le_created_at ev)\<rparr>)))"

lemma replay_event_result:
  assumes "le_payload ev = to_ledger_payload L (route_authority L e (from_ingress (env_source e) (channel_str (env_channel e))) s) par"
    and "ingest (ol_externals L) e = Inr e" and "trim (os_session_id s) \<noteq> []" and "visible_digests (ol_externals L)"
  shows "\<exists>M1. replay_event L now uuid ev M =
      Inr (\<lparr>rc_principal = principal_str (env_principal e), rc_omni_session_id = os_session_id s,
        rc_event_id = Some (event_id_str (le_event_id ev)),
        rc_authority_hash = Some (authority_hash L
          (route_authority L e (from_ingress (env_source e) (channel_str (env_channel e))) s))\<rparr>, M1) \<and>
    (\<forall>p. get_session p M1 = (if p = env_principal e then Some (replayed_session L now uuid ev e (os_session_id s) M) else get_session p M)) \<and>
    om_channel_map M1 = AList.update (new_channel_key (from_ingress (env_source e) (channel_str (env_channel e)))
       (channel_str (env_channel e))) (env_principal e) (om_channel_map M)"
proof -
  let ?a = "route_authority L e (from_ingress (env_source e) (channel_str (env_channel e))) s"
  have parts: "trim (principal_str (env_principal e)) \<noteq> []" "trim (channel_str (env_channel e)) \<noteq> []"
    "trim (thread_str (env_thread e)) \<noteq> []" "trim (env_message_id e) \<noteq> []" "trim (env_source_hash e) \<noteq> []"
    using assms(2) by (auto simp: ingest_ok validate_envelope_ok envelope_parts_def)
  have fields: "oa_principal_id ?a = principal_str (env_principal e)" "oa_omni_session_id ?a = os_session_id s"
    "oa_channel_id ?a = channel_str (env_channel e)" "oa_thread_id ?a = thread_str (env_thread e)"
    "oa_message_id ?a = env_message_id e" "oa_source_hash ?a = env_source_hash e"
    "oa_channel_type ?a = channel_type_str (from_ingress (env_source e) (channel_str (env_channel e)))"
    by (simp_all add: route_authority_def)
  have "trim (authority_hash L ?a) \<noteq> []"
    using assms(4) by (simp add: authority_hash_def visible_digests_def)
  have reads: "required_payload_str (le_payload ev) ''principal_id'' = Inr (principal_str (env_principal e))"
    "required_payload_str (le_payload ev) ''omni_session_id'' = Inr (os_session_id s)"
    "required_payload_str (le_payload ev) ''channel_id'' = Inr (channel_str (env_channel e))"
    "required_payload_str (le_payload ev) ''thread_id'' = Inr (thread_str (env_thread e))"
    "required_payload_str (le_payload ev) ''message_id'' = Inr (env_message_id e)"
    "required_payload_str (le_payload ev) ''source_hash'' = Inr (env_source_hash e)"
    "required_payload_str (le_payload ev) ''authority_hash'' = Inr (authority_hash L ?a)"
    "payload_field (le_payload ev) ''channel_type'' =
       Some (channel_type_str (from_ingress (env_source e) (channel_str (env_channel e))))"
    unfolding assms(1) using parts assms(3) \<open>trim (authority_hash L ?a) \<noteq> []\<close>
    by (simp_all add: required_payload_str_def payload_fields fields)
  show ?thesis
    unfolding replay_event_def Let_def reads and_then_simps
    by (simp add: authority_value_str with_session_get replayed_session_def Let_def)
      (simp add: with_session_def map_channel_def Let_def)
qed

lemma rename_view:
  "session_view (s\<lparr>os_session_id := i, os_last_active_at := t\<rparr>) =
     (os_principal_id s, i, os_parent_session_id s, os_child_session_ids s, map graph_message_of (os_messages s),
      map graph_attachment_of (os_attachments s))"
  by (simp add: session_view_def)

lemma routed_session_id:
  "os_session_id (routed_session L n u e M) = (case get_session (env_principal e) M of Some s \<Rightarrow> os_session_id s | None \<Rightarrow> u)"
  by (simp add: routed_session_def Let_def add_message_def new_session_def split: option.split)

lemma replayed_session_view:
  assumes same: "same_graph M M'"
    and new: "\<And>s. get_session (env_principal e) M = Some s \<Longrightarrow> env_message_id e \<notin> message_ids s"
  shows "session_view (replayed_session L n' u' ev e (os_session_id (routed_session L n u e M)) M') =
    session_view (routed_session L n u e M)"
proof -
  let ?ct = "from_ingress (env_source e) (channel_str (env_channel e))" and ?ch = "channel_str (env_channel e)"
  let ?live = "case get_session (env_principal e) M of Some s \<Rightarrow> s | None \<Rightarrow> new_session n u (env_principal e) (om_default_max_tokens M)"
  let ?base = "(case get_session (env_principal e) M' of Some s \<Rightarrow> s | None \<Rightarrow> new_session n' u' (env_principal e) (om_default_max_tokens M'))
    \<lparr>os_session_id := os_session_id (routed_session L n u e M), os_last_active_at := parse_event_time L n' (le_created_at ev)\<rparr>"
  have views: "map_option session_view (get_session (env_principal e) M) = map_option session_view (get_session (env_principal e) M')"
    using same by (simp add: same_graph_def)
  have base: "session_view ?base = session_view ?live"
    using views unfolding rename_view routed_session_id
    by (cases "get_session (env_principal e) M"; cases "get_session (env_principal e) M'")
      (auto simp: session_view_def new_session_def)
  then have ids: "message_ids ?base = message_ids ?live"
    unfolding message_ids_view session_view_def by simp
  have fresh: "env_message_id e \<notin> message_ids ?live"
    using new by (auto simp: message_ids_def new_session_def split: option.splits)
  have "session_view (attach_channel (new_attachment n' ?ct ?ch) ?base) = session_view (attach_channel (new_attachment n ?ct ?ch) ?live)"
    by (rule attach_view [OF base])
  moreover have "\<not> list_ex (\<lambda>m. um_message_id m = env_message_id e) (os_messages (attach_channel (new_attachment n' ?ct ?ch) ?base))"
    unfolding attach_simps message_ids_list_ex ids by (rule fresh)
  ultimately show ?thesis
    unfolding replayed_session_def routed_session_def Let_def replay_message_def by (simp add: add_view)
qed

lemma replay_follows_route:
  assumes route: "route_envelope L n u e M = (r, M1)" and rec: "route_recorded L r ev" and same: "same_graph M M'"
    and valid: "ingest (ol_externals L) e = Inr e" "trim u \<noteq> []" "named_sessions M" "visible_digests (ol_externals L)"
    and new: "\<And>s. get_session (env_principal e) M = Some s \<Longrightarrow> env_message_id e \<notin> message_ids s"
  shows "\<exists>cursor M1'. replay_event L n' u' ev M' = Inr (cursor, M1') \<and> same_graph M1 M1' \<and> named_sessions M1 \<and>
    rc_principal cursor = principal_str (env_principal e) \<and>
    (\<forall>s. get_session (env_principal e) M1 = Some s \<longrightarrow> rc_omni_session_id cursor = os_session_id s) \<and>
    rc_event_id cursor = Some (event_id_str (le_event_id ev)) \<and>
    (\<forall>a. r = Inr a \<longrightarrow> rc_authority_hash cursor = Some (authority_hash L a))"
proof -
  let ?s = "routed_session L n u e M" and ?ct = "from_ingress (env_source e) (channel_str (env_channel e))"
  obtain M2 where r: "route_envelope L n u e M = (Inr (route_authority L e ?ct ?s), M2)"
    "\<And>p. get_session p M2 = (if p = env_principal e then Some ?s else get_session p M)"
    "om_channel_map M2 = AList.update (new_channel_key ?ct (channel_str (env_channel e))) (env_principal e) (om_channel_map M)"
    using route_envelope_result by blast
  have named: "trim (os_session_id ?s) \<noteq> []"
    using valid(2,3) by (auto simp: routed_session_id named_sessions_def split: option.split)
  obtain par where "le_payload ev = to_ledger_payload L (route_authority L e ?ct ?s) par"
    using rec route r(1) by (auto simp: route_recorded_def)
  from replay_event_result [OF this valid(1) named valid(4), of n' u' M'] obtain M1' where r':
    "replay_event L n' u' ev M' = Inr (\<lparr>rc_principal = principal_str (env_principal e), rc_omni_session_id = os_session_id ?s,
      rc_event_id = Some (event_id_str (le_event_id ev)), rc_authority_hash = Some (authority_hash L (route_authority L e ?ct ?s))\<rparr>, M1')"
    "\<And>p. get_session p M1' = (if p = env_principal e then Some (replayed_session L n' u' ev e (os_session_id ?s) M') else get_session p M')"
    "om_channel_map M1' = AList.update (new_channel_key ?ct (channel_str (env_channel e))) (env_principal e) (om_channel_map M')"
    by blast
  have "same_graph M1 M1'"
    using same replayed_session_view [OF same new] route r by (simp add: same_graph_def r'(2,3))
  moreover have "named_sessions M1"
    using valid(3) named route r by (auto simp: named_sessions_def split: if_splits)
  ultimately show ?thesis
    using r'(1) route r by auto
qed

subsection \<open>Replaying a history\<close>

text \<open>Routing a sequence of envelopes, each with the clock and a fresh id, with the results in order.\<close>

fun route_all ::
  "omni_libs \<Rightarrow> (int \<times> string \<times> canonical_envelope) list \<Rightarrow> omni_session_manager \<Rightarrow>
     (runtime_error + omni_route_authority) list \<times> omni_session_manager" where
  "route_all L [] M = ([], M)"
| "route_all L ((now, uuid, e) # steps) M =
     (case route_envelope L now uuid e M of
        (r, M') \<Rightarrow> (case route_all L steps M' of (rs, M'') \<Rightarrow> (r # rs, M'')))"

definition step_key :: "int \<times> string \<times> canonical_envelope \<Rightarrow> principal_id \<times> string" where
  "step_key step = (case step of (_, _, e) \<Rightarrow> (env_principal e, env_message_id e))"

definition valid_step :: "externals \<Rightarrow> int \<times> string \<times> canonical_envelope \<Rightarrow> bool" where
  "valid_step x step = (case step of (_, u, e) \<Rightarrow> ingest x e = Inr e \<and> trim u \<noteq> [])"

definition known_ids :: "omni_session_manager \<Rightarrow> (principal_id \<times> string) set" where
  "known_ids M = {(p, i). \<exists>s. get_session p M = Some s \<and> i \<in> message_ids s}"

lemma route_known_ids:
  assumes "route_envelope L n u e M = (r, M1)"
  shows "known_ids M1 = insert (env_principal e, env_message_id e) (known_ids M)"
proof -
  have "message_ids (routed_session L n u e M) = insert (env_message_id e)
      (case get_session (env_principal e) M of Some s \<Rightarrow> message_ids s | None \<Rightarrow> {})"
    by (auto simp: routed_session_def Let_def add_message_def message_ids_def routed_message_def new_session_def split: option.splits)
  then show ?thesis
    using route_envelope_result [of L n u e M] assms by (auto simp: known_ids_def split: if_splits option.splits)
qed

lemma replay_follows_run:
  assumes "route_all L steps M = (rs, M1)" and "list_all2 (route_recorded L) rs evs" and "same_graph M M'"
    and "list_all (valid_step (ol_externals L)) steps" and "named_sessions M" and "visible_digests (ol_externals L)"
    and "distinct (map step_key steps)" and "step_key ` set steps \<inter> known_ids M = {}"
  shows "\<exists>cursor' M1'. replay_loop L n' u' evs cursor M' = (Inr cursor', M1') \<and> same_graph M1 M1' \<and>
    (steps \<noteq> [] \<longrightarrow> (\<exists>a s. last rs = Inr a \<and> get_session (PrincipalId (rc_principal cursor')) M1 = Some s \<and>
      oa_session_graph_hash a = session_graph_hash L s \<and> oa_message_count a = length (os_messages s) \<and>
      oa_attachment_count a = length (os_attachments s) \<and> oa_principal_id a = rc_principal cursor' \<and>
      rc_omni_session_id cursor' = oa_omni_session_id a \<and> rc_authority_hash cursor' = Some (authority_hash L a)))"
  using assms
proof (induction steps arbitrary: M M' rs evs cursor)
  case (Cons step steps)
  obtain now uuid e where step: "step = (now, uuid, e)"
    by (cases step)
  have step_key: "step_key (now, uuid, e) = (env_principal e, env_message_id e)"
    by (simp add: step_key_def)
  obtain r M2 rs' where r: "route_envelope L now uuid e M = (r, M2)" "route_all L steps M2 = (rs', M1)" "rs = r # rs'"
    using Cons.prems(1) by (auto simp: step split: prod.splits)
  obtain ev evs' where ev: "evs = ev # evs'" "route_recorded L r ev" "list_all2 (route_recorded L) rs' evs'"
    using Cons.prems(2) r(3) by (auto simp: list_all2_Cons1)
  have valid: "ingest (ol_externals L) e = Inr e" "trim uuid \<noteq> []" and rest: "list_all (valid_step (ol_externals L)) steps"
    using Cons.prems(4) unfolding list.pred_inject step by (auto simp only: valid_step_def prod.case)
  have new: "env_message_id e \<notin> message_ids s" if "get_session (env_principal e) M = Some s" for s
    using Cons.prems(8) that by (auto simp: step step_key_def known_ids_def)
  obtain c M2' where c: "replay_event L n' u' ev M' = Inr (c, M2')" "same_graph M2 M2'" "named_sessions M2"
    "rc_principal c = principal_str (env_principal e)"
    "\<And>s. get_session (env_principal e) M2 = Some s \<Longrightarrow> rc_omni_session_id c = os_session_id s"
    "\<And>a. r = Inr a \<Longrightarrow> rc_authority_hash c = Some (authority_hash L a)"
    using replay_follows_route [OF r(1) ev(2) Cons.prems(3) valid Cons.prems(5,6) new] by blast
  have fresh: "step_key ` set steps \<inter> known_ids M2 = {}" "distinct (map step_key steps)"
    using Cons.prems(7,8) unfolding route_known_ids [OF r(1)] step_key [symmetric] step by auto
  obtain c' M1' where run: "replay_loop L n' u' evs' c M2' = (Inr c', M1')" "same_graph M1 M1'"
    "steps \<noteq> [] \<Longrightarrow> \<exists>a s. last rs' = Inr a \<and> get_session (PrincipalId (rc_principal c')) M1 = Some s \<and>
      oa_session_graph_hash a = session_graph_hash L s \<and> oa_message_count a = length (os_messages s) \<and>
      oa_attachment_count a = length (os_attachments s) \<and> oa_principal_id a = rc_principal c' \<and>
      rc_omni_session_id c' = oa_omni_session_id a \<and> rc_authority_hash c' = Some (authority_hash L a)"
    using Cons.IH [OF r(2) ev(3) c(2) rest c(3) Cons.prems(6) fresh(2,1), of c] by blast
  show ?case
  proof (cases "steps = []")
    case True
    then have "rs' = []" "evs' = []" "M1 = M2" "c' = c"
      using r(2) ev(3) run(1) by auto
    moreover obtain s where "get_session (env_principal e) M2 = Some s"
      "r = Inr (route_authority L e (from_ingress (env_source e) (channel_str (env_channel e))) s)"
      using route_envelope_result [of L now uuid e M] r(1) by auto
    ultimately show ?thesis
      using run c r(3) ev(1) by (auto simp: route_authority_def)
  next
    case False
    then have "rs' \<noteq> []"
      using r(2) by (cases steps) (auto split: prod.splits)
    then show ?thesis
      using run False c(1) r(3) ev(1) by simp
  qed
qed (auto split: prod.splits)


subsection \<open>A concrete history\<close>

definition demo_omni :: omni_libs where
  "demo_omni =
     \<lparr>ol_externals = demo_externals\<lparr>x_sha256 := (\<lambda>_. replicate 32 CHR ''0'')\<rparr>, ol_parse_rfc3339 = (\<lambda>_. Some 0),
      ol_authority_text = oa_message_id, ol_graph_text = gb_active_omni_session_id\<rparr>"

definition demo_envelope :: "string \<Rightarrow> string \<Rightarrow> string \<Rightarrow> canonical_envelope" where
  "demo_envelope source channel message =
     \<lparr>env_schema_version = 1, env_source = source, env_principal = PrincipalId ''agent-1'', env_channel = ChannelId channel,
      env_thread = ThreadId ''t-1'', env_message_id = message, env_source_hash = replicate 64 CHR ''0'', env_body = ''hello'',
      env_received_at = ''now'', env_signature = None, env_metadata = []\<rparr>"

definition demo_steps :: "(int \<times> string \<times> canonical_envelope) list" where
  "demo_steps = [(1, ''s-1'', demo_envelope ''telegram'' ''chat-7'' ''m1''), (2, ''s-2'', demo_envelope ''slack'' ''general'' ''m2'')]"

definition demo_route_event :: "string \<Rightarrow> omni_route_authority \<Rightarrow> ledger_event" where
  "demo_route_event at a =
     \<lparr>le_event_id = EventId at, le_principal_id = PrincipalId ''agent-1'', le_namespace_key = NamespaceKey ''agent-1'',
      le_run_id = None, le_event_type = ''omni.route'', le_payload = to_ledger_payload demo_omni a ''in'',
      le_signature = Some (SignatureBytes []), le_created_at = at, le_parent_event_id = None\<rparr>"

lemma demo_digest: "sha256_hex (ol_externals demo_omni) b = replicate 64 CHR ''0''"
  by (simp add: sha256_hex_def demo_omni_def demo_externals_def flip: replicate_add)

lemma demo_text_graphic:
  "trim s = s" if "s \<in> {''telegram'', ''slack'', ''agent-1'', ''chat-7'', ''general'', ''t-1'', ''m1'', ''m2'', ''hello'', ''s-1'', ''s-2'', replicate 64 CHR ''0''}"
  by (rule trim_graphic) (use that in \<open>auto simp: byte_class_defs list_all_iff\<close>)

lemma demo_steps_valid: "list_all (valid_step (ol_externals demo_omni)) demo_steps" "visible_digests (ol_externals demo_omni)"
proof -
  have "\<not> is_unsafe_principal ''agent-1''"
    by (simp add: is_unsafe_principal_def demo_text_graphic to_ascii_lowercase_def byte_class_defs)
  moreover have "is_sha256_hex (replicate 64 CHR ''0'')"
    by (simp add: is_sha256_hex_def is_ascii_hexdigit_def byte_class_defs to_ascii_lowercase_def list_all_iff)
  ultimately show "list_all (valid_step (ol_externals demo_omni)) demo_steps"
    by (simp add: demo_steps_def valid_step_def ingest_ok validate_envelope_ok envelope_parts_def demo_envelope_def
        own_source_hash_framed demo_digest demo_text_graphic)
  show "visible_digests (ol_externals demo_omni)"
    by (simp add: visible_digests_def demo_digest demo_text_graphic)
qed


end
