(* ===== verification/Omni_Properties.thy ===== *)
theory Omni_Properties
  imports Omni_Replay
begin

text \<open>
  The other promises of sessions and envelopes: what the context pyramid keeps of a session under its
  budget, what a split archives and inherits, what routing does to the channel map, and what the source
  hash of an ingested envelope binds; and two facts about the limits of a replay.
\<close>

subsection \<open>The context pyramid\<close>

lemma layer_priority_inject: "layer_priority a = layer_priority b \<longleftrightarrow> a = b"
  by (cases a; cases b) simp_all

lemma layer_priority_less: "layer_priority l < 5"
  by (cases l) simp_all

definition entry_tokens :: "unified_message \<Rightarrow> nat" where
  "entry_tokens m = length (pyramid_entry m) div 4"

text \<open>The pyramid that holds exactly the given messages.\<close>

definition pyramid_of :: "nat \<Rightarrow> unified_message list \<Rightarrow> context_pyramid \<Rightarrow> bool" where
  "pyramid_of budget msgs p \<longleftrightarrow>
     py_token_budget p = budget \<and> length (py_layers p) = 5 \<and> py_tokens_used p = sum_list (map entry_tokens msgs) \<and>
     py_tokens_used p \<le> budget \<and>
     (\<forall>l. py_layers p ! layer_priority l = map pyramid_entry (filter (\<lambda>m. um_layer m = l) msgs))"

lemma pyramid_loop_prefix:
  assumes "pyramid_of budget seen p"
  shows "\<exists>k \<le> length msgs. pyramid_of budget (seen @ take k msgs) (pyramid_loop msgs p) \<and>
    (k < length msgs \<longrightarrow> py_tokens_used (pyramid_loop msgs p) + entry_tokens (msgs ! k) > budget)"
  using assms
proof (induction msgs arbitrary: p seen)
  case Nil
  then show ?case
    by simp
next
  case (Cons m msgs)
  show ?case
  proof (cases "py_tokens_used p + entry_tokens m > budget")
    case True
    then have "pyramid_loop (m # msgs) p = p"
      using Cons.prems by (simp add: add_to_layer_def Let_def pyramid_of_def entry_tokens_def)
    then show ?thesis
      using True Cons.prems by (intro exI [of _ 0]) simp
  next
    case False
    let ?q = "p\<lparr>py_tokens_used := py_tokens_used p + entry_tokens m,
      py_layers := (py_layers p)[layer_priority (um_layer m) := py_layers p ! layer_priority (um_layer m) @ [pyramid_entry m]]\<rparr>"
    have loop: "pyramid_loop (m # msgs) p = pyramid_loop msgs ?q"
      using False Cons.prems by (simp add: add_to_layer_def Let_def pyramid_of_def entry_tokens_def)
    have "pyramid_of budget (seen @ [m]) ?q"
      using Cons.prems False layer_priority_less
      by (auto simp: pyramid_of_def nth_list_update layer_priority_inject)
    then obtain k where k: "k \<le> length msgs" "pyramid_of budget ((seen @ [m]) @ take k msgs) (pyramid_loop msgs ?q)"
      "k < length msgs \<longrightarrow> py_tokens_used (pyramid_loop msgs ?q) + entry_tokens (msgs ! k) > budget"
      using Cons.IH by blast
    show ?thesis
      unfolding loop using k by (intro exI [of _ "Suc k"]) simp
  qed
qed

text \<open>
  The pyramid is a budgeted prefix: built from a session, it holds exactly the longest prefix of
  the session's messages in their order of arrival whose estimated tokens fit, each in the layer of the
  message, its count of used tokens is exact and within the budget, and building stops at the first
  message that does not fit, whatever the layers of the messages after it.
\<close>

theorem pyramid_is_prefix:
  "\<exists>k \<le> length (os_messages s).
     (\<forall>l. py_layers (build_from_session s budget) ! layer_priority l =
        map pyramid_entry (filter (\<lambda>m. um_layer m = l) (take k (os_messages s)))) \<and>
     py_tokens_used (build_from_session s budget) = sum_list (map entry_tokens (take k (os_messages s))) \<and>
     py_tokens_used (build_from_session s budget) \<le> budget \<and>
     (k = length (os_messages s) \<or>
        budget < py_tokens_used (build_from_session s budget) + entry_tokens (os_messages s ! k))"
proof -
  have "pyramid_of budget [] (new_pyramid budget)"
    by (auto simp: pyramid_of_def new_pyramid_def layer_priority_less)
  from pyramid_loop_prefix [OF this, of "os_messages s"] show ?thesis
    by (auto simp: pyramid_of_def build_from_session_def)
qed

text \<open>A critical message can be left out although an archived one is kept.\<close>

definition layered_message :: "string \<Rightarrow> context_layer \<Rightarrow> unified_message" where
  "layered_message content layer =
     \<lparr>um_message_id = content, um_source_channel = ChCli, um_source_channel_id = ''cli'', um_role = ''user'',
      um_content = content, um_signature = None, um_timestamp = 0, um_importance = 0, um_layer = layer\<rparr>"

lemma critical_message_left_out:
  "let s = (new_session 0 ''s'' (PrincipalId ''p'') 100)
         \<lparr>os_messages := [layered_message ''small talk'' L4Archive, layered_message ''rule'' L0Critical]\<rparr>
   in py_layers (build_from_session s 6) ! layer_priority L0Critical = [] \<and>
      py_layers (build_from_session s 6) ! layer_priority L4Archive \<noteq> []"
  by code_simp

subsection \<open>Splitting\<close>

text \<open>
  A split loses nothing that is archived and inherits what matters: the old session is kept under
  its id with all its messages and the child's id appended; the new active session has a fresh id, names
  the old one as its parent, carries every critical message and the last twenty recent ones in their
  order, all attachments and an exact token count; sessions of other principals and the channel map
  stay as they are.
\<close>

theorem split_session_correct:
  assumes "get_session p M = Some s"
  shows "\<exists>M' child. split_session now uuid p M = (Inr uuid, M') \<and> get_session p M' = Some child \<and>
    os_session_id child = uuid \<and> os_parent_session_id child = Some (os_session_id s) \<and> os_attachments child = os_attachments s \<and>
    os_messages child = messages_by_layer L0Critical s @
      drop (length (messages_by_layer L1Recent s) - 20) (messages_by_layer L1Recent s) \<and>
    os_total_tokens child = sum_list (map (\<lambda>m. estimate_tokens (um_content m)) (os_messages child)) \<and>
    get_archived_session (os_session_id s) M' = Some (s\<lparr>os_child_session_ids := os_child_session_ids s @ [uuid]\<rparr>) \<and>
    (\<forall>q. q \<noteq> p \<longrightarrow> get_session q M' = get_session q M) \<and>
    (\<forall>i. i \<noteq> os_session_id s \<longrightarrow> get_archived_session i M' = get_archived_session i M) \<and> om_channel_map M' = om_channel_map M"
  using assms
  by (simp add: split_session_def Let_def get_session_def get_archived_session_def update_conv' new_session_def
      messages_by_layer_def MAX_INHERITED_L1_MESSAGES_def rev_take)

theorem split_session_correct_witness:
  "\<exists>M' child. split_session 0 ''child'' (PrincipalId ''p'')
       (with_session 0 ''parent'' (PrincipalId ''p'') (\<lambda>s. s) (new_manager 100)) = (Inr ''child'', M') \<and>
     get_session (PrincipalId ''p'') M' = Some child \<and> os_parent_session_id child = Some ''parent''"
proof -
  have "get_session (PrincipalId ''p'') (with_session 0 ''parent'' (PrincipalId ''p'') (\<lambda>s. s) (new_manager 100)) =
      Some (new_session 0 ''parent'' (PrincipalId ''p'') 100)"
    by (simp add: with_session_get) (simp add: get_session_def new_manager_def)
  from split_session_correct [OF this, of 0 "''child''"] show ?thesis
    by (auto simp: new_session_def)
qed

subsection \<open>Envelopes\<close>

text \<open>
  The source hash of an ingested envelope binds its content: two envelopes that pass ingestion
  with the same source hash have the same source, principal, channel, thread, message id and body,
  unless SHA-256 collides; the parts are framed by their lengths, so nothing can move from one part to
  its neighbour.
\<close>

theorem envelope_hash_binds:
  assumes "ingest x a = Inr a'" and "ingest x b = Inr b'" and "env_source_hash a = env_source_hash b" and "hex_laws x"
    and "\<forall>part \<in> set (envelope_parts a @ envelope_parts b). length part < 2 ^ 64"
  shows "envelope_parts a = envelope_parts b \<or> (\<exists>u v. u \<noteq> v \<and> x_sha256 x u = x_sha256 x v)"
  using assms by (rule source_hash_binds)

theorem envelope_hash_binds_witness:
  "envelope_parts (demo_envelope ''telegram'' ''chat-7'' ''m1'') = envelope_parts (demo_envelope ''slack'' ''general'' ''m2'') \<or>
   (\<exists>u v. u \<noteq> v \<and> x_sha256 (ol_externals demo_omni) u = x_sha256 (ol_externals demo_omni) v)"
proof (rule envelope_hash_binds)
  show "ingest (ol_externals demo_omni) (demo_envelope ''telegram'' ''chat-7'' ''m1'') = Inr (demo_envelope ''telegram'' ''chat-7'' ''m1'')"
    "ingest (ol_externals demo_omni) (demo_envelope ''slack'' ''general'' ''m2'') = Inr (demo_envelope ''slack'' ''general'' ''m2'')"
    using demo_steps_valid(1) by (simp_all add: demo_steps_def valid_step_def)
qed (auto simp: demo_envelope_def envelope_parts_def demo_omni_def demo_externals_def hex_laws_def)

subsection \<open>Limits of the replay\<close>

text \<open>
  A message id that the session already has is routed again by a manager that keeps running, and
  skipped by the replay, so that the recorded graph hash cannot be reproduced.
\<close>

lemma repeated_id_not_replayed:
  assumes "get_session (env_principal e) M = Some s" and "env_message_id e \<in> message_ids s"
  shows "length (os_messages (routed_session L n u e M)) = Suc (length (os_messages s))"
    and "length (os_messages (replayed_session L n u ev e i M)) = length (os_messages s)"
proof -
  have "list_ex (\<lambda>m. um_message_id m = env_message_id e) (os_messages s)"
    using assms(2) by (auto simp: message_ids_def list_ex_iff)
  then show "length (os_messages (replayed_session L n u ev e i M)) = length (os_messages s)"
    using assms(1) by (simp add: replayed_session_def Let_def replay_message_def)
qed (use assms(1) in \<open>simp add: routed_session_def Let_def add_message_def\<close>)

text \<open>The replay asks whether a signature is there and never whether it verifies.\<close>

lemma replay_does_not_verify:
  "replayable pf (ev\<lparr>le_signature := Some sg\<rparr>) = replayable pf (ev\<lparr>le_signature := Some sg'\<rparr>)"
  "replay_signed_route_events L n u events pf M = (Inr r, M') \<Longrightarrow> gr_verified_route_event_count r = gr_route_event_count r"
  by (auto simp: replayable_def replay_signed_route_events_def Let_def split: if_splits prod.splits sum.splits option.splits)

end
