(* ===== verification/Ledger_Reopen.thy ===== *)
theory Ledger_Reopen
  imports Ledger_Binding "HOL-Library.Multiset"
begin

text \<open>
  Opening an initialised ledger again: a database with a valid identity, the chain columns and the
  sequence index, whose chains are as the append operations leave them, passes the validation of the
  chain metadata and is not touched by \<open>ensure_schema\<close>.
\<close>

definition initialised :: "externals \<Rightarrow> ledger_db \<Rightarrow> string \<Rightarrow> bool" where
  "initialised x db i = (validated_database_instance_id x db = Inr i \<and> ld_chain_columns db \<and> ld_sequence_index db)"

lemma initialised_frame [simp]: "initialised x (db\<lparr>ld_events := es\<rparr>) i = initialised x db i"
  by (simp add: initialised_def identity_frame)

lemma append_initialised:
  assumes "append_prepared_event x e policy db = Inr (ins, db')"
  shows "initialised x db' i = initialised x db i"
  using assms by (cases rule: append_cases) simp_all

lemma initialised_read: "initialised x db i \<Longrightarrow> read_database_instance_id x db = Inr i"
  by (auto simp: initialised_def validated_database_instance_id_def result_simps split: if_splits list.splits)

lemma initialised_objects:
  assumes "initialised x db i"
  shows "List.member (ld_schema_migrations db) DATABASE_IDENTITY_MIGRATION"
    "database_schema_object_sql db ''table'' DATABASE_IDENTITY_TABLE \<noteq> None"
    "database_schema_object_sql db ''trigger'' DATABASE_IDENTITY_NO_INSERT_TRIGGER \<noteq> None"
    "database_schema_object_sql db ''trigger'' DATABASE_IDENTITY_NO_UPDATE_TRIGGER \<noteq> None"
    "database_schema_object_sql db ''trigger'' DATABASE_IDENTITY_NO_DELETE_TRIGGER \<noteq> None"
  using assms
  by (auto simp: initialised_def validated_database_instance_id_def validate_database_schema_object_def result_simps split: if_splits)

subsection \<open>Valid chains pass the validation\<close>

lemma validate_chain_loop_ok:
  assumes "sorted (map er_principal_id rows)" and "\<forall>r \<in> set rows. active \<le> er_principal_id r"
    and "\<And>p. chain_from x p (if p = active then n else 0) (if p = active then h else GENESIS_HASH)
      (filter (\<lambda>r. er_principal_id r = p) rows)"
    and "\<And>p. (if p = active then n else 0) + int (length (filter (\<lambda>r. er_principal_id r = p) rows)) \<le> i64_max"
  shows "validate_chain_loop x active n h rows = Inr ()"
  using assms
proof (induction rows arbitrary: active n h)
  case (Cons r rows)
  let ?p = "er_principal_id r"
  let ?n = "if ?p = active then n else 0" and ?h = "if ?p = active then h else GENESIS_HASH"
  have head: "er_seq_num r = ?n" "er_prev_hash r = ?h" "chain_from x ?p (?n + 1) (row_hash x ?p r) (filter (\<lambda>q. er_principal_id q = ?p) rows)"
    using Cons.prems(3) [of ?p] by simp_all
  have room: "?n + 1 + int (length (filter (\<lambda>q. er_principal_id q = ?p) rows)) \<le> i64_max"
    using Cons.prems(4) [of ?p] by simp
  have gone: "filter (\<lambda>q. er_principal_id q = active) rows = []" if "?p \<noteq> active"
  proof -
    have "active < ?p"
      using Cons.prems(2) that by (auto simp: order_less_le)
    then show ?thesis
      using Cons.prems(1) by (auto simp: filter_empty_conv)
  qed
  have others: "chain_from x p (if p = ?p then ?n + 1 else 0) (if p = ?p then row_hash x ?p r else GENESIS_HASH)
      (filter (\<lambda>q. er_principal_id q = p) rows)" for p
    using Cons.prems(3) [of p] head(3) gone by (cases "p = ?p"; cases "p = active") (auto split: if_splits)
  have rooms: "(if p = ?p then ?n + 1 else 0) + int (length (filter (\<lambda>q. er_principal_id q = p) rows)) \<le> i64_max" for p
    using Cons.prems(4) [of p] room gone by (cases "p = ?p"; cases "p = active") (auto simp: i64_max_def split: if_splits)
  have "validate_chain_loop x ?p (?n + 1) (row_hash x ?p r) rows = Inr ()"
    by (rule Cons.IH) (use Cons.prems(1) others rooms in auto)
  moreover have "checked_succ_i64 ?n = Some (?n + 1)"
    using room by (simp add: checked_succ_i64_def)
  ultimately show ?case
    using head(1,2) by (simp add: Let_def)
qed simp

lemma validate_chain_inv:
  assumes inv: "ledger_inv x db" and room: "int (length (ld_events db)) \<le> i64_max"
  shows "validate_chain_metadata x db = Inr ()"
  unfolding validate_chain_metadata_def
proof (rule validate_chain_loop_ok)
  fix p
  let ?rows = "sort_key er_principal_id (sort_key er_seq_num (sort_key er_event_id (ld_events db)))"
  have chain: "chain_from x p 0 GENESIS_HASH (rows_of_principal p db)"
    using inv by (simp add: ledger_inv_def chain_ok_def)
  then have "inj_on er_seq_num (set (rows_of_principal p db))"
    by (auto simp: inj_on_def in_set_conv_nth chain_seq_nth)
  then have seq: "sort_key er_seq_num (sort_key er_event_id (rows_of_principal p db)) = rows_of_principal p db"
    using chain_sorted [OF chain] by (intro sort_key_inj_key_eq) (simp_all, metis sorted_sort_key)
  have part: "filter (\<lambda>r. er_principal_id r = p) ?rows = rows_of_principal p db"
    using sort_key_stable [of er_principal_id p] seq by (simp add: filter_sort rows_of_principal_def)
  show "chain_from x p (if p = [] then 0 else 0) (if p = [] then GENESIS_HASH else GENESIS_HASH)
      (filter (\<lambda>r. er_principal_id r = p) ?rows)"
    unfolding part using chain by simp
  have "int (length (rows_of_principal p db)) \<le> i64_max"
    using room of_nat_mono [OF length_filter_le] unfolding rows_of_principal_def by (rule order_trans [rotated])
  then show "(if p = [] then 0 else 0) + int (length (filter (\<lambda>r. er_principal_id r = p) ?rows)) \<le> i64_max"
    unfolding part by simp
qed simp_all

text \<open>An initialised ledger is opened as it is.\<close>

lemma ensure_schema_initialised:
  assumes "initialised x db i" and "ledger_inv x db" and "int (length (ld_events db)) \<le> i64_max"
  shows "ensure_schema x u db = Inr db"
proof -
  have "ensure_database_instance_identity x u db = Inr db"
    using assms(1) initialised_objects [OF assms(1)]
    by (simp add: ensure_database_instance_identity_def initialised_def)
  then show ?thesis
    using assms(1) validate_chain_inv [OF assms(2,3)]
    by (simp add: ensure_schema_def Let_def migrate_or_validate_event_chain_def initialised_def)
qed

end
