(* ===== verification/Wake_Turn.thy ===== *)
theory Wake_Turn
  imports Unified_Turn Omni_Replay Ledger_Reopen
begin

text \<open>
  The wake entry with the unified runtime (\<open>crates/zaion-cli/src/commands/process/wake.rs\<close>, \<open>execute_wake\<close>
  up to the call of the unified wake, without the durable turn contract): ingestion of the envelope,
  resolution of the process, the signed received event, the replay and the route of the session
  authority, the signed route event, and the unified turn. Loading a process and running the provider
  are parameters, as are clock and fresh ids; the operation stream is left out.
\<close>

record wake_env =
  wk_omni :: omni_libs
  wk_load :: "string \<Rightarrow> string + zaion_keypair \<times> string \<times> string"
  wk_execute :: "string \<Rightarrow> cli_error + unified_agent_result"
  wk_turn :: unified_turn_env
  wk_received_uuid :: string
  wk_route_uuid :: string
  wk_session_uuid :: string
  wk_clock :: int
  wk_runtime_owner :: string
  wk_runtime_topology :: "string list"

definition resolve_pid :: "string \<Rightarrow> canonical_envelope \<Rightarrow> cli_error + string" where
  "resolve_pid req_pid envelope =
     (let princ = principal_str (env_principal envelope)
      in if req_pid = [] then Inr princ
         else if req_pid \<noteq> princ
         then Inl (CliUsage (''wake request pid '' @ req_pid @ '' does not match canonical envelope principal '' @ princ))
         else Inr req_pid)"

text \<open>The turn of the loaded process.\<close>

definition turn_of :: "wake_env \<Rightarrow> string \<Rightarrow> zaion_keypair \<times> string \<times> string \<Rightarrow> unified_turn_env" where
  "turn_of W pid loaded =
     (case loaded of (kp, workspace_id, project_id) \<Rightarrow>
        (wk_turn W)\<lparr>ue_pid := pid, ue_keypair := kp, ue_workspace_id := workspace_id, ue_project_id := project_id\<rparr>)"

text \<open>A replay that fails is ignored; the manager it leaves is used.\<close>

definition try_replay :: "wake_env \<Rightarrow> unified_turn_env \<Rightarrow> omni_session_manager \<Rightarrow> omni_session_manager ledger_action" where
  "try_replay W E manager s =
     (case replay_from_ledger (wk_omni W) (wk_clock W) (wk_session_uuid W) (ue_new_uuid E) (fst s) (snd s)
        (Some (ue_pid E)) 512 manager of
        (_, manager', s') \<Rightarrow> (Inr manager', s'))"

definition route_authority_of :: "wake_env \<Rightarrow> canonical_envelope \<Rightarrow> omni_session_manager \<Rightarrow> omni_route_authority ledger_action" where
  "route_authority_of W envelope manager =
     do_return (map_err CliRoute (fst (route_envelope (wk_omni W) (wk_clock W) (wk_session_uuid W) envelope manager)))"

definition wake_handoff :: "wake_env \<Rightarrow> event_id \<Rightarrow> event_id \<Rightarrow> string \<Rightarrow> unified_wake_handoff" where
  "wake_handoff W received_event_id omni_route_event_id omni_route_authority_hash =
     \<lparr>uh_received_event_id = Some received_event_id, uh_inherited_omni_route_event_id = Some omni_route_event_id,
      uh_inherited_omni_route_authority_hash = Some omni_route_authority_hash,
      uh_runtime_owner = wk_runtime_owner W, uh_runtime_topology = wk_runtime_topology W\<rparr>"

text \<open>The unified wake opens the ledger file again with an object of its own.\<close>

definition unified_wake ::
  "wake_env \<Rightarrow> unified_turn_env \<Rightarrow> unified_wake_handoff \<Rightarrow> string \<Rightarrow> turn_execution ledger_action" where
  "unified_wake W E handoff message s =
     (case wk_execute W message of
        Inl e \<Rightarrow> (Inl e, s)
      | Inr result \<Rightarrow> (case cmd_wake_unified E handoff result (snd s) of (r, _, db) \<Rightarrow> (r, fst s, db)))"

definition record_and_run :: "wake_env \<Rightarrow> unified_turn_env \<Rightarrow> canonical_envelope \<Rightarrow> turn_execution ledger_action" where
  "record_and_run W E envelope =
     do_then (append_turn_event E (wk_received_uuid W) ChannelReceived (to_channel_received_payload envelope) None)
       (\<lambda>received_event_id.
     do_then (try_replay W E (new_manager 128000)) (\<lambda>manager.
     do_then (route_authority_of W envelope manager) (\<lambda>omni_route_authority.
     do_then (append_turn_event E (wk_route_uuid W) OmniRoute
       (to_ledger_payload (wk_omni W) omni_route_authority (event_id_str received_event_id)) (Some received_event_id))
       (\<lambda>omni_route_event_id.
     unified_wake W E (wake_handoff W received_event_id omni_route_event_id
       (authority_hash (wk_omni W) omni_route_authority)) (env_body envelope)))))"

definition execute_wake ::
  "wake_env \<Rightarrow> string \<Rightarrow> canonical_envelope \<Rightarrow> ledger_db \<Rightarrow> (cli_error + turn_execution) \<times> event_ledger \<times> ledger_db" where
  "execute_wake W req_pid envelope db =
     (case map_err CliEnvelope (ingest (ol_externals (wk_omni W)) envelope) of
        Inl e \<Rightarrow> (Inl e, new_event_ledger, db)
      | Inr envelope \<Rightarrow>
     case resolve_pid req_pid envelope of
        Inl e \<Rightarrow> (Inl e, new_event_ledger, db)
      | Inr pid \<Rightarrow>
     case wk_load W pid of
        Inl e \<Rightarrow> (Inl (CliCore e), new_event_ledger, db)
      | Inr loaded \<Rightarrow>
          let E = turn_of W pid loaded;
              signing_principal = keypair_principal_id (pl_externals (ue_libs E)) (ue_keypair E)
          in if principal_str (env_principal envelope) \<noteq> principal_str signing_principal
             then (Inl (CliUsage (''canonical envelope principal '' @ principal_str (env_principal envelope) @
               '' does not match loaded identity '' @ principal_str signing_principal)), new_event_ledger, db)
             else record_and_run W E envelope (new_event_ledger, db))"

subsection \<open>A wake completes\<close>

lemma append_turn_event_opens:
  assumes "ensure_schema (pl_externals (ue_libs E)) (ue_new_uuid E) db = Inr db" and "read_database_instance_id (pl_externals (ue_libs E)) db = Inr i"
  shows "append_turn_event E uuid ty v par (new_event_ledger, db) =
    append_turn_event E uuid ty v par (\<lparr>el_tables_ensured = True, el_database_instance_id = Some i\<rparr>, db)"
  unfolding append_turn_event_def on_ledger_def append_signed_typed_event_with_parent_def append_signed_event_with_parent_def
    append_event_with_parent_def Let_def fst_conv snd_conv with_conn_opens [OF assms] by (rule refl)

lemma query_opened:
  assumes "opened x L db"
  shows "\<exists>r. query x u q L db = (r, L, db)"
  unfolding query_def with_conn_opened [OF assms] by (cases "q db") auto

lemma try_replay_opened:
  assumes "opened (ol_externals (wk_omni W)) L db"
  shows "\<exists>m. try_replay W E manager (L, db) = (Inr m, L, db)"
  using query_opened [OF assms, of "ue_new_uuid E" "list_global_events (ol_externals (wk_omni W)) 512"]
  by (auto simp: try_replay_def replay_from_ledger_def split: sum.split prod.split)

lemma turn_appended_initialised:
  "turn_appended E L uuid ty v par db db' ev \<Longrightarrow> initialised x db' i = initialised x db i"
  by (auto simp: turn_appended_def)

text \<open>What the wake recorded is what the unified turn asks of its handoff.\<close>

lemma wake_handoff_recorded:
  assumes received: "turn_appended E L ru ChannelReceived v None db db1 received"
    and route: "turn_appended E L tu OmniRoute (to_ledger_payload P a (''evt-'' @ ru)) (Some (turn_event_id ru)) db1 db2 route"
    and a: "oa_principal_id a = ue_pid E" "oa_authority a = ''OmniSessionManager''"
  shows "handoff_recorded E (wake_handoff W (turn_event_id ru) (turn_event_id tu) (authority_hash P a)) db2 received route (authority_hash P a)"
  using turn_appended_keeps [OF route] received route a
  by (auto simp: handoff_recorded_def wake_handoff_def turn_appended_def payload_str_def to_ledger_payload_def)

definition wake_uuids :: "wake_env \<Rightarrow> string list" where
  "wake_uuids W = [wk_received_uuid W, wk_route_uuid W, ue_sent_uuid (wk_turn W), ue_answer_uuid (wk_turn W), ue_proof_uuid (wk_turn W)]"

text \<open>The graph and the proof that the unified turn of this wake writes.\<close>

definition wake_graph :: "wake_env \<Rightarrow> unified_turn_env \<Rightarrow> unified_agent_result \<Rightarrow> evidence_subgraph" where
  "wake_graph W E result =
     unified_graph E result (Some (turn_event_id (wk_received_uuid W))) (turn_event_id (wk_route_uuid W)) (turn_event_id (ue_sent_uuid E))"

definition wake_proof :: "wake_env \<Rightarrow> unified_turn_env \<Rightarrow> unified_agent_result \<Rightarrow> canonical_envelope \<Rightarrow> string \<Rightarrow> turn_proof" where
  "wake_proof W E result envelope h =
     unified_proof E result (channel_str (env_channel envelope)) (thread_str (env_thread envelope))
       (''evt-'' @ wk_received_uuid W) (turn_event_id (wk_route_uuid W)) h (turn_event_id (ue_sent_uuid E)) (wake_graph W E result)"

lemma record_and_run_completes:
  fixes W E envelope result
  defines "x \<equiv> pl_externals (ue_libs E)"
  assumes libs: "ol_externals (wk_omni W) = x" "record_laws x" and init: "initialised x db i" and inv: "ledger_inv x db"
    and room: "int (length (ld_events db)) + 5 \<le> i64_max"
    and pid: "ue_pid E = principal_str (keypair_principal_id x (ue_keypair E))" "principal_str (env_principal envelope) = ue_pid E"
    and uuids: "[wk_received_uuid W, wk_route_uuid W, ue_sent_uuid E, ue_answer_uuid E, ue_proof_uuid E] = us" "distinct us"
      "\<forall>u \<in> set us. find_event (''evt-'' @ u) db = None"
    and result: "wk_execute W (env_body envelope) = Inr result"
    and serde: "\<And>h. decodes_turn E (wake_handoff W (turn_event_id (wk_received_uuid W)) (turn_event_id (wk_route_uuid W)) h)
      (wake_graph W E result) (wake_proof W E result envelope h)"
  shows "\<exists>out c L db' rows. record_and_run W E envelope (new_event_ledger, db) = (Inr (completed_execution out c), L, db') \<and>
    ledger_inv x db' \<and> ld_events db' = ld_events db @ rows \<and>
    map er_event_type rows = [''channel.received'', ''omni.route'', ''channel.sent'', ''answer.trace'', ''turn.proof'']"
proof -
  let ?L = "\<lparr>el_tables_ensured = True, el_database_instance_id = Some i\<rparr>"
  let ?ru = "wk_received_uuid W" and ?tu = "wk_route_uuid W" and ?v = "to_channel_received_payload envelope"
  have op: "opened x ?L db"
    using initialised_read [OF init] by (simp add: opened_def)
  have schema: "ensure_schema x (ue_new_uuid E) db = Inr db"
    using ensure_schema_initialised [OF init inv] room by simp
  note append = append_turn_event_records [OF libs(2) [unfolded x_def]]
  obtain db1 received where s1: "turn_appended E ?L ?ru ChannelReceived ?v None db db1 received"
    using append [OF op [unfolded x_def] inv [unfolded x_def], of ?ru] uuids room by fastforce
  have st1: "opened x ?L db1" "ledger_inv x db1" "int (length (ld_events db1)) \<le> i64_max"
    using turn_appended_state [OF s1] turn_appended_length [OF s1] room by (simp_all add: x_def)
  obtain manager where replay: "try_replay W E (new_manager 128000) (?L, db1) = (Inr manager, ?L, db1)"
    using try_replay_opened [of W] st1(1) libs(1) by metis
  obtain a s where a: "fst (route_envelope (wk_omni W) (wk_clock W) (wk_session_uuid W) envelope manager) = Inr a"
    "a = route_authority (wk_omni W) envelope (from_ingress (env_source envelope) (channel_str (env_channel envelope))) s"
    using route_envelope_result [of "wk_omni W" "wk_clock W" "wk_session_uuid W" envelope manager] by fastforce
  let ?h = "authority_hash (wk_omni W) a"
  obtain db2 route where s2: "turn_appended E ?L ?tu OmniRoute (to_ledger_payload (wk_omni W) a (''evt-'' @ ?ru)) (Some (turn_event_id ?ru)) db1 db2 route"
    using append [OF st1(1,2) [unfolded x_def], of ?tu] turn_appended_fresh [OF s1, of "''evt-'' @ ?tu"] uuids st1(3) by fastforce
  have st2: "initialised x db2 i" "ledger_inv x db2" "int (length (ld_events db2)) + 3 \<le> i64_max"
    using turn_appended_initialised [OF s2] turn_appended_initialised [OF s1] init turn_appended_state [OF s2]
      turn_appended_length [OF s2] turn_appended_length [OF s1] room by (simp_all add: x_def)
  have fresh: "fresh_uuids E db2"
    using uuids turn_appended_fresh [OF s2] turn_appended_fresh [OF s1] by (auto simp: fresh_uuids_def)
  have ids: "le_event_id received = turn_event_id ?ru" "le_event_id route = turn_event_id ?tu" "le_payload received = ?v"
    using s1 s2 by (simp_all add: turn_appended_def)
  have proofs: "turn_graph E result received route = wake_graph W E result"
    "turn_sealed_proof E result received route ?h = wake_proof W E result envelope ?h"
    by (simp_all add: turn_graph_def wake_graph_def turn_sealed_proof_def wake_proof_def ids event_field_def payload_str_def
        to_channel_received_payload_def turn_event_id_def)
  have handoff: "handoff_recorded E (wake_handoff W (turn_event_id ?ru) (turn_event_id ?tu) ?h) db2 received route ?h"
    by (rule wake_handoff_recorded [OF s1 s2]) (use a(2) pid in \<open>simp_all add: route_authority_def\<close>)
  have schema2: "ensure_schema x (ue_new_uuid E) db2 = Inr db2"
    using ensure_schema_initialised [OF st2(1,2)] st2(3) by simp
  obtain out c L2 db' rows where turn: "cmd_wake_unified E (wake_handoff W (turn_event_id ?ru) (turn_event_id ?tu) ?h) result db2 =
      (Inr (completed_execution out c), L2, db')" "ledger_inv x db'" "ld_events db' = ld_events db2 @ rows"
      "map er_event_type rows = [''channel.sent'', ''answer.trace'', ''turn.proof'']"
    using wake_unified_closes [OF libs(2) [unfolded x_def] schema2 [unfolded x_def] initialised_read [OF st2(1), unfolded x_def]
        st2(2) [unfolded x_def] st2(3) pid(1) [unfolded x_def] handoff fresh, of result] serde [of ?h]
    unfolding proofs x_def by auto
  obtain r1 r2 where rows: "ld_events db2 = ld_events db @ [r1, r2]" "er_event_type r1 = ''channel.received''" "er_event_type r2 = ''omni.route''"
    using s1 s2 by (auto simp: turn_appended_def)
  have "record_and_run W E envelope (new_event_ledger, db) = (Inr (completed_execution out c), ?L, db')"
    using append_turn_event_opens [OF schema [unfolded x_def] initialised_read [OF init, unfolded x_def]] s1 s2 replay a(1) turn(1) result
    by (simp add: record_and_run_def do_then_def route_authority_of_def do_return_def unified_wake_def turn_appended_def
        turn_event_id_def)
  then show ?thesis
    using turn(2-4) rows by (intro exI [of _ out] exI [of _ c] exI [of _ ?L] exI [of _ db'] exI [of _ "[r1, r2] @ rows"]) simp
qed

end
