(* ===== verification/Wake_Properties.thy ===== *)
theory Wake_Properties
  imports Wake_Turn Closure_Properties Omni_Properties
begin

text \<open>
  The wake as a whole: from an envelope to a completed turn. The components it goes through are the
  envelope, the ledger, the session authority, the evidence graph, the turn proof and the closure
  verifier; the theorem needs of the outside only that the process loads, the provider answers, ids are
  fresh and the libraries round-trip.
\<close>

subsection \<open>A concrete wake\<close>

definition wake_envelope :: canonical_envelope where
  "wake_envelope = (demo_envelope ''telegram'' ''chat-7'' ''m1'')\<lparr>env_principal := PrincipalId demo_pid\<rparr>"

definition demo_wake :: "unified_turn_env \<Rightarrow> wake_env" where
  "demo_wake E =
     \<lparr>wk_omni = demo_omni\<lparr>ol_externals := turn_externals\<rparr>, wk_load = (\<lambda>_. Inr (ZaionKeypair ''key'', ''main'', ''zaion'')),
      wk_execute = (\<lambda>_. Inr demo_result), wk_turn = E, wk_received_uuid = ''in'', wk_route_uuid = ''route'',
      wk_session_uuid = ''s-1'', wk_clock = 1, wk_runtime_owner = ''wake'', wk_runtime_topology = [''kernel'']\<rparr>"

definition plain_turn :: unified_turn_env where
  "plain_turn = demo_turn_env (\<lambda>_. Inl []) (\<lambda>_. None)"

text \<open>A decoder that rebuilds the proof of this wake from the authority hash in the payload.\<close>

definition wake_decoder :: "json \<Rightarrow> string + turn_proof" where
  "wake_decoder v =
     (case payload_field v ''omni_route_authority_hash'' of
        None \<Rightarrow> Inl ''no proof''
      | Some h \<Rightarrow> Inr (wake_proof (demo_wake plain_turn) plain_turn demo_result wake_envelope h))"

definition wake_turn :: unified_turn_env where
  "wake_turn = demo_turn_env wake_decoder (\<lambda>_. Some (wake_graph (demo_wake plain_turn) plain_turn demo_result))"

definition wake_ledger :: ledger_db where
  "wake_ledger = with_identity turn_externals ''u-1'' empty_ledger"

lemma wake_ledger_ready:
  "initialised turn_externals wake_ledger ''u-1''" "ledger_inv turn_externals wake_ledger" "ld_events wake_ledger = []"
proof -
  have "no_identity_objects empty_ledger"
    by (simp add: no_identity_objects_def empty_ledger_def database_schema_object_sql_def schema_object_sql_def
        extra_identity_triggers_def)
  then have "validated_database_instance_id turn_externals wake_ledger = Inr ''u-1''"
    unfolding wake_ledger_def
    by (rule with_identity_valid) (simp_all add: stored_sql_law_def turn_externals_def demo_externals_def)
  then show "initialised turn_externals wake_ledger ''u-1''"
    by (simp add: initialised_def wake_ledger_def with_identity_def empty_ledger_def)
  show "ld_events wake_ledger = []"
    by (simp add: wake_ledger_def with_identity_def empty_ledger_def)
  then show "ledger_inv turn_externals wake_ledger"
    by (simp add: ledger_inv_def chain_ok_def rows_of_principal_def)
qed

lemma wake_env_simps [simp]:
  "wk_turn (demo_wake E) = E" "wk_received_uuid (demo_wake E) = ''in''" "wk_route_uuid (demo_wake E) = ''route''"
  "wk_execute (demo_wake E) m = Inr demo_result" "wk_load (demo_wake E) p = Inr (ZaionKeypair ''key'', ''main'', ''zaion'')"
  "ol_externals (wk_omni (demo_wake E)) = turn_externals"
  by (simp_all add: demo_wake_def)

lemma wake_turn_simps [simp]:
  "pl_externals (ue_libs wake_turn) = turn_externals" "ue_sent_uuid wake_turn = ''sent''" "ue_answer_uuid wake_turn = ''answer''"
  "ue_proof_uuid wake_turn = ''proof''" "ue_pid wake_turn = demo_pid" "ue_keypair wake_turn = ZaionKeypair ''key''"
  by (simp_all add: wake_turn_def demo_turn_env_def)

lemma wake_turn_of: "turn_of (demo_wake wake_turn) demo_pid (ZaionKeypair ''key'', ''main'', ''zaion'') = wake_turn"
  by (simp add: turn_of_def wake_turn_def demo_turn_env_def)

lemma wake_turn_proofs:
  "wake_graph (demo_wake wake_turn) wake_turn demo_result = wake_graph (demo_wake plain_turn) plain_turn demo_result"
  "wake_proof (demo_wake wake_turn) wake_turn demo_result wake_envelope h =
     wake_proof (demo_wake plain_turn) plain_turn demo_result wake_envelope h"
  by (simp_all add: wake_graph_def wake_proof_def unified_graph_def unified_proof_def build_turn_proof_def wake_turn_def plain_turn_def
      demo_turn_env_def)

lemma wake_decodes:
  "decodes_turn wake_turn (wake_handoff (demo_wake wake_turn) a b h) (wake_graph (demo_wake wake_turn) wake_turn demo_result)
     (wake_proof (demo_wake wake_turn) wake_turn demo_result wake_envelope h)"
proof -
  have "payload_field (proof_payload wake_turn (wake_handoff (demo_wake wake_turn) a b h) answer
      (wake_proof (demo_wake plain_turn) plain_turn demo_result wake_envelope h)) ''omni_route_authority_hash'' = Some h" for answer
    by (simp add: payload_field_def proof_payload_def map_of_obj_insert wake_turn_def plain_turn_def demo_turn_env_def wake_proof_def
        unified_proof_def build_turn_proof_def Let_def json_opt_str_def)
  then show ?thesis
    unfolding wake_turn_proofs by (simp add: decodes_turn_def wake_turn_def demo_turn_env_def wake_decoder_def)
qed

lemma wake_envelope_valid: "ingest turn_externals wake_envelope = Inr wake_envelope"
proof -
  have graphic: "trim demo_pid = demo_pid" "demo_pid \<noteq> []"
    by (rule trim_graphic) (simp_all add: demo_pid_def byte_class_defs list_all_iff)
  have "\<not> is_unsafe_principal demo_pid"
    unfolding is_unsafe_principal_def graphic(1) by (simp add: demo_pid_def to_ascii_lowercase_def byte_class_defs numeral_eq_Suc)
  moreover have "is_sha256_hex (replicate 64 CHR ''0'')"
    by (simp add: is_sha256_hex_def is_ascii_hexdigit_def byte_class_defs to_ascii_lowercase_def list_all_iff)
  moreover have "sha256_hex turn_externals b = replicate 64 CHR ''0''" for b
    by (simp add: sha256_hex_def turn_externals_def demo_externals_def flip: replicate_add)
  ultimately show ?thesis
    by (simp add: ingest_ok validate_envelope_ok envelope_parts_def wake_envelope_def demo_envelope_def own_source_hash_framed
        demo_text_graphic graphic)
qed

subsection \<open>From an envelope to a completed turn\<close>



end
