(* ===== verification/Policy.thy ===== *)
theory Policy
  imports Json
begin

text \<open>
  \<open>crates/zaion-types/src/policy.rs\<close>: the capability classes of tools with their parser, which fails
  closed, and the policy decisions that go into signed receipts. The lemmas show that an unknown class
  is never treated as one that may run concurrently, and that the JSON proof of a decision determines
  the decision.
\<close>

datatype capability_class = CapRead | CapWrite | CapExecute | CapMemory | CapNetwork | CapExternal

fun capability_str :: "capability_class \<Rightarrow> string" where
  "capability_str CapRead = ''read''"
| "capability_str CapWrite = ''write''"
| "capability_str CapExecute = ''execute''"
| "capability_str CapMemory = ''memory''"
| "capability_str CapNetwork = ''network''"
| "capability_str CapExternal = ''external''"

definition try_from_tool_meta :: "string \<Rightarrow> capability_class option" where
  "try_from_tool_meta value =
     (if value = ''read'' then Some CapRead
      else if value = ''write'' then Some CapWrite
      else if value = ''execute'' then Some CapExecute
      else if value = ''memory'' then Some CapMemory
      else if value = ''network'' then Some CapNetwork
      else if value = ''diagnostic'' \<or> value = ''external'' then Some CapExternal
      else None)"

definition from_tool_meta :: "string \<Rightarrow> capability_class" where
  "from_tool_meta value = (case try_from_tool_meta value of None \<Rightarrow> CapExecute | Some c \<Rightarrow> c)"

definition is_concurrency_safe :: "capability_class \<Rightarrow> bool" where
  "is_concurrency_safe c = (c = CapRead \<or> c = CapMemory \<or> c = CapExternal)"

fun default_sandbox_scope :: "capability_class \<Rightarrow> string" where
  "default_sandbox_scope CapExecute = ''workspace_allowlisted_shell''"
| "default_sandbox_scope CapWrite = ''workspace_write_policy''"
| "default_sandbox_scope CapMemory = ''principal_memory_atoms''"
| "default_sandbox_scope CapNetwork = ''configured_network_endpoint''"
| "default_sandbox_scope CapExternal = ''mcp_stdio_subprocess''"
| "default_sandbox_scope CapRead = ''workspace_readonly''"

datatype policy_effect = PolicyAllow | PolicyDeny

fun policy_effect_str :: "policy_effect \<Rightarrow> string" where
  "policy_effect_str PolicyAllow = ''allow''"
| "policy_effect_str PolicyDeny = ''deny''"

record policy_decision =
  pd_schema :: string
  pd_permission_id :: string
  pd_capability_class :: string
  pd_effect :: string
  pd_sandbox_scope :: string
  pd_reason_code :: string
  pd_enforced_at :: string

definition POLICY_SCHEMA :: string where
  "POLICY_SCHEMA = ''zaion.policy_decision.v1''"

definition new_policy_decision ::
  "string \<Rightarrow> capability_class \<Rightarrow> policy_effect \<Rightarrow> string \<Rightarrow> string \<Rightarrow> string \<Rightarrow> policy_decision" where
  "new_policy_decision permission_id capability_class effect sandbox_scope reason_code enforced_at =
     \<lparr>pd_schema = POLICY_SCHEMA, pd_permission_id = permission_id,
      pd_capability_class = capability_str capability_class, pd_effect = policy_effect_str effect,
      pd_sandbox_scope = sandbox_scope, pd_reason_code = reason_code, pd_enforced_at = enforced_at\<rparr>"

definition allow_builtin :: "string \<Rightarrow> capability_class \<Rightarrow> policy_decision" where
  "allow_builtin tool_name c =
     new_policy_decision (''builtin.'' @ tool_name @ ''.'' @ capability_str c) c PolicyAllow (default_sandbox_scope c)
       ''native_builtin_dispatch_allowed'' ''zaion_mcp::builtin_tools''"

definition failed_builtin :: "string \<Rightarrow> capability_class \<Rightarrow> policy_decision" where
  "failed_builtin tool_name c =
     new_policy_decision (''builtin.'' @ tool_name @ ''.'' @ capability_str c) c PolicyAllow (default_sandbox_scope c)
       ''native_builtin_dispatch_failed'' ''zaion_mcp::builtin_tools''"

definition allow_mcp :: "string \<Rightarrow> policy_decision" where
  "allow_mcp tool_name =
     new_policy_decision (''mcp.'' @ tool_name @ ''.external'') CapExternal PolicyAllow
       (default_sandbox_scope CapExternal) ''mcp_registry_dispatch_allowed'' ''zaion_runtime::mcp_tools''"

definition failed_mcp :: "string \<Rightarrow> policy_decision" where
  "failed_mcp tool_name =
     new_policy_decision (''mcp.'' @ tool_name @ ''.external'') CapExternal PolicyAllow
       (default_sandbox_scope CapExternal) ''mcp_registry_dispatch_failed'' ''zaion_runtime::mcp_tools''"

definition deny_unknown_tool :: "string \<Rightarrow> policy_decision" where
  "deny_unknown_tool tool_name =
     new_policy_decision (''unknown.'' @ tool_name @ ''.none'') CapExternal PolicyDeny ''none''
       ''denied_unknown_tool_no_mcp_registry'' ''zaion_cli::commands::process::wake''"

definition denied_by_hook :: "string \<Rightarrow> string \<Rightarrow> policy_decision" where
  "denied_by_hook tool_name hook_name =
     new_policy_decision (''hook.'' @ hook_name @ ''.'' @ tool_name @ ''.blocked'') CapExternal PolicyDeny ''none''
       ''denied_by_pre_tool_use_hook'' ''zaion_runtime::hooks''"

definition recorded_not_executed :: "string \<Rightarrow> policy_decision" where
  "recorded_not_executed tool_name =
     new_policy_decision (''recorded.'' @ tool_name @ ''.none'') CapExternal PolicyDeny ''none''
       ''not_executed_requires_explicit_dispatch'' ''zaion_cli::commands::process::wake''"

definition permission_proof :: "policy_decision \<Rightarrow> json" where
  "permission_proof d = JObj
     [(''schema'', JStr (pd_schema d)), (''permission_id'', JStr (pd_permission_id d)),
      (''capability_class'', JStr (pd_capability_class d)), (''effect'', JStr (pd_effect d)),
      (''sandbox_scope'', JStr (pd_sandbox_scope d)), (''reason_code'', JStr (pd_reason_code d)),
      (''enforced_at'', JStr (pd_enforced_at d))]"

lemma capability_roundtrip: "try_from_tool_meta (capability_str c) = Some c"
  by (cases c) (simp_all add: try_from_tool_meta_def)

text \<open>The class of a tool is one that may run beside others only when its metadata says so.\<close>

lemma from_tool_meta_fails_closed:
  "is_concurrency_safe (from_tool_meta value) \<longleftrightarrow> value \<in> {''read'', ''memory'', ''diagnostic'', ''external''}"
  by (auto simp: is_concurrency_safe_def from_tool_meta_def try_from_tool_meta_def)

lemma permission_proof_inject: "permission_proof d = permission_proof e \<longleftrightarrow> d = e"
  by (cases d; cases e) (auto simp: permission_proof_def)

end
