(* ===== verification/Tool_Gate.thy ===== *)
theory Tool_Gate
  imports Policy Ingress Tool_Broker Ledger_Chain
begin

text \<open>
  The gate in front of a built-in tool (\<open>crates/zaion-cli/src/commands/process/wake_contract_v2.rs\<close>,
  \<open>authorize_builtin\<close>): the resources are read off the arguments of the call, a manifest is derived from
  the capability class, the invocation and the authorization are built from the ingress, and the broker
  decides. The URL parser, SHA-256, the JSON text of the arguments and the texts of the errors are
  parameters.
\<close>

record gate_libs =
  gt_externals :: externals
  gt_url_parse :: "string \<Rightarrow> string + string option \<times> nat option"
  gt_manifest_error :: "tool_manifest_error \<Rightarrow> string"
  gt_authorization_error :: "tool_authorization_error \<Rightarrow> string"
  gt_deny_reason :: "tool_deny_reason \<Rightarrow> string"

record v2_tool_gate_decision =
  gd_allowed :: bool
  gd_policy :: policy_decision
  gd_reason :: string

record invocation_resources =
  ir_filesystem_paths :: "string list"
  ir_network_hosts :: "string list"
  ir_environment_variables :: "string list"

definition str_argument :: "json \<Rightarrow> string \<Rightarrow> string option" where
  "str_argument arguments key = Option.bind (json_get key arguments) as_str"

definition url_authority :: "gate_libs \<Rightarrow> string \<Rightarrow> string \<Rightarrow> string + string" where
  "url_authority G key value =
     and_then (map_err (\<lambda>error. ''invalid '' @ key @ '' resource: '' @ error) (gt_url_parse G value)) (\<lambda>(host_str, port).
     and_then (ok_or (key @ '' resource has no host'') host_str) (\<lambda>host.
     Inr (to_ascii_lowercase (case port of None \<Rightarrow> host | Some port \<Rightarrow> host @ '':'' @ show_nat port))))"

fun url_hosts :: "gate_libs \<Rightarrow> json \<Rightarrow> string list \<Rightarrow> string list \<Rightarrow> string + string list" where
  "url_hosts G arguments [] hosts = Inr hosts"
| "url_hosts G arguments (key # keys) hosts =
     (case str_argument arguments key of
        None \<Rightarrow> url_hosts G arguments keys hosts
      | Some value \<Rightarrow> and_then (url_authority G key value) (\<lambda>authority. url_hosts G arguments keys (hosts @ [authority])))"

definition path_arguments :: "json \<Rightarrow> string list" where
  "path_arguments arguments =
     List.map_filter (\<lambda>key. map_option (map (\<lambda>c. if c = CHR 0x5C then CHR ''/'' else c)) (str_argument arguments key))
       [''path'', ''source'', ''destination'', ''cwd'']"

definition variable_arguments :: "json \<Rightarrow> string list" where
  "variable_arguments arguments = (case str_argument arguments ''var'' of None \<Rightarrow> [] | Some variable \<Rightarrow> [variable])"

definition host_arguments :: "json \<Rightarrow> string list" where
  "host_arguments arguments =
     (case str_argument arguments ''host'' of None \<Rightarrow> [] | Some host \<Rightarrow> [to_ascii_lowercase host])"

definition from_arguments :: "gate_libs \<Rightarrow> json \<Rightarrow> string + invocation_resources" where
  "from_arguments G arguments =
     and_then (url_hosts G arguments [''url'', ''endpoint''] (host_arguments arguments)) (\<lambda>hosts.
     Inr \<lparr>ir_filesystem_paths = remdups_adj (sort (path_arguments arguments)), ir_network_hosts = remdups_adj (sort hosts),
          ir_environment_variables = variable_arguments arguments\<rparr>)"

definition shared_policy_decision ::
  "string \<Rightarrow> capability_class \<Rightarrow> policy_effect \<Rightarrow> string \<Rightarrow> string \<Rightarrow> policy_decision" where
  "shared_policy_decision name c effect sandbox_scope reason_code =
     \<lparr>pd_schema = POLICY_SCHEMA, pd_permission_id = ''tool_broker.'' @ name @ ''.'' @ capability_str c,
      pd_capability_class = capability_str c, pd_effect = policy_effect_str effect, pd_sandbox_scope = sandbox_scope,
      pd_reason_code = reason_code, pd_enforced_at = ''zaion_runtime::ToolBroker''\<rparr>"

definition denied_gate :: "string \<Rightarrow> capability_class \<Rightarrow> string \<Rightarrow> v2_tool_gate_decision" where
  "denied_gate name c reason =
     \<lparr>gd_allowed = False, gd_policy = shared_policy_decision name c PolicyDeny ''none'' ''tool_broker_v2_denied'',
      gd_reason = reason\<rparr>"

definition canonical_invocation_hash :: "externals \<Rightarrow> string \<Rightarrow> string \<Rightarrow> json \<Rightarrow> string" where
  "canonical_invocation_hash x name version arguments =
     ''sha256:'' @ sha256_hex x (framed [name, version, x_json_print x arguments])"

fun class_contract ::
  "capability_class \<Rightarrow> tool_effect \<times> tool_risk \<times> tool_approval_requirement \<times> tool_idempotency \<times> string" where
  "class_contract CapWrite = (EffWrite, RiskModerate, Required, KeyRequired, ''tool:write'')"
| "class_contract CapExecute = (EffExecute, RiskHigh, Required, NonIdempotent, ''tool:execute'')"
| "class_contract CapNetwork = (EffNetwork, RiskHigh, Required, NonIdempotent, ''tool:network'')"
| "class_contract _ = (EffRead, RiskLow, NotRequired, Idempotent, ''tool:read'')"

definition gate_manifest_input ::
  "string \<Rightarrow> string \<Rightarrow> capability_class \<Rightarrow> invocation_resources \<Rightarrow> tool_manifest_input" where
  "gate_manifest_input name version c resources =
     (case class_contract c of (effect, risk, approval, idempotency, required_scope) \<Rightarrow>
       \<lparr>tmi_name = name, tmi_version = version, tmi_effect = effect, tmi_risk = risk,
        tmi_required_scopes = [required_scope], tmi_approval = approval, tmi_idempotency = idempotency,
        tmi_filesystem = (if ir_filesystem_paths resources = [] then FsDenied
          else if effect = EffRead then FsReadOnly [''.''] else FsReadWrite [''.'']),
        tmi_network = (if ir_network_hosts resources = [] then NetDenied
          else AllowHosts (bt_from_list (ir_network_hosts resources))),
        tmi_environment = (if ir_environment_variables resources = [] then EnvDenied
          else AllowRead (bt_from_list (ir_environment_variables resources)))\<rparr>)"

definition gate_invocation_input ::
  "externals \<Rightarrow> authenticated_ingress \<Rightarrow> string \<Rightarrow> string \<Rightarrow> json \<Rightarrow> invocation_resources \<Rightarrow> tool_invocation_input" where
  "gate_invocation_input x ingress name version arguments resources =
     \<lparr>tvi_invocation_hash = canonical_invocation_hash x name version arguments,
      tvi_filesystem_paths = ir_filesystem_paths resources, tvi_network_hosts = ir_network_hosts resources,
      tvi_environment_variables = ir_environment_variables resources,
      tvi_idempotency_key = Some (ai_idempotency_key ingress)\<rparr>"

definition gate_authorization_input :: "authenticated_ingress \<Rightarrow> string \<Rightarrow> string \<Rightarrow> tool_authorization_input" where
  "gate_authorization_input ingress name version =
     \<lparr>tai_subject_id = subject_str (ai_subject_id ingress), tai_tool_name = name, tai_tool_version = version,
      tai_granted_scopes = ai_scopes ingress, tai_granted_effects = [], tai_filesystem_roots = [''.''],
      tai_network_hosts = [], tai_environment_variables = [], tai_approval = None\<rparr>"

definition authorize_builtin ::
  "gate_libs \<Rightarrow> authenticated_ingress \<Rightarrow> string \<Rightarrow> string \<Rightarrow> capability_class \<Rightarrow> json \<Rightarrow> instant \<Rightarrow> v2_tool_gate_decision" where
  "authorize_builtin G ingress name version c arguments now =
     (case from_arguments G arguments of
        Inl error \<Rightarrow> denied_gate name c error
      | Inr resources \<Rightarrow>
     if fst (class_contract c) = EffNetwork \<and> ir_network_hosts resources = []
     then denied_gate name c ''network tool has no canonical host declaration''
     else case new_manifest (gate_manifest_input name version c resources) of
        Inl error \<Rightarrow> denied_gate name c (''tool manifest rejected: '' @ gt_manifest_error G error)
      | Inr manifest \<Rightarrow>
     case new_invocation (gate_invocation_input (gt_externals G) ingress name version arguments resources) of
        Inl error \<Rightarrow> denied_gate name c (''tool invocation rejected: '' @ gt_authorization_error G error)
      | Inr invocation \<Rightarrow>
     case new_authorization (gate_authorization_input ingress name version) of
        Inl error \<Rightarrow> denied_gate name c (''tool authorization rejected: '' @ gt_authorization_error G error)
      | Inr authorization \<Rightarrow>
     case decide manifest invocation authorization now of
        Allow reason_code \<Rightarrow>
          \<lparr>gd_allowed = True,
           gd_policy = shared_policy_decision name c PolicyAllow (default_sandbox_scope c) ''tool_broker_v2_allowed'',
           gd_reason = reason_code\<rparr>
      | Deny reason \<Rightarrow> denied_gate name c (''tool broker denied invocation: '' @ gt_deny_reason G reason))"

text \<open>What the runtime answers for a tool without a manifest.\<close>

definition deny_unmanifested :: "string \<Rightarrow> capability_class \<Rightarrow> string \<Rightarrow> v2_tool_gate_decision" where
  "deny_unmanifested name c reason = denied_gate name c reason"

subsection \<open>What the gate lets through\<close>

text \<open>The arguments name no host, no URL and no environment variable, and only canonical paths.\<close>

definition local_arguments :: "json \<Rightarrow> bool" where
  "local_arguments arguments \<longleftrightarrow>
     (\<forall>key \<in> {''var'', ''host'', ''url'', ''endpoint''}. str_argument arguments key = None) \<and>
     (\<forall>key \<in> {''path'', ''source'', ''destination'', ''cwd''}. \<forall>value. str_argument arguments key = Some value \<longrightarrow>
        canonical_path (unbackslash value))"

lemma url_hosts_grows: "url_hosts G v keys hosts = Inr hs \<Longrightarrow> hosts \<noteq> [] \<Longrightarrow> hs \<noteq> []"
  by (induction keys arbitrary: hosts) (auto simp: result_simps split: option.splits)

lemma url_hosts_none: "url_hosts G v keys [] = Inr [] \<longleftrightarrow> (\<forall>key \<in> set keys. str_argument v key = None)"
  by (induction keys) (auto simp: result_simps dest: url_hosts_grows split: option.splits)

lemma from_arguments_local:
  "(\<exists>r. from_arguments G v = Inr r \<and> ir_network_hosts r = [] \<and> ir_environment_variables r = [] \<and>
      list_all canonical_path (ir_filesystem_paths r)) \<longleftrightarrow> local_arguments v"
proof -
  note url_hosts.simps [simp del]
  have sorted_nil: "remdups_adj (sort hosts) = [] \<longleftrightarrow> hosts = []" for hosts :: "string list"
    by (metis set_empty set_sort remdups_adj_set)
  have "(\<exists>r. from_arguments G v = Inr r \<and> ir_network_hosts r = [] \<and> ir_environment_variables r = [] \<and>
      list_all canonical_path (ir_filesystem_paths r)) \<longleftrightarrow>
      url_hosts G v [''url'', ''endpoint''] (host_arguments v) = Inr [] \<and> variable_arguments v = [] \<and>
      list_all canonical_path (path_arguments v)"
    unfolding from_arguments_def
    by (cases "url_hosts G v [''url'', ''endpoint''] (host_arguments v)")
      (simp_all only: and_then_simps, auto simp: sorted_nil list_all_iff simp del: remdups_adj_Nil_iff)
  moreover have "url_hosts G v [''url'', ''endpoint''] (host_arguments v) = Inr [] \<longleftrightarrow>
      host_arguments v = [] \<and> url_hosts G v [''url'', ''endpoint''] [] = Inr []"
    using url_hosts_grows [of G v "[''url'', ''endpoint'']" "host_arguments v" "[]"] by (cases "host_arguments v = []") metis+
  moreover have "list_all canonical_path (path_arguments v) \<longleftrightarrow>
      (\<forall>key \<in> {''path'', ''source'', ''destination'', ''cwd''}. \<forall>value. str_argument v key = Some value \<longrightarrow>
        canonical_path (unbackslash value))"
    unfolding path_arguments_def unbackslash_def [symmetric]
    by (simp add: map_filter_simps split: option.split)
  moreover have "host_arguments v = [] \<longleftrightarrow> str_argument v ''host'' = None" "variable_arguments v = [] \<longleftrightarrow> str_argument v ''var'' = None"
    by (simp_all add: host_arguments_def variable_arguments_def split: option.split)
  ultimately show ?thesis
    unfolding local_arguments_def url_hosts_none by auto
qed

text \<open>What the constructor of the ingress guarantees about the fields the gate uses.\<close>

lemma new_ingress_fields:
  assumes "new_ingress input t = Inr ingress"
  shows "is_token (subject_str (ai_subject_id ingress)) 256" and "ascii_token ''._:-'' 8 128 (ai_idempotency_key ingress)"
    and "list_all is_scope (ai_scopes ingress)" and "distinct (ai_scopes ingress)"
  using assms
  by (auto simp: new_ingress_def result_simps ingress_scopes.run_ok is_token_iff is_scope_iff list_all_iff bt_from_list_wf [unfolded bt_wf_def]
      split: if_splits)

lemma gate_authorization:
  assumes "new_ingress input t = Inr ingress"
  shows "new_authorization (gate_authorization_input ingress name version) = Inr a \<longleftrightarrow>
    is_token name 128 \<and> is_token version 64 \<and>
    a = \<lparr>ta_subject_id = subject_str (ai_subject_id ingress), ta_tool_name = name, ta_tool_version = version,
         ta_granted_scopes = bt_from_list (ai_scopes ingress), ta_granted_effects = [], ta_filesystem_roots = [''.''],
         ta_network_hosts = [], ta_environment_variables = [], ta_approval = None\<rparr>"
proof -
  have "canonical_relative_path ''.'' = Some ''.''"
    by (simp add: canonical_relative_path_alt no_outer_space_graphic byte_class_defs unbackslash_def)
  then show ?thesis
    using new_ingress_fields [OF assms]
    by (auto simp: new_authorization_def gate_authorization_input_def result_simps collector_defs authorization_scopes.run_ok
        bt_from_list_def bt_insert_def)
qed

lemma gate_invocation:
  assumes "new_ingress input t = Inr ingress" and "\<forall>b. hex_digest (sha256_hex x b)"
    and "ir_network_hosts r = []" and "ir_environment_variables r = []" and "distinct (ir_filesystem_paths r)"
  shows "new_invocation (gate_invocation_input x ingress name version v r) = Inr i \<longleftrightarrow>
    list_all canonical_path (ir_filesystem_paths r) \<and>
    i = \<lparr>tv_invocation_hash = canonical_invocation_hash x name version v,
         tv_filesystem_paths = bt_from_list (ir_filesystem_paths r), tv_network_hosts = [], tv_environment_variables = [],
         tv_idempotency_key = Some (ai_idempotency_key ingress)\<rparr>"
proof -
  have "validate_invocation_hash (canonical_invocation_hash x name version v) = Inr ()"
    using assms(2)
    by (simp add: validate_invocation_hash_def canonical_invocation_hash_def strip_prefix_append hex_digest_def list_all_iff
        del: append.simps)
  moreover have "validate_optional_idempotency_key (Some (ai_idempotency_key ingress)) = Inr (Some (ai_idempotency_key ingress))"
    using new_ingress_fields(2) [OF assms(1)] trim_ascii_token [of "''._:-''" 8 128 "ai_idempotency_key ingress"]
    by (auto simp: validate_optional_idempotency_key_def ascii_token_def list_all_iff punctuation_graphic)
  ultimately show ?thesis
    using assms(3-5)
    by (auto simp: new_invocation_def gate_invocation_input_def collector_defs result_simps paths.run_ok canonical_path_iff)
qed

lemma sorted_remdups_adj_distinct: "sorted xs \<Longrightarrow> distinct (remdups_adj xs)"
  by (induction xs rule: remdups_adj.induct) (auto simp: antisym)

lemma from_arguments_distinct: "from_arguments G v = Inr r \<Longrightarrow> distinct (ir_filesystem_paths r)"
  by (auto simp: from_arguments_def result_simps sorted_remdups_adj_distinct)

lemma gate_manifest_local:
  assumes "is_concurrency_safe c" and "ir_network_hosts r = []" and "ir_environment_variables r = []"
  shows "new_manifest (gate_manifest_input name version c r) = Inr m \<longleftrightarrow>
    is_token name 128 \<and> is_token version 64 \<and> m = manifest_of (gate_manifest_input name version c r)"
proof -
  have "canonical_path ''.''" "is_scope ''tool:read''"
    by (simp_all add: canonical_path_def no_outer_space_graphic byte_class_defs is_scope_iff ascii_token_def)
  moreover have "class_contract c = (EffRead, RiskLow, NotRequired, Idempotent, ''tool:read'')"
    using assms(1) by (auto simp: is_concurrency_safe_def)
  ultimately show ?thesis
    using assms(2,3) by (auto simp: new_manifest_ok manifest_input_ok_def gate_manifest_input_def)
qed

lemma gate_manifest_shape:
  "tm_required_scopes (manifest_of (gate_manifest_input name version c r)) = [snd (snd (snd (snd (class_contract c))))]"
  "tm_effect (manifest_of (gate_manifest_input name version c r)) = fst (class_contract c)"
  "tm_network (manifest_of (gate_manifest_input name version c r)) =
     (if ir_network_hosts r = [] then NetDenied else AllowHosts (bt_from_list (ir_network_hosts r)))"
  "tm_name (manifest_of (gate_manifest_input name version c r)) = name"
  "tm_version (manifest_of (gate_manifest_input name version c r)) = version"
  by (auto simp: manifest_of_def gate_manifest_input_def bt_from_list_def bt_insert_def split: prod.split)

lemma authorize_builtin_allowed:
  "gd_allowed (authorize_builtin G ingress name version c v now) \<longleftrightarrow>
     (\<exists>r m i a. from_arguments G v = Inr r \<and> \<not> (fst (class_contract c) = EffNetwork \<and> ir_network_hosts r = []) \<and>
        new_manifest (gate_manifest_input name version c r) = Inr m \<and>
        new_invocation (gate_invocation_input (gt_externals G) ingress name version v r) = Inr i \<and>
        new_authorization (gate_authorization_input ingress name version) = Inr a \<and> is_allowed (decide m i a now))"
  by (auto simp: authorize_builtin_def denied_gate_def split: sum.splits tool_policy_decision.splits)

text \<open>A grant list without effects, hosts and variables lets only observation through.\<close>

lemma gate_decision_local:
  assumes "new_manifest (gate_manifest_input name version c r) = Inr m"
    and "new_invocation (gate_invocation_input x ingress name version v r) = Inr i"
    and "new_authorization (gate_authorization_input ingress name version) = Inr a" and "is_allowed (decide m i a now)"
  shows "is_concurrency_safe c \<and> ir_network_hosts r = [] \<and> ir_environment_variables r = []"
proof -
  have a: "ta_granted_effects a = []" "ta_environment_variables a = []"
    using assms(3) by (auto simp: new_authorization_def gate_authorization_input_def result_simps collector_defs bt_from_list_def)
  have m: "m = manifest_of (gate_manifest_input name version c r)"
    using assms(1) by (simp add: new_manifest_ok)
  have "tv_environment_variables i = bt_from_list (ir_environment_variables r)"
    using assms(2) by (auto simp: new_invocation_def gate_invocation_input_def result_simps collector_defs environment.run_ok)
  then have "ir_environment_variables r = []"
    using assms(4) a(2) by (auto simp: decide_allowed decide_environment_None variables_granted_def)
  moreover have "is_concurrency_safe c \<and> ir_network_hosts r = []"
    using assms(4) a(1) unfolding decide_allowed decide_effects_None effects_granted_def m gate_manifest_shape
    by (cases c) (auto simp: is_concurrency_safe_def split: if_splits)
  ultimately show ?thesis by blast
qed

lemma gate_decision_read:
  assumes "is_concurrency_safe c" and "ir_network_hosts r = []" and "ir_environment_variables r = []"
    and "a = \<lparr>ta_subject_id = s, ta_tool_name = name, ta_tool_version = version,
      ta_granted_scopes = bt_from_list scopes, ta_granted_effects = [], ta_filesystem_roots = [''.''],
      ta_network_hosts = [], ta_environment_variables = [], ta_approval = None\<rparr>"
    and "i = \<lparr>tv_invocation_hash = h, tv_filesystem_paths = bt_from_list (ir_filesystem_paths r), tv_network_hosts = [],
      tv_environment_variables = [], tv_idempotency_key = Some k\<rparr>"
  shows "is_allowed (decide (manifest_of (gate_manifest_input name version c r)) i a now) \<longleftrightarrow> ''tool:read'' \<in> set scopes"
proof -
  have "class_contract c = (EffRead, RiskLow, NotRequired, Idempotent, ''tool:read'')"
    using assms(1) by (auto simp: is_concurrency_safe_def)
  then show ?thesis
    using assms(2-5)
    by (auto simp: decide_allowed missing_scope_None decide_effects_None decide_approval_None decide_filesystem_None
        decide_network_None decide_environment_None effects_granted_def approval_required_def paths_granted_def
        hosts_granted_def variables_granted_def manifest_of_def gate_manifest_input_def within_root_def)
qed

text \<open>
  C10. The gate is read-only: for a constructed ingress, a built-in tool passes exactly when its class is
  an observation (read, memory, external), the ingress holds the read scope, name and version are well
  formed, and the arguments name no host, no URL and no environment variable, only canonical relative
  paths without traversal; no call of a writing, executing or networking class ever passes, whatever
  scopes the ingress holds.
\<close>

theorem gate_allows_iff:
  assumes "new_ingress input t = Inr ingress" and "\<forall>b. hex_digest (sha256_hex (gt_externals G) b)"
  shows "gd_allowed (authorize_builtin G ingress name version c arguments now) \<longleftrightarrow>
    is_concurrency_safe c \<and> ''tool:read'' \<in> set (ai_scopes ingress) \<and> is_token name 128 \<and> is_token version 64 \<and>
    local_arguments arguments" (is "?L \<longleftrightarrow> ?R")
proof
  assume ?L
  then obtain r m i a where r: "from_arguments G arguments = Inr r"
    and m: "new_manifest (gate_manifest_input name version c r) = Inr m"
    and i: "new_invocation (gate_invocation_input (gt_externals G) ingress name version arguments r) = Inr i"
    and a: "new_authorization (gate_authorization_input ingress name version) = Inr a" and d: "is_allowed (decide m i a now)"
    unfolding authorize_builtin_allowed by blast
  have c: "is_concurrency_safe c" "ir_network_hosts r = []" "ir_environment_variables r = []"
    using gate_decision_local [OF m i a d] by auto
  note inv = gate_invocation [OF assms c(2,3) from_arguments_distinct [OF r], THEN iffD1, OF i]
  note auth = gate_authorization [OF assms(1), THEN iffD1, OF a]
  have "m = manifest_of (gate_manifest_input name version c r)"
    using m by (simp add: new_manifest_ok)
  then show ?R
    using gate_decision_read [OF c auth [THEN conjunct2, THEN conjunct2] inv [THEN conjunct2]] d auth inv c(1) r c(2,3)
      from_arguments_local [of G arguments] by auto
next
  assume R: ?R
  obtain r where r: "from_arguments G arguments = Inr r" "ir_network_hosts r = []" "ir_environment_variables r = []"
    "list_all canonical_path (ir_filesystem_paths r)"
    using R from_arguments_local [of G arguments] by auto
  have "fst (class_contract c) \<noteq> EffNetwork"
    using R by (auto simp: is_concurrency_safe_def)
  moreover note gate_manifest_local [OF conjunct1 [OF R] r(2,3), of name version]
  moreover note gate_invocation [OF assms r(2,3) from_arguments_distinct [OF r(1)], of name version arguments]
  moreover note gate_authorization [OF assms(1), of name version]
  moreover note gate_decision_read [OF conjunct1 [OF R] r(2,3) refl refl]
  ultimately show ?L
    unfolding authorize_builtin_allowed using R r(1,4) by auto
qed

subsection \<open>A local ingress\<close>

definition gate_demo_input :: authenticated_ingress_input where
  "gate_demo_input =
     \<lparr>aii_tenant_id = ''local'', aii_subject_id = ''agent-1'', aii_principal_id = PrincipalId ''agent-1'',
      aii_workspace_id = WorkspaceId ''main'', aii_profile_id = ''default'', aii_session_id = SessionId ''session-1'',
      aii_source = \<lparr>asi_surface = ''cli'', asi_source_id = ''message-1''\<rparr>, aii_deadline = seconds 60,
      aii_scopes = [''turn:submit'', ''tool:read'', ''tool:write''], aii_idempotency_key = ''wake:0001'', aii_attachments = []\<rparr>"

definition demo_gate :: gate_libs where
  "demo_gate =
     \<lparr>gt_externals = demo_externals\<lparr>x_sha256 := \<lambda>_. replicate 32 CHR ''0''\<rparr>, gt_url_parse = (\<lambda>_. Inr (Some ''host'', None)),
      gt_manifest_error = (\<lambda>_. []), gt_authorization_error = (\<lambda>_. []), gt_deny_reason = (\<lambda>_. [])\<rparr>"

lemma gate_demo_accepted:
  "\<exists>ingress. new_ingress gate_demo_input 0 = Inr ingress \<and> set (ai_scopes ingress) = {''turn:submit'', ''tool:read'', ''tool:write''}"
proof -
  have "list_all (ascii_token ''._:-@'' 1 256) [''local'', ''agent-1'', ''main'', ''default'', ''session-1'', ''cli'', ''message-1'']"
    by (simp add: ascii_token_def byte_class_defs)
  then have ids: "v \<in> set [''local'', ''agent-1'', ''main'', ''default'', ''session-1'', ''cli'', ''message-1''] \<Longrightarrow>
      validate_identifier f v = Inr ()" for f v
    unfolding validate_identifier_ok list_all_iff by (rule bspec)
  have key: "validate_idempotency_key ''wake:0001'' = Inr ()"
    by (simp add: validate_idempotency_key_ok ascii_token_def byte_class_defs)
  have scopes: "list_all (ascii_token ''._:-'' 1 128) [''turn:submit'', ''tool:read'', ''tool:write'']"
    by (simp add: ascii_token_def byte_class_defs)
  have "collect_scopes [] [''turn:submit'', ''tool:read'', ''tool:write''] =
      Inr (bt_from_list [''turn:submit'', ''tool:read'', ''tool:write''])"
    unfolding ingress_scopes.run_ok using scopes by simp
  then show ?thesis
    by (simp add: new_ingress_def gate_demo_input_def ids key
        MAX_DEADLINE_HORIZON_SECONDS_def seconds_def MAX_SCOPES_def MAX_ATTACHMENTS_def del: collect_scopes.simps)
qed

theorem gate_allows_iff_witness:
  "\<exists>ingress. new_ingress gate_demo_input 0 = Inr ingress \<and>
     gd_allowed (authorize_builtin demo_gate ingress ''fs_read'' ''1.0'' CapRead (JObj [(''path'', JStr ''src/a'')]) 5) \<and>
     \<not> gd_allowed (authorize_builtin demo_gate ingress ''fs_write'' ''1.0'' CapWrite (JObj [(''path'', JStr ''src/a'')]) 5)"
proof -
  obtain ingress where i: "new_ingress gate_demo_input 0 = Inr ingress" "''tool:read'' \<in> set (ai_scopes ingress)"
    using gate_demo_accepted by auto
  have h: "\<forall>b. hex_digest (sha256_hex (gt_externals demo_gate) b)"
    by (simp add: demo_gate_def sha256_hex_def demo_externals_def hex_digest_def byte_class_defs)
  have "canonical_path ''src/a''"
    using sample_paths(2) by (simp only: canonical_path_iff)
  then have "local_arguments (JObj [(''path'', JStr ''src/a'')])"
    by (auto simp: local_arguments_def str_argument_def unbackslash_id)
  moreover have "is_token ''fs_read'' 128" "is_token ''1.0'' 64"
    by (simp_all add: is_token_iff ascii_token_def byte_class_defs)
  ultimately show ?thesis
    using i gate_allows_iff [OF i(1) h, of "''fs_read''" "''1.0''" CapRead "JObj [(''path'', JStr ''src/a'')]" 5]
      gate_allows_iff [OF i(1) h, of "''fs_write''" "''1.0''" CapWrite "JObj [(''path'', JStr ''src/a'')]" 5]
    by (auto simp: is_concurrency_safe_def)
qed

end
