(* ===== verification/Turn_Contract.thy ===== *)
theory Turn_Contract
  imports Store_Retry Canonical_Envelope Tool_Gate
begin

text \<open>
  The durable contract of a local wake (\<open>crates/zaion-cli/src/commands/process/wake_contract_v2.rs\<close>): the
  ingress of a message, the lookup of an earlier turn for the same message, the admission with its
  reconciliation of a concurrent retry, the transitions of the contract, its terminal commit, and what
  happens when a wake fails or leaves its scope. Opening the store is left out: an operation works on the
  database. The gate in front of tools is \<open>Tool_Gate\<close>. Error texts, the lease owner with its random part
  and the clock are arguments; so is what other processes do between the first lookup and the admission.
\<close>

datatype process_state = ProcCreated | ProcAwake | ProcSleeping | ProcMigrating

record agentic_process =
  ap_principal_id :: string
  ap_public_key_hex :: string
  ap_state :: process_state
  ap_workspace_id :: string
  ap_project_id :: string
  ap_created_at :: string
  ap_updated_at :: string

record contract_libs =
  ct_libs :: turn_libs
  ct_envelope_from_value :: "json \<Rightarrow> string + canonical_envelope"
  ct_rfc3339_error :: "string \<Rightarrow> string"
  ct_envelope_error :: "canonical_envelope_error \<Rightarrow> string"
  ct_ingress_error :: "ingress_validation_error \<Rightarrow> string"
  ct_store_error :: "turn_store_error \<Rightarrow> string"
  ct_transition_error :: "turn_transition_error \<Rightarrow> string"
  ct_execution_error :: "json \<Rightarrow> string"
  ct_state_debug :: "turn_state \<Rightarrow> string"

definition feature_flag_value :: "string option \<Rightarrow> bool" where
  "feature_flag_value value =
     (case value of None \<Rightarrow> False | Some v \<Rightarrow> to_ascii_lowercase (trim v) \<in> {''1'', ''true'', ''yes''})"

definition turn_contract_v2_enabled :: "string option \<Rightarrow> bool \<Rightarrow> bool" where
  "turn_contract_v2_enabled env requested = (requested \<or> feature_flag_value env)"

definition active_profile_id :: "string option \<Rightarrow> string" where
  "active_profile_id env = (case env of None \<Rightarrow> ''default'' | Some v \<Rightarrow> if trim v \<noteq> [] then v else ''default'')"

subsection \<open>The ingress of a message\<close>

definition validate_local_source :: "canonical_envelope \<Rightarrow> string + unit" where
  "validate_local_source envelope =
     (if List.member [''cli'', ''internal-queue'', ''internal-background'', ''telegram'', ''http'', ''mcp-http'', ''acp-stdio'',
           ''api'', ''federation'', ''slack'', ''tui''] (env_source envelope)
      then Inr ()
      else Inl (''turn contract v2 is currently enabled only for local CLI-derived ingress, not '' @ env_source envelope))"

definition local_message_identity :: "turn_libs \<Rightarrow> canonical_envelope \<Rightarrow> string" where
  "local_message_identity L envelope =
     hash_parts L [env_source envelope, principal_str (env_principal envelope), channel_str (env_channel envelope),
       thread_str (env_thread envelope), env_message_id envelope]"

text \<open>The six parts of the conversation's identity, hashed for the session and for the actor.\<close>

definition local_actor_parts :: "agentic_process \<Rightarrow> canonical_envelope \<Rightarrow> string \<Rightarrow> string list" where
  "local_actor_parts process envelope profile_id =
     [''local'', principal_str (env_principal envelope), ap_workspace_id process, profile_id,
      channel_str (env_channel envelope), thread_str (env_thread envelope)]"

definition local_session_id :: "turn_libs \<Rightarrow> agentic_process \<Rightarrow> canonical_envelope \<Rightarrow> string \<Rightarrow> string" where
  "local_session_id L process envelope profile_id =
     ''session-'' @ take 40 (hash_parts L (local_actor_parts process envelope profile_id))"

definition local_idempotency_key :: "turn_libs \<Rightarrow> canonical_envelope \<Rightarrow> string" where
  "local_idempotency_key L envelope = ''wake:'' @ take 40 (local_message_identity L envelope)"

definition local_source_id :: "turn_libs \<Rightarrow> canonical_envelope \<Rightarrow> string" where
  "local_source_id L envelope = ''message-'' @ take 40 (local_message_identity L envelope)"

definition parse_received_at :: "contract_libs \<Rightarrow> string \<Rightarrow> canonical_envelope \<Rightarrow> string + instant" where
  "parse_received_at C what envelope =
     ok_or (what @ '' received_at is invalid: '' @ ct_rfc3339_error C (env_received_at envelope))
       (tl_parse_rfc3339 (ct_libs C) (env_received_at envelope))"

definition local_ingress_input ::
  "contract_libs \<Rightarrow> agentic_process \<Rightarrow> canonical_envelope \<Rightarrow> string \<Rightarrow> instant \<Rightarrow> authenticated_ingress_input" where
  "local_ingress_input C process envelope profile_id received_at =
     \<lparr>aii_tenant_id = ''local'', aii_subject_id = principal_str (env_principal envelope),
      aii_principal_id = env_principal envelope, aii_workspace_id = WorkspaceId (ap_workspace_id process),
      aii_profile_id = profile_id, aii_session_id = SessionId (local_session_id (ct_libs C) process envelope profile_id),
      aii_source = \<lparr>asi_surface = env_source envelope, asi_source_id = local_source_id (ct_libs C) envelope\<rparr>,
      aii_deadline = received_at + seconds (15 * 60), aii_scopes = [''turn:submit'', ''tool:read''],
      aii_idempotency_key = local_idempotency_key (ct_libs C) envelope, aii_attachments = []\<rparr>"

definition local_cli_ingress ::
  "contract_libs \<Rightarrow> agentic_process \<Rightarrow> canonical_envelope \<Rightarrow> string \<Rightarrow> instant \<Rightarrow> string + authenticated_ingress" where
  "local_cli_ingress C process envelope profile_id now =
     and_then (validate_local_source envelope) (\<lambda>_.
     and_then (parse_received_at C ''canonical envelope'' envelope) (\<lambda>received_at.
     map_err (\<lambda>error. ''authenticated CLI ingress rejected: '' @ ct_ingress_error C error)
       (new_ingress (local_ingress_input C process envelope profile_id received_at) now)))"

subsection \<open>The earlier turn of a message\<close>

text \<open>The derived serialisation of \<open>CanonicalEnvelope\<close>, and the view that a retry must repeat.\<close>

definition envelope_to_value :: "canonical_envelope \<Rightarrow> json" where
  "envelope_to_value e =
     JObj [(''schema_version'', JInt (uint (env_schema_version e))), (''source'', JStr (env_source e)),
       (''principal'', JStr (principal_str (env_principal e))), (''channel'', JStr (channel_str (env_channel e))),
       (''thread'', JStr (thread_str (env_thread e))), (''message_id'', JStr (env_message_id e)),
       (''source_hash'', JStr (env_source_hash e)), (''body'', JStr (env_body e)),
       (''received_at'', JStr (env_received_at e)),
       (''signature'', case env_signature e of None \<Rightarrow> JNull
          | Some s \<Rightarrow> JArr (map (\<lambda>b. JInt (int (of_char b))) (signature_vec s))),
       (''metadata'', JObj (env_metadata e))]"

definition envelope_retry_view :: "canonical_envelope \<Rightarrow> json" where
  "envelope_retry_view envelope =
     (case envelope_to_value envelope of
        JObj kvs \<Rightarrow> JObj (filter (\<lambda>kv. fst kv \<noteq> ''received_at'') kvs)
      | v \<Rightarrow> v)"

text \<open>The errors that say the store holds something it should not.\<close>

definition integrity_failure :: "turn_store_error \<Rightarrow> bool" where
  "integrity_failure error =
     (case error of
        HashMismatch _ \<Rightarrow> True
      | RecordBindingMismatch _ \<Rightarrow> True
      | CorruptState _ \<Rightarrow> True
      | CorruptOutboxStatus _ \<Rightarrow> True
      | CorruptRevision _ \<Rightarrow> True
      | CorruptTimestamp _ _ \<Rightarrow> True
      | ActorAuthorityMismatch \<Rightarrow> True
      | MissingTerminalResult \<Rightarrow> True
      | NonTerminalResult \<Rightarrow> True
      | TerminalOutcomeMismatch _ _ \<Rightarrow> True
      | TurnJson \<Rightarrow> True
      | _ \<Rightarrow> False)"

definition classify_turn_store_lookup_error :: "contract_libs \<Rightarrow> string \<Rightarrow> turn_store_error \<Rightarrow> string" where
  "classify_turn_store_lookup_error C ctxt error =
     (if integrity_failure error then ''IntegrityFailure: '' @ ctxt @ '': '' @ ct_store_error C error
      else ctxt @ '': '' @ ct_store_error C error)"

text \<open>\<open>DurableTurnStore::load_by_idempotency_key\<close> is \<open>load_by_idempotency\<close>.\<close>

definition expected_authority ::
  "turn_libs \<Rightarrow> agentic_process \<Rightarrow> canonical_envelope \<Rightarrow> string \<Rightarrow> string \<Rightarrow> string \<Rightarrow> instant \<Rightarrow> json" where
  "expected_authority L process stored_envelope profile_id source_id idempotency_key received_at =
     JObj [(''tenant_id'', JStr ''local''), (''subject_id'', JStr (principal_str (env_principal stored_envelope))),
       (''principal_id'', JStr (principal_str (env_principal stored_envelope))),
       (''workspace_id'', JStr (ap_workspace_id process)), (''profile_id'', JStr profile_id),
       (''session_id'', JStr (local_session_id L process stored_envelope profile_id)),
       (''source'', JObj [(''surface'', JStr (env_source stored_envelope)), (''source_id'', JStr source_id)]),
       (''deadline'', JStr (tl_rfc3339 L (received_at + seconds (15 * 60)))),
       (''scopes'', JArr [JStr ''tool:read'', JStr ''turn:submit'']), (''idempotency_key'', JStr idempotency_key),
       (''attachments'', JArr [])]"

definition find_local_cli_duplicate ::
  "contract_libs \<Rightarrow> agentic_process \<Rightarrow> canonical_envelope \<Rightarrow> string \<Rightarrow> turn_db \<Rightarrow> string + durable_turn_record option" where
  "find_local_cli_duplicate C process envelope profile_id db =
     (let L = ct_libs C; json_eq = x_json_eq (tl_externals L) in
     and_then (validate_local_source envelope) (\<lambda>_.
     and_then (parse_received_at C ''canonical envelope'' envelope) (\<lambda>_.
     and_then (map_err (classify_turn_store_lookup_error C ''durable turn lookup failed'')
       (load_by_idempotency L ''local'' (local_idempotency_key L envelope) db)) (\<lambda>found.
     case found of
       None \<Rightarrow> Inr None
     | Some record \<Rightarrow>
         and_then (map_err (\<lambda>error. ''persisted duplicate envelope is invalid: '' @ error)
           (ct_envelope_from_value C (dt_request record))) (\<lambda>stored_envelope.
         and_then (map_err (\<lambda>error. ''persisted duplicate envelope is invalid: '' @ ct_envelope_error C error)
           (validate_envelope (tl_externals L) stored_envelope)) (\<lambda>_.
         if \<not> json_eq (envelope_retry_view envelope) (envelope_retry_view stored_envelope)
         then Inl (''IdempotencyConflict: message '' @ env_message_id envelope @ '' is already bound to a different request'')
         else
           and_then (parse_received_at C ''persisted duplicate'' stored_envelope) (\<lambda>received_at.
           if \<not> json_eq (dt_authority record) (expected_authority L process stored_envelope profile_id
                (local_source_id L envelope) (local_idempotency_key L envelope) received_at) \<or>
              dt_actor_key record \<noteq> ''actor-'' @ take 40 (hash_parts L (local_actor_parts process stored_envelope profile_id))
           then Inl (''IdempotencyConflict: message '' @ env_message_id envelope @ '' is bound to different local authority'')
           else Inr (Some record))))))))"

subsection \<open>The contract\<close>

record durable_turn_authority =
  au_tenant_id :: string
  au_turn_id :: string
  au_lease_owner :: string

record turn_contract_v2 =
  tc_ingress :: authenticated_ingress
  tc_state :: versioned_turn_state
  tc_durable :: "durable_turn_authority option"

datatype turn_contract_admission =
  ContractCreated turn_contract_v2
  | ContractDuplicate durable_turn_record

definition new_contract :: "authenticated_ingress \<Rightarrow> turn_contract_v2" where
  "new_contract ingress = \<lparr>tc_ingress = ingress, tc_state = accepted, tc_durable = None\<rparr>"

definition begin_durable ::
  "contract_libs \<Rightarrow> authenticated_ingress \<Rightarrow> canonical_envelope \<Rightarrow> string \<Rightarrow> instant \<Rightarrow> turn_db \<Rightarrow>
     string + turn_contract_admission \<times> turn_db" where
  "begin_durable C ingress envelope lease_owner now db =
     and_then (map_err (\<lambda>error. ''durable turn actor rejected: '' @ ct_store_error C error)
       (for_ingress (ct_libs C) ingress (channel_str (env_channel envelope)) (thread_str (env_thread envelope)))) (\<lambda>actor.
     and_then (map_err (\<lambda>error. ''durable turn admission rejected: '' @ ct_store_error C error)
       (new_admission actor (envelope_to_value envelope) lease_owner)) (\<lambda>admission.
     and_then (map_err (\<lambda>error. ''durable turn admission failed: '' @ ct_store_error C error)
       (begin_turn (ct_libs C) ingress admission now db)) (\<lambda>(result, db).
     case result of
       TurnCreated record \<Rightarrow>
         Inr (ContractCreated
           \<lparr>tc_ingress = ingress, tc_state = dt_state record,
            tc_durable = Some \<lparr>au_tenant_id = dt_tenant_id record, au_turn_id = dt_turn_id record, au_lease_owner = lease_owner\<rparr>\<rparr>, db)
     | TurnExisting record \<Rightarrow> Inr (ContractDuplicate record, db))))"

definition begin_local_cli_inner ::
  "contract_libs \<Rightarrow> agentic_process \<Rightarrow> canonical_envelope \<Rightarrow> string \<Rightarrow> string \<Rightarrow> instant \<Rightarrow> (turn_db \<Rightarrow> turn_db) \<Rightarrow> turn_db \<Rightarrow>
     string + turn_contract_admission \<times> turn_db" where
  "begin_local_cli_inner C process envelope profile_id lease_owner now after_initial_lookup db =
     and_then (find_local_cli_duplicate C process envelope profile_id db) (\<lambda>existing.
     let db = after_initial_lookup db in
     case existing of
       Some record \<Rightarrow> Inr (ContractDuplicate record, db)
     | None \<Rightarrow>
         and_then (local_cli_ingress C process envelope profile_id now) (\<lambda>ingress.
         case begin_durable C ingress envelope lease_owner now db of
           Inr admission \<Rightarrow> Inr admission
         | Inl admission_error \<Rightarrow>
             (case find_local_cli_duplicate C process envelope profile_id db of
                Inr (Some record) \<Rightarrow> Inr (ContractDuplicate record, db)
              | Inr None \<Rightarrow> Inl admission_error
              | Inl reconciliation_error \<Rightarrow>
                  Inl (admission_error @ ''; concurrent retry reconciliation failed: '' @ reconciliation_error))))"

definition begin_local_cli ::
  "contract_libs \<Rightarrow> agentic_process \<Rightarrow> canonical_envelope \<Rightarrow> string \<Rightarrow> string \<Rightarrow> instant \<Rightarrow> turn_db \<Rightarrow>
     string + turn_contract_admission \<times> turn_db" where
  "begin_local_cli C process envelope profile_id lease_owner now db =
     begin_local_cli_inner C process envelope profile_id lease_owner now (\<lambda>db. db) db"

definition recover_local_cli :: "contract_libs \<Rightarrow> instant \<Rightarrow> turn_db \<Rightarrow> string + nat \<times> turn_db" where
  "recover_local_cli C now db =
     map_err (\<lambda>error. ''durable turn recovery failed: '' @ ct_store_error C error)
       (and_then (recover_expired_actor_leases (ct_libs C) ''local'' now 1000 db) (\<lambda>(records, db). Inr (length records, db)))"

definition contract_turn_id :: "turn_contract_v2 \<Rightarrow> string option" where
  "contract_turn_id self = map_option au_turn_id (tc_durable self)"

definition contract_transition ::
  "contract_libs \<Rightarrow> turn_contract_v2 \<Rightarrow> turn_state \<Rightarrow> instant \<Rightarrow> turn_db \<Rightarrow>
     string + turn_contract_v2 \<times> turn_db" where
  "contract_transition C self next now db =
     (case tc_durable self of
        Some authority \<Rightarrow>
          and_then (map_err (\<lambda>error. ''durable turn transition rejected: '' @ ct_store_error C error)
            (store_transition (ct_libs C) (au_tenant_id authority) (au_turn_id authority) (au_lease_owner authority)
              (vts_state (tc_state self)) (vts_revision (tc_state self)) next now db)) (\<lambda>(record, db).
          Inr (self\<lparr>tc_state := dt_state record\<rparr>, db))
      | None \<Rightarrow>
          and_then (map_err (\<lambda>error. ''turn contract v2 transition rejected: '' @ ct_transition_error C error)
            (compare_and_transition (tc_state self) (vts_state (tc_state self)) (vts_revision (tc_state self)) next)) (\<lambda>state.
          Inr (self\<lparr>tc_state := state\<rparr>, db)))"

definition finish_execution ::
  "contract_libs \<Rightarrow> turn_contract_v2 \<Rightarrow> turn_execution \<Rightarrow> instant \<Rightarrow> turn_db \<Rightarrow>
     string + turn_contract_v2 \<times> turn_db" where
  "finish_execution C self execution now db =
     (case tc_durable self of
        Some authority \<Rightarrow>
          and_then (map_err (\<lambda>error. ''durable terminal transition rejected: '' @ ct_store_error C error)
            (store_transition_with_result (ct_libs C) (au_tenant_id authority) (au_turn_id authority) (au_lease_owner authority)
              (vts_state (tc_state self)) (vts_revision (tc_state self)) (terminal_state execution) execution now db)) (\<lambda>(record, db).
          Inr (self\<lparr>tc_state := dt_state record\<rparr>, db))
      | None \<Rightarrow> contract_transition C self (terminal_state execution) now db)"

text \<open>What a failed wake is recorded as: aborted before it ran, quarantined once it may have had effects.\<close>

definition failure_execution :: "turn_state \<Rightarrow> string \<Rightarrow> turn_execution option" where
  "failure_execution state message =
     (if state \<in> {Accepted, Routed, WaitingApproval}
      then Some (aborted_execution \<lparr>te_reason_code = ''wake_pipeline_error'', te_message = message\<rparr>
        \<lparr>plt_appended_event_ids = [], plt_last_safe_parent_event_id = None\<rparr>)
      else if state \<in> {Running, ToolRunning}
      then Some (Finished None (OutcomeQuarantined
        \<lparr>qe_level = 3, qe_reason_code = ''wake_pipeline_error_after_running'', qe_diagnostic_scope = ''durable_turn''\<rparr>))
      else None)"

definition fail_execution ::
  "contract_libs \<Rightarrow> turn_contract_v2 \<Rightarrow> string \<Rightarrow> instant \<Rightarrow> turn_db \<Rightarrow>
     string + turn_contract_v2 \<times> turn_db" where
  "fail_execution C self message now db =
     (if is_terminal (vts_state (tc_state self)) then Inr (self, db)
      else case failure_execution (vts_state (tc_state self)) message of
        None \<Rightarrow> Inr (self, db)
      | Some execution \<Rightarrow> finish_execution C self execution now db)"

text \<open>\<open>Drop\<close>: the last attempt to commit a terminal state; an error is ignored.\<close>

definition drop_contract :: "contract_libs \<Rightarrow> turn_contract_v2 \<Rightarrow> instant \<Rightarrow> turn_db \<Rightarrow> turn_db" where
  "drop_contract C self now db =
     (if is_terminal (vts_state (tc_state self)) then db
      else case fail_execution C self ''turn contract left scope before explicit terminal commit'' now db of
        Inl _ \<Rightarrow> db
      | Inr (_, db) \<Rightarrow> db)"

text \<open>The answer to a duplicate: the result that the first turn left, once it has one.\<close>

definition duplicate_execution :: "contract_libs \<Rightarrow> durable_turn_record \<Rightarrow> string + turn_execution" where
  "duplicate_execution C record =
     (if \<not> is_terminal (vts_state (dt_state record))
      then Inl (''DuplicateIngress: turn '' @ dt_turn_id record @ '' is already '' @ ct_state_debug C (vts_state (dt_state record)) @
        '' at revision '' @ show_nat (unat (vts_revision (dt_state record))))
      else
        and_then (ok_or (''DuplicateIngress: terminal turn '' @ dt_turn_id record @ '' has no persisted result'')
          (dt_terminal_result record)) (\<lambda>result.
        ok_or (''DuplicateIngress: terminal result for turn '' @ dt_turn_id record @ '' is invalid: '' @ ct_execution_error C result)
          (tl_execution_from_value (ct_libs C) result)))"

text \<open>The gate of the contract for a built-in tool.\<close>

definition contract_authorize_builtin ::
  "gate_libs \<Rightarrow> turn_contract_v2 \<Rightarrow> string \<Rightarrow> string \<Rightarrow> capability_class \<Rightarrow> json \<Rightarrow> instant \<Rightarrow> v2_tool_gate_decision" where
  "contract_authorize_builtin G self name version c arguments now =
     authorize_builtin G (tc_ingress self) name version c arguments now"

end
