(* ===== verification/Contract_Runs.thy ===== *)
theory Contract_Runs
  imports Turn_Contract
begin

text \<open>
  Transitions succeed: a worker that holds the lease of a live turn can move it along every edge of the
  state machine before the lease ends, and with a result it can finish it. What a transition leaves
  behind is again a held turn, so runs of the contract compose.
\<close>

subsection \<open>The moved row\<close>

text \<open>A result belongs to exactly the terminal states, and its serialisation is read back.\<close>

definition result_ok :: "turn_libs \<Rightarrow> turn_state \<Rightarrow> turn_execution option \<Rightarrow> bool" where
  "result_ok L next res \<longleftrightarrow>
     (case res of
        None \<Rightarrow> \<not> is_terminal next
      | Some e \<Rightarrow> terminal_state e = next \<and> json_printable (tl_execution_to_value L e) \<and>
          tl_execution_from_value L (tl_execution_to_value L e) = Some e)"

definition moved_row :: "turn_libs \<Rightarrow> turn_state \<Rightarrow> turn_execution option \<Rightarrow> instant \<Rightarrow> turn_row \<Rightarrow> turn_row" where
  "moved_row L next res now r =
     (let j = map_option (canonical_json L \<circ> tl_execution_to_value L) res
      in move_turn next (tw_revision r + 1) j (map_option (sha256_text L) j) (timestamp_millis now) r)"

lemma moved_row_fields [simp]:
  "turn_key (moved_row L next res now r) = turn_key r" "actor_of_turn (moved_row L next res now r) = actor_of_turn r"
  "idempotency_key_of (moved_row L next res now r) = idempotency_key_of r"
  "tw_turn_id (moved_row L next res now r) = tw_turn_id r" "tw_tenant_id (moved_row L next res now r) = tw_tenant_id r"
  "tw_deadline_ms (moved_row L next res now r) = tw_deadline_ms r" "tw_state (moved_row L next res now r) = state_name next"
  "tw_revision (moved_row L next res now r) = tw_revision r + 1"
  "tw_updated_at_ms (moved_row L next res now r) = timestamp_millis now"
  by (simp_all add: moved_row_def move_turn_def turn_key_def actor_of_turn_def idempotency_key_of_def Let_def)

lemma moved_row_loads:
  assumes laws: "turn_laws L" and rec: "materialize_turn L r = Inr rec" and res: "result_ok L next res"
    and time: "tl_datetime_ok L now" and rev: "0 \<le> tw_revision r" "tw_revision r + 1 < 2 ^ 64"
  shows "materialize_turn L (moved_row L next res now r) =
    Inr (rec\<lparr>dt_state := restore next (word_of_int (tw_revision r + 1)),
      dt_terminal_result := map_option (tl_execution_to_value L) res,
      dt_terminal_result_hash := map_option (sha256_text L) (map_option (canonical_json L \<circ> tl_execution_to_value L) res),
      dt_updated_at := milliseconds (timestamp_millis now)\<rparr>)"
proof -
  have ok: "tl_datetime_ok L (milliseconds (timestamp_millis now))"
    using laws time by (simp add: turn_laws_def)
  have parsed: "parse_optional_json L (map_option (canonical_json L \<circ> tl_execution_to_value L) res) =
      Inr (map_option (tl_execution_to_value L) res)"
    using res laws by (auto simp: result_ok_def parse_optional_json_def parse_json_def canonical_json_def turn_laws_def split: option.splits)
  have valid: "validate_persisted_terminal L next (map_option (tl_execution_to_value L) res) = Inr ()"
    using res by (auto simp: result_ok_def validate_persisted_terminal_def split: option.splits)
  have fields: "verify_turn_bindings L (moved_row L next res now r) v = verify_turn_bindings L r v" for v
    by (simp add: verify_turn_bindings_def turn_binding_fields_def moved_row_def move_turn_def Let_def)
  have hash: "verify_terminal_hash L (moved_row L next res now r) = Inr ()"
    by (simp add: verify_terminal_hash_def moved_row_def move_turn_def Let_def verify_stored_hash_def split: option.split)
  have same: "tw_request_json (moved_row L next res now r) = tw_request_json r" "tw_request_hash (moved_row L next res now r) = tw_request_hash r"
    "tw_authority_json (moved_row L next res now r) = tw_authority_json r" "tw_authority_hash (moved_row L next res now r) = tw_authority_hash r"
    "tw_created_at_ms (moved_row L next res now r) = tw_created_at_ms r"
    "tw_terminal_json (moved_row L next res now r) = map_option (canonical_json L \<circ> tl_execution_to_value L) res"
    "tw_terminal_hash (moved_row L next res now r) = map_option (sha256_text L) (map_option (canonical_json L \<circ> tl_execution_to_value L) res)"
    "tw_actor_key (moved_row L next res now r) = tw_actor_key r" "tw_subject_id (moved_row L next res now r) = tw_subject_id r"
    "tw_principal_id (moved_row L next res now r) = tw_principal_id r" "tw_workspace_id (moved_row L next res now r) = tw_workspace_id r"
    "tw_profile_id (moved_row L next res now r) = tw_profile_id r" "tw_session_id (moved_row L next res now r) = tw_session_id r"
    "tw_source_surface (moved_row L next res now r) = tw_source_surface r" "tw_source_id (moved_row L next res now r) = tw_source_id r"
    "tw_idempotency_key (moved_row L next res now r) = tw_idempotency_key r"
    by (simp_all add: moved_row_def move_turn_def Let_def)
  from rec show ?thesis
    unfolding materialize_turn_def [of L r] and_then_eq_Inr
    by clarify (simp add: materialize_turn_def fields hash same parsed valid checked_u64_def rev parse_timestamp_def ok
        split: if_splits)
qed

subsection \<open>A held turn\<close>

text \<open>The actor of the turn names it as its active turn and the worker as the owner, up to the deadline.\<close>

definition held :: "turn_row \<Rightarrow> string \<Rightarrow> turn_db \<Rightarrow> bool" where
  "held r w db \<longleftrightarrow> r \<in> set (td_turns db) \<and>
     (\<exists>a \<in> set (td_actors db). holds_turn a r \<and> aw_lease_owner a = Some w \<and> aw_lease_until_ms a = Some (tw_deadline_ms r))"

text \<open>The outbox key of the event that the next move writes.\<close>

definition event_key :: "turn_libs \<Rightarrow> turn_row \<Rightarrow> turn_state \<Rightarrow> string \<times> string" where
  "event_key L r next =
     (tw_tenant_id r, deterministic_outbox_id L (tw_tenant_id r) (tw_turn_id r) (word_of_int (tw_revision r + 1)) (state_event_type next))"

lemma find_turn_unique:
  assumes "turns_inv db" and "r \<in> set (td_turns db)"
  shows "find (turn_at (tw_tenant_id r) (tw_turn_id r)) (td_turns db) = Some r"
proof (cases "find (turn_at (tw_tenant_id r) (tw_turn_id r)) (td_turns db)")
  case (Some q)
  then have "q = r"
    using find_turn_at [OF Some] assms by (auto simp: turns_inv_def distinct_map inj_on_def turn_key_def)
  then show ?thesis
    using Some by simp
qed (use assms in \<open>auto simp: find_None_iff turn_at_def\<close>)

lemma held_lease:
  assumes inv: "turns_inv db" and load: "actors_load L db" and a: "a \<in> set (td_actors db)" "holds_turn a r" "aw_lease_owner a = Some w"
    "aw_lease_until_ms a = Some u" and rep: "represents r cur" and time: "timestamp_millis now < u"
  shows "verify_actor_lease L cur w now db = Inr ()"
proof -
  obtain arec where arec: "row_to_actor L a = Inr arec"
    using load a(1) by (auto simp: actors_load_def)
  have "actor_key_of a = (dt_tenant_id cur, dt_actor_key cur)"
    using a(2) rep by (simp add: holds_turn_def represents_def actor_of_turn_def)
  then have actor: "load_actor L (dt_tenant_id cur) (dt_actor_key cur) db = Inr (Some arec)"
    using find_actor_at [OF inv a(1)] arec by (simp add: load_actor_def optional_map_def)
  have "shows_actor a arec"
    using arec by (auto simp: row_to_actor_def shows_actor_def result_simps)
  then have "ar_active_turn_id arec = Some (dt_turn_id cur)" "ar_lease_owner arec = Some w" "\<not> none_or_passed (ar_lease_until arec) now"
    using a(2-4) rep time none_or_passed_ms [of "Some u" now] by (auto simp: shows_actor_def holds_turn_def represents_def)
  then show ?thesis
    using actor by (simp add: verify_actor_lease_def)
qed

text \<open>The two updates of a transition.\<close>

lemma held_update_turn:
  assumes inv: "turns_inv db" and r: "td_turns db = xs @ r # ys" "tw_state r = state_name s"
  shows "update_turn (turn_cas (tw_tenant_id r) (tw_turn_id r) s (tw_revision r)) f db = Inr (db\<lparr>td_turns := xs @ f r # ys\<rparr>)"
proof -
  have d: "distinct (map turn_key (td_turns db))"
    using inv by (simp add: turns_inv_def)
  have key: "turn_cas (tw_tenant_id r) (tw_turn_id r) s (tw_revision r) q \<Longrightarrow> turn_key q = turn_key r" for q
    by (auto simp: turn_cas_def turn_at_def turn_key_def)
  have one: "length (filter (turn_cas (tw_tenant_id r) (tw_turn_id r) s (tw_revision r)) (td_turns db)) = 1"
  proof (rule filter_unique [OF d, of r])
    show "r \<in> set (td_turns db)"
      using r(1) by simp
    show "turn_cas (tw_tenant_id r) (tw_turn_id r) s (tw_revision r) r"
      using r(2) by (simp add: turn_cas_def turn_at_def)
  qed (rule key)
  have "update_where (turn_cas (tw_tenant_id r) (tw_turn_id r) s (tw_revision r)) f (td_turns db) = xs @ f r # ys"
    using update_where_at_key [OF d r(1) _ one] key by blast
  then show ?thesis
    unfolding update_turn_def one by simp
qed

lemma held_update_actor:
  assumes inv: "turns_inv db" and a: "td_actors db = as @ a # bs" "holds_turn a r" "aw_lease_owner a = Some w" and rep: "represents r cur"
    and same: "td_actors db1 = td_actors db"
  shows "update_actor_after_transition cur w next now db1 =
    Inr (db1\<lparr>td_actors := as @ set_actor_lease (if is_terminal next then None else Some (tw_turn_id r))
      (if is_terminal next then None else Some w) (if is_terminal next then None else Some (tw_deadline_ms r))
      (timestamp_millis now) a # bs\<rparr>)"
proof -
  let ?P = "\<lambda>b. actor_at (dt_tenant_id cur) (dt_actor_key cur) b \<and> aw_active_turn_id b = Some (dt_turn_id cur) \<and> aw_lease_owner b = Some w"
  have d: "distinct (map actor_key_of (td_actors db))"
    using inv by (simp add: turns_inv_def)
  have key: "?P b \<Longrightarrow> actor_key_of b = actor_key_of a" for b
    using a(2) rep by (auto simp: actor_at_def actor_key_of_def holds_turn_def represents_def actor_of_turn_def)
  have "?P a"
    using a(2,3) rep by (auto simp: actor_at_def actor_key_of_def holds_turn_def represents_def actor_of_turn_def)
  moreover have "a \<in> set (td_actors db)"
    using a(1) by simp
  ultimately have one: "length (filter ?P (td_actors db)) = 1"
    using key by (intro filter_unique [OF d, of a])
  have "timestamp_millis (dt_deadline cur) = tw_deadline_ms r"
    using rep by (simp add: represents_def)
  then have lease: "(if is_terminal next then (None, None, None) else (Some (dt_turn_id cur), Some w, Some (timestamp_millis (dt_deadline cur)))) =
      (if is_terminal next then None else Some (tw_turn_id r), if is_terminal next then None else Some w,
       if is_terminal next then None else Some (tw_deadline_ms r))"
    using rep by (simp add: represents_def)
  have "update_where ?P f (td_actors db) = as @ f a # bs" for f
    using update_where_at_key [OF d a(1) _ one] key by blast
  then show ?thesis
    unfolding update_actor_after_transition_def lease Let_def prod.case update_actor_def same one by simp
qed

text \<open>What a successful move of the row leaves behind.\<close>

definition moved_to :: "turn_libs \<Rightarrow> turn_row \<Rightarrow> string \<Rightarrow> turn_state \<Rightarrow> turn_execution option \<Rightarrow> instant \<Rightarrow> turn_db \<Rightarrow> turn_db \<Rightarrow> bool" where
  "moved_to L r w next res now db db' \<longleftrightarrow>
     moved_row L next res now r \<in> set (td_turns db') \<and> (\<not> is_terminal next \<longrightarrow> held (moved_row L next res now r) w db') \<and>
     td_ledger db' = td_ledger db \<and> next_ordinal db' = next_ordinal db + 1 \<and>
     outbox_key ` set (td_outbox db') = insert (event_key L r next) (outbox_key ` set (td_outbox db))"

lemma transition_succeeds:
  assumes laws: "turn_laws L" and inv: "full_inv db" and load: "rows_load L db"
    and triggers: "validate_no_extra_outbox_triggers db = Inr ()" and held: "held r w db" and s: "tw_state r = state_name s"
    and w: "validate_lease_identity ''lease_owner'' w = Inr ()" and now: "tl_datetime_ok L now"
    and time: "tw_updated_at_ms r \<le> timestamp_millis now" "timestamp_millis now < tw_deadline_ms r"
    and edge: "can_transition_to s next" and res: "result_ok L next res" and rev: "tw_revision r + 1 \<le> i64_max"
    and room: "next_ordinal db \<le> i64_max" and key: "event_key L r next \<notin> outbox_key ` set (td_outbox db)"
  shows "\<exists>rec db'. transition_inner L (tw_tenant_id r) (tw_turn_id r) w s (word_of_int (tw_revision r)) next res now db = Inr (rec, db') \<and>
    dt_state rec = restore next (word_of_int (tw_revision r + 1)) \<and> moved_to L r w next res now db db'"
proof -
  have turns: "turns_inv db" "outbox_inv db"
    using inv by (simp_all add: full_inv_def store_inv_def)
  have r: "r \<in> set (td_turns db)" "0 \<le> tw_revision r"
    using held turns(1) by (auto simp: held_def turns_inv_def)
  obtain xs ys where split: "td_turns db = xs @ r # ys"
    using r(1) by (metis split_list)
  obtain a where a: "a \<in> set (td_actors db)" "holds_turn a r" "aw_lease_owner a = Some w" "aw_lease_until_ms a = Some (tw_deadline_ms r)"
    using held by (auto simp: held_def)
  obtain as bs where actors: "td_actors db = as @ a # bs"
    using a(1) by (metis split_list)
  obtain cur where cur: "materialize_turn L r = Inr cur"
    using load r(1) by (auto simp: rows_load_def turns_load_def)
  have rep: "represents r cur"
    using cur by (rule materialize_turn_ok)
  define n where "n = (word_of_int (tw_revision r) :: u64)"
  have small: "tw_revision r + 1 < 2 ^ 64" and n: "uint n = tw_revision r" "unat (n + 1) = unat n + 1" "n + 1 = word_of_int (tw_revision r + 1)"
  proof -
    show *: "tw_revision r + 1 < 2 ^ 64"
      using rev by (simp add: i64_max_def)
    show n: "uint n = tw_revision r"
      using r(2) * by (simp add: n_def uint_of_int_small)
    show "unat (n + 1) = unat n + 1"
      using * n r(2) by (simp add: unat_eq_nat_uint uint_add_lem [THEN iffD1] nat_add_distrib)
    show "n + 1 = word_of_int (tw_revision r + 1)"
      by (simp add: n_def)
  qed
  have n1: "uint (n + 1) = tw_revision r + 1"
    unfolding n(3) using r(2) small by (intro uint_of_int_small) simp_all
  have req: "require_turn L (tw_tenant_id r) (tw_turn_id r) db = Inr cur"
    using find_turn_unique [OF turns(1) r(1)] cur by (auto simp: require_turn_ok)
  have lease: "verify_actor_lease L cur w now db = Inr ()"
    using load by (intro held_lease [OF turns(1) _ a rep time(2)]) (simp add: rows_load_def)
  have cas: "compare_and_transition (dt_state cur) s n next = Inr (restore next (n + 1))"
    using rep s edge n(2) by (simp add: compare_and_transition_Inr represents_def restore_def flip: n_def)
  define r' where "r' = moved_row L next res now r"
  define j where "j = map_option (canonical_json L \<circ> tl_execution_to_value L) res"
  define db1 where "db1 = db\<lparr>td_turns := xs @ r' # ys\<rparr>"
  define a' where "a' = set_actor_lease (if is_terminal next then None else Some (tw_turn_id r))
      (if is_terminal next then None else Some w) (if is_terminal next then None else Some (tw_deadline_ms r)) (timestamp_millis now) a"
  define db2 where "db2 = db1\<lparr>td_actors := as @ a' # bs\<rparr>"
  have upd: "update_turn (turn_cas (tw_tenant_id r) (tw_turn_id r) s (uint n))
      (move_turn next (uint (n + 1)) j (map_option (sha256_text L) j) (timestamp_millis now)) db = Inr db1"
    unfolding n(1) n1 db1_def r'_def moved_row_def Let_def j_def by (rule held_update_turn [OF turns(1) split s])
  have act: "update_actor_after_transition cur w next now db1 = Inr db2"
    unfolding db2_def a'_def by (rule held_update_actor [OF turns(1) actors a(2,3) rep]) (simp add: db1_def)
  define rec where "rec = cur\<lparr>dt_state := restore next (n + 1), dt_terminal_result := map_option (tl_execution_to_value L) res,
      dt_terminal_result_hash := map_option (sha256_text L) j, dt_updated_at := milliseconds (timestamp_millis now)\<rparr>"
  have rec: "materialize_turn L r' = Inr rec"
    unfolding r'_def rec_def j_def n(3) by (rule moved_row_loads [OF laws cur res now r(2) small])
  have "turn_moved r s r' next db db2"
    unfolding turn_moved_def using split actors a(2) s edge
    by (intro exI [of _ xs] exI [of _ ys] exI [of _ as] exI [of _ bs] exI [of _ a] exI [of _ a'])
      (simp add: same_turn_def r'_def db2_def db1_def a'_def lease_shape_def)
  then have turns2: "turns_inv db2" "outbox_inv db2"
    using turn_moved_turns_inv [OF turns(1)] turn_moved_outbox_inv [OF turns(2)] by blast+
  have r': "r' \<in> set (td_turns db2)" "tw_tenant_id r' = tw_tenant_id r" "tw_turn_id r' = tw_turn_id r"
    by (simp_all add: db2_def db1_def r'_def)
  have req2: "require_turn L (tw_tenant_id r) (tw_turn_id r) db2 = Inr rec"
    using find_turn_unique [OF turns2(1) r'(1)] rec r'(2,3) by (auto simp: require_turn_ok)
  have rec_fields: "dt_tenant_id rec = tw_tenant_id r" "dt_turn_id rec = tw_turn_id r" "dt_state rec = restore next (n + 1)"
    using rep by (simp_all add: rec_def represents_def)
  let ?row = "new_outbox_row L rec (Some s) (map_option (sha256_text L) j) (milliseconds (timestamp_millis now))
      (uint (vts_revision (dt_state rec))) (timestamp_millis now)"
  have same: "td_outbox db2 = td_outbox db" "td_sequence db2 = td_sequence db" "td_ledger db2 = td_ledger db"
    by (simp_all add: db2_def db1_def)
  have ins: "insert_outbox L rec (Some s) (map_option (sha256_text L) j) now db2 = Inr (appended ?row (next_ordinal db2) db2)"
  proof (rule insert_outbox_succeeds [OF turns2(2)])
    show "validate_no_extra_outbox_triggers db2 = Inr ()"
      using triggers triggers_ledger_cong [OF same(3)] by simp
    show "tl_datetime_ok L (milliseconds (timestamp_millis now))"
      using laws now by (simp add: turn_laws_def)
    show "uint (vts_revision (dt_state rec)) \<le> i64_max"
      using rev by (simp add: rec_fields restore_def n1)
    show "next_ordinal db2 \<le> i64_max"
      using room by (simp add: next_ordinal_def same)
    show "\<exists>q \<in> set (td_turns db2). turn_at (dt_tenant_id rec) (dt_turn_id rec) q"
      using r' by (auto simp: turn_at_def rec_fields)
    show "(dt_tenant_id rec, deterministic_outbox_id L (dt_tenant_id rec) (dt_turn_id rec) (vts_revision (dt_state rec))
        (state_event_type (vts_state (dt_state rec)))) \<notin> outbox_key ` set (td_outbox db2)"
      using key by (simp add: rec_fields restore_def same n(3) event_key_def)
    have "ow_revision p \<le> tw_revision r" if "p \<in> set (td_outbox db)" "turn_of_outbox p = turn_key r" for p
      using inv that r(1) turns_inv_key [OF turns(1)] by (fastforce simp: full_inv_def store_inv_def history_inv_def history_current_def)
    then show "(dt_tenant_id rec, dt_turn_id rec, uint (vts_revision (dt_state rec))) \<notin> turn_revision ` set (td_outbox db2)"
      by (force simp: rec_fields restore_def same n1 turn_revision_def turn_of_outbox_def turn_key_def)
  qed
  have "transition_inner L (tw_tenant_id r) (tw_turn_id r) w s n next res now db = Inr (rec, appended ?row (next_ordinal db2) db2)"
  proof -
    have "\<not> now < dt_updated_at cur"
      using time(1) rep milliseconds_le [of "tw_updated_at_ms r" now] by (simp add: represents_def)
    moreover have "revision_to_i64 n = Inr (uint n)" "revision_to_i64 (n + 1) = Inr (uint (n + 1))"
      using rev n(1) n1 by (simp_all add: revision_to_i64_def)
    ultimately show ?thesis
      unfolding transition_inner_def Let_def j_def [symmetric]
      using w req lease cas upd act req2 ins by (simp add: restore_def)
  qed
  moreover have "moved_to L r w next res now db (appended ?row (next_ordinal db2) db2)"
    unfolding moved_to_def r'_def [symmetric]
    using r' a(2) same
    by (auto simp: appended_def held_def db2_def a'_def holds_turn_def r'_def next_ordinal_def new_outbox_row_def Let_def outbox_key_def
        event_key_def rec_fields restore_def n(3))
  ultimately show ?thesis
    using rec_fields(3) n(3) by (auto simp: n_def)
qed

subsection \<open>The contract\<close>

text \<open>The contract and the row agree, and the contract's worker holds the lease.\<close>

definition contract_holds :: "turn_contract_v2 \<Rightarrow> turn_row \<Rightarrow> turn_db \<Rightarrow> bool" where
  "contract_holds c r db \<longleftrightarrow>
     (\<exists>w. tc_durable c = Some \<lparr>au_tenant_id = tw_tenant_id r, au_turn_id = tw_turn_id r, au_lease_owner = w\<rparr> \<and>
        validate_lease_identity ''lease_owner'' w = Inr () \<and> held r w db) \<and>
     tw_state r = state_name (vts_state (tc_state c)) \<and> vts_revision (tc_state c) = word_of_int (tw_revision r)"

text \<open>The store takes a move of the row at this time.\<close>

definition can_move :: "turn_libs \<Rightarrow> turn_row \<Rightarrow> turn_state \<Rightarrow> instant \<Rightarrow> turn_db \<Rightarrow> bool" where
  "can_move L r next now db \<longleftrightarrow>
     full_inv db \<and> rows_load L db \<and> validate_no_extra_outbox_triggers db = Inr () \<and> tl_datetime_ok L now \<and>
     tw_updated_at_ms r \<le> timestamp_millis now \<and> timestamp_millis now < tw_deadline_ms r \<and>
     tw_revision r + 1 \<le> i64_max \<and> next_ordinal db \<le> i64_max \<and> event_key L r next \<notin> outbox_key ` set (td_outbox db)"

lemma contract_moves:
  assumes laws: "turn_laws L" and c: "contract_holds c r db" and can: "can_move L r next now db"
    and edge: "can_transition_to (vts_state (tc_state c)) next" and res: "result_ok L next res"
  obtains w rec db' where "tc_durable c = Some \<lparr>au_tenant_id = tw_tenant_id r, au_turn_id = tw_turn_id r, au_lease_owner = w\<rparr>"
    "transition_inner L (tw_tenant_id r) (tw_turn_id r) w (vts_state (tc_state c)) (vts_revision (tc_state c)) next res now db = Inr (rec, db')"
    "dt_state rec = restore next (word_of_int (tw_revision r + 1))" "moved_to L r w next res now db db'"
    "\<not> is_terminal next \<longrightarrow> contract_holds (c\<lparr>tc_state := dt_state rec\<rparr>) (moved_row L next res now r) db'"
proof -
  obtain w where w: "tc_durable c = Some \<lparr>au_tenant_id = tw_tenant_id r, au_turn_id = tw_turn_id r, au_lease_owner = w\<rparr>"
    "validate_lease_identity ''lease_owner'' w = Inr ()" "held r w db" "tw_state r = state_name (vts_state (tc_state c))"
    "vts_revision (tc_state c) = word_of_int (tw_revision r)"
    using c by (auto simp: contract_holds_def)
  obtain rec db' where t: "transition_inner L (tw_tenant_id r) (tw_turn_id r) w (vts_state (tc_state c)) (word_of_int (tw_revision r)) next res now db = Inr (rec, db')"
    "dt_state rec = restore next (word_of_int (tw_revision r + 1))" "moved_to L r w next res now db db'"
    using transition_succeeds [OF laws _ _ _ w(3,4,2) _ _ _ edge res] can unfolding can_move_def by blast
  show thesis
    using that [OF w(1) t(1) [folded w(5)] t(2,3)] t w(1,2) by (simp add: contract_holds_def moved_to_def restore_def)
qed

lemma contract_transition_succeeds:
  assumes laws: "turn_laws (ct_libs C)" and c: "contract_holds c r db" and can: "can_move (ct_libs C) r next now db"
    and edge: "can_transition_to (vts_state (tc_state c)) next" and live: "\<not> is_terminal next"
  shows "\<exists>c' w db'. contract_transition C c next now db = Inr (c', db') \<and> vts_state (tc_state c') = next \<and>
    contract_holds c' (moved_row (ct_libs C) next None now r) db' \<and> moved_to (ct_libs C) r w next None now db db' \<and>
    store_step (ct_libs C) db db'"
proof -
  have res: "result_ok (ct_libs C) next None"
    using live by (simp add: result_ok_def)
  obtain w rec db' where m: "tc_durable c = Some \<lparr>au_tenant_id = tw_tenant_id r, au_turn_id = tw_turn_id r, au_lease_owner = w\<rparr>"
    "transition_inner (ct_libs C) (tw_tenant_id r) (tw_turn_id r) w (vts_state (tc_state c)) (vts_revision (tc_state c)) next None now db = Inr (rec, db')"
    "dt_state rec = restore next (word_of_int (tw_revision r + 1))" "moved_to (ct_libs C) r w next None now db db'"
    "contract_holds (c\<lparr>tc_state := dt_state rec\<rparr>) (moved_row (ct_libs C) next None now r) db'"
    using contract_moves [OF laws c can edge res] live by metis
  have "store_transition (ct_libs C) (tw_tenant_id r) (tw_turn_id r) w (vts_state (tc_state c)) (vts_revision (tc_state c)) next now db = Inr (rec, db')"
    using m(2) live by (simp add: store_transition_def)
  then show ?thesis
    using m(1,3-5) store_step.step_transition by (fastforce simp: contract_transition_def restore_def)
qed

lemma finish_execution_succeeds:
  assumes laws: "turn_laws (ct_libs C)" and c: "contract_holds c r db" and can: "can_move (ct_libs C) r (terminal_state e) now db"
    and edge: "can_transition_to (vts_state (tc_state c)) (terminal_state e)" and res: "result_ok (ct_libs C) (terminal_state e) (Some e)"
  shows "\<exists>c' db'. finish_execution C c e now db = Inr (c', db') \<and> vts_state (tc_state c') = terminal_state e \<and>
    moved_row (ct_libs C) (terminal_state e) (Some e) now r \<in> set (td_turns db') \<and> store_step (ct_libs C) db db'"
proof -
  obtain w rec db' where m: "tc_durable c = Some \<lparr>au_tenant_id = tw_tenant_id r, au_turn_id = tw_turn_id r, au_lease_owner = w\<rparr>"
    "transition_inner (ct_libs C) (tw_tenant_id r) (tw_turn_id r) w (vts_state (tc_state c)) (vts_revision (tc_state c)) (terminal_state e) (Some e) now db = Inr (rec, db')"
    "dt_state rec = restore (terminal_state e) (word_of_int (tw_revision r + 1))" "moved_to (ct_libs C) r w (terminal_state e) (Some e) now db db'"
    by (rule contract_moves [OF laws c can edge res])
  have "store_transition_with_result (ct_libs C) (tw_tenant_id r) (tw_turn_id r) w (vts_state (tc_state c)) (vts_revision (tc_state c))
      (terminal_state e) e now db = Inr (rec, db')"
    using m(2) by (simp add: store_transition_with_result_def)
  then show ?thesis
    using m(1,3,4) store_step.step_result by (fastforce simp: finish_execution_def restore_def moved_to_def)
qed

text \<open>The admission of a local message.\<close>

definition local_admission :: "turn_libs \<Rightarrow> authenticated_ingress \<Rightarrow> canonical_envelope \<Rightarrow> string \<Rightarrow> durable_turn_admission" where
  "local_admission L g e w =
     \<lparr>da_actor = \<lparr>id_tenant_id = tenant_str (ai_tenant_id g),
        id_actor_key = deterministic_actor_key L [tenant_str (ai_tenant_id g), principal_str (ai_principal_id g),
          workspace_str (ai_workspace_id g), profile_str (ai_profile_id g), channel_str (env_channel e), thread_str (env_thread e)],
        id_principal_id = principal_str (ai_principal_id g), id_workspace_id = workspace_str (ai_workspace_id g),
        id_profile_id = profile_str (ai_profile_id g), id_channel_id = channel_str (env_channel e),
        id_thread_id = thread_str (env_thread e)\<rparr>,
      da_request = envelope_to_value e, da_lease_owner = w, da_approval_required = False\<rparr>"

lemma created_held:
  assumes inv: "store_inv db" and ok: "begin_turn L g adm now db = Inr (TurnCreated rec, db')"
  shows "held (new_turn_row L g adm now) (da_lease_owner adm) db'" and "validate_no_extra_outbox_triggers db' = Inr ()"
proof -
  define r where "r = new_turn_row L g adm now"
  obtain db0 db1 db2 db3 where st: "insert_turn_row r db1 = Inr db2"
    "update_actor (\<lambda>a. actor_at (tw_tenant_id r) (tw_actor_key r) a \<and> aw_active_turn_id a = None)
      (set_actor_lease (Some (tw_turn_id r)) (Some (da_lease_owner adm)) (Some (timestamp_millis (ai_deadline g)))
        (timestamp_millis now)) CasLost db2 = Inr db3" "insert_outbox L rec None None now db3 = Inr db'"
    "ensure_actor_row L (da_actor adm) now db = Inr db0" "recover_actor_for_admission L (da_actor adm) now db0 = Inr db1"
    using ok by (cases rule: begin_turn_cases) (auto simp: r_def)
  have trig: "validate_no_extra_outbox_triggers db3 = Inr ()" and ledger: "td_ledger db' = td_ledger db3" "td_actors db' = td_actors db3"
    using st(3) by (auto simp: insert_outbox_def insert_outbox_row_def assign_commit_order_def Let_def result_simps split: if_splits)
  show "validate_no_extra_outbox_triggers db' = Inr ()"
    using trig triggers_ledger_cong [OF ledger(1)] by simp
  obtain as a bs where a: "actor_at (tw_tenant_id r) (tw_actor_key r) a \<and> aw_active_turn_id a = None"
    "db3 = db2\<lparr>td_actors := as @ set_actor_lease (Some (tw_turn_id r)) (Some (da_lease_owner adm))
      (Some (timestamp_millis (ai_deadline g))) (timestamp_millis now) a # bs\<rparr>"
    using st(2) by (rule update_actor_split)
  have "tw_deadline_ms r = timestamp_millis (ai_deadline g)"
    by (simp add: r_def new_turn_row_def Let_def)
  then show "held (new_turn_row L g adm now) (da_lease_owner adm) db'"
    using created_state(2) [OF inv ok] a ledger(2)
    by (auto simp: held_def holds_turn_def actor_at_def actor_key_of_def actor_of_turn_def set_actor_lease_def simp flip: r_def)
qed

lemma begin_durable_holds:
  assumes inv: "store_inv db" and ok: "begin_durable C g e w now db = Inr (ContractCreated c, db')"
  defines "r \<equiv> new_turn_row (ct_libs C) g (local_admission (ct_libs C) g e w) now"
  shows "contract_holds c r db'" and "tc_state c = restore Accepted 0" and "validate_no_extra_outbox_triggers db' = Inr ()"
    and "store_step (ct_libs C) db db'" and "\<exists>rec. materialize_turn (ct_libs C) r = Inr rec" and "tc_ingress c = g"
proof -
  define adm where "adm = local_admission (ct_libs C) g e w"
  have owner: "validate_lease_identity ''lease_owner'' w = Inr ()" and ok': "and_then (map_err (\<lambda>error. ''durable turn admission failed: '' @ ct_store_error C error)
      (begin_turn (ct_libs C) g adm now db)) (\<lambda>(result, db). case result of
        TurnCreated record \<Rightarrow> Inr (ContractCreated \<lparr>tc_ingress = g, tc_state = dt_state record,
          tc_durable = Some \<lparr>au_tenant_id = dt_tenant_id record, au_turn_id = dt_turn_id record, au_lease_owner = w\<rparr>\<rparr>, db)
      | TurnExisting record \<Rightarrow> Inr (ContractDuplicate record, db)) = Inr (ContractCreated c, db')"
    using ok by (auto simp: begin_durable_def for_ingress_def new_admission_def adm_def local_admission_def Let_def result_simps)
  obtain res db1 where res: "begin_turn (ct_libs C) g adm now db = Inr (res, db1)"
    using ok' by (auto simp: result_simps)
  obtain rec where admitted: "begin_turn (ct_libs C) g (local_admission (ct_libs C) g e w) now db = Inr (TurnCreated rec, db')"
    and c: "c = \<lparr>tc_ingress = g, tc_state = dt_state rec,
      tc_durable = Some \<lparr>au_tenant_id = dt_tenant_id rec, au_turn_id = dt_turn_id rec, au_lease_owner = w\<rparr>\<rparr>"
    using ok' res by (cases res) (auto simp: adm_def)
  show "tc_ingress c = g"
    by (simp add: c)
  note s = created_state [OF inv admitted, folded r_def]
  show "\<exists>rec. materialize_turn (ct_libs C) r = Inr rec" "store_step (ct_libs C) db db'" "validate_no_extra_outbox_triggers db' = Inr ()"
    using s(3) store_step.step_begin [OF admitted] created_held [OF inv admitted] by blast+
  have rep: "represents r rec"
    using s(3) by (rule materialize_turn_ok)
  have r: "tw_state r = state_name Accepted" "tw_revision r = 0"
    by (simp_all add: r_def new_turn_row_def Let_def local_admission_def)
  have "vts_state (dt_state rec) = Accepted" "vts_revision (dt_state rec) = 0"
    using rep r state_name_inject by (metis represents_def, simp add: represents_def)
  then show "tc_state c = restore Accepted 0"
    by (simp add: c restore_def)
  show "contract_holds c r db'"
    using created_held(1) [OF inv admitted] rep owner r by (simp add: contract_holds_def c represents_def r_def local_admission_def)
qed

subsection \<open>A whole run\<close>

text \<open>The outbox ids of the three moves of a run are new.\<close>

definition run_events_unused :: "turn_libs \<Rightarrow> string \<Rightarrow> string \<Rightarrow> turn_state \<Rightarrow> turn_db \<Rightarrow> bool" where
  "run_events_unused L tenant_id turn_id final db \<longleftrightarrow>
     (let key = (\<lambda>n s. (tenant_id, deterministic_outbox_id L tenant_id turn_id n (state_event_type s)));
          keys = [key 1 Routed, key 2 Running, key 3 final]
      in distinct keys \<and> set keys \<inter> outbox_key ` set (td_outbox db) = {})"

lemma contract_run_completes:
  assumes laws: "turn_laws (ct_libs C)" and inv: "full_inv db" "rows_load (ct_libs C) db"
    and triggers: "validate_no_extra_outbox_triggers db = Inr ()" and c: "contract_holds c r db" "tc_state c = restore Accepted 0"
    and r: "tw_revision r = 0" and room: "next_ordinal db + 2 \<le> i64_max" and unused: "run_events_unused (ct_libs C) (tw_tenant_id r) (tw_turn_id r) (terminal_state e) db"
    and ok: "tl_datetime_ok (ct_libs C) t1" "tl_datetime_ok (ct_libs C) t2" "tl_datetime_ok (ct_libs C) t3"
    and times: "tw_updated_at_ms r \<le> timestamp_millis t1" "timestamp_millis t1 \<le> timestamp_millis t2"
      "timestamp_millis t2 \<le> timestamp_millis t3" "timestamp_millis t3 < tw_deadline_ms r"
    and res: "result_ok (ct_libs C) (terminal_state e) (Some e)"
  shows "\<exists>c1 c2 c3 db1 db2 db3. contract_transition C c Routed t1 db = Inr (c1, db1) \<and>
    contract_transition C c1 Running t2 db1 = Inr (c2, db2) \<and> finish_execution C c2 e t3 db2 = Inr (c3, db3) \<and>
    vts_state (tc_state c3) = terminal_state e \<and> (store_step (ct_libs C))\<^sup>*\<^sup>* db db3 \<and>
    moved_row (ct_libs C) (terminal_state e) (Some e) t3 (moved_row (ct_libs C) Running None t2 (moved_row (ct_libs C) Routed None t1 r))
      \<in> set (td_turns db3)"
proof -
  let ?L = "ct_libs C"
  let ?key = "\<lambda>n s. (tw_tenant_id r, deterministic_outbox_id ?L (tw_tenant_id r) (tw_turn_id r) n (state_event_type s))"
  let ?r1 = "moved_row ?L Routed None t1 r"
  let ?r2 = "moved_row ?L Running None t2 ?r1"
  have keys: "event_key ?L r Routed = ?key 1 Routed" "event_key ?L ?r1 Running = ?key 2 Running"
    "event_key ?L ?r2 (terminal_state e) = ?key 3 (terminal_state e)"
    using r by (simp_all add: event_key_def)
  have fresh: "?key 1 Routed \<notin> outbox_key ` set (td_outbox db)" "?key 2 Running \<notin> outbox_key ` set (td_outbox db)"
    "?key 3 (terminal_state e) \<notin> outbox_key ` set (td_outbox db)" "?key 1 Routed \<noteq> ?key 2 Running"
    "?key 1 Routed \<noteq> ?key 3 (terminal_state e)" "?key 2 Running \<noteq> ?key 3 (terminal_state e)"
    using unused unfolding run_events_unused_def Let_def by auto
  have can0: "can_move ?L r Routed t1 db"
    unfolding can_move_def keys using inv triggers ok times r room fresh(1) by (simp add: i64_max_def)
  have "can_transition_to (vts_state (tc_state c)) Routed"
    by (simp add: c(2) restore_def can_transition_to_def)
  from contract_transition_succeeds [OF laws c(1) can0 this] obtain c1 w1 db1 where
    one: "contract_transition C c Routed t1 db = Inr (c1, db1)" "vts_state (tc_state c1) = Routed" "contract_holds c1 ?r1 db1"
    "moved_to ?L r w1 Routed None t1 db db1" "store_step ?L db db1"
    by auto
  have st1: "full_inv db1" "rows_load ?L db1" "validate_no_extra_outbox_triggers db1 = Inr ()"
    using store_step_inv [OF inv(1) one(5)] store_step_loads [OF laws inv one(5)] one(4) triggers triggers_ledger_cong [of db1 db]
    by (simp_all add: moved_to_def)
  have can1: "can_move ?L ?r1 Running t2 db1"
    using st1 ok times r room one(4) fresh by (auto simp: can_move_def keys moved_to_def i64_max_def)
  have "can_transition_to (vts_state (tc_state c1)) Running"
    by (simp add: one(2) can_transition_to_def)
  from contract_transition_succeeds [OF laws one(3) can1 this] obtain c2 w2 db2 where
    two: "contract_transition C c1 Running t2 db1 = Inr (c2, db2)" "vts_state (tc_state c2) = Running" "contract_holds c2 ?r2 db2"
    "moved_to ?L ?r1 w2 Running None t2 db1 db2" "store_step ?L db1 db2"
    by auto
  have st2: "full_inv db2" "rows_load ?L db2" "validate_no_extra_outbox_triggers db2 = Inr ()"
    using store_step_inv [OF st1(1) two(5)] store_step_loads [OF laws st1(1,2) two(5)] two(4) st1(3) triggers_ledger_cong [of db2 db1]
    by (simp_all add: moved_to_def)
  have can2: "can_move ?L ?r2 (terminal_state e) t3 db2"
    using st2 ok times r room one(4) two(4) fresh by (auto simp: can_move_def keys moved_to_def i64_max_def)
  have "can_transition_to (vts_state (tc_state c2)) (terminal_state e)"
    using terminal_state_is_terminal [of e] by (cases "terminal_state e") (simp_all add: two(2) can_transition_to_def)
  from finish_execution_succeeds [OF laws two(3) can2 this res] obtain c3 db3 where
    three: "finish_execution C c2 e t3 db2 = Inr (c3, db3)" "vts_state (tc_state c3) = terminal_state e"
    "moved_row ?L (terminal_state e) (Some e) t3 ?r2 \<in> set (td_turns db3)" "store_step ?L db2 db3"
    by auto
  have "(store_step ?L)\<^sup>*\<^sup>* db db3"
    using one(5) two(5) three(4) by (meson converse_rtranclp_into_rtranclp r_into_rtranclp)
  then show ?thesis
    using one(1) two(1) three by blast
qed

end
