(* ===== verification/Contract_Demo.thy ===== *)
theory Contract_Demo
  imports Contract_Runs
begin

text \<open>
  A local message on an empty store: libraries with a stand-in digest that tells inputs of different
  lengths apart, an envelope that validates under it, and the contract that is created for it.
\<close>

definition length_digest :: "bytes \<Rightarrow> string" where
  "length_digest b = replicate (length b mod 32) CHR ''1'' @ replicate (64 - length b mod 32) CHR ''0''"

fun show_execution :: "turn_execution \<Rightarrow> json" where
  "show_execution (Finished _ (OutcomeAborted error _)) = JArr [JStr (te_message error)]"
| "show_execution (Finished _ _) = JNull"
| "show_execution (Handled name) = JStr name"
| "show_execution (Scheduled _ _) = JNull"

fun read_execution :: "json \<Rightarrow> turn_execution option" where
  "read_execution (JArr [JStr message]) = failure_execution Accepted message"
| "read_execution (JStr name) = Some (Handled name)"
| "read_execution _ = failure_execution Running []"

definition local_turn_libs :: turn_libs where
  "local_turn_libs = demo_libs
     \<lparr>tl_externals := (tl_externals demo_libs)\<lparr>x_sha256 := \<lambda>b. b, x_hex_encode := length_digest\<rparr>,
      tl_execution_to_value := show_execution, tl_execution_from_value := read_execution\<rparr>"

definition local_process :: agentic_process where
  "local_process =
     \<lparr>ap_principal_id = ''agent-1'', ap_public_key_hex = ''00'', ap_state = ProcAwake, ap_workspace_id = ''main'',
      ap_project_id = ''zaion'', ap_created_at = ''+'', ap_updated_at = ''+''\<rparr>"

definition local_message :: canonical_envelope where
  "local_message =
     (let e = \<lparr>env_schema_version = 1, env_source = ''cli'', env_principal = PrincipalId ''agent-1'', env_channel = ChannelId ''terminal'',
        env_thread = ThreadId ''t-1'', env_message_id = ''m1'', env_source_hash = [], env_body = ''hello'', env_received_at = ''+'',
        env_signature = None, env_metadata = []\<rparr>
      in e\<lparr>env_source_hash := own_source_hash (tl_externals local_turn_libs) e\<rparr>)"

definition local_contract_libs :: contract_libs where
  "local_contract_libs =
     \<lparr>ct_libs = local_turn_libs, ct_envelope_from_value = (\<lambda>_. Inr local_message), ct_rfc3339_error = (\<lambda>_. []),
      ct_envelope_error = (\<lambda>_. []), ct_ingress_error = (\<lambda>_. []), ct_store_error = (\<lambda>_. []), ct_transition_error = (\<lambda>_. []),
      ct_execution_error = (\<lambda>_. []), ct_state_debug = (\<lambda>_. [])\<rparr>"

lemma local_libs_simps [simp]:
  "ct_libs local_contract_libs = local_turn_libs" "tl_datetime_ok local_turn_libs t" "x_json_eq (tl_externals local_turn_libs) = (=)"
  "tl_execution_to_value local_turn_libs = show_execution" "tl_execution_from_value local_turn_libs = read_execution"
  "sha256_hex (tl_externals local_turn_libs) b = length_digest b" "hash_parts local_turn_libs ps = length_digest (framed ps)"
  "ct_envelope_from_value local_contract_libs v = Inr local_message"
  by (simp_all add: local_contract_libs_def local_turn_libs_def sha256_hex_def hash_parts_def demo_libs_def demo_externals_def)

lemma local_process_workspace [simp]: "ap_workspace_id local_process = ''main''"
  by (simp add: local_process_def)

lemma local_laws: "turn_laws local_turn_libs"
  using demo_laws by (simp add: turn_laws_def local_turn_libs_def)

lemma local_time: "tl_parse_rfc3339 local_turn_libs ''+'' = Some 0" "tl_parse_rfc3339 local_turn_libs ''1+'' = Some 1"
  by (simp_all add: local_turn_libs_def demo_libs_def decode_json_def)

lemma local_message_fields [simp]:
  "env_source local_message = ''cli''" "env_principal local_message = PrincipalId ''agent-1''" "env_channel local_message = ChannelId ''terminal''"
  "env_thread local_message = ThreadId ''t-1''" "env_message_id local_message = ''m1''" "env_received_at local_message = ''+''"
  "env_signature local_message = None" "env_metadata local_message = []" "env_body local_message = ''hello''"
  "env_source_hash local_message = own_source_hash (tl_externals local_turn_libs) local_message"
  by (simp_all add: local_message_def Let_def own_source_hash_def)

lemma length_digest_hex: "is_sha256_hex (length_digest b)" "length (take 40 (length_digest b)) = 40"
  "list_all is_ascii_alphanumeric (take 40 (length_digest b))"
proof -
  have bound: "length b mod 32 < 32"
    by simp
  then show "is_sha256_hex (length_digest b)" "length (take 40 (length_digest b)) = 40"
    by (auto simp: is_sha256_hex_def length_digest_def is_ascii_hexdigit_def byte_class_defs to_ascii_lowercase_def list_all_iff)
  show "list_all is_ascii_alphanumeric (take 40 (length_digest b))"
    by (auto simp: list_all_iff length_digest_def byte_class_defs dest!: in_set_takeD)
qed

lemma local_message_valid: "validate_envelope (tl_externals local_turn_libs) local_message = Inr ()"
proof -
  have graphic: "trim s = s" if "s \<in> {''cli'', ''agent-1'', ''terminal'', ''t-1'', ''m1'', ''hello''}" for s
    by (rule trim_graphic) (use that in \<open>auto simp: byte_class_defs list_all_iff\<close>)
  have hash: "own_source_hash (tl_externals local_turn_libs) local_message = length_digest (framed (envelope_parts local_message))"
    by (simp add: own_source_hash_framed)
  have "list_all is_ascii_graphic (length_digest b)" "length_digest b \<noteq> []" for b
    by (auto simp: length_digest_def list_all_iff byte_class_defs)
  then have "trim (length_digest b) \<noteq> []" for b
    using trim_graphic by metis
  moreover have "\<not> is_unsafe_principal ''agent-1''"
    by (simp add: is_unsafe_principal_def graphic to_ascii_lowercase_def byte_class_defs)
  ultimately show ?thesis
    using length_digest_hex(1) by (simp add: validate_envelope_ok envelope_parts_def graphic hash [symmetric]) (simp add: hash)
qed

lemma digest_token:
  assumes "ascii_token cs 1 128 p" and "length p \<le> 16" and "cs = ''._:-@'' \<or> cs = ''._:-''"
  shows "ascii_token cs 1 256 (p @ take 40 (length_digest b))" "8 \<le> length (p @ take 40 (length_digest b))"
    "ascii_token cs 8 128 (p @ take 40 (length_digest b))"
  using assms length_digest_hex(2,3) [of b] by (auto simp: ascii_token_def list_all_iff)

lemma local_ingress_accepted:
  "\<exists>g. local_cli_ingress local_contract_libs local_process local_message ''default'' 0 = Inr g \<and> ai_deadline g = seconds 900"
proof -
  have "list_all (ascii_token ''._:-@'' 1 256) [''local'', ''agent-1'', ''main'', ''default'', ''cli'']"
    by (simp add: ascii_token_def byte_class_defs)
  then have ids: "v \<in> set [''local'', ''agent-1'', ''main'', ''default'', ''cli''] \<Longrightarrow> validate_identifier f v = Inr ()" for f v
    unfolding validate_identifier_ok list_all_iff by (rule bspec)
  have "ascii_token ''._:-@'' 1 128 ''session-''" "ascii_token ''._:-@'' 1 128 ''message-''" "ascii_token ''._:-'' 1 128 ''wake:''"
    by (simp_all add: ascii_token_def byte_class_defs)
  note tokens = digest_token(1) [OF this(1)] digest_token(1) [OF this(2)] digest_token(3) [OF this(3)]
  have hashed: "validate_identifier f (local_session_id local_turn_libs local_process local_message ''default'') = Inr ()"
    "validate_identifier f (local_source_id local_turn_libs local_message) = Inr ()"
    "validate_idempotency_key (local_idempotency_key local_turn_libs local_message) = Inr ()" for f
    using tokens
    by (simp_all add: validate_identifier_ok validate_idempotency_key_ok local_session_id_def local_source_id_def local_idempotency_key_def
        local_message_identity_def del: append.simps)
  have scopes: "collect_scopes [] [''turn:submit'', ''tool:read''] = Inr (bt_from_list [''turn:submit'', ''tool:read''])"
    unfolding ingress_scopes.run_ok by (simp add: ascii_token_def byte_class_defs)
  show ?thesis
    by (simp add: local_cli_ingress_def validate_local_source_def parse_received_at_def local_time new_ingress_def local_ingress_input_def
        ids hashed scopes MAX_DEADLINE_HORIZON_SECONDS_def seconds_def MAX_SCOPES_def MAX_ATTACHMENTS_def
        del: collect_scopes.simps)
qed

lemma local_duplicate_none:
  "find_local_cli_duplicate local_contract_libs local_process local_message ''default'' demo_store = Inr None"
  by (simp add: find_local_cli_duplicate_def validate_local_source_def parse_received_at_def local_time load_by_idempotency_def
      optional_map_def demo_store_def)

text \<open>An admission that creates a turn for a free actor takes one ordinal.\<close>

lemma created_ordinal:
  assumes inv: "store_inv db" and ok: "begin_turn L g adm now db = Inr (TurnCreated rec, db')"
    and free: "actor_free (da_actor adm) db" and load: "actors_load L db" and time: "tl_datetime_ok L (milliseconds (timestamp_millis now))"
  shows "next_ordinal db' = next_ordinal db + 1"
proof -
  define r where "r = new_turn_row L g adm now"
  obtain db0 db1 db2 db3 where st: "ensure_actor_row L (da_actor adm) now db = Inr db0"
    "recover_actor_for_admission L (da_actor adm) now db0 = Inr db1" "insert_turn_row r db1 = Inr db2"
    "update_actor (\<lambda>a. actor_at (tw_tenant_id r) (tw_actor_key r) a \<and> aw_active_turn_id a = None)
      (set_actor_lease (Some (tw_turn_id r)) (Some (da_lease_owner adm)) (Some (timestamp_millis (ai_deadline g)))
        (timestamp_millis now)) CasLost db2 = Inr db3"
    "insert_outbox L rec None None now db3 = Inr db'"
    using ok by (cases rule: begin_turn_cases) (auto simp: r_def)
  have "td_sequence db1 = td_sequence db"
    using admit_actor [OF free load time] st(1,2) by auto
  moreover have same: "td_sequence db3 = td_sequence db1" "td_outbox db3 = td_outbox db1" "td_order db3 = td_order db1"
    using st(3,4) by (auto simp: insert_turn_row_def update_actor_def split: if_splits)
  moreover have "outbox_inv db3"
    using recover_for_admission_inv [OF st(2) ensure_actor_row_inv [OF st(1) inv]] same by (simp add: store_inv_def outbox_inv_def)
  ultimately show ?thesis
    using insert_outbox_ok [OF _ st(5)] by (auto simp: appended_def next_ordinal_def)
qed

subsection \<open>The created contract\<close>

lemma digest_lengths:
  assumes "take 40 (length_digest b) = take 40 (length_digest b')"
  shows "length b mod 32 = length b' mod 32"
proof -
  have "takeWhile (\<lambda>c. c = CHR ''1'') (take 40 (length_digest x)) = replicate (length x mod 32) CHR ''1''" for x
  proof -
    have "length x mod 32 < 32"
      by simp
    then have "take 40 (length_digest x) = replicate (length x mod 32) CHR ''1'' @ CHR ''0'' # replicate (39 - length x mod 32) CHR ''0''"
      by (simp add: length_digest_def flip: replicate_Suc)
    then show ?thesis
      by (simp only: takeWhile_append takeWhile_replicate) simp
  qed
  then show ?thesis
    using assms by (metis length_replicate)
qed

lemma local_outbox_ids:
  assumes "length i = 45" and "length (show_nat (unat m)) = 1" "length (show_nat (unat n)) = 1"
    and "length s mod 32 \<noteq> length t mod 32"
  shows "deterministic_outbox_id local_turn_libs ''local'' i m s \<noteq> deterministic_outbox_id local_turn_libs ''local'' i n t"
proof
  assume "deterministic_outbox_id local_turn_libs ''local'' i m s = deterministic_outbox_id local_turn_libs ''local'' i n t"
  then have "take 40 (length_digest (framed [''local'', i, show_nat (unat m), s])) = take 40 (length_digest (framed [''local'', i, show_nat (unat n), t]))"
    by (simp only: deterministic_outbox_id_def same_append_eq local_libs_simps)
  from digest_lengths [OF this] have "(87 + length s) mod 32 = (87 + length t) mod 32"
    by (simp add: assms(1-3) del: append.simps)
  then have "(87 + length s + 9) mod 32 = (87 + length t + 9) mod 32"
    by (rule mod_add_cong) simp
  then have "(32 * 3 + length s) mod 32 = (32 * 3 + length t) mod 32"
    by (simp add: add.commute)
  then show False
    using assms(4) by (simp only: mod_mult_self4)
qed

lemma local_created:
  "\<exists>c db i. begin_local_cli local_contract_libs local_process local_message ''default'' ''cli-1'' 0 demo_store = Inr (ContractCreated c, db) \<and>
     contract_turn_id c = Some i \<and> length i = 45 \<and> next_ordinal db = 2 \<and> ai_deadline (tc_ingress c) = seconds 900 \<and>
     outbox_key ` set (td_outbox db) = {(''local'', deterministic_outbox_id local_turn_libs ''local'' i 0 ''turn.state.accepted'')}"
proof -
  obtain g where g: "local_cli_ingress local_contract_libs local_process local_message ''default'' 0 = Inr g" "ai_deadline g = seconds 900"
    using local_ingress_accepted by blast
  define adm where "adm = local_admission local_turn_libs g local_message ''cli-1''"
  have tenant: "tenant_str (ai_tenant_id g) = ''local''"
    using g(1) by (auto simp: local_cli_ingress_def new_ingress_def local_ingress_input_def result_simps split: if_splits)
  have parts: "td_outbox demo_store = []" "td_actors demo_store = []" "td_turns demo_store = []" "td_sequence demo_store = None"
    by (simp_all add: demo_store_def)
  have authority: "validate_actor_authority g (da_actor adm) = Inr ()" "json_printable (da_request adm)" "\<not> da_approval_required adm"
    by (simp_all add: adm_def local_admission_def validate_actor_authority_def envelope_to_value_def local_message_def Let_def i64_min_def u64_max_def)
  have load: "rows_load local_turn_libs demo_store"
    by (simp add: rows_load_def turns_load_def actors_load_def demo_store_def)
  have free: "actor_free (da_actor adm) demo_store" "keys_unused local_turn_libs g adm 0 demo_store" "next_ordinal demo_store \<le> i64_max" "0 < ai_deadline g"
    by (simp_all add: actor_free_def keys_unused_def Let_def parts next_ordinal_def i64_max_def g(2) seconds_def)
  have ok: "tl_datetime_ok local_turn_libs t" for t
    by simp
  obtain rec db where turn: "begin_turn local_turn_libs g adm 0 demo_store = Inr (TurnCreated rec, db)" "vts_revision (dt_state rec) = 0"
    "vts_state (dt_state rec) = Accepted" "dt_tenant_id rec = ''local''"
    "td_outbox db = [new_outbox_row local_turn_libs rec None None (milliseconds (timestamp_millis 0)) 0 (timestamp_millis 0)]"
    using begin_turn_creates [OF local_laws empty_full_inv [OF demo_empty] load demo_triggers authority(1,2) ok ok free(4,1-3)] authority(3) tenant
    by (auto simp: parts)
  have inv: "store_inv demo_store"
    using empty_full_inv [OF demo_empty] by (simp add: full_inv_def)
  have "tw_turn_id (new_turn_row local_turn_libs g adm 0) = dt_turn_id rec"
    using created_state(3) [OF inv turn(1)] by (auto dest!: materialize_turn_ok simp: represents_def)
  moreover have "length (tw_turn_id (new_turn_row local_turn_libs g adm 0)) = 45"
    by (simp add: new_turn_row_def Let_def deterministic_turn_id_def length_digest_hex(2) [unfolded length_take] del: framed.simps)
  ultimately have len: "length (dt_turn_id rec) = 45"
    by simp
  have "next_ordinal db = 2"
    using created_ordinal [OF inv turn(1) free(1)] load by (simp add: rows_load_def next_ordinal_def parts)
  moreover have "trim s = s" if "s \<in> {''terminal'', ''t-1'', ''cli-1''}" for s
    by (rule trim_graphic) (use that in \<open>auto simp: byte_class_defs list_all_iff\<close>)
  then have "begin_durable local_contract_libs g local_message ''cli-1'' 0 demo_store = Inr (ContractCreated
      \<lparr>tc_ingress = g, tc_state = dt_state rec,
       tc_durable = Some \<lparr>au_tenant_id = dt_tenant_id rec, au_turn_id = dt_turn_id rec, au_lease_owner = ''cli-1''\<rparr>\<rparr>, db)"
    using turn(1) unfolding adm_def
    by (simp add: begin_durable_def for_ingress_def new_admission_def validate_actor_component_def validate_lease_identity_def
        local_admission_def MAX_ACTOR_COMPONENT_BYTES_def MAX_LEASE_OWNER_BYTES_def byte_class_defs Let_def)
  moreover have "state_event_type Accepted = ''turn.state.accepted''"
    by (simp add: state_event_type_def)
  ultimately show ?thesis
    using turn(2-5) len g local_duplicate_none
    by (simp add: begin_local_cli_def begin_local_cli_inner_def contract_turn_id_def outbox_key_def new_outbox_row_def Let_def)
qed

end
