(* ===== verification/Contract_Properties.thy ===== *)
theory Contract_Properties
  imports Contract_Demo
begin

text \<open>
  What the durable contract of a local wake promises: a created contract can be carried to its end, a
  failed wake leaves a terminal state of the right kind, and a message that is sent again, however late
  and whatever happened to the store meanwhile, is answered with the stored result of its first turn.
\<close>

subsection \<open>The stored turn of a message\<close>

lemma materialize_turn_json:
  assumes "materialize_turn L r = Inr rec"
  shows "x_json_parse (tl_externals L) (tw_request_json r) = Some (dt_request rec)"
    and "x_json_parse (tl_externals L) (tw_authority_json r) = Some (dt_authority rec)"
    and "dt_actor_key rec = tw_actor_key r" and "dt_turn_id rec = tw_turn_id r"
  using assms unfolding materialize_turn_def by (auto simp: result_simps parse_json_def)

lemma new_turn_row_json:
  assumes "turn_laws L" and "json_printable (da_request adm)" and "materialize_turn L (new_turn_row L g adm now) = Inr rec"
  shows "dt_request rec = da_request adm" and "dt_authority rec = ingress_to_value L g" and "dt_actor_key rec = id_actor_key (da_actor adm)"
  using materialize_turn_json [OF assms(3)] assms(1,2) ingress_printable [of L g]
  by (simp_all add: new_turn_row_def Let_def canonical_json_def turn_laws_def)

lemma local_scopes: "bt_from_list [''turn:submit'', ''tool:read''] = [''tool:read'', ''turn:submit'']"
  by code_simp

lemma local_ingress_value:
  assumes "local_cli_ingress C process e profile now = Inr g"
  obtains received where "tl_parse_rfc3339 (ct_libs C) (env_received_at e) = Some received"
    "ingress_to_value (ct_libs C) g = expected_authority (ct_libs C) process e profile (local_source_id (ct_libs C) e)
      (local_idempotency_key (ct_libs C) e) received"
    "tenant_str (ai_tenant_id g) = ''local''" "ai_idempotency_key g = local_idempotency_key (ct_libs C) e"
    "principal_str (ai_principal_id g) = principal_str (env_principal e)" "workspace_str (ai_workspace_id g) = ap_workspace_id process"
    "profile_str (ai_profile_id g) = profile"
proof -
  obtain received where r: "tl_parse_rfc3339 (ct_libs C) (env_received_at e) = Some received"
    and g: "new_ingress (local_ingress_input C process e profile received) now = Inr g"
    using assms by (auto simp: local_cli_ingress_def parse_received_at_def result_simps)
  have "g = \<lparr>ai_tenant_id = TenantId ''local'', ai_subject_id = SubjectId (principal_str (env_principal e)),
      ai_principal_id = env_principal e, ai_workspace_id = WorkspaceId (ap_workspace_id process), ai_profile_id = ProfileId profile,
      ai_session_id = SessionId (local_session_id (ct_libs C) process e profile),
      ai_source = \<lparr>as_surface = env_source e, as_source_id = local_source_id (ct_libs C) e\<rparr>,
      ai_deadline = received + seconds (15 * 60), ai_scopes = bt_from_list [''turn:submit'', ''tool:read''],
      ai_idempotency_key = local_idempotency_key (ct_libs C) e, ai_attachments = []\<rparr>"
    using g unfolding new_ingress_def local_ingress_input_def
    by (auto simp: result_simps ingress_scopes.run_ok simp del: collect_scopes.simps split: if_splits)
  then show thesis
    using that [OF r] by (simp add: ingress_to_value_def expected_authority_def local_scopes)
qed

text \<open>A retry of the message finds the record, whatever time of receipt it names.\<close>

lemma retry_view_received [simp]: "envelope_retry_view (e\<lparr>env_received_at := t\<rparr>) = envelope_retry_view e"
  by (simp add: envelope_retry_view_def envelope_to_value_def)

lemma local_identity_received [simp]:
  "local_idempotency_key L (e\<lparr>env_received_at := t\<rparr>) = local_idempotency_key L e"
  "local_source_id L (e\<lparr>env_received_at := t\<rparr>) = local_source_id L e"
  by (simp_all add: local_idempotency_key_def local_source_id_def local_message_identity_def)

lemma duplicate_found:
  assumes eq: "\<forall>v. x_json_eq (tl_externals (ct_libs C)) v v"
    and e: "ct_envelope_from_value C (envelope_to_value e) = Inr e" "validate_envelope (tl_externals (ct_libs C)) e = Inr ()"
    and g: "local_cli_ingress C process e profile now = Inr g"
    and rec: "load_by_idempotency (ct_libs C) ''local'' (local_idempotency_key (ct_libs C) e) db = Inr (Some rec)"
    and fields: "dt_request rec = envelope_to_value e" "dt_authority rec = ingress_to_value (ct_libs C) g"
      "dt_actor_key rec = id_actor_key (da_actor (local_admission (ct_libs C) g e w))"
    and t: "tl_parse_rfc3339 (ct_libs C) t \<noteq> None"
  shows "find_local_cli_duplicate C process (e\<lparr>env_received_at := t\<rparr>) profile db = Inr (Some rec)"
proof -
  obtain received where r: "tl_parse_rfc3339 (ct_libs C) (env_received_at e) = Some received"
    "ingress_to_value (ct_libs C) g = expected_authority (ct_libs C) process e profile (local_source_id (ct_libs C) e)
      (local_idempotency_key (ct_libs C) e) received"
    "tenant_str (ai_tenant_id g) = ''local''" "principal_str (ai_principal_id g) = principal_str (env_principal e)"
    "workspace_str (ai_workspace_id g) = ap_workspace_id process" "profile_str (ai_profile_id g) = profile"
    using local_ingress_value [OF g] by metis
  have "validate_local_source (e\<lparr>env_received_at := t\<rparr>) = Inr ()"
    using g by (auto simp: local_cli_ingress_def validate_local_source_def result_simps split: if_splits)
  moreover have "dt_actor_key rec = ''actor-'' @ take 40 (hash_parts (ct_libs C) (local_actor_parts process e profile))"
    using fields(3) r(3-6) by (simp add: local_admission_def deterministic_actor_key_def local_actor_parts_def)
  ultimately show ?thesis
    using t rec e fields r(1,2) eq
    by (auto simp: find_local_cli_duplicate_def Let_def parse_received_at_def)
qed

text \<open>The stored result of a finished turn is still there after any run.\<close>

lemma finished_turn_stays:
  assumes "full_inv db" and "(store_step L)\<^sup>*\<^sup>* db db'" and "r \<in> set (td_turns db)" and "tw_state r = state_name s" and "is_terminal s"
  shows "r \<in> set (td_turns db')"
proof -
  obtain r' where "r' \<in> set (td_turns db')" "turn_advance\<^sup>*\<^sup>* r r'"
    using store_run_advance [OF assms(2,1)] assms(3) by (auto simp: turns_advance_def)
  moreover have "\<not> live_turn r"
    using live_turn_state [OF assms(4)] assms(5) by simp
  ultimately show ?thesis
    using advance_effect by blast
qed

lemma retry_answers:
  assumes laws: "turn_laws (ct_libs C)" and eq: "\<forall>v. x_json_eq (tl_externals (ct_libs C)) v v"
    and e: "ct_envelope_from_value C (envelope_to_value e) = Inr e" "validate_envelope (tl_externals (ct_libs C)) e = Inr ()"
    and g: "local_cli_ingress C process e profile now = Inr g" and inv: "turns_inv db"
    and r: "r \<in> set (td_turns db)" "idempotency_key_of r = (''local'', local_idempotency_key (ct_libs C) e)" "materialize_turn (ct_libs C) r = Inr rec"
    and fields: "dt_request rec = envelope_to_value e" "dt_authority rec = ingress_to_value (ct_libs C) g"
      "dt_actor_key rec = id_actor_key (da_actor (local_admission (ct_libs C) g e w))"
    and fin: "is_terminal (vts_state (dt_state rec))" "dt_terminal_result rec = Some (tl_execution_to_value (ct_libs C) exec)"
      "tl_execution_from_value (ct_libs C) (tl_execution_to_value (ct_libs C) exec) = Some exec"
    and t: "tl_parse_rfc3339 (ct_libs C) t \<noteq> None"
  shows "begin_local_cli C process (e\<lparr>env_received_at := t\<rparr>) profile w' now' db = Inr (ContractDuplicate rec, db)"
    and "duplicate_execution C rec = Inr exec"
proof -
  have "load_by_idempotency (ct_libs C) ''local'' (local_idempotency_key (ct_libs C) e) db = Inr (Some rec)"
    using find_by_idempotency [OF inv r(1,2)] r(3) by (simp add: load_by_idempotency_def optional_map_def)
  from duplicate_found [OF eq e g this fields t]
  show "begin_local_cli C process (e\<lparr>env_received_at := t\<rparr>) profile w' now' db = Inr (ContractDuplicate rec, db)"
    by (simp add: begin_local_cli_def begin_local_cli_inner_def)
  show "duplicate_execution C rec = Inr exec"
    using fin by (simp add: duplicate_execution_def)
qed

lemma begin_local_created:
  assumes "begin_local_cli C process e profile w now db = Inr (ContractCreated c, db')"
  obtains g where "local_cli_ingress C process e profile now = Inr g" "begin_durable C g e w now db = Inr (ContractCreated c, db')"
proof -
  obtain found where found: "find_local_cli_duplicate C process e profile db = Inr found"
    using assms by (auto simp: begin_local_cli_def begin_local_cli_inner_def result_simps)
  then have "found = None"
    using assms by (cases found) (simp_all add: begin_local_cli_def begin_local_cli_inner_def)
  then obtain g where g: "local_cli_ingress C process e profile now = Inr g" "begin_durable C g e w now db = Inr (ContractCreated c, db')"
    using assms found
    by (cases "local_cli_ingress C process e profile now"; cases "begin_durable C (projr (local_cli_ingress C process e profile now)) e w now db")
      (auto simp: begin_local_cli_def begin_local_cli_inner_def)
  then show thesis
    using that by blast
qed

text \<open>
  C8. A message runs once: a contract that was created for a local message is carried through routing
  and running to the terminal state of its execution as long as the clock does not run backwards or past
  the deadline; and from then on, in every later state of the store and at any time, the same message,
  whatever time of receipt it names, starts no turn but is answered with that execution.
\<close>

theorem message_runs_once:
  assumes laws: "turn_laws (ct_libs C)" "\<forall>v. x_json_eq (tl_externals (ct_libs C)) v v"
    and env: "json_printable (envelope_to_value e)" "ct_envelope_from_value C (envelope_to_value e) = Inr e"
      "validate_envelope (tl_externals (ct_libs C)) e = Inr ()"
    and run: "reaches empty_store (store_step (ct_libs C)) db"
    and created: "begin_local_cli C process e profile w now db = Inr (ContractCreated c, db0)"
    and room: "next_ordinal db0 + 2 \<le> i64_max" and turn: "contract_turn_id c = Some i"
    and unused: "run_events_unused (ct_libs C) ''local'' i (terminal_state exec) db0"
    and ok: "tl_datetime_ok (ct_libs C) t1" "tl_datetime_ok (ct_libs C) t2" "tl_datetime_ok (ct_libs C) t3"
    and times: "now \<le> t1" "t1 \<le> t2" "t2 \<le> t3" "timestamp_millis t3 < timestamp_millis (ai_deadline (tc_ingress c))"
    and res: "result_ok (ct_libs C) (terminal_state exec) (Some exec)"
  shows "\<exists>c1 c2 c3 db1 db2 db3. contract_transition C c Routed t1 db0 = Inr (c1, db1) \<and>
    contract_transition C c1 Running t2 db1 = Inr (c2, db2) \<and> finish_execution C c2 exec t3 db2 = Inr (c3, db3) \<and>
    vts_state (tc_state c3) = terminal_state exec \<and>
    (\<forall>db4 t w' now'. (store_step (ct_libs C))\<^sup>*\<^sup>* db3 db4 \<and> tl_parse_rfc3339 (ct_libs C) t \<noteq> None \<longrightarrow>
      (\<exists>rec. begin_local_cli C process (e\<lparr>env_received_at := t\<rparr>) profile w' now' db4 = Inr (ContractDuplicate rec, db4) \<and>
        duplicate_execution C rec = Inr exec))"
proof -
  let ?L = "ct_libs C"
  obtain g where g: "local_cli_ingress C process e profile now = Inr g" "begin_durable C g e w now db = Inr (ContractCreated c, db0)"
    using created by (rule begin_local_created)
  define adm where "adm = local_admission ?L g e w"
  define r where "r = new_turn_row ?L g adm now"
  note inv = reachable_loads [OF laws(1) run]
  have sinv: "store_inv db"
    using inv(1) by (simp add: full_inv_def)
  note b = begin_durable_holds [OF sinv g(2), folded adm_def, folded r_def]
  obtain rec where rec: "materialize_turn ?L r = Inr rec"
    using b(5) by blast
  have st: "full_inv db0" "rows_load ?L db0"
    using store_step_inv [OF inv(1) b(4)] store_step_loads [OF laws(1) inv b(4)] by simp_all
  obtain received where key: "tenant_str (ai_tenant_id g) = ''local''" "ai_idempotency_key g = local_idempotency_key ?L e"
    using local_ingress_value [OF g(1)] by metis
  have r: "tw_revision r = 0" "tw_updated_at_ms r = timestamp_millis now" "tw_deadline_ms r = timestamp_millis (ai_deadline g)"
    "idempotency_key_of r = (''local'', local_idempotency_key ?L e)" "tw_tenant_id r = ''local''" "tw_turn_id r = i"
    using turn b(1) key by (auto simp: r_def new_turn_row_def Let_def idempotency_key_of_def contract_turn_id_def contract_holds_def)
  have mono: "s \<le> t \<Longrightarrow> timestamp_millis s \<le> timestamp_millis t" for s t
    using milliseconds_le [of "timestamp_millis s" t] milliseconds_le [of "timestamp_millis s" s] by auto
  let ?r2 = "moved_row ?L Running None t2 (moved_row ?L Routed None t1 r)"
  define rf where "rf = moved_row ?L (terminal_state exec) (Some exec) t3 ?r2"
  obtain c1 c2 c3 db1 db2 db3 where chain: "contract_transition C c Routed t1 db0 = Inr (c1, db1)"
    "contract_transition C c1 Running t2 db1 = Inr (c2, db2)" "finish_execution C c2 exec t3 db2 = Inr (c3, db3)"
    "vts_state (tc_state c3) = terminal_state exec" "(store_step ?L)\<^sup>*\<^sup>* db0 db3" "rf \<in> set (td_turns db3)"
    using contract_run_completes [OF laws(1) st b(3,1,2) r(1) room _ ok, of exec] unused times mono r(2-6) b(6) res
    unfolding rf_def by auto
  have frec: "\<exists>frec. materialize_turn ?L rf = Inr frec \<and> dt_request frec = dt_request rec \<and> dt_authority frec = dt_authority rec \<and>
      dt_actor_key frec = dt_actor_key rec \<and> vts_state (dt_state frec) = terminal_state exec \<and>
      dt_terminal_result frec = Some (tl_execution_to_value ?L exec)"
    using moved_row_loads [OF laws(1) moved_row_loads [OF laws(1) moved_row_loads [OF laws(1) rec _ ok(1)] _ ok(2)] res ok(3)] r(1)
    by (simp add: rf_def result_ok_def restore_def)
  have answer: "\<exists>rec. begin_local_cli C process (e\<lparr>env_received_at := t\<rparr>) profile w' now' db4 = Inr (ContractDuplicate rec, db4) \<and>
      duplicate_execution C rec = Inr exec"
    if run4: "(store_step ?L)\<^sup>*\<^sup>* db3 db4" and t: "tl_parse_rfc3339 ?L t \<noteq> None" for db4 t w' now'
  proof -
    have inv3: "full_inv db3"
      using store.run_inv [OF chain(5) st(1)] .
    have "turns_inv db4"
      using store.run_inv [OF run4 inv3] by (simp add: full_inv_def store_inv_def)
    moreover have "rf \<in> set (td_turns db4)"
      by (rule finished_turn_stays [OF inv3 run4 chain(6), of "terminal_state exec"]) (simp_all add: rf_def)
    moreover have "idempotency_key_of rf = (''local'', local_idempotency_key ?L e)"
      by (simp add: rf_def r(4))
    moreover note new_turn_row_json [OF laws(1), of adm g now rec, folded r_def, OF _ rec]
    moreover have "da_request adm = envelope_to_value e"
      by (simp add: adm_def local_admission_def)
    ultimately show ?thesis
      using frec retry_answers(1) [OF laws env(2,3) g(1), of db4 rf _ w exec t w' now'] retry_answers(2) [OF laws env(2,3) g(1), of db4 rf _ w exec t]
        env(1) res t by (auto simp: adm_def result_ok_def)
  qed
  then show ?thesis
    using chain(1-4) by blast
qed

theorem message_runs_once_witness:
  "\<exists>c db c1 c2 c3 db1 db2 db3 rec.
     begin_local_cli local_contract_libs local_process local_message ''default'' ''cli-1'' 0 demo_store = Inr (ContractCreated c, db) \<and>
     contract_transition local_contract_libs c Routed (seconds 1) db = Inr (c1, db1) \<and>
     contract_transition local_contract_libs c1 Running (seconds 2) db1 = Inr (c2, db2) \<and>
     finish_execution local_contract_libs c2 (Handled ''help'') (seconds 3) db2 = Inr (c3, db3) \<and>
     begin_local_cli local_contract_libs local_process (local_message\<lparr>env_received_at := ''1+''\<rparr>) ''default'' ''cli-2'' 1 db3 =
       Inr (ContractDuplicate rec, db3) \<and>
     duplicate_execution local_contract_libs rec = Inr (Handled ''help'')"
proof -
  obtain c db i where c: "begin_local_cli local_contract_libs local_process local_message ''default'' ''cli-1'' 0 demo_store =
      Inr (ContractCreated c, db)" "contract_turn_id c = Some i" "length i = 45" "next_ordinal db = 2" "ai_deadline (tc_ingress c) = seconds 900"
    "outbox_key ` set (td_outbox db) = {(''local'', deterministic_outbox_id local_turn_libs ''local'' i 0 ''turn.state.accepted'')}"
    using local_created by blast
  have reach: "reaches empty_store (store_step (ct_libs local_contract_libs)) demo_store"
    using reaches.start [of empty_store demo_store] demo_empty by simp
  have shown: "length (show_nat (unat n)) = 1" if "n \<in> {0, 1, 2, 3 :: u64}" for n
    using that by (auto simp: show_nat.simps)
  have unused: "run_events_unused (ct_libs local_contract_libs) ''local'' i (terminal_state (Handled ''help'')) db"
    by (simp add: run_events_unused_def Let_def c(6) local_outbox_ids [OF c(3) shown shown] state_event_type_def)
  have printable: "json_printable (envelope_to_value local_message)"
    by (simp add: envelope_to_value_def local_message_def Let_def i64_min_def u64_max_def)
  have res: "result_ok (ct_libs local_contract_libs) (terminal_state (Handled ''help'')) (Some (Handled ''help''))"
    by (simp add: result_ok_def)
  have times: "(0::instant) \<le> seconds 1" "seconds 1 \<le> seconds 2" "seconds 2 \<le> seconds 3"
    "timestamp_millis (seconds 3) < timestamp_millis (ai_deadline (tc_ingress c))"
    by (simp_all add: c(5) seconds_def timestamp_millis_def)
  obtain c1 c2 c3 db1 db2 db3 where
    run: "contract_transition local_contract_libs c Routed (seconds 1) db = Inr (c1, db1)"
      "contract_transition local_contract_libs c1 Running (seconds 2) db1 = Inr (c2, db2)"
      "finish_execution local_contract_libs c2 (Handled ''help'') (seconds 3) db2 = Inr (c3, db3)"
    and again: "\<And>t w' now'. tl_parse_rfc3339 local_turn_libs t \<noteq> None \<Longrightarrow>
      \<exists>rec. begin_local_cli local_contract_libs local_process (local_message\<lparr>env_received_at := t\<rparr>) ''default'' w' now' db3 =
        Inr (ContractDuplicate rec, db3) \<and> duplicate_execution local_contract_libs rec = Inr (Handled ''help'')"
    using message_runs_once [where C = local_contract_libs, OF _ _ printable _ _ reach c(1) _ c(2) unused _ _ _ times res]
      local_laws local_message_valid c(4) by (auto simp: i64_max_def)
  show ?thesis
    using c(1) run again [of "''1+''" "''cli-2''" 1] by (auto simp: local_time)
qed

subsection \<open>A wake that fails\<close>

lemma held_is_live:
  assumes "turns_inv db" and "a \<in> set (td_actors db)" and "r \<in> set (td_turns db)" and "holds_turn a r"
  shows "live_turn r"
proof -
  obtain q where q: "q \<in> set (td_turns db)" "live_turn q" "holds_turn a q"
    using assms unfolding turns_inv_def holds_turn_def by (metis option.distinct(1))
  then have "turn_key q = turn_key r"
    using assms(4) by (auto simp: holds_turn_def actor_of_turn_def turn_key_def)
  then show ?thesis
    using turns_inv_key [OF assms(1) q(1) assms(3)] q(2) by simp
qed

text \<open>The terminal state of a failed wake: quarantined once it may have had effects, aborted before.\<close>

definition failed_state :: "turn_state \<Rightarrow> turn_state" where
  "failed_state s = (if s \<in> {Running, ToolRunning} then Quarantined else Aborted)"

lemma failure_execution_state:
  assumes "\<not> is_terminal s"
  shows "\<exists>x. failure_execution s message = Some x \<and> terminal_state x = failed_state s \<and> can_transition_to s (failed_state s)"
  using assms by (cases s) (simp_all add: failure_execution_def failed_state_def aborted_execution_def can_transition_to_def)

text \<open>
  C11. A failed wake closes its turn: while the worker of a contract still holds its turn, recording the
  failure succeeds, and it commits the turn as aborted when it never ran and as quarantined when it was
  running or inside a tool; the actor is free again; and after that neither a second failure nor the
  drop of the contract changes the store.
\<close>

theorem failed_wake_closes:
  assumes laws: "turn_laws (ct_libs C)" and c: "contract_holds c r db"
    and can: "can_move (ct_libs C) r (failed_state (vts_state (tc_state c))) now db"
    and readable: "\<forall>x. failure_execution (vts_state (tc_state c)) message = Some x \<longrightarrow> result_ok (ct_libs C) (terminal_state x) (Some x)"
  shows "\<exists>c' db' r'. fail_execution C c message now db = Inr (c', db') \<and> vts_state (tc_state c') = failed_state (vts_state (tc_state c)) \<and>
    r' \<in> set (td_turns db') \<and> turn_key r' = turn_key r \<and> tw_state r' = state_name (failed_state (vts_state (tc_state c))) \<and>
    (\<forall>a \<in> set (td_actors db'). \<not> holds_turn a r') \<and>
    (\<forall>later other. fail_execution C c' other later db' = Inr (c', db') \<and> drop_contract C c' later db' = db')"
proof -
  let ?s = "vts_state (tc_state c)"
  obtain a where a: "a \<in> set (td_actors db)" "holds_turn a r" "r \<in> set (td_turns db)" "tw_state r = state_name ?s"
    using c by (auto simp: contract_holds_def held_def)
  have inv: "full_inv db"
    using can by (simp add: can_move_def)
  then have live: "\<not> is_terminal ?s"
    using held_is_live [OF _ a(1,3,2)] live_turn_state [OF a(4)] by (simp add: full_inv_def store_inv_def)
  obtain x where x: "failure_execution ?s message = Some x" "terminal_state x = failed_state ?s" "can_transition_to ?s (failed_state ?s)"
    using failure_execution_state [OF live] by blast
  obtain c' db' where run: "finish_execution C c x now db = Inr (c', db')" "vts_state (tc_state c') = failed_state ?s"
    "moved_row (ct_libs C) (failed_state ?s) (Some x) now r \<in> set (td_turns db')" "store_step (ct_libs C) db db'"
    using finish_execution_succeeds [OF laws c, of x now] can x readable by auto
  have final: "is_terminal (failed_state ?s)"
    by (simp add: failed_state_def)
  have "turns_inv db'"
    using store_step_inv [OF inv run(4)] by (simp add: full_inv_def store_inv_def)
  then have "\<not> holds_turn b (moved_row (ct_libs C) (failed_state ?s) (Some x) now r)" if "b \<in> set (td_actors db')" for b
    using held_is_live [OF _ that run(3)] live_turn_state [of "moved_row (ct_libs C) (failed_state ?s) (Some x) now r"] final by auto
  then show ?thesis
    using run x(1) live final by (intro exI [of _ c'] exI [of _ db']) (auto simp: fail_execution_def drop_contract_def)
qed

theorem failed_wake_closes_witness:
  "\<exists>c db c' db'.
     begin_local_cli local_contract_libs local_process local_message ''default'' ''cli-1'' 0 demo_store = Inr (ContractCreated c, db) \<and>
     fail_execution local_contract_libs c ''provider error'' (seconds 1) db = Inr (c', db') \<and> vts_state (tc_state c') = Aborted \<and>
     drop_contract local_contract_libs c' (seconds 2) db' = db'"
proof -
  obtain c db i where c: "begin_local_cli local_contract_libs local_process local_message ''default'' ''cli-1'' 0 demo_store =
      Inr (ContractCreated c, db)" "contract_turn_id c = Some i" "length i = 45" "next_ordinal db = 2" "ai_deadline (tc_ingress c) = seconds 900"
    "outbox_key ` set (td_outbox db) = {(''local'', deterministic_outbox_id local_turn_libs ''local'' i 0 ''turn.state.accepted'')}"
    using local_created by blast
  obtain g where g: "local_cli_ingress local_contract_libs local_process local_message ''default'' 0 = Inr g"
    "begin_durable local_contract_libs g local_message ''cli-1'' 0 demo_store = Inr (ContractCreated c, db)"
    using c(1) by (rule begin_local_created)
  define r where "r = new_turn_row local_turn_libs g (local_admission local_turn_libs g local_message ''cli-1'') 0"
  have sinv: "store_inv demo_store" and load: "rows_load local_turn_libs demo_store"
    using empty_full_inv [OF demo_empty] by (simp_all add: full_inv_def rows_load_def turns_load_def actors_load_def demo_store_def)
  note b = begin_durable_holds [OF sinv g(2), unfolded local_libs_simps, folded r_def]
  have "tenant_str (ai_tenant_id g) = ''local''"
    using local_ingress_value [OF g(1)] by metis
  then have r: "tw_tenant_id r = ''local''" "tw_turn_id r = i" "tw_revision r = 0" "tw_updated_at_ms r = 0" "tw_deadline_ms r = 900000"
    using b(1,6) c(2,5) by (auto simp: r_def new_turn_row_def Let_def contract_turn_id_def contract_holds_def timestamp_millis_def seconds_def)
  have s: "vts_state (tc_state c) = Accepted"
    using b(2) by (simp add: restore_def)
  have "length (show_nat (unat (0 :: u64))) = 1" "length (show_nat (unat (1 :: u64))) = 1"
    by (simp_all add: show_nat.simps)
  note fresh = local_outbox_ids [OF c(3) this(2,1)]
  have "can_move local_turn_libs r Aborted (seconds 1) db"
    using store_step_inv [OF empty_full_inv [OF demo_empty] b(4)] store_step_loads [OF local_laws empty_full_inv [OF demo_empty] load b(4)]
    by (simp add: can_move_def b(3) r c(4,6) event_key_def fresh state_event_type_def i64_max_def timestamp_millis_def seconds_def)
  moreover have "\<forall>x. failure_execution Accepted ''provider error'' = Some x \<longrightarrow> result_ok local_turn_libs (terminal_state x) (Some x)"
    by (simp add: failure_execution_def result_ok_def aborted_execution_def)
  ultimately show ?thesis
    using failed_wake_closes [where C = local_contract_libs, OF _ b(1), of "seconds 1" "''provider error''"] local_laws c(1)
    by (auto simp: s failed_state_def)
qed

end
