(* ===== verification/Session_Actor.thy ===== *)
theory Session_Actor
  imports Contract_Demo
begin

text \<open>
  \<open>crates/zaion-runtime/src/session_actor.rs\<close> and \<open>cancel.rs\<close>: the owner of a session's turns, which
  passes its calls to the turn store, approves waiting turns under the lease of their actor, and cancels
  the processes that were registered with its token. The three calls that an approval makes on the store
  are separate transactions, so the model takes a database for each of them.
\<close>

subsection \<open>Cancellation\<close>

record cancel_token =
  ck_cancelled :: bool
  ck_pids :: "32 word list"

datatype cancelled = Cancelled

definition new_cancel_token :: cancel_token where
  "new_cancel_token = \<lparr>ck_cancelled = False, ck_pids = []\<rparr>"

definition is_cancelled :: "cancel_token \<Rightarrow> bool" where
  "is_cancelled self = ck_cancelled self"

definition register_pid :: "32 word \<Rightarrow> cancel_token \<Rightarrow> cancel_token" where
  "register_pid pid self = self\<lparr>ck_pids := ck_pids self @ [pid]\<rparr>"

text \<open>The processes killed, in order, and the token.\<close>

definition token_cancel :: "cancel_token \<Rightarrow> 32 word list \<times> cancel_token" where
  "token_cancel self = (let self = self\<lparr>ck_cancelled := True\<rparr> in (ck_pids self, self))"

definition check_cancelled :: "cancel_token \<Rightarrow> cancelled + unit" where
  "check_cancelled self = (if is_cancelled self then Inl Cancelled else Inr ())"

subsection \<open>The actor\<close>

record session_actor =
  sa_store :: turn_db
  sa_cancel :: "cancel_token option"

definition actor_begin_turn ::
  "turn_libs \<Rightarrow> authenticated_ingress \<Rightarrow> durable_turn_admission \<Rightarrow> instant \<Rightarrow> session_actor \<Rightarrow>
     turn_store_error + begin_turn_result \<times> session_actor" where
  "actor_begin_turn L ingress admission now self =
     and_then (begin_turn L ingress admission now (sa_store self)) (\<lambda>(result, db). Inr (result, self\<lparr>sa_store := db\<rparr>))"

definition approve_turn ::
  "turn_libs \<Rightarrow> string \<Rightarrow> string \<Rightarrow> instant \<Rightarrow> turn_db \<Rightarrow> turn_db \<Rightarrow> turn_db \<Rightarrow>
     turn_store_error + durable_turn_record \<times> turn_db" where
  "approve_turn L tenant_id turn_id now db1 db2 db3 =
     and_then (load_turn L tenant_id turn_id db1) (\<lambda>found.
     and_then (ok_or (UnknownTurn turn_id) found) (\<lambda>record.
     if vts_state (dt_state record) \<noteq> WaitingApproval then Inl (NotWaitingApproval turn_id)
     else
       and_then (load_actor L tenant_id (dt_actor_key record) db2) (\<lambda>found.
       and_then (ok_or (ActorLeaseLost ''missing'') found) (\<lambda>actor.
       and_then (ok_or (ActorLeaseLost ''none'') (ar_lease_owner actor)) (\<lambda>lease_owner.
       store_transition L tenant_id turn_id lease_owner WaitingApproval (vts_revision (dt_state record)) ToolRunning now db3)))))"

definition is_created :: "begin_turn_result \<Rightarrow> bool" where
  "is_created result = (case result of TurnCreated _ \<Rightarrow> True | TurnExisting _ \<Rightarrow> False)"

definition actor_cancel :: "session_actor \<Rightarrow> 32 word list \<times> session_actor" where
  "actor_cancel self =
     (case sa_cancel self of
        None \<Rightarrow> ([], self)
      | Some token \<Rightarrow> (case token_cancel token of (killed, token) \<Rightarrow> (killed, self\<lparr>sa_cancel := Some token\<rparr>)))"

definition register_child :: "32 word \<Rightarrow> session_actor \<Rightarrow> session_actor" where
  "register_child pid self = self\<lparr>sa_cancel := map_option (register_pid pid) (sa_cancel self)\<rparr>"

subsection \<open>What cancellation reaches\<close>

lemma cancel_kills_registered:
  assumes "sa_cancel self = Some token"
  shows "fst (actor_cancel (fold register_child pids self)) = ck_pids token @ pids"
    and "\<exists>t. sa_cancel (snd (actor_cancel (fold register_child pids self))) = Some t \<and> check_cancelled t = Inl Cancelled"
proof -
  have registered: "sa_cancel (fold register_child pids s) = Some (t\<lparr>ck_pids := ck_pids t @ pids\<rparr>)" if "sa_cancel s = Some t" for s t
    using that
  proof (induction pids arbitrary: s t)
    case (Cons p pids)
    have "sa_cancel (register_child p s) = Some (register_pid p t)"
      using Cons.prems by (simp add: register_child_def)
    from Cons.IH [OF this] show ?case
      by (simp add: register_pid_def)
  qed simp
  show "fst (actor_cancel (fold register_child pids self)) = ck_pids token @ pids"
    and "\<exists>t. sa_cancel (snd (actor_cancel (fold register_child pids self))) = Some t \<and> check_cancelled t = Inl Cancelled"
    using registered [OF assms] by (simp_all add: actor_cancel_def token_cancel_def check_cancelled_def is_cancelled_def)
qed

text \<open>A process that is registered after the cancellation is not killed by it, although the token says cancelled.\<close>

lemma late_child_survives:
  "let (killed, token) = token_cancel new_cancel_token; token = register_pid pid token
   in is_cancelled token \<and> pid \<in> set (ck_pids token) \<and> pid \<notin> set killed"
  by (simp add: token_cancel_def new_cancel_token_def register_pid_def is_cancelled_def)

subsection \<open>Approval\<close>

text \<open>
  Whatever happened between the reads and the transition, an approval that succeeds is one step of the
  store from the database it found: the turn was still waiting there, at the revision that was read.
\<close>

lemma approve_turn_step:
  assumes inv: "full_inv db3" and ok: "approve_turn L tenant_id turn_id now db1 db2 db3 = Inr (rec, db')"
  shows "store_step L db3 db'"
    and "\<exists>r \<in> set (td_turns db3). turn_key r = (tenant_id, turn_id) \<and> tw_state r = state_name WaitingApproval"
proof -
  obtain n owner where st: "store_transition L tenant_id turn_id owner WaitingApproval n ToolRunning now db3 = Inr (rec, db')"
    using ok by (auto simp: approve_turn_def result_simps split: if_splits)
  then show "store_step L db3 db'"
    by (rule store_step.step_transition)
  obtain cur where cur: "require_turn L tenant_id turn_id db3 = Inr cur" "vts_state (dt_state cur) = WaitingApproval"
    using st by (auto simp: store_transition_def transition_inner_def result_simps compare_and_transition_Inr split: if_splits)
  then obtain r where r: "find (turn_at tenant_id turn_id) (td_turns db3) = Some r" "materialize_turn L r = Inr cur"
    by (auto simp: require_turn_ok)
  then show "\<exists>r \<in> set (td_turns db3). turn_key r = (tenant_id, turn_id) \<and> tw_state r = state_name WaitingApproval"
    using find_turn_at [OF r(1)] materialize_turn_ok [OF r(2)] cur(2) by (auto simp: represents_def turn_key_def intro!: bexI [of _ r])
qed

lemma held_actor:
  assumes inv: "turns_inv db" and load: "actors_load L db" and held: "held r w db" and rep: "represents r cur"
  shows "\<exists>arec. load_actor L (tw_tenant_id r) (dt_actor_key cur) db = Inr (Some arec) \<and> ar_lease_owner arec = Some w"
proof -
  obtain a where a: "a \<in> set (td_actors db)" "holds_turn a r" "aw_lease_owner a = Some w"
    using held by (auto simp: held_def)
  obtain arec where arec: "row_to_actor L a = Inr arec"
    using load a(1) by (auto simp: actors_load_def)
  then have "shows_actor a arec"
    by (auto simp: row_to_actor_def shows_actor_def result_simps)
  then have "ar_lease_owner arec = Some w"
    using a(3) by (simp add: shows_actor_def)
  moreover have "actor_key_of a = (tw_tenant_id r, dt_actor_key cur)"
    using a(2) rep by (simp add: holds_turn_def represents_def actor_of_turn_def)
  ultimately show ?thesis
    using find_actor_at [OF inv a(1)] arec by (simp add: load_actor_def optional_map_def)
qed

text \<open>
  C24. An approval resumes the turn: in every reachable state with the store's triggers intact, a turn
  that waits for approval and whose lease runs is moved to the running tool by \<open>approve_turn\<close>, without
  the caller knowing the lease. The move takes one revision, is one step of the store, and the worker
  that admitted the turn still holds it.
\<close>

theorem approval_resumes_turn:
  assumes laws: "turn_laws L" and run: "reaches empty_store (store_step L) db"
    and triggers: "validate_no_extra_outbox_triggers db = Inr ()"
    and turn: "held r w db" "tw_state r = state_name WaitingApproval" "validate_lease_identity ''lease_owner'' w = Inr ()"
    and now: "tl_datetime_ok L now" "tw_updated_at_ms r \<le> timestamp_millis now" "timestamp_millis now < tw_deadline_ms r"
    and room: "tw_revision r + 1 \<le> i64_max" "next_ordinal db \<le> i64_max" "event_key L r ToolRunning \<notin> outbox_key ` set (td_outbox db)"
  shows "\<exists>rec db'. approve_turn L (tw_tenant_id r) (tw_turn_id r) now db db db = Inr (rec, db') \<and>
    dt_state rec = restore ToolRunning (word_of_int (tw_revision r + 1)) \<and>
    store_step L db db' \<and> held (moved_row L ToolRunning None now r) w db'"
proof -
  note inv = reachable_loads [OF laws run]
  have turns: "turns_inv db" and r: "r \<in> set (td_turns db)"
    using inv(1) turn(1) by (simp_all add: full_inv_def store_inv_def held_def)
  obtain cur where cur: "materialize_turn L r = Inr cur"
    using inv(2) r by (auto simp: rows_load_def turns_load_def)
  note rep = materialize_turn_ok [OF cur]
  have waiting: "vts_state (dt_state cur) = WaitingApproval" "vts_revision (dt_state cur) = word_of_int (tw_revision r)"
    using rep turn(2) state_name_inject by (metis represents_def, simp add: represents_def)
  have found: "load_turn L (tw_tenant_id r) (tw_turn_id r) db = Inr (Some cur)"
    using find_turn_unique [OF turns r] cur by (simp add: load_turn_def optional_map_def)
  obtain arec where actor: "load_actor L (tw_tenant_id r) (dt_actor_key cur) db = Inr (Some arec)" "ar_lease_owner arec = Some w"
    using held_actor [OF turns _ turn(1) rep] inv(2) by (auto simp: rows_load_def)
  have edge: "can_transition_to WaitingApproval ToolRunning" "result_ok L ToolRunning None" "\<not> is_terminal ToolRunning"
    by (simp_all add: can_transition_to_def result_ok_def)
  obtain rec db' where moved: "transition_inner L (tw_tenant_id r) (tw_turn_id r) w WaitingApproval (word_of_int (tw_revision r)) ToolRunning None now db = Inr (rec, db')"
    "dt_state rec = restore ToolRunning (word_of_int (tw_revision r + 1))" "moved_to L r w ToolRunning None now db db'"
    using transition_succeeds [OF laws inv triggers turn now edge(1,2) room] by blast
  have ok: "approve_turn L (tw_tenant_id r) (tw_turn_id r) now db db db = Inr (rec, db')"
    using found actor waiting moved(1) edge(3) by (simp add: approve_turn_def store_transition_def)
  then show ?thesis
    using approve_turn_step(1) [OF inv(1) ok] moved(2,3) edge(3) by (auto simp: moved_to_def)
qed

text \<open>A turn under approval on the empty store.\<close>

lemma waiting_created:
  "\<exists>rec db. begin_turn local_turn_libs demo_ingress (demo_admission True) 0 demo_store = Inr (TurnCreated rec, db) \<and>
     next_ordinal db = 2 \<and> validate_no_extra_outbox_triggers db = Inr () \<and>
     held (new_turn_row local_turn_libs demo_ingress (demo_admission True) 0) ''worker-1'' db \<and>
     event_key local_turn_libs (new_turn_row local_turn_libs demo_ingress (demo_admission True) 0) ToolRunning \<notin> outbox_key ` set (td_outbox db)"
proof -
  let ?L = local_turn_libs and ?adm = "demo_admission True"
  let ?r = "new_turn_row ?L demo_ingress ?adm 0"
  have parts: "td_outbox demo_store = []" "td_actors demo_store = []" "td_turns demo_store = []" "td_sequence demo_store = None"
    by (simp_all add: demo_store_def)
  have adm: "validate_actor_authority demo_ingress (da_actor ?adm) = Inr ()" "json_printable (da_request ?adm)" "da_approval_required ?adm"
    "da_lease_owner ?adm = ''worker-1''" "0 < ai_deadline demo_ingress" "tenant_str (ai_tenant_id demo_ingress) = ''acme''"
    by (simp_all add: validate_actor_authority_def demo_ingress_def demo_admission_def demo_actor_def) (simp add: seconds_def)
  have load: "rows_load ?L demo_store"
    by (simp add: rows_load_def turns_load_def actors_load_def parts)
  have free: "actor_free (da_actor ?adm) demo_store" "keys_unused ?L demo_ingress ?adm 0 demo_store" "next_ordinal demo_store \<le> i64_max"
    by (simp_all add: actor_free_def keys_unused_def Let_def parts next_ordinal_def i64_max_def)
  have ok: "tl_datetime_ok ?L t" for t
    by simp
  obtain rec db where turn: "begin_turn ?L demo_ingress ?adm 0 demo_store = Inr (TurnCreated rec, db)" "vts_revision (dt_state rec) = 0"
    "vts_state (dt_state rec) = WaitingApproval" "dt_tenant_id rec = ''acme''"
    "td_outbox db = [new_outbox_row ?L rec None None (milliseconds (timestamp_millis 0)) 0 (timestamp_millis 0)]"
    using begin_turn_creates [OF local_laws empty_full_inv [OF demo_empty] load demo_triggers adm(1,2) ok ok adm(5) free] adm(3,6)
    by (auto simp: parts)
  have inv: "store_inv demo_store"
    using empty_full_inv [OF demo_empty] by (simp add: full_inv_def)
  have same: "tw_turn_id ?r = dt_turn_id rec"
    using created_state(3) [OF inv turn(1)] by (auto dest!: materialize_turn_ok simp: represents_def)
  have "next_ordinal db = 2"
    using created_ordinal [OF inv turn(1) free(1)] load by (simp add: rows_load_def next_ordinal_def parts)
  moreover have "event_key ?L ?r ToolRunning \<notin> outbox_key ` set (td_outbox db)"
  proof
    assume "event_key ?L ?r ToolRunning \<in> outbox_key ` set (td_outbox db)"
    then have "deterministic_outbox_id ?L ''acme'' (dt_turn_id rec) 1 ''turn.state.tool_running'' =
        deterministic_outbox_id ?L ''acme'' (dt_turn_id rec) 0 ''turn.state.waiting_approval''"
      using turn(2-5) same
      by (simp add: event_key_def outbox_key_def new_outbox_row_def Let_def state_event_type_def new_turn_row_def adm(6))
    from this [unfolded deterministic_outbox_id_def same_append_eq local_libs_simps]
    have "length (framed [''acme'', dt_turn_id rec, show_nat (unat (1 :: u64)), ''turn.state.tool_running'']) mod 32 =
        length (framed [''acme'', dt_turn_id rec, show_nat (unat (0 :: u64)), ''turn.state.waiting_approval'']) mod 32"
      by (rule digest_lengths)
    moreover have "length (framed [''acme'', i, show_nat (unat (1 :: u64)), ''turn.state.tool_running'']) = 64 + length i"
      "length (framed [''acme'', i, show_nat (unat (0 :: u64)), ''turn.state.waiting_approval'']) = 68 + length i" for i
      by (simp_all add: show_nat.simps del: append.simps)
    ultimately have "(64 + length (dt_turn_id rec)) mod 32 = (68 + length (dt_turn_id rec)) mod 32"
      by (simp only:)
    moreover have "(64 + n) mod 32 \<noteq> (68 + n) mod 32" for n :: nat
      using mod_eq_dvd_iff_nat [of "64 + n" "68 + n" 32] by auto
    ultimately show False
      by blast
  qed
  ultimately show ?thesis
    using turn(1) created_held [OF inv turn(1)] adm(4) by auto
qed

theorem approval_resumes_turn_witness:
  "\<exists>rec db rec' db'. begin_turn local_turn_libs demo_ingress (demo_admission True) 0 demo_store = Inr (TurnCreated rec, db) \<and>
     approve_turn local_turn_libs ''acme'' (dt_turn_id rec) (seconds 30) db db db = Inr (rec', db') \<and>
     dt_state rec' = restore ToolRunning 1"
proof -
  let ?L = local_turn_libs and ?adm = "demo_admission True"
  let ?r = "new_turn_row ?L demo_ingress ?adm 0"
  obtain rec db where db: "begin_turn ?L demo_ingress ?adm 0 demo_store = Inr (TurnCreated rec, db)" "next_ordinal db = 2"
    "validate_no_extra_outbox_triggers db = Inr ()" "held ?r ''worker-1'' db" "event_key ?L ?r ToolRunning \<notin> outbox_key ` set (td_outbox db)"
    using waiting_created by blast
  have run: "reaches empty_store (store_step ?L) db"
    using reaches.step [of empty_store "store_step ?L", OF _ store_step.step_begin [OF db(1)]] reaches.start [of empty_store demo_store] demo_empty by blast
  have r: "tw_state ?r = state_name WaitingApproval" "tw_tenant_id ?r = ''acme''" "tw_revision ?r = 0" "tw_updated_at_ms ?r = 0" "tw_deadline_ms ?r = 60000"
    by (simp_all add: new_turn_row_def Let_def demo_admission_def demo_ingress_def timestamp_millis_def seconds_def)
  have same: "tw_turn_id ?r = dt_turn_id rec"
    using created_state(3) [OF _ db(1)] empty_full_inv [OF demo_empty] by (auto dest!: materialize_turn_ok simp: represents_def full_inv_def)
  have worker: "validate_lease_identity ''lease_owner'' ''worker-1'' = Inr ()"
    using trim_graphic [of "''worker-1''"] by (simp add: validate_lease_identity_def MAX_LEASE_OWNER_BYTES_def byte_class_defs)
  have time: "timestamp_millis (seconds 30) = 30000"
    by (simp add: timestamp_millis_def seconds_def)
  show ?thesis
    using approval_resumes_turn [OF local_laws run db(3,4) r(1) worker, of "seconds 30"] db(1,2,5) r time same
    by (fastforce simp: i64_max_def)
qed

end
