(* ===== verification/Ledger_Sync.thy ===== *)
theory Ledger_Sync
  imports Canonical_Envelope Unified_Turn
begin

text \<open>
  Synchronisation of ledgers (\<open>crates/zaion-sync\<close>): the difference of two sets of event ids
  (\<open>diff.rs\<close>), the bundle with its hash and its export (\<open>export.rs\<close>), the strict decoding of a bundle
  and its import (\<open>import.rs\<close>), and the messages of the protocol (\<open>protocol.rs\<close>). The RFC 3339 parser and
  the texts of errors are parameters; files are left out.
\<close>

datatype sync_error =
  SyncIo string
  | SyncJson string
  | SyncLedger string
  | SyncHashMismatch string string
  | NoEvents
  | InvalidBundle string
  | SyncRelay string

record sync_libs =
  sy_externals :: externals
  sy_rfc3339 :: "string \<Rightarrow> string + unit"
  sy_ledger_error :: "ledger_error \<Rightarrow> string"
  sy_sync_error :: "sync_error \<Rightarrow> string"

subsection \<open>The difference of two logs\<close>

record sync_diff =
  sd_local_count :: nat
  sd_remote_count :: nat
  sd_missing_locally :: "string list"
  sd_missing_remotely :: "string list"

definition compute_diff :: "string list \<Rightarrow> string list \<Rightarrow> sync_diff" where
  "compute_diff local_ids remote_ids =
     \<lparr>sd_local_count = length local_ids, sd_remote_count = length remote_ids,
      sd_missing_locally = filter (\<lambda>i. \<not> List.member local_ids i) remote_ids,
      sd_missing_remotely = filter (\<lambda>i. \<not> List.member remote_ids i) local_ids\<rparr>"

subsection \<open>Protocol messages\<close>

record diff_request =
  dq_local_principal :: string
  dq_remote_principal :: string
  dq_local_head :: "string option"
  dq_local_merkle_root :: "string option"

record delta_proposal =
  dp_event_ids :: "string list"
  dp_event_hashes :: "string list"

record validate_and_sign =
  vs_accepted_event_ids :: "string list"
  vs_rejected_event_ids :: "string list"
  vs_validation_signature :: "string option"

record sync_apply =
  sa_appended_event_ids :: "string list"
  sa_skipped_existing_event_ids :: "string list"

record fork_resolution =
  fr_parent_event_id :: string
  fr_local_head :: string
  fr_remote_head :: string
  fr_selected_head :: string
  fr_selection_rule :: string
  fr_resolver_principal :: string

definition fork_event_type :: "fork_resolution \<Rightarrow> string" where
  "fork_event_type self = ''fork.resolved''"

record sync_protocol =
  sp_diff_request :: diff_request
  sp_delta_proposal :: "delta_proposal option"
  sp_validate_and_sign :: "validate_and_sign option"
  sp_apply :: "sync_apply option"

definition new_sync_protocol :: "string \<Rightarrow> string \<Rightarrow> sync_protocol" where
  "new_sync_protocol local_principal remote_principal =
     \<lparr>sp_diff_request = \<lparr>dq_local_principal = local_principal, dq_remote_principal = remote_principal,
        dq_local_head = None, dq_local_merkle_root = None\<rparr>,
      sp_delta_proposal = None, sp_validate_and_sign = None, sp_apply = None\<rparr>"

definition protocol_state_names :: "sync_protocol \<Rightarrow> string list" where
  "protocol_state_names self = [''DiffRequest'', ''DeltaProposal'', ''ValidateAndSign'', ''Apply'']"

subsection \<open>Bundles\<close>

record sync_proof_artifact =
  pa_kind :: string
  pa_id :: string
  pa_relative_path :: string
  pa_content_hash :: string
  pa_content :: string

record sync_bundle =
  sb_principal_id :: string
  sb_from_seq :: u64
  sb_events :: "json list"
  sb_exported_at :: string
  sb_bundle_hash :: string
  sb_proof_artifacts :: "sync_proof_artifact list"

text \<open>\<open>BTreeMap::insert\<close> of a member and its text.\<close>

fun member_insert :: "string \<Rightarrow> bytes \<Rightarrow> (string \<times> bytes) list \<Rightarrow> (string \<times> bytes) list" where
  "member_insert k v [] = [(k, v)]"
| "member_insert k v ((k', v') # kvs) =
     (if k = k' then (k, v) # kvs else if k < k' then (k, v) # (k', v') # kvs else (k', v') # member_insert k v kvs)"

fun comma_separated :: "bytes list \<Rightarrow> bytes" where
  "comma_separated [] = []"
| "comma_separated [b] = b"
| "comma_separated (b # bs) = b @ '','' @ comma_separated bs"

fun canonical_bytes :: "externals \<Rightarrow> json \<Rightarrow> bytes" where
  "canonical_bytes x JNull = ''null''"
| "canonical_bytes x (JBool v) = (if v then ''true'' else ''false'')"
| "canonical_bytes x (JArr items) = ''['' @ comma_separated (map (canonical_bytes x) items) @ '']''"
| "canonical_bytes x (JObj kvs) =
     ''{'' @ comma_separated (map (\<lambda>(key, b). x_json_print x (JStr key) @ '':'' @ b)
       (foldl (\<lambda>sorted (key, b). member_insert key b sorted) [] (map (\<lambda>(key, v). (key, canonical_bytes x v)) kvs))) @ ''}''"
| "canonical_bytes x v = x_json_print x v"

definition hashed_events :: "externals \<Rightarrow> json list \<Rightarrow> bytes" where
  "hashed_events x events =
     concat (map (\<lambda>event. le_bytes_64 (int (length (canonical_bytes x event))) @ canonical_bytes x event) events)"

definition compute_bundle_hash :: "externals \<Rightarrow> json list \<Rightarrow> string" where
  "compute_bundle_hash x events = sha256_hex x (hashed_events x events)"

text \<open>The derived serialisation of \<open>LedgerEvent\<close>.\<close>

definition event_to_value :: "ledger_event \<Rightarrow> json" where
  "event_to_value e =
     JObj ([(''event_id'', JStr (event_id_str (le_event_id e))), (''principal_id'', JStr (principal_str (le_principal_id e))),
       (''namespace_key'', JStr (namespace_str (le_namespace_key e))),
       (''run_id'', json_opt_str (map_option run_str (le_run_id e))), (''event_type'', JStr (le_event_type e)),
       (''payload'', le_payload e),
       (''signature'', case le_signature e of None \<Rightarrow> JNull
          | Some s \<Rightarrow> JArr (map (\<lambda>b. JInt (int (of_char b))) (signature_vec s))),
       (''created_at'', JStr (le_created_at e))] @
      (case le_parent_event_id e of None \<Rightarrow> [] | Some p \<Rightarrow> [(''parent_event_id'', JStr (event_id_str p))]))"

definition export_bundle ::
  "sync_libs \<Rightarrow> string \<Rightarrow> string \<Rightarrow> string \<Rightarrow> u64 \<Rightarrow> event_ledger \<Rightarrow> ledger_db \<Rightarrow>
     (sync_error + sync_bundle) \<times> event_ledger \<times> ledger_db" where
  "export_bundle S new_uuid now principal_id from_seq self db =
     (case query (sy_externals S) new_uuid (list_events_from_seq (sy_externals S) (PrincipalId principal_id) from_seq) self db of
        (Inl e, self, db) \<Rightarrow> (Inl (SyncLedger (sy_ledger_error S e)), self, db)
      | (Inr raw_events, self, db) \<Rightarrow>
          if raw_events = [] then (Inl NoEvents, self, db)
          else
            let events = map event_to_value raw_events
            in (Inr \<lparr>sb_principal_id = principal_id, sb_from_seq = from_seq, sb_events = events, sb_exported_at = now,
                  sb_bundle_hash = compute_bundle_hash (sy_externals S) events, sb_proof_artifacts = []\<rparr>, self, db))"

subsection \<open>Import\<close>

definition decode_byte :: "json \<Rightarrow> sync_error + char" where
  "decode_byte item =
     and_then (ok_or (InvalidBundle ''signature byte is not an integer'') (as_u64 item)) (\<lambda>n.
     if unat n \<le> 255 then Inr (char_of (unat n))
     else Inl (InvalidBundle (''signature byte '' @ show_nat (unat n) @ '' is outside 0..=255'')))"

definition decode_signature :: "json \<Rightarrow> sync_error + bytes" where
  "decode_signature value =
     and_then (ok_or (InvalidBundle ''signature must be an array of bytes'') (as_array value)) (collect_results decode_byte)"

text \<open>A string member; an empty one counts as absent.\<close>

definition str_member :: "(string \<times> json) list \<Rightarrow> string \<Rightarrow> string option" where
  "str_member obj field =
     (case Option.bind (map_of obj field) as_str of None \<Rightarrow> None | Some s \<Rightarrow> if s = [] then None else Some s)"

definition quoted :: "string \<Rightarrow> string" where
  "quoted s = [CHR 0x27] @ s @ [CHR 0x27]"

definition required_str :: "(string \<times> json) list \<Rightarrow> string \<Rightarrow> sync_error + string" where
  "required_str obj field =
     ok_or (InvalidBundle (''event missing required field '' @ quoted field)) (str_member obj field)"

definition decode_bundle_event :: "sync_libs \<Rightarrow> json \<Rightarrow> string \<Rightarrow> sync_error + ledger_event" where
  "decode_bundle_event S event_json bundle_principal_id =
     and_then (ok_or (InvalidBundle ''event entry must be a JSON object'') (as_object event_json)) (\<lambda>obj.
     and_then (required_str obj ''event_id'') (\<lambda>event_id.
     and_then (required_str obj ''principal_id'') (\<lambda>principal_id.
     if principal_id \<noteq> bundle_principal_id
     then Inl (InvalidBundle (''event principal '' @ quoted principal_id @ '' does not match bundle principal '' @ quoted bundle_principal_id))
     else
     and_then (required_str obj ''namespace_key'') (\<lambda>namespace_key.
     and_then (required_str obj ''event_type'') (\<lambda>event_type.
     and_then (required_str obj ''created_at'') (\<lambda>created_at.
     and_then (map_err (\<lambda>e. InvalidBundle (''invalid created_at '' @ quoted created_at @ '': '' @ e)) (sy_rfc3339 S created_at)) (\<lambda>_.
     and_then (ok_or (InvalidBundle (''event missing required field '' @ quoted ''payload'')) (map_of obj ''payload'')) (\<lambda>payload.
     and_then (case map_of obj ''signature'' of
         None \<Rightarrow> Inr None
       | Some JNull \<Rightarrow> Inr None
       | Some value \<Rightarrow> and_then (decode_signature value) (\<lambda>b. Inr (Some (SignatureBytes b)))) (\<lambda>signature.
     Inr \<lparr>le_event_id = EventId event_id, le_principal_id = PrincipalId principal_id,
          le_namespace_key = NamespaceKey namespace_key, le_run_id = map_option RunId (str_member obj ''run_id''),
          le_event_type = event_type, le_payload = payload, le_signature = signature, le_created_at = created_at,
          le_parent_event_id = map_option EventId (str_member obj ''parent_event_id'')\<rparr>)))))))))"

record import_result =
  im_imported :: nat
  im_skipped_duplicates :: nat
  im_principal_id :: string

definition import_bundle ::
  "sync_libs \<Rightarrow> string \<Rightarrow> sync_bundle \<Rightarrow> event_ledger \<Rightarrow> ledger_db \<Rightarrow>
     (sync_error + import_result) \<times> event_ledger \<times> ledger_db" where
  "import_bundle S new_uuid bundle self db =
     (let actual_hash = compute_bundle_hash (sy_externals S) (sb_events bundle)
      in if actual_hash \<noteq> sb_bundle_hash bundle then (Inl (SyncHashMismatch (sb_bundle_hash bundle) actual_hash), self, db)
      else case collect_results (\<lambda>event. decode_bundle_event S event (sb_principal_id bundle)) (sb_events bundle) of
        Inl e \<Rightarrow> (Inl e, self, db)
      | Inr events \<Rightarrow>
          (case insert_events_with_ids_atomic (sy_externals S) new_uuid events self db of
             (Inl e, self, db) \<Rightarrow> (Inl (SyncLedger (sy_ledger_error S e)), self, db)
           | (Inr dispositions, self, db) \<Rightarrow>
               (Inr \<lparr>im_imported = length (filter (\<lambda>d. d = Inserted) dispositions),
                     im_skipped_duplicates = length (filter (\<lambda>d. d = Existing) dispositions),
                     im_principal_id = sb_principal_id bundle\<rparr>, self, db)))"

end
