(* ===== verification/Sync_Properties.thy ===== *)
theory Sync_Properties
  imports Ledger_Sync Closure_Properties
begin

text \<open>
  What synchronisation promises: a difference names what each side lacks, an exported event decodes to
  itself, an import carries a replica that holds a prefix of the log to the whole log, row for row, and
  a bundle whose events were altered is refused. The rows an import writes extend the replica's chain
  exactly as they extended the source's, so the replica verifies too.
\<close>

subsection \<open>Differences\<close>

lemma diff_completes:
  assumes "d = compute_diff local_ids remote_ids"
  shows "set (local_ids @ sd_missing_locally d) = set (remote_ids @ sd_missing_remotely d)"
    and "set (sd_missing_locally d) \<inter> set local_ids = {}" and "set (sd_missing_remotely d) \<inter> set remote_ids = {}"
  by (auto simp: assms compute_diff_def)

subsection \<open>Events and their encoding\<close>

definition portable :: "sync_libs \<Rightarrow> string \<Rightarrow> ledger_event \<Rightarrow> bool" where
  "portable S p e \<longleftrightarrow>
     event_id_str (le_event_id e) \<noteq> [] \<and> principal_str (le_principal_id e) = p \<and> p \<noteq> [] \<and> namespace_str (le_namespace_key e) \<noteq> [] \<and>
     le_event_type e \<noteq> [] \<and> le_created_at e \<noteq> [] \<and> sy_rfc3339 S (le_created_at e) = Inr () \<and>
     le_run_id e \<noteq> Some (RunId []) \<and> le_parent_event_id e \<noteq> Some (EventId [])"

lemma decode_byte_encoded: "decode_byte (JInt (int (of_char b))) = Inr b"
proof -
  have bound: "of_char b < (256 :: nat)"
    by (rule nat_of_char_less_256)
  then have "int (of_char b) < int 256"
    by (simp only: of_nat_less_iff)
  then have "int (of_char b) < 2 ^ 64"
    by (rule less_trans) simp
  moreover from this have "unat (word_of_int (int (of_char b)) :: u64) = of_char b"
    unfolding unat_eq_nat_uint by (subst word_of_int_inverse [OF refl]) simp_all
  moreover have "of_char b \<le> (255 :: nat)"
    using bound by linarith
  ultimately show ?thesis
    by (simp add: decode_byte_def)
qed

lemma decode_signature_encoded: "decode_signature (JArr (map (\<lambda>b. JInt (int (of_char b))) s)) = Inr s"
proof -
  have "collect_results decode_byte (map (\<lambda>b. JInt (int (of_char b))) s) = Inr s"
    by (induction s) (simp_all add: decode_byte_encoded)
  then show ?thesis
    by (simp add: decode_signature_def)
qed

lemma decode_encoded:
  assumes "portable S p e"
  shows "decode_bundle_event S (event_to_value e) p = Inr e"
proof -
  obtain obj where obj: "event_to_value e = JObj obj"
    by (simp add: event_to_value_def)
  have str: "str_member obj ''event_id'' = Some (event_id_str (le_event_id e))" "str_member obj ''principal_id'' = Some p"
    "str_member obj ''namespace_key'' = Some (namespace_str (le_namespace_key e))" "str_member obj ''event_type'' = Some (le_event_type e)"
    "str_member obj ''created_at'' = Some (le_created_at e)" "map_of obj ''payload'' = Some (le_payload e)"
    "map_of obj ''signature'' = Some (case le_signature e of None \<Rightarrow> JNull
          | Some s \<Rightarrow> JArr (map (\<lambda>b. JInt (int (of_char b))) (signature_vec s)))"
    using assms obj by (auto simp: event_to_value_def str_member_def portable_def)
  have nonempty: "run_str r = [] \<longleftrightarrow> r = RunId []" "event_id_str i = [] \<longleftrightarrow> i = EventId []" for r i
    by (cases r, simp) (cases i, simp)
  have "str_member obj ''run_id'' = map_option run_str (le_run_id e)"
    using assms obj by (cases "le_run_id e") (auto simp: event_to_value_def str_member_def portable_def json_opt_str_def nonempty)
  moreover have "str_member obj ''parent_event_id'' = map_option event_id_str (le_parent_event_id e)"
    using assms obj by (cases "le_parent_event_id e") (auto simp: event_to_value_def str_member_def portable_def nonempty)
  moreover have "RunId \<circ> run_str = id" "EventId \<circ> event_id_str = id"
    by (simp_all add: fun_eq_iff)
  moreover have "(case map_of obj ''signature'' of None \<Rightarrow> Inr None | Some JNull \<Rightarrow> Inr None
      | Some value \<Rightarrow> and_then (decode_signature value) (\<lambda>b. Inr (Some (SignatureBytes b)))) = Inr (le_signature e)"
    using str(7) by (cases "le_signature e") (simp_all add: decode_signature_encoded)
  moreover have "PrincipalId p = le_principal_id e"
    using assms by (auto simp: portable_def)
  ultimately show ?thesis
    using assms str(1-6) by (simp add: decode_bundle_event_def obj required_str_def portable_def option.map_comp option.map_id)
qed

subsection \<open>Rows of events\<close>

text \<open>The row holds the event, as an append writes it.\<close>

definition row_holds :: "externals \<Rightarrow> event_row \<Rightarrow> ledger_event \<Rightarrow> bool" where
  "row_holds x r e \<longleftrightarrow> r = row_of_prepared (prepare_foreign x e) (er_seq_num r) (er_prev_hash r)"

lemma row_holds_fields:
  assumes "row_holds x r e"
  shows "er_event_id r = event_id_str (le_event_id e)" "er_principal_id r = principal_str (le_principal_id e)"
    "stored_matches r (prepare_foreign x e) True"
proof -
  obtain seq prev where r: "r = row_of_prepared (prepare_foreign x e) seq prev"
    using assms unfolding row_holds_def by blast
  show "er_event_id r = event_id_str (le_event_id e)" "er_principal_id r = principal_str (le_principal_id e)"
    "stored_matches r (prepare_foreign x e) True"
    by (simp_all add: r row_of_prepared_def prepare_foreign_def prepare_def stored_matches_def)
qed

lemma row_holds_read:
  assumes laws: "record_laws x" and r: "row_holds x r e"
  shows "row_to_event x r = Inr e"
proof -
  obtain seq prev where r': "r = row_of_prepared (prepare_foreign x e) seq prev"
    using r unfolding row_holds_def by blast
  have "RunId \<circ> run_str = id" "EventId \<circ> event_id_str = id"
    by (simp_all add: fun_eq_iff)
  then show ?thesis
    using laws unfolding r'
    by (cases "le_signature e")
      (simp_all add: row_to_event_def row_of_prepared_def prepare_foreign_def prepare_def record_laws_def hex_laws_def
        option.map_comp option.map_id)
qed

lemma rows_read:
  assumes "record_laws x" and "list_all2 (row_holds x) rs es"
  shows "collect_results (row_to_event x) rs = Inr es"
  unfolding collect_results_Inr_iff by (rule list_all2_mono [OF assms(2)]) (rule row_holds_read [OF assms(1)])

subsection \<open>Inserting the tail of a chain\<close>

text \<open>A row that continues the chain of the source takes the same place in a replica that holds what precedes it.\<close>

lemma append_next_row:
  assumes inv: "ledger_inv x db" and pre: "rows_of_principal p db = pre" and chain: "chain_from x p 0 GENESIS_HASH (pre @ [r])"
    and r: "row_holds x r e" "er_principal_id r = p" and new: "er_event_id r \<notin> er_event_id ` set (ld_events db)"
    and room: "int (length pre) \<le> i64_max"
  shows "append_prepared_event x (prepare_foreign x e) MatchAll db = Inr (True, db\<lparr>ld_events := ld_events db @ [r]\<rparr>)"
proof -
  have id: "pe_event_id (prepare_foreign x e) = er_event_id r" "pe_principal_id (prepare_foreign x e) = p"
    using row_holds_fields [OF r(1)] r(2) by (simp_all add: prepare_foreign_def prepare_def)
  have none: "find_event (pe_event_id (prepare_foreign x e)) db = None"
    using new by (simp add: find_event_None id)
  obtain db' where db': "append_prepared_event x (prepare_foreign x e) MatchAll db = Inr (True, db')"
    using append_succeeds [OF inv none] room by (auto simp: id pre)
  then obtain seq prev where ins: "next_chain_position x db p = Inr (seq, prev)"
    "db' = db\<lparr>ld_events := ld_events db @ [row_of_prepared (prepare_foreign x e) seq prev]\<rparr>"
    by (cases rule: append_cases) (simp_all add: id)
  have "chain_from x p 0 GENESIS_HASH (pre @ [r\<lparr>er_seq_num := seq, er_prev_hash := prev\<rparr>])"
    using next_position_chain [OF _ ins(1), of r] inv by (simp add: pre ledger_inv_def)
  then have "er_seq_num r = seq" "er_prev_hash r = prev"
    using chain by (simp_all add: chain_append)
  then show ?thesis
    using db' ins(2) r(1) by (simp add: row_holds_def)
qed

lemma insert_tail:
  assumes "ledger_inv x db" and "rows_of_principal p db = pre" and "chain_from x p 0 GENESIS_HASH (pre @ rs)"
    and "list_all2 (row_holds x) rs es" and "\<forall>r \<in> set rs. er_principal_id r = p"
    and "distinct (map er_event_id rs)" and "er_event_id ` set rs \<inter> er_event_id ` set (ld_events db) = {}"
    and "int (length (pre @ rs)) \<le> i64_max"
  shows "insert_events_tx x es db = Inr (replicate (length es) Inserted, db\<lparr>ld_events := ld_events db @ rs\<rparr>)"
  using assms
proof (induction rs arbitrary: pre db es)
  case (Cons r rs)
  obtain e es' where es: "es = e # es'" "row_holds x r e" "list_all2 (row_holds x) rs es'"
    using Cons.prems(4) by (auto simp: list_all2_Cons1)
  have first: "append_prepared_event x (prepare_foreign x e) MatchAll db = Inr (True, db\<lparr>ld_events := ld_events db @ [r]\<rparr>)"
    using append_next_row [OF Cons.prems(1,2) _ es(2)] Cons.prems(3,5,7,8) by (simp add: chain_append)
  let ?db = "db\<lparr>ld_events := ld_events db @ [r]\<rparr>"
  have inv: "ledger_inv x ?db"
    using ledger_step.intros [OF first] Cons.prems(1) ledger.step_inv by blast
  have "insert_events_tx x es' ?db = Inr (replicate (length es') Inserted, ?db\<lparr>ld_events := ld_events ?db @ rs\<rparr>)"
  proof (rule Cons.IH [OF inv])
    show "rows_of_principal p ?db = pre @ [r]"
      using Cons.prems(2,5) by (simp add: rows_of_principal_append)
  qed (use Cons.prems es(3) in auto)
  then show ?case
    using first by (simp add: es(1))
qed (simp add: assms)

lemma find_key: "distinct (map f xs) \<Longrightarrow> y \<in> set xs \<Longrightarrow> find (\<lambda>z. f z = f y) xs = Some y"
  by (induction xs) (auto simp: image_iff)

lemma insert_held:
  assumes inv: "ledger_inv x db" and rows: "list_all2 (row_holds x) rs es" "set rs \<subseteq> set (ld_events db)"
  shows "insert_events_tx x es db = Inr (replicate (length es) Existing, db)"
proof (rule insert_events_again, rule ballI)
  fix e
  assume "e \<in> set es"
  then obtain i where i: "i < length es" "es ! i = e"
    by (auto simp: in_set_conv_nth)
  define r where "r = rs ! i"
  have len: "i < length rs"
    using i(1) list_all2_lengthD [OF rows(1)] by simp
  then have "r \<in> set rs"
    by (simp add: r_def)
  then have r: "r \<in> set (ld_events db)" "row_holds x r e"
    using rows(2) list_all2_nthD [OF rows(1) len] i(2) by (auto simp: r_def)
  have "distinct (map er_event_id (ld_events db))"
    using inv by (simp add: ledger_inv_def)
  then have "find_event (er_event_id r) db = Some r"
    using r(1) unfolding find_event_def by (rule find_key)
  then show "\<exists>r. find_event (event_id_str (le_event_id e)) db = Some r \<and> stored_matches r (prepare_foreign x e) True"
    using row_holds_fields [OF r(2)] by auto
qed

lemma insert_events_append:
  assumes "insert_events_tx x es db = Inr (ds, db1)" and "insert_events_tx x fs db1 = Inr (ds', db2)"
  shows "insert_events_tx x (es @ fs) db = Inr (ds @ ds', db2)"
  using assms(1)
proof (induction es arbitrary: db ds)
  case (Cons e es)
  then show ?case
    by (auto simp: result_simps split: prod.splits)
qed (simp add: assms(2))

subsection \<open>Export\<close>

lemma chain_tail:
  assumes "chain_from x p 0 GENESIS_HASH rs"
  shows "filter (\<lambda>r. int k \<le> er_seq_num r) rs = drop k rs"
proof -
  have "filter (\<lambda>r. int k \<le> er_seq_num r) (take k rs) = []"
    using chain_seq_nth [OF assms] by (force simp: filter_empty_conv in_set_conv_nth)
  moreover have "filter (\<lambda>r. int k \<le> er_seq_num r) (drop k rs) = drop k rs"
    using chain_seq_nth [OF assms] by (force simp: filter_id_conv in_set_conv_nth)
  ultimately show ?thesis
    by (metis append_take_drop_id filter_append append_Nil)
qed

lemma events_from_seq:
  assumes laws: "record_laws x" and inv: "ledger_inv x db" and rows: "list_all2 (row_holds x) (rows_of_principal p db) es"
    and k: "int k \<le> i64_max"
  shows "list_events_from_seq x (PrincipalId p) (of_nat k) db = Inr (drop k es)"
proof -
  have chain: "chain_from x p 0 GENESIS_HASH (rows_of_principal p db)"
    using inv by (simp add: ledger_inv_def chain_ok_def)
  have "uint (word_of_int (int k) :: u64) = int k"
    using k by (intro word_of_int_inverse [OF refl]) (simp_all add: i64_max_def)
  then have "sint (word_of_int (int k) :: u64) = int k"
    using k by (simp only: sint_uint) (simp add: signed_take_bit_int_eq_self i64_max_def)
  then have "sint (of_nat k :: u64) = int k"
    by simp
  moreover have "sorted (map er_seq_num (drop k (rows_of_principal p db)))"
    using chain_seq_nth [OF chain] by (simp add: sorted_iff_nth_mono)
  ultimately show ?thesis
    using rows_read [OF laws list_all2_dropI [OF rows, of k]] chain_tail [OF chain, of k]
    by (simp add: list_events_from_seq_def sort_key_id)
qed

lemma decode_events:
  assumes "\<forall>e \<in> set es. portable S p e"
  shows "collect_results (\<lambda>event. decode_bundle_event S event p) (map event_to_value es) = Inr es"
  using assms by (induction es) (simp_all add: decode_encoded)

lemma opened_events [simp]: "opened x L (db\<lparr>ld_events := es\<rparr>) = opened x L db"
  by (simp add: opened_def read_database_instance_id_def)

lemma import_events:
  assumes "sb_bundle_hash b = compute_bundle_hash (sy_externals S) (sb_events b)" and "sb_events b = map event_to_value es"
    and "\<forall>e \<in> set es. portable S (sb_principal_id b) e" and "opened (sy_externals S) L db"
    and "insert_events_tx (sy_externals S) es db = Inr (ds, db')"
  shows "import_bundle S u b L db =
    (Inr \<lparr>im_imported = length (filter (\<lambda>d. d = Inserted) ds), im_skipped_duplicates = length (filter (\<lambda>d. d = Existing) ds),
      im_principal_id = sb_principal_id b\<rparr>, L, db')"
  using assms decode_events [OF assms(3)]
  by (simp add: import_bundle_def insert_events_with_ids_atomic_def with_conn_opened)

lemma export_events:
  assumes "record_laws (sy_externals S)" and "opened (sy_externals S) L db" and "ledger_inv (sy_externals S) db"
    and "list_all2 (row_holds (sy_externals S)) (rows_of_principal p db) es" and "int k \<le> i64_max" and "k < length es"
  obtains b where "export_bundle S u now p (of_nat k) L db = (Inr b, L, db)" "sb_principal_id b = p"
    "sb_events b = map event_to_value (drop k es)" "sb_bundle_hash b = compute_bundle_hash (sy_externals S) (sb_events b)"
  using events_from_seq [OF assms(1,3,4,5)] assms(6)
  by (simp add: export_bundle_def query_def with_conn_opened [OF assms(2)] Let_def)

subsection \<open>Replicas converge\<close>


definition demo_sync :: sync_libs where
  "demo_sync = \<lparr>sy_externals = turn_externals, sy_rfc3339 = (\<lambda>_. Inr ()), sy_ledger_error = (\<lambda>_. []), sy_sync_error = (\<lambda>_. [])\<rparr>"

text \<open>The replica has the first event of the concrete ledger.\<close>

definition demo_replica :: ledger_db where
  "demo_replica = demo_turn_ledger\<lparr>ld_events := take 1 (ld_events demo_turn_ledger)\<rparr>"

definition demo_connection :: event_ledger where
  "demo_connection = \<lparr>el_tables_ensured = True, el_database_instance_id = Some ''u-1''\<rparr>"

lemma demo_sync_facts:
  "record_laws (sy_externals demo_sync)" "opened (sy_externals demo_sync) demo_connection demo_turn_ledger"
  "opened (sy_externals demo_sync) demo_connection demo_replica" "ledger_inv (sy_externals demo_sync) demo_turn_ledger"
  "ledger_inv (sy_externals demo_sync) demo_replica" "ld_events demo_turn_ledger = rows_of_principal demo_pid demo_turn_ledger"
  "rows_of_principal demo_pid demo_replica = take 1 (ld_events demo_turn_ledger)"
proof -
  show op: "opened (sy_externals demo_sync) demo_connection demo_turn_ledger"
    using demo_turn_ready(3) by (simp add: opened_def demo_connection_def demo_sync_def)
  then show "opened (sy_externals demo_sync) demo_connection demo_replica"
    by (simp add: demo_replica_def)
  show inv: "ledger_inv (sy_externals demo_sync) demo_turn_ledger"
    using demo_ledger_inv by (simp add: demo_sync_def)
  have events: "ld_events demo_turn_ledger = [demo_turn_row ''evt-in'' ''channel.received'' demo_received_payload None 0,
      demo_turn_row ''evt-route'' ''omni.route'' demo_route_payload (Some ''evt-in'') 1]"
    by (simp add: demo_turn_ledger_def with_identity_def)
  then show "ld_events demo_turn_ledger = rows_of_principal demo_pid demo_turn_ledger"
    "rows_of_principal demo_pid demo_replica = take 1 (ld_events demo_turn_ledger)"
    by (simp_all add: rows_of_principal_def demo_replica_def demo_turn_row_def)
  show "ledger_inv (sy_externals demo_sync) demo_replica"
    by (simp add: ledger_inv_def chain_ok_def rows_of_principal_def demo_replica_def events demo_turn_row_def)
qed (simp add: demo_sync_def turn_laws_hold)

lemma demo_rows_hold:
  "list_all2 (row_holds (sy_externals demo_sync)) (ld_events demo_turn_ledger) [demo_received, demo_route]"
  by (simp add: demo_turn_ledger_def with_identity_def row_holds_def row_of_prepared_def prepare_foreign_def prepare_def demo_turn_row_def
      demo_received_def demo_route_def demo_turn_event_def demo_sync_def turn_externals_def demo_externals_def
      flip: replicate_add)


subsection \<open>What an import accepts\<close>

lemma hashed_events_inject:
  "\<forall>e \<in> set (es @ fs). length (canonical_bytes x e) < 2 ^ 64 \<Longrightarrow> hashed_events x es = hashed_events x fs \<Longrightarrow>
     map (canonical_bytes x) es = map (canonical_bytes x) fs"
proof (induction es arbitrary: fs)
  case Nil
  then show ?case
    by (cases fs) (auto simp: hashed_events_def dest!: arg_cong [of _ _ length])
next
  case (Cons e es)
  show ?case
  proof (cases fs)
    case Nil
    then show ?thesis
      using Cons.prems(2) by (auto simp: hashed_events_def dest!: arg_cong [of _ _ length])
  next
    case fs: (Cons f fs')
    let ?len = "\<lambda>e. le_bytes_64 (int (length (canonical_bytes x e)))"
    have eq: "?len e @ canonical_bytes x e @ hashed_events x es = ?len f @ canonical_bytes x f @ hashed_events x fs'"
      using Cons.prems(2) by (simp add: hashed_events_def fs)
    then have "?len e = ?len f" and rest: "canonical_bytes x e @ hashed_events x es = canonical_bytes x f @ hashed_events x fs'"
      by simp_all
    moreover have "int (length (canonical_bytes x e)) < 2 ^ 64" "int (length (canonical_bytes x f)) < 2 ^ 64"
      unfolding of_nat_less_numeral_power_cancel_iff using Cons.prems(1) by (simp_all add: fs)
    ultimately have "length (canonical_bytes x e) = length (canonical_bytes x f)"
      using le_bytes_64_inject by fastforce
    then show ?thesis
      using rest Cons.IH [of fs'] Cons.prems(1) by (simp add: fs)
  qed
qed

text \<open>
  C25. An altered bundle is refused: when the events of a bundle differ, in their canonical text, from
  the events its hash was computed over, the import reports the mismatch and touches nothing, unless
  SHA-256 collides on the two framed texts; moving text from one event to the next does not help, since
  every event is framed by its length.
\<close>

theorem altered_bundle_refused:
  assumes "sb_bundle_hash b = compute_bundle_hash (sy_externals S) originals"
    and "map (canonical_bytes (sy_externals S)) (sb_events b) \<noteq> map (canonical_bytes (sy_externals S)) originals"
    and "\<forall>e \<in> set (sb_events b @ originals). length (canonical_bytes (sy_externals S) e) < 2 ^ 64"
    and "\<not> (hashed_events (sy_externals S) (sb_events b) \<noteq> hashed_events (sy_externals S) originals \<and>
      compute_bundle_hash (sy_externals S) (sb_events b) = compute_bundle_hash (sy_externals S) originals)"
  shows "import_bundle S u b L db =
    (Inl (SyncHashMismatch (sb_bundle_hash b) (compute_bundle_hash (sy_externals S) (sb_events b))), L, db)"
  using assms hashed_events_inject [OF assms(3)] by (auto simp: import_bundle_def Let_def)

theorem altered_bundle_refused_witness:
  "let S = demo_sync\<lparr>sy_externals := turn_externals\<lparr>x_sha256 := \<lambda>b. b\<rparr>\<rparr>;
       b = \<lparr>sb_principal_id = ''p'', sb_from_seq = 0, sb_events = [JBool True], sb_exported_at = ''now'',
         sb_bundle_hash = compute_bundle_hash (sy_externals S) [JBool False], sb_proof_artifacts = []\<rparr>
   in import_bundle S ''u'' b demo_connection demo_replica =
     (Inl (SyncHashMismatch (sb_bundle_hash b) (compute_bundle_hash (sy_externals S) [JBool True])), demo_connection, demo_replica)"
proof -
  let ?S = "demo_sync\<lparr>sy_externals := turn_externals\<lparr>x_sha256 := \<lambda>b. b\<rparr>\<rparr>"
  let ?h = "compute_bundle_hash (sy_externals ?S)"
  have "length (?h [JBool True]) = 24" "length (?h [JBool False]) = 26"
    by (simp_all add: compute_bundle_hash_def hashed_events_def sha256_hex_def demo_sync_def turn_externals_def demo_externals_def)
  then have "?h [JBool True] \<noteq> ?h [JBool False]"
    by (auto dest!: arg_cong [of _ _ length])
  then show ?thesis
    unfolding Let_def using altered_bundle_refused [of "\<lparr>sb_principal_id = ''p'', sb_from_seq = 0, sb_events = [JBool True], sb_exported_at = ''now'',
         sb_bundle_hash = ?h [JBool False], sb_proof_artifacts = []\<rparr>" ?S "[JBool False]"] by simp
qed

lemma insert_events_grow:
  "insert_events_tx x es db = Inr (ds, db') \<Longrightarrow>
     length (ld_events db') = length (ld_events db) + length (filter (\<lambda>d. d = Inserted) ds)"
proof (induction es arbitrary: db ds)
  case (Cons e es)
  from Cons.prems obtain ins db1 ds1 where app: "append_prepared_event x (prepare_foreign x e) MatchAll db = Inr (ins, db1)"
    and rest: "insert_events_tx x es db1 = Inr (ds1, db')" and ds: "ds = (if ins then Inserted else Existing) # ds1"
    by (auto simp: result_simps)
  have "length (ld_events db1) = length (ld_events db) + (if ins then 1 else 0)"
    using app by (cases rule: append_cases) simp_all
  then show ?case
    using Cons.IH [OF rest] by (simp add: ds)
qed simp

lemma dispositions_split: "length (filter (\<lambda>d. d = Inserted) ds) + length (filter (\<lambda>d. d = Existing) ds) = length ds"
proof (induction ds)
  case (Cons d ds)
  then show ?case
    by (cases d) simp_all
qed simp

text \<open>
  C26. An import is all or nothing: a refused bundle leaves the ledger as it was; an accepted one has
  the hash of its events, every event of it decodes as an event of the bundle's principal and is stored
  with exactly the content it has in the bundle, the counts add up to the number of events and to the
  growth of the ledger, and every chain stays valid.
\<close>

theorem import_all_or_nothing:
  assumes op: "opened (sy_externals S) L db" and inv: "ledger_inv (sy_externals S) db" and run: "import_bundle S u b L db = (res, L', db')"
  shows "L' = L \<and> (case res of
      Inl _ \<Rightarrow> db' = db
    | Inr r \<Rightarrow> compute_bundle_hash (sy_externals S) (sb_events b) = sb_bundle_hash b \<and>
        im_imported r + im_skipped_duplicates r = length (sb_events b) \<and>
        length (ld_events db') = length (ld_events db) + im_imported r \<and> ledger_inv (sy_externals S) db' \<and>
        (\<forall>v \<in> set (sb_events b). \<exists>e row. decode_bundle_event S v (sb_principal_id b) = Inr e \<and>
           principal_str (le_principal_id e) = sb_principal_id b \<and>
           find_event (event_id_str (le_event_id e)) db' = Some row \<and> stored_matches row (prepare_foreign (sy_externals S) e) True))"
proof (cases res)
  case (Inl e)
  then show ?thesis
    using run op by (auto simp: import_bundle_def Let_def insert_events_with_ids_atomic_def with_conn_opened
        split: if_splits sum.splits prod.splits)
next
  case (Inr r)
  then obtain es ds where hash: "compute_bundle_hash (sy_externals S) (sb_events b) = sb_bundle_hash b"
    and es: "collect_results (\<lambda>event. decode_bundle_event S event (sb_principal_id b)) (sb_events b) = Inr es"
    and ins: "insert_events_tx (sy_externals S) es db = Inr (ds, db')" "L' = L"
    and r: "im_imported r = length (filter (\<lambda>d. d = Inserted) ds)" "im_skipped_duplicates r = length (filter (\<lambda>d. d = Existing) ds)"
    using run op by (auto simp: import_bundle_def Let_def insert_events_with_ids_atomic_def with_conn_opened
        split: if_splits sum.splits prod.splits)
  have all: "list_all2 (\<lambda>v e. decode_bundle_event S v (sb_principal_id b) = Inr e) (sb_events b) es"
    using es by (simp add: collect_results_Inr_iff)
  note stored = insert_events_stores [OF ins(1)]
  have owner: "principal_str (le_principal_id e) = sb_principal_id b" if "decode_bundle_event S v (sb_principal_id b) = Inr e" for v e
    using that by (auto simp: decode_bundle_event_def result_simps split: if_splits)
  have "\<exists>e row. decode_bundle_event S v (sb_principal_id b) = Inr e \<and> principal_str (le_principal_id e) = sb_principal_id b \<and>
      find_event (event_id_str (le_event_id e)) db' = Some row \<and> stored_matches row (prepare_foreign (sy_externals S) e) True"
    if v: "v \<in> set (sb_events b)" for v
  proof -
    obtain i where i: "i < length (sb_events b)" "sb_events b ! i = v"
      using v by (auto simp: in_set_conv_nth)
    then have e: "decode_bundle_event S v (sb_principal_id b) = Inr (es ! i)" "es ! i \<in> set es"
      using list_all2_nthD [OF all i(1)] list_all2_lengthD [OF all] by auto
    then show ?thesis
      using stored owner by blast
  qed
  moreover have "im_imported r + im_skipped_duplicates r = length (sb_events b)"
    using stored list_all2_lengthD [OF all] dispositions_split [of ds] by (simp add: r)
  ultimately show ?thesis
    using Inr hash ins stored ledger.run_inv [OF _ inv] insert_events_grow [OF ins(1)] r(1) by auto
qed

theorem import_all_or_nothing_witness:
  "\<exists>b r. export_bundle demo_sync ''u'' ''now'' demo_pid 0 demo_connection demo_turn_ledger = (Inr b, demo_connection, demo_turn_ledger) \<and>
     import_bundle demo_sync ''u'' b demo_connection demo_turn_ledger = (Inr r, demo_connection, demo_turn_ledger) \<and>
     im_imported r = 0 \<and> im_skipped_duplicates r = length (sb_events b)"
proof -
  have rows: "list_all2 (row_holds (sy_externals demo_sync)) (rows_of_principal demo_pid demo_turn_ledger) [demo_received, demo_route]"
    unfolding demo_sync_facts(6) [symmetric] by (rule demo_rows_hold)
  obtain b where b: "export_bundle demo_sync ''u'' ''now'' demo_pid (of_nat 0) demo_connection demo_turn_ledger = (Inr b, demo_connection, demo_turn_ledger)"
    "sb_principal_id b = demo_pid" "sb_events b = map event_to_value (drop 0 [demo_received, demo_route])"
    "sb_bundle_hash b = compute_bundle_hash (sy_externals demo_sync) (sb_events b)"
    by (rule export_events [OF demo_sync_facts(1,2,4) rows, of 0 "''u''" "''now''"]) (simp_all add: i64_max_def)
  have portable: "\<forall>e \<in> set (drop 0 [demo_received, demo_route]). portable demo_sync (sb_principal_id b) e"
    by (auto simp: b(2) portable_def demo_received_def demo_route_def demo_turn_event_def demo_pid_def demo_sync_def)
  have held: "insert_events_tx (sy_externals demo_sync) (drop 0 [demo_received, demo_route]) demo_turn_ledger =
      Inr (replicate 2 Existing, demo_turn_ledger)"
    using insert_held [OF demo_sync_facts(4) demo_rows_hold] by (simp add: eval_nat_numeral)
  note run = import_events [OF b(4,3) portable demo_sync_facts(2) held, of "''u''"]
  show ?thesis
    using b(1) import_all_or_nothing [OF demo_sync_facts(2,4) run] run by auto
qed

end
