(* ===== verification/Sync_Relay.thy ===== *)
theory Sync_Relay
  imports Sync_Properties
begin

text \<open>
  The relay server of \<open>crates/zaion-sync/src/relay.rs\<close>: its state, the bearer-token check and the
  five handlers, with a router and runs of requests. A response is its status and its body before the
  JSON encoding; headers are the values that can be read as text; a body that does not parse never
  reaches a handler. Sockets, the runtime and the blocking pool are left out.
\<close>

record relay_state =
  rl_ledger :: event_ledger
  rl_principal_id :: string
  rl_peers :: "string set"
  rl_auth_token :: "string option"

datatype relay_body =
  StatusResponse string nat string
  | ExportResponse sync_bundle
  | ImportResponse nat nat string
  | PeersResponse "string list"
  | ErrorBody string

record relay_response =
  rp_status :: nat
  rp_body :: relay_body

type_synonym headers = "string \<Rightarrow> string option"

definition relay_with_auth_token :: "string \<Rightarrow> string option \<Rightarrow> relay_state" where
  "relay_with_auth_token principal_id auth_token =
     \<lparr>rl_ledger = new_event_ledger, rl_principal_id = principal_id, rl_peers = {}, rl_auth_token = auth_token\<rparr>"

definition new_relay_state :: "string \<Rightarrow> relay_state" where
  "new_relay_state principal_id = relay_with_auth_token principal_id None"

definition require_auth :: "relay_state \<Rightarrow> headers \<Rightarrow> relay_response option" where
  "require_auth state headers =
     (case rl_auth_token state of
        None \<Rightarrow> None
      | Some expected \<Rightarrow>
          let bearer = Option.bind (headers ''authorization'') (strip_prefix ''Bearer '');
              token_header = headers ''x-zaion-relay-token''
          in if bearer = Some expected \<or> token_header = Some expected then None
             else Some \<lparr>rp_status = 401, rp_body = ErrorBody ''missing or invalid relay token''\<rparr>)"

definition handle_status ::
  "sync_libs \<Rightarrow> string \<Rightarrow> relay_state \<Rightarrow> ledger_db \<Rightarrow> relay_response \<times> relay_state \<times> ledger_db" where
  "handle_status S new_uuid state db =
     (case query (sy_externals S) new_uuid (\<lambda>db. Inr (event_stats (PrincipalId (rl_principal_id state)) db)) (rl_ledger state) db of
        (Inl e, ledger, db) \<Rightarrow> (\<lparr>rp_status = 500, rp_body = ErrorBody (sy_ledger_error S e)\<rparr>, state\<lparr>rl_ledger := ledger\<rparr>, db)
      | (Inr (event_count, _), ledger, db) \<Rightarrow>
          (\<lparr>rp_status = 200, rp_body = StatusResponse (rl_principal_id state) event_count []\<rparr>, state\<lparr>rl_ledger := ledger\<rparr>, db))"

definition handle_export ::
  "sync_libs \<Rightarrow> string \<Rightarrow> string \<Rightarrow> headers \<Rightarrow> u64 \<Rightarrow> relay_state \<Rightarrow> ledger_db \<Rightarrow> relay_response \<times> relay_state \<times> ledger_db" where
  "handle_export S new_uuid now headers from_seq state db =
     (case require_auth state headers of
        Some response \<Rightarrow> (response, state, db)
      | None \<Rightarrow>
          (case export_bundle S new_uuid now (rl_principal_id state) from_seq (rl_ledger state) db of
             (Inr b, ledger, db) \<Rightarrow> (\<lparr>rp_status = 200, rp_body = ExportResponse b\<rparr>, state\<lparr>rl_ledger := ledger\<rparr>, db)
           | (Inl NoEvents, ledger, db) \<Rightarrow>
               (\<lparr>rp_status = 204, rp_body = ErrorBody ''no events from requested seq''\<rparr>, state\<lparr>rl_ledger := ledger\<rparr>, db)
           | (Inl e, ledger, db) \<Rightarrow> (\<lparr>rp_status = 500, rp_body = ErrorBody (sy_sync_error S e)\<rparr>, state\<lparr>rl_ledger := ledger\<rparr>, db)))"

definition handle_import ::
  "sync_libs \<Rightarrow> string \<Rightarrow> headers \<Rightarrow> sync_bundle \<Rightarrow> relay_state \<Rightarrow> ledger_db \<Rightarrow> relay_response \<times> relay_state \<times> ledger_db" where
  "handle_import S new_uuid headers bundle state db =
     (case require_auth state headers of
        Some response \<Rightarrow> (response, state, db)
      | None \<Rightarrow>
          (case import_bundle S new_uuid bundle (rl_ledger state) db of
             (Inr r, ledger, db) \<Rightarrow>
               (\<lparr>rp_status = 200, rp_body = ImportResponse (im_imported r) (im_skipped_duplicates r) (im_principal_id r)\<rparr>,
                state\<lparr>rl_ledger := ledger\<rparr>, db)
           | (Inl e, ledger, db) \<Rightarrow> (\<lparr>rp_status = 400, rp_body = ErrorBody (sy_sync_error S e)\<rparr>, state\<lparr>rl_ledger := ledger\<rparr>, db)))"

definition handle_peers_get :: "relay_state \<Rightarrow> relay_response" where
  "handle_peers_get state = \<lparr>rp_status = 200, rp_body = PeersResponse (sorted_list_of_set (rl_peers state))\<rparr>"

definition handle_peers_post :: "headers \<Rightarrow> string \<Rightarrow> relay_state \<Rightarrow> relay_response \<times> relay_state" where
  "handle_peers_post headers addr state =
     (case require_auth state headers of
        Some response \<Rightarrow> (response, state)
      | None \<Rightarrow>
          let state = state\<lparr>rl_peers := insert addr (rl_peers state)\<rparr>
          in (\<lparr>rp_status = 200, rp_body = PeersResponse (sorted_list_of_set (rl_peers state))\<rparr>, state))"

text \<open>The routes, and the requests of a connection in order.\<close>

datatype relay_request = GetStatus | GetExport u64 | PostImport sync_bundle | GetPeers | PostPeers string

fun route_relay ::
  "sync_libs \<Rightarrow> string \<Rightarrow> string \<Rightarrow> headers \<Rightarrow> relay_request \<Rightarrow> relay_state \<Rightarrow> ledger_db \<Rightarrow> relay_response \<times> relay_state \<times> ledger_db" where
  "route_relay S u now h GetStatus state db = handle_status S u state db"
| "route_relay S u now h (GetExport from_seq) state db = handle_export S u now h from_seq state db"
| "route_relay S u now h (PostImport bundle) state db = handle_import S u h bundle state db"
| "route_relay S u now h GetPeers state db = (handle_peers_get state, state, db)"
| "route_relay S u now h (PostPeers addr) state db = (case handle_peers_post h addr state of (r, state) \<Rightarrow> (r, state, db))"

fun relay_run ::
  "sync_libs \<Rightarrow> string \<Rightarrow> string \<Rightarrow> (headers \<times> relay_request) list \<Rightarrow> relay_state \<Rightarrow> ledger_db \<Rightarrow>
     relay_response list \<times> relay_state \<times> ledger_db" where
  "relay_run S u now [] state db = ([], state, db)"
| "relay_run S u now ((h, q) # qs) state db =
     (case route_relay S u now h q state db of (r, state, db) \<Rightarrow>
        case relay_run S u now qs state db of (rs, state, db) \<Rightarrow> (r # rs, state, db))"

subsection \<open>The token\<close>

definition presents :: "headers \<Rightarrow> string \<Rightarrow> bool" where
  "presents h t \<longleftrightarrow> h ''authorization'' = Some (''Bearer '' @ t) \<or> h ''x-zaion-relay-token'' = Some t"

lemma require_auth_token:
  assumes "rl_auth_token state = Some t"
  shows "require_auth state h = None \<longleftrightarrow> presents h t"
  using assms by (auto simp: require_auth_def presents_def Let_def bind_eq_Some_conv strip_prefix_Some)

lemma unauthorised:
  assumes "rl_auth_token state = Some t" and "\<not> presents h t"
  shows "require_auth state h = Some \<lparr>rp_status = 401, rp_body = ErrorBody ''missing or invalid relay token''\<rparr>"
  using assms require_auth_token [OF assms(1), of h] by (auto simp: require_auth_def Let_def split: if_splits)

text \<open>What may be told without the token: the status and the known peers.\<close>

fun public_body :: "relay_request \<Rightarrow> relay_body \<Rightarrow> bool" where
  "public_body GetStatus (StatusResponse _ _ _) = True"
| "public_body GetPeers (PeersResponse _) = True"
| "public_body _ _ = False"

lemma status_opened:
  assumes "opened (sy_externals S) (rl_ledger state) db"
  shows "handle_status S u state db =
    (\<lparr>rp_status = 200, rp_body = StatusResponse (rl_principal_id state) (length (rows_of_principal (rl_principal_id state) db)) []\<rparr>, state, db)"
  by (simp add: handle_status_def query_def with_conn_opened [OF assms] event_stats_def)

lemma route_without_token:
  assumes "rl_auth_token state = Some t" and "opened (sy_externals S) (rl_ledger state) db" and "\<not> presents h t"
  shows "\<exists>r. route_relay S u now h q state db = (r, state, db) \<and> (rp_status r = 401 \<or> public_body q (rp_body r))"
  using unauthorised [OF assms(1,3)] status_opened [OF assms(2)]
  by (cases q) (simp_all add: handle_export_def handle_import_def handle_peers_get_def handle_peers_post_def)

text \<open>
  C27. A relay with a token guards its ledger and its peers: however many requests arrive without the
  token, none of them changes the ledger, the registered peers or the relay, and each is answered with
  401 or, for the two public routes, with the status or the list of peers; no event leaves the relay.
\<close>

theorem relay_needs_token:
  assumes "rl_auth_token state = Some t" and "opened (sy_externals S) (rl_ledger state) db"
    and "\<forall>(h, q) \<in> set requests. \<not> presents h t"
  shows "\<exists>responses. relay_run S u now requests state db = (responses, state, db) \<and>
    list_all2 (\<lambda>(h, q) r. rp_status r = 401 \<or> public_body q (rp_body r)) requests responses"
  using assms(3)
proof (induction requests)
  case (Cons request requests)
  obtain h q where request: "request = (h, q)"
    by (cases request)
  obtain r where "route_relay S u now h q state db = (r, state, db)" "rp_status r = 401 \<or> public_body q (rp_body r)"
    using route_without_token [OF assms(1,2)] Cons.prems by (force simp: request)
  then show ?case
    using Cons by (auto simp: request)
qed simp

definition demo_relay :: relay_state where
  "demo_relay = \<lparr>rl_ledger = demo_connection, rl_principal_id = demo_pid, rl_peers = {''10.0.0.2:9753''}, rl_auth_token = Some ''secret''\<rparr>"

theorem relay_needs_token_witness:
  "\<exists>responses. relay_run demo_sync ''u'' ''now'' [(Map.empty, GetExport 0), ([''authorization'' \<mapsto> ''Bearer guess''], PostPeers ''evil:1'')]
     demo_relay demo_turn_ledger = (responses, demo_relay, demo_turn_ledger)"
proof -
  have "rl_auth_token demo_relay = Some ''secret''" "opened (sy_externals demo_sync) (rl_ledger demo_relay) demo_turn_ledger"
    using demo_sync_facts(2) by (simp_all add: demo_relay_def)
  from relay_needs_token [OF this, of "[(Map.empty, GetExport 0), ([''authorization'' \<mapsto> ''Bearer guess''], PostPeers ''evil:1'')]" "''u''" "''now''"]
  show ?thesis
    by (auto simp: presents_def)
qed

end
