(* ===== verification/Gateway_Ssrf.thy ===== *)
theory Gateway_Ssrf
  imports Zaion_Prelude
begin

unbundle bit_operations_syntax

text \<open>
  The guard of outbound URLs (\<open>crates/zaion-gateway/src/ssrf.rs\<close>): the host of a URL, the parser of IP
  addresses of Rust's standard library, the check of one address and the guard, which resolves a host
  name with the resolver it was given. The theorem characterises what the guard lets through by address
  ranges; a lemma shows a URL whose user information hides its host from the guard.
\<close>

datatype ip_addr =
  V4 "8 word" "8 word" "8 word" "8 word"
  | V6 "16 word" "16 word" "16 word" "16 word" "16 word" "16 word" "16 word" "16 word"

datatype ssfr_error =
  SsfrInvalidUrl
  | SsfrResolutionFailed
  | SsfrLoopbackAddress
  | SsfrPrivateAddress
  | SsfrLinkLocalAddress
  | SsfrUnspecifiedAddress

fun ssfr_error_str :: "ssfr_error \<Rightarrow> string" where
  "ssfr_error_str SsfrInvalidUrl = ''invalid URL''"
| "ssfr_error_str SsfrResolutionFailed = ''host resolution failed''"
| "ssfr_error_str SsfrLoopbackAddress = ''loopback address not allowed''"
| "ssfr_error_str SsfrPrivateAddress = ''private address not allowed''"
| "ssfr_error_str SsfrLinkLocalAddress = ''link-local address not allowed''"
| "ssfr_error_str SsfrUnspecifiedAddress = ''unspecified address not allowed''"

subsection \<open>IP addresses of the standard library\<close>

definition digit_value :: "char \<Rightarrow> nat" where
  "digit_value c = (let n = of_char c in if n \<le> 57 then n - 48 else if n \<le> 70 then n - 55 else n - 87)"

definition is_digit_in :: "nat \<Rightarrow> char \<Rightarrow> bool" where
  "is_digit_in radix c = (byte_in 48 57 c \<or> radix = 16 \<and> (byte_in 65 70 c \<or> byte_in 97 102 c))"

definition digits_value :: "nat \<Rightarrow> string \<Rightarrow> nat" where
  "digits_value radix ds = foldl (\<lambda>n c. n * radix + digit_value c) 0 ds"

text \<open>A number of at most so many digits; a decimal one has no leading zero.\<close>

definition read_number :: "nat \<Rightarrow> nat \<Rightarrow> nat \<Rightarrow> bool \<Rightarrow> string \<Rightarrow> (nat \<times> string) option" where
  "read_number radix max_digits max_value allow_zero_prefix s =
     (let ds = takeWhile (is_digit_in radix) s; n = digits_value radix ds
      in if ds = [] \<or> length ds > max_digits \<or> n > max_value \<or> (\<not> allow_zero_prefix \<and> hd ds = CHR ''0'' \<and> length ds > 1)
         then None else Some (n, drop (length ds) s))"

definition read_separator :: "char \<Rightarrow> nat \<Rightarrow> (string \<Rightarrow> ('a \<times> string) option) \<Rightarrow> string \<Rightarrow> ('a \<times> string) option" where
  "read_separator sep index inner s =
     (if index = 0 then inner s else Option.bind (strip_prefix [sep] s) inner)"

definition read_octet :: "nat \<Rightarrow> string \<Rightarrow> (8 word \<times> string) option" where
  "read_octet index s = map_option (\<lambda>(n, r). (of_nat n, r)) (read_separator CHR ''.'' index (read_number 10 3 255 False) s)"

definition read_ipv4 :: "string \<Rightarrow> ((8 word \<times> 8 word \<times> 8 word \<times> 8 word) \<times> string) option" where
  "read_ipv4 s =
     Option.bind (read_octet 0 s) (\<lambda>(a, s).
     Option.bind (read_octet 1 s) (\<lambda>(b, s).
     Option.bind (read_octet 2 s) (\<lambda>(c, s).
     Option.bind (read_octet 3 s) (\<lambda>(d, s). Some ((a, b, c, d), s)))))"

definition join_octets :: "8 word \<Rightarrow> 8 word \<Rightarrow> 16 word" where
  "join_octets a b = of_nat (unat a * 256 + unat b)"

text \<open>Groups up to a limit; the last two may be written as an IPv4 address, which ends them.\<close>

function read_groups :: "nat \<Rightarrow> nat \<Rightarrow> string \<Rightarrow> 16 word list \<times> bool \<times> string" where
  "read_groups limit i s =
     (if limit \<le> i then ([], False, s)
      else case (if i + 1 < limit then read_separator CHR '':'' i read_ipv4 s else None) of
        Some ((a, b, c, d), rest) \<Rightarrow> ([join_octets a b, join_octets c d], True, rest)
      | None \<Rightarrow>
          (case read_separator CHR '':'' i (read_number 16 4 65535 True) s of
             None \<Rightarrow> ([], False, s)
           | Some (g, rest) \<Rightarrow>
               (case read_groups limit (i + 1) rest of (gs, ipv4, rest) \<Rightarrow> (of_nat g # gs, ipv4, rest))))"
  by pat_completeness auto
termination
  by (relation "measure (\<lambda>(limit, i, s). limit - i)") auto

declare read_groups.simps [simp del]

definition read_ipv6 :: "string \<Rightarrow> (16 word list \<times> string) option" where
  "read_ipv6 s =
     (case read_groups 8 0 s of (head, head_ipv4, rest) \<Rightarrow>
        if length head = 8 then Some (head, rest)
        else if head_ipv4 then None
        else Option.bind (strip_prefix ''::'' rest) (\<lambda>rest.
          case read_groups (8 - (length head + 1)) 0 rest of (tail, _, rest) \<Rightarrow>
            Some (head @ replicate (8 - length head - length tail) 0 @ tail, rest)))"

text \<open>\<open>Ipv6Addr\<close> from its eight segments.\<close>

fun v6_of_segments :: "16 word list \<Rightarrow> ip_addr option" where
  "v6_of_segments [s0, s1, s2, s3, s4, s5, s6, s7] = Some (V6 s0 s1 s2 s3 s4 s5 s6 s7)"
| "v6_of_segments _ = None"

definition parse_ip :: "string \<Rightarrow> ip_addr option" where
  "parse_ip s =
     (case read_ipv4 s of
        Some ((a, b, c, d), rest) \<Rightarrow> if rest = [] then Some (V4 a b c d) else None
      | None \<Rightarrow> (case read_ipv6 s of
            Some (segments, rest) \<Rightarrow> if rest = [] then v6_of_segments segments else None
          | None \<Rightarrow> None))"

text \<open>\<open>is_loopback\<close>, \<open>is_private\<close>, \<open>is_link_local\<close>, \<open>is_unspecified\<close> and \<open>to_ipv4_mapped\<close>.\<close>

definition v4_is_loopback :: "8 word \<Rightarrow> bool" where
  "v4_is_loopback a = (a = 127)"

definition v4_is_private :: "8 word \<Rightarrow> 8 word \<Rightarrow> bool" where
  "v4_is_private a b = (a = 10 \<or> (a = 172 \<and> 16 \<le> b \<and> b \<le> 31) \<or> (a = 192 \<and> b = 168))"

definition v4_is_link_local :: "8 word \<Rightarrow> 8 word \<Rightarrow> bool" where
  "v4_is_link_local a b = (a = 169 \<and> b = 254)"

definition to_ipv4_mapped :: "16 word list \<Rightarrow> (8 word \<times> 8 word \<times> 8 word \<times> 8 word) option" where
  "to_ipv4_mapped segments =
     (if take 6 segments = [0, 0, 0, 0, 0, 0xFFFF]
      then let ab = segments ! 6; cd = segments ! 7
        in Some (ucast (drop_bit 8 ab), ucast ab, ucast (drop_bit 8 cd), ucast cd)
      else None)"

subsection \<open>The guard\<close>

definition check_ipv4 :: "8 word \<Rightarrow> 8 word \<Rightarrow> 8 word \<Rightarrow> 8 word \<Rightarrow> ssfr_error + unit" where
  "check_ipv4 a b c d =
     (if v4_is_loopback a then Inl SsfrLoopbackAddress
      else if v4_is_private a b then Inl SsfrPrivateAddress
      else if v4_is_link_local a b then Inl SsfrLinkLocalAddress
      else if a = 0 \<and> b = 0 \<and> c = 0 \<and> d = 0 then Inl SsfrUnspecifiedAddress
      else Inr ())"

fun check_address :: "ip_addr \<Rightarrow> ssfr_error + unit" where
  "check_address (V4 a b c d) = check_ipv4 a b c d"
| "check_address (V6 s0 s1 s2 s3 s4 s5 s6 s7) =
     (let segments = [s0, s1, s2, s3, s4, s5, s6, s7] in
      case to_ipv4_mapped segments of
        Some (a, b, c, d) \<Rightarrow> check_ipv4 a b c d
      | None \<Rightarrow>
          if segments = [0, 0, 0, 0, 0, 0, 0, 1] then Inl SsfrLoopbackAddress
          else if segments = [0, 0, 0, 0, 0, 0, 0, 0] then Inl SsfrUnspecifiedAddress
          else if segments ! 0 AND 0xFE00 = 0xFC00 then Inl SsfrPrivateAddress
          else if segments ! 0 AND 0xFFC0 = 0xFE80 then Inl SsfrLinkLocalAddress
          else Inr ())"

text \<open>\<open>str::find\<close> of a pattern, with what follows it.\<close>

fun after_pattern :: "string \<Rightarrow> string \<Rightarrow> string option" where
  "after_pattern p [] = (if p = [] then Some [] else None)"
| "after_pattern p (c # s) = (case strip_prefix p (c # s) of Some r \<Rightarrow> Some r | None \<Rightarrow> after_pattern p s)"

text \<open>\<open>rsplit_once(':')\<close>: what precedes the last colon.\<close>

definition before_last_colon :: "string \<Rightarrow> string" where
  "before_last_colon s =
     (if CHR '':'' \<in> set s then rev (tl (dropWhile (\<lambda>c. c \<noteq> CHR '':'') (rev s))) else s)"

definition host_port :: "string \<Rightarrow> string" where
  "host_port url =
     takeWhile (\<lambda>c. c \<notin> {CHR ''/'', CHR ''?'', CHR ''#''}) (case after_pattern ''://'' url of Some r \<Rightarrow> r | None \<Rightarrow> url)"

definition parse_host :: "string \<Rightarrow> ssfr_error + string" where
  "parse_host url =
     (let hostport = host_port url;
          host = (case Option.bind (strip_prefix ''['' hostport) (strip_suffix '']'') of
            Some stripped \<Rightarrow> stripped
          | None \<Rightarrow> before_last_colon hostport)
      in if host = [] then Inl SsfrInvalidUrl else Inr host)"

fun check_all :: "ip_addr list \<Rightarrow> ssfr_error + unit" where
  "check_all [] = Inr ()"
| "check_all (addr # addrs) = and_then (check_address addr) (\<lambda>_. check_all addrs)"

definition validate_url :: "(string \<Rightarrow> ip_addr list) \<Rightarrow> string \<Rightarrow> ssfr_error + unit" where
  "validate_url resolver url =
     and_then (parse_host url) (\<lambda>host.
     case parse_ip host of
       Some ip \<Rightarrow> check_address ip
     | None \<Rightarrow>
         let addrs = resolver host
         in if addrs = [] then Inl SsfrResolutionFailed else check_all addrs)"

subsection \<open>Address blocks\<close>

text \<open>An address as a number, most significant part first, and the blocks of RFC 4632 notation.\<close>

fun segments_number :: "16 word list \<Rightarrow> nat" where
  "segments_number [] = 0"
| "segments_number (s # ss) = unat s * 2 ^ (16 * length ss) + segments_number ss"

fun address_number :: "ip_addr \<Rightarrow> nat" where
  "address_number (V4 a b c d) = unat a * 2 ^ 24 + unat b * 2 ^ 16 + unat c * 2 ^ 8 + unat d"
| "address_number (V6 s0 s1 s2 s3 s4 s5 s6 s7) = segments_number [s0, s1, s2, s3, s4, s5, s6, s7]"

definition in_block :: "nat \<Rightarrow> nat \<Rightarrow> nat \<times> nat \<Rightarrow> bool" where
  "in_block width n block = (n div 2 ^ (width - snd block) = fst block div 2 ^ (width - snd block))"

text \<open>Loopback, the three private blocks, link-local and the unspecified address.\<close>

definition internal_v4_blocks :: "(nat \<times> nat) list" where
  "internal_v4_blocks =
     [(127 * 2 ^ 24, 8), (10 * 2 ^ 24, 8), (172 * 2 ^ 24 + 16 * 2 ^ 16, 12), (192 * 2 ^ 24 + 168 * 2 ^ 16, 16),
      (169 * 2 ^ 24 + 254 * 2 ^ 16, 16), (0, 32)]"

text \<open>Loopback, unspecified, unique local, link-local, and the IPv4 blocks under the mapped prefix.\<close>

definition internal_v6_blocks :: "(nat \<times> nat) list" where
  "internal_v6_blocks =
     [(1, 128), (0, 128), (0xFC00 * 2 ^ 112, 7), (0xFE80 * 2 ^ 112, 10)] @
     map (\<lambda>(base, len). (0xFFFF * 2 ^ 32 + base, 96 + len)) internal_v4_blocks"

fun internal_address :: "ip_addr \<Rightarrow> bool" where
  "internal_address (V4 a b c d) = list_ex (in_block 32 (address_number (V4 a b c d))) internal_v4_blocks"
| "internal_address (V6 s0 s1 s2 s3 s4 s5 s6 s7) =
     list_ex (in_block 128 (address_number (V6 s0 s1 s2 s3 s4 s5 s6 s7))) internal_v6_blocks"

lemma unat_8 [simp]: "unat (w :: 8 word) < 256"
  using unsigned_less [of w] by simp

lemma unat_16 [simp]: "unat (w :: 16 word) < 65536"
  using unsigned_less [of w] by simp

lemma v4_digits:
  assumes "b < 256" "c < 256" "d < (256 :: nat)"
  shows "(a * 2 ^ 24 + b * 2 ^ 16 + c * 2 ^ 8 + d) div 2 ^ 24 = a" "(a * 2 ^ 24 + b * 2 ^ 16 + c * 2 ^ 8 + d) div 2 ^ 16 = a * 256 + b"
    "(a * 2 ^ 24 + b * 2 ^ 16 + c * 2 ^ 8 + d) div 2 ^ 20 = a * 16 + b div 16"
proof -
  have "(a * 2 ^ 24 + b * 2 ^ 16 + c * 2 ^ 8 + d) div 2 ^ 8 = a * 65536 + b * 256 + c"
    using assms by simp
  then have "(a * 2 ^ 24 + b * 2 ^ 16 + c * 2 ^ 8 + d) div 2 ^ 8 div 2 ^ 8 = a * 256 + b"
    using assms by simp
  then show 16: "(a * 2 ^ 24 + b * 2 ^ 16 + c * 2 ^ 8 + d) div 2 ^ 16 = a * 256 + b"
    by (simp flip: div_mult2_eq)
  then have "(a * 2 ^ 24 + b * 2 ^ 16 + c * 2 ^ 8 + d) div 2 ^ 16 div 2 ^ 8 = a"
    using assms by simp
  then show "(a * 2 ^ 24 + b * 2 ^ 16 + c * 2 ^ 8 + d) div 2 ^ 24 = a"
    by (simp flip: div_mult2_eq)
  have "(a * 2 ^ 24 + b * 2 ^ 16 + c * 2 ^ 8 + d) div 2 ^ 16 div 2 ^ 4 = a * 16 + b div 16"
    unfolding 16 by simp
  then show "(a * 2 ^ 24 + b * 2 ^ 16 + c * 2 ^ 8 + d) div 2 ^ 20 = a * 16 + b div 16"
    by (simp flip: div_mult2_eq)
qed

lemma check_ipv4_ok: "check_ipv4 a b c d = Inr () \<longleftrightarrow> \<not> internal_address (V4 a b c d)"
proof -
  note digits = v4_digits [of "unat b" "unat c" "unat d" "unat a"]
  have eq: "x = y \<longleftrightarrow> unat x = unat y" for x y :: "8 word"
    by (simp add: word_unat_eq_iff)
  have split: "q < 16 \<Longrightarrow> k * 16 + q = 172 * 16 + 1 \<longleftrightarrow> k = 172 \<and> q = 1" for k q :: nat
    by arith
  have "unat b div 16 < 16"
    using unat_8 [of b] by linarith
  note split [OF this, of "unat a"]
  moreover have "unat b div 16 = 1 \<longleftrightarrow> 16 \<le> unat b \<and> unat b \<le> 31"
    by linarith
  moreover have "k * 256 + q = 192 * 256 + 168 \<longleftrightarrow> k = 192 \<and> q = 168" "k * 256 + q = 169 * 256 + 254 \<longleftrightarrow> k = 169 \<and> q = 254"
    if "q < 256" for k q :: nat
    using that by arith+
  note this [OF unat_8 [of b], of "unat a"]
  ultimately show ?thesis
    using digits
    by (auto simp: check_ipv4_def v4_is_loopback_def v4_is_private_def v4_is_link_local_def internal_v4_blocks_def in_block_def
        eq word_le_nat_alt)
qed

subsection \<open>Segments and masks\<close>

lemma word16_bits: "n < LENGTH(16) \<Longrightarrow> n \<in> {0, 1, 2, 3, 4, 5, 6, 7, 8, 9, 10, 11, 12, 13, 14, 15}"
  by simp arith

lemma mask_block:
  "w AND 0xFE00 = push_bit 9 (drop_bit 9 (w :: 16 word))" "w AND 0xFFC0 = push_bit 6 (drop_bit 6 (w :: 16 word))"
  by (rule bit_word_eqI, drule word16_bits, auto simp: bit_simps bit_numeral_rec)+

lemma unat_block:
  "unat (push_bit k (drop_bit k (w :: 16 word))) = unat w div 2 ^ k * 2 ^ k"
proof -
  have w: "take_bit 16 (unat w) = unat w"
    by (rule take_bit_nat_eq_self) simp
  have "unat w div 2 ^ k * 2 ^ k \<le> unat w"
    by simp
  also have "unat w < 65536"
    by simp
  finally have "take_bit 16 (unat w div 2 ^ k * 2 ^ k) = unat w div 2 ^ k * 2 ^ k"
    by (intro take_bit_nat_eq_self) simp
  then show ?thesis
    unfolding unsigned_push_bit_eq unsigned_drop_bit_eq by (simp add: push_bit_eq_mult drop_bit_eq_div w)
qed

lemma masks: "w AND 0xFE00 = 0xFC00 \<longleftrightarrow> unat (w :: 16 word) div 512 = 126" "w AND 0xFFC0 = 0xFE80 \<longleftrightarrow> unat (w :: 16 word) div 64 = 1018"
  using unat_block [of 9 w] unat_block [of 6 w] by (auto simp: mask_block word_unat_eq_iff)

lemma octets:
  "unat (ucast (drop_bit 8 (w :: 16 word)) :: 8 word) = unat w div 256" "unat (ucast (w :: 16 word) :: 8 word) = unat w mod 256"
proof -
  have "unat w div 256 < 256"
    using unat_16 [of w] by (simp add: less_mult_imp_div_less)
  then show "unat (ucast (drop_bit 8 (w :: 16 word)) :: 8 word) = unat w div 256"
    unfolding unsigned_ucast_eq unsigned_drop_bit_eq by (simp add: drop_bit_eq_div take_bit_nat_eq_self)
  show "unat (ucast (w :: 16 word) :: 8 word) = unat w mod 256"
    unfolding unsigned_ucast_eq by (simp add: take_bit_eq_mod)
qed

lemma segments_bound: "segments_number ss < 2 ^ (16 * length ss)"
proof (induction ss)
  case (Cons s ss)
  have "unat s + 1 \<le> 2 ^ 16"
    using unsigned_less [of s] by (simp only: Suc_eq_plus1 [symmetric] Suc_le_eq) simp
  then have le: "(unat s + 1) * 2 ^ (16 * length ss) \<le> 2 ^ 16 * 2 ^ (16 * length ss)"
    by (rule mult_le_mono1)
  have "segments_number (s # ss) < (unat s + 1) * 2 ^ (16 * length ss)"
    using Cons by simp
  also note le
  also have "2 ^ 16 * 2 ^ (16 * length ss) = (2 :: nat) ^ (16 * length (s # ss))"
    by (simp only: length_Cons mult_Suc_right power_add)
  finally show ?case .
qed simp

lemma segments_append: "segments_number (xs @ ys) = segments_number xs * 2 ^ (16 * length ys) + segments_number ys"
  by (induction xs) (simp_all add: algebra_simps power_add)

lemma digit_unique:
  assumes "a * m + r = b * m + s" and "r < m" and "s < (m :: nat)"
  shows "a = b" "r = s"
proof -
  have "(a * m + r) div m = a" "(b * m + s) div m = b"
    using assms(2,3) by simp_all
  then show "a = b"
    using assms(1) by simp
  then show "r = s"
    using assms(1) by simp
qed

lemma segments_inject: "length xs = length ys \<Longrightarrow> segments_number xs = segments_number ys \<longleftrightarrow> xs = ys"
proof (induction xs ys rule: list_induct2)
  case (Cons x xs y ys)
  show ?case
  proof
    assume eq: "segments_number (x # xs) = segments_number (y # ys)"
    then have "unat x * 2 ^ (16 * length xs) + segments_number xs = unat y * 2 ^ (16 * length xs) + segments_number ys"
      using Cons.hyps by simp
    from digit_unique [OF this segments_bound] have "unat x = unat y" "segments_number xs = segments_number ys"
      using segments_bound [of ys] Cons.hyps by simp_all
    then show "x # xs = y # ys"
      using Cons.IH by (simp add: word_unat_eq_iff)
  qed simp
qed simp

text \<open>A block under the mapped prefix is the prefix and a block of the embedded address.\<close>

lemma mapped_block:
  assumes lo: "lo < 2 ^ 32" "base < 2 ^ 32" and len: "len \<le> 32"
  shows "in_block 128 (hi * 2 ^ 32 + lo) (k * 2 ^ 32 + base, 96 + len) \<longleftrightarrow> hi = k \<and> in_block 32 lo (base, len)"
proof -
  have pow: "(2 :: nat) ^ 32 = 2 ^ len * 2 ^ (32 - len)"
    using len by (simp flip: power_add)
  have div: "(a * 2 ^ 32 + r) div 2 ^ (32 - len) = a * 2 ^ len + r div 2 ^ (32 - len)" for a r :: nat
    unfolding pow by (simp add: mult.assoc [symmetric])
  have "lo div 2 ^ (32 - len) < 2 ^ len" "base div 2 ^ (32 - len) < 2 ^ len"
    using lo unfolding pow by (simp_all add: less_mult_imp_div_less)
  then have "hi * 2 ^ len + lo div 2 ^ (32 - len) = k * 2 ^ len + base div 2 ^ (32 - len) \<longleftrightarrow>
      hi = k \<and> lo div 2 ^ (32 - len) = base div 2 ^ (32 - len)"
    using digit_unique [of hi "2 ^ len" "lo div 2 ^ (32 - len)" k "base div 2 ^ (32 - len)"] by auto
  moreover have "128 - (96 + len) = 32 - len"
    by simp
  ultimately show ?thesis
    by (simp only: in_block_def fst_conv snd_conv div)
qed

lemma v6_parts:
  fixes s0 s1 s2 s3 s4 s5 s6 s7 :: "16 word"
  defines "n \<equiv> segments_number [s0, s1, s2, s3, s4, s5, s6, s7]"
  shows "n div 2 ^ 112 = unat s0" "n = segments_number [s0, s1, s2, s3, s4, s5] * 2 ^ 32 + segments_number [s6, s7]"
    "segments_number [s6, s7] < 2 ^ 32"
proof -
  have "n = unat s0 * 2 ^ (16 * 7) + segments_number [s1, s2, s3, s4, s5, s6, s7]"
    by (simp add: n_def)
  moreover have "segments_number [s1, s2, s3, s4, s5, s6, s7] < 2 ^ (16 * 7)"
    using segments_bound [of "[s1, s2, s3, s4, s5, s6, s7]"] by (simp only: list.size) simp
  ultimately show "n div 2 ^ 112 = unat s0"
    by simp
  show "n = segments_number [s0, s1, s2, s3, s4, s5] * 2 ^ 32 + segments_number [s6, s7]"
    using segments_append [of "[s0, s1, s2, s3, s4, s5]" "[s6, s7]"] by (simp add: n_def)
  show "segments_number [s6, s7] < 2 ^ 32"
    using segments_bound [of "[s6, s7]"] by simp
qed

lemma mapped_number:
  "address_number (V4 (ucast (drop_bit 8 s6)) (ucast s6) (ucast (drop_bit 8 s7)) (ucast (s7 :: 16 word))) = segments_number [s6, s7]"
proof -
  have "x div 256 * 16777216 + x mod 256 * 65536 + y div 256 * 256 + y mod 256 = x * 65536 + y" for x y :: nat
    using div_mult_mod_eq [of x 256] div_mult_mod_eq [of y 256] by linarith
  then show ?thesis
    unfolding address_number.simps unfolding octets(1) unfolding octets(2) by simp
qed

lemma v4_blocks_bound: "\<forall>(base, len) \<in> set internal_v4_blocks. base < 2 ^ 32 \<and> len \<le> 32"
  by (simp add: internal_v4_blocks_def)

lemma internal_v6:
  "internal_address (V6 s0 s1 s2 s3 s4 s5 s6 s7) \<longleftrightarrow>
    [s0, s1, s2, s3, s4, s5, s6, s7] = [0, 0, 0, 0, 0, 0, 0, 1] \<or> [s0, s1, s2, s3, s4, s5, s6, s7] = [0, 0, 0, 0, 0, 0, 0, 0] \<or>
    unat s0 div 512 = 126 \<or> unat s0 div 64 = 1018 \<or>
    ([s0, s1, s2, s3, s4, s5] = [0, 0, 0, 0, 0, 0xFFFF] \<and> list_ex (in_block 32 (segments_number [s6, s7])) internal_v4_blocks)"
proof -
  define n where "n = segments_number [s0, s1, s2, s3, s4, s5, s6, s7]"
  note parts = v6_parts(1,2) [of s0 s1 s2 s3 s4 s5 s6 s7, folded n_def] v6_parts(3) [of s6 s7]
  have one: "in_block 128 n (1, 128) \<longleftrightarrow> [s0, s1, s2, s3, s4, s5, s6, s7] = [0, 0, 0, 0, 0, 0, 0, 1]"
    using segments_inject [of "[s0, s1, s2, s3, s4, s5, s6, s7]" "[0, 0, 0, 0, 0, 0, 0, 1]"] by (simp add: in_block_def n_def)
  have zero: "in_block 128 n (0, 128) \<longleftrightarrow> [s0, s1, s2, s3, s4, s5, s6, s7] = [0, 0, 0, 0, 0, 0, 0, 0]"
    using segments_inject [of "[s0, s1, s2, s3, s4, s5, s6, s7]" "[0, 0, 0, 0, 0, 0, 0, 0]"] by (simp add: in_block_def n_def)
  have "n div 2 ^ 121 = n div 2 ^ 112 div 2 ^ 9" "n div 2 ^ 118 = n div 2 ^ 112 div 2 ^ 6"
    by (simp_all flip: div_mult2_eq)
  then have local: "in_block 128 n (0xFC00 * 2 ^ 112, 7) \<longleftrightarrow> unat s0 div 512 = 126" "in_block 128 n (0xFE80 * 2 ^ 112, 10) \<longleftrightarrow> unat s0 div 64 = 1018"
    unfolding in_block_def parts(1) by simp_all
  have hi: "segments_number [s0, s1, s2, s3, s4, s5] = 0xFFFF \<longleftrightarrow> [s0, s1, s2, s3, s4, s5] = [0, 0, 0, 0, 0, 0xFFFF]"
    using segments_inject [of "[s0, s1, s2, s3, s4, s5]" "[0, 0, 0, 0, 0, 0xFFFF]"] by simp
  have mapped: "in_block 128 n (0xFFFF * 2 ^ 32 + base, 96 + len) \<longleftrightarrow>
      segments_number [s0, s1, s2, s3, s4, s5] = 0xFFFF \<and> in_block 32 (segments_number [s6, s7]) (base, len)"
    if "(base, len) \<in> set internal_v4_blocks" for base len
    unfolding parts(2) using that v4_blocks_bound by (intro mapped_block parts(3)) auto
  then have "list_ex (in_block 128 n) (map (\<lambda>(base, len). (0xFFFF * 2 ^ 32 + base, 96 + len)) internal_v4_blocks) \<longleftrightarrow>
      segments_number [s0, s1, s2, s3, s4, s5] = 0xFFFF \<and> list_ex (in_block 32 (segments_number [s6, s7])) internal_v4_blocks"
    unfolding list_ex_iff by fastforce
  then show ?thesis
    unfolding internal_address.simps address_number.simps internal_v6_blocks_def list_ex_append n_def [symmetric] hi
    using one zero local by simp
qed

lemma check_address_ok: "check_address ip = Inr () \<longleftrightarrow> \<not> internal_address ip"
proof (cases ip)
  case (V6 s0 s1 s2 s3 s4 s5 s6 s7)
  show ?thesis
  proof (cases "[s0, s1, s2, s3, s4, s5] = [0, 0, 0, 0, 0, 0xFFFF]")
    case True
    then show ?thesis
      using check_ipv4_ok [of "ucast (drop_bit 8 s6)" "ucast s6" "ucast (drop_bit 8 s7)" "ucast s7"] mapped_number [of s6 s7]
      unfolding V6 internal_v6 by (simp add: to_ipv4_mapped_def)
  next
    case False
    then have "to_ipv4_mapped [s0, s1, s2, s3, s4, s5, s6, s7] = None"
      by (simp add: to_ipv4_mapped_def)
    then show ?thesis
      using False unfolding V6 internal_v6 check_address.simps Let_def masks nth_Cons_0
      by (simp only: option.case sum.inject sum.distinct if_splits simp_thms split: if_splits) blast
  qed
qed (simp add: check_ipv4_ok)

subsection \<open>What the guard lets through\<close>

lemma check_all_ok: "check_all addrs = Inr () \<longleftrightarrow> (\<forall>ip \<in> set addrs. \<not> internal_address ip)"
proof (induction addrs)
  case (Cons ip addrs)
  then show ?case
    using check_address_ok [of ip] by (cases "check_address ip") auto
qed simp


text \<open>
  The host that the guard looks at is not always the host of the URL: in a URL with user information,
  what precedes the last colon of \<open>user:password@target\<close> is the user, so the guard resolves the user
  as if it were a host and never sees the target.
\<close>

lemma takeWhile_all: "\<forall>c \<in> set s. P c \<Longrightarrow> \<not> P d \<Longrightarrow> takeWhile P (s @ d # t) = s"
  by (simp add: takeWhile_append2)

lemma before_last_colon_append:
  assumes "CHR '':'' \<notin> set t"
  shows "before_last_colon (s @ CHR '':'' # t) = s"
proof -
  have "dropWhile (\<lambda>c. c \<noteq> CHR '':'') (rev t @ CHR '':'' # rev s) = CHR '':'' # rev s"
    using assms by (subst dropWhile_append2) auto
  then show ?thesis
    by (simp add: before_last_colon_def)
qed

lemma userinfo_hides_host:
  assumes user: "user \<noteq> []" "hd user \<noteq> CHR ''[''" and t: "CHR '':'' \<notin> set (password @ CHR ''@'' # target)"
    and part: "\<forall>c \<in> set (user @ password @ target). c \<notin> {CHR ''/'', CHR ''?'', CHR ''#''}"
  shows "parse_host (''http://'' @ user @ '':'' @ password @ ''@'' @ target @ ''/'' @ path) = Inr user"
proof -
  have "after_pattern ''://'' (''http://'' @ r) = Some r" for r
    by (simp add: strip_prefix_def)
  then have port: "host_port (''http://'' @ user @ '':'' @ password @ ''@'' @ target @ ''/'' @ path) = user @ CHR '':'' # password @ CHR ''@'' # target"
    using takeWhile_all [of "user @ CHR '':'' # password @ CHR ''@'' # target" "\<lambda>c. c \<notin> {CHR ''/'', CHR ''?'', CHR ''#''}" "CHR ''/''" path] part
    by (simp add: host_port_def del: after_pattern.simps)
  have "strip_prefix ''['' (user @ CHR '':'' # password @ CHR ''@'' # target) = None"
    using user by (cases user) (simp_all add: strip_prefix_def)
  then show ?thesis
    using user(1) t before_last_colon_append by (simp add: parse_host_def port del: append.simps(2))
qed

lemma ssrf_userinfo_bypass:
  assumes "resolver ''example.com'' = [V4 93 184 216 34]"
  shows "validate_url resolver ''http://example.com:80@127.0.0.1/admin'' = Inr ()"
proof -
  have host: "parse_host ''http://example.com:80@127.0.0.1/admin'' = Inr ''example.com''"
    using userinfo_hides_host [of "''example.com''" "''80''" "''127.0.0.1''" "''admin''"] by simp
  have "read_ipv4 ''example.com'' = None"
    by (simp add: read_ipv4_def read_octet_def read_separator_def read_number_def is_digit_in_def byte_in_def)
  moreover have "read_ipv6 ''example.com'' = None"
    by (simp add: read_ipv6_def read_groups.simps read_separator_def read_number_def is_digit_in_def byte_in_def strip_prefix_def
        digits_value_def digit_value_def read_ipv4_def read_octet_def)
  ultimately have "parse_ip ''example.com'' = None"
    by (simp add: parse_ip_def)
  then show ?thesis
    using host assms by (simp add: validate_url_def check_ipv4_def v4_is_loopback_def v4_is_private_def v4_is_link_local_def)
qed

lemmas parser_defs = parse_ip_def read_ipv4_def read_ipv6_def read_groups.simps read_octet_def read_separator_def read_number_def is_digit_in_def
  byte_in_def strip_prefix_def digits_value_def digit_value_def join_octets_def

lemma v4_literal: "parse_ip ''127.0.0.1'' = Some (V4 127 0 0 1)" "parse_ip ''010.0.0.1'' = None"
  by (simp_all add: parser_defs)

lemma v6_literal: "parse_ip ''::1'' = Some (V6 0 0 0 0 0 0 0 1)"
  by (simp add: parser_defs) (simp add: eval_nat_numeral)

lemma mapped_literal: "parse_ip ''::ffff:10.0.0.5'' = Some (V6 0 0 0 0 0 0xFFFF 0x0A00 5)"
  by (simp add: parser_defs) (simp add: eval_nat_numeral)

text \<open>A parsed IPv6 address always has its eight segments.\<close>

lemma read_groups_length: "length (fst (read_groups limit i s)) \<le> limit - i"
proof (induction limit i s rule: read_groups.induct)
  case (1 limit i s)
  let ?v4 = "if i + 1 < limit then read_separator CHR '':'' i read_ipv4 s else None"
  let ?g = "read_separator CHR '':'' i (read_number 16 4 65535 True) s"
  consider (full) "limit \<le> i" | (embedded) a b c d rest where "\<not> limit \<le> i" "?v4 = Some ((a, b, c, d), rest)"
    | (stop) "\<not> limit \<le> i" "?v4 = None" "?g = None" | (group) g rest where "\<not> limit \<le> i" "?v4 = None" "?g = Some (g, rest)"
    by (metis not_None_eq surj_pair)
  then show ?case
  proof cases
    case embedded
    then have "i + 1 < limit"
      by (metis option.distinct(1))
    then show ?thesis
      using embedded by (subst read_groups.simps) simp
  next
    case group
    obtain gs v4 r where gs: "read_groups limit (i + 1) rest = (gs, v4, r)"
      by (metis prod_cases3)
    have "length gs \<le> limit - (i + 1)"
      using 1 [OF group(1,2,3) refl] gs by simp
    then show ?thesis
      using group gs by (subst read_groups.simps) (simp del: One_nat_def)
  qed (subst read_groups.simps, simp)+
qed

lemma read_ipv6_length:
  assumes "read_ipv6 s = Some (segments, rest)"
  shows "length segments = 8"
proof -
  obtain head v4 r where h: "read_groups 8 0 s = (head, v4, r)"
    by (metis prod_cases3)
  have len: "length head \<le> 8"
    using read_groups_length [of 8 0 s] h by simp
  show ?thesis
  proof (cases "length head = 8")
    case False
    then obtain r' where r': "strip_prefix ''::'' r = Some r'"
      "(case read_groups (8 - (length head + 1)) 0 r' of (tail, _, rest) \<Rightarrow>
         Some (head @ replicate (8 - length head - length tail) 0 @ tail, rest)) = Some (segments, rest)"
      using assms by (auto simp: read_ipv6_def h bind_eq_Some_conv split: if_splits)
    obtain tail b r'' where t: "read_groups (8 - (length head + 1)) 0 r' = (tail, b, r'')"
      by (metis prod_cases3)
    have "length tail \<le> 8 - (length head + 1)"
      using read_groups_length [of "8 - (length head + 1)" 0 r'] t by simp
    then show ?thesis
      using r'(2) t len False by auto
  qed (use assms h in \<open>simp add: read_ipv6_def\<close>)
qed

end
