(* ===== verification/Gateway_Guards.thy ===== *)
theory Gateway_Guards
  imports Json
begin

unbundle bit_operations_syntax

text \<open>
  The browser gateway (\<open>crates/zaion-gateway/src\<close>): bearer authentication with its policy and roles
  (\<open>auth.rs\<close>), the CSRF check (\<open>csrf.rs\<close>), the fixed-window rate limiter (\<open>rate_limit.rs\<close>), the bounded
  audit log (\<open>audit.rs\<close>), the router that composes them (\<open>server.rs\<close>) and the sessions of the console
  (\<open>websocket.rs\<close>). A middleware is a function on services; a service takes a request, the time and the
  state; times are milliseconds of one clock. The handlers behind the routes and the framework's answer to other paths are parameters; CORS
  headers, sockets and TLS are left out.
\<close>

subsection \<open>Requests and services\<close>

datatype header_value = HeaderText string | HeaderBytes

record request =
  rq_method :: string
  rq_path :: string
  rq_headers :: "string \<Rightarrow> header_value option"

record response =
  rs_status :: nat
  rs_body :: string

fun header_str :: "header_value \<Rightarrow> string option" where
  "header_str (HeaderText s) = Some s"
| "header_str HeaderBytes = None"

definition header_text :: "request \<Rightarrow> string \<Rightarrow> string option" where
  "header_text req name = Option.bind (rq_headers req name) header_str"

text \<open>The JSON text of an error body.\<close>

definition error_body :: "string \<Rightarrow> string" where
  "error_body message = (let quote = (\<lambda>s. [CHR 0x22] @ s @ [CHR 0x22]) in ''{'' @ quote ''error'' @ '':'' @ quote message @ ''}'')"

definition is_mutating :: "string \<Rightarrow> bool" where
  "is_mutating m = List.member [''POST'', ''PUT'', ''PATCH'', ''DELETE''] m"

record window_state =
  wn_window_start :: nat
  wn_count :: "32 word"

record audit_entry =
  ae_method :: string
  ae_path :: string
  ae_status :: nat
  ae_at :: string

record 'a gateway_state =
  gw_window :: window_state
  gw_audit :: "audit_entry list"
  gw_app :: 'a

type_synonym 'a service = "request \<Rightarrow> nat \<Rightarrow> 'a gateway_state \<Rightarrow> response \<times> 'a gateway_state"

subsection \<open>Authentication\<close>

record bearer_auth =
  ba_token :: string

definition byte_word :: "char \<Rightarrow> 8 word" where
  "byte_word c = of_nat (of_char c)"

definition constant_time_eq :: "string \<Rightarrow> string \<Rightarrow> bool" where
  "constant_time_eq a b =
     (if length a \<noteq> length b then False
      else foldl (\<lambda>diff (x, y). diff OR (byte_word x XOR byte_word y)) 0 (zip a b) = 0)"

definition extract_bearer :: "string option \<Rightarrow> bearer_auth option" where
  "extract_bearer authorization =
     Option.bind authorization (\<lambda>header.
     Option.bind (strip_prefix ''Bearer '' header) (\<lambda>rest.
     let token = trim rest in if token = [] then None else Some \<lparr>ba_token = token\<rparr>))"

datatype auth_decision = AuthAllowed | MissingToken | InvalidToken

datatype auth_role = RoleAdmin | RoleOperator

fun auth_role_str :: "auth_role \<Rightarrow> string" where
  "auth_role_str RoleAdmin = ''admin''"
| "auth_role_str RoleOperator = ''operator''"

record auth_policy =
  gp_bearer_token :: "string option"
  gp_allow_loopback_anonymous :: bool
  gp_roles :: "string \<Rightarrow> auth_role option"

definition new_auth_policy :: "string option \<Rightarrow> bool \<Rightarrow> auth_policy" where
  "new_auth_policy bearer_token allow_loopback_anonymous =
     \<lparr>gp_bearer_token = bearer_token, gp_allow_loopback_anonymous = allow_loopback_anonymous, gp_roles = (\<lambda>_. None)\<rparr>"

definition with_role :: "string \<Rightarrow> auth_role \<Rightarrow> auth_policy \<Rightarrow> auth_policy" where
  "with_role token role self = self\<lparr>gp_roles := (gp_roles self)(token \<mapsto> role)\<rparr>"

definition role_of :: "auth_policy \<Rightarrow> bearer_auth \<Rightarrow> auth_role option" where
  "role_of self auth = gp_roles self (ba_token auth)"

definition deny_by_default :: auth_policy where
  "deny_by_default = new_auth_policy None False"

definition gateway_authorize :: "auth_policy \<Rightarrow> bearer_auth option \<Rightarrow> auth_decision" where
  "gateway_authorize self auth =
     (case gp_bearer_token self of
        None \<Rightarrow> if gp_allow_loopback_anonymous self then AuthAllowed else MissingToken
      | Some expected \<Rightarrow>
          (case auth of
             None \<Rightarrow> MissingToken
           | Some given \<Rightarrow> if constant_time_eq expected (ba_token given) then AuthAllowed else InvalidToken))"

definition role_of_header :: "auth_policy \<Rightarrow> string option \<Rightarrow> auth_role option" where
  "role_of_header self authorization =
     Option.bind (extract_bearer authorization) (\<lambda>auth.
     if gateway_authorize self (Some auth) = AuthAllowed then role_of self auth else None)"

definition header_allowed :: "auth_policy \<Rightarrow> string option \<Rightarrow> bool" where
  "header_allowed self authorization = (gateway_authorize self (extract_bearer authorization) = AuthAllowed)"

definition auth_middleware :: "auth_policy \<Rightarrow> 'a service \<Rightarrow> 'a service" where
  "auth_middleware policy inner req now s =
     (let auth = extract_bearer (header_text req ''authorization'') in
      if gateway_authorize policy auth \<noteq> AuthAllowed
      then (\<lparr>rs_status = 401, rs_body = error_body ''missing or invalid gateway bearer token''\<rparr>, s)
      else inner req now s)"

subsection \<open>CSRF, rate limit and audit\<close>

definition csrf_middleware :: "'a service \<Rightarrow> 'a service" where
  "csrf_middleware inner req now s =
     (if is_mutating (rq_method req) \<and> rq_headers req ''authorization'' = None \<and> rq_headers req ''x-csrf-token'' = None
      then (\<lparr>rs_status = 403, rs_body = error_body ''CSRF protection: mutating request requires Authorization or X-CSRF-Token header''\<rparr>, s)
      else inner req now s)"

record rate_limiter =
  lm_max_requests :: "32 word"
  lm_window :: nat

definition new_rate_limiter :: "32 word \<Rightarrow> nat \<Rightarrow> rate_limiter" where
  "new_rate_limiter max_requests window = \<lparr>lm_max_requests = max max_requests 1, lm_window = window\<rparr>"

definition limiter_check :: "rate_limiter \<Rightarrow> nat \<Rightarrow> window_state \<Rightarrow> bool \<times> window_state" where
  "limiter_check self now st =
     (let st = (if now - wn_window_start st \<ge> lm_window self then \<lparr>wn_window_start = now, wn_count = 0\<rparr> else st)
      in if wn_count st < lm_max_requests self then (True, st\<lparr>wn_count := wn_count st + 1\<rparr>) else (False, st))"

definition rate_limit_middleware :: "rate_limiter \<Rightarrow> 'a service \<Rightarrow> 'a service" where
  "rate_limit_middleware limiter inner req now s =
     (case limiter_check limiter now (gw_window s) of (ok, window) \<Rightarrow>
        let s = s\<lparr>gw_window := window\<rparr>
        in if \<not> ok then (\<lparr>rs_status = 429, rs_body = error_body ''rate limit exceeded''\<rparr>, s) else inner req now s)"

definition audit_record :: "nat \<Rightarrow> audit_entry \<Rightarrow> audit_entry list \<Rightarrow> audit_entry list" where
  "audit_record capacity entry entries =
     (let entries = (if length entries \<ge> capacity then tl entries else entries) in entries @ [entry])"

definition audit_middleware :: "nat \<Rightarrow> 'a service \<Rightarrow> 'a service" where
  "audit_middleware capacity inner req now s =
     (case inner req now s of (res, s) \<Rightarrow>
        if is_mutating (rq_method req)
        then (res, s\<lparr>gw_audit := audit_record capacity
          \<lparr>ae_method = rq_method req, ae_path = rq_path req, ae_status = rs_status res, ae_at = show_nat now\<rparr> (gw_audit s)\<rparr>)
        else (res, s))"

subsection \<open>The server\<close>

record 'a gateway_handlers =
  gh_health :: "request \<Rightarrow> 'a \<Rightarrow> response \<times> 'a"
  gh_console :: "request \<Rightarrow> 'a \<Rightarrow> response \<times> 'a"
  gh_events :: "request \<Rightarrow> 'a \<Rightarrow> response \<times> 'a"
  gh_ws_upgrade :: "request \<Rightarrow> 'a \<Rightarrow> response \<times> 'a"
  gh_other :: "request \<Rightarrow> 'a \<Rightarrow> response \<times> 'a"

record gateway_server =
  sv_bearer_token :: "string option"
  sv_allow_loopback_anonymous :: bool
  sv_allowed_origins :: "string list"
  sv_rate_limit :: "rate_limiter option"
  sv_audit :: "nat option"

definition new_gateway_server :: "string option \<Rightarrow> bool \<Rightarrow> gateway_server" where
  "new_gateway_server bearer_token allow_loopback_anonymous =
     \<lparr>sv_bearer_token = bearer_token, sv_allow_loopback_anonymous = allow_loopback_anonymous, sv_allowed_origins = [],
      sv_rate_limit = None, sv_audit = None\<rparr>"

definition with_audit :: "nat \<Rightarrow> gateway_server \<Rightarrow> gateway_server" where
  "with_audit capacity self = self\<lparr>sv_audit := Some (max capacity 1)\<rparr>"

definition with_rate_limit :: "32 word \<Rightarrow> nat \<Rightarrow> gateway_server \<Rightarrow> gateway_server" where
  "with_rate_limit max_requests window self = self\<lparr>sv_rate_limit := Some (new_rate_limiter max_requests window)\<rparr>"

definition with_allowed_origins :: "string list \<Rightarrow> gateway_server \<Rightarrow> gateway_server" where
  "with_allowed_origins origins self = self\<lparr>sv_allowed_origins := origins\<rparr>"

definition server_auth_policy :: "gateway_server \<Rightarrow> auth_policy" where
  "server_auth_policy self = new_auth_policy (sv_bearer_token self) (sv_allow_loopback_anonymous self)"

definition on_app :: "(request \<Rightarrow> 'a \<Rightarrow> response \<times> 'a) \<Rightarrow> 'a service" where
  "on_app handler req now s = (case handler req (gw_app s) of (res, a) \<Rightarrow> (res, s\<lparr>gw_app := a\<rparr>))"

definition ws_authenticate :: "request \<Rightarrow> string \<Rightarrow> bool" where
  "ws_authenticate req expected =
     (if expected = [] then True
      else case extract_bearer (header_text req ''authorization'') of
        None \<Rightarrow> False
      | Some auth \<Rightarrow> constant_time_eq (ba_token auth) expected)"

definition ws_handler :: "string \<Rightarrow> 'a gateway_handlers \<Rightarrow> request \<Rightarrow> 'a \<Rightarrow> response \<times> 'a" where
  "ws_handler bearer_token H req a =
     (if \<not> ws_authenticate req bearer_token then (\<lparr>rs_status = 401, rs_body = []\<rparr>, a) else gh_ws_upgrade H req a)"

definition gateway_routes :: "gateway_server \<Rightarrow> 'a gateway_handlers \<Rightarrow> 'a service" where
  "gateway_routes self H req now s =
     (let token = (case sv_bearer_token self of None \<Rightarrow> [] | Some t \<Rightarrow> t);
          protect = auth_middleware (server_auth_policy self)
      in if rq_path req = ''/health'' then on_app (gh_health H) req now s
         else if rq_path req = ''/'' then protect (on_app (gh_console H)) req now s
         else if rq_path req = ''/events'' then protect (on_app (gh_events H)) req now s
         else if rq_path req = ''/ws'' then protect (on_app (ws_handler token H)) req now s
         else on_app (gh_other H) req now s)"

definition gateway_service :: "gateway_server \<Rightarrow> 'a gateway_handlers \<Rightarrow> 'a service" where
  "gateway_service self H =
     (let router = gateway_routes self H;
          router = (case sv_rate_limit self of None \<Rightarrow> router | Some limiter \<Rightarrow> rate_limit_middleware limiter router)
      in case sv_audit self of None \<Rightarrow> router | Some capacity \<Rightarrow> audit_middleware capacity router)"

subsection \<open>Console sessions\<close>

datatype ws_event_type = WsMessage | WsToolCall | WsStateChange | WsTokenUsage | WsError | WsProcessList | WsPong

record server_event =
  se_event_type :: ws_event_type
  se_process_id :: "string option"
  se_payload :: json
  se_ts :: int

datatype command_type = CmdSendMessage | CmdSwitchProcess | CmdPause | CmdResume | CmdPing

record client_command =
  cc_cmd_type :: command_type
  cc_payload :: json

record client_session =
  cl_active_process :: "string option"
  cl_paused :: bool

record console_state =
  cn_clients :: "(nat \<times> client_session) list"
  cn_next_id :: nat

definition new_console_state :: console_state where
  "new_console_state = \<lparr>cn_clients = [], cn_next_id = 1\<rparr>"

definition client_count :: "console_state \<Rightarrow> nat" where
  "client_count self = cn_next_id self - 1"

definition connect_client :: "console_state \<Rightarrow> nat \<times> console_state" where
  "connect_client self =
     (let client_id = cn_next_id self
      in (client_id, self\<lparr>cn_next_id := cn_next_id self + 1,
            cn_clients := (client_id, \<lparr>cl_active_process = None, cl_paused = False\<rparr>) # filter (\<lambda>c. fst c \<noteq> client_id) (cn_clients self)\<rparr>))"

definition disconnect_client :: "nat \<Rightarrow> console_state \<Rightarrow> console_state" where
  "disconnect_client client_id self = self\<lparr>cn_clients := filter (\<lambda>c. fst c \<noteq> client_id) (cn_clients self)\<rparr>"

text \<open>The forwarder: what of the broadcast reaches a client.\<close>

definition forwards :: "client_session \<Rightarrow> server_event \<Rightarrow> bool" where
  "forwards session event =
     (if cl_paused session then False
      else case cl_active_process session of
        None \<Rightarrow> True
      | Some pid \<Rightarrow> (case se_process_id event of None \<Rightarrow> True | Some epid \<Rightarrow> epid = pid))"

text \<open>A command of a client: its new session, what is sent to it and what is broadcast.\<close>

definition handle_client_command ::
  "(string \<Rightarrow> string + client_command) \<Rightarrow> int \<Rightarrow> string \<Rightarrow> client_session \<Rightarrow> client_session \<times> server_event list \<times> server_event list" where
  "handle_client_command parse now text session =
     (case parse text of
        Inl e \<Rightarrow>
          (session, [\<lparr>se_event_type = WsError, se_process_id = None, se_payload = JObj [(''error'', JStr (''bad command: '' @ e))], se_ts = now\<rparr>], [])
      | Inr cmd \<Rightarrow>
          (case cc_cmd_type cmd of
             CmdSendMessage \<Rightarrow>
               (session, [], [\<lparr>se_event_type = WsMessage, se_process_id = cl_active_process session, se_payload = cc_payload cmd, se_ts = now\<rparr>])
           | CmdSwitchProcess \<Rightarrow>
               (session\<lparr>cl_active_process := Option.bind (json_get ''process_id'' (cc_payload cmd)) as_str\<rparr>, [], [])
           | CmdPause \<Rightarrow> (session\<lparr>cl_paused := True\<rparr>, [], [])
           | CmdResume \<Rightarrow> (session\<lparr>cl_paused := False\<rparr>, [], [])
           | CmdPing \<Rightarrow>
               (session, [\<lparr>se_event_type = WsPong, se_process_id = None, se_payload = JObj [], se_ts = now\<rparr>], [])))"

end
