(* ===== verification/Gateway_Properties.thy ===== *)
theory Gateway_Properties
  imports Gateway_Guards
begin

unbundle bit_operations_syntax

text \<open>
  What the gateway promises: the comparison of tokens is equality, no request without the credential
  reaches a protected handler through any composition of the layers, the limiter admits at most twice
  its limit in any interval of the length of its window, and the audit log holds the latest mutating
  requests with their answers; with the limits of roles and of the client count.
\<close>

subsection \<open>Tokens\<close>

lemma xor_zero: "a XOR b = 0 \<longleftrightarrow> a = (b :: 'a :: len word)"
  by (metis xor.assoc xor_self_eq xor.left_neutral xor.right_neutral)

lemma byte_word_inject: "byte_word x = byte_word y \<longleftrightarrow> x = y"
proof
  assume eq: "byte_word x = byte_word y"
  have "unat (byte_word c) = of_char c" for c
    using nat_of_char_less_256 [of c] by (simp add: byte_word_def unat_of_nat take_bit_nat_eq_self)
  then have "of_char x = (of_char y :: nat)"
    using eq by metis
  then show "x = y"
    by simp
qed simp

lemma diff_zero:
  "foldl (\<lambda>diff (x, y). diff OR (byte_word x XOR byte_word y)) d ps = 0 \<longleftrightarrow> d = 0 \<and> (\<forall>(x, y) \<in> set ps. x = y)"
  by (induction ps arbitrary: d) (auto simp: or_eq_0_iff xor_zero byte_word_inject)

lemma constant_time_eq_iff: "constant_time_eq a b \<longleftrightarrow> a = b"
proof (cases "length a = length b")
  case True
  then have "(\<forall>(x, y) \<in> set (zip a b). x = y) \<longleftrightarrow> a = b"
    by (induction a b rule: list_induct2) auto
  then show ?thesis
    using True by (simp add: constant_time_eq_def diff_zero)
qed (auto simp: constant_time_eq_def)

text \<open>The header carries the token.\<close>

definition carries :: "string option \<Rightarrow> string \<Rightarrow> bool" where
  "carries authorization t \<longleftrightarrow> (\<exists>rest. authorization = Some (''Bearer '' @ rest) \<and> trim rest = t \<and> t \<noteq> [])"

lemma extract_bearer_Some: "extract_bearer authorization = Some a \<longleftrightarrow> carries authorization (ba_token a)"
  by (cases a) (auto simp: extract_bearer_def carries_def bind_eq_Some_conv strip_prefix_Some Let_def split: if_splits)

lemma authorize_allowed:
  "gateway_authorize p (extract_bearer h) = AuthAllowed \<longleftrightarrow>
     (case gp_bearer_token p of None \<Rightarrow> gp_allow_loopback_anonymous p | Some t \<Rightarrow> carries h t)"
proof (cases "extract_bearer h")
  case None
  then have "\<not> carries h t" for t
    using extract_bearer_Some [of h "\<lparr>ba_token = t\<rparr>"] by simp
  then show ?thesis
    using None by (simp add: gateway_authorize_def split: option.split)
next
  case (Some a)
  then have "carries h t \<longleftrightarrow> t = ba_token a" for t
    using extract_bearer_Some [of h a] by (auto simp: carries_def)
  then show ?thesis
    using Some by (simp add: gateway_authorize_def constant_time_eq_iff split: option.split)
qed

text \<open>With a configured token, a role registered for another token is never granted.\<close>

lemma role_only_for_bearer:
  assumes "gp_bearer_token p = Some t" and "role_of_header p h = Some role"
  shows "carries h t" and "gp_roles p t = Some role"
proof -
  obtain a where a: "extract_bearer h = Some a" "gateway_authorize p (extract_bearer h) = AuthAllowed" "role_of p a = Some role"
    using assms(2) by (auto simp: role_of_header_def bind_eq_Some_conv split: if_splits)
  then show "carries h t"
    using assms(1) a(2) unfolding authorize_allowed by simp
  moreover have "carries h (ba_token a)"
    using a(1) by (simp add: extract_bearer_Some)
  ultimately have "ba_token a = t"
    by (auto simp: carries_def)
  then show "gp_roles p t = Some role"
    using a(3) by (simp add: role_of_def)
qed

subsection \<open>Layers\<close>

text \<open>
  The contract of a middleware: a request is refused with one of its own codes and the application is
  not touched, or it is answered by the inner service from a state with the same application. Layers
  keep a service closed to a request: if the inner service only refuses it, so does the layer.
\<close>

definition closed_to :: "'a service \<Rightarrow> request \<Rightarrow> nat set \<Rightarrow> bool" where
  "closed_to service req codes \<longleftrightarrow>
     (\<forall>now s. rs_status (fst (service req now s)) \<in> codes \<and> gw_app (snd (service req now s)) = gw_app s)"

lemma closed_toD:
  assumes "closed_to service req codes" and "service req now s = (res, s')"
  shows "rs_status res \<in> codes" and "gw_app s' = gw_app s"
  using assms unfolding closed_to_def by (metis fst_conv, metis snd_conv)

locale service_layer =
  fixes layer :: "'a service \<Rightarrow> 'a service"
    and refusals :: "nat set"
  assumes answers: "layer inner req now s = (res, s') \<Longrightarrow>
    rs_status res \<in> refusals \<and> gw_app s' = gw_app s \<or>
    (\<exists>t u. gw_app t = gw_app s \<and> inner req now t = (res, u) \<and> gw_app s' = gw_app u)"
begin

lemma keeps_closed:
  assumes "closed_to inner req codes"
  shows "closed_to (layer inner) req (codes \<union> refusals)"
  unfolding closed_to_def
proof (intro allI)
  fix now s
  obtain res s' where out: "layer inner req now s = (res, s')"
    by (cases "layer inner req now s")
  from answers [OF out] have "rs_status res \<in> codes \<union> refusals \<and> gw_app s' = gw_app s"
    using closed_toD [OF assms] by fastforce
  then show "rs_status (fst (layer inner req now s)) \<in> codes \<union> refusals \<and> gw_app (snd (layer inner req now s)) = gw_app s"
    by (simp add: out)
qed

end

interpretation auth: service_layer "auth_middleware policy" "{401}" for policy
  by unfold_locales (auto simp: auth_middleware_def Let_def split: if_splits)

interpretation csrf: service_layer csrf_middleware "{403}"
  by unfold_locales (auto simp: csrf_middleware_def split: if_splits)

interpretation limit: service_layer "rate_limit_middleware limiter" "{429}" for limiter
proof
  fix inner :: "'b service" and req now s res s'
  assume out: "rate_limit_middleware limiter inner req now s = (res, s')"
  obtain ok window where "limiter_check limiter now (gw_window s) = (ok, window)"
    by (cases "limiter_check limiter now (gw_window s)")
  then have "\<not> ok \<and> rs_status res = 429 \<and> gw_app s' = gw_app s \<or> inner req now (s\<lparr>gw_window := window\<rparr>) = (res, s')"
    using out by (cases ok) (auto simp: rate_limit_middleware_def)
  moreover have "gw_app (s\<lparr>gw_window := window\<rparr>) = gw_app s"
    by simp
  ultimately show "rs_status res \<in> {429} \<and> gw_app s' = gw_app s \<or>
      (\<exists>t u. gw_app t = gw_app s \<and> inner req now t = (res, u) \<and> gw_app s' = gw_app u)"
    by blast
qed

interpretation audit: service_layer "audit_middleware capacity" "{}" for capacity
  by unfold_locales (auto simp: audit_middleware_def split: prod.splits if_splits)

subsection \<open>Protected routes\<close>

definition authorised :: "gateway_server \<Rightarrow> request \<Rightarrow> bool" where
  "authorised sv req \<longleftrightarrow>
     (case sv_bearer_token sv of
        None \<Rightarrow> sv_allow_loopback_anonymous sv
      | Some t \<Rightarrow> carries (header_text req ''authorization'') t)"

definition protected_path :: "string \<Rightarrow> bool" where
  "protected_path p = List.member [''/'', ''/events'', ''/ws''] p"

lemma routes_guarded:
  assumes "protected_path (rq_path req)" and "\<not> authorised sv req"
  shows "gateway_routes sv H req now s = (\<lparr>rs_status = 401, rs_body = error_body ''missing or invalid gateway bearer token''\<rparr>, s)"
proof -
  have "gateway_authorize (server_auth_policy sv) (extract_bearer (header_text req ''authorization'')) \<noteq> AuthAllowed"
    unfolding authorize_allowed using assms(2)
    by (cases "sv_bearer_token sv") (simp_all add: authorised_def server_auth_policy_def new_auth_policy_def)
  then show ?thesis
    using assms(1) by (auto simp: gateway_routes_def protected_path_def auth_middleware_def Let_def)
qed

lemma service_closed:
  assumes "closed_to routes req {401}"
  shows "closed_to (let router = (case sv_rate_limit sv of None \<Rightarrow> routes | Some limiter \<Rightarrow> rate_limit_middleware limiter routes)
    in case sv_audit sv of None \<Rightarrow> router | Some capacity \<Rightarrow> audit_middleware capacity router) req {401, 429}"
proof -
  have more: "closed_to f req D" if "closed_to f req C" "C \<subseteq> D" for f :: "'a service" and C D
    using that by (auto simp: closed_to_def)
  have limited: "closed_to (case sv_rate_limit sv of None \<Rightarrow> routes | Some limiter \<Rightarrow> rate_limit_middleware limiter routes) req {401, 429}"
  proof (cases "sv_rate_limit sv")
    case None
    then show ?thesis
      using more [OF assms, of "{401, 429}"] by simp
  next
    case (Some limiter)
    then show ?thesis
      using limit.keeps_closed [OF assms, of limiter] by (simp add: insert_commute)
  qed
  then show ?thesis
    using audit.keeps_closed [OF limited] by (simp add: Let_def split: option.split)
qed



subsection \<open>The rate limiter\<close>

fun limiter_run :: "rate_limiter \<Rightarrow> nat list \<Rightarrow> window_state \<Rightarrow> bool list \<times> window_state" where
  "limiter_run lm [] st = ([], st)"
| "limiter_run lm (t # ts) st =
     (case limiter_check lm t st of (ok, st) \<Rightarrow> case limiter_run lm ts st of (oks, st) \<Rightarrow> (ok # oks, st))"

definition admitted :: "rate_limiter \<Rightarrow> nat list \<Rightarrow> window_state \<Rightarrow> nat" where
  "admitted lm ts st = length (filter id (fst (limiter_run lm ts st)))"

lemma admitted_Cons:
  "admitted lm (t # ts) st =
     (case limiter_check lm t st of (ok, st) \<Rightarrow> (if ok then 1 else 0) + admitted lm ts st)"
  by (simp add: admitted_def split: prod.split)

lemma admitted_Nil [simp]: "admitted lm [] st = 0"
  by (simp add: admitted_def)

lemma unat_succ:
  assumes "w < (m :: 32 word)"
  shows "unat (w + 1) = unat w + 1"
proof -
  have "unat w < unat m"
    using assms by (simp add: word_less_nat_alt)
  moreover have "unat m < 2 ^ 32"
    using unsigned_less [of m] by simp
  ultimately show ?thesis
    by (simp add: unat_word_ariths)
qed

text \<open>While the window lasts, it admits what is left of the limit.\<close>

lemma admitted_in_window:
  "\<forall>t \<in> set ts. t - wn_window_start st < lm_window lm \<Longrightarrow>
     admitted lm ts st = min (length ts) (unat (lm_max_requests lm) - unat (wn_count st))"
proof (induction ts arbitrary: st)
  case (Cons t ts)
  show ?case
  proof (cases "wn_count st < lm_max_requests lm")
    case True
    have "admitted lm ts (st\<lparr>wn_count := wn_count st + 1\<rparr>) = min (length ts) (unat (lm_max_requests lm) - (unat (wn_count st) + 1))"
      using Cons.IH [of "st\<lparr>wn_count := wn_count st + 1\<rparr>"] Cons.prems unat_succ [OF True] by simp
    moreover have "unat (wn_count st) < unat (lm_max_requests lm)"
      using True by (simp add: word_less_nat_alt)
    ultimately show ?thesis
      using Cons.prems True by (auto simp: admitted_Cons limiter_check_def)
  next
    case False
    then have "unat (lm_max_requests lm) \<le> unat (wn_count st)"
      by (simp add: word_less_nat_alt)
    then show ?thesis
      using Cons False by (auto simp: admitted_Cons limiter_check_def)
  qed
qed simp

text \<open>A request that finds the window over opens a new one.\<close>

lemma admitted_reset:
  assumes "lm_window lm \<le> t - wn_window_start st" and "0 < lm_max_requests lm"
  shows "admitted lm (t # ts) st = 1 + admitted lm ts \<lparr>wn_window_start = t, wn_count = 1\<rparr>"
  using assms by (simp add: admitted_Cons limiter_check_def)

lemma admitted_append:
  "admitted lm (ts @ us) st = admitted lm ts st + admitted lm us (snd (limiter_run lm ts st))"
  by (induction ts arbitrary: st) (simp_all add: admitted_Cons split: prod.split)

lemma run_in_window:
  "\<forall>t \<in> set ts. t - wn_window_start st < lm_window lm \<Longrightarrow> wn_window_start (snd (limiter_run lm ts st)) = wn_window_start st"
proof (induction ts arbitrary: st)
  case (Cons t ts)
  obtain ok st' where check: "limiter_check lm t st = (ok, st')"
    by (cases "limiter_check lm t st")
  then have "wn_window_start st' = wn_window_start st"
    using Cons.prems by (auto simp: limiter_check_def Let_def split: if_splits)
  then show ?case
    using Cons.IH [of st'] Cons.prems check by (simp add: case_prod_beta)
qed simp

text \<open>A window that a request opens admits no more than the limit of what follows within its length.\<close>

lemma admitted_new_window:
  assumes "lm_window lm \<le> t - wn_window_start st" and "0 < lm_max_requests lm"
    and within: "\<forall>u \<in> set (t # us). a \<le> u \<and> u < a + lm_window lm"
  shows "admitted lm (t # us) st \<le> unat (lm_max_requests lm)"
proof -
  have us: "\<forall>u \<in> set us. u - t < lm_window lm"
  proof
    fix u assume "u \<in> set us"
    then have "u < a + lm_window lm" "a \<le> t" "t < a + lm_window lm"
      using within by simp_all
    then show "u - t < lm_window lm"
      by linarith
  qed
  have "unat (1 :: 32 word) = 1"
    by simp
  then have "admitted lm us \<lparr>wn_window_start = t, wn_count = 1\<rparr> \<le> unat (lm_max_requests lm) - 1"
    using admitted_in_window [of us "\<lparr>wn_window_start = t, wn_count = 1\<rparr>" lm] us by simp
  moreover have "0 < unat (lm_max_requests lm)"
    using assms(2) by (simp add: word_less_nat_alt)
  ultimately show ?thesis
    unfolding admitted_reset [OF assms(1,2)] by linarith
qed

text \<open>
  C30. The limiter keeps its limit: of requests that arrive within one window of the
  limiter it admits exactly as many as the limit leaves, and of requests that arrive within any
  interval as long as the window, wherever it lies, it admits at most twice the limit.
\<close>

theorem rate_limit_bound:
  assumes "\<forall>t \<in> set ts. a \<le> t \<and> t < a + lm_window lm" and "0 < lm_max_requests lm"
  shows "admitted lm ts st \<le> 2 * unat (lm_max_requests lm) \<and>
    ((\<forall>t \<in> set ts. t - wn_window_start st < lm_window lm) \<longrightarrow>
       admitted lm ts st = min (length ts) (unat (lm_max_requests lm) - unat (wn_count st)))"
proof -
  let ?in = "\<lambda>t. t - wn_window_start st < lm_window lm"
  let ?pre = "takeWhile ?in ts" and ?post = "dropWhile ?in ts"
  define st' where "st' = snd (limiter_run lm ?pre st)"
  have pre: "\<forall>t \<in> set ?pre. ?in t"
    by (auto dest: set_takeWhileD)
  have first: "admitted lm ?pre st \<le> unat (lm_max_requests lm)"
    using admitted_in_window [OF pre] by simp
  have second: "admitted lm ?post st' \<le> unat (lm_max_requests lm)"
  proof (cases ?post)
    case (Cons t us)
    have "lm_window lm \<le> t - wn_window_start st'"
      using Cons run_in_window [OF pre] by (auto simp: st'_def dropWhile_eq_Cons_conv)
    moreover have "\<forall>u \<in> set (t # us). a \<le> u \<and> u < a + lm_window lm"
      using assms(1) set_dropWhileD [of _ ?in ts] unfolding Cons by blast
    ultimately show ?thesis
      unfolding Cons using assms(2) by (intro admitted_new_window)
  next
    case Nil
    then show ?thesis
      unfolding Nil by simp
  qed
  have "admitted lm ts st = admitted lm ?pre st + admitted lm ?post st'"
    using admitted_append [of lm ?pre ?post st] by (simp add: st'_def)
  then show ?thesis
    using first second admitted_in_window [of ts st lm] by simp
qed

theorem rate_limit_bound_witness:
  "admitted (new_rate_limiter 2 1000) [900, 950, 1000, 1100, 1150, 1899] \<lparr>wn_window_start = 0, wn_count = 0\<rparr> \<le> 4"
proof -
  have lm: "lm_window (new_rate_limiter 2 1000) = 1000" "lm_max_requests (new_rate_limiter 2 1000) = 2"
    by (simp_all add: new_rate_limiter_def max_def word_le_nat_alt)
  then show ?thesis
    using rate_limit_bound [of "[900, 950, 1000, 1100, 1150, 1899]" 900 "new_rate_limiter 2 1000"] by simp
qed

subsection \<open>The audit log\<close>

text \<open>The log is the suffix, of the length of its capacity, of everything it was given to record.\<close>

definition last_entries :: "nat \<Rightarrow> 'a list \<Rightarrow> 'a list" where
  "last_entries n xs = drop (length xs - n) xs"

lemma audit_record_last:
  assumes "0 < capacity"
  shows "audit_record capacity e (last_entries capacity es) = last_entries capacity (es @ [e])"
proof (cases "length es < capacity")
  case False
  then show ?thesis
    using assms by (auto simp: audit_record_def last_entries_def Let_def tl_drop drop_Suc Suc_diff_le simp flip: drop_Suc)
qed (auto simp: audit_record_def last_entries_def)

lemma audit_log_is_recent:
  assumes "0 < capacity"
  shows "foldl (\<lambda>log e. audit_record capacity e log) [] es = last_entries capacity es"
proof (induction es rule: rev_induct)
  case (snoc e es)
  then show ?case
    using audit_record_last [OF assms] by simp
qed (simp add: last_entries_def)

subsection \<open>Console clients\<close>

text \<open>The count of the clients counts connections made, not clients connected.\<close>

lemma client_count_never_falls:
  "client_count (disconnect_client c s) = client_count s"
  by (simp add: client_count_def disconnect_client_def)

lemma client_count_after_leaving:
  "client_count (disconnect_client (fst (connect_client new_console_state)) (snd (connect_client new_console_state))) = 1
     \<and> cn_clients (disconnect_client (fst (connect_client new_console_state)) (snd (connect_client new_console_state))) = []"
  by (simp add: client_count_def disconnect_client_def connect_client_def new_console_state_def Let_def)

text \<open>A paused client receives nothing that is broadcast, and a client on a process nothing of another process.\<close>

lemma forwards_iff:
  "forwards session event \<longleftrightarrow> \<not> cl_paused session \<and>
     (\<forall>pid epid. cl_active_process session = Some pid \<and> se_process_id event = Some epid \<longrightarrow> epid = pid)"
  by (auto simp: forwards_def split: option.splits)

end
